(* ===== verification/Prelude.thy ===== *)
theory Prelude
  imports Main "HOL-Library.Word"
begin

text \<open>
  Shared vocabulary of the development: the C integer types as words, the shape of a C function
  that returns an error code (a state transformer with a sum as result), the reasoning rules for
  such functions (invariants, frames, postconditions), and byte buffers with little-endian access.

  A C function \<open>int f(.., T *out)\<close> that returns 0 on success and an error code otherwise is a
  \<open>prog\<close>: from a state it gives \<open>Inr out\<close> or \<open>Inl code\<close> and the state it leaves behind. Every
  \<open>fail_on\<close>, early return and \<open>goto err\<close> of the source is a branch of such a function, and the
  state after a failure is the state the code leaves, not the initial one.
\<close>

unbundle bit_operations_syntax

type_synonym u8 = "8 word"
type_synonym u16 = "16 word"
type_synonym u32 = "32 word"
type_synonym u64 = "64 word"

lemma snd_eqD: "m = (r, t) \<Longrightarrow> snd m = t"
  by simp

text \<open>Widening an integer and truncating it again.\<close>

lemma ucast_up_down:
  fixes w :: "'a::len word"
  shows "LENGTH('a) \<le> LENGTH('b::len) \<Longrightarrow> ucast (ucast w :: 'b word) = w"
  by (rule bit_word_eqI) (auto simp: bit_simps)

named_theorems prog_simps \<open>equations that execute programs on a given state\<close>
named_theorems keeps_intros \<open>rules for invariants of programs\<close>
named_theorems leaves_intros \<open>rules for frames of programs\<close>
named_theorems nonzero_intros \<open>rules for programs whose failures have a code other than 0\<close>

section \<open>Programs with error codes\<close>

type_synonym ('s, 'a) prog = "'s \<Rightarrow> (int + 'a) \<times> 's"

definition ok :: "'a \<Rightarrow> ('s, 'a) prog" where
  "ok a = (\<lambda>s. (Inr a, s))"

definition fail :: "int \<Rightarrow> ('s, 'a) prog" where
  "fail e = (\<lambda>s. (Inl e, s))"

text \<open>Sequencing with \<open>fail_on(ret, err, ..)\<close>: the first failure is returned.\<close>

definition bindE :: "('s, 'a) prog \<Rightarrow> ('a \<Rightarrow> ('s, 'b) prog) \<Rightarrow> ('s, 'b) prog" where
  "bindE m f = (\<lambda>s. case m s of (Inl e, t) \<Rightarrow> (Inl e, t) | (Inr a, t) \<Rightarrow> f a t)"

text \<open>\<open>fail_on_with_code(cond, err, ret, code, ..)\<close>.\<close>

definition fail_on :: "bool \<Rightarrow> int \<Rightarrow> ('s, unit) prog" where
  "fail_on c e = (if c then fail e else ok ())"

text \<open>\<open>fail_on_with_code(ret != 0, err, ret, code, ..)\<close> after a call: any failure becomes \<open>code\<close>.\<close>

definition or_code :: "('s, 'a) prog \<Rightarrow> int \<Rightarrow> ('s, 'a) prog" where
  "or_code m c = (\<lambda>s. case m s of (Inl e, t) \<Rightarrow> (Inl c, t) | (Inr a, t) \<Rightarrow> (Inr a, t))"

text \<open>A call whose result code the caller inspects itself.\<close>

definition attempt :: "('s, 'a) prog \<Rightarrow> ('s, int + 'a) prog" where
  "attempt m = (\<lambda>s. (Inr (fst (m s)), snd (m s)))"

definition gets :: "('s \<Rightarrow> 'a) \<Rightarrow> ('s, 'a) prog" where
  "gets f = (\<lambda>s. (Inr (f s), s))"

definition modify :: "('s \<Rightarrow> 's) \<Rightarrow> ('s, unit) prog" where
  "modify f = (\<lambda>s. (Inr (), f s))"

text \<open>A result code of the C kind: 0 is success and carries the out parameter.\<close>

definition ret_code :: "int \<Rightarrow> 'a \<Rightarrow> ('s, 'a) prog" where
  "ret_code c a = (if c = 0 then ok a else fail c)"

text \<open>The C view of a result: the integer the function returns.\<close>

definition code_of :: "int + 'a \<Rightarrow> int" where
  "code_of r = (case r of Inl e \<Rightarrow> e | Inr _ \<Rightarrow> 0)"

lemma code_of_simps [simp]:
  "code_of (Inl e) = e"
  "code_of (Inr a) = 0"
  by (simp_all add: code_of_def)

lemma ok_apply [prog_simps]: "ok a s = (Inr a, s)"
  by (simp add: ok_def)

lemma fail_apply [prog_simps]: "fail e s = (Inl e, s)"
  by (simp add: fail_def)

lemma gets_apply [prog_simps]: "gets f s = (Inr (f s), s)"
  by (simp add: gets_def)

lemma modify_apply [prog_simps]: "modify f s = (Inr (), f s)"
  by (simp add: modify_def)

lemma fail_on_apply [prog_simps]: "fail_on c e s = (if c then (Inl e, s) else (Inr (), s))"
  by (simp add: fail_on_def prog_simps)

lemma ret_code_apply [prog_simps]: "ret_code c a s = (if c = 0 then (Inr a, s) else (Inl c, s))"
  by (simp add: ret_code_def prog_simps)

lemma bindE_apply [prog_simps]:
  "bindE m f s = (case m s of (r, t) \<Rightarrow> (case r of Inl e \<Rightarrow> (Inl e, t) | Inr a \<Rightarrow> f a t))"
  by (auto simp: bindE_def split: prod.splits sum.splits)

lemma or_code_apply [prog_simps]:
  "or_code m c s = (case m s of (r, t) \<Rightarrow> (case r of Inl e \<Rightarrow> (Inl c, t) | Inr a \<Rightarrow> (Inr a, t)))"
  by (auto simp: or_code_def split: prod.splits sum.splits)

lemma attempt_apply [prog_simps]: "attempt m s = (case m s of (r, t) \<Rightarrow> (Inr r, t))"
  by (simp add: attempt_def split: prod.splits)

lemma bindE_ok [simp]: "bindE (ok a) f = f a"
  by (rule ext) (simp add: prog_simps)

lemma bindE_fail [simp]: "bindE (fail e) f = fail e"
  by (rule ext) (simp add: prog_simps)

lemma bindE_assoc: "bindE (bindE m f) g = bindE m (\<lambda>a. bindE (f a) g)"
  by (rule ext) (simp add: prog_simps split: prod.splits sum.splits)

text \<open>Inversion: a successful sequence is two successful steps.\<close>

lemma bindE_InrE:
  assumes "bindE m f s = (Inr b, t)"
  obtains a u where "m s = (Inr a, u)" and "f a u = (Inr b, t)"
  using assms by (auto simp: bindE_apply split: prod.splits sum.splits)

lemma bindE_InlE:
  assumes "bindE m f s = (Inl e, t)"
  obtains (first) "m s = (Inl e, t)"
    | (second) a u where "m s = (Inr a, u)" and "f a u = (Inl e, t)"
  using assms by (auto simp: bindE_apply split: prod.splits sum.splits)

section \<open>Invariants, frames and postconditions\<close>

text \<open>\<open>keeps I m\<close>: the program \<open>m\<close> re-establishes \<open>I\<close>, whether it succeeds or fails.\<close>

definition keeps :: "('s \<Rightarrow> bool) \<Rightarrow> ('s, 'a) prog \<Rightarrow> bool" where
  "keeps I m \<longleftrightarrow> (\<forall>s. I s \<longrightarrow> I (snd (m s)))"

text \<open>\<open>leaves f m\<close>: the program \<open>m\<close> does not change the part \<open>f\<close> of the state.\<close>

definition leaves :: "('s \<Rightarrow> 'b) \<Rightarrow> ('s, 'a) prog \<Rightarrow> bool" where
  "leaves f m \<longleftrightarrow> (\<forall>s. f (snd (m s)) = f s)"

lemma keepsI: "(\<And>s. I s \<Longrightarrow> I (snd (m s))) \<Longrightarrow> keeps I m"
  by (simp add: keeps_def)

lemma keepsD: "keeps I m \<Longrightarrow> I s \<Longrightarrow> m s = (r, t) \<Longrightarrow> I t"
  by (auto simp: keeps_def)

lemma keeps_snd: "keeps I m \<Longrightarrow> I s \<Longrightarrow> I (snd (m s))"
  by (simp add: keeps_def)

lemma leavesI: "(\<And>s. f (snd (m s)) = f s) \<Longrightarrow> leaves f m"
  by (simp add: leaves_def)

lemma leavesD: "leaves f m \<Longrightarrow> m s = (r, t) \<Longrightarrow> f t = f s"
  unfolding leaves_def by (metis snd_conv)

lemma leaves_snd: "leaves f m \<Longrightarrow> f (snd (m s)) = f s"
  by (simp add: leaves_def)

lemma leaves_keeps: "leaves f m \<Longrightarrow> keeps (\<lambda>s. Q (f s)) m"
  by (simp add: leaves_def keeps_def)

lemma keeps_ok [keeps_intros]: "keeps I (ok a)"
  by (simp add: keeps_def prog_simps)

lemma keeps_fail [keeps_intros]: "keeps I (fail e)"
  by (simp add: keeps_def prog_simps)

lemma keeps_gets [keeps_intros]: "keeps I (gets f)"
  by (simp add: keeps_def prog_simps)

lemma keeps_fail_on [keeps_intros]: "keeps I (fail_on c e)"
  by (simp add: keeps_def prog_simps)

lemma keeps_ret_code [keeps_intros]: "keeps I (ret_code c a)"
  by (simp add: keeps_def prog_simps)

lemma keeps_bindE [keeps_intros]:
  "keeps I m \<Longrightarrow> (\<And>a. keeps I (f a)) \<Longrightarrow> keeps I (bindE m f)"
  unfolding keeps_def bindE_apply by (fastforce split: prod.splits sum.splits dest: snd_eqD)

lemma keeps_or_code [keeps_intros]: "keeps I m \<Longrightarrow> keeps I (or_code m c)"
  unfolding keeps_def or_code_apply by (fastforce split: prod.splits sum.splits dest: snd_eqD)

lemma keeps_attempt [keeps_intros]: "keeps I m \<Longrightarrow> keeps I (attempt m)"
  by (simp add: keeps_def attempt_def)

lemma keeps_if [keeps_intros]:
  "(c \<Longrightarrow> keeps I m) \<Longrightarrow> (\<not> c \<Longrightarrow> keeps I n) \<Longrightarrow> keeps I (if c then m else n)"
  by simp

lemma keeps_case_sum [keeps_intros]:
  "(\<And>e. keeps I (f e)) \<Longrightarrow> (\<And>a. keeps I (g a)) \<Longrightarrow> keeps I (case r of Inl e \<Rightarrow> f e | Inr a \<Rightarrow> g a)"
  by (cases r) auto

lemma keeps_case_option [keeps_intros]:
  "keeps I m \<Longrightarrow> (\<And>a. keeps I (g a)) \<Longrightarrow> keeps I (case r of None \<Rightarrow> m | Some a \<Rightarrow> g a)"
  by (cases r) auto

lemma keeps_case_prod [keeps_intros]:
  "(\<And>a b. keeps I (f a b)) \<Longrightarrow> keeps I (case p of (a, b) \<Rightarrow> f a b)"
  by (cases p) auto

lemma keeps_let [keeps_intros]: "(\<And>x. keeps I (f x)) \<Longrightarrow> keeps I (let x = v in f x)"
  by simp

lemma leaves_ok [leaves_intros]: "leaves f (ok a)"
  by (simp add: leaves_def prog_simps)

lemma leaves_fail [leaves_intros]: "leaves f (fail e)"
  by (simp add: leaves_def prog_simps)

lemma leaves_gets [leaves_intros]: "leaves f (gets g)"
  by (simp add: leaves_def prog_simps)

lemma leaves_fail_on [leaves_intros]: "leaves f (fail_on c e)"
  by (simp add: leaves_def prog_simps)

lemma leaves_ret_code [leaves_intros]: "leaves f (ret_code c a)"
  by (simp add: leaves_def prog_simps)

lemma leaves_bindE [leaves_intros]:
  "leaves f m \<Longrightarrow> (\<And>a. leaves f (g a)) \<Longrightarrow> leaves f (bindE m g)"
  unfolding leaves_def bindE_apply by (fastforce split: prod.splits sum.splits dest: snd_eqD)

lemma leaves_or_code [leaves_intros]: "leaves f m \<Longrightarrow> leaves f (or_code m c)"
  unfolding leaves_def or_code_apply by (fastforce split: prod.splits sum.splits dest: snd_eqD)

lemma leaves_attempt [leaves_intros]: "leaves f m \<Longrightarrow> leaves f (attempt m)"
  by (simp add: leaves_def attempt_def)

lemma leaves_if [leaves_intros]:
  "(c \<Longrightarrow> leaves f m) \<Longrightarrow> (\<not> c \<Longrightarrow> leaves f n) \<Longrightarrow> leaves f (if c then m else n)"
  by simp

lemma leaves_case_sum [leaves_intros]:
  "(\<And>e. leaves f (g e)) \<Longrightarrow> (\<And>a. leaves f (h a)) \<Longrightarrow> leaves f (case r of Inl e \<Rightarrow> g e | Inr a \<Rightarrow> h a)"
  by (cases r) auto

lemma leaves_case_option [leaves_intros]:
  "leaves f m \<Longrightarrow> (\<And>a. leaves f (g a)) \<Longrightarrow> leaves f (case r of None \<Rightarrow> m | Some a \<Rightarrow> g a)"
  by (cases r) auto

lemma leaves_case_prod [leaves_intros]:
  "(\<And>a b. leaves f (g a b)) \<Longrightarrow> leaves f (case p of (a, b) \<Rightarrow> g a b)"
  by (cases p) auto

lemma leaves_let [leaves_intros]: "(\<And>x. leaves f (g x)) \<Longrightarrow> leaves f (let x = v in g x)"
  by simp

section \<open>Failures have a code\<close>

text \<open>\<open>nonzero m\<close>: a failure of \<open>m\<close> is visible to a caller that compares the result with 0.\<close>

definition nonzero :: "('s, 'a) prog \<Rightarrow> bool" where
  "nonzero m \<longleftrightarrow> (\<forall>s. fst (m s) \<noteq> Inl 0)"

lemma nonzeroD: "nonzero m \<Longrightarrow> m s = (Inl e, t) \<Longrightarrow> e \<noteq> 0"
  unfolding nonzero_def by (metis fst_conv)

lemma nonzero_ok [nonzero_intros]: "nonzero (ok a)"
  by (simp add: nonzero_def prog_simps)

lemma nonzero_fail [nonzero_intros]: "e \<noteq> 0 \<Longrightarrow> nonzero (fail e)"
  by (simp add: nonzero_def prog_simps)

lemma nonzero_gets [nonzero_intros]: "nonzero (gets f)"
  by (simp add: nonzero_def prog_simps)

lemma nonzero_modify [nonzero_intros]: "nonzero (modify f)"
  by (simp add: nonzero_def prog_simps)

lemma nonzero_fail_on [nonzero_intros]: "e \<noteq> 0 \<Longrightarrow> nonzero (fail_on c e)"
  by (simp add: nonzero_def prog_simps)

lemma nonzero_ret_code [nonzero_intros]: "nonzero (ret_code c a)"
  by (simp add: nonzero_def prog_simps)

lemma nonzero_attempt [nonzero_intros]: "nonzero (attempt m)"
  by (simp add: nonzero_def attempt_def)

lemma nonzero_bindE [nonzero_intros]: "nonzero m \<Longrightarrow> (\<And>a. nonzero (f a)) \<Longrightarrow> nonzero (bindE m f)"
  by (auto simp: nonzero_def bindE_apply split: prod.splits sum.splits) (metis fst_conv)+

lemma nonzero_attempt_case:
  assumes "nonzero m" and "\<And>e. e \<noteq> 0 \<Longrightarrow> nonzero (f e)" and "\<And>a. nonzero (g a)"
  shows "nonzero (bindE (attempt m) (\<lambda>r. case r of Inl e \<Rightarrow> f e | Inr a \<Rightarrow> g a))"
  unfolding nonzero_def
proof
  fix s
  obtain r t where m: "m s = (r, t)" by fastforce
  show "fst (bindE (attempt m) (\<lambda>r. case r of Inl e \<Rightarrow> f e | Inr a \<Rightarrow> g a) s) \<noteq> Inl 0"
  proof (cases r)
    case (Inl e)
    then have "e \<noteq> 0" using nonzeroD [OF assms(1), of s e t] m by simp
    then show ?thesis using assms(2) Inl m by (simp add: nonzero_def bindE_apply attempt_apply)
  next
    case (Inr a)
    then show ?thesis using assms(3) m by (simp add: nonzero_def bindE_apply attempt_apply)
  qed
qed

lemma nonzero_or_code [nonzero_intros]: "c \<noteq> 0 \<Longrightarrow> nonzero (or_code m c)"
  by (auto simp: nonzero_def or_code_apply split: prod.splits sum.splits)

lemma nonzero_if [nonzero_intros]:
  "(c \<Longrightarrow> nonzero m) \<Longrightarrow> (\<not> c \<Longrightarrow> nonzero n) \<Longrightarrow> nonzero (if c then m else n)"
  by simp

lemma nonzero_case_sum [nonzero_intros]:
  "(\<And>e. nonzero (f e)) \<Longrightarrow> (\<And>a. nonzero (g a)) \<Longrightarrow> nonzero (case r of Inl e \<Rightarrow> f e | Inr a \<Rightarrow> g a)"
  by (cases r) auto

lemma nonzero_case_option [nonzero_intros]:
  "nonzero m \<Longrightarrow> (\<And>a. nonzero (g a)) \<Longrightarrow> nonzero (case r of None \<Rightarrow> m | Some a \<Rightarrow> g a)"
  by (cases r) auto

lemma nonzero_case_prod [nonzero_intros]:
  "(\<And>a b. nonzero (f a b)) \<Longrightarrow> nonzero (case p of (a, b) \<Rightarrow> f a b)"
  by (cases p) auto

lemma nonzero_let [nonzero_intros]: "(\<And>x. nonzero (f x)) \<Longrightarrow> nonzero (let x = v in f x)"
  by simp

section \<open>Repetition\<close>

text \<open>The same call \<open>n\<close> times, stopping at the first failure, with the results in order.\<close>

fun times :: "nat \<Rightarrow> ('s, 'a) prog \<Rightarrow> ('s, 'a list) prog" where
  "times 0 m = ok []"
| "times (Suc n) m = bindE m (\<lambda>a. bindE (times n m) (\<lambda>as. ok (a # as)))"

section \<open>Bounded polling\<close>

text \<open>
  The shape of the waiting loops of the library: \<open>body\<close> looks once and says whether it is done,
  \<open>nap\<close> sleeps, and after a fixed number of rounds the loop gives up with \<open>tmo\<close>.
\<close>

locale bounded_poll =
  fixes loop :: "nat \<Rightarrow> 's \<Rightarrow> 'r \<times> 's"
    and body :: "'s \<Rightarrow> 'r option \<times> 's"
    and nap :: "'s \<Rightarrow> 's"
    and tmo :: 'r
  assumes loop_0: "loop 0 s = (tmo, s)"
    and loop_Suc: "loop (Suc n) s =
      (case body s of (Some r, t) \<Rightarrow> (r, t) | (None, t) \<Rightarrow> loop n (nap t))"
begin

definition round :: "'s \<Rightarrow> 's" where
  "round s = nap (snd (body s))"

text \<open>The loop gives up exactly when no round was the last one.\<close>

lemma gives_up:
  "\<forall>i < n. fst (body ((round ^^ i) s)) = None \<Longrightarrow> loop n s = (tmo, (round ^^ n) s)"
proof (induction n arbitrary: s)
  case 0
  then show ?case by (simp add: loop_0)
next
  case (Suc n)
  have "fst (body s) = None" using Suc.prems [rule_format, of 0] by simp
  then have "loop (Suc n) s = loop n (round s)"
    by (simp add: loop_Suc round_def case_prod_beta)
  moreover have "fst (body ((round ^^ i) (round s))) = None" if "i < n" for i
    using Suc.prems [rule_format, of "Suc i"] that by (simp add: funpow_swap1)
  ultimately show ?case using Suc.IH [of "round s"] by (simp add: funpow_swap1)
qed

lemma ends_at:
  "i < n \<Longrightarrow> \<forall>j < i. fst (body ((round ^^ j) s)) = None \<Longrightarrow>
    body ((round ^^ i) s) = (Some r, t) \<Longrightarrow> loop n s = (r, t)"
proof (induction i arbitrary: n s)
  case 0
  then show ?case by (cases n) (simp_all add: loop_Suc)
next
  case (Suc i)
  then obtain m where n: "n = Suc m" by (cases n) auto
  have "fst (body s) = None" using Suc.prems(2) [rule_format, of 0] by simp
  then have "loop n s = loop m (round s)"
    by (simp add: n loop_Suc round_def case_prod_beta)
  moreover have "\<forall>j < i. fst (body ((round ^^ j) (round s))) = None"
    using Suc.prems(2) by (metis Suc_less_eq comp_apply funpow_Suc_right)
  moreover have "body ((round ^^ i) (round s)) = (Some r, t)"
    using Suc.prems(3) by (simp add: funpow_swap1)
  ultimately show ?case using Suc.IH [of m "round s"] Suc.prems(1) n by simp
qed

lemma result:
  "loop n s = (r, t) \<Longrightarrow> r = tmo \<or> (\<exists>u. body u = (Some r, t))"
proof (induction n arbitrary: s)
  case (Suc n)
  then show ?case by (fastforce simp: loop_Suc split: prod.splits option.splits)
qed (simp add: loop_0)

text \<open>An invariant of the round is one of the loop, and the cost of the loop is that of its rounds.\<close>

lemma keeps_loop:
  assumes "\<And>s. I s \<Longrightarrow> I (snd (body s))" and "\<And>s. I s \<Longrightarrow> I (nap s)"
  shows "I s \<Longrightarrow> I (snd (loop n s))"
proof (induction n arbitrary: s)
  case (Suc n)
  then have "I (snd (body s))" using assms(1) by blast
  then show ?case using Suc.IH [of "nap (snd (body s))"] assms(2)
    by (simp add: loop_Suc case_prod_beta split: option.splits)
qed (simp add: loop_0)

lemma cost_loop:
  fixes cost :: "'s \<Rightarrow> nat"
  assumes "\<And>s. cost (snd (body s)) \<le> cost s + b" and "\<And>s. cost (nap s) \<le> cost s + c"
  shows "cost (snd (loop n s)) \<le> cost s + n * (b + c)"
proof (induction n arbitrary: s)
  case (Suc n)
  obtain r t where body: "body s = (r, t)" by fastforce
  then have t: "cost t \<le> cost s + b" using assms(1) [of s] by simp
  show ?case
  proof (cases r)
    case None
    then show ?thesis
      using body t assms(2) [of t] Suc.IH [of "nap t"] by (simp add: loop_Suc)
  next
    case (Some a)
    then show ?thesis using body t by (simp add: loop_Suc)
  qed
qed (simp add: loop_0)

end

section \<open>Byte buffers\<close>

text \<open>
  A C buffer of bytes is a function from offsets to bytes; reads and writes of wider integers are
  little-endian, as on the hosts the code supports.
\<close>

type_synonym bytes = "nat \<Rightarrow> u8"

definition zero_bytes :: bytes where
  "zero_bytes = (\<lambda>_. 0)"

definition get16 :: "bytes \<Rightarrow> nat \<Rightarrow> u16" where
  "get16 b i = ucast (b i) OR push_bit 8 (ucast (b (i + 1)))"

definition get32 :: "bytes \<Rightarrow> nat \<Rightarrow> u32" where
  "get32 b i = ucast (b i) OR push_bit 8 (ucast (b (i + 1)))
     OR push_bit 16 (ucast (b (i + 2))) OR push_bit 24 (ucast (b (i + 3)))"

definition get64 :: "bytes \<Rightarrow> nat \<Rightarrow> u64" where
  "get64 b i = ucast (get32 b i) OR push_bit 32 (ucast (get32 b (i + 4)))"

definition put32 :: "bytes \<Rightarrow> nat \<Rightarrow> u32 \<Rightarrow> bytes" where
  "put32 b i v = b(i := ucast v, i + 1 := ucast (drop_bit 8 v),
     i + 2 := ucast (drop_bit 16 v), i + 3 := ucast (drop_bit 24 v))"

definition put64 :: "bytes \<Rightarrow> nat \<Rightarrow> u64 \<Rightarrow> bytes" where
  "put64 b i v = put32 (put32 b i (ucast v)) (i + 4) (ucast (drop_bit 32 v))"

fun put_list :: "bytes \<Rightarrow> nat \<Rightarrow> u8 list \<Rightarrow> bytes" where
  "put_list b i [] = b"
| "put_list b i (x # xs) = put_list (b(i := x)) (Suc i) xs"

definition get_list :: "bytes \<Rightarrow> nat \<Rightarrow> nat \<Rightarrow> u8 list" where
  "get_list b i n = map b [i..<i + n]"

lemma bytes_of_u32:
  fixes v :: u32
  shows "(ucast (ucast v :: u8) :: u32) OR push_bit 8 (ucast (ucast (drop_bit 8 v) :: u8))
     OR push_bit 16 (ucast (ucast (drop_bit 16 v) :: u8))
     OR push_bit 24 (ucast (ucast (drop_bit 24 v) :: u8)) = v"
proof (rule bit_word_eqI)
  fix n assume "n < LENGTH(32)"
  then show "bit ((ucast (ucast v :: u8) :: u32) OR push_bit 8 (ucast (ucast (drop_bit 8 v) :: u8))
     OR push_bit 16 (ucast (ucast (drop_bit 16 v) :: u8))
     OR push_bit 24 (ucast (ucast (drop_bit 24 v) :: u8))) n = bit v n"
    by (cases "n < 8"; cases "n < 16"; cases "n < 24")
      (auto simp: bit_simps)
qed

lemma get32_put32_same [simp]: "get32 (put32 b i v) i = v"
  using bytes_of_u32 [of v] by (simp add: get32_def put32_def)

lemma get32_put32_other [simp]: "i + 4 \<le> j \<or> j + 4 \<le> i \<Longrightarrow> get32 (put32 b i v) j = get32 b j"
  by (auto simp: get32_def put32_def)

lemma put32_outside [simp]: "j < i \<or> i + 4 \<le> j \<Longrightarrow> put32 b i v j = b j"
  by (auto simp: put32_def)

lemma get64_put64_same [simp]: "get64 (put64 b i v) i = v"
proof -
  have "get64 (put64 b i v) i = (ucast (ucast v :: u32) :: u64) OR push_bit 32 (ucast (ucast (drop_bit 32 v) :: u32))"
    by (simp add: get64_def put64_def)
  also have "\<dots> = v"
    by (rule bit_word_eqI) (auto simp: bit_simps)
  finally show ?thesis .
qed

lemma put64_outside [simp]: "j < i \<or> i + 8 \<le> j \<Longrightarrow> put64 b i v j = b j"
  by (auto simp: put64_def)

lemma get32_put64_other [simp]: "j + 4 \<le> i \<or> i + 8 \<le> j \<Longrightarrow> get32 (put64 b i v) j = get32 b j"
  by (auto simp: get32_def)

lemma get64_put64_other [simp]: "j + 8 \<le> i \<or> i + 8 \<le> j \<Longrightarrow> get64 (put64 b i v) j = get64 b j"
  by (auto simp: get64_def)

lemma get_list_cong: "(\<And>j. i \<le> j \<Longrightarrow> j < i + n \<Longrightarrow> b j = c j) \<Longrightarrow> get_list b i n = get_list c i n"
  by (simp add: get_list_def)

lemma get32_bytes:
  "ucast (get32 b i) = b i" "ucast (drop_bit 8 (get32 b i)) = b (i + 1)"
  "ucast (drop_bit 16 (get32 b i)) = b (i + 2)" "ucast (drop_bit 24 (get32 b i)) = b (i + 3)"
  unfolding get32_def by (rule bit_word_eqI; auto simp: bit_simps dest: bit_imp_le_length)+

lemma get32_inject:
  assumes "get32 b i = get32 c i" and "i \<le> j" and "j < i + 4"
  shows "b j = c j"
proof -
  have "j = i \<or> j = i + 1 \<or> j = i + 2 \<or> j = i + 3" using assms(2,3) by linarith
  then show ?thesis using assms(1) get32_bytes [of b i] get32_bytes [of c i] by metis
qed

lemma get32_zero [simp]: "get32 zero_bytes i = 0"
  by (simp add: get32_def zero_bytes_def)

lemma put_list_outside: "j < i \<or> i + length xs \<le> j \<Longrightarrow> put_list b i xs j = b j"
  by (induction b i xs rule: put_list.induct) auto

lemma put_list_inside: "k < length xs \<Longrightarrow> put_list b i xs (i + k) = xs ! k"
proof (induction b i xs arbitrary: k rule: put_list.induct)
  case (2 b i x xs)
  show ?case
  proof (cases k)
    case 0
    then show ?thesis by (simp add: put_list_outside)
  next
    case (Suc m)
    with "2.prems" "2.IH" [of m] show ?thesis by (simp del: fun_upd_apply)
  qed
qed simp

lemma get_put_list: "get_list (put_list b i xs) i (length xs) = xs"
  by (rule nth_equalityI) (simp_all add: get_list_def put_list_inside)

lemma get32_put_list_other:
  "j + 4 \<le> i \<or> i + length xs \<le> j \<Longrightarrow> get32 (put_list b i xs) j = get32 b j"
  by (auto simp: get32_def put_list_outside)

end
