(* ===== verification/Fpga_Common.thy ===== *)
theory Fpga_Common
  imports Prelude
begin

text \<open>
  The common header \<open>sdk/userspace/include/hal/fpga_common.h\<close> (and the structures of
  \<open>fpga_mgmt.h\<close>): limits, PCI ids, command flags, error and status codes with their strings, the
  PCI resource map, the slot specification, the AFI ids and the two metrics structures with the
  decoding of their packed layout. C strings and character arrays are lists of bytes.
\<close>

section \<open>Limits and identifiers\<close>

abbreviation (input) FPGA_SLOT_MAX :: nat where "FPGA_SLOT_MAX \<equiv> 8"
abbreviation (input) AFI_ID_STR_MAX :: nat where "AFI_ID_STR_MAX \<equiv> 64"
abbreviation (input) FPGA_CACHED_AGFIS_MAX :: nat where "FPGA_CACHED_AGFIS_MAX \<equiv> 16"
abbreviation (input) FPGA_MBOX_VENDOR_ID :: u16 where "FPGA_MBOX_VENDOR_ID \<equiv> 0x1d0f"
abbreviation (input) F1_MBOX_DEVICE_ID :: u16 where "F1_MBOX_DEVICE_ID \<equiv> 0x1041"
abbreviation (input) F2_MBOX_DEVICE_ID :: u16 where "F2_MBOX_DEVICE_ID \<equiv> 0x9248"
abbreviation (input) FPGA_MBOX_RESOURCE_NUM :: int where "FPGA_MBOX_RESOURCE_NUM \<equiv> 0"
abbreviation (input) FPGA_MMCM_GROUP_MAX :: nat where "FPGA_MMCM_GROUP_MAX \<equiv> 3"
abbreviation (input) FPGA_MMCM_OUT_CLKS_MAX :: nat where "FPGA_MMCM_OUT_CLKS_MAX \<equiv> 7"
abbreviation (input) FPGA_APP_PF :: nat where "FPGA_APP_PF \<equiv> 0"
abbreviation (input) FPGA_MGMT_PF :: nat where "FPGA_MGMT_PF \<equiv> 1"
abbreviation (input) FPGA_PF_MAX :: nat where "FPGA_PF_MAX \<equiv> 2"
abbreviation (input) FPGA_BAR_PER_PF_MAX :: nat where "FPGA_BAR_PER_PF_MAX \<equiv> 5"

section \<open>Command flags\<close>

abbreviation (input) FPGA_CMD_GET_HW_METRICS :: u32 where "FPGA_CMD_GET_HW_METRICS \<equiv> 0x2"
abbreviation (input) FPGA_CMD_CLEAR_HW_METRICS :: u32 where "FPGA_CMD_CLEAR_HW_METRICS \<equiv> 0x4"
abbreviation (input) FPGA_CMD_FORCE_SHELL_RELOAD :: u32 where "FPGA_CMD_FORCE_SHELL_RELOAD \<equiv> 0x8"
abbreviation (input) FPGA_CMD_DRAM_DATA_RETENTION :: u32 where "FPGA_CMD_DRAM_DATA_RETENTION \<equiv> 0x10"
abbreviation (input) FPGA_CMD_EXTENDED_METRICS_SIZE :: u32 where "FPGA_CMD_EXTENDED_METRICS_SIZE \<equiv> 0x40"
abbreviation (input) FPGA_CMD_PREFETCH :: u32 where "FPGA_CMD_PREFETCH \<equiv> 0x80"
abbreviation (input) FPGA_CMD_CLEAR_AFI_CACHE :: u32 where "FPGA_CMD_CLEAR_AFI_CACHE \<equiv> 0x100"

definition FPGA_CMD_ALL_FLAGS :: u32 where
  "FPGA_CMD_ALL_FLAGS = FPGA_CMD_GET_HW_METRICS OR FPGA_CMD_CLEAR_HW_METRICS OR
     FPGA_CMD_FORCE_SHELL_RELOAD OR FPGA_CMD_DRAM_DATA_RETENTION OR
     FPGA_CMD_EXTENDED_METRICS_SIZE OR FPGA_CMD_PREFETCH OR FPGA_CMD_CLEAR_AFI_CACHE"

definition FPGA_CMD_UNSUPPORTED_FLAGS :: u32 where
  "FPGA_CMD_UNSUPPORTED_FLAGS = FPGA_CMD_FORCE_SHELL_RELOAD OR FPGA_CMD_DRAM_DATA_RETENTION OR
     FPGA_CMD_EXTENDED_METRICS_SIZE"

section \<open>Error and status codes\<close>

text \<open>Error codes of the library are positive; the standard errno values are returned negated.\<close>

abbreviation (input) EAGAIN :: int where "EAGAIN \<equiv> 11"
abbreviation (input) ENOMEM :: int where "ENOMEM \<equiv> 12"
abbreviation (input) EINVAL :: int where "EINVAL \<equiv> 22"
abbreviation (input) ENOENT :: int where "ENOENT \<equiv> 2"
abbreviation (input) ETIMEDOUT :: int where "ETIMEDOUT \<equiv> 110"

abbreviation (input) FPGA_ERR_OK :: int where "FPGA_ERR_OK \<equiv> 0"
abbreviation (input) FPGA_ERR_AFI_CMD_BUSY :: int where "FPGA_ERR_AFI_CMD_BUSY \<equiv> 3"
abbreviation (input) FPGA_ERR_AFI_ID_INVALID :: int where "FPGA_ERR_AFI_ID_INVALID \<equiv> 5"
abbreviation (input) FPGA_ERR_AFI_LOAD_TIMEOUT :: int where "FPGA_ERR_AFI_LOAD_TIMEOUT \<equiv> 6"
abbreviation (input) FPGA_ERR_AFI_CMD_API_VERSION_INVALID :: int where "FPGA_ERR_AFI_CMD_API_VERSION_INVALID \<equiv> 11"
abbreviation (input) FPGA_ERR_CL_ID_MISMATCH :: int where "FPGA_ERR_CL_ID_MISMATCH \<equiv> 12"
abbreviation (input) FPGA_ERR_CL_DDR_CALIB_FAILED :: int where "FPGA_ERR_CL_DDR_CALIB_FAILED \<equiv> 13"
abbreviation (input) FPGA_ERR_FAIL :: int where "FPGA_ERR_FAIL \<equiv> 14"
abbreviation (input) FPGA_ERR_SHELL_MISMATCH :: int where "FPGA_ERR_SHELL_MISMATCH \<equiv> 16"
abbreviation (input) FPGA_ERR_POWER_VIOLATION :: int where "FPGA_ERR_POWER_VIOLATION \<equiv> 17"
abbreviation (input) FPGA_ERR_DRAM_DATA_RETENTION_NOT_POSSIBLE :: int where "FPGA_ERR_DRAM_DATA_RETENTION_NOT_POSSIBLE \<equiv> 18"
abbreviation (input) FPGA_ERR_HARDWARE_BUSY :: int where "FPGA_ERR_HARDWARE_BUSY \<equiv> 19"
abbreviation (input) FPGA_ERR_PCI_MISSING :: int where "FPGA_ERR_PCI_MISSING \<equiv> 20"
abbreviation (input) FPGA_ERR_AFI_CMD_MALFORMED :: int where "FPGA_ERR_AFI_CMD_MALFORMED \<equiv> 21"
abbreviation (input) FPGA_ERR_DRAM_DATA_RETENTION_FAILED :: int where "FPGA_ERR_DRAM_DATA_RETENTION_FAILED \<equiv> 22"
abbreviation (input) FPGA_ERR_DRAM_DATA_RETENTION_SETUP_FAILED :: int where "FPGA_ERR_DRAM_DATA_RETENTION_SETUP_FAILED \<equiv> 23"
abbreviation (input) FPGA_ERR_SOFTWARE_PROBLEM :: int where "FPGA_ERR_SOFTWARE_PROBLEM \<equiv> 24"
abbreviation (input) FPGA_ERR_UNRESPONSIVE :: int where "FPGA_ERR_UNRESPONSIVE \<equiv> 25"
abbreviation (input) FPGA_ERR_RL_RELOAD_NEEDED_DROP_PCI_LINK :: int where "FPGA_ERR_RL_RELOAD_NEEDED_DROP_PCI_LINK \<equiv> 26"
abbreviation (input) FPGA_ERR_INCOMPATIBLE_AFI_CMD_FLAGS :: int where "FPGA_ERR_INCOMPATIBLE_AFI_CMD_FLAGS \<equiv> 27"
abbreviation (input) FPGA_ERR_INVALID_CLKGEN_INPUTS :: int where "FPGA_ERR_INVALID_CLKGEN_INPUTS \<equiv> 28"
abbreviation (input) FPGA_ERR_CLKGEN_NOT_FOUND :: int where "FPGA_ERR_CLKGEN_NOT_FOUND \<equiv> 29"

definition FPGA_ERR2STR :: "int \<Rightarrow> string" where
  "FPGA_ERR2STR error =
    (if error = FPGA_ERR_OK then ''ok'' else
    (if error = FPGA_ERR_AFI_CMD_BUSY then ''busy'' else
    (if error = FPGA_ERR_AFI_ID_INVALID then ''invalid-afi-id'' else
    (if error = FPGA_ERR_AFI_LOAD_TIMEOUT then ''afi-load-timeout'' else
    (if error = FPGA_ERR_AFI_CMD_API_VERSION_INVALID then ''invalid-afi-cmd-api-version'' else
    (if error = FPGA_ERR_CL_ID_MISMATCH then ''cl-id-mismatch'' else
    (if error = FPGA_ERR_CL_DDR_CALIB_FAILED then ''cl-ddr-calib-failed'' else
    (if error = FPGA_ERR_FAIL then ''unspecified-error'' else
    (if error = FPGA_ERR_SHELL_MISMATCH then ''shell-version-not-supported'' else
    (if error = FPGA_ERR_POWER_VIOLATION then ''afi-power-violation'' else
    (if error = FPGA_ERR_DRAM_DATA_RETENTION_NOT_POSSIBLE then ''dram-data-retention-not-possible'' else
    (if error = FPGA_ERR_DRAM_DATA_RETENTION_FAILED then ''dram-data-retention-failed'' else
    (if error = FPGA_ERR_DRAM_DATA_RETENTION_SETUP_FAILED then ''dram-data-retention-setup-failed'' else
    (if error = FPGA_ERR_PCI_MISSING then ''pci-device-missing'' else
    (if error = FPGA_ERR_SOFTWARE_PROBLEM then ''software-problem'' else
    (if error = FPGA_ERR_UNRESPONSIVE then ''unresponsive'' else
    (if error = FPGA_ERR_AFI_CMD_MALFORMED then ''afi-command-malformed'' else
    (if error = FPGA_ERR_HARDWARE_BUSY then ''hardware-busy'' else
    (if error = FPGA_ERR_RL_RELOAD_NEEDED_DROP_PCI_LINK then ''err-rl-reload-needed-drop-pci-link'' else
    (if error = FPGA_ERR_INCOMPATIBLE_AFI_CMD_FLAGS then ''err-incompatible-afi-cmd-flags'' else
    (if error = FPGA_ERR_INVALID_CLKGEN_INPUTS then ''invalid-clkgen-input'' else
    (if error = FPGA_ERR_CLKGEN_NOT_FOUND then ''clkgen-ip-not-found'' else
     ''internal-error''))))))))))))))))))))))"

abbreviation (input) FPGA_STATUS_LOADED :: int where "FPGA_STATUS_LOADED \<equiv> 0"
abbreviation (input) FPGA_STATUS_CLEARED :: int where "FPGA_STATUS_CLEARED \<equiv> 1"
abbreviation (input) FPGA_STATUS_BUSY :: int where "FPGA_STATUS_BUSY \<equiv> 2"
abbreviation (input) FPGA_STATUS_NOT_PROGRAMMED :: int where "FPGA_STATUS_NOT_PROGRAMMED \<equiv> 3"
abbreviation (input) FPGA_STATUS_CACHING_AFI :: int where "FPGA_STATUS_CACHING_AFI \<equiv> 4"
abbreviation (input) FPGA_STATUS_LOADING_RL :: int where "FPGA_STATUS_LOADING_RL \<equiv> 5"
abbreviation (input) FPGA_STATUS_LOAD_FAILED :: int where "FPGA_STATUS_LOAD_FAILED \<equiv> 7"
abbreviation (input) FPGA_STATUS_END :: int where "FPGA_STATUS_END \<equiv> 8"

definition FPGA_STATUS2STR :: "int \<Rightarrow> string" where
  "FPGA_STATUS2STR status =
    (if status = FPGA_STATUS_LOADED then ''loaded'' else
    (if status = FPGA_STATUS_CLEARED then ''cleared'' else
    (if status = FPGA_STATUS_BUSY then ''busy'' else
    (if status = FPGA_STATUS_NOT_PROGRAMMED then ''not-programmed'' else
    (if status = FPGA_STATUS_CACHING_AFI then ''afi-cache-in-progress'' else
    (if status = FPGA_STATUS_LOADING_RL then ''rl-reload-needed-drop-pci-link'' else
    (if status = FPGA_STATUS_LOAD_FAILED then ''load-failed'' else
     ''internal-error'')))))))"

section \<open>PCI resource map and slot specification\<close>

record fpga_pci_resource_map =
  vendor_id :: u16
  device_id :: u16
  subsystem_device_id :: u16
  subsystem_vendor_id :: u16
  domain :: u16
  bus :: u8
  dev :: u8
  func :: u8
  resource_burstable :: "bool list"
  resource_size :: "u64 list"

text \<open>\<open>memset(&map, 0, sizeof(map))\<close>.\<close>

definition zero_resource_map :: fpga_pci_resource_map where
  "zero_resource_map = \<lparr>vendor_id = 0, device_id = 0, subsystem_device_id = 0,
     subsystem_vendor_id = 0, domain = 0, bus = 0, dev = 0, func = 0,
     resource_burstable = replicate FPGA_BAR_PER_PF_MAX False,
     resource_size = replicate FPGA_BAR_PER_PF_MAX 0\<rparr>"

text \<open>\<open>struct fpga_slot_spec\<close>: the array \<open>map[FPGA_PF_MAX]\<close>.\<close>

type_synonym fpga_slot_spec = "fpga_pci_resource_map list"

definition zero_slot_spec :: fpga_slot_spec where
  "zero_slot_spec = replicate FPGA_PF_MAX zero_resource_map"

definition IS_F1 :: "fpga_pci_resource_map \<Rightarrow> bool" where
  "IS_F1 mbox_map = (device_id mbox_map = F1_MBOX_DEVICE_ID)"

definition IS_F2 :: "fpga_pci_resource_map \<Rightarrow> bool" where
  "IS_F2 mbox_map = (device_id mbox_map = F2_MBOX_DEVICE_ID)"

text \<open>\<open>(mbox_map->dev) - IS_F1(mbox_map)\<close>: both operands are promoted to \<open>int\<close>.\<close>

definition GET_DEV_NUM_FROM_FPGA_MBOX_MAP :: "fpga_pci_resource_map \<Rightarrow> int" where
  "GET_DEV_NUM_FROM_FPGA_MBOX_MAP mbox_map = uint (dev mbox_map) - (if IS_F1 mbox_map then 1 else 0)"

definition GET_FUNC_NUM_FROM_FPGA_MBOX_MAP :: "fpga_pci_resource_map \<Rightarrow> int" where
  "GET_FUNC_NUM_FROM_FPGA_MBOX_MAP mbox_map = (if IS_F1 mbox_map then uint (func mbox_map) else 0)"

section \<open>AFI ids\<close>

record afi_device_ids =
  ids_vendor_id :: u16
  ids_device_id :: u16
  ids_svid :: u16
  ids_ssid :: u16

record fpga_meta_ids =
  afi_id :: "u8 list"
  afi_device_ids :: afi_device_ids

text \<open>
  C strings. \<open>cstr\<close> is the string a character array holds: its bytes before the first NUL.
  \<open>strncpy\<close> copies at most \<open>n\<close> bytes of the string and fills the rest of the \<open>n\<close> bytes with NUL;
  two arrays are equal for \<open>strncmp\<close> over \<open>n\<close> bytes when their strings agree in them.
\<close>

definition cstr :: "u8 list \<Rightarrow> u8 list" where
  "cstr bs = takeWhile (\<lambda>b. b \<noteq> 0) bs"

definition strncpy :: "nat \<Rightarrow> u8 list \<Rightarrow> u8 list" where
  "strncpy n src = take n (cstr src @ replicate n 0)"

definition strncmp_eq :: "u8 list \<Rightarrow> u8 list \<Rightarrow> nat \<Rightarrow> bool" where
  "strncmp_eq a b n = (cstr (take n a) = cstr (take n b))"

text \<open>The bytes of a string literal.\<close>

definition bytes_of_string :: "string \<Rightarrow> u8 list" where
  "bytes_of_string s = map (\<lambda>c. of_nat (of_char c)) s"

section \<open>Metrics\<close>

record fpga_ddr_if_metrics_common =
  write_count :: u64
  read_count :: u64

definition decode_u64s :: "bytes \<Rightarrow> nat \<Rightarrow> nat \<Rightarrow> u64 list" where
  "decode_u64s b off n = map (\<lambda>i. get64 b (off + 8 * i)) [0..<n]"

definition decode_ddr_ifs :: "bytes \<Rightarrow> nat \<Rightarrow> nat \<Rightarrow> fpga_ddr_if_metrics_common list" where
  "decode_ddr_ifs b off n = map (\<lambda>i. \<lparr>write_count = get64 b (off + 16 * i),
     read_count = get64 b (off + 16 * i + 8)\<rparr>) [0..<n]"

text \<open>\<open>struct fpga_clocks_common\<close> holds \<open>FPGA_MMCM_OUT_CLKS_MAX\<close> frequencies.\<close>

definition decode_clocks :: "bytes \<Rightarrow> nat \<Rightarrow> nat \<Rightarrow> u64 list list" where
  "decode_clocks b off n = map (\<lambda>i. decode_u64s b (off + 56 * i) FPGA_MMCM_OUT_CLKS_MAX) [0..<n]"

record f2_metrics_common =
  f2_int_status :: u32
  f2_pcim_axi_protocol_error_status :: u32
  f2_pcim_range_error_addr :: u64
  f2_pcim_range_error_count :: u32
  f2_pcim_axi_protocol_error_addr :: u64
  f2_pcim_axi_protocol_error_count :: u32
  f2_pcim_write_count :: u64
  f2_pcim_read_count :: u64
  f2_dma_pcis_timeout_addr :: u64
  f2_dma_pcis_timeout_count :: u32
  f2_ocl_slave_timeout_addr :: u32
  f2_ocl_slave_timeout_count :: u32
  f2_sda_slave_timeout_addr :: u64
  f2_sda_slave_timeout_count :: u32
  f2_virtual_jtag_slave_timeout_addr :: u32
  f2_virtual_jtag_slave_timeout_count :: u32
  f2_virtual_jtag_write_count :: u32
  f2_virtual_jtag_read_count :: u32
  f2_ddr_ifs :: "fpga_ddr_if_metrics_common list"
  f2_clocks :: "u64 list list"
  f2_power_mean :: u64
  f2_power_max :: u64
  f2_power :: u64
  f2_cached_agfis :: "u64 list"
  f2_flags :: u64

record f1_metrics_common =
  f1_int_status :: u32
  f1_pcim_axi_protocol_error_status :: u32
  f1_dma_pcis_timeout_addr :: u64
  f1_dma_pcis_timeout_count :: u32
  f1_pcim_range_error_addr :: u64
  f1_pcim_range_error_count :: u32
  f1_pcim_axi_protocol_error_addr :: u64
  f1_pcim_axi_protocol_error_count :: u32
  f1_reserved2 :: "u8 list"
  f1_ocl_slave_timeout_addr :: u64
  f1_ocl_slave_timeout_count :: u32
  f1_bar1_slave_timeout_addr :: u64
  f1_bar1_slave_timeout_count :: u32
  f1_sdacl_slave_timeout_addr :: u32
  f1_sdacl_slave_timeout_count :: u32
  f1_virtual_jtag_slave_timeout_addr :: u32
  f1_virtual_jtag_slave_timeout_count :: u32
  f1_pcim_write_count :: u64
  f1_pcim_read_count :: u64
  f1_ddr_ifs :: "fpga_ddr_if_metrics_common list"
  f1_clocks :: "u64 list list"
  f1_power_mean :: u64
  f1_power_max :: u64
  f1_power :: u64
  f1_cached_agfis :: "u64 list"
  f1_flags :: u64

text \<open>The packed layout of the two structures.\<close>

definition decode_f2_metrics :: "bytes \<Rightarrow> nat \<Rightarrow> f2_metrics_common" where
  "decode_f2_metrics b off = \<lparr>
     f2_int_status = get32 b (off + 0),
     f2_pcim_axi_protocol_error_status = get32 b (off + 4),
     f2_pcim_range_error_addr = get64 b (off + 8),
     f2_pcim_range_error_count = get32 b (off + 16),
     f2_pcim_axi_protocol_error_addr = get64 b (off + 20),
     f2_pcim_axi_protocol_error_count = get32 b (off + 28),
     f2_pcim_write_count = get64 b (off + 32),
     f2_pcim_read_count = get64 b (off + 40),
     f2_dma_pcis_timeout_addr = get64 b (off + 48),
     f2_dma_pcis_timeout_count = get32 b (off + 56),
     f2_ocl_slave_timeout_addr = get32 b (off + 60),
     f2_ocl_slave_timeout_count = get32 b (off + 64),
     f2_sda_slave_timeout_addr = get64 b (off + 68),
     f2_sda_slave_timeout_count = get32 b (off + 76),
     f2_virtual_jtag_slave_timeout_addr = get32 b (off + 80),
     f2_virtual_jtag_slave_timeout_count = get32 b (off + 84),
     f2_virtual_jtag_write_count = get32 b (off + 88),
     f2_virtual_jtag_read_count = get32 b (off + 92),
     f2_ddr_ifs = decode_ddr_ifs b (off + 96) 1,
     f2_clocks = decode_clocks b (off + 112) FPGA_MMCM_GROUP_MAX,
     f2_power_mean = get64 b (off + 280),
     f2_power_max = get64 b (off + 288),
     f2_power = get64 b (off + 296),
     f2_cached_agfis = decode_u64s b (off + 304) FPGA_CACHED_AGFIS_MAX,
     f2_flags = get64 b (off + 432)\<rparr>"

definition decode_f1_metrics :: "bytes \<Rightarrow> nat \<Rightarrow> f1_metrics_common" where
  "decode_f1_metrics b off = \<lparr>
     f1_int_status = get32 b (off + 0),
     f1_pcim_axi_protocol_error_status = get32 b (off + 4),
     f1_dma_pcis_timeout_addr = get64 b (off + 8),
     f1_dma_pcis_timeout_count = get32 b (off + 16),
     f1_pcim_range_error_addr = get64 b (off + 20),
     f1_pcim_range_error_count = get32 b (off + 28),
     f1_pcim_axi_protocol_error_addr = get64 b (off + 32),
     f1_pcim_axi_protocol_error_count = get32 b (off + 40),
     f1_reserved2 = get_list b (off + 44) 12,
     f1_ocl_slave_timeout_addr = get64 b (off + 56),
     f1_ocl_slave_timeout_count = get32 b (off + 64),
     f1_bar1_slave_timeout_addr = get64 b (off + 68),
     f1_bar1_slave_timeout_count = get32 b (off + 76),
     f1_sdacl_slave_timeout_addr = get32 b (off + 80),
     f1_sdacl_slave_timeout_count = get32 b (off + 84),
     f1_virtual_jtag_slave_timeout_addr = get32 b (off + 88),
     f1_virtual_jtag_slave_timeout_count = get32 b (off + 92),
     f1_pcim_write_count = get64 b (off + 96),
     f1_pcim_read_count = get64 b (off + 104),
     f1_ddr_ifs = decode_ddr_ifs b (off + 112) 4,
     f1_clocks = decode_clocks b (off + 176) FPGA_MMCM_GROUP_MAX,
     f1_power_mean = get64 b (off + 344),
     f1_power_max = get64 b (off + 352),
     f1_power = get64 b (off + 360),
     f1_cached_agfis = decode_u64s b (off + 368) FPGA_CACHED_AGFIS_MAX,
     f1_flags = get64 b (off + 496)\<rparr>"

section \<open>Library structures\<close>

datatype fpga_metrics = F1_metrics f1_metrics_common | F2_metrics f2_metrics_common | No_metrics

record fpga_mgmt_image_info =
  info_status :: int
  info_status_q :: int
  info_slot_id :: int
  info_ids :: fpga_meta_ids
  info_spec :: fpga_slot_spec
  info_sh_version :: u32
  info_metrics :: fpga_metrics

definition zero_meta_ids :: fpga_meta_ids where
  "zero_meta_ids = \<lparr>afi_id = replicate AFI_ID_STR_MAX 0,
     afi_device_ids = \<lparr>ids_vendor_id = 0, ids_device_id = 0, ids_svid = 0, ids_ssid = 0\<rparr>\<rparr>"

text \<open>\<open>memset(&info, 0, sizeof(info))\<close>.\<close>

definition zero_image_info :: fpga_mgmt_image_info where
  "zero_image_info = \<lparr>info_status = 0, info_status_q = 0, info_slot_id = 0,
     info_ids = zero_meta_ids, info_spec = zero_slot_spec, info_sh_version = 0,
     info_metrics = No_metrics\<rparr>"

record load_local_image_options =
  opt_slot_id :: int
  opt_afi_id :: "u8 list"
  opt_flags :: u32
  opt_clock_mains :: "u32 list"

section \<open>Lemmas\<close>

lemma length_strncpy [simp]: "length (strncpy n src) = n"
  by (simp add: strncpy_def)

lemma cstr_strncpy: "length (cstr src) < n \<Longrightarrow> cstr (strncpy n src) = cstr src"
proof -
  assume l: "length (cstr src) < n"
  then have "strncpy n src = cstr src @ 0 # replicate (n - length (cstr src) - 1) 0"
    by (cases "n - length (cstr src)") (auto simp: strncpy_def take_replicate min_def)
  moreover have "\<forall>b \<in> set (cstr src). b \<noteq> 0"
    by (auto simp: cstr_def dest: set_takeWhileD)
  ultimately show ?thesis
    by (simp add: cstr_def takeWhile_append2)
qed

lemma strncmp_eq_refl [simp]: "strncmp_eq a a n"
  by (simp add: strncmp_eq_def)

lemma strncmp_eq_sym: "strncmp_eq a b n \<Longrightarrow> strncmp_eq b a n"
  by (simp add: strncmp_eq_def)

text \<open>Every error code has a string of its own: the strings identify the codes.\<close>

definition fpga_err_codes :: "int list" where
  "fpga_err_codes = [0, 3, 5, 6] @ [11..14] @ [16..29]"

lemma FPGA_ERR2STR_inj: "inj_on FPGA_ERR2STR (set fpga_err_codes)"
proof -
  have "distinct (map FPGA_ERR2STR fpga_err_codes)"
    by code_simp
  then show ?thesis by (simp add: distinct_map)
qed

lemma FPGA_ERR2STR_unknown:
  "e \<notin> set fpga_err_codes \<Longrightarrow> FPGA_ERR2STR e = ''internal-error''"
proof -
  have "set fpga_err_codes = {0, 3, 5, 6, 11, 12, 13, 14, 16, 17, 18, 19, 20, 21, 22, 23, 24,
      25, 26, 27, 28, 29}"
    by (auto simp: fpga_err_codes_def upto.simps)
  then show "e \<notin> set fpga_err_codes \<Longrightarrow> ?thesis"
    by (simp add: FPGA_ERR2STR_def)
qed

end
