(* ===== verification/Platform.thy ===== *)
theory Platform
  imports Fpga_Common
begin

text \<open>
  The boundary of the library: what the C code asks of the kernel, of the C library and of the
  mapped device memory. All of it is a parameter, a record of functions over an abstract state
  \<open>'h\<close> of kernel and hardware that the code threads through its calls; a device may change state on
  every read, write and sleep. The library's own globals are records: \<open>pci_st\<close> holds the table of
  mapped BARs (\<open>bars\<close> of \<open>fpga_pci.c\<close>) and the platform state, and the state of every component above
  extends it. Also here: \<open>msleep\<close> of \<open>utils/lcd.h\<close>, \<open>write_loop\<close> of \<open>utils/io.c\<close> and the formatted
  printing and scanning of the C library that the sysfs code uses.
\<close>

section \<open>Kernel, C library and device memory\<close>

text \<open>
  \<open>fopen(path, "r")\<close> followed by \<open>fscanf(fp, "%x", &id)\<close>: the open fails with an errno, the file is
  at its end, its text is no number (the variable keeps its indeterminate value), or a number is read.
\<close>

datatype scan_result = Open_error int | Scan_eof | Scan_no_match | Scan_value u32

datatype open_mode = O_WRONLY | O_RDWR_SYNC

text \<open>
  \<open>k_write\<close> is one \<open>write(2)\<close> that is restarted while a signal interrupts it, as the inner loop of
  \<open>write_loop\<close> does: the number of bytes written, or a negative value. \<open>c_indet\<close> is the value an
  uninitialised variable happens to hold. \<open>m_load\<close> and \<open>m_store\<close> access mapped memory at an address.
\<close>

record 'h platform =
  k_scan_hex :: "'h \<Rightarrow> string \<Rightarrow> scan_result"
  k_stat :: "'h \<Rightarrow> string \<Rightarrow> u64 option"
  k_readdir :: "'h \<Rightarrow> string \<Rightarrow> string list option"
  k_open :: "'h \<Rightarrow> string \<Rightarrow> open_mode \<Rightarrow> bool"
  k_write :: "'h \<Rightarrow> string \<Rightarrow> u8 list \<Rightarrow> int \<times> 'h"
  k_mmap :: "'h \<Rightarrow> string \<Rightarrow> u64 \<Rightarrow> u64 option \<times> 'h"
  k_munmap :: "'h \<Rightarrow> u64 \<Rightarrow> u64 \<Rightarrow> bool \<times> 'h"
  k_nanosleep :: "u64 \<Rightarrow> 'h \<Rightarrow> 'h"
  c_rand :: "'h \<Rightarrow> u32 \<times> 'h"
  c_indet :: "'h \<Rightarrow> u32"
  m_load8 :: "'h \<Rightarrow> u64 \<Rightarrow> u8 \<times> 'h"
  m_load32 :: "'h \<Rightarrow> u64 \<Rightarrow> u32 \<times> 'h"
  m_load64 :: "'h \<Rightarrow> u64 \<Rightarrow> u64 \<times> 'h"
  m_store8 :: "'h \<Rightarrow> u64 \<Rightarrow> u8 \<Rightarrow> 'h"
  m_store32 :: "'h \<Rightarrow> u64 \<Rightarrow> u32 \<Rightarrow> 'h"
  m_store64 :: "'h \<Rightarrow> u64 \<Rightarrow> u64 \<Rightarrow> 'h"

section \<open>The state of the PCI library\<close>

record fpga_pci_bar =
  allocated :: bool
  mem_base :: u64
  mem_size :: u64

record 'h pci_st =
  bars :: "fpga_pci_bar list"
  plat :: 'h

text \<open>An action of the platform, with a result, on the platform part of the state.\<close>

definition on_plat :: "('h \<Rightarrow> 'a \<times> 'h) \<Rightarrow> (('h, 'z) pci_st_scheme, 'a) prog" where
  "on_plat f = (\<lambda>s. case f (plat s) of (a, h) \<Rightarrow> (Inr a, s\<lparr>plat := h\<rparr>))"

text \<open>\<open>msleep(ms)\<close>; the result of \<open>clock_nanosleep\<close> is ignored by every caller.\<close>

definition msleep :: "'h platform \<Rightarrow> u64 \<Rightarrow> (('h, 'z) pci_st_scheme, unit) prog" where
  "msleep P ms = on_plat (\<lambda>h. ((), k_nanosleep P ms h))"

lemma on_plat_apply [prog_simps]:
  "on_plat f s = (case f (plat s) of (a, h) \<Rightarrow> (Inr a, s\<lparr>plat := h\<rparr>))"
  by (simp add: on_plat_def)

lemma msleep_apply [prog_simps]:
  "msleep P ms s = (Inr (), s\<lparr>plat := k_nanosleep P ms (plat s)\<rparr>)"
  by (simp add: msleep_def prog_simps)

lemma leaves_on_plat:
  "(\<And>s h. f (s\<lparr>plat := h\<rparr>) = f s) \<Longrightarrow> leaves f (on_plat g)"
  by (simp add: leaves_def on_plat_def split: prod.splits)

lemma leaves_bars_on_plat [leaves_intros]: "leaves bars (on_plat g)"
  by (rule leaves_on_plat) simp

lemma leaves_more_on_plat [leaves_intros]: "leaves pci_st.more (on_plat g)"
  by (rule leaves_on_plat) simp

lemma leaves_bars_msleep [leaves_intros]: "leaves bars (msleep P ms)"
  by (simp add: msleep_def leaves_intros)

lemma leaves_more_msleep [leaves_intros]: "leaves pci_st.more (msleep P ms)"
  by (simp add: msleep_def leaves_intros)

section \<open>write_loop\<close>

function write_loop :: "'h platform \<Rightarrow> string \<Rightarrow> u8 list \<Rightarrow> 'h \<Rightarrow> int \<times> 'h" where
  "write_loop P path buf h =
     (if buf = [] then (0, h)
      else case k_write P h path buf of (cur, h') \<Rightarrow>
        if cur < 0 then (-1, h')
        else if cur = 0 then (1, h')
        else write_loop P path (drop (nat cur) buf) h')"
  by pat_completeness auto
termination
  by (relation "measure (\<lambda>(P, path, buf, h). length buf)") auto

declare write_loop.simps [simp del]

text \<open>
  \<open>write_loop\<close> reports success only when every byte was accepted; a writer that accepts at least
  one byte per call makes it succeed.
\<close>

lemma write_loop_codes: "fst (write_loop P path buf h) \<in> {0, -1, 1}"
proof (induction P path buf h rule: write_loop.induct)
  case (1 P path buf h)
  then show ?case
    by (subst write_loop.simps) (auto split: prod.splits)
qed

lemma write_loop_progress:
  assumes "\<And>h bs. bs \<noteq> [] \<Longrightarrow> 0 < fst (k_write P h path bs)"
  shows "fst (write_loop P path buf h) = 0"
proof (induction "length buf" arbitrary: buf h rule: less_induct)
  case less
  show ?case
  proof (cases "buf = []")
    case True
    then show ?thesis by (simp add: write_loop.simps)
  next
    case False
    then obtain c h' where w: "k_write P h path buf = (c, h')" and "0 < c"
      using assms [of buf h] by (cases "k_write P h path buf") auto
    with False less [of "drop (nat c) buf" h'] show ?thesis
      by (simp add: write_loop.simps [of P path buf h])
  qed
qed

section \<open>Formatted output\<close>

definition digit_char :: "nat \<Rightarrow> char" where
  "digit_char n = ''0123456789abcdef'' ! n"

fun digits_of :: "nat \<Rightarrow> nat \<Rightarrow> string" where
  "digits_of b n = (if b < 2 \<or> n < b then [digit_char n]
     else digits_of b (n div b) @ [digit_char (n mod b)])"

declare digits_of.simps [simp del]

text \<open>\<open>%0wx\<close> and \<open>%d\<close>.\<close>

definition fmt_x :: "nat \<Rightarrow> nat \<Rightarrow> string" where
  "fmt_x w n = replicate (w - length (digits_of 16 n)) (CHR ''0'') @ digits_of 16 n"

definition fmt_d :: "int \<Rightarrow> string" where
  "fmt_d i = (if i < 0 then CHR ''-'' # digits_of 10 (nat (- i)) else digits_of 10 (nat i))"

text \<open>\<open>PCI_DEV_FMT\<close>: \<open>"%04x:%02x:%02x.%d"\<close>. The hexadecimal conversions read an \<open>unsigned int\<close>.\<close>

definition PCI_DEV_FMT :: "int \<Rightarrow> int \<Rightarrow> int \<Rightarrow> int \<Rightarrow> string" where
  "PCI_DEV_FMT d b v f = fmt_x 4 (unat (word_of_int d :: u32)) @ '':'' @
     fmt_x 2 (unat (word_of_int b :: u32)) @ '':'' @
     fmt_x 2 (unat (word_of_int v :: u32)) @ ''.'' @ fmt_d f"

section \<open>Formatted input\<close>

definition is_space :: "char \<Rightarrow> bool" where
  "is_space c = (let n = of_char c in n = (32::nat) \<or> (9 \<le> n \<and> n \<le> 13))"

definition digit_value :: "char \<Rightarrow> nat option" where
  "digit_value c = (let n = of_char c in
     if 48 \<le> n \<and> n \<le> (57::nat) then Some (n - 48)
     else if 97 \<le> n \<and> n \<le> 102 then Some (n - 87)
     else if 65 \<le> n \<and> n \<le> 70 then Some (n - 55)
     else None)"

definition is_digit :: "nat \<Rightarrow> char \<Rightarrow> bool" where
  "is_digit base c = (case digit_value c of None \<Rightarrow> False | Some v \<Rightarrow> v < base)"

definition digits_value :: "nat \<Rightarrow> string \<Rightarrow> nat" where
  "digits_value base ds = foldl (\<lambda>acc c. acc * base + the (digit_value c)) 0 ds"

definition has_0x :: "string \<Rightarrow> bool" where
  "has_0x cs = (case cs of a # b # r \<Rightarrow> a = CHR ''0'' \<and> (b = CHR ''x'' \<or> b = CHR ''X'') | _ \<Rightarrow> False)"

text \<open>
  One numeric conversion of \<open>scanf\<close> with a maximal field width: white space is skipped, then an
  optional sign, for base 16 an optional \<open>0x\<close>, then at least one digit. \<open>None\<close> is a matching failure.
\<close>

definition scan_int :: "nat \<Rightarrow> nat \<Rightarrow> string \<Rightarrow> (int \<times> string) option" where
  "scan_int base w cs =
     (let cs1 = dropWhile is_space cs;
          sgn = (0 < w \<and> cs1 \<noteq> [] \<and> (hd cs1 = CHR ''-'' \<or> hd cs1 = CHR ''+''));
          neg = (sgn \<and> hd cs1 = CHR ''-'');
          w2 = (if sgn then w - 1 else w);
          cs2 = (if sgn then tl cs1 else cs1);
          pre = (base = 16 \<and> 2 \<le> w2 \<and> has_0x cs2);
          w3 = (if pre then w2 - 2 else w2);
          cs3 = (if pre then drop 2 cs2 else cs2);
          ds = takeWhile (is_digit base) (take w3 cs3)
      in if ds = [] then None
         else Some ((if neg then - int (digits_value base ds) else int (digits_value base ds)),
                    drop (length ds) cs3))"

text \<open>A literal character of the format.\<close>

definition scan_char :: "char \<Rightarrow> string \<Rightarrow> string option" where
  "scan_char c cs = (case cs of [] \<Rightarrow> None | x # r \<Rightarrow> if x = c then Some r else None)"

text \<open>\<open>%d\<close> converts as \<open>strtol\<close>, which saturates.\<close>

definition clamp_long :: "int \<Rightarrow> int" where
  "clamp_long i = max (- (2 ^ 63)) (min (2 ^ 63 - 1) i)"

text \<open>
  \<open>sscanf(dir_name, PCI_DEV_FMT, &domain, &bus, &dev, &func)\<close>: \<open>Some\<close> when all four conversions
  succeed (the only result the code accepts), with the three unsigned and the signed value.
\<close>

definition sscanf_dbdf :: "string \<Rightarrow> (u32 \<times> u32 \<times> u32 \<times> u32) option" where
  "sscanf_dbdf cs =
     Option.bind (scan_int 16 4 cs) (\<lambda>(d, r1).
     Option.bind (scan_char (CHR '':'') r1) (\<lambda>r2.
     Option.bind (scan_int 16 2 r2) (\<lambda>(b, r3).
     Option.bind (scan_char (CHR '':'') r3) (\<lambda>r4.
     Option.bind (scan_int 16 2 r4) (\<lambda>(v, r5).
     Option.bind (scan_char (CHR ''.'') r5) (\<lambda>r6.
     Option.bind (scan_int 10 (length r6) r6) (\<lambda>(f, r7).
     Some (word_of_int d, word_of_int b, word_of_int v, word_of_int (clamp_long f)))))))))"

section \<open>Printing and scanning are inverse\<close>

lemma digit_char_facts:
  assumes "n < 16"
  shows "digit_value (digit_char n) = Some n" "\<not> is_space (digit_char n)"
    "digit_char n \<notin> {CHR ''-'', CHR ''+'', CHR ''x'', CHR ''X''}"
proof -
  have "n \<in> {0, 1, 2, 3, 4, 5, 6, 7, 8, 9, 10, 11, 12, 13, 14, 15}" using assms by simp arith
  then show "digit_value (digit_char n) = Some n" "\<not> is_space (digit_char n)"
    "digit_char n \<notin> {CHR ''-'', CHR ''+'', CHR ''x'', CHR ''X''}"
    by (auto simp: digit_char_def digit_value_def is_space_def Let_def)
qed

lemma digits_of_chars:
  assumes "2 \<le> b" "b \<le> 16"
  shows "set (digits_of b n) \<subseteq> digit_char ` {..<b}"
  using assms
proof (induction b n rule: digits_of.induct)
  case (1 b n)
  show ?case
  proof (cases "n < b")
    case True
    then show ?thesis by (simp add: digits_of.simps)
  next
    case False
    with 1 have "set (digits_of b (n div b)) \<subseteq> digit_char ` {..<b}" by simp
    moreover have "n mod b < b" using 1 by simp
    ultimately show ?thesis using False "1.prems" by (subst digits_of.simps) auto
  qed
qed

lemma digits_of_nonempty [simp]: "digits_of b n \<noteq> []"
  by (subst digits_of.simps) simp

lemma digits_value_append:
  "digits_value b (xs @ ys) = digits_value b xs * b ^ length ys + digits_value b ys"
  by (induction ys rule: rev_induct) (simp_all add: digits_value_def algebra_simps)

lemma digits_value_digits_of:
  assumes "2 \<le> b" "b \<le> 16"
  shows "digits_value b (digits_of b n) = n"
  using assms
proof (induction b n rule: digits_of.induct)
  case (1 b n)
  have dv: "m < b \<Longrightarrow> digits_value b [digit_char m] = m" for m
    using 1 by (simp add: digits_value_def digit_char_facts)
  show ?case
  proof (cases "n < b")
    case True
    then show ?thesis by (simp add: digits_of.simps [of b n] dv)
  next
    case False
    with 1 have ih: "digits_value b (digits_of b (n div b)) = n div b" by simp
    have "n mod b < b" using 1 by simp
    then have "digits_value b (digits_of b (n div b) @ [digit_char (n mod b)]) = n div b * b + n mod b"
      using dv ih by (simp add: digits_value_append)
    with False "1.prems" show ?thesis by (simp add: digits_of.simps [of b n])
  qed
qed

lemma length_digits_of:
  assumes "2 \<le> b" "n < b ^ Suc k"
  shows "length (digits_of b n) \<le> Suc k"
  using assms
proof (induction k arbitrary: n)
  case 0
  then show ?case by (simp add: digits_of.simps)
next
  case (Suc k)
  show ?case
  proof (cases "n < b")
    case True
    then show ?thesis by (simp add: digits_of.simps)
  next
    case False
    have "n div b < b ^ Suc k"
      using Suc.prems by (simp add: div_less_iff_less_mult mult.commute)
    with Suc have "length (digits_of b (n div b)) \<le> Suc k" by blast
    with False Suc.prems show ?thesis by (simp add: digits_of.simps [of b n])
  qed
qed

lemma digits_value_zeros: "digits_value b (replicate k (CHR ''0'') @ ds) = digits_value b ds"
proof -
  have "digits_value b (replicate k (CHR ''0'')) = 0"
    by (induction k) (simp_all add: digits_value_def digit_value_def)
  then show ?thesis by (simp add: digits_value_append)
qed

lemma fmt_x_facts:
  assumes "n < 16 ^ w" "0 < w"
  shows "length (fmt_x w n) = w" "set (fmt_x w n) \<subseteq> digit_char ` {..<16}"
    "digits_value 16 (fmt_x w n) = n"
proof -
  obtain k where w: "w = Suc k" using assms by (cases w) auto
  have "length (digits_of 16 n) \<le> w"
    using assms length_digits_of [of 16 n k] by (simp add: w)
  then show "length (fmt_x w n) = w" by (simp add: fmt_x_def)
  have "CHR ''0'' = digit_char 0" by (simp add: digit_char_def)
  then show "set (fmt_x w n) \<subseteq> digit_char ` {..<16}"
    using digits_of_chars [of 16 n] by (auto simp: fmt_x_def)
  show "digits_value 16 (fmt_x w n) = n"
    by (simp add: fmt_x_def digits_value_zeros digits_value_digits_of)
qed

text \<open>Scanning a block of digits that fills the width or is followed by a character that is no digit.\<close>

lemma scan_digits:
  assumes ds: "ds \<noteq> []" "set ds \<subseteq> digit_char ` {..<base}" and base: "base \<le> 16"
    and len: "length ds \<le> w" "length ds = w \<or> rest = [] \<or> \<not> is_digit base (hd rest)"
    and rest: "length ds = 1 \<and> 1 < w \<longrightarrow> base \<noteq> 16"
  shows "scan_int base w (ds @ rest) = Some (int (digits_value base ds), rest)"
proof -
  obtain d ds' where d: "ds = d # ds'" using ds by (cases ds) auto
  have facts: "\<not> is_space c \<and> c \<noteq> CHR ''-'' \<and> c \<noteq> CHR ''+'' \<and> c \<noteq> CHR ''x'' \<and> c \<noteq> CHR ''X'' \<and> is_digit base c"
    if c: "c \<in> set ds" for c
  proof -
    from c ds(2) obtain n where "c = digit_char n" "n < base" by auto
    then show ?thesis using base digit_char_facts [of n] by (auto simp: is_digit_def)
  qed
  have dw: "dropWhile is_space (ds @ rest) = ds @ rest"
    using facts [of d] by (simp add: d)
  have no0x: "\<not> (base = 16 \<and> 2 \<le> w \<and> has_0x (ds @ rest))"
  proof (cases ds')
    case Nil
    with rest d show ?thesis by auto
  next
    case (Cons e es)
    with facts [of e] d show ?thesis by (simp add: has_0x_def)
  qed
  have tw: "takeWhile (is_digit base) (take w (ds @ rest)) = ds"
  proof -
    have "take w (ds @ rest) = ds @ take (w - length ds) rest" using len by simp
    moreover have "takeWhile (is_digit base) (take (w - length ds) rest) = []"
      using len by (cases rest) (auto simp: take_Cons')
    ultimately show ?thesis using facts by (simp add: takeWhile_append2)
  qed
  have nosgn: "\<not> (0 < w \<and> ds @ rest \<noteq> [] \<and> (hd (ds @ rest) = CHR ''-'' \<or> hd (ds @ rest) = CHR ''+''))"
    using facts [of d] by (simp add: d)
  show ?thesis
    unfolding scan_int_def Let_def dw
    using ds(1) by (simp only: nosgn no0x if_False simp_thms tw) simp
qed

text \<open>Scanning undoes printing for every device address that fits the fields.\<close>

lemma sscanf_PCI_DEV_FMT:
  assumes "0 \<le> d" "d < 2 ^ 16" "0 \<le> b" "b < 2 ^ 8" "0 \<le> v" "v < 2 ^ 8" "0 \<le> f" "f < 2 ^ 31"
  shows "sscanf_dbdf (PCI_DEV_FMT d b v f) =
    Some (word_of_int d, word_of_int b, word_of_int v, word_of_int f)"
proof -
  have u: "unat (word_of_int x :: u32) = nat x" if "0 \<le> x" "x < 2 ^ 16" for x
    using that by (simp add: unat_eq_nat_uint unsigned_of_int take_bit_int_eq_self)
  have hex: "scan_int 16 w (fmt_x w (unat (word_of_int x :: u32)) @ rest) = Some (x, rest)"
    if "0 \<le> x" "x < 16 ^ w" "x < 2 ^ 16" "2 \<le> w" for x w rest
  proof -
    have "nat x < 16 ^ w" using that by (simp add: nat_less_iff)
    with that have f: "length (fmt_x w (nat x)) = w" "set (fmt_x w (nat x)) \<subseteq> digit_char ` {..<16}"
      "digits_value 16 (fmt_x w (nat x)) = nat x"
      using fmt_x_facts [of "nat x" w] by auto
    then have "fmt_x w (nat x) \<noteq> []" using that by auto
    then show ?thesis
      using that f scan_digits [of "fmt_x w (nat x)" 16 w rest] by (simp add: u)
  qed
  have dec: "scan_int 10 (length (fmt_d f)) (fmt_d f) = Some (f, [])"
    using scan_digits [of "fmt_d f" 10 "length (fmt_d f)" "[]"] assms digits_of_chars [of 10 "nat f"]
    by (simp add: fmt_d_def digits_value_digits_of)
  have "clamp_long f = f" using assms by (simp add: clamp_long_def)
  then show ?thesis
    using assms by (simp add: sscanf_dbdf_def PCI_DEV_FMT_def hex scan_char_def dec)
qed

end
