(* ===== verification/Pci_Sysfs.thy ===== *)
theory Pci_Sysfs
  imports Platform "HOL-Library.Product_Lexorder" "HOL-Library.Multiset"
begin

text \<open>
  \<open>sdk/userspace/fpga_libs/fpga_pci/fpga_pci_sysfs.c\<close>: discovery of the FPGA slots in sysfs. The
  mailbox functions are found by scanning the PCI devices, sorted by their address to number the
  slots, and completed with the application function of the same card; the application function is
  removed and rescanned after an image change. Reads of sysfs are queries of the platform; the two
  writes (\<open>remove\<close> and \<open>rescan\<close>) change its state. Locks are not modelled (one thread), nor are the
  NULL checks of pointers that are results here.
\<close>

abbreviation (input) FPGA_CHECK_APP_PF_DELAY_MSEC :: u64 where "FPGA_CHECK_APP_PF_DELAY_MSEC \<equiv> 1000"
abbreviation (input) FPGA_CHECK_APP_PF_MAX_RETRIES :: nat where "FPGA_CHECK_APP_PF_MAX_RETRIES \<equiv> 3"
abbreviation (input) FPGA_REMOVE_APP_PF_SHORT_DELAY_MSEC :: u64
  where "FPGA_REMOVE_APP_PF_SHORT_DELAY_MSEC \<equiv> 500"

text \<open>The size of the path buffers: \<open>NAME_MAX + 1\<close>.\<close>

abbreviation (input) NAME_BUF :: nat where "NAME_BUF \<equiv> 256"

section \<open>sysfs files\<close>

text \<open>\<open>snprintf\<close> into a buffer of \<open>buf_size\<close> bytes, followed by the checks of its result.\<close>

definition snprintf_checked :: "nat \<Rightarrow> string \<Rightarrow> ('s, string) prog" where
  "snprintf_checked buf_size p =
     (if buf_size \<le> length p then fail FPGA_ERR_SOFTWARE_PROBLEM else ok p)"

definition sysfs_dev :: "string \<Rightarrow> string \<Rightarrow> string" where
  "sysfs_dev dir_name file = ''/sys/bus/pci/devices/'' @ dir_name @ file"

definition fpga_pci_get_id :: "'h platform \<Rightarrow> string \<Rightarrow> (('h, 'z) pci_st_scheme, u16) prog" where
  "fpga_pci_get_id P path = (\<lambda>s.
     case k_scan_hex P (plat s) path of
       Open_error e \<Rightarrow> (Inl (- e), s)
     | Scan_eof \<Rightarrow> (Inl FPGA_ERR_UNRESPONSIVE, s)
     | Scan_no_match \<Rightarrow> (Inr (ucast (c_indet P (plat s))), s)
     | Scan_value tmp_id \<Rightarrow> (Inr (ucast tmp_id), s))"

definition fpga_pci_write_one2file :: "'h platform \<Rightarrow> string \<Rightarrow> (('h, 'z) pci_st_scheme, unit) prog" where
  "fpga_pci_write_one2file P path =
     bindE (gets (\<lambda>s. k_open P (plat s) path O_WRONLY)) (\<lambda>opened.
     if \<not> opened then fail FPGA_ERR_FAIL
     else bindE (on_plat (write_loop P path [0x31, 0])) (\<lambda>r.
       ret_code (if r = 0 then 0 else -1) ()))"

definition fpga_pci_get_dbdf ::
  "string \<Rightarrow> fpga_pci_resource_map \<Rightarrow> ('s, fpga_pci_resource_map) prog" where
  "fpga_pci_get_dbdf dir_name m =
     (case sscanf_dbdf dir_name of
        None \<Rightarrow> fail FPGA_ERR_SOFTWARE_PROBLEM
      | Some (d, b, v, f) \<Rightarrow>
          ok (m\<lparr>domain := ucast d, bus := ucast b, dev := ucast v, func := ucast f\<rparr>))"

definition fpga_pci_get_pci_resource_info ::
  "'h platform \<Rightarrow> string \<Rightarrow> nat \<Rightarrow> (('h, 'z) pci_st_scheme, u64 \<times> bool) prog" where
  "fpga_pci_get_pci_resource_info P dir_name resource_num =
     bindE (snprintf_checked NAME_BUF (sysfs_dev dir_name (''/resource'' @ fmt_d (int resource_num)))) (\<lambda>f.
     bindE (gets (\<lambda>s. k_stat P (plat s) f)) (\<lambda>st.
     case st of
       None \<Rightarrow> fail FPGA_ERR_PCI_MISSING
     | Some sz \<Rightarrow>
         bindE (snprintf_checked NAME_BUF
           (sysfs_dev dir_name (''/resource'' @ fmt_d (int resource_num) @ ''_wc''))) (\<lambda>g.
         bindE (gets (\<lambda>s. k_stat P (plat s) g)) (\<lambda>st'.
         ok (sz, st' \<noteq> None)))))"

fun fpga_pci_get_resources_loop ::
  "'h platform \<Rightarrow> string \<Rightarrow> nat list \<Rightarrow> bool \<Rightarrow> fpga_pci_resource_map
    \<Rightarrow> (('h, 'z) pci_st_scheme, fpga_pci_resource_map) prog" where
  "fpga_pci_get_resources_loop P dir_name [] found m =
     (if found then ok m else fail FPGA_ERR_PCI_MISSING)"
| "fpga_pci_get_resources_loop P dir_name (n # ns) found m =
     (if n > FPGA_BAR_PER_PF_MAX then fpga_pci_get_resources_loop P dir_name ns found m
      else bindE (attempt (fpga_pci_get_pci_resource_info P dir_name n)) (\<lambda>r.
        case r of
          Inl e \<Rightarrow>
            if e = FPGA_ERR_PCI_MISSING then fpga_pci_get_resources_loop P dir_name ns found m
            else fail e
        | Inr (sz, burstable) \<Rightarrow>
            fpga_pci_get_resources_loop P dir_name ns True
              (m\<lparr>resource_size := (resource_size m)[n := sz],
                 resource_burstable := (resource_burstable m)[n := burstable]\<rparr>)))"

definition fpga_pci_get_resources ::
  "'h platform \<Rightarrow> string \<Rightarrow> fpga_pci_resource_map
    \<Rightarrow> (('h, 'z) pci_st_scheme, fpga_pci_resource_map) prog" where
  "fpga_pci_get_resources P dir_name m = fpga_pci_get_resources_loop P dir_name [0, 1, 2, 4] False m"

definition fpga_pci_get_resource_map_ids ::
  "'h platform \<Rightarrow> string \<Rightarrow> fpga_pci_resource_map
    \<Rightarrow> (('h, 'z) pci_st_scheme, fpga_pci_resource_map) prog" where
  "fpga_pci_get_resource_map_ids P dir_name m =
     bindE (snprintf_checked NAME_BUF (sysfs_dev dir_name ''/vendor'')) (\<lambda>f1.
     bindE (fpga_pci_get_id P f1) (\<lambda>ven.
     bindE (snprintf_checked NAME_BUF (sysfs_dev dir_name ''/device'')) (\<lambda>f2.
     bindE (fpga_pci_get_id P f2) (\<lambda>dvc.
     bindE (snprintf_checked NAME_BUF (sysfs_dev dir_name ''/subsystem_vendor'')) (\<lambda>f3.
     bindE (fpga_pci_get_id P f3) (\<lambda>sven.
     bindE (snprintf_checked NAME_BUF (sysfs_dev dir_name ''/subsystem_device'')) (\<lambda>f4.
     bindE (fpga_pci_get_id P f4) (\<lambda>sdvc.
     bindE (fpga_pci_get_dbdf dir_name m) (\<lambda>m'.
     ok (m'\<lparr>vendor_id := ven, device_id := dvc,
            subsystem_vendor_id := sven, subsystem_device_id := sdvc\<rparr>))))))))))"

section \<open>Rescan, and the application function\<close>

definition fpga_pci_rescan :: "'h platform \<Rightarrow> (('h, 'z) pci_st_scheme, unit) prog" where
  "fpga_pci_rescan P =
     bindE (snprintf_checked NAME_BUF ''/sys/bus/pci/rescan'') (\<lambda>f.
     or_code (fpga_pci_write_one2file P f) FPGA_ERR_UNRESPONSIVE)"

text \<open>
  The loop of \<open>fpga_pci_check_app_pf_sysfs\<close>; \<open>!!ret == !exists\<close> says that the file is there exactly
  when it should be. The retry counter goes up to \<open>FPGA_CHECK_APP_PF_MAX_RETRIES\<close>.
\<close>

function fpga_pci_check_app_pf_loop ::
  "'h platform \<Rightarrow> string \<Rightarrow> bool \<Rightarrow> nat \<Rightarrow> (('h, 'z) pci_st_scheme, unit) prog" where
  "fpga_pci_check_app_pf_loop P path exists retries =
     bindE (gets (\<lambda>s. k_stat P (plat s) path)) (\<lambda>st.
     if (st \<noteq> None) = exists then ok ()
     else if FPGA_CHECK_APP_PF_MAX_RETRIES \<le> retries then fail FPGA_ERR_UNRESPONSIVE
     else
       bindE (if exists then fpga_pci_rescan P else ok ()) (\<lambda>_.
       bindE (msleep P FPGA_CHECK_APP_PF_DELAY_MSEC) (\<lambda>_.
       fpga_pci_check_app_pf_loop P path exists (Suc retries))))"
  by pat_completeness auto
termination
  by (relation "measure (\<lambda>(P, path, exists, retries). FPGA_CHECK_APP_PF_MAX_RETRIES - retries)") auto

declare fpga_pci_check_app_pf_loop.simps [simp del]

definition fpga_pci_check_app_pf_sysfs ::
  "'h platform \<Rightarrow> string \<Rightarrow> bool \<Rightarrow> (('h, 'z) pci_st_scheme, unit) prog" where
  "fpga_pci_check_app_pf_sysfs P dir_name exists =
     bindE (snprintf_checked NAME_BUF (sysfs_dev dir_name [])) (\<lambda>f.
     fpga_pci_check_app_pf_loop P f exists 0)"

definition map_dir_name :: "fpga_pci_resource_map \<Rightarrow> string" where
  "map_dir_name m = PCI_DEV_FMT (uint (domain m)) (uint (bus m)) (uint (dev m)) (uint (func m))"

definition fpga_pci_check_app_pf ::
  "'h platform \<Rightarrow> fpga_pci_resource_map \<Rightarrow> bool \<Rightarrow> (('h, 'z) pci_st_scheme, unit) prog" where
  "fpga_pci_check_app_pf P app_map exists =
     bindE (snprintf_checked NAME_BUF (map_dir_name app_map)) (\<lambda>dir_name.
     fpga_pci_check_app_pf_sysfs P dir_name exists)"

text \<open>The retry loop of \<open>fpga_pci_mbox2app\<close> around \<open>fpga_pci_get_resource_map_ids\<close>.\<close>

function fpga_pci_app_ids_loop ::
  "'h platform \<Rightarrow> string \<Rightarrow> fpga_pci_resource_map \<Rightarrow> nat
    \<Rightarrow> (('h, 'z) pci_st_scheme, fpga_pci_resource_map) prog" where
  "fpga_pci_app_ids_loop P app_dir_name app_map retries =
     bindE (attempt (fpga_pci_get_resource_map_ids P app_dir_name app_map)) (\<lambda>r.
     case r of
       Inr m \<Rightarrow> ok m
     | Inl _ \<Rightarrow>
         if FPGA_CHECK_APP_PF_MAX_RETRIES \<le> retries then fail FPGA_ERR_UNRESPONSIVE
         else bindE (msleep P FPGA_CHECK_APP_PF_DELAY_MSEC) (\<lambda>_.
              fpga_pci_app_ids_loop P app_dir_name app_map (Suc retries)))"
  by pat_completeness auto
termination
  by (relation "measure (\<lambda>(P, dir_name, m, retries). FPGA_CHECK_APP_PF_MAX_RETRIES - retries)") auto

declare fpga_pci_app_ids_loop.simps [simp del]

definition fpga_pci_mbox2app ::
  "'h platform \<Rightarrow> fpga_pci_resource_map \<Rightarrow> fpga_pci_resource_map
    \<Rightarrow> (('h, 'z) pci_st_scheme, fpga_pci_resource_map \<times> string) prog" where
  "fpga_pci_mbox2app P mbox_map app_map =
     bindE (snprintf_checked NAME_BUF
       (PCI_DEV_FMT (uint (domain mbox_map)) (uint (bus mbox_map))
          (GET_DEV_NUM_FROM_FPGA_MBOX_MAP mbox_map)
          (GET_FUNC_NUM_FROM_FPGA_MBOX_MAP mbox_map))) (\<lambda>app_dir_name.
     bindE (fpga_pci_check_app_pf_sysfs P app_dir_name True) (\<lambda>_.
     bindE (fpga_pci_app_ids_loop P app_dir_name app_map 0) (\<lambda>m.
     ok (m, app_dir_name))))"

section \<open>Slots\<close>

definition fpga_slot_spec_is_initialized :: "fpga_slot_spec \<Rightarrow> bool" where
  "fpga_slot_spec_is_initialized spec =
     (let m = spec ! FPGA_MGMT_PF
      in \<not> (domain m = 0 \<and> bus m = 0 \<and> dev m = 0 \<and> func m = 0))"

text \<open>The comparison of \<open>qsort\<close>: the fields are promoted to \<open>int\<close>, so the differences are exact.\<close>

definition fpga_pci_slot_spec_compare :: "fpga_slot_spec \<Rightarrow> fpga_slot_spec \<Rightarrow> int" where
  "fpga_pci_slot_spec_compare a b =
     (let ma = a ! FPGA_MGMT_PF; mb = b ! FPGA_MGMT_PF;
          a_init = fpga_slot_spec_is_initialized a;
          b_init = fpga_slot_spec_is_initialized b
      in if a_init \<noteq> b_init then (if a_init then -1 else 1)
         else if uint (domain ma) - uint (domain mb) \<noteq> 0 then uint (domain ma) - uint (domain mb)
         else if uint (bus ma) - uint (bus mb) \<noteq> 0 then uint (bus ma) - uint (bus mb)
         else if uint (dev ma) - uint (dev mb) \<noteq> 0 then uint (dev ma) - uint (dev mb)
         else uint (func ma) - uint (func mb))"

text \<open>\<open>qsort\<close> of the C library with a comparison function, as an insertion sort.\<close>

fun insert_cmp :: "('a \<Rightarrow> 'a \<Rightarrow> int) \<Rightarrow> 'a \<Rightarrow> 'a list \<Rightarrow> 'a list" where
  "insert_cmp cmp x [] = [x]"
| "insert_cmp cmp x (y # ys) = (if cmp x y \<le> 0 then x # y # ys else y # insert_cmp cmp x ys)"

definition qsort :: "('a \<Rightarrow> 'a \<Rightarrow> int) \<Rightarrow> 'a list \<Rightarrow> 'a list" where
  "qsort cmp xs = foldr (insert_cmp cmp) xs []"

text \<open>
  The directory loop of \<open>fpga_pci_mbox_scan\<close>: entries whose ids cannot be read are skipped, mailbox
  functions are collected until the array of \<open>FPGA_SLOT_MAX\<close> slots is full.
\<close>

definition is_mbox_map :: "fpga_pci_resource_map \<Rightarrow> bool" where
  "is_mbox_map m = (vendor_id m = FPGA_MBOX_VENDOR_ID \<and> (IS_F1 m \<or> IS_F2 m))"

fun fpga_pci_mbox_scan_loop ::
  "'h platform \<Rightarrow> string list \<Rightarrow> fpga_pci_resource_map list
    \<Rightarrow> (('h, 'z) pci_st_scheme, fpga_pci_resource_map list) prog" where
  "fpga_pci_mbox_scan_loop P [] found = ok found"
| "fpga_pci_mbox_scan_loop P (d_name # names) found =
     bindE (attempt (fpga_pci_get_resource_map_ids P d_name zero_resource_map)) (\<lambda>r.
     case r of
       Inl _ \<Rightarrow> fpga_pci_mbox_scan_loop P names found
     | Inr search_map \<Rightarrow>
         if is_mbox_map search_map then
           bindE (fpga_pci_get_resources P d_name search_map) (\<lambda>m.
             if FPGA_SLOT_MAX \<le> Suc (length found) then ok (found @ [m])
             else fpga_pci_mbox_scan_loop P names (found @ [m]))
         else fpga_pci_mbox_scan_loop P names found)"

text \<open>The array of \<open>FPGA_SLOT_MAX\<close> specs, zero but for the mailbox maps that were found.\<close>

definition spec_array_of :: "fpga_pci_resource_map list \<Rightarrow> fpga_slot_spec list" where
  "spec_array_of found =
     map (\<lambda>m. zero_slot_spec[FPGA_MGMT_PF := m]) found @
     replicate (FPGA_SLOT_MAX - length found) zero_slot_spec"

text \<open>
  \<open>ret\<close> is not set when \<open>opendir\<close> fails: the function returns an indeterminate value. The results
  are copied over the first \<open>min(size, FPGA_SLOT_MAX)\<close> entries of the caller's array.
\<close>

definition fpga_pci_mbox_scan ::
  "'h platform \<Rightarrow> fpga_slot_spec list \<Rightarrow> nat \<Rightarrow> (('h, 'z) pci_st_scheme, fpga_slot_spec list) prog" where
  "fpga_pci_mbox_scan P spec_array_out n_out =
     bindE (gets (\<lambda>s. k_readdir P (plat s) ''/sys/bus/pci/devices'')) (\<lambda>dir.
     case dir of
       None \<Rightarrow> bindE (gets (\<lambda>s. sint (c_indet P (plat s)))) (\<lambda>ret. ret_code ret spec_array_out)
     | Some names \<Rightarrow>
         bindE (fpga_pci_mbox_scan_loop P names []) (\<lambda>found.
         if found = [] then fail FPGA_ERR_PCI_MISSING
         else
           let sorted_array = qsort fpga_pci_slot_spec_compare (spec_array_of found);
               n = min n_out FPGA_SLOT_MAX
           in ok (take n sorted_array @ drop n spec_array_out)))"

definition fpga_pci_complete_slot_spec ::
  "'h platform \<Rightarrow> fpga_slot_spec \<Rightarrow> (('h, 'z) pci_st_scheme, fpga_slot_spec) prog" where
  "fpga_pci_complete_slot_spec P spec =
     bindE (fpga_pci_mbox2app P (spec ! FPGA_MGMT_PF) zero_resource_map) (\<lambda>(app_map, app_dir_name).
     bindE (fpga_pci_get_resources P app_dir_name app_map) (\<lambda>app_map'.
     ok (spec[FPGA_APP_PF := app_map'])))"

text \<open>
  \<open>fpga_pci_get_all_slot_specs\<close> returns its code beside the array, which it fills as far as it gets
  even when it fails.
\<close>

fun fpga_pci_complete_all ::
  "'h platform \<Rightarrow> nat list \<Rightarrow> fpga_slot_spec list
    \<Rightarrow> (('h, 'z) pci_st_scheme, int \<times> fpga_slot_spec list) prog" where
  "fpga_pci_complete_all P [] arr = ok (0, arr)"
| "fpga_pci_complete_all P (i # is) arr =
     (if \<not> fpga_slot_spec_is_initialized (arr ! i) then ok (0, arr)
      else bindE (attempt (fpga_pci_complete_slot_spec P (arr ! i))) (\<lambda>r.
        case r of
          Inl rc \<Rightarrow> ok (rc, arr)
        | Inr spec \<Rightarrow> fpga_pci_complete_all P is (arr[i := spec])))"

definition fpga_pci_get_all_slot_specs ::
  "'h platform \<Rightarrow> fpga_slot_spec list \<Rightarrow> nat
    \<Rightarrow> (('h, 'z) pci_st_scheme, int \<times> fpga_slot_spec list) prog" where
  "fpga_pci_get_all_slot_specs P spec_array n_out =
     bindE (attempt (fpga_pci_mbox_scan P spec_array n_out)) (\<lambda>r.
     case r of
       Inl rc \<Rightarrow> ok (rc, spec_array)
     | Inr arr \<Rightarrow> fpga_pci_complete_all P [0..<n_out] arr)"

definition fpga_pci_get_slot_spec ::
  "'h platform \<Rightarrow> int \<Rightarrow> (('h, 'z) pci_st_scheme, fpga_slot_spec) prog" where
  "fpga_pci_get_slot_spec P slot_id =
     (if slot_id < 0 \<or> int FPGA_SLOT_MAX \<le> slot_id then fail (- EINVAL)
      else
        bindE (fpga_pci_mbox_scan P (replicate FPGA_SLOT_MAX zero_slot_spec)
          (min FPGA_SLOT_MAX (nat slot_id + 1))) (\<lambda>spec_array.
        bindE (fpga_pci_complete_slot_spec P (spec_array ! nat slot_id)) (\<lambda>spec.
        if \<not> fpga_slot_spec_is_initialized spec then fail (- ENOENT) else ok spec)))"

definition fpga_pci_get_resource_map ::
  "'h platform \<Rightarrow> int \<Rightarrow> int \<Rightarrow> (('h, 'z) pci_st_scheme, fpga_pci_resource_map) prog" where
  "fpga_pci_get_resource_map P slot_id pf_id =
     (if slot_id < 0 \<or> int FPGA_SLOT_MAX \<le> slot_id \<or> pf_id < 0 \<or> int FPGA_PF_MAX \<le> pf_id
      then fail (- EINVAL)
      else bindE (fpga_pci_get_slot_spec P slot_id) (\<lambda>slot_spec. ok (slot_spec ! nat pf_id)))"

section \<open>Removing and rescanning the application function\<close>

definition fpga_pci_check_app_pf_driver ::
  "'h platform \<Rightarrow> fpga_pci_resource_map \<Rightarrow> (('h, 'z) pci_st_scheme, bool) prog" where
  "fpga_pci_check_app_pf_driver P app_map =
     bindE (snprintf_checked NAME_BUF (map_dir_name app_map)) (\<lambda>dir_name.
     bindE (snprintf_checked NAME_BUF (sysfs_dev dir_name ''/driver'')) (\<lambda>f.
     gets (\<lambda>s. k_stat P (plat s) f \<noteq> None)))"

definition fpga_pci_remove_app_pf ::
  "'h platform \<Rightarrow> fpga_pci_resource_map \<Rightarrow> (('h, 'z) pci_st_scheme, unit) prog" where
  "fpga_pci_remove_app_pf P app_map =
     bindE (snprintf_checked NAME_BUF (map_dir_name app_map)) (\<lambda>dir_name.
     bindE (snprintf_checked NAME_BUF (sysfs_dev dir_name ''/remove'')) (\<lambda>f.
     or_code (fpga_pci_write_one2file P f) FPGA_ERR_UNRESPONSIVE))"

definition fpga_pci_rescan_slot_app_pfs ::
  "'h platform \<Rightarrow> int \<Rightarrow> (('h, 'z) pci_st_scheme, unit) prog" where
  "fpga_pci_rescan_slot_app_pfs P slot_id =
     bindE (fpga_pci_get_slot_spec P slot_id) (\<lambda>spec.
     let app_map = spec ! FPGA_APP_PF in
     bindE (fpga_pci_check_app_pf_driver P app_map) (\<lambda>attached.
     bindE (fpga_pci_remove_app_pf P app_map) (\<lambda>_.
     bindE (msleep P FPGA_REMOVE_APP_PF_SHORT_DELAY_MSEC) (\<lambda>_.
     bindE (fpga_pci_rescan P) (\<lambda>_.
     fpga_pci_check_app_pf P app_map True)))))"

section \<open>Frames\<close>

text \<open>The parts of the state that lie outside the platform: no sysfs operation changes them.\<close>

definition plat_free :: "(('h, 'z) pci_st_scheme \<Rightarrow> 'b) \<Rightarrow> bool" where
  "plat_free f \<longleftrightarrow> (\<forall>s h. f (s\<lparr>plat := h\<rparr>) = f s)"

lemma plat_free_bars [simp]: "plat_free bars"
  by (simp add: plat_free_def)

lemma plat_free_more [simp]: "plat_free pci_st.more"
  by (simp add: plat_free_def)

lemma leaves_free_on_plat [leaves_intros]: "plat_free f \<Longrightarrow> leaves f (on_plat g)"
  by (rule leaves_on_plat) (simp add: plat_free_def)

lemma leaves_free_msleep [leaves_intros]: "plat_free f \<Longrightarrow> leaves f (msleep P ms)"
  by (simp add: msleep_def leaves_intros)

lemma leaves_snprintf [leaves_intros]: "leaves f (snprintf_checked n p)"
  by (auto simp: snprintf_checked_def intro: leaves_intros)

lemma leaves_get_id [leaves_intros]: "leaves f (fpga_pci_get_id P path)"
  by (rule leavesI) (simp add: fpga_pci_get_id_def split: scan_result.splits)

lemma leaves_write_one2file [leaves_intros]: "plat_free f \<Longrightarrow> leaves f (fpga_pci_write_one2file P path)"
  by (auto simp: fpga_pci_write_one2file_def intro!: leaves_intros)

lemma leaves_get_dbdf [leaves_intros]: "leaves f (fpga_pci_get_dbdf d m)"
  by (auto simp: fpga_pci_get_dbdf_def intro!: leaves_intros)

lemma leaves_resource_info [leaves_intros]: "leaves f (fpga_pci_get_pci_resource_info P d n)"
  by (auto simp: fpga_pci_get_pci_resource_info_def intro!: leaves_intros)

lemma leaves_resources_loop [leaves_intros]: "leaves f (fpga_pci_get_resources_loop P d ns found m)"
  by (induction P d ns found m rule: fpga_pci_get_resources_loop.induct)
    (auto intro!: leaves_intros split: if_splits)

lemma leaves_resources [leaves_intros]: "leaves f (fpga_pci_get_resources P d m)"
  by (simp only: fpga_pci_get_resources_def leaves_resources_loop)

lemma leaves_map_ids [leaves_intros]: "leaves f (fpga_pci_get_resource_map_ids P d m)"
  by (auto simp: fpga_pci_get_resource_map_ids_def intro!: leaves_intros)

lemma leaves_rescan [leaves_intros]: "plat_free f \<Longrightarrow> leaves f (fpga_pci_rescan P)"
  by (auto simp: fpga_pci_rescan_def intro!: leaves_intros)

lemma leaves_check_app_pf_loop [leaves_intros]:
  "plat_free f \<Longrightarrow> leaves f (fpga_pci_check_app_pf_loop P path ex n)"
proof (induction P path ex n rule: fpga_pci_check_app_pf_loop.induct)
  case (1 P path ex n)
  then show ?case
    by (subst fpga_pci_check_app_pf_loop.simps) (auto intro!: leaves_intros)
qed

lemma leaves_check_app_pf_sysfs [leaves_intros]:
  "plat_free f \<Longrightarrow> leaves f (fpga_pci_check_app_pf_sysfs P d ex)"
  by (auto simp: fpga_pci_check_app_pf_sysfs_def intro!: leaves_intros)

lemma leaves_check_app_pf [leaves_intros]:
  "plat_free f \<Longrightarrow> leaves f (fpga_pci_check_app_pf P m ex)"
  by (auto simp: fpga_pci_check_app_pf_def intro!: leaves_intros)

lemma leaves_app_ids_loop [leaves_intros]:
  "plat_free f \<Longrightarrow> leaves f (fpga_pci_app_ids_loop P d m n)"
proof (induction P d m n rule: fpga_pci_app_ids_loop.induct)
  case (1 P d m n)
  then show ?case
    by (subst fpga_pci_app_ids_loop.simps) (auto intro!: leaves_intros)
qed

lemma leaves_mbox2app [leaves_intros]: "plat_free f \<Longrightarrow> leaves f (fpga_pci_mbox2app P m a)"
  by (auto simp: fpga_pci_mbox2app_def intro!: leaves_intros)

lemma leaves_scan_loop [leaves_intros]: "leaves f (fpga_pci_mbox_scan_loop P names found)"
  by (induction P names found rule: fpga_pci_mbox_scan_loop.induct)
    (auto intro!: leaves_intros split: if_splits)

lemma leaves_mbox_scan [leaves_intros]: "leaves f (fpga_pci_mbox_scan P arr n)"
  by (auto simp: fpga_pci_mbox_scan_def Let_def intro!: leaves_intros)

lemma leaves_complete_slot_spec [leaves_intros]:
  "plat_free f \<Longrightarrow> leaves f (fpga_pci_complete_slot_spec P spec)"
  by (auto simp: fpga_pci_complete_slot_spec_def intro!: leaves_intros)

lemma leaves_complete_all [leaves_intros]:
  "plat_free f \<Longrightarrow> leaves f (fpga_pci_complete_all P is arr)"
  by (induction P "is" arr rule: fpga_pci_complete_all.induct)
    (auto intro!: leaves_intros split: if_splits)

lemma leaves_get_all_slot_specs [leaves_intros]:
  "plat_free f \<Longrightarrow> leaves f (fpga_pci_get_all_slot_specs P arr n)"
  by (auto simp: fpga_pci_get_all_slot_specs_def intro!: leaves_intros)

lemma leaves_get_slot_spec [leaves_intros]: "plat_free f \<Longrightarrow> leaves f (fpga_pci_get_slot_spec P slot)"
  by (auto simp: fpga_pci_get_slot_spec_def intro!: leaves_intros)

lemma leaves_get_resource_map [leaves_intros]:
  "plat_free f \<Longrightarrow> leaves f (fpga_pci_get_resource_map P slot pf)"
  by (auto simp: fpga_pci_get_resource_map_def intro!: leaves_intros)

lemma leaves_rescan_slot_app_pfs [leaves_intros]:
  "plat_free f \<Longrightarrow> leaves f (fpga_pci_rescan_slot_app_pfs P slot)"
  by (auto simp: fpga_pci_rescan_slot_app_pfs_def fpga_pci_check_app_pf_driver_def
      fpga_pci_remove_app_pf_def Let_def intro!: leaves_intros)

section \<open>Failures have a code\<close>

text \<open>A failed \<open>fopen\<close> sets \<open>errno\<close> to an error number.\<close>

definition errno_set :: "'h platform \<Rightarrow> bool" where
  "errno_set P \<longleftrightarrow> (\<forall>h path. k_scan_hex P h path \<noteq> Open_error 0)"

lemma nonzero_on_plat [nonzero_intros]: "nonzero (on_plat g)" "nonzero (msleep P ms)"
  by (simp_all add: nonzero_def prog_simps split: prod.splits)

lemma nonzero_snprintf [nonzero_intros]: "nonzero (snprintf_checked n p)"
  by (auto simp: snprintf_checked_def intro!: nonzero_intros)

lemma nonzero_get_id [nonzero_intros]: "errno_set P \<Longrightarrow> nonzero (fpga_pci_get_id P path)"
  unfolding nonzero_def fpga_pci_get_id_def errno_set_def by (fastforce split: scan_result.splits)

lemma nonzero_get_dbdf [nonzero_intros]: "nonzero (fpga_pci_get_dbdf d m)"
  by (auto simp: fpga_pci_get_dbdf_def intro!: nonzero_intros)

lemma nonzero_resource_info [nonzero_intros]: "nonzero (fpga_pci_get_pci_resource_info P d n)"
  by (auto simp: fpga_pci_get_pci_resource_info_def intro!: nonzero_intros)

lemma nonzero_resources_loop [nonzero_intros]: "nonzero (fpga_pci_get_resources_loop P d ns found m)"
proof (induction P d ns found m rule: fpga_pci_get_resources_loop.induct)
  case (2 P d n ns found m)
  then show ?case
    unfolding fpga_pci_get_resources_loop.simps
    by (intro nonzero_if nonzero_attempt_case nonzero_case_prod nonzero_resource_info nonzero_fail) auto
qed (simp add: nonzero_intros)

lemma nonzero_resources [nonzero_intros]: "nonzero (fpga_pci_get_resources P d m)"
  by (simp only: fpga_pci_get_resources_def nonzero_resources_loop)

lemma nonzero_map_ids [nonzero_intros]: "errno_set P \<Longrightarrow> nonzero (fpga_pci_get_resource_map_ids P d m)"
  by (auto simp: fpga_pci_get_resource_map_ids_def intro!: nonzero_intros)

lemma nonzero_check_app_pf_loop [nonzero_intros]: "nonzero (fpga_pci_check_app_pf_loop P path ex n)"
proof (induction P path ex n rule: fpga_pci_check_app_pf_loop.induct)
  case (1 P path ex n)
  then show ?case
    by (subst fpga_pci_check_app_pf_loop.simps)
      (auto simp: fpga_pci_rescan_def intro!: nonzero_intros)
qed

lemma nonzero_app_ids_loop [nonzero_intros]: "nonzero (fpga_pci_app_ids_loop P d m n)"
proof (induction P d m n rule: fpga_pci_app_ids_loop.induct)
  case (1 P d m n)
  then show ?case
    by (subst fpga_pci_app_ids_loop.simps) (auto intro!: nonzero_intros)
qed

lemma nonzero_scan_loop [nonzero_intros]: "nonzero (fpga_pci_mbox_scan_loop P names found)"
  by (induction P names found rule: fpga_pci_mbox_scan_loop.induct)
    (auto intro!: nonzero_intros split: if_splits)

lemma nonzero_get_slot_spec [nonzero_intros]: "nonzero (fpga_pci_get_slot_spec P slot)"
  by (auto simp: fpga_pci_get_slot_spec_def fpga_pci_mbox_scan_def Let_def
      fpga_pci_complete_slot_spec_def fpga_pci_mbox2app_def fpga_pci_check_app_pf_sysfs_def
      intro!: nonzero_intros)

section \<open>The order of the slots\<close>

datatype slot_key = Slot_key bool u16 u8 u8 u8

fun key_tuple :: "slot_key \<Rightarrow> bool \<times> int \<times> int \<times> int \<times> int" where
  "key_tuple (Slot_key u d b v f) = (u, uint d, uint b, uint v, uint f)"

lemma key_tuple_inj: "key_tuple x = key_tuple y \<Longrightarrow> x = y"
  by (cases x; cases y) (simp add: word_uint_eq_iff)

instantiation slot_key :: linorder
begin

definition less_eq_slot_key :: "slot_key \<Rightarrow> slot_key \<Rightarrow> bool" where
  "less_eq_slot_key x y = (key_tuple x \<le> key_tuple y)"

definition less_slot_key :: "slot_key \<Rightarrow> slot_key \<Rightarrow> bool" where
  "less_slot_key x y = (key_tuple x < key_tuple y)"

instance
  by standard (auto simp: less_eq_slot_key_def less_slot_key_def intro: key_tuple_inj)

end

text \<open>The address of the mailbox function, slots without a mailbox last.\<close>

definition slot_key :: "fpga_slot_spec \<Rightarrow> slot_key" where
  "slot_key spec = (let m = spec ! FPGA_MGMT_PF in
     Slot_key (\<not> fpga_slot_spec_is_initialized spec) (domain m) (bus m) (dev m) (func m))"

locale key_comparator =
  fixes cmp :: "'a \<Rightarrow> 'a \<Rightarrow> int"
    and key :: "'a \<Rightarrow> 'k::linorder"
  assumes cmp_le: "cmp x y \<le> 0 \<longleftrightarrow> key x \<le> key y"
begin

lemma insert_cmp_eq: "insert_cmp cmp x ys = insort_key key x ys"
  by (induction ys) (auto simp: cmp_le)

lemma qsort_eq: "qsort cmp xs = sort_key key xs"
  unfolding qsort_def sort_key_def
  by (induction xs) (auto simp: insert_cmp_eq)

lemma mset_qsort: "mset (qsort cmp xs) = mset xs"
  by (simp add: qsort_eq)

lemma sorted_qsort: "sorted (map key (qsort cmp xs))"
  by (simp add: qsort_eq)

lemma qsort_unique:
  assumes m: "mset ys = mset xs" and sorted: "sorted (map key ys)" and inj: "inj_on key (set xs)"
  shows "qsort cmp xs = ys"
proof (rule map_inj_on [where f = key])
  have "mset (map key (qsort cmp xs)) = mset (map key ys)"
    using m by (simp add: mset_qsort)
  then show "map key (qsort cmp xs) = map key ys"
    using sorted sorted_qsort properties_for_sort by metis
  have "set (qsort cmp xs) = set xs" "set ys = set xs"
    using m mset_qsort by (metis mset_eq_setD)+
  with inj show "inj_on key (set (qsort cmp xs) \<union> set ys)" by simp
qed

lemma qsort_cong_mset:
  assumes m: "mset xs = mset ys" and inj: "inj_on key (set xs)"
  shows "qsort cmp xs = qsort cmp ys"
  using m by (intro qsort_unique inj) (simp_all add: mset_qsort sorted_qsort)

end

text \<open>Comparing field by field with differences is the lexicographic order.\<close>

lemma differences_lexicographic:
  fixes d b v f :: int
  shows "(if i \<noteq> i' then (if i then -1 else 1)
     else if d - d' \<noteq> 0 then d - d' else if b - b' \<noteq> 0 then b - b'
     else if v - v' \<noteq> 0 then v - v' else f - f') \<le> (0::int)
   \<longleftrightarrow> (\<not> i, d, b, v, f) \<le> (\<not> i', d', b', v', f')"
  by (cases i; cases i'; cases "d = d'"; cases "b = b'"; cases "v = v'") auto

interpretation slot_order: key_comparator fpga_pci_slot_spec_compare slot_key
proof unfold_locales
  fix x y :: fpga_slot_spec
  show "fpga_pci_slot_spec_compare x y \<le> 0 \<longleftrightarrow> slot_key x \<le> slot_key y"
    unfolding fpga_pci_slot_spec_compare_def Let_def differences_lexicographic
    by (simp only: slot_key_def less_eq_slot_key_def Let_def key_tuple.simps)
qed

end
