(* ===== verification/Demo_Platform.thy ===== *)
theory Demo_Platform
  imports Platform
begin

text \<open>
  A small concrete platform, for the witnesses: a PCI bus on which every listed device answers with
  the ids of an F2 mailbox function, and a register file behind every mapped address that remembers
  the last value stored. It counts sleeps and logs stores.
\<close>

record demo =
  demo_names :: "string list"
  demo_regs :: "u64 \<Rightarrow> u32"
  demo_sleeps :: nat
  demo_log :: "(u64 \<times> u32) list"

definition ends_with :: "string \<Rightarrow> string \<Rightarrow> bool" where
  "ends_with suffix path = (take (length suffix) (rev path) = rev suffix)"

definition demo_platform :: "demo platform" where
  "demo_platform = \<lparr>
     k_scan_hex = (\<lambda>h path. if ends_with ''vendor'' path then Scan_value 0x1d0f
                     else Scan_value 0x9248),
     k_stat = (\<lambda>h path. Some 0x10000),
     k_readdir = (\<lambda>h path. Some (demo_names h)),
     k_open = (\<lambda>h path mode. True),
     k_write = (\<lambda>h path buf. (int (length buf), h)),
     k_mmap = (\<lambda>h path len. (Some 0x100000, h)),
     k_munmap = (\<lambda>h addr len. (True, h)),
     k_nanosleep = (\<lambda>ms h. h\<lparr>demo_sleeps := Suc (demo_sleeps h)\<rparr>),
     c_rand = (\<lambda>h. (42, h)),
     c_indet = (\<lambda>h. 0),
     m_load8 = (\<lambda>h a. (ucast (demo_regs h a), h)),
     m_load32 = (\<lambda>h a. (demo_regs h a, h)),
     m_load64 = (\<lambda>h a. (ucast (demo_regs h a), h)),
     m_store8 = (\<lambda>h a v. h\<lparr>demo_regs := (demo_regs h)(a := ucast v), demo_log := demo_log h @ [(a, ucast v)]\<rparr>),
     m_store32 = (\<lambda>h a v. h\<lparr>demo_regs := (demo_regs h)(a := v), demo_log := demo_log h @ [(a, v)]\<rparr>),
     m_store64 = (\<lambda>h a v. h\<lparr>demo_regs := (demo_regs h)(a := ucast v), demo_log := demo_log h @ [(a, ucast v)]\<rparr>)\<rparr>"

definition demo_h :: "string list \<Rightarrow> demo" where
  "demo_h names = \<lparr>demo_names = names, demo_regs = (\<lambda>_. 0), demo_sleeps = 0, demo_log = []\<rparr>"

text \<open>No device and nothing else: opens, reads of files and directory listings fail.\<close>

definition dead_platform :: "demo platform" where
  "dead_platform = demo_platform\<lparr>k_scan_hex := (\<lambda>h path. Open_error ENOENT),
     k_stat := (\<lambda>h path. None), k_readdir := (\<lambda>h path. Some []),
     k_open := (\<lambda>h path mode. False), k_mmap := (\<lambda>h path len. (None, h))\<rparr>"

lemma demo_sel [simp]:
  "k_stat demo_platform h path = Some 0x10000"
  "k_readdir demo_platform h path = Some (demo_names h)"
  "k_open demo_platform h path mode = True"
  "k_write demo_platform h path buf = (int (length buf), h)"
  "k_mmap demo_platform h path len = (Some 0x100000, h)"
  "k_munmap demo_platform h a len = (True, h)"
  "k_nanosleep demo_platform ms h = h\<lparr>demo_sleeps := Suc (demo_sleeps h)\<rparr>"
  "c_rand demo_platform h = (42, h)"
  "c_indet demo_platform h = 0"
  "m_load32 demo_platform h a = (demo_regs h a, h)"
  "m_store32 demo_platform h a v =
     h\<lparr>demo_regs := (demo_regs h)(a := v), demo_log := demo_log h @ [(a, v)]\<rparr>"
  "k_scan_hex demo_platform h path =
     (if ends_with ''vendor'' path then Scan_value 0x1d0f else Scan_value 0x9248)"
  by (simp_all add: demo_platform_def)

end
