(* ===== verification/Pci_Slots.thy ===== *)
theory Pci_Slots
  imports Pci_Sysfs Demo_Platform
begin

text \<open>
  Properties of the slot discovery of \<open>fpga_pci_sysfs.c\<close>: the directory scan in terms of what each
  entry holds, its independence of the order of the directory, the round trip of the DBDF names, the
  specification that \<open>fpga_pci_get_slot_spec\<close> returns and the bound on the retry loops.
\<close>

section \<open>The scan\<close>

lemma map_ids_state: "fpga_pci_get_resource_map_ids P d m s = (r, t) \<Longrightarrow> t = s"
  using leavesD [OF leaves_map_ids [of "\<lambda>s. s"]] by metis

lemma resources_state: "fpga_pci_get_resources P d m s = (r, t) \<Longrightarrow> t = s"
  using leavesD [OF leaves_resources [of "\<lambda>s. s"]] by metis

text \<open>
  What the scan sees in one directory entry: the mailbox function there, with its resources, or
  nothing. \<open>resources_readable\<close> says that a mailbox entry has resources to read.
\<close>

definition mailbox_at :: "'h platform \<Rightarrow> ('h, 'z) pci_st_scheme \<Rightarrow> string \<Rightarrow> fpga_pci_resource_map option" where
  "mailbox_at P s d_name =
     (case fst (fpga_pci_get_resource_map_ids P d_name zero_resource_map s) of
        Inl _ \<Rightarrow> None
      | Inr m \<Rightarrow> if is_mbox_map m then
          (case fst (fpga_pci_get_resources P d_name m s) of Inl _ \<Rightarrow> None | Inr m' \<Rightarrow> Some m')
          else None)"

definition resources_readable :: "'h platform \<Rightarrow> ('h, 'z) pci_st_scheme \<Rightarrow> string \<Rightarrow> bool" where
  "resources_readable P s d_name =
     (case fst (fpga_pci_get_resource_map_ids P d_name zero_resource_map s) of
        Inl _ \<Rightarrow> True
      | Inr m \<Rightarrow> is_mbox_map m \<longrightarrow> \<not> isl (fst (fpga_pci_get_resources P d_name m s)))"

definition mailboxes :: "'h platform \<Rightarrow> ('h, 'z) pci_st_scheme \<Rightarrow> string list \<Rightarrow> fpga_pci_resource_map list" where
  "mailboxes P s names = map (\<lambda>n. the (mailbox_at P s n)) (filter (\<lambda>n. mailbox_at P s n \<noteq> None) names)"

lemma scan_loop_eq:
  assumes "\<forall>n \<in> set names. resources_readable P s n"
    and "length found + length (mailboxes P s names) \<le> FPGA_SLOT_MAX" and "length found < FPGA_SLOT_MAX"
  shows "fpga_pci_mbox_scan_loop P names found s = (Inr (found @ mailboxes P s names), s)"
  using assms
proof (induction names arbitrary: found)
  case Nil
  then show ?case by (simp add: mailboxes_def prog_simps)
next
  case (Cons n names)
  obtain r t where ids: "fpga_pci_get_resource_map_ids P n zero_resource_map s = (r, t)" by fastforce
  then have t: "t = s" by (rule map_ids_state)
  show ?case
  proof (cases "\<exists>m. r = Inr m \<and> is_mbox_map m")
    case False
    then have "mailbox_at P s n = None"
      using ids by (auto simp: mailbox_at_def split: sum.splits)
    then have mb: "mailboxes P s (n # names) = mailboxes P s names" by (simp add: mailboxes_def)
    have "fpga_pci_mbox_scan_loop P (n # names) found s = fpga_pci_mbox_scan_loop P names found s"
      using False ids t by (auto simp: prog_simps split: sum.splits)
    then show ?thesis using Cons mb by simp
  next
    case True
    then obtain m where r: "r = Inr m" and m: "is_mbox_map m" by blast
    obtain q u where res: "fpga_pci_get_resources P n m s = (q, u)" by fastforce
    then have u: "u = s" by (rule resources_state)
    have "\<not> isl q" using Cons.prems(1) ids r m res by (simp add: resources_readable_def)
    then obtain m' where q: "q = Inr m'" by (cases q) auto
    have "mailbox_at P s n = Some m'" using ids r m res q by (simp add: mailbox_at_def)
    then have mb: "mailboxes P s (n # names) = m' # mailboxes P s names" by (simp add: mailboxes_def)
    show ?thesis
    proof (cases "FPGA_SLOT_MAX \<le> Suc (length found)")
      case full: True
      have "length (mailboxes P s (n # names)) = Suc (length (mailboxes P s names))" by (simp add: mb)
      with Cons.prems(2) full have "length (mailboxes P s names) = 0" by linarith
      then have "mailboxes P s names = []" by simp
      with full mb show ?thesis using ids t r m res u q by (simp add: prog_simps)
    next
      case False
      have "fpga_pci_mbox_scan_loop P (n # names) found s =
          fpga_pci_mbox_scan_loop P names (found @ [m']) s"
        using False ids t r m res u q by (simp add: prog_simps)
      also have "\<dots> = (Inr ((found @ [m']) @ mailboxes P s names), s)"
        using Cons.prems mb False by (intro Cons.IH) auto
      finally show ?thesis using mb by simp
    qed
  qed
qed

lemma mbox_scan_eq:
  assumes "k_readdir P (plat s) ''/sys/bus/pci/devices'' = Some names"
    and "\<forall>n \<in> set names. resources_readable P s n"
    and "length (mailboxes P s names) \<le> FPGA_SLOT_MAX"
  shows "fpga_pci_mbox_scan P arr n s =
    (if mailboxes P s names = [] then (Inl FPGA_ERR_PCI_MISSING, s)
     else (Inr (take (min n FPGA_SLOT_MAX)
             (qsort fpga_pci_slot_spec_compare (spec_array_of (mailboxes P s names)))
           @ drop (min n FPGA_SLOT_MAX) arr), s))"
proof -
  have "fpga_pci_mbox_scan_loop P names [] s = (Inr (mailboxes P s names), s)"
    using scan_loop_eq [of names P s "[]"] assms by simp
  then show ?thesis using assms(1) by (simp add: fpga_pci_mbox_scan_def prog_simps Let_def)
qed

text \<open>The entries of a directory in another order, seen through the same files.\<close>

lemma get_id_readdir [simp]: "fpga_pci_get_id (P\<lparr>k_readdir := r\<rparr>) path = fpga_pci_get_id P path"
  by (rule ext) (simp add: fpga_pci_get_id_def split: scan_result.splits)

lemma resource_info_readdir [simp]:
  "fpga_pci_get_pci_resource_info (P\<lparr>k_readdir := r\<rparr>) d n = fpga_pci_get_pci_resource_info P d n"
  by (simp add: fpga_pci_get_pci_resource_info_def cong: option.case_cong)

lemma resources_readdir [simp]:
  "fpga_pci_get_resources_loop (P\<lparr>k_readdir := r\<rparr>) d ns found m = fpga_pci_get_resources_loop P d ns found m"
  by (induction ns arbitrary: found m)
    (auto simp: prog_simps fun_eq_iff split: prod.splits sum.splits)

lemma map_ids_readdir [simp]:
  "fpga_pci_get_resource_map_ids (P\<lparr>k_readdir := r\<rparr>) d m = fpga_pci_get_resource_map_ids P d m"
  by (simp add: fpga_pci_get_resource_map_ids_def)

lemma get_resources_readdir [simp]:
  "fpga_pci_get_resources (P\<lparr>k_readdir := r\<rparr>) d m = fpga_pci_get_resources P d m"
  by (simp only: fpga_pci_get_resources_def resources_readdir)

lemma mailbox_at_readdir [simp]: "mailbox_at (P\<lparr>k_readdir := r\<rparr>) s n = mailbox_at P s n"
  by (simp add: mailbox_at_def cong: sum.case_cong if_cong)

lemma resources_readable_readdir [simp]:
  "resources_readable (P\<lparr>k_readdir := r\<rparr>) s n = resources_readable P s n"
  by (simp add: resources_readable_def cong: sum.case_cong if_cong)

definition address :: "fpga_pci_resource_map \<Rightarrow> u16 \<times> u8 \<times> u8 \<times> u8" where
  "address m = (domain m, bus m, dev m, func m)"

definition distinct_addresses :: "fpga_pci_resource_map list \<Rightarrow> bool" where
  "distinct_addresses ms = (distinct (map address ms) \<and> (0, 0, 0, 0) \<notin> set (map address ms))"

lemma slot_key_inj_on_spec_array:
  assumes "distinct_addresses ms"
  shows "inj_on slot_key (set (spec_array_of ms))"
proof -
  have init: "slot_key (zero_slot_spec[FPGA_MGMT_PF := m]) =
      Slot_key (address m = (0, 0, 0, 0)) (domain m) (bus m) (dev m) (func m)" for m
    by (auto simp: slot_key_def zero_slot_spec_def fpga_slot_spec_is_initialized_def Let_def address_def)
  have zero: "slot_key zero_slot_spec = Slot_key True 0 0 0 0"
    by (simp add: slot_key_def zero_slot_spec_def fpga_slot_spec_is_initialized_def Let_def
        zero_resource_map_def)
  have inj: "inj_on address (set ms)" and nz: "\<forall>m \<in> set ms. address m \<noteq> (0, 0, 0, 0)"
    using assms by (auto simp: distinct_addresses_def distinct_map image_iff)
  have sub: "set (spec_array_of ms) \<subseteq> insert zero_slot_spec ((\<lambda>m. zero_slot_spec[FPGA_MGMT_PF := m]) ` set ms)"
    by (auto simp: spec_array_of_def)
  have "inj_on slot_key (insert zero_slot_spec ((\<lambda>m. zero_slot_spec[FPGA_MGMT_PF := m]) ` set ms))"
    using inj nz by (auto simp: inj_on_def init [simplified] zero address_def)
  then show ?thesis using sub by (rule inj_on_subset)
qed

lemma mset_mailboxes: "mset names = mset names' \<Longrightarrow> mset (mailboxes P s names) = mset (mailboxes P s names')"
  by (simp add: mailboxes_def)



section \<open>DBDF names\<close>

lemma uint_less_pow: "uint (w :: 'a::len word) < 2 ^ LENGTH('a)"
  using uint_bounded .

theorem dbdf_roundtrip:
  "fpga_pci_get_dbdf (map_dir_name m) m0 s =
     (Inr (m0\<lparr>domain := domain m, bus := bus m, dev := dev m, func := func m\<rparr>), s)"
proof -
  have "uint (func m) < 2 ^ 31"
    using uint_less_pow [of "func m"] by simp
  then have "sscanf_dbdf (map_dir_name m) =
      Some (word_of_int (uint (domain m)), word_of_int (uint (bus m)),
        word_of_int (uint (dev m)), word_of_int (uint (func m)))"
    unfolding map_dir_name_def
    using uint_less_pow [of "domain m"] uint_less_pow [of "bus m"] uint_less_pow [of "dev m"]
    by (intro sscanf_PCI_DEV_FMT) simp_all
  moreover have "word_of_int (uint w) = (ucast w :: u32)" for w :: u16
    by (rule ucast_eq [symmetric])
  moreover have "word_of_int (uint w) = (ucast w :: u32)" for w :: u8
    by (rule ucast_eq [symmetric])
  ultimately show ?thesis
    by (simp add: fpga_pci_get_dbdf_def prog_simps ucast_up_down)
qed

section \<open>What the scan returns\<close>

lemma resources_loop_ids:
  "fpga_pci_get_resources_loop P d ns found m s = (Inr m', t) \<Longrightarrow>
    vendor_id m' = vendor_id m \<and> device_id m' = device_id m \<and> address m' = address m"
proof (induction P d ns found m arbitrary: s rule: fpga_pci_get_resources_loop.induct)
  case (1 P d found m)
  then show ?case by (auto simp: prog_simps split: if_splits)
next
  case (2 P d n ns found m)
  then show ?case
    by (auto simp: bindE_apply attempt_apply fail_apply address_def
        split: if_splits prod.splits sum.splits)
qed

lemma resources_is_mbox:
  assumes "fpga_pci_get_resources P d m s = (Inr m', t)" and "is_mbox_map m"
  shows "is_mbox_map m'"
  using assms resources_loop_ids [of P d "[0, 1, 2, 4]" False m s m' t]
  by (simp add: fpga_pci_get_resources_def is_mbox_map_def IS_F1_def IS_F2_def)

lemma scan_loop_mboxes:
  assumes "fpga_pci_mbox_scan_loop P names found s = (Inr ms, t)"
    and "\<forall>m \<in> set found. is_mbox_map m" and "length found < FPGA_SLOT_MAX"
  shows "(\<forall>m \<in> set ms. is_mbox_map m) \<and> length ms \<le> FPGA_SLOT_MAX"
  using assms
proof (induction names arbitrary: found s)
  case Nil
  then show ?case by (simp add: prog_simps)
next
  case (Cons n names)
  obtain r u where ids: "fpga_pci_get_resource_map_ids P n zero_resource_map s = (r, u)" by fastforce
  show ?case
  proof (cases "\<exists>m. r = Inr m \<and> is_mbox_map m")
    case False
    with ids Cons.prems(1) have "fpga_pci_mbox_scan_loop P names found u = (Inr ms, t)"
      by (auto simp: prog_simps split: sum.splits)
    with Cons show ?thesis by blast
  next
    case True
    then obtain m where r: "r = Inr m" and m: "is_mbox_map m" by blast
    obtain q v where res: "fpga_pci_get_resources P n m u = (q, v)" by fastforce
    show ?thesis
    proof (cases q)
      case (Inl e)
      with Cons.prems(1) ids r m res show ?thesis by (simp add: prog_simps)
    next
      case (Inr m')
      then have "is_mbox_map m'" using resources_is_mbox res m by blast
      then have found: "\<forall>x \<in> set (found @ [m']). is_mbox_map x" using Cons.prems(2) by simp
      show ?thesis
      proof (cases "FPGA_SLOT_MAX \<le> Suc (length found)")
        case True
        with Cons.prems ids r m res Inr found show ?thesis by (auto simp: prog_simps)
      next
        case False
        with Cons.prems(1) ids r m res Inr
        have "fpga_pci_mbox_scan_loop P names (found @ [m']) v = (Inr ms, t)"
          by (simp add: prog_simps)
        with Cons.IH [of "found @ [m']"] found False show ?thesis by simp
      qed
    qed
  qed
qed

text \<open>Every entry of a scanned array is a mailbox or uninitialised, and the entries are in order.\<close>

definition scanned_array :: "fpga_slot_spec list \<Rightarrow> bool" where
  "scanned_array arr \<longleftrightarrow> sorted (map slot_key arr) \<and>
     (\<forall>spec \<in> set arr. length spec = FPGA_PF_MAX \<and>
        (fpga_slot_spec_is_initialized spec \<longrightarrow> is_mbox_map (spec ! FPGA_MGMT_PF)))"

lemma zero_slot_uninitialized [simp]: "\<not> fpga_slot_spec_is_initialized zero_slot_spec"
  by (simp add: fpga_slot_spec_is_initialized_def zero_slot_spec_def zero_resource_map_def Let_def)

lemma length_zero_slot_spec [simp]: "length zero_slot_spec = FPGA_PF_MAX"
  by (simp add: zero_slot_spec_def)

lemma scanned_array_spec_array:
  assumes "\<forall>m \<in> set ms. is_mbox_map m"
  shows "scanned_array (take n (qsort fpga_pci_slot_spec_compare (spec_array_of ms)))"
proof -
  have "sorted (map slot_key (qsort fpga_pci_slot_spec_compare (spec_array_of ms)))"
    by (rule slot_order.sorted_qsort)
  moreover have "set (take n (qsort fpga_pci_slot_spec_compare (spec_array_of ms))) \<subseteq> set (spec_array_of ms)"
    using set_take_subset [of n] slot_order.mset_qsort by (metis mset_eq_setD)
  moreover have "length spec = FPGA_PF_MAX \<and>
      (fpga_slot_spec_is_initialized spec \<longrightarrow> is_mbox_map (spec ! FPGA_MGMT_PF))"
    if "spec \<in> set (spec_array_of ms)" for spec
    using that assms by (auto simp: spec_array_of_def zero_slot_spec_def
        fpga_slot_spec_is_initialized_def zero_resource_map_def Let_def split: if_splits)
  ultimately show ?thesis
    by (auto simp: scanned_array_def take_map [symmetric] intro!: sorted_wrt_take)
qed

lemma scanned_array_zero: "scanned_array (replicate n zero_slot_spec)"
  by (auto simp: scanned_array_def zero_slot_spec_def) (auto simp flip: zero_slot_spec_def)

lemma length_spec_array: "length ms \<le> FPGA_SLOT_MAX \<Longrightarrow> length (spec_array_of ms) = FPGA_SLOT_MAX"
  by (simp add: spec_array_of_def)

lemma length_qsort: "length (qsort fpga_pci_slot_spec_compare xs) = length xs"
  using slot_order.mset_qsort by (metis size_mset)

lemma mbox_scan_result:
  assumes "fpga_pci_mbox_scan P arr n s = (Inr out, t)"
  obtains "k_readdir P (plat s) ''/sys/bus/pci/devices'' = None" "out = arr"
  | ms where "\<forall>m \<in> set ms. is_mbox_map m" "length ms \<le> FPGA_SLOT_MAX" "ms \<noteq> []"
      "out = take (min n FPGA_SLOT_MAX) (qsort fpga_pci_slot_spec_compare (spec_array_of ms))
         @ drop (min n FPGA_SLOT_MAX) arr"
proof (cases "k_readdir P (plat s) ''/sys/bus/pci/devices''")
  case None
  with assms have "out = arr" by (auto simp: fpga_pci_mbox_scan_def prog_simps split: if_splits)
  with None show thesis by (rule that(1))
next
  case (Some names)
  obtain r u where l: "fpga_pci_mbox_scan_loop P names [] s = (r, u)" by fastforce
  with assms Some obtain ms where r: "r = Inr ms"
    by (cases r) (auto simp: fpga_pci_mbox_scan_def prog_simps)
  have "(\<forall>m \<in> set ms. is_mbox_map m) \<and> length ms \<le> FPGA_SLOT_MAX"
    using scan_loop_mboxes [of P names "[]" s ms u] l r by simp
  moreover have "ms \<noteq> [] \<and> out = take (min n FPGA_SLOT_MAX)
      (qsort fpga_pci_slot_spec_compare (spec_array_of ms)) @ drop (min n FPGA_SLOT_MAX) arr"
    using assms Some l r by (auto simp: fpga_pci_mbox_scan_def prog_simps Let_def split: if_splits)
  ultimately show thesis using that(2) by blast
qed

lemma complete_slot_spec_InrD:
  "fpga_pci_complete_slot_spec P spec s = (Inr spec', t) \<Longrightarrow> \<exists>m. spec' = spec[FPGA_APP_PF := m]"
  by (auto simp: fpga_pci_complete_slot_spec_def prog_simps split: prod.splits sum.splits)

lemma slot_key_app [simp]: "slot_key (spec[FPGA_APP_PF := m]) = slot_key spec"
  by (simp add: slot_key_def fpga_slot_spec_is_initialized_def)

lemma initialized_app [simp]:
  "fpga_slot_spec_is_initialized (spec[FPGA_APP_PF := m]) = fpga_slot_spec_is_initialized spec"
  by (simp add: fpga_slot_spec_is_initialized_def)

lemma scanned_array_update:
  assumes "scanned_array arr" and "i < length arr"
  shows "scanned_array (arr[i := (arr ! i)[FPGA_APP_PF := m]])"
proof -
  have "map slot_key (arr[i := (arr ! i)[FPGA_APP_PF := m]]) = map slot_key arr"
    by (rule nth_equalityI) (use assms(2) in \<open>auto simp: nth_list_update\<close>)
  moreover have "length spec = FPGA_PF_MAX \<and>
      (fpga_slot_spec_is_initialized spec \<longrightarrow> is_mbox_map (spec ! FPGA_MGMT_PF))"
    if spec: "spec \<in> set (arr[i := (arr ! i)[FPGA_APP_PF := m]])" for spec
  proof -
    from spec consider "spec \<in> set arr" | "spec = (arr ! i)[FPGA_APP_PF := m]"
      using set_update_subset_insert [of arr i] by blast
    then show ?thesis
      using assms by cases (auto simp: scanned_array_def)
  qed
  ultimately show ?thesis using assms(1) by (simp add: scanned_array_def)
qed

lemma complete_all_scanned:
  "fpga_pci_complete_all P is arr s = (Inr (rc, out), t) \<Longrightarrow> scanned_array arr \<Longrightarrow>
    \<forall>i \<in> set is. i < length arr \<Longrightarrow> scanned_array out \<and> length out = length arr"
proof (induction P "is" arr arbitrary: s rule: fpga_pci_complete_all.induct)
  case (1 P arr)
  then show ?case by (simp add: prog_simps)
next
  case (2 P i "is" arr)
  show ?case
  proof (cases "fpga_slot_spec_is_initialized (arr ! i)")
    case False
    with 2 show ?thesis by (simp add: prog_simps)
  next
    case True
    obtain r u where c: "fpga_pci_complete_slot_spec P (arr ! i) s = (r, u)" by fastforce
    show ?thesis
    proof (cases r)
      case (Inl e)
      with 2 True c show ?thesis by (simp add: prog_simps)
    next
      case (Inr spec)
      with c obtain m where "spec = (arr ! i)[FPGA_APP_PF := m]"
        using complete_slot_spec_InrD by blast
      then have "scanned_array (arr[i := spec])"
        using 2 by (simp add: scanned_array_update)
      moreover have "fpga_pci_complete_all P is (arr[i := spec]) u = (Inr (rc, out), t)"
        using 2 True c Inr by (simp add: prog_simps)
      ultimately show ?thesis using 2 True Inr by fastforce
    qed
  qed
qed

lemma get_slot_spec_facts:
  assumes "fpga_pci_get_slot_spec P slot_id s = (Inr spec, t)"
  shows "0 \<le> slot_id" and "slot_id < int FPGA_SLOT_MAX" and "length spec = FPGA_PF_MAX"
    and "fpga_slot_spec_is_initialized spec" and "is_mbox_map (spec ! FPGA_MGMT_PF)"
proof -
  show range: "0 \<le> slot_id" "slot_id < int FPGA_SLOT_MAX"
    using assms by (auto simp: fpga_pci_get_slot_spec_def prog_simps split: if_splits)
  let ?n = "min FPGA_SLOT_MAX (nat slot_id + 1)"
  have c: "\<not> (slot_id < 0 \<or> int FPGA_SLOT_MAX \<le> slot_id)" using range by simp
  obtain arr u where scan: "fpga_pci_mbox_scan P (replicate FPGA_SLOT_MAX zero_slot_spec) ?n s = (Inr arr, u)"
    and rest: "bindE (fpga_pci_complete_slot_spec P (arr ! nat slot_id)) (\<lambda>spec.
        if \<not> fpga_slot_spec_is_initialized spec then fail (- ENOENT) else ok spec) u = (Inr spec, t)"
    by (rule bindE_InrE [OF assms [unfolded fpga_pci_get_slot_spec_def if_not_P [OF c]]])
  obtain spec0 v where "fpga_pci_complete_slot_spec P (arr ! nat slot_id) u = (Inr spec0, v)"
    and "(if \<not> fpga_slot_spec_is_initialized spec0 then fail (- ENOENT) else ok spec0) v = (Inr spec, t)"
    by (rule bindE_InrE [OF rest])
  then obtain m where spec: "spec = (arr ! nat slot_id)[FPGA_APP_PF := m]"
    and init: "fpga_slot_spec_is_initialized spec"
    using complete_slot_spec_InrD by (fastforce simp: prog_simps split: if_splits)
  from scan have "scanned_array (take ?n arr) \<and> length arr = FPGA_SLOT_MAX"
  proof (cases rule: mbox_scan_result)
    case 1
    then show ?thesis using scanned_array_zero by (simp del: replicate.simps)
  next
    case (2 ms)
    then show ?thesis
      using scanned_array_spec_array [of ms ?n] by (simp add: length_qsort length_spec_array)
  qed
  moreover have "arr ! nat slot_id \<in> set (take ?n arr)" if "length arr = FPGA_SLOT_MAX"
    using that range by (auto simp: in_set_conv_nth intro!: exI [of _ "nat slot_id"])
  ultimately have "length (arr ! nat slot_id) = FPGA_PF_MAX \<and>
      (fpga_slot_spec_is_initialized (arr ! nat slot_id) \<longrightarrow> is_mbox_map (arr ! nat slot_id ! FPGA_MGMT_PF))"
    by (auto simp: scanned_array_def)
  then show "length spec = FPGA_PF_MAX" "is_mbox_map (spec ! FPGA_MGMT_PF)"
    using spec init by auto
  show "fpga_slot_spec_is_initialized spec" by (rule init)
qed

theorem get_all_slot_specs_sorted:
  assumes "fpga_pci_get_all_slot_specs P (replicate n zero_slot_spec) n s = (Inr (rc, out), t)"
    and "n \<le> FPGA_SLOT_MAX"
  shows "length out = n \<and> scanned_array out"
proof -
  obtain r u where scan: "fpga_pci_mbox_scan P (replicate n zero_slot_spec) n s = (r, u)" by fastforce
  show ?thesis
  proof (cases r)
    case (Inl e)
    with assms(1) scan have "out = replicate n zero_slot_spec"
      by (simp add: fpga_pci_get_all_slot_specs_def prog_simps)
    then show ?thesis using scanned_array_zero by simp
  next
    case (Inr arr')
    with assms(1) scan have all: "fpga_pci_complete_all P [0..<n] arr' u = (Inr (rc, out), t)"
      by (simp add: fpga_pci_get_all_slot_specs_def prog_simps)
    from scan [unfolded Inr] have "scanned_array arr' \<and> length arr' = n"
    proof (cases rule: mbox_scan_result)
      case 1
      then show ?thesis using scanned_array_zero by simp
    next
      case (2 ms)
      then show ?thesis
        using scanned_array_spec_array [of ms n] assms(2) by (simp add: length_qsort length_spec_array min_def)
    qed
    with complete_all_scanned [OF all] show ?thesis by simp
  qed
qed


section \<open>Slots are numbered by address\<close>

lemma slot_key_le_address:
  assumes "address m \<noteq> (0, 0, 0, 0)" "address m' \<noteq> (0, 0, 0, 0)" "address m \<le> address m'"
  shows "slot_key (zero_slot_spec[FPGA_MGMT_PF := m]) \<le> slot_key (zero_slot_spec[FPGA_MGMT_PF := m'])"
  using assms
  by (auto simp: slot_key_def zero_slot_spec_def fpga_slot_spec_is_initialized_def Let_def address_def
      less_eq_slot_key_def word_le_def word_less_def word_uint_eq_iff)

lemma slot_key_le_zero: "slot_key (zero_slot_spec[FPGA_MGMT_PF := m]) \<le> slot_key zero_slot_spec \<or>
    address m = (0, 0, 0, 0)"
  by (auto simp: slot_key_def zero_slot_spec_def fpga_slot_spec_is_initialized_def Let_def address_def
      less_eq_slot_key_def zero_resource_map_def)

lemma sort_spec_array:
  assumes "distinct_addresses ms"
  shows "qsort fpga_pci_slot_spec_compare (spec_array_of ms) = spec_array_of (sort_key address ms)"
proof (rule slot_order.qsort_unique)
  show "mset (spec_array_of (sort_key address ms)) = mset (spec_array_of ms)"
    by (simp add: spec_array_of_def)
  show "inj_on slot_key (set (spec_array_of ms))"
    using assms by (rule slot_key_inj_on_spec_array)
  have nz: "\<forall>m \<in> set (sort_key address ms). address m \<noteq> (0, 0, 0, 0)"
    using assms by (auto simp: distinct_addresses_def image_iff)
  then have "sorted (map slot_key (map (\<lambda>m. zero_slot_spec[FPGA_MGMT_PF := m]) (sort_key address ms)))"
    using sorted_sort_key [of address ms]
    by (simp only: sorted_map sorted_wrt_map)
      (erule sorted_wrt_mono_rel [rotated], blast intro: slot_key_le_address)
  moreover have "\<forall>m \<in> set (sort_key address ms).
      slot_key (zero_slot_spec[FPGA_MGMT_PF := m]) \<le> slot_key zero_slot_spec"
    using nz slot_key_le_zero by blast
  ultimately show "sorted (map slot_key (spec_array_of (sort_key address ms)))"
    by (auto simp: spec_array_of_def sorted_append)
qed


text \<open>A bus with two mailboxes and an entry that is no device, listed out of order.\<close>

definition demo_bus :: "demo pci_st" where
  "demo_bus = \<lparr>bars = [], plat = demo_h [''0000:35:00.1'', ''.'', ''0000:34:00.1'']\<rparr>"

lemma demo_bus_scan:
  "k_readdir demo_platform (plat demo_bus) ''/sys/bus/pci/devices'' =
     Some [''0000:35:00.1'', ''.'', ''0000:34:00.1'']"
  "\<forall>n \<in> set [''0000:35:00.1'', ''.'', ''0000:34:00.1'']. resources_readable demo_platform demo_bus n"
  "map address (mailboxes demo_platform demo_bus [''0000:35:00.1'', ''.'', ''0000:34:00.1'']) =
     [(0, 0x35, 0, 1), (0, 0x34, 0, 1)]"
  by (simp add: demo_bus_def demo_h_def) code_simp+

lemma demo_bus_returns:
  "\<not> isl (fst (fpga_pci_get_slot_spec demo_platform 1 demo_bus))"

  by code_simp


theorem get_all_slot_specs_sorted_witness:
  "\<exists>rc out t. fpga_pci_get_all_slot_specs demo_platform (replicate 8 zero_slot_spec) 8 demo_bus =
     (Inr (rc, out), t) \<and> length out = 8 \<and> scanned_array out"
proof -
  have "\<not> isl (fst (fpga_pci_get_all_slot_specs demo_platform (replicate 8 zero_slot_spec) 8 demo_bus))"
    by code_simp
  then obtain rc out t where all:
    "fpga_pci_get_all_slot_specs demo_platform (replicate 8 zero_slot_spec) 8 demo_bus = (Inr (rc, out), t)"
    by (cases "fpga_pci_get_all_slot_specs demo_platform (replicate 8 zero_slot_spec) 8 demo_bus";
        cases "fst (fpga_pci_get_all_slot_specs demo_platform (replicate 8 zero_slot_spec) 8 demo_bus)")
      auto
  show ?thesis using all get_all_slot_specs_sorted [OF all] by blast
qed

section \<open>Waiting for the application function\<close>

text \<open>
  Waiting for the removal is polling: it succeeds when one of four looks, one sleep of a second
  apart, does not find the file.
\<close>

lemma check_removed_step:
  "fst (fpga_pci_check_app_pf_loop P path False n s) =
     (if k_stat P (plat s) path = None then Inr ()
      else if FPGA_CHECK_APP_PF_MAX_RETRIES \<le> n then Inl FPGA_ERR_UNRESPONSIVE
      else fst (fpga_pci_check_app_pf_loop P path False (Suc n) (s\<lparr>plat := k_nanosleep P 1000 (plat s)\<rparr>)))"
  by (subst fpga_pci_check_app_pf_loop.simps) (simp add: prog_simps)

lemma check_removed_loop:
  "fst (fpga_pci_check_app_pf_loop P path False 0 s) =
     (if \<exists>k \<le> 3. k_stat P ((k_nanosleep P 1000 ^^ k) (plat s)) path = None then Inr ()
      else Inl FPGA_ERR_UNRESPONSIVE)"
proof -
  have "(\<exists>k \<le> 3. Q k) = (Q 0 \<or> Q (Suc 0) \<or> Q (Suc (Suc 0)) \<or> Q (Suc (Suc (Suc 0))))" for Q :: "nat \<Rightarrow> bool"
    by (auto simp: numeral_3_eq_3 le_Suc_eq)
  then show ?thesis
    by (simp add: check_removed_step [of P path 0] check_removed_step [of P path "Suc 0"]
        check_removed_step [of P path "Suc (Suc 0)"] check_removed_step [of P path "Suc (Suc (Suc 0))"])
qed

lemma unat_of_int_le: "0 \<le> i \<Longrightarrow> unat (word_of_int i :: 'a::len word) \<le> nat i"
  unfolding unat_eq_nat_uint uint_word_of_int_eq
  by (intro nat_mono) (simp add: take_bit_int_less_eq_self_iff)

lemma length_map_dir_name: "length (map_dir_name m) \<le> 14"
proof -
  have x: "length (fmt_x w (unat (word_of_int (uint v) :: u32))) = w"
    if "unat (word_of_int (uint v) :: u32) < 16 ^ w" "0 < w" for w and v :: "'b::len word"
    using fmt_x_facts(1) that by blast
  have u: "unat (word_of_int i :: u32) < 16 ^ w" if "0 \<le> i" "i < 16 ^ w" for i w
  proof -
    have "nat i < 16 ^ w" using that by (simp add: nat_less_iff)
    with unat_of_int_le [OF that(1), where 'a = 32] show ?thesis by linarith
  qed
  have u16: "unat (word_of_int (uint v) :: u32) < 16 ^ 4" for v :: u16
    using u [of "uint v" 4] uint_less_pow [of v] by simp
  have u8: "unat (word_of_int (uint v) :: u32) < 16 ^ 2" for v :: u8
    using u [of "uint v" 2] uint_less_pow [of v] by simp
  have "nat (uint (func m)) < 10 ^ Suc 2"
    using uint_less_pow [of "func m"] by (simp only: nat_less_iff uint_nonnegative) simp
  then have "length (fmt_d (uint (func m))) \<le> 3"
    using length_digits_of [of 10 "nat (uint (func m))" 2] by (simp add: fmt_d_def)
  then show ?thesis
    using x [OF u16 [of "domain m"]] x [OF u8 [of "bus m"]] x [OF u8 [of "dev m"]]
    by (simp add: map_dir_name_def PCI_DEV_FMT_def)
qed

theorem check_app_pf_removed:
  "fst (fpga_pci_check_app_pf P m False s) =
     (if \<exists>k \<le> 3. k_stat P ((k_nanosleep P 1000 ^^ k) (plat s)) (sysfs_dev (map_dir_name m) []) = None
      then Inr () else Inl FPGA_ERR_UNRESPONSIVE)"
proof -
  have "length (sysfs_dev (map_dir_name m) []) < NAME_BUF" "length (map_dir_name m) < NAME_BUF"
    using length_map_dir_name [of m] by (simp_all add: sysfs_dev_def)
  then show ?thesis
    by (simp add: fpga_pci_check_app_pf_def fpga_pci_check_app_pf_sysfs_def snprintf_checked_def
        check_removed_loop)
qed

lemma check_loop_post:
  "fpga_pci_check_app_pf_loop P path ex n s = (Inr (), t) \<Longrightarrow> (k_stat P (plat t) path \<noteq> None) = ex"
proof (induction P path ex n arbitrary: s rule: fpga_pci_check_app_pf_loop.induct)
  case (1 P path ex n)
  from "1.prems" consider "s = t" "(k_stat P (plat s) path \<noteq> None) = ex"
    | u where "\<not> FPGA_CHECK_APP_PF_MAX_RETRIES \<le> n" "(k_stat P (plat s) path \<noteq> None) \<noteq> ex"
        "fpga_pci_check_app_pf_loop P path ex (Suc n) u = (Inr (), t)"
    by (subst (asm) fpga_pci_check_app_pf_loop.simps)
      (auto simp: bindE_apply gets_apply ok_apply fail_apply msleep_apply split: if_splits prod.splits sum.splits)
  then show ?case
    by cases (use "1.IH" in \<open>auto simp del: not_None_eq\<close>)
qed

text \<open>
  A budget: when a sleep costs at most one and a write of a file costs nothing, waiting costs at most
  three sleeps.
\<close>

definition budget :: "'h platform \<Rightarrow> ('h \<Rightarrow> nat) \<Rightarrow> bool" where
  "budget P cost \<longleftrightarrow> (\<forall>ms h. cost (k_nanosleep P ms h) \<le> Suc (cost h)) \<and>
     (\<forall>h path buf. cost (snd (k_write P h path buf)) \<le> cost h)"

lemma budget_write_loop: "budget P cost \<Longrightarrow> cost (snd (write_loop P path buf h)) \<le> cost h"
proof (induction P path buf h rule: write_loop.induct)
  case (1 P path buf h)
  obtain c h' where w: "k_write P h path buf = (c, h')" by fastforce
  have le: "cost h' \<le> cost h" using "1.prems" w unfolding budget_def by (metis snd_conv)
  show ?case
  proof (cases "buf = [] \<or> c \<le> 0")
    case True
    then show ?thesis using w le by (subst write_loop.simps) auto
  next
    case False
    then have "cost (snd (write_loop P path (drop (nat c) buf) h')) \<le> cost h'"
      using "1.IH" [OF _ w [symmetric]] "1.prems" by auto
    then show ?thesis using False w le by (subst write_loop.simps) auto
  qed
qed

lemma budget_rescan: "budget P cost \<Longrightarrow> cost (plat (snd (fpga_pci_rescan P s))) \<le> cost (plat s)"
  using budget_write_loop [of P cost]
  by (simp add: fpga_pci_rescan_def fpga_pci_write_one2file_def prog_simps snprintf_checked_def
      split: prod.splits) (metis snd_conv)

lemma budget_check_loop:
  "budget P cost \<Longrightarrow> n \<le> FPGA_CHECK_APP_PF_MAX_RETRIES \<Longrightarrow>
    cost (plat (snd (fpga_pci_check_app_pf_loop P path ex n s)))
      \<le> cost (plat s) + (FPGA_CHECK_APP_PF_MAX_RETRIES - n)"
proof (induction P path ex n arbitrary: s rule: fpga_pci_check_app_pf_loop.induct)
  case (1 P path ex n)
  show ?case
  proof (cases "(k_stat P (plat s) path \<noteq> None) = ex \<or> FPGA_CHECK_APP_PF_MAX_RETRIES \<le> n")
    case True
    then show ?thesis by (subst fpga_pci_check_app_pf_loop.simps) (auto simp: prog_simps)
  next
    case False
    obtain r u where pre: "(if ex then fpga_pci_rescan P else ok ()) s = (r, u)" by fastforce
    then have u: "cost (plat u) \<le> cost (plat s)"
      using budget_rescan [OF "1.prems"(1), of s] by (auto simp: prog_simps split: if_splits)
    let ?v = "u\<lparr>plat := k_nanosleep P 1000 (plat u)\<rparr>"
    have v: "cost (plat ?v) \<le> Suc (cost (plat u))" using "1.prems"(1) by (simp add: budget_def)
    show ?thesis
    proof (cases r)
      case (Inl e)
      then show ?thesis
        using False pre u by (subst fpga_pci_check_app_pf_loop.simps) (auto simp: prog_simps)
    next
      case (Inr x)
      have "cost (plat (snd (fpga_pci_check_app_pf_loop P path ex (Suc n) ?v)))
          \<le> cost (plat ?v) + (FPGA_CHECK_APP_PF_MAX_RETRIES - Suc n)"
        by (rule "1.IH" [of "k_stat P (plat s) path"]) (use "1.prems" False in auto)
      moreover have "fpga_pci_check_app_pf_loop P path ex n s = fpga_pci_check_app_pf_loop P path ex (Suc n) ?v"
        using False pre Inr by (subst fpga_pci_check_app_pf_loop.simps) (auto simp: prog_simps)
      ultimately show ?thesis using u v False by simp
    qed
  qed
qed

theorem check_app_pf_bounded:
  assumes "budget P cost"
  shows "cost (plat (snd (fpga_pci_check_app_pf P m ex s))) \<le> cost (plat s) + 3 \<and>
    (fst (fpga_pci_check_app_pf P m ex s) = Inr () \<longrightarrow>
      (k_stat P (plat (snd (fpga_pci_check_app_pf P m ex s))) (sysfs_dev (map_dir_name m) []) \<noteq> None) = ex)"
proof -
  have "length (sysfs_dev (map_dir_name m) []) < NAME_BUF" "length (map_dir_name m) < NAME_BUF"
    using length_map_dir_name [of m] by (simp_all add: sysfs_dev_def)
  then have "fpga_pci_check_app_pf P m ex s =
      fpga_pci_check_app_pf_loop P (sysfs_dev (map_dir_name m) []) ex 0 s"
    by (simp add: fpga_pci_check_app_pf_def fpga_pci_check_app_pf_sysfs_def snprintf_checked_def)
  then show ?thesis
    using budget_check_loop [OF assms, of 0 "sysfs_dev (map_dir_name m) []" ex s]
      check_loop_post [of P "sysfs_dev (map_dir_name m) []" ex 0 s]
    by (simp add: prod_eq_iff del: not_None_eq)
qed

theorem check_app_pf_bounded_witness:
  "demo_sleeps (plat (snd (fpga_pci_check_app_pf demo_platform zero_resource_map False demo_bus))) \<le> 3"
proof -
  have "budget demo_platform demo_sleeps" by (simp add: budget_def)
  from check_app_pf_bounded [OF this, of zero_resource_map False demo_bus] show ?thesis
    by (simp add: demo_bus_def demo_h_def)
qed

end
