(* ===== verification/Pci_Bars.thy ===== *)
theory Pci_Bars
  imports Pci_Slots
begin

text \<open>
  \<open>sdk/userspace/fpga_libs/fpga_pci/fpga_pci.c\<close>: the table of mapped BARs and the accesses through
  it. A handle is an index of the table; attaching looks the slot up in sysfs, maps the resource of
  the BAR and stores the mapping; every access checks its range against the size of the mapping and
  becomes a load or store of the device memory. Pointers are 64-bit addresses, NULL is 0. The
  address arithmetic is that of \<open>uint64_t\<close>, so the sum in the range check wraps.
\<close>

abbreviation (input) FPGA_PCI_BARS_MAX :: nat where "FPGA_PCI_BARS_MAX \<equiv> 80"
abbreviation (input) PCI_BAR_HANDLE_INIT :: int where "PCI_BAR_HANDLE_INIT \<equiv> -1"
abbreviation (input) BURST_CAPABLE :: u32 where "BURST_CAPABLE \<equiv> 1"

section \<open>The table\<close>

definition zero_bar :: fpga_pci_bar where
  "zero_bar = \<lparr>allocated = False, mem_base = 0, mem_size = 0\<rparr>"

definition fpga_pci_bar_get :: "int \<Rightarrow> nat option" where
  "fpga_pci_bar_get handle =
     (if handle < 0 \<or> int FPGA_PCI_BARS_MAX \<le> handle then None else Some (nat handle))"

definition fpga_pci_bar_set_mem_base_size ::
  "int \<Rightarrow> u64 \<Rightarrow> u64 \<Rightarrow> (('h, 'z) pci_st_scheme, unit) prog" where
  "fpga_pci_bar_set_mem_base_size handle base sz =
     (case fpga_pci_bar_get handle of
        None \<Rightarrow> fail (- EINVAL)
      | Some i \<Rightarrow>
          if base = 0 then fail (- EINVAL)
          else if sz = 0 then fail (- EINVAL)
          else modify (\<lambda>s. s\<lparr>bars := (bars s)[i := (bars s ! i)\<lparr>mem_base := base, mem_size := sz\<rparr>]\<rparr>))"

text \<open>The address of an access, or NULL. All sums are \<open>uint64_t\<close>.\<close>

definition fpga_pci_bar_get_mem_at_offset ::
  "fpga_pci_bar list \<Rightarrow> int \<Rightarrow> u64 \<Rightarrow> u64 \<Rightarrow> u64" where
  "fpga_pci_bar_get_mem_at_offset bs handle offset xaction_size =
     (case fpga_pci_bar_get handle of
        None \<Rightarrow> 0
      | Some i \<Rightarrow>
          let bar = bs ! i in
          if \<not> allocated bar then 0
          else if mem_base bar = 0 then 0
          else if offset + xaction_size > mem_size bar then 0
          else mem_base bar + offset)"

text \<open>The first entry that is not allocated.\<close>

fun first_free :: "fpga_pci_bar list \<Rightarrow> nat \<Rightarrow> nat option" where
  "first_free [] i = None"
| "first_free (b # bs) i = (if \<not> allocated b then Some i else first_free bs (Suc i))"

definition fpga_pci_bar_alloc :: "(('h, 'z) pci_st_scheme, int) prog" where
  "fpga_pci_bar_alloc = (\<lambda>s.
     case first_free (bars s) 0 of
       None \<Rightarrow> (Inl (- ENOMEM), s)
     | Some i \<Rightarrow> (Inr (int i), s\<lparr>bars := (bars s)[i := (bars s ! i)\<lparr>allocated := True\<rparr>]\<rparr>))"

definition fpga_pci_bar_free :: "int \<Rightarrow> (('h, 'z) pci_st_scheme, unit) prog" where
  "fpga_pci_bar_free handle =
     (case fpga_pci_bar_get handle of
        None \<Rightarrow> fail (- EINVAL)
      | Some i \<Rightarrow> modify (\<lambda>s. s\<lparr>bars := (bars s)[i := zero_bar]\<rparr>))"

section \<open>Attaching and detaching\<close>

definition fpga_pci_check_file_id ::
  "'h platform \<Rightarrow> string \<Rightarrow> u16 \<Rightarrow> (('h, 'z) pci_st_scheme, unit) prog" where
  "fpga_pci_check_file_id P path i = (\<lambda>s.
     case k_scan_hex P (plat s) path of
       Open_error e \<Rightarrow> (Inl (- e), s)
     | Scan_eof \<Rightarrow> (Inl (- EINVAL), s)
     | Scan_no_match \<Rightarrow> (if c_indet P (plat s) \<noteq> ucast i then (Inl (- EINVAL), s) else (Inr (), s))
     | Scan_value tmp_id \<Rightarrow> (if tmp_id \<noteq> ucast i then (Inl (- EINVAL), s) else (Inr (), s)))"

text \<open>
  The exit through \<open>err_unmap\<close> of \<open>fpga_pci_bar_attach\<close>: \<open>ret\<close> is overwritten by the result of
  \<open>munmap\<close>, so a failure that is unmapped successfully is reported as 0, with the handle still \<open>-1\<close>.
\<close>

definition bar_attach_unmap ::
  "'h platform \<Rightarrow> u64 \<Rightarrow> u64 \<Rightarrow> int \<Rightarrow> (('h, 'z) pci_st_scheme, int) prog" where
  "bar_attach_unmap P base sz ret =
     (if base \<noteq> 0 then
        bindE (on_plat (\<lambda>h. k_munmap P h base sz)) (\<lambda>unmapped.
        ret_code (if unmapped then 0 else -1) PCI_BAR_HANDLE_INIT)
      else ret_code ret PCI_BAR_HANDLE_INIT)"

text \<open>The first part of \<open>fpga_pci_bar_attach\<close>: the ids are checked and the resource is mapped.\<close>

definition bar_attach_map ::
  "'h platform \<Rightarrow> fpga_pci_resource_map \<Rightarrow> nat \<Rightarrow> bool \<Rightarrow> (('h, 'z) pci_st_scheme, u64) prog" where
  "bar_attach_map P m bar_id write_combining =
     bindE (snprintf_checked NAME_BUF (sysfs_dev (map_dir_name m) ''/vendor'')) (\<lambda>f1.
     bindE (or_code (fpga_pci_check_file_id P f1 (vendor_id m)) FPGA_ERR_PCI_MISSING) (\<lambda>_.
     bindE (snprintf_checked NAME_BUF (sysfs_dev (map_dir_name m) ''/device'')) (\<lambda>f2.
     bindE (or_code (fpga_pci_check_file_id P f2 (device_id m)) FPGA_ERR_PCI_MISSING) (\<lambda>_.
     let wc_suffix = (if resource_burstable m ! bar_id \<and> write_combining then ''_wc'' else []) in
     bindE (snprintf_checked NAME_BUF
       (sysfs_dev (map_dir_name m) (''/resource'' @ fmt_d (int bar_id) @ wc_suffix))) (\<lambda>f3.
     bindE (gets (\<lambda>s. k_open P (plat s) f3 O_RDWR_SYNC)) (\<lambda>opened.
     bindE (fail_on (\<not> opened) FPGA_ERR_UNRESPONSIVE) (\<lambda>_.
     bindE (on_plat (\<lambda>h. k_mmap P h f3 (resource_size m ! bar_id))) (\<lambda>mapped.
     case mapped of None \<Rightarrow> fail FPGA_ERR_UNRESPONSIVE | Some base \<Rightarrow> ok base))))))))"

text \<open>The second part: an entry of the table is allocated and filled in.\<close>

definition bar_attach_alloc ::
  "'h platform \<Rightarrow> u64 \<Rightarrow> u64 \<Rightarrow> (('h, 'z) pci_st_scheme, int) prog" where
  "bar_attach_alloc P base sz =
     bindE (attempt fpga_pci_bar_alloc) (\<lambda>r.
     case r of
       Inl _ \<Rightarrow> bar_attach_unmap P base sz (- ENOMEM)
     | Inr tmp_handle \<Rightarrow>
         bindE (attempt (fpga_pci_bar_set_mem_base_size tmp_handle base sz)) (\<lambda>r2.
         case r2 of
           Inl e \<Rightarrow> bar_attach_unmap P base sz e
         | Inr _ \<Rightarrow> ok tmp_handle))"

text \<open>
  The result is the \<open>*handle\<close> of a call that returns 0. On failure \<open>*handle\<close> is \<open>-1\<close>, which is also
  what every caller in the library initialises it to.
\<close>

definition fpga_pci_bar_attach ::
  "'h platform \<Rightarrow> fpga_slot_spec \<Rightarrow> nat \<Rightarrow> nat \<Rightarrow> bool \<Rightarrow> (('h, 'z) pci_st_scheme, int) prog" where
  "fpga_pci_bar_attach P spec pf_id bar_id write_combining =
     (let m = spec ! pf_id in
      bindE (bar_attach_map P m bar_id write_combining) (\<lambda>base.
      bar_attach_alloc P base (resource_size m ! bar_id)))"

definition fpga_pci_attach ::
  "'h platform \<Rightarrow> int \<Rightarrow> int \<Rightarrow> int \<Rightarrow> u32 \<Rightarrow> (('h, 'z) pci_st_scheme, int) prog" where
  "fpga_pci_attach P slot_id pf_id bar_id flags =
     (if pf_id < 0 \<or> int FPGA_PF_MAX \<le> pf_id then fail (- EINVAL)
      else if bar_id < 0 \<or> int FPGA_BAR_PER_PF_MAX \<le> bar_id then fail (- EINVAL)
      else
        bindE (fpga_pci_get_slot_spec P slot_id) (\<lambda>spec.
        bindE (fail_on (flags AND BURST_CAPABLE \<noteq> 0 \<and>
            \<not> resource_burstable (spec ! nat pf_id) ! nat bar_id) (- EINVAL)) (\<lambda>_.
        fpga_pci_bar_attach P spec (nat pf_id) (nat bar_id) (flags AND BURST_CAPABLE \<noteq> 0))))"

definition fpga_pci_detach :: "'h platform \<Rightarrow> int \<Rightarrow> (('h, 'z) pci_st_scheme, unit) prog" where
  "fpga_pci_detach P handle =
     (case fpga_pci_bar_get handle of
        None \<Rightarrow> fail (- EINVAL)
      | Some i \<Rightarrow>
          bindE (gets (\<lambda>s. bars s ! i)) (\<lambda>bar.
          bindE (on_plat (\<lambda>h. k_munmap P h (mem_base bar) (mem_size bar))) (\<lambda>unmapped.
          bindE (fail_on (\<not> unmapped) (- EINVAL)) (\<lambda>_.
          or_code (fpga_pci_bar_free handle) (- EINVAL)))))"

section \<open>Register accesses\<close>

text \<open>The pointer to the register, or the failure of every access to an invalid range.\<close>

definition reg_ptr :: "int \<Rightarrow> u64 \<Rightarrow> u64 \<Rightarrow> (('h, 'z) pci_st_scheme, u64) prog" where
  "reg_ptr handle offset xaction_size =
     bindE (gets (\<lambda>s. fpga_pci_bar_get_mem_at_offset (bars s) handle offset xaction_size)) (\<lambda>p.
     if p = 0 then fail (- EINVAL) else ok p)"

definition fpga_pci_poke :: "'h platform \<Rightarrow> int \<Rightarrow> u64 \<Rightarrow> u32 \<Rightarrow> (('h, 'z) pci_st_scheme, unit) prog" where
  "fpga_pci_poke P handle offset value =
     bindE (reg_ptr handle offset 4) (\<lambda>p. on_plat (\<lambda>h. ((), m_store32 P h p value)))"

definition fpga_pci_poke8 :: "'h platform \<Rightarrow> int \<Rightarrow> u64 \<Rightarrow> u8 \<Rightarrow> (('h, 'z) pci_st_scheme, unit) prog" where
  "fpga_pci_poke8 P handle offset value =
     bindE (reg_ptr handle offset 1) (\<lambda>p. on_plat (\<lambda>h. ((), m_store8 P h p value)))"

definition fpga_pci_poke64 :: "'h platform \<Rightarrow> int \<Rightarrow> u64 \<Rightarrow> u64 \<Rightarrow> (('h, 'z) pci_st_scheme, unit) prog" where
  "fpga_pci_poke64 P handle offset value =
     bindE (reg_ptr handle offset 8) (\<lambda>p. on_plat (\<lambda>h. ((), m_store64 P h p value)))"

definition fpga_pci_peek :: "'h platform \<Rightarrow> int \<Rightarrow> u64 \<Rightarrow> (('h, 'z) pci_st_scheme, u32) prog" where
  "fpga_pci_peek P handle offset = bindE (reg_ptr handle offset 4) (\<lambda>p. on_plat (\<lambda>h. m_load32 P h p))"

definition fpga_pci_peek8 :: "'h platform \<Rightarrow> int \<Rightarrow> u64 \<Rightarrow> (('h, 'z) pci_st_scheme, u8) prog" where
  "fpga_pci_peek8 P handle offset = bindE (reg_ptr handle offset 1) (\<lambda>p. on_plat (\<lambda>h. m_load8 P h p))"

definition fpga_pci_peek64 :: "'h platform \<Rightarrow> int \<Rightarrow> u64 \<Rightarrow> (('h, 'z) pci_st_scheme, u64) prog" where
  "fpga_pci_peek64 P handle offset = bindE (reg_ptr handle offset 8) (\<lambda>p. on_plat (\<lambda>h. m_load64 P h p))"

text \<open>\<open>for (i = 0; i < dword_len; ++i) reg_ptr[i] = datap[i];\<close>\<close>

definition store_dwords :: "'h platform \<Rightarrow> u64 \<Rightarrow> (nat \<Rightarrow> u32) \<Rightarrow> nat \<Rightarrow> 'h \<Rightarrow> 'h" where
  "store_dwords P p datap n h = foldl (\<lambda>h i. m_store32 P h (p + 4 * of_nat i) (datap i)) h [0..<n]"

definition fpga_pci_write_burst ::
  "'h platform \<Rightarrow> int \<Rightarrow> u64 \<Rightarrow> (nat \<Rightarrow> u32) \<Rightarrow> u64 \<Rightarrow> (('h, 'z) pci_st_scheme, unit) prog" where
  "fpga_pci_write_burst P handle offset datap dword_len =
     bindE (reg_ptr handle offset (4 * dword_len)) (\<lambda>p.
     on_plat (\<lambda>h. ((), store_dwords P p datap (unat dword_len) h)))"

definition fpga_pci_get_address :: "int \<Rightarrow> u64 \<Rightarrow> u64 \<Rightarrow> (('h, 'z) pci_st_scheme, u64) prog" where
  "fpga_pci_get_address handle offset len = reg_ptr handle offset len"

definition fpga_pci_memset ::
  "'h platform \<Rightarrow> int \<Rightarrow> u64 \<Rightarrow> u32 \<Rightarrow> u64 \<Rightarrow> (('h, 'z) pci_st_scheme, unit) prog" where
  "fpga_pci_memset P handle offset value dword_len =
     bindE (reg_ptr handle offset (4 * dword_len)) (\<lambda>p.
     on_plat (\<lambda>h. ((), store_dwords P p (\<lambda>_. value) (unat dword_len) h)))"

section \<open>Handles\<close>

text \<open>
  A table of handles: what the attach and detach paths rely on from the allocator. \<open>used\<close> is the set
  of handles in use and \<open>cap\<close> the capacity of the table.
\<close>

locale handle_table =
  fixes alloc :: "('s, int) prog"
    and free :: "int \<Rightarrow> ('s, unit) prog"
    and used :: "'s \<Rightarrow> int set"
    and inv :: "'s \<Rightarrow> bool"
    and cap :: nat
  assumes used_range: "inv s \<Longrightarrow> used s \<subseteq> {0..<int cap}"
    and alloc_Inr: "inv s \<Longrightarrow> alloc s = (Inr h, t) \<Longrightarrow>
      inv t \<and> h \<in> {0..<int cap} - used s \<and> used t = insert h (used s)"
    and alloc_Inl: "inv s \<Longrightarrow> alloc s = (Inl e, t) \<Longrightarrow> t = s \<and> used s = {0..<int cap}"
    and free_used: "inv s \<Longrightarrow> h \<in> used s \<Longrightarrow>
      \<exists>t. free h s = (Inr (), t) \<and> inv t \<and> used t = used s - {h}"
begin

lemma finite_used: "inv s \<Longrightarrow> finite (used s)"
  using used_range finite_subset by blast

lemma card_used: "inv s \<Longrightarrow> card (used s) \<le> cap"
  using card_mono [OF _ used_range] by fastforce

lemma alloc_fails_iff: "inv s \<Longrightarrow> isl (fst (alloc s)) \<longleftrightarrow> card (used s) = cap"
proof -
  assume I: "inv s"
  obtain r t where a: "alloc s = (r, t)" by fastforce
  show ?thesis
  proof (cases r)
    case (Inl e)
    then show ?thesis using a I alloc_Inl [of s e t] by simp
  next
    case (Inr h)
    then have "h \<in> {0..<int cap}" "h \<notin> used s" using a I alloc_Inr [of s h t] by auto
    then have "card (used s) < card {0..<int cap}"
      using used_range [OF I] by (intro psubset_card_mono) auto
    then show ?thesis using a Inr by simp
  qed
qed

lemma alloc_free:
  assumes "inv s" and "alloc s = (Inr h, t)"
  obtains u where "free h t = (Inr (), u)" and "used u = used s"
  using assms free_used [of t h] alloc_Inr [of s h t] that by auto

text \<open>Successive allocations give distinct new handles, as many as there are free entries.\<close>

lemma times_alloc:
  assumes "inv s" and "times n alloc s = (Inr hs, t)"
  shows "inv t \<and> length hs = n \<and> distinct hs \<and> set hs \<inter> used s = {} \<and> used t = set hs \<union> used s"
  using assms
proof (induction n arbitrary: s hs)
  case 0
  then show ?case by (simp add: prog_simps)
next
  case (Suc n)
  then obtain h u hs' where a: "alloc s = (Inr h, u)" and r: "times n alloc u = (Inr hs', t)"
    and hs: "hs = h # hs'"
    by (auto simp: prog_simps split: prod.splits sum.splits)
  note one = alloc_Inr [OF Suc.prems(1) a]
  have "inv t \<and> length hs' = n \<and> distinct hs' \<and> set hs' \<inter> used u = {} \<and> used t = set hs' \<union> used u"
    using one r by (intro Suc.IH) auto
  then show ?case using one hs by auto
qed

lemma times_alloc_iff:
  assumes "inv s"
  shows "isl (fst (times n alloc s)) \<longleftrightarrow> cap < card (used s) + n"
  using assms
proof (induction n arbitrary: s)
  case 0
  then show ?case using card_used [of s] by (simp add: prog_simps not_less)
next
  case (Suc n)
  obtain r u where a: "alloc s = (r, u)" by fastforce
  show ?case
  proof (cases r)
    case (Inl e)
    then show ?thesis
      using a Suc.prems alloc_fails_iff [of s] by (simp add: prog_simps)
  next
    case (Inr h)
    then have u: "inv u" "card (used u) = Suc (card (used s))"
      using a Suc.prems alloc_Inr [of s h u] finite_used [of s] by auto
    have "isl (fst (times (Suc n) alloc s)) = isl (fst (times n alloc u))"
      using a Inr by (simp add: prog_simps split: prod.splits sum.splits)
    then show ?thesis using Suc.IH [OF u(1)] u(2) by simp
  qed
qed

end

text \<open>
  The invariant of the table: its size never changes, and an entry that is not allocated is zero.
\<close>

definition bars_inv :: "fpga_pci_bar list \<Rightarrow> bool" where
  "bars_inv bs \<longleftrightarrow> length bs = FPGA_PCI_BARS_MAX \<and> (\<forall>b \<in> set bs. \<not> allocated b \<longrightarrow> b = zero_bar)"

definition used_handles :: "fpga_pci_bar list \<Rightarrow> int set" where
  "used_handles bs = {h. 0 \<le> h \<and> h < int (length bs) \<and> allocated (bs ! nat h)}"

lemma first_free_Some:
  "first_free bs k = Some i \<Longrightarrow>
    k \<le> i \<and> i < k + length bs \<and> \<not> allocated (bs ! (i - k)) \<and> (\<forall>j < i - k. allocated (bs ! j))"
proof (induction bs k rule: first_free.induct)
  case (2 b bs k)
  show ?case
  proof (cases "allocated b")
    case True
    with 2 have IH: "Suc k \<le> i \<and> i < Suc k + length bs \<and> \<not> allocated (bs ! (i - Suc k)) \<and>
        (\<forall>j < i - Suc k. allocated (bs ! j))" by simp
    then have "i - k = Suc (i - Suc k)" by linarith
    with IH True show ?thesis by (auto simp: nth_Cons split: nat.splits)
  qed (use 2 in auto)
qed simp

lemma first_free_None: "first_free bs k = None \<longleftrightarrow> (\<forall>b \<in> set bs. allocated b)"
  by (induction bs k rule: first_free.induct) auto

lemma used_handles_update:
  "i < length bs \<Longrightarrow> used_handles (bs[i := b]) =
    (if allocated b then insert (int i) (used_handles bs) else used_handles bs - {int i})"
  by (auto simp: used_handles_def nth_list_update)

lemma used_handles_all: "(\<forall>b \<in> set bs. allocated b) \<Longrightarrow> used_handles bs = {0..<int (length bs)}"
  by (auto simp: used_handles_def all_set_conv_all_nth)

lemma bars_inv_update:
  "bars_inv bs \<Longrightarrow> allocated b \<or> b = zero_bar \<Longrightarrow> bars_inv (bs[i := b])"
  using set_update_subset_insert [of bs i b] by (auto simp: bars_inv_def)

lemma bar_alloc_Inr:
  assumes "fpga_pci_bar_alloc s = (Inr h, t)"
  obtains i where "h = int i" "i < length (bars s)" "\<not> allocated (bars s ! i)"
    "\<forall>j < i. allocated (bars s ! j)"
    "t = s\<lparr>bars := (bars s)[i := (bars s ! i)\<lparr>allocated := True\<rparr>]\<rparr>"
  using assms first_free_Some [of "bars s" 0]
  by (auto simp: fpga_pci_bar_alloc_def split: option.splits)

interpretation bar_table: handle_table "fpga_pci_bar_alloc :: (('h, 'z) pci_st_scheme, int) prog"
  fpga_pci_bar_free "\<lambda>s. used_handles (bars s)" "\<lambda>s. bars_inv (bars s)" FPGA_PCI_BARS_MAX
proof unfold_locales
  fix s t :: "('h, 'z) pci_st_scheme" and h e :: int
  assume I: "bars_inv (bars s)"
  then show "used_handles (bars s) \<subseteq> {0..<int FPGA_PCI_BARS_MAX}"
    by (auto simp: used_handles_def bars_inv_def)
  show "bars_inv (bars t) \<and> h \<in> {0..<int FPGA_PCI_BARS_MAX} - used_handles (bars s) \<and>
      used_handles (bars t) = insert h (used_handles (bars s))"
    if "fpga_pci_bar_alloc s = (Inr h, t)"
  proof -
    from that obtain i where h: "h = int i" and i: "i < length (bars s)" "\<not> allocated (bars s ! i)"
      and t: "t = s\<lparr>bars := (bars s)[i := (bars s ! i)\<lparr>allocated := True\<rparr>]\<rparr>"
      by (rule bar_alloc_Inr)
    have "h \<in> {0..<int FPGA_PCI_BARS_MAX} - used_handles (bars s)"
      using h i I by (auto simp: used_handles_def bars_inv_def)
    moreover have "used_handles (bars t) = insert h (used_handles (bars s))"
      using i by (simp add: t h used_handles_update)
    moreover have "bars_inv (bars t)"
      using I by (simp add: t bars_inv_update)
    ultimately show ?thesis by blast
  qed
  show "t = s \<and> used_handles (bars s) = {0..<int FPGA_PCI_BARS_MAX}"
    if "fpga_pci_bar_alloc s = (Inl e, t)"
    using that I used_handles_all [of "bars s"]
    by (auto simp: fpga_pci_bar_alloc_def first_free_None bars_inv_def split: option.splits)
  show "\<exists>t. fpga_pci_bar_free h s = (Inr (), t) \<and> bars_inv (bars t) \<and>
      used_handles (bars t) = used_handles (bars s) - {h}"
    if "h \<in> used_handles (bars s)"
  proof -
    let ?t = "s\<lparr>bars := (bars s)[nat h := zero_bar]\<rparr>"
    have h: "0 \<le> h" "nat h < length (bars s)" "h < int FPGA_PCI_BARS_MAX"
      using that I by (auto simp: used_handles_def bars_inv_def)
    then have "fpga_pci_bar_free h s = (Inr (), ?t)"
      by (simp add: fpga_pci_bar_free_def fpga_pci_bar_get_def modify_apply)
    moreover have "used_handles (bars ?t) = used_handles (bars s) - {h}"
      using h by (simp add: used_handles_update zero_bar_def)
    moreover have "bars_inv (bars ?t)"
      using I by (simp add: bars_inv_update)
    ultimately show ?thesis by blast
  qed
qed

section \<open>Attach and detach\<close>

lemma leaves_check_file_id [leaves_intros]: "leaves f (fpga_pci_check_file_id P path i)"
  by (rule leavesI) (simp add: fpga_pci_check_file_id_def split: scan_result.splits)

lemma bar_attach_unmap_Inr:
  "bar_attach_unmap P base sz ret s = (Inr h, t) \<Longrightarrow> h = -1 \<and> bars t = bars s"
  by (auto simp: bar_attach_unmap_def prog_simps split: if_splits prod.splits)

text \<open>The mapping a successful attach enters in the table.\<close>

definition attached_bars :: "fpga_pci_bar list \<Rightarrow> nat \<Rightarrow> u64 \<Rightarrow> u64 \<Rightarrow> fpga_pci_bar list" where
  "attached_bars bs i base sz = bs[i := \<lparr>allocated = True, mem_base = base, mem_size = sz\<rparr>]"

lemma leaves_bar_attach_map [leaves_intros]: "plat_free f \<Longrightarrow> leaves f (bar_attach_map P m b wc)"
  by (auto simp: bar_attach_map_def Let_def intro!: leaves_intros)

lemma bar_fields: "(b :: fpga_pci_bar)\<lparr>allocated := x, mem_base := y, mem_size := z\<rparr> =
    \<lparr>allocated = x, mem_base = y, mem_size = z\<rparr>"
  by (cases b) simp

lemma set_mem_base_size_alloc:
  assumes "first_free (bars s) 0 = Some i" and "bars_inv (bars s)" and "base \<noteq> 0" "sz \<noteq> 0"
    and "fpga_pci_bar_alloc s = (r, u)"
  shows "r = Inr (int i) \<and> fpga_pci_bar_set_mem_base_size (int i) base sz u =
    (Inr (), s\<lparr>bars := attached_bars (bars s) i base sz\<rparr>)"
proof -
  have "i < length (bars s)" "length (bars s) = FPGA_PCI_BARS_MAX"
    using first_free_Some [OF assms(1)] assms(2) by (auto simp: bars_inv_def)
  then show ?thesis
    using assms by (auto simp: fpga_pci_bar_alloc_def fpga_pci_bar_set_mem_base_size_def
        fpga_pci_bar_get_def modify_apply attached_bars_def bar_fields)
qed

lemma bar_attach_alloc_Inr:
  assumes "bar_attach_alloc P base sz s = (Inr h, t)" and I: "bars_inv (bars s)"
  obtains (attached) i where "h = int i" "first_free (bars s) 0 = Some i" "base \<noteq> 0" "sz \<noteq> 0"
      "t = s\<lparr>bars := attached_bars (bars s) i base sz\<rparr>"
    | (exhausted) "h = -1" "first_free (bars s) 0 = None" "bars t = bars s"
    | (empty) "h = -1" "sz = 0"
proof (cases "first_free (bars s) 0")
  case None
  with assms(1) have "bar_attach_unmap P base sz (- ENOMEM) s = (Inr h, t)"
    by (simp add: bar_attach_alloc_def prog_simps fpga_pci_bar_alloc_def)
  with None exhausted show thesis by (auto dest: bar_attach_unmap_Inr)
next
  case (Some i)
  obtain r u where a: "fpga_pci_bar_alloc s = (r, u)" by fastforce
  then have r: "r = Inr (int i)" using Some by (simp add: fpga_pci_bar_alloc_def)
  show thesis
  proof (cases "base \<noteq> 0 \<and> sz \<noteq> 0")
    case True
    then show thesis
      using set_mem_base_size_alloc [OF Some I _ _ a] assms(1) a Some attached
      by (auto simp: bar_attach_alloc_def prog_simps)
  next
    case False
    then have "fpga_pci_bar_set_mem_base_size (int i) base sz u = (Inl (- EINVAL), u)"
      by (auto simp: fpga_pci_bar_set_mem_base_size_def prog_simps split: option.splits)
    with assms(1) a r have un: "bar_attach_unmap P base sz (- EINVAL) u = (Inr h, t)"
      by (simp add: bar_attach_alloc_def prog_simps)
    with False have "sz = 0" by (auto simp: bar_attach_unmap_def prog_simps split: if_splits)
    with un empty show thesis by (auto dest: bar_attach_unmap_Inr)
  qed
qed

lemma bar_attach_Inr:
  assumes "fpga_pci_bar_attach P spec pf_id bar_id wc s = (Inr h, t)" and I: "bars_inv (bars s)"
  obtains (attached) i base where "h = int i" "first_free (bars s) 0 = Some i" "base \<noteq> 0"
      "resource_size (spec ! pf_id) ! bar_id \<noteq> 0"
      "bars t = attached_bars (bars s) i base (resource_size (spec ! pf_id) ! bar_id)"
    | (exhausted) "h = -1" "first_free (bars s) 0 = None" "bars t = bars s"
    | (empty) "h = -1" "resource_size (spec ! pf_id) ! bar_id = 0"
proof -
  obtain base u where m: "bar_attach_map P (spec ! pf_id) bar_id wc s = (Inr base, u)"
    and a: "bar_attach_alloc P base (resource_size (spec ! pf_id) ! bar_id) u = (Inr h, t)"
    using assms(1) unfolding fpga_pci_bar_attach_def Let_def by (rule bindE_InrE)
  have u: "bars u = bars s"
    using m by (rule leavesD [OF leaves_bar_attach_map [OF plat_free_bars]])
  from a have "bars_inv (bars u) \<Longrightarrow> thesis"
    by (cases rule: bar_attach_alloc_Inr) (use u in \<open>auto intro: attached exhausted empty\<close>)
  then show thesis using I u by simp
qed

lemma pci_attach_Inr:
  assumes "fpga_pci_attach P slot_id pf_id bar_id flags s = (Inr h, t)"
  obtains spec u where "fpga_pci_get_slot_spec P slot_id s = (Inr spec, u)" "bars u = bars s"
    "fpga_pci_bar_attach P spec (nat pf_id) (nat bar_id) (flags AND BURST_CAPABLE \<noteq> 0) u = (Inr h, t)"
    "0 \<le> pf_id" "pf_id < int FPGA_PF_MAX" "0 \<le> bar_id" "bar_id < int FPGA_BAR_PER_PF_MAX"
proof -
  have c: "\<not> (pf_id < 0 \<or> int FPGA_PF_MAX \<le> pf_id)" "\<not> (bar_id < 0 \<or> int FPGA_BAR_PER_PF_MAX \<le> bar_id)"
    using assms by (auto simp: fpga_pci_attach_def fail_apply split: if_splits)
  obtain spec u where g: "fpga_pci_get_slot_spec P slot_id s = (Inr spec, u)"
    and r: "bindE (fail_on (flags AND BURST_CAPABLE \<noteq> 0 \<and>
            \<not> resource_burstable (spec ! nat pf_id) ! nat bar_id) (- EINVAL)) (\<lambda>_.
        fpga_pci_bar_attach P spec (nat pf_id) (nat bar_id) (flags AND BURST_CAPABLE \<noteq> 0)) u = (Inr h, t)"
    by (rule bindE_InrE [OF assms [unfolded fpga_pci_attach_def if_not_P [OF c(1)] if_not_P [OF c(2)]]])
  have "bars u = bars s" by (rule leavesD [OF leaves_get_slot_spec [OF plat_free_bars] g])
  moreover have "fpga_pci_bar_attach P spec (nat pf_id) (nat bar_id) (flags AND BURST_CAPABLE \<noteq> 0) u = (Inr h, t)"
    using r by (rule bindE_InrE) (auto simp: fail_on_apply split: if_splits)
  ultimately show thesis using that g c by auto
qed

lemma attach_table:
  assumes "fpga_pci_attach P slot_id pf_id bar_id flags s = (Inr h, t)" and "0 \<le> h"
    and "bars_inv (bars s)"
  shows "first_free (bars s) 0 = Some (nat h) \<and> bars_inv (bars t) \<and>
    (\<exists>base sz. base \<noteq> 0 \<and> sz \<noteq> 0 \<and> bars t = attached_bars (bars s) (nat h) base sz)"
proof -
  obtain spec u where u: "bars u = bars s"
    and a: "fpga_pci_bar_attach P spec (nat pf_id) (nat bar_id) (flags AND BURST_CAPABLE \<noteq> 0) u = (Inr h, t)"
    using assms(1) by (rule pci_attach_Inr)
  from a have "bars_inv (bars u) \<Longrightarrow> ?thesis"
    by (cases rule: bar_attach_Inr)
      (use assms(2) u in \<open>auto simp: attached_bars_def intro!: bars_inv_update\<close>)
  then show ?thesis using u assms(3) by simp
qed

lemma detach_table:
  assumes "fpga_pci_detach P h s = (Inr (), t)" and "bars_inv (bars s)"
  shows "0 \<le> h \<and> h < int FPGA_PCI_BARS_MAX \<and> bars t = (bars s)[nat h := zero_bar] \<and> bars_inv (bars t)"
proof -
  have "0 \<le> h \<and> h < int FPGA_PCI_BARS_MAX \<and> bars t = (bars s)[nat h := zero_bar]"
    using assms by (auto simp: fpga_pci_detach_def fpga_pci_bar_free_def fpga_pci_bar_get_def
        prog_simps split: if_splits prod.splits)
  then show ?thesis using assms(2) by (simp add: bars_inv_update)
qed

text \<open>
  C30. An attach that yields a handle takes the first free entry of the BAR table and adds just
  that handle to those in use; detaching the handle restores the table.
\<close>

theorem attach_detach:
  assumes "fpga_pci_attach P slot_id pf_id bar_id flags s = (Inr h, t)" and "0 \<le> h"
    and "bars_inv (bars s)"
  shows "(\<forall>j < nat h. allocated (bars s ! j)) \<and> \<not> allocated (bars s ! nat h) \<and>
    used_handles (bars t) = insert h (used_handles (bars s)) \<and> bars_inv (bars t) \<and>
    (\<forall>u. fpga_pci_detach P h t = (Inr (), u) \<longrightarrow> bars u = bars s)"
proof -
  obtain base sz where h: "first_free (bars s) 0 = Some (nat h)" and inv: "bars_inv (bars t)"
    and t: "bars t = attached_bars (bars s) (nat h) base sz"
    using attach_table [OF assms] by blast
  have i: "nat h < length (bars s)" "\<not> allocated (bars s ! nat h)" "\<forall>j < nat h. allocated (bars s ! j)"
    using first_free_Some [OF h] by auto
  have "bars s ! nat h \<in> set (bars s)" using i by simp
  with i assms(3) have z: "bars s ! nat h = zero_bar" unfolding bars_inv_def by blast
  have "bars u = bars s" if "fpga_pci_detach P h t = (Inr (), u)" for u
    using detach_table [OF that inv] t z i by (simp add: attached_bars_def) (metis list_update_id)
  moreover have "used_handles (bars t) = insert h (used_handles (bars s))"
    using assms(2) i by (simp add: t attached_bars_def used_handles_update)
  ultimately show ?thesis using i inv by blast
qed

text \<open>
  With a full table the attach of a good BAR reports success, with the handle that is no handle.
\<close>

theorem attach_exhausted:
  assumes "bar_attach_map P (spec ! pf_id) bar_id wc s = (Inr base, u)"
    and "bars_inv (bars s)" and "card (used_handles (bars s)) = FPGA_PCI_BARS_MAX"
    and "base \<noteq> 0" and "fst (k_munmap P (plat u) base (resource_size (spec ! pf_id) ! bar_id))"
  shows "fst (fpga_pci_bar_attach P spec pf_id bar_id wc s) = Inr PCI_BAR_HANDLE_INIT"
proof -
  have u: "bars u = bars s"
    using assms(1) by (rule leavesD [OF leaves_bar_attach_map [OF plat_free_bars]])
  have "isl (fst (fpga_pci_bar_alloc u))"
    using bar_table.alloc_fails_iff [of u] assms(2,3) u by simp
  then obtain e where "fpga_pci_bar_alloc u = (Inl e, u)"
    by (auto simp: fpga_pci_bar_alloc_def split: option.splits)
  then show ?thesis
    using assms(1,4,5) by (simp add: fpga_pci_bar_attach_def Let_def bar_attach_alloc_def
        bar_attach_unmap_def prog_simps case_prod_beta)
qed

section \<open>The invariant\<close>

abbreviation bars_ok :: "('h, 'z) pci_st_scheme \<Rightarrow> bool" where
  "bars_ok s \<equiv> bars_inv (bars s)"

lemma keeps_bars_leaves: "leaves bars m \<Longrightarrow> keeps bars_ok m"
  by (rule leaves_keeps)

lemma leaves_reg_ptr [leaves_intros]: "leaves f (reg_ptr h off n)"
  by (auto simp: reg_ptr_def intro!: leaves_intros)

lemma leaves_accesses [leaves_intros]:
  "plat_free f \<Longrightarrow> leaves f (fpga_pci_poke P h off v)"
  "plat_free f \<Longrightarrow> leaves f (fpga_pci_poke8 P h off v8)"
  "plat_free f \<Longrightarrow> leaves f (fpga_pci_poke64 P h off v64)"
  "plat_free f \<Longrightarrow> leaves f (fpga_pci_peek P h off)"
  "plat_free f \<Longrightarrow> leaves f (fpga_pci_peek8 P h off)"
  "plat_free f \<Longrightarrow> leaves f (fpga_pci_peek64 P h off)"
  "plat_free f \<Longrightarrow> leaves f (fpga_pci_write_burst P h off d n)"
  "plat_free f \<Longrightarrow> leaves f (fpga_pci_memset P h off v n)"
  by (auto simp: fpga_pci_poke_def fpga_pci_poke8_def fpga_pci_poke64_def fpga_pci_peek_def
      fpga_pci_peek8_def fpga_pci_peek64_def fpga_pci_write_burst_def fpga_pci_memset_def
      intro!: leaves_intros)

lemma leaves_bar_attach_unmap [leaves_intros]: "plat_free f \<Longrightarrow> leaves f (bar_attach_unmap P base sz ret)"
  by (auto simp: bar_attach_unmap_def intro!: leaves_intros)

lemma bar_attach_alloc_bars:
  assumes "bars_inv (bars s)"
  shows "bars_inv (bars (snd (bar_attach_alloc P base sz s))) \<and>
    used_handles (bars s) \<subseteq> used_handles (bars (snd (bar_attach_alloc P base sz s)))"
proof -
  obtain r u where a: "fpga_pci_bar_alloc s = (r, u)" by fastforce
  show ?thesis
  proof (cases r)
    case (Inl e)
    then show ?thesis
      using a assms bar_table.alloc_Inl [OF assms, of e u]
        leaves_snd [OF leaves_bar_attach_unmap [OF plat_free_bars], of P base sz "- ENOMEM" u]
      by (simp add: bar_attach_alloc_def prog_simps)
  next
    case (Inr h)
    then have u: "bars_inv (bars u)" "used_handles (bars s) \<subseteq> used_handles (bars u)"
      using a bar_table.alloc_Inr [OF assms, of h u] by auto
    obtain i where i: "first_free (bars s) 0 = Some i" and h: "h = int i"
      using a Inr by (auto simp: fpga_pci_bar_alloc_def split: option.splits)
    show ?thesis
    proof (cases "base \<noteq> 0 \<and> sz \<noteq> 0")
      case True
      with set_mem_base_size_alloc [OF i assms _ _ a] a Inr h
      have "bar_attach_alloc P base sz s = (Inr h, s\<lparr>bars := attached_bars (bars s) i base sz\<rparr>)"
        by (simp add: bar_attach_alloc_def prog_simps)
      moreover have "i < length (bars s)" using first_free_Some [OF i] by simp
      ultimately show ?thesis
        using assms by (auto simp: attached_bars_def bars_inv_update used_handles_update)
    next
      case False
      then have "fpga_pci_bar_set_mem_base_size h base sz u = (Inl (- EINVAL), u)"
        by (auto simp: fpga_pci_bar_set_mem_base_size_def prog_simps split: option.splits)
      then have "bar_attach_alloc P base sz s = bar_attach_unmap P base sz (- EINVAL) u"
        using a Inr by (simp add: bar_attach_alloc_def prog_simps)
      then show ?thesis
        using u leaves_snd [OF leaves_bar_attach_unmap [OF plat_free_bars], of P base sz "- EINVAL" u] by simp
    qed
  qed
qed

text \<open>An attach keeps the table well formed and takes no handle away, also when it fails.\<close>

definition holds_handles :: "int set \<Rightarrow> ('h, 'z) pci_st_scheme \<Rightarrow> bool" where
  "holds_handles U s \<longleftrightarrow> bars_inv (bars s) \<and> U \<subseteq> used_handles (bars s)"

lemma keeps_holds_leaves: "leaves bars m \<Longrightarrow> keeps (holds_handles U) m"
  unfolding holds_handles_def by (rule leaves_keeps)

lemma keeps_holds_attach [keeps_intros]: "keeps (holds_handles U) (fpga_pci_attach P slot pf b flags)"
proof -
  have h: "keeps (holds_handles U) (bar_attach_alloc P base sz :: (('h, 'z) pci_st_scheme, int) prog)"
    for P :: "'h platform" and base sz
    using bar_attach_alloc_bars by (intro keepsI) (fastforce simp: holds_handles_def)
  show ?thesis
    unfolding fpga_pci_attach_def fpga_pci_bar_attach_def Let_def
    by (intro keeps_intros h; rule keeps_holds_leaves;
        intro leaves_get_slot_spec leaves_bar_attach_map plat_free_bars)
qed

lemma keeps_attach [keeps_intros]: "keeps bars_ok (fpga_pci_attach P slot pf b flags)"
  using keeps_holds_attach [of "{}"] by (simp add: holds_handles_def keeps_def)

lemma keeps_free [keeps_intros]: "keeps bars_ok (fpga_pci_bar_free h)"
  by (rule keepsI) (auto simp: fpga_pci_bar_free_def prog_simps bars_inv_update split: option.splits)

lemma detach_cases:
  assumes "fpga_pci_detach P h s = (r, t)" and "bars_inv (bars s)"
  obtains "r = Inl (- EINVAL)" "bars t = bars s"
    | "r = Inr ()" "0 \<le> h" "h < int FPGA_PCI_BARS_MAX" "bars t = (bars s)[nat h := zero_bar]"
  using assms by (auto simp: fpga_pci_detach_def fpga_pci_bar_free_def fpga_pci_bar_get_def
      prog_simps split: if_splits prod.splits)

lemma attach_detach_table:
  assumes a: "fpga_pci_attach P slot_id pf b flags s = (Inr h, t)" and "0 \<le> h" and "bars_inv (bars s)"
    and u: "bars u = bars t" and d: "fpga_pci_detach P h u = (r, v)"
  shows "if r = Inr () then bars v = bars s
    else bars v = bars t"
proof -
  obtain base sz where h: "first_free (bars s) 0 = Some (nat h)" "bars_inv (bars t)"
    and t: "bars t = attached_bars (bars s) (nat h) base sz"
    using attach_table [OF a assms(2,3)] by blast
  have i: "nat h < length (bars s)" "\<not> allocated (bars s ! nat h)"
    using first_free_Some [OF h(1)] by auto
  then have "bars s ! nat h \<in> set (bars s)" by simp
  with i assms(3) have z: "bars s ! nat h = zero_bar" unfolding bars_inv_def by blast
  have restored: "(bars t)[nat h := zero_bar] = bars s"
    using z i t by (simp add: attached_bars_def) (metis list_update_id)
  have "bars_inv (bars u)" using h(2) u by simp
  with d show ?thesis by (cases rule: detach_cases) (simp_all add: u restored)
qed

lemma leaves_more_attach:
  "leaves pci_st.more (fpga_pci_attach P slot pf b flags)"
proof -
  have "leaves pci_st.more (bar_attach_alloc P base sz)" for base sz
    unfolding bar_attach_alloc_def fpga_pci_bar_alloc_def fpga_pci_bar_set_mem_base_size_def
    by (intro leaves_intros leavesI leaves_bar_attach_unmap plat_free_more)
      (auto simp: prog_simps split: option.splits)
  then show ?thesis
    unfolding fpga_pci_attach_def fpga_pci_bar_attach_def Let_def
    by (intro leaves_intros plat_free_more)
qed

lemma leaves_more_detach: "leaves pci_st.more (fpga_pci_detach P h)"
  unfolding fpga_pci_detach_def fpga_pci_bar_free_def
  by (intro leaves_intros plat_free_more) (auto simp: leaves_def prog_simps split: option.splits)

text \<open>
  What \<open>mmap(2)\<close> and \<open>munmap(2)\<close> promise: a mapping is not at address 0 and has a length, and a range
  can be unmapped.
\<close>

definition sane_mappings :: "'h platform \<Rightarrow> bool" where
  "sane_mappings P \<longleftrightarrow> (\<forall>h path n b. fst (k_mmap P h path n) = Some b \<longrightarrow> b \<noteq> 0 \<and> n \<noteq> 0) \<and>
     (\<forall>h a n. fst (k_munmap P h a n))"

lemma bar_attach_map_sane:
  "bar_attach_map P m b wc s = (Inr base, u) \<Longrightarrow> sane_mappings P \<Longrightarrow> base \<noteq> 0 \<and> resource_size m ! b \<noteq> 0"
  unfolding bar_attach_map_def Let_def
  by (elim bindE_InrE)
    (auto simp: sane_mappings_def on_plat_apply ok_apply fail_apply split: option.splits prod.splits, (metis fst_conv)+)

lemma attach_clean:
  assumes "fpga_pci_attach P slot_id pf b flags s = (r, t)" and "sane_mappings P" and "bars_inv (bars s)"
  shows "bars t = bars s \<and> (\<forall>h. r = Inr h \<longrightarrow> h = -1) \<or> (\<exists>h. r = Inr h \<and> 0 \<le> h)"
proof -
  have alloc: "bars t = bars s \<and> (\<forall>h. r = Inr h \<longrightarrow> h = -1) \<or> (\<exists>h. r = Inr h \<and> 0 \<le> h)"
    if a: "bar_attach_alloc P base sz u = (r, t)" and "base \<noteq> 0" "sz \<noteq> 0" and u: "bars u = bars s"
    for base sz u and t :: "('a, 'b) pci_st_scheme"
  proof (cases "first_free (bars u) 0")
    case None
    then show ?thesis
      using a u by (auto simp: bar_attach_alloc_def fpga_pci_bar_alloc_def bar_attach_unmap_def prog_simps
          split: if_splits prod.splits)
  next
    case (Some i)
    obtain q v where al: "fpga_pci_bar_alloc u = (q, v)" by fastforce
    show ?thesis
      using set_mem_base_size_alloc [OF Some _ that(2,3) al] assms(3) u a al
      by (auto simp: bar_attach_alloc_def prog_simps)
  qed
  show ?thesis
  proof (cases "bars t = bars s \<and> (\<forall>h. r \<noteq> Inr h)")
    case False
    then have *: "\<not> (pf < 0 \<or> int FPGA_PF_MAX \<le> pf)" "\<not> (b < 0 \<or> int FPGA_BAR_PER_PF_MAX \<le> b)"
      using assms(1) by (auto simp: fpga_pci_attach_def fail_apply split: if_splits)
    obtain q u where g: "fpga_pci_get_slot_spec P slot_id s = (q, u)" by fastforce
    have u: "bars u = bars s" by (rule leavesD [OF leaves_get_slot_spec [OF plat_free_bars] g])
    obtain spec where q: "q = Inr spec"
      using assms(1) False g * u by (cases q) (auto simp: fpga_pci_attach_def bindE_apply)
    let ?m = "spec ! nat pf" and ?wc = "flags AND BURST_CAPABLE \<noteq> 0"
    have att: "fpga_pci_bar_attach P spec (nat pf) (nat b) ?wc u = (r, t)"
      using assms(1) False g q u * by (auto simp: fpga_pci_attach_def bindE_apply fail_on_apply split: if_splits)
    obtain p v where m: "bar_attach_map P ?m (nat b) ?wc u = (p, v)" by fastforce
    have v: "bars v = bars s" using leavesD [OF leaves_bar_attach_map [OF plat_free_bars] m] u by simp
    obtain base where p: "p = Inr base"
      using att m v False by (cases p) (auto simp: fpga_pci_bar_attach_def Let_def bindE_apply)
    have sane: "base \<noteq> 0" "resource_size ?m ! nat b \<noteq> 0" using bar_attach_map_sane [OF m [unfolded p] assms(2)] by auto
    have "bar_attach_alloc P base (resource_size ?m ! nat b) v = (r, t)"
      using att m p by (simp add: fpga_pci_bar_attach_def Let_def bindE_apply)
    then show ?thesis using alloc sane v by blast
  qed auto
qed

lemma detach_sane:
  assumes "sane_mappings P" and "0 \<le> h" "h < int FPGA_PCI_BARS_MAX"
  shows "fst (fpga_pci_detach P h s) = Inr ()"
  using assms by (auto simp: fpga_pci_detach_def fpga_pci_bar_free_def fpga_pci_bar_get_def sane_mappings_def
      prog_simps split: prod.splits) (metis fst_conv)+

lemma keeps_detach [keeps_intros]: "keeps bars_ok (fpga_pci_detach P h)"
  unfolding fpga_pci_detach_def
  by (intro keeps_intros keeps_bars_leaves [of "on_plat _"] leaves_bars_on_plat)

text \<open>The table is well formed after every sequence of operations of the library on it.\<close>

datatype bar_op = Attach int int int u32 | Detach int | Poke int u64 u32 | Peek int u64
  | Write_burst int u64 "nat \<Rightarrow> u32" u64 | Memset int u64 u32 u64

fun bar_op_step :: "'h platform \<Rightarrow> bar_op \<Rightarrow> ('h, 'z) pci_st_scheme \<Rightarrow> ('h, 'z) pci_st_scheme" where
  "bar_op_step P (Attach slot pf b flags) s = snd (fpga_pci_attach P slot pf b flags s)"
| "bar_op_step P (Detach h) s = snd (fpga_pci_detach P h s)"
| "bar_op_step P (Poke h off v) s = snd (fpga_pci_poke P h off v s)"
| "bar_op_step P (Peek h off) s = snd (fpga_pci_peek P h off s)"
| "bar_op_step P (Write_burst h off d n) s = snd (fpga_pci_write_burst P h off d n s)"
| "bar_op_step P (Memset h off v n) s = snd (fpga_pci_memset P h off v n s)"

inductive bar_steps :: "'h platform \<Rightarrow> ('h, 'z) pci_st_scheme \<Rightarrow> ('h, 'z) pci_st_scheme \<Rightarrow> bool"
  for P where
  bar_steps_refl: "bar_steps P s s"
| bar_steps_step: "bar_steps P s t \<Longrightarrow> u = bar_op_step P opn t \<Longrightarrow> bar_steps P s u"

lemma bar_op_step_inv: "bars_ok s \<Longrightarrow> bars_ok (bar_op_step P opn s)"
  by (cases opn)
    (simp_all add: keeps_snd [of bars_ok, OF keeps_attach] keeps_snd [of bars_ok, OF keeps_detach]
      leaves_snd [of bars, OF leaves_accesses(1)] leaves_snd [of bars, OF leaves_accesses(4)]
      leaves_snd [of bars, OF leaves_accesses(7)] leaves_snd [of bars, OF leaves_accesses(8)])


section \<open>Failures have a code\<close>

lemma nonzero_bar_attach_map [nonzero_intros]: "nonzero (bar_attach_map P m b wc)"
  by (auto simp: bar_attach_map_def Let_def intro!: nonzero_intros)

lemma nonzero_bar_attach_unmap [nonzero_intros]: "nonzero (bar_attach_unmap P base sz ret)"
  by (auto simp: bar_attach_unmap_def intro!: nonzero_intros)

lemma nonzero_attach [nonzero_intros]: "nonzero (fpga_pci_attach P slot pf b flags)"
  by (auto simp: fpga_pci_attach_def fpga_pci_bar_attach_def bar_attach_alloc_def Let_def
      intro!: nonzero_intros)

lemma nonzero_accesses [nonzero_intros]:
  "nonzero (fpga_pci_peek P h off)" "nonzero (fpga_pci_poke P h off v)"
  by (auto simp: fpga_pci_peek_def fpga_pci_poke_def reg_ptr_def intro!: nonzero_intros)

section \<open>Accesses stay in the mapping\<close>

definition mappings_ok :: "fpga_pci_bar list \<Rightarrow> bool" where
  "mappings_ok bs \<longleftrightarrow> length bs = FPGA_PCI_BARS_MAX \<and>
     (\<forall>b \<in> set bs. unat (mem_base b) + unat (mem_size b) < 2 ^ 64)"

text \<open>The specification of the range check: natural numbers, no wrap-around.\<close>

definition access :: "fpga_pci_bar list \<Rightarrow> int \<Rightarrow> u64 \<Rightarrow> nat \<Rightarrow> u64 option" where
  "access bs h off n =
     (if 0 \<le> h \<and> h < int FPGA_PCI_BARS_MAX \<and> allocated (bs ! nat h) \<and> mem_base (bs ! nat h) \<noteq> 0 \<and>
         unat off + n \<le> unat (mem_size (bs ! nat h))
      then Some (mem_base (bs ! nat h) + off) else None)"

lemma mem_at_offset_access:
  assumes "mappings_ok bs" and "unat off + unat n < 2 ^ 64"
  shows "fpga_pci_bar_get_mem_at_offset bs h off n = (case access bs h off (unat n) of None \<Rightarrow> 0 | Some p \<Rightarrow> p)"
    and "access bs h off (unat n) \<noteq> Some 0"
proof -
  have "unat (off + n) = unat off + unat n"
    using assms(2) by (simp add: unat_plus_if_size word_size)
  then show "fpga_pci_bar_get_mem_at_offset bs h off n =
      (case access bs h off (unat n) of None \<Rightarrow> 0 | Some p \<Rightarrow> p)"
    by (auto simp: fpga_pci_bar_get_mem_at_offset_def fpga_pci_bar_get_def access_def Let_def word_less_nat_alt)
  show "access bs h off (unat n) \<noteq> Some 0"
  proof
    assume a: "access bs h off (unat n) = Some 0"
    let ?b = "bs ! nat h"
    from a have b: "mem_base ?b \<noteq> 0" "unat off \<le> unat (mem_size ?b)" "mem_base ?b + off = 0"
      "0 \<le> h" "h < int FPGA_PCI_BARS_MAX"
      by (auto simp: access_def split: if_splits)
    then have "?b \<in> set bs" using assms(1) by (auto simp: mappings_ok_def)
    then have "unat (mem_base ?b) + unat off < 2 ^ 64" using assms(1) b(2) by (auto simp: mappings_ok_def)
    then have "unat (mem_base ?b + off) = unat (mem_base ?b) + unat off"
      by (simp add: unat_plus_if_size word_size)
    with b(1,3) show False by (simp add: unat_eq_0)
  qed
qed

lemma reg_ptr_access:
  assumes "mappings_ok (bars s)" and "unat off + unat n < 2 ^ 64"
  shows "reg_ptr h off n s = (case access (bars s) h off (unat n) of
     None \<Rightarrow> (Inl (- EINVAL), s) | Some p \<Rightarrow> (Inr p, s))"
  using mem_at_offset_access [OF assms, of h]
  by (auto simp: reg_ptr_def prog_simps split: option.splits)

lemmas access_defs = fpga_pci_poke_def fpga_pci_poke8_def fpga_pci_poke64_def
  fpga_pci_peek_def fpga_pci_peek8_def fpga_pci_peek64_def

lemma access_step:
  assumes "mappings_ok (bars s)" and "unat off + 8 < 2 ^ 64" and "unat n \<le> 8"
  shows "bindE (reg_ptr h off n) f s = (case access (bars s) h off (unat n) of
     None \<Rightarrow> (Inl (- EINVAL), s) | Some p \<Rightarrow> f p s)"
  using reg_ptr_access [OF assms(1), of off n h] assms(2,3)
  by (simp add: bindE_apply split: option.splits)

text \<open>
  For every offset that does not wrap, each access goes to its place in the mapping or is refused
  without any effect.
\<close>

text \<open>
  C8. The six register accesses refine a specification over natural numbers: an access of n bytes
  at an offset that does not wrap is one load or store at base + offset when the handle is an
  allocated entry with a mapping that contains it, and -EINVAL with an unchanged state otherwise.
\<close>

theorem register_accesses:
  assumes "mappings_ok (bars s)" and "unat off + 8 < 2 ^ 64"
  shows "fpga_pci_poke P h off v s = (case access (bars s) h off 4 of
      None \<Rightarrow> (Inl (- EINVAL), s) | Some p \<Rightarrow> (Inr (), s\<lparr>plat := m_store32 P (plat s) p v\<rparr>)) \<and>
    fpga_pci_poke8 P h off v8 s = (case access (bars s) h off 1 of
      None \<Rightarrow> (Inl (- EINVAL), s) | Some p \<Rightarrow> (Inr (), s\<lparr>plat := m_store8 P (plat s) p v8\<rparr>)) \<and>
    fpga_pci_poke64 P h off v64 s = (case access (bars s) h off 8 of
      None \<Rightarrow> (Inl (- EINVAL), s) | Some p \<Rightarrow> (Inr (), s\<lparr>plat := m_store64 P (plat s) p v64\<rparr>)) \<and>
    fpga_pci_peek P h off s = (case access (bars s) h off 4 of
      None \<Rightarrow> (Inl (- EINVAL), s)
    | Some p \<Rightarrow> (Inr (fst (m_load32 P (plat s) p)), s\<lparr>plat := snd (m_load32 P (plat s) p)\<rparr>)) \<and>
    fpga_pci_peek8 P h off s = (case access (bars s) h off 1 of
      None \<Rightarrow> (Inl (- EINVAL), s)
    | Some p \<Rightarrow> (Inr (fst (m_load8 P (plat s) p)), s\<lparr>plat := snd (m_load8 P (plat s) p)\<rparr>)) \<and>
    fpga_pci_peek64 P h off s = (case access (bars s) h off 8 of
      None \<Rightarrow> (Inl (- EINVAL), s)
    | Some p \<Rightarrow> (Inr (fst (m_load64 P (plat s) p)), s\<lparr>plat := snd (m_load64 P (plat s) p)\<rparr>))"
  by (simp add: access_defs access_step [OF assms] on_plat_apply case_prod_beta cong: option.case_cong)

text \<open>An offset near \<open>2 ^ 64\<close> passes the range check and reaches the memory below the mapping.\<close>

theorem poke_wraps:
  assumes "0 \<le> h" and "h < int FPGA_PCI_BARS_MAX" and "allocated (bars s ! nat h)"
    and "0 < k" and "k \<le> 4" and "unat k < unat (mem_base (bars s ! nat h))"
    and "4 \<le> unat (mem_size (bars s ! nat h))"
  shows "fpga_pci_poke P h (- k) v s =
    (Inr (), s\<lparr>plat := m_store32 P (plat s) (mem_base (bars s ! nat h) - k) v\<rparr>)"
proof -
  let ?b = "bars s ! nat h"
  have "unat (4 - k) \<le> 4" using assms(5) by (simp add: unat_sub)
  then have "\<not> mem_size ?b < - k + 4"
    using assms(7) by (simp add: word_less_nat_alt not_less)
  moreover have "mem_base ?b \<noteq> k" "mem_base ?b \<noteq> 0"
    using assms(6) by auto
  ultimately have "fpga_pci_bar_get_mem_at_offset (bars s) h (- k) 4 = mem_base ?b - k"
    "mem_base ?b - k \<noteq> 0"
    using assms(1-3) by (auto simp: fpga_pci_bar_get_mem_at_offset_def fpga_pci_bar_get_def Let_def)
  then show ?thesis
    by (simp add: fpga_pci_poke_def reg_ptr_def prog_simps)
qed

section \<open>Frames and costs of accesses\<close>

lemma plat_free_rest [simp]: "plat_free (\<lambda>s. s\<lparr>plat := h\<rparr>)"
  by (simp add: plat_free_def)

lemma plat_only:
  assumes "leaves (\<lambda>s. s\<lparr>plat := undefined\<rparr>) m" and "m s = (r, t)"
  shows "t = s\<lparr>plat := plat t\<rparr>"
proof -
  have "t\<lparr>plat := undefined\<rparr> = s\<lparr>plat := undefined\<rparr>" using leavesD [OF assms] .
  then have "(t\<lparr>plat := undefined\<rparr>)\<lparr>plat := plat t\<rparr> = (s\<lparr>plat := undefined\<rparr>)\<lparr>plat := plat t\<rparr>" by simp
  then show ?thesis by simp
qed

text \<open>A part of the hardware state that register accesses preserve.\<close>

definition access_closed :: "'h platform \<Rightarrow> ('h \<Rightarrow> bool) \<Rightarrow> bool" where
  "access_closed P I \<longleftrightarrow> (\<forall>h a. I h \<longrightarrow> I (snd (m_load32 P h a))) \<and> (\<forall>h a v. I h \<longrightarrow> I (m_store32 P h a v))"

lemma keeps_reg_ptr [keeps_intros]: "keeps I (reg_ptr h off n)"
  by (auto simp: reg_ptr_def intro!: keeps_intros)

lemma keeps_peek [keeps_intros]: "access_closed P I \<Longrightarrow> keeps (\<lambda>s. I (plat s)) (fpga_pci_peek P h off)"
  unfolding fpga_pci_peek_def
  by (intro keeps_intros) (auto simp: keeps_def on_plat_def access_closed_def split: prod.splits dest: snd_eqD)

lemma keeps_poke [keeps_intros]: "access_closed P I \<Longrightarrow> keeps (\<lambda>s. I (plat s)) (fpga_pci_poke P h off v)"
  unfolding fpga_pci_poke_def
  by (intro keeps_intros) (auto simp: keeps_def on_plat_def access_closed_def split: prod.splits dest: snd_eqD)

text \<open>Register accesses cost nothing and a sleep at most one.\<close>

definition mem_budget :: "'h platform \<Rightarrow> ('h \<Rightarrow> nat) \<Rightarrow> bool" where
  "mem_budget P cost \<longleftrightarrow> (\<forall>ms h. cost (k_nanosleep P ms h) \<le> Suc (cost h)) \<and>
     (\<forall>h a. cost (snd (m_load32 P h a)) \<le> cost h) \<and> (\<forall>h a v. cost (m_store32 P h a v) \<le> cost h)"

lemma mem_budget_closed: "mem_budget P cost \<Longrightarrow> access_closed P (\<lambda>h. cost h \<le> K)"
  unfolding mem_budget_def access_closed_def using order_trans by blast

lemma mem_budget_keeps:
  "mem_budget P cost \<Longrightarrow> (\<And>K. access_closed P (\<lambda>h. cost h \<le> K) \<Longrightarrow> keeps (\<lambda>s. cost (plat s) \<le> K) m) \<Longrightarrow>
    cost (plat (snd (m s))) \<le> cost (plat s)"
  using mem_budget_closed [of P cost "cost (plat s)"] unfolding keeps_def by blast

text \<open>An allocated entry whose mapping at \<open>base\<close> has at least \<open>n\<close> bytes.\<close>

definition region_mapped :: "int \<Rightarrow> u64 \<Rightarrow> nat \<Rightarrow> fpga_pci_bar list \<Rightarrow> bool" where
  "region_mapped h base n bs \<longleftrightarrow> mappings_ok bs \<and> 0 \<le> h \<and> h < int FPGA_PCI_BARS_MAX \<and>
     allocated (bs ! nat h) \<and> mem_base (bs ! nat h) = base \<and> base \<noteq> 0 \<and> n \<le> unat (mem_size (bs ! nat h))"

lemma region_accesses:
  assumes "region_mapped h base n (bars s)" and "unat off + 4 \<le> n"
  shows "fpga_pci_peek P h off s =
      (Inr (fst (m_load32 P (plat s) (base + off))), s\<lparr>plat := snd (m_load32 P (plat s) (base + off))\<rparr>)"
    and "fpga_pci_poke P h off v s = (Inr (), s\<lparr>plat := m_store32 P (plat s) (base + off) v\<rparr>)"
proof -
  have "unat w < 2 ^ 64" for w :: u64 by (rule order_less_le_trans [OF unsigned_less]) simp
  then have "n < 2 ^ 64" using assms(1) unfolding region_mapped_def by (meson order_le_less_trans)
  moreover have "access (bars s) h off 4 = Some (base + off)" "mappings_ok (bars s)"
    using assms by (auto simp: region_mapped_def access_def)
  ultimately have r: "reg_ptr h off 4 s = (Inr (base + off), s)"
    using reg_ptr_access [of s off 4 h] assms(2) by simp
  show "fpga_pci_peek P h off s =
      (Inr (fst (m_load32 P (plat s) (base + off))), s\<lparr>plat := snd (m_load32 P (plat s) (base + off))\<rparr>)"
    "fpga_pci_poke P h off v s = (Inr (), s\<lparr>plat := m_store32 P (plat s) (base + off) v\<rparr>)"
    by (simp_all add: fpga_pci_peek_def fpga_pci_poke_def prog_simps r case_prod_beta)
qed

text \<open>An attach of a BAR that can be found and mapped at \<open>base\<close>, with a free entry in the table.\<close>

lemma attach_maps:
  fixes s :: "('h, 'z) pci_st_scheme"
  assumes spec: "fpga_pci_get_slot_spec P slot_id s = (Inr spec, s\<lparr>plat := p\<rparr>)"
    and mapped: "bar_attach_map P (spec ! nat pf) (nat b) False (s\<lparr>plat := p\<rparr>) = (Inr base, s\<lparr>plat := q\<rparr>)"
    and args: "0 \<le> pf" "pf < int FPGA_PF_MAX" "0 \<le> b" "b < int FPGA_BAR_PER_PF_MAX"
    and table: "bars_inv (bars s)" "mappings_ok (bars s)" "first_free (bars s) 0 = Some i"
    and region: "base \<noteq> 0" "0 < n" "n \<le> unat (resource_size (spec ! nat pf) ! nat b)"
      "unat base + unat (resource_size (spec ! nat pf) ! nat b) < 2 ^ 64"
  shows "fpga_pci_attach P slot_id pf b 0 s =
      (Inr (int i), s\<lparr>plat := q, bars := attached_bars (bars s) i base (resource_size (spec ! nat pf) ! nat b)\<rparr>)"
    "region_mapped (int i) base n (attached_bars (bars s) i base (resource_size (spec ! nat pf) ! nat b))"
proof -
  let ?sz = "resource_size (spec ! nat pf) ! nat b"
  let ?t = "s\<lparr>plat := q\<rparr>" and ?B = "attached_bars (bars s) i base ?sz"
  have sz: "?sz \<noteq> 0" using region by auto
  obtain r u where a: "fpga_pci_bar_alloc ?t = (r, u)" by fastforce
  have al: "r = Inr (int i) \<and> fpga_pci_bar_set_mem_base_size (int i) base ?sz u = (Inr (), ?t\<lparr>bars := ?B\<rparr>)"
    using set_mem_base_size_alloc [of ?t i base ?sz r u] table region(1) sz a by simp
  then have "bar_attach_alloc P base ?sz ?t = (Inr (int i), ?t\<lparr>bars := ?B\<rparr>)"
    using a by (simp add: bar_attach_alloc_def bindE_apply attempt_apply ok_apply)
  then show "fpga_pci_attach P slot_id pf b 0 s = (Inr (int i), s\<lparr>plat := q, bars := ?B\<rparr>)"
    using spec mapped args by (simp add: fpga_pci_attach_def fpga_pci_bar_attach_def bindE_apply fail_on_apply Let_def)
  have "i < FPGA_PCI_BARS_MAX" "length (bars s) = FPGA_PCI_BARS_MAX"
    using first_free_Some [OF table(3)] table(1) by (auto simp: bars_inv_def)
  moreover have "mappings_ok ?B"
    using table(2) region(4) by (auto simp: mappings_ok_def attached_bars_def dest!: set_update_subset_insert [THEN subsetD])
  ultimately show "region_mapped (int i) base n ?B"
    using region by (simp add: region_mapped_def attached_bars_def)
qed

section \<open>Bursts\<close>

text \<open>
  What the burst operations rely on: memory of 32-bit words, in which a store changes the word at its
  address and no other of the aligned words.
\<close>

definition word_memory :: "'h platform \<Rightarrow> ('h \<Rightarrow> u64 \<Rightarrow> u32) \<Rightarrow> bool" where
  "word_memory P mem \<longleftrightarrow> (\<forall>h a v. mem (m_store32 P h a v) = (mem h)(a := v))"

lemma store_dwords_Suc:
  "store_dwords P p d (Suc n) h = m_store32 P (store_dwords P p d n h) (p + 4 * of_nat n) (d n)"
  by (simp add: store_dwords_def)

lemma dword_addresses:
  assumes "i < n" "4 * n < 2 ^ 64"
  shows "p + 4 * of_nat i \<noteq> p + 4 * (of_nat n :: u64)"
proof
  assume "p + 4 * of_nat i = p + 4 * (of_nat n :: u64)"
  then have "unat (of_nat (4 * i) :: u64) = unat (of_nat (4 * n) :: u64)" by simp
  then show False using assms by (simp only: unat_of_nat) simp
qed

lemma store_dwords_memory:
  assumes "word_memory P mem" and "4 * n < 2 ^ 64"
  shows "(\<forall>i < n. mem (store_dwords P p d n h) (p + 4 * of_nat i) = d i) \<and>
    (\<forall>a. (\<forall>i < n. a \<noteq> p + 4 * of_nat i) \<longrightarrow> mem (store_dwords P p d n h) a = mem h a)"
  using assms(2)
proof (induction n)
  case 0
  then show ?case by (simp add: store_dwords_def)
next
  case (Suc n)
  then show ?case
    using assms(1) dword_addresses [of _ n p]
    by (auto simp: store_dwords_Suc word_memory_def less_Suc_eq)
qed

lemma access_SomeD:
  assumes "mappings_ok bs" and "access bs h off n = Some p"
  shows "mem_base (bs ! nat h) \<le> p"
    and "unat p + n \<le> unat (mem_base (bs ! nat h)) + unat (mem_size (bs ! nat h))"
proof -
  let ?b = "bs ! nat h"
  have p: "p = mem_base ?b + off" "unat off + n \<le> unat (mem_size ?b)" "0 \<le> h" "h < int FPGA_PCI_BARS_MAX"
    using assms(2) by (auto simp: access_def split: if_splits)
  then have "?b \<in> set bs" using assms(1) by (auto simp: mappings_ok_def)
  then have "unat (mem_base ?b) + unat off < 2 ^ 64" using assms(1) p(2) by (auto simp: mappings_ok_def)
  then have u: "unat p = unat (mem_base ?b) + unat off"
    using p(1) by (simp add: unat_plus_if_size word_size)
  then show "mem_base ?b \<le> p" by (simp add: word_le_nat_alt)
  show "unat p + n \<le> unat (mem_base ?b) + unat (mem_size ?b)" using u p(2) by simp
qed

theorem write_burst_stores:
  assumes "mappings_ok (bars s)" and "unat off + 4 * unat n < 2 ^ 64" and "word_memory P mem"
  shows "case access (bars s) h off (4 * unat n) of
      None \<Rightarrow> fpga_pci_write_burst P h off d n s = (Inl (- EINVAL), s)
    | Some p \<Rightarrow>
        (\<exists>t. fpga_pci_write_burst P h off d n s = (Inr (), t) \<and> bars t = bars s \<and>
          (\<forall>i < unat n. mem (plat t) (p + 4 * of_nat i) = d i) \<and>
          (\<forall>a. (\<forall>i < unat n. a \<noteq> p + 4 * of_nat i) \<longrightarrow> mem (plat t) a = mem (plat s) a)) \<and>
        mem_base (bars s ! nat h) \<le> p \<and>
        unat p + 4 * unat n \<le> unat (mem_base (bars s ! nat h)) + unat (mem_size (bars s ! nat h))"
proof -
  have "unat (4 * n) = 4 * unat n"
    using assms(2) by (simp add: unat_mult_lem [THEN iffD1])
  then have r: "reg_ptr h off (4 * n) s = (case access (bars s) h off (4 * unat n) of
     None \<Rightarrow> (Inl (- EINVAL), s) | Some p \<Rightarrow> (Inr p, s))"
    using reg_ptr_access [OF assms(1), of off "4 * n" h] assms(2) by simp
  have "4 * unat n < 2 ^ 64" using assms(2) by simp
  then show ?thesis
    using store_dwords_memory [OF assms(3), of "unat n" _ d "plat s"] access_SomeD [OF assms(1), of h off "4 * unat n"] r
    by (auto simp: fpga_pci_write_burst_def prog_simps split: option.splits)
qed

section \<open>Instances\<close>

definition demo_table :: "demo pci_st" where
  "demo_table = demo_bus\<lparr>bars := replicate FPGA_PCI_BARS_MAX zero_bar\<rparr>"

definition demo_mapped :: "demo pci_st" where
  "demo_mapped = demo_table\<lparr>bars := attached_bars (bars demo_table) 0 0x100000 0x10000\<rparr>"

definition demo_full :: "demo pci_st" where
  "demo_full = demo_table\<lparr>bars := replicate FPGA_PCI_BARS_MAX
     \<lparr>allocated = True, mem_base = 0x100000, mem_size = 0x10000\<rparr>\<rparr>"

lemma demo_table_inv: "bars_inv (bars demo_table)" "bars_inv (bars demo_full)"
  by (simp_all add: bars_inv_def demo_table_def demo_full_def)

lemma demo_mapped_bar: "bars demo_mapped ! 0 = \<lparr>allocated = True, mem_base = 0x100000, mem_size = 0x10000\<rparr>"
  by (simp add: demo_mapped_def attached_bars_def demo_table_def)

lemma demo_mapped_ok: "mappings_ok (bars demo_mapped)"
proof -
  have "set (bars demo_mapped) \<subseteq> insert \<lparr>allocated = True, mem_base = 0x100000, mem_size = 0x10000\<rparr> {zero_bar}"
    using set_update_subset_insert [of "replicate FPGA_PCI_BARS_MAX zero_bar"]
    by (fastforce simp: demo_mapped_def attached_bars_def demo_table_def)
  then show ?thesis
    by (auto simp: mappings_ok_def zero_bar_def demo_mapped_def attached_bars_def demo_table_def
       )
qed

lemma demo_word_memory: "word_memory demo_platform demo_regs"
  by (simp add: word_memory_def)

theorem attach_detach_witness:
  "\<exists>t. fpga_pci_attach demo_platform 1 0 0 0 demo_table = (Inr 0, t) \<and>
     used_handles (bars t) = insert 0 (used_handles (bars demo_table))"
proof -
  have "fst (fpga_pci_attach demo_platform 1 0 0 0 demo_table) = Inr 0" by code_simp
  then obtain t where a: "fpga_pci_attach demo_platform 1 0 0 0 demo_table = (Inr 0, t)"
    by (cases "fpga_pci_attach demo_platform 1 0 0 0 demo_table") simp
  show ?thesis using attach_detach [OF a _ demo_table_inv(1)] a by simp
qed

theorem attach_exhausted_witness:
  "fst (fpga_pci_bar_attach demo_platform [zero_resource_map\<lparr>vendor_id := 0x1d0f, device_id := 0x9248,
      resource_size := [0x10000]\<rparr>] 0 0 False demo_full) = Inr PCI_BAR_HANDLE_INIT"
proof -
  let ?spec = "[zero_resource_map\<lparr>vendor_id := 0x1d0f, device_id := 0x9248, resource_size := [0x10000]\<rparr>]"
  have "fst (bar_attach_map demo_platform (?spec ! 0) 0 False demo_full) = Inr 0x100000" by code_simp
  then obtain u where m: "bar_attach_map demo_platform (?spec ! 0) 0 False demo_full = (Inr 0x100000, u)"
    by (cases "bar_attach_map demo_platform (?spec ! 0) 0 False demo_full") simp
  have "used_handles (bars demo_full) = {0..<int FPGA_PCI_BARS_MAX}"
    by (subst used_handles_all) (simp_all add: demo_full_def)
  then show ?thesis
    by (intro attach_exhausted [OF m demo_table_inv(2)]) simp_all
qed

text \<open>
  The allocator hands out every handle of the table once: \<open>n\<close> allocations in a row fail exactly when
  fewer than \<open>n\<close> entries are free, and give distinct handles otherwise.
\<close>

theorem handles_distinct:
  assumes "bars_inv (bars s)"
  shows "isl (fst (times n fpga_pci_bar_alloc s)) = (FPGA_PCI_BARS_MAX < card (used_handles (bars s)) + n) \<and>
    (\<forall>hs t. times n fpga_pci_bar_alloc s = (Inr hs, t) \<longrightarrow>
      distinct hs \<and> length hs = n \<and> set hs \<inter> used_handles (bars s) = {} \<and>
      used_handles (bars t) = set hs \<union> used_handles (bars s))"
  using bar_table.times_alloc_iff [OF assms] bar_table.times_alloc [OF assms] by blast

theorem handles_distinct_witness:
  "isl (fst (times 81 fpga_pci_bar_alloc demo_table)) \<and> \<not> isl (fst (times 80 fpga_pci_bar_alloc demo_table))"
proof -
  have "used_handles (bars demo_table) = {}"
    by (auto simp: used_handles_def demo_table_def zero_bar_def)
  then show ?thesis
    using handles_distinct [OF demo_table_inv(1), of 81] handles_distinct [OF demo_table_inv(1), of 80] by simp
qed

theorem register_accesses_witness:
  "fpga_pci_poke demo_platform 0 0x20 7 demo_mapped =
     (Inr (), demo_mapped\<lparr>plat := m_store32 demo_platform (plat demo_mapped) 0x100020 7\<rparr>) \<and>
   fpga_pci_poke demo_platform 0 0x10000 7 demo_mapped = (Inl (- EINVAL), demo_mapped)"
proof -
  have "access (bars demo_mapped) 0 0x20 4 = Some 0x100020" "access (bars demo_mapped) 0 0x10000 4 = None"
    by (simp_all add: access_def demo_mapped_bar)
  then show ?thesis
    using register_accesses [OF demo_mapped_ok, of "0x20" demo_platform 0 7]
      register_accesses [OF demo_mapped_ok, of "0x10000" demo_platform 0 7] by simp
qed

theorem poke_wraps_witness:
  "fpga_pci_poke demo_platform 0 (- 4) 7 demo_mapped =
     (Inr (), demo_mapped\<lparr>plat := m_store32 demo_platform (plat demo_mapped) 0xffffc 7\<rparr>)"
proof -
  note b = demo_mapped_bar
  have "fpga_pci_poke demo_platform 0 (- 4) 7 demo_mapped = (Inr (), demo_mapped\<lparr>plat :=
      m_store32 demo_platform (plat demo_mapped) (mem_base (bars demo_mapped ! nat 0) - 4) 7\<rparr>)"
    by (rule poke_wraps) (simp_all add: b)
  then show ?thesis by (simp add: b)
qed

theorem write_burst_stores_witness:
  "\<exists>t. fpga_pci_write_burst demo_platform 0 0x40 of_nat 3 demo_mapped = (Inr (), t) \<and>
     demo_regs (plat t) 0x100048 = 2"
proof -
  have a: "access (bars demo_mapped) 0 0x40 (4 * unat (3 :: u64)) = Some 0x100040"
    by (simp add: access_def demo_mapped_bar)
  from write_burst_stores [OF demo_mapped_ok _ demo_word_memory, of "0x40" 3 0 of_nat, unfolded a]
  obtain t where "fpga_pci_write_burst demo_platform 0 0x40 of_nat 3 demo_mapped = (Inr (), t)"
    and "\<forall>i < unat (3 :: u64). demo_regs (plat t) (0x100040 + 4 * of_nat i) = of_nat i"
    by auto
  then show ?thesis by (auto dest: spec [of _ 2])
qed


end
