(* ===== verification/Hal_Mbox.thy ===== *)
theory Hal_Mbox
  imports Pci_Bars
begin

text \<open>
  \<open>sdk/userspace/fpga_libs/fpga_mgmt/fpga_hal_mbox.c\<close> and its register map: the mailbox of the
  management function. A message is a sequence of 32-bit words that moves through a data register
  with an auto-incremented index; events in the status register say that a message has arrived or
  that one was taken. Operations whose buffer the caller sees even when they fail return the code
  beside the buffer.
\<close>

abbreviation (input) FMB_REG_SH_VERSION :: u64 where "FMB_REG_SH_VERSION \<equiv> 0"
abbreviation (input) FMB_REG_VIRT_DIP_LED :: u64 where "FMB_REG_VIRT_DIP_LED \<equiv> 0x4"
abbreviation (input) FMB_REG_STATUS :: u64 where "FMB_REG_STATUS \<equiv> 0xc"
abbreviation (input) FMB_REG_WR_INDEX :: u64 where "FMB_REG_WR_INDEX \<equiv> 0x20"
abbreviation (input) FMB_REG_WR_DATA :: u64 where "FMB_REG_WR_DATA \<equiv> 0x24"
abbreviation (input) FMB_REG_WR_LEN :: u64 where "FMB_REG_WR_LEN \<equiv> 0x28"
abbreviation (input) FMB_REG_RD_INDEX :: u64 where "FMB_REG_RD_INDEX \<equiv> 0x30"
abbreviation (input) FMB_REG_RD_DATA :: u64 where "FMB_REG_RD_DATA \<equiv> 0x34"
abbreviation (input) FMB_REG_RD_LEN :: u64 where "FMB_REG_RD_LEN \<equiv> 0x38"
abbreviation (input) FMB_REG_RL_RELOAD :: u64 where "FMB_REG_RL_RELOAD \<equiv> 0x2000"
abbreviation (input) FMB_RX_EVT :: u32 where "FMB_RX_EVT \<equiv> 1"
abbreviation (input) FMB_TX_EVT :: u32 where "FMB_TX_EVT \<equiv> 2"
abbreviation (input) FMB_VIRT_DIP_MASK :: u32 where "FMB_VIRT_DIP_MASK \<equiv> 0xffff"
abbreviation (input) FMB_VIRT_LED_SHIFT :: nat where "FMB_VIRT_LED_SHIFT \<equiv> 16"
abbreviation (input) FPGA_MBOX_MSG_DATA_LEN :: u32 where "FPGA_MBOX_MSG_DATA_LEN \<equiv> 4096"

text \<open>\<open>priv.mbox\<close>, the parameters of the synchronous operations.\<close>

record 'h mbox_st = "'h pci_st" +
  mbox_timeout :: u32
  mbox_delay_msec :: u32

definition fpga_hal_mbox_init :: "u32 \<Rightarrow> u32 \<Rightarrow> (('h, 'z) mbox_st_scheme, unit) prog" where
  "fpga_hal_mbox_init timeout delay_msec =
     modify (\<lambda>s. s\<lparr>mbox_timeout := timeout, mbox_delay_msec := delay_msec\<rparr>)"

definition fpga_hal_mbox_reset :: "'h platform \<Rightarrow> int \<Rightarrow> (('h, 'z) pci_st_scheme, unit) prog" where
  "fpga_hal_mbox_reset P handle =
     bindE (or_code (fpga_pci_peek P handle FMB_REG_STATUS) (-1)) (\<lambda>val.
     bindE (if val AND FMB_RX_EVT \<noteq> 0
       then or_code (fpga_pci_poke P handle FMB_REG_STATUS FMB_RX_EVT) (-1) else ok ()) (\<lambda>_.
     if val AND FMB_TX_EVT \<noteq> 0
       then or_code (fpga_pci_poke P handle FMB_REG_STATUS FMB_TX_EVT) (-1) else ok ()))"

definition fpga_hal_mbox_attach :: "'h platform \<Rightarrow> int \<Rightarrow> bool \<Rightarrow> (('h, 'z) pci_st_scheme, unit) prog" where
  "fpga_hal_mbox_attach P handle clear_state =
     (if clear_state then or_code (fpga_hal_mbox_reset P handle) (-1) else ok ())"

definition fpga_hal_mbox_detach :: "'h platform \<Rightarrow> int \<Rightarrow> bool \<Rightarrow> (('h, 'z) pci_st_scheme, unit) prog" where
  "fpga_hal_mbox_detach P handle clear_state =
     (if clear_state then or_code (fpga_hal_mbox_reset P handle) (-1) else ok ())"

definition fpga_hal_mbox_get_versions :: "'h platform \<Rightarrow> int \<Rightarrow> (('h, 'z) pci_st_scheme, u32) prog" where
  "fpga_hal_mbox_get_versions P handle = or_code (fpga_pci_peek P handle FMB_REG_SH_VERSION) (-1)"

definition fpga_hal_mbox_check_len :: "u32 \<Rightarrow> int" where
  "fpga_hal_mbox_check_len len =
     (if len < 4 then FPGA_ERR_AFI_CMD_MALFORMED
      else if len AND 3 \<noteq> 0 then FPGA_ERR_AFI_CMD_MALFORMED
      else if len > FPGA_MBOX_MSG_DATA_LEN then FPGA_ERR_AFI_CMD_MALFORMED
      else 0)"

section \<open>Reading\<close>

text \<open>The part of a read before the data: the length is fetched and checked, the index reset.\<close>

definition mbox_read_setup :: "'h platform \<Rightarrow> int \<Rightarrow> (('h, 'z) pci_st_scheme, u32) prog" where
  "mbox_read_setup P handle =
     bindE (fpga_pci_peek P handle FMB_REG_RD_LEN) (\<lambda>mb_rd_len.
     bindE (fail_on (mb_rd_len > FPGA_MBOX_MSG_DATA_LEN div 4) FPGA_ERR_AFI_CMD_MALFORMED) (\<lambda>_.
     bindE (ret_code (fpga_hal_mbox_check_len (push_bit 2 mb_rd_len)) ()) (\<lambda>_.
     bindE (fpga_pci_poke P handle FMB_REG_RD_INDEX 0) (\<lambda>_.
     ok mb_rd_len))))"

text \<open>The data loop: words \<open>i, .., n - 1\<close> of the message, with the code and the buffer so far.\<close>

fun mbox_read_data ::
  "'h platform \<Rightarrow> int \<Rightarrow> nat list \<Rightarrow> bytes \<Rightarrow> (('h, 'z) pci_st_scheme, int \<times> bytes) prog" where
  "mbox_read_data P handle [] msg = ok (0, msg)"
| "mbox_read_data P handle (i # is) msg =
     bindE (attempt (fpga_pci_peek P handle FMB_REG_RD_DATA)) (\<lambda>r.
     case r of
       Inl e \<Rightarrow> ok (e, msg)
     | Inr w \<Rightarrow> mbox_read_data P handle is (put32 msg (4 * i) w))"

text \<open>\<open>err_rx_ack\<close>: the event is acknowledged; the code is that of the first error either way.\<close>

definition mbox_rx_ack ::
  "'h platform \<Rightarrow> int \<Rightarrow> int \<Rightarrow> bytes \<Rightarrow> u32 \<Rightarrow> (('h, 'z) pci_st_scheme, int \<times> bytes \<times> u32) prog" where
  "mbox_rx_ack P handle ret msg len =
     bindE (attempt (fpga_pci_poke P handle FMB_REG_STATUS FMB_RX_EVT)) (\<lambda>_. ok (ret, msg, len))"

definition fpga_hal_mbox_read_async ::
  "'h platform \<Rightarrow> int \<Rightarrow> bytes \<Rightarrow> u32 \<Rightarrow> (('h, 'z) pci_st_scheme, int \<times> bytes \<times> u32) prog" where
  "fpga_hal_mbox_read_async P handle msg len =
     bindE (attempt (fpga_pci_peek P handle FMB_REG_STATUS)) (\<lambda>r.
     case r of
       Inl e \<Rightarrow> ok (e, msg, len)
     | Inr val \<Rightarrow>
         if val AND FMB_RX_EVT = 0 then ok (- EAGAIN, msg, len)
         else
           bindE (attempt (mbox_read_setup P handle)) (\<lambda>r2.
           case r2 of
             Inl e \<Rightarrow> mbox_rx_ack P handle e msg len
           | Inr mb_rd_len \<Rightarrow>
               bindE (mbox_read_data P handle [0..<unat mb_rd_len] msg) (\<lambda>(ret, msg').
               if ret \<noteq> 0 then mbox_rx_ack P handle ret msg' len
               else
                 bindE (attempt (fpga_pci_poke P handle FMB_REG_STATUS FMB_RX_EVT)) (\<lambda>r3.
                 case r3 of
                   Inl e \<Rightarrow> ok (e, msg', len)
                 | Inr _ \<Rightarrow> ok (0, msg', push_bit 2 mb_rd_len)))))"

section \<open>Writing\<close>

definition fpga_hal_mbox_write_async_tc_ack :: "'h platform \<Rightarrow> int \<Rightarrow> (('h, 'z) pci_st_scheme, bool) prog" where
  "fpga_hal_mbox_write_async_tc_ack P handle =
     bindE (or_code (fpga_pci_peek P handle FMB_REG_STATUS) (-1)) (\<lambda>val.
     if val AND FMB_TX_EVT \<noteq> 0
     then bindE (or_code (fpga_pci_poke P handle FMB_REG_STATUS FMB_TX_EVT) (-1)) (\<lambda>_. ok True)
     else ok False)"

fun mbox_write_data ::
  "'h platform \<Rightarrow> int \<Rightarrow> nat list \<Rightarrow> bytes \<Rightarrow> (('h, 'z) pci_st_scheme, unit) prog" where
  "mbox_write_data P handle [] msg = ok ()"
| "mbox_write_data P handle (i # is) msg =
     bindE (fpga_pci_poke P handle FMB_REG_WR_DATA (get32 msg (4 * i))) (\<lambda>_.
     mbox_write_data P handle is msg)"

definition fpga_hal_mbox_write_async ::
  "'h platform \<Rightarrow> int \<Rightarrow> bytes \<Rightarrow> u32 \<Rightarrow> (('h, 'z) pci_st_scheme, unit) prog" where
  "fpga_hal_mbox_write_async P handle msg len =
     bindE (ret_code (fpga_hal_mbox_check_len len) ()) (\<lambda>_.
     bindE (fpga_hal_mbox_write_async_tc_ack P handle) (\<lambda>_.
     bindE (fpga_pci_poke P handle FMB_REG_WR_INDEX 0) (\<lambda>_.
     let mb_wr_len = drop_bit 2 len in
     bindE (mbox_write_data P handle [0..<unat mb_wr_len] msg) (\<lambda>_.
     fpga_pci_poke P handle FMB_REG_WR_LEN mb_wr_len))))"

section \<open>Synchronous operations\<close>

fun mbox_read_loop ::
  "'h platform \<Rightarrow> int \<Rightarrow> bytes \<Rightarrow> u32 \<Rightarrow> nat \<Rightarrow> (('h, 'z) mbox_st_scheme, int \<times> bytes \<times> u32) prog" where
  "mbox_read_loop P handle msg len 0 = ok (- ETIMEDOUT, msg, len)"
| "mbox_read_loop P handle msg len (Suc n) =
     bindE (fpga_hal_mbox_read_async P handle msg len) (\<lambda>(ret, msg', len').
     if ret = 0 then ok (0, msg', len')
     else if ret \<noteq> - EAGAIN then ok (ret, msg', len')
     else
       bindE (gets mbox_delay_msec) (\<lambda>delay.
       bindE (msleep P (ucast delay)) (\<lambda>_.
       mbox_read_loop P handle msg' len' n)))"

definition fpga_hal_mbox_read ::
  "'h platform \<Rightarrow> int \<Rightarrow> bytes \<Rightarrow> u32 \<Rightarrow> (('h, 'z) mbox_st_scheme, int \<times> bytes \<times> u32) prog" where
  "fpga_hal_mbox_read P handle msg len =
     bindE (gets mbox_timeout) (\<lambda>timeout. mbox_read_loop P handle msg len (unat timeout))"

fun mbox_write_loop :: "'h platform \<Rightarrow> int \<Rightarrow> nat \<Rightarrow> (('h, 'z) mbox_st_scheme, unit) prog" where
  "mbox_write_loop P handle 0 = fail (- ETIMEDOUT)"
| "mbox_write_loop P handle (Suc n) =
     bindE (fpga_hal_mbox_write_async_tc_ack P handle) (\<lambda>ack.
     if ack then ok ()
     else
       bindE (gets mbox_delay_msec) (\<lambda>delay.
       bindE (msleep P (ucast delay)) (\<lambda>_.
       mbox_write_loop P handle n)))"

definition fpga_hal_mbox_write ::
  "'h platform \<Rightarrow> int \<Rightarrow> bytes \<Rightarrow> u32 \<Rightarrow> (('h, 'z) mbox_st_scheme, unit) prog" where
  "fpga_hal_mbox_write P handle msg len =
     bindE (fpga_hal_mbox_write_async P handle msg len) (\<lambda>_.
     bindE (gets mbox_timeout) (\<lambda>timeout. mbox_write_loop P handle (unat timeout)))"

section \<open>Frames\<close>

lemma plat_free_mbox [simp]: "plat_free mbox_timeout" "plat_free mbox_delay_msec"
  "plat_free mbox_st.more"
  by (simp_all add: plat_free_def)

lemma leaves_mbox_reset [leaves_intros]: "plat_free f \<Longrightarrow> leaves f (fpga_hal_mbox_reset P h)"
  by (auto simp: fpga_hal_mbox_reset_def intro!: leaves_intros)

lemma leaves_mbox_attach [leaves_intros]:
  "plat_free f \<Longrightarrow> leaves f (fpga_hal_mbox_attach P h c)"
  "plat_free f \<Longrightarrow> leaves f (fpga_hal_mbox_detach P h c)"
  by (auto simp: fpga_hal_mbox_attach_def fpga_hal_mbox_detach_def intro!: leaves_intros)

lemma leaves_mbox_get_versions [leaves_intros]: "plat_free f \<Longrightarrow> leaves f (fpga_hal_mbox_get_versions P h)"
  by (auto simp: fpga_hal_mbox_get_versions_def intro!: leaves_intros)

lemma leaves_mbox_read_setup [leaves_intros]: "plat_free f \<Longrightarrow> leaves f (mbox_read_setup P h)"
  by (auto simp: mbox_read_setup_def intro!: leaves_intros)

lemma leaves_mbox_read_data [leaves_intros]: "plat_free f \<Longrightarrow> leaves f (mbox_read_data P h is msg)"
  by (induction P h "is" msg rule: mbox_read_data.induct) (auto intro!: leaves_intros)

lemma leaves_mbox_rx_ack [leaves_intros]: "plat_free f \<Longrightarrow> leaves f (mbox_rx_ack P h ret msg len)"
  by (auto simp: mbox_rx_ack_def intro!: leaves_intros)

lemma leaves_mbox_read_async [leaves_intros]: "plat_free f \<Longrightarrow> leaves f (fpga_hal_mbox_read_async P h msg len)"
  by (auto simp: fpga_hal_mbox_read_async_def intro!: leaves_intros)

lemma leaves_mbox_tc_ack [leaves_intros]: "plat_free f \<Longrightarrow> leaves f (fpga_hal_mbox_write_async_tc_ack P h)"
  by (auto simp: fpga_hal_mbox_write_async_tc_ack_def intro!: leaves_intros)

lemma leaves_mbox_write_data [leaves_intros]: "plat_free f \<Longrightarrow> leaves f (mbox_write_data P h is msg)"
  by (induction P h "is" msg rule: mbox_write_data.induct) (auto intro!: leaves_intros)

lemma leaves_mbox_write_async [leaves_intros]: "plat_free f \<Longrightarrow> leaves f (fpga_hal_mbox_write_async P h msg len)"
  by (auto simp: fpga_hal_mbox_write_async_def Let_def intro!: leaves_intros)

lemma leaves_mbox_read_loop [leaves_intros]: "plat_free f \<Longrightarrow> leaves f (mbox_read_loop P h msg len n)"
  by (induction P h msg len n rule: mbox_read_loop.induct) (auto intro!: leaves_intros)

lemma leaves_mbox_read [leaves_intros]: "plat_free f \<Longrightarrow> leaves f (fpga_hal_mbox_read P h msg len)"
  by (auto simp: fpga_hal_mbox_read_def intro!: leaves_intros)

lemma leaves_mbox_write_loop [leaves_intros]: "plat_free f \<Longrightarrow> leaves f (mbox_write_loop P h n)"
  by (induction P h n rule: mbox_write_loop.induct) (auto intro!: leaves_intros)

lemma leaves_mbox_write [leaves_intros]: "plat_free f \<Longrightarrow> leaves f (fpga_hal_mbox_write P h msg len)"
  by (auto simp: fpga_hal_mbox_write_def intro!: leaves_intros)

section \<open>Lengths\<close>

lemma and_3_mod_4: "(len :: u32) AND 3 = 0 \<longleftrightarrow> unat len mod 4 = 0"
proof -
  have "len AND 3 = take_bit 2 len" by (simp add: take_bit_eq_mask mask_eq_exp_minus_1)
  moreover have "unat (take_bit 2 len) = unat len mod 4"
    by (simp only: unsigned_take_bit_eq) (simp add: take_bit_eq_mod)
  ultimately show ?thesis by (metis unat_eq_0)
qed

text \<open>The length check in terms of numbers.\<close>

lemma mbox_check_len_iff:
  "fpga_hal_mbox_check_len len = 0 \<longleftrightarrow> unat len mod 4 = 0 \<and> 4 \<le> unat len \<and> unat len \<le> 4096"
  "fpga_hal_mbox_check_len len \<in> {0, FPGA_ERR_AFI_CMD_MALFORMED}"
  by (auto simp: fpga_hal_mbox_check_len_def and_3_mod_4 word_less_nat_alt)

lemma mbox_check_len_shift:
  assumes "n \<le> FPGA_MBOX_MSG_DATA_LEN div 4"
  shows "fpga_hal_mbox_check_len (push_bit 2 n) = 0 \<longleftrightarrow> n \<noteq> 0"
    and "unat (push_bit 2 n) = 4 * unat n"
proof -
  have n: "unat n \<le> 1024" using assms by (simp add: word_le_nat_alt)
  then show "unat (push_bit 2 n) = 4 * unat n"
    by (simp add: push_bit_eq_mult unat_mult_lem [THEN iffD1])
  then show "fpga_hal_mbox_check_len (push_bit 2 n) = 0 \<longleftrightarrow> n \<noteq> 0"
    using n unat_eq_0 [of n] by (auto simp: mbox_check_len_iff)
qed

section \<open>What a read returns\<close>

lemma peek_InlD: "fpga_pci_peek P h off s = (Inl e, t) \<Longrightarrow> e = - EINVAL \<and> t = s"
  by (auto simp: fpga_pci_peek_def reg_ptr_def prog_simps split: if_splits prod.splits)

lemma poke_InlD: "fpga_pci_poke P h off v s = (Inl e, t) \<Longrightarrow> e = - EINVAL \<and> t = s"
  by (auto simp: fpga_pci_poke_def reg_ptr_def prog_simps split: if_splits prod.splits)

lemma mbox_read_data_result:
  assumes "mbox_read_data P h is msg s = (r, t)"
  obtains ret msg' where "r = Inr (ret, msg')" "ret \<in> {0, - EINVAL}"
    "\<And>j. (\<forall>i \<in> set is. j < 4 * i \<or> 4 * i + 4 \<le> j) \<Longrightarrow> msg' j = msg j"
  using assms
proof (induction P h "is" msg arbitrary: s thesis rule: mbox_read_data.induct)
  case (1 P h msg)
  then show ?case by (auto simp: prog_simps)
next
  case (2 P h i "is" msg)
  obtain q u where p: "fpga_pci_peek P h FMB_REG_RD_DATA s = (q, u)" by fastforce
  show ?case
  proof (cases q)
    case (Inl e)
    then show ?thesis
      using p 2(3) peek_InlD [of P h FMB_REG_RD_DATA s e u] by (intro 2(2)) (auto simp: prog_simps)
  next
    case (Inr w)
    then have "mbox_read_data P h is (put32 msg (4 * i) w) u = (r, t)"
      using p 2(3) by (simp add: prog_simps)
    then obtain ret msg' where r: "r = Inr (ret, msg')" "ret \<in> {0, - EINVAL}"
      and out: "\<And>j. (\<forall>k \<in> set is. j < 4 * k \<or> 4 * k + 4 \<le> j) \<Longrightarrow> msg' j = put32 msg (4 * i) w j"
      by (rule 2(1) [rotated]) auto
    from r show ?thesis by (rule 2(2)) (simp add: out)
  qed
qed

lemma mbox_check_len_cases:
  "fpga_hal_mbox_check_len len \<noteq> 0 \<Longrightarrow> fpga_hal_mbox_check_len len = FPGA_ERR_AFI_CMD_MALFORMED"
  using mbox_check_len_iff(2) [of len] by simp

lemma mbox_read_setup_Inl:
  "mbox_read_setup P h s = (Inl e, t) \<Longrightarrow> e \<in> {- EINVAL, FPGA_ERR_AFI_CMD_MALFORMED}"
  by (auto simp: mbox_read_setup_def fail_on_apply ret_code_apply ok_apply
      dest!: peek_InlD poke_InlD mbox_check_len_cases elim!: bindE_InlE split: if_splits)

lemma mbox_read_setup_Inr:
  assumes "mbox_read_setup P h s = (Inr n, t)"
  shows "n \<noteq> 0 \<and> unat n \<le> 1024 \<and> unat (push_bit 2 n) = 4 * unat n"
proof -
  have n: "n \<le> FPGA_MBOX_MSG_DATA_LEN div 4" and "fpga_hal_mbox_check_len (push_bit 2 n) = 0"
    using assms by (auto simp: mbox_read_setup_def fail_on_apply ret_code_apply ok_apply
        elim!: bindE_InrE split: if_splits)
  then show ?thesis using mbox_check_len_shift [OF n] by (simp add: word_le_nat_alt)
qed

text \<open>
  What every read of the mailbox guarantees of the buffer: on success a length that is a positive
  multiple of 4 of at most 4096, with nothing written past it; on failure the length is untouched
  and nothing past the 4096 bytes of the buffer is written.
\<close>

definition mbox_read_post :: "bytes \<Rightarrow> u32 \<Rightarrow> int \<times> bytes \<times> u32 \<Rightarrow> bool" where
  "mbox_read_post msg len = (\<lambda>(ret, msg', len').
     (if ret = 0 then unat len' mod 4 = 0 \<and> 4 \<le> unat len' \<and> unat len' \<le> 4096 \<and>
        (\<forall>j \<ge> unat len'. msg' j = msg j)
      else len' = len \<and> (\<forall>j \<ge> 4096. msg' j = msg j)) \<and>
     (ret = - EAGAIN \<longrightarrow> msg' = msg))"

lemma mbox_rx_ack_Inr:
  "mbox_rx_ack P h ret msg len s = (r, t) \<Longrightarrow> r = Inr (ret, msg, len)"
  by (auto simp: mbox_rx_ack_def prog_simps split: prod.splits)

lemma mbox_read_async_result:
  assumes "fpga_hal_mbox_read_async P h msg len s = (r, t)"
  obtains ret msg' len' where "r = Inr (ret, msg', len')" "mbox_read_post msg len (ret, msg', len')"
    "ret \<in> {0, - EAGAIN, - EINVAL, FPGA_ERR_AFI_CMD_MALFORMED}"
proof -
  have "\<exists>ret msg' len'. r = Inr (ret, msg', len') \<and> mbox_read_post msg len (ret, msg', len') \<and>
    ret \<in> {0, - EAGAIN, - EINVAL, FPGA_ERR_AFI_CMD_MALFORMED}"
  proof -
    obtain q u where st: "fpga_pci_peek P h FMB_REG_STATUS s = (q, u)" by fastforce
    consider e where "q = Inl e" | val where "q = Inr val" "val AND FMB_RX_EVT = 0"
      | val where "q = Inr val" "val AND FMB_RX_EVT \<noteq> 0" by (cases q) auto
    then show ?thesis
    proof cases
      case 1
      then show ?thesis
        using assms st peek_InlD [of P h FMB_REG_STATUS s e u]
        by (intro exI [of _ "- EINVAL"] exI [of _ msg] exI [of _ len])
          (simp add: fpga_hal_mbox_read_async_def prog_simps mbox_read_post_def)
    next
      case 2
      then show ?thesis
        using assms st by (intro exI [of _ "- EAGAIN"] exI [of _ msg] exI [of _ len])
          (simp add: fpga_hal_mbox_read_async_def prog_simps mbox_read_post_def)
    next
      case 3
      obtain q2 v where su: "mbox_read_setup P h u = (q2, v)" by fastforce
      show ?thesis
      proof (cases q2)
        case (Inl e)
        have "mbox_rx_ack P h e msg len v = (r, t)"
          using assms st 3 su Inl by (simp add: fpga_hal_mbox_read_async_def prog_simps)
        then have r: "r = Inr (e, msg, len)" by (rule mbox_rx_ack_Inr)
        have "e \<in> {- EINVAL, FPGA_ERR_AFI_CMD_MALFORMED}"
          using mbox_read_setup_Inl [of P h u e v] su Inl by simp
        then show ?thesis
          using r by (intro exI [of _ e] exI [of _ msg] exI [of _ len]) (auto simp: mbox_read_post_def)
      next
        case (Inr n)
        note n = mbox_read_setup_Inr [OF su [unfolded Inr]]
        obtain q3 w where d: "mbox_read_data P h [0..<unat n] msg v = (q3, w)" by fastforce
        then obtain ret msg' where q3: "q3 = Inr (ret, msg')" "ret \<in> {0, - EINVAL}"
          and out: "\<And>j. (\<forall>i \<in> set [0..<unat n]. j < 4 * i \<or> 4 * i + 4 \<le> j) \<Longrightarrow> msg' j = msg j"
          by (rule mbox_read_data_result) blast
        have msg': "msg' j = msg j" if "4 * unat n \<le> j" for j
          by (rule out) (use that in auto)
        show ?thesis
        proof (cases "ret = 0")
          case False
          then have "mbox_rx_ack P h ret msg' len w = (r, t)"
            using assms st 3 su Inr d q3 by (simp add: fpga_hal_mbox_read_async_def prog_simps)
          then show ?thesis
            using mbox_rx_ack_Inr [of P h ret msg' len w r t] q3 False msg' n
            by (auto simp: mbox_read_post_def)
        next
          case True
          obtain q4 x where ack: "fpga_pci_poke P h FMB_REG_STATUS FMB_RX_EVT w = (q4, x)" by fastforce
          then have r: "r = (case q4 of Inl e \<Rightarrow> Inr (e, msg', len) | Inr _ \<Rightarrow> Inr (0, msg', push_bit 2 n))"
            using assms st 3 su Inr d q3 True
            by (cases q4) (auto simp: fpga_hal_mbox_read_async_def prog_simps)
          show ?thesis
          proof (cases q4)
            case (Inl e)
            then have "e = - EINVAL" using ack poke_InlD by blast
            with Inl r msg' n show ?thesis
              by (intro exI [of _ e] exI [of _ msg'] exI [of _ len]) (auto simp: mbox_read_post_def)
          next
            case (Inr y)
            have "4 * unat n \<ge> 4" using n unat_eq_0 [of n] by linarith
            with Inr r msg' n show ?thesis
              by (intro exI [of _ 0] exI [of _ msg'] exI [of _ "push_bit 2 n"]) (auto simp: mbox_read_post_def)
          qed
        qed
      qed
    qed
  qed
  then show thesis using that by blast
qed

section \<open>The waiting loops\<close>

definition mbox_nap :: "'h platform \<Rightarrow> ('h, 'z) mbox_st_scheme \<Rightarrow> ('h, 'z) mbox_st_scheme" where
  "mbox_nap P s = s\<lparr>plat := k_nanosleep P (ucast (mbox_delay_msec s)) (plat s)\<rparr>"

definition mbox_read_round ::
  "'h platform \<Rightarrow> int \<Rightarrow> bytes \<Rightarrow> u32 \<Rightarrow> ('h, 'z) mbox_st_scheme
    \<Rightarrow> (int + int \<times> bytes \<times> u32) option \<times> ('h, 'z) mbox_st_scheme" where
  "mbox_read_round P h msg len s =
     (case fpga_hal_mbox_read_async P h msg len s of (r, t) \<Rightarrow>
        (case r of Inl e \<Rightarrow> (Some (Inl e), t)
         | Inr (ret, m, l) \<Rightarrow> if ret = - EAGAIN then (None, t) else (Some (Inr (ret, m, l)), t)))"

interpretation mbox_read_poll: bounded_poll "\<lambda>n s. mbox_read_loop P h msg len n s"
  "mbox_read_round P h msg len" "mbox_nap P" "Inr (- ETIMEDOUT, msg, len)"
  for P :: "'h platform" and h msg len
proof unfold_locales
  fix s :: "('h, 'z) mbox_st_scheme" and n
  show "mbox_read_loop P h msg len 0 s = (Inr (- ETIMEDOUT, msg, len), s)"
    by (simp add: prog_simps)
  obtain r t where a: "fpga_hal_mbox_read_async P h msg len s = (r, t)" by fastforce
  then obtain ret msg' len' where r: "r = Inr (ret, msg', len')"
    and post: "mbox_read_post msg len (ret, msg', len')"
    by (rule mbox_read_async_result)
  show "mbox_read_loop P h msg len (Suc n) s =
      (case mbox_read_round P h msg len s of (Some r, t) \<Rightarrow> (r, t)
       | (None, t) \<Rightarrow> mbox_read_loop P h msg len n (mbox_nap P t))"
    using a r post
    by (auto simp: prog_simps mbox_read_round_def mbox_read_post_def mbox_nap_def)
qed

definition mbox_write_round ::
  "'h platform \<Rightarrow> int \<Rightarrow> ('h, 'z) mbox_st_scheme \<Rightarrow> (int + unit) option \<times> ('h, 'z) mbox_st_scheme" where
  "mbox_write_round P h s =
     (case fpga_hal_mbox_write_async_tc_ack P h s of (r, t) \<Rightarrow>
        (case r of Inl e \<Rightarrow> (Some (Inl e), t) | Inr ack \<Rightarrow> (if ack then Some (Inr ()) else None, t)))"

interpretation mbox_write_poll: bounded_poll "mbox_write_loop P h" "mbox_write_round P h"
  "mbox_nap P" "Inl (- ETIMEDOUT)" for P :: "'h platform" and h
  by unfold_locales
    (auto simp: prog_simps mbox_write_round_def mbox_nap_def split: prod.splits sum.splits)

text \<open>A synchronous read returns what some look at the mailbox returned, or a timeout.\<close>

theorem mbox_read_result:
  "\<exists>ret msg' len'. fst (fpga_hal_mbox_read P h msg len s) = Inr (ret, msg', len') \<and>
     ret \<in> {0, - ETIMEDOUT, - EINVAL, FPGA_ERR_AFI_CMD_MALFORMED} \<and>
     mbox_read_post msg len (ret, msg', len')"
proof -
  obtain r t where l: "mbox_read_loop P h msg len (unat (mbox_timeout s)) s = (r, t)" by fastforce
  then have f: "fst (fpga_hal_mbox_read P h msg len s) = r" by (simp add: fpga_hal_mbox_read_def prog_simps)
  from mbox_read_poll.result [OF l] show ?thesis
  proof
    assume "r = Inr (- ETIMEDOUT, msg, len)"
    then show ?thesis using f by (simp add: mbox_read_post_def)
  next
    assume "\<exists>u. mbox_read_round P h msg len u = (Some r, t)"
    then obtain u where u: "mbox_read_round P h msg len u = (Some r, t)" ..
    obtain q v where a: "fpga_hal_mbox_read_async P h msg len u = (q, v)" by fastforce
    then obtain ret msg' len' where q: "q = Inr (ret, msg', len')"
      and post: "mbox_read_post msg len (ret, msg', len')"
      and ret: "ret \<in> {0, - EAGAIN, - EINVAL, FPGA_ERR_AFI_CMD_MALFORMED}"
      by (rule mbox_read_async_result)
    have "r = Inr (ret, msg', len')" "ret \<noteq> - EAGAIN"
      using u a q by (auto simp: mbox_read_round_def split: if_splits)
    then show ?thesis using f post ret by auto
  qed
qed

section \<open>The mailbox device\<close>

text \<open>
  The registers as the driver uses them: a word read from the data register advances the read index,
  a word written to it advances the write index, writing an event bit to the status register clears
  it, and the write length hands the message over. \<open>view\<close> is the mailbox in the state of the
  hardware and \<open>peer\<close> what the other side does when it is handed a message.
\<close>

record mailbox =
  mb_status :: u32
  mb_rd_index :: nat
  mb_rd_words :: "nat \<Rightarrow> u32"
  mb_rd_len :: u32
  mb_wr_index :: nat
  mb_wr_words :: "nat \<Rightarrow> u32"
  mb_wr_len :: u32

definition mailbox_device ::
  "'h platform \<Rightarrow> u64 \<Rightarrow> ('h \<Rightarrow> mailbox) \<Rightarrow> (mailbox \<Rightarrow> mailbox) \<Rightarrow> bool" where
  "mailbox_device P base view peer \<longleftrightarrow>
     (\<forall>h. fst (m_load32 P h (base + FMB_REG_STATUS)) = mb_status (view h) \<and>
          view (snd (m_load32 P h (base + FMB_REG_STATUS))) = view h) \<and>
     (\<forall>h. fst (m_load32 P h (base + FMB_REG_RD_LEN)) = mb_rd_len (view h) \<and>
          view (snd (m_load32 P h (base + FMB_REG_RD_LEN))) = view h) \<and>
     (\<forall>h. fst (m_load32 P h (base + FMB_REG_RD_DATA)) = mb_rd_words (view h) (mb_rd_index (view h)) \<and>
          view (snd (m_load32 P h (base + FMB_REG_RD_DATA))) =
            view h\<lparr>mb_rd_index := Suc (mb_rd_index (view h))\<rparr>) \<and>
     (\<forall>h v. view (m_store32 P h (base + FMB_REG_STATUS) v) =
            view h\<lparr>mb_status := mb_status (view h) AND NOT v\<rparr>) \<and>
     (\<forall>h v. view (m_store32 P h (base + FMB_REG_RD_INDEX) v) = view h\<lparr>mb_rd_index := unat v\<rparr>) \<and>
     (\<forall>h v. view (m_store32 P h (base + FMB_REG_WR_INDEX) v) = view h\<lparr>mb_wr_index := unat v\<rparr>) \<and>
     (\<forall>h v. view (m_store32 P h (base + FMB_REG_WR_DATA) v) =
            view h\<lparr>mb_wr_words := (mb_wr_words (view h))(mb_wr_index (view h) := v),
                   mb_wr_index := Suc (mb_wr_index (view h))\<rparr>) \<and>
     (\<forall>h v. view (m_store32 P h (base + FMB_REG_WR_LEN) v) = peer (view h\<lparr>mb_wr_len := v\<rparr>))"

definition mbox_mapped :: "int \<Rightarrow> u64 \<Rightarrow> fpga_pci_bar list \<Rightarrow> bool" where
  "mbox_mapped h base bs \<longleftrightarrow> region_mapped h base 0x3c bs"

lemma mapped_accesses:
  assumes "mbox_mapped h base (bars s)" and "unat off + 4 \<le> 0x3c"
  shows "fpga_pci_peek P h off s =
      (Inr (fst (m_load32 P (plat s) (base + off))), s\<lparr>plat := snd (m_load32 P (plat s) (base + off))\<rparr>)"
    and "fpga_pci_poke P h off v s = (Inr (), s\<lparr>plat := m_store32 P (plat s) (base + off) v\<rparr>)"
  by (rule region_accesses [OF assms(1) [unfolded mbox_mapped_def] assms(2)])+

lemma mailbox_deviceD:
  assumes "mailbox_device P base view peer"
  shows "fst (m_load32 P h (base + FMB_REG_STATUS)) = mb_status (view h)"
    "view (snd (m_load32 P h (base + FMB_REG_STATUS))) = view h"
    "fst (m_load32 P h (base + FMB_REG_RD_LEN)) = mb_rd_len (view h)"
    "view (snd (m_load32 P h (base + FMB_REG_RD_LEN))) = view h"
    "fst (m_load32 P h (base + FMB_REG_RD_DATA)) = mb_rd_words (view h) (mb_rd_index (view h))"
    "view (snd (m_load32 P h (base + FMB_REG_RD_DATA))) = view h\<lparr>mb_rd_index := Suc (mb_rd_index (view h))\<rparr>"
    "view (m_store32 P h (base + FMB_REG_STATUS) v) = view h\<lparr>mb_status := mb_status (view h) AND NOT v\<rparr>"
    "view (m_store32 P h (base + FMB_REG_RD_INDEX) v) = view h\<lparr>mb_rd_index := unat v\<rparr>"
    "view (m_store32 P h (base + FMB_REG_WR_INDEX) v) = view h\<lparr>mb_wr_index := unat v\<rparr>"
    "view (m_store32 P h (base + FMB_REG_WR_DATA) v) =
       view h\<lparr>mb_wr_words := (mb_wr_words (view h))(mb_wr_index (view h) := v),
              mb_wr_index := Suc (mb_wr_index (view h))\<rparr>"
    "view (m_store32 P h (base + FMB_REG_WR_LEN) v) = peer (view h\<lparr>mb_wr_len := v\<rparr>)"
  using assms by (simp_all add: mailbox_device_def)

lemma mbox_read_data_device:
  assumes "mailbox_device P base view peer" and "mbox_mapped h base (bars s)"
    and "mb_rd_index (view (plat s)) = i"
  shows "\<exists>msg' t. mbox_read_data P h [i..<i + k] msg s = (Inr (0, msg'), t) \<and> bars t = bars s \<and>
    view (plat t) = (view (plat s))\<lparr>mb_rd_index := i + k\<rparr> \<and>
    (\<forall>j. i \<le> j \<and> j < i + k \<longrightarrow> get32 msg' (4 * j) = mb_rd_words (view (plat s)) j) \<and>
    (\<forall>j. j < 4 * i \<longrightarrow> msg' j = msg j)"
  using assms(2,3)
proof (induction k arbitrary: i msg s)
  case 0
  then show ?case by (auto simp: prog_simps)
next
  case (Suc k)
  let ?w = "mb_rd_words (view (plat s)) i"
  let ?u = "s\<lparr>plat := snd (m_load32 P (plat s) (base + FMB_REG_RD_DATA))\<rparr>"
  have p: "fpga_pci_peek P h FMB_REG_RD_DATA s = (Inr ?w, ?u)"
    using mapped_accesses(1) [OF Suc.prems(1), of FMB_REG_RD_DATA] mailbox_deviceD(5) [OF assms(1)] Suc.prems(2)
    by simp
  have v: "view (plat ?u) = (view (plat s))\<lparr>mb_rd_index := Suc i\<rparr>"
    using mailbox_deviceD(6) [OF assms(1)] Suc.prems(2) by simp
  have "\<exists>msg' t. mbox_read_data P h [Suc i..<Suc i + k] (put32 msg (4 * i) ?w) ?u = (Inr (0, msg'), t) \<and>
      bars t = bars ?u \<and> view (plat t) = (view (plat ?u))\<lparr>mb_rd_index := Suc i + k\<rparr> \<and>
      (\<forall>j. Suc i \<le> j \<and> j < Suc i + k \<longrightarrow> get32 msg' (4 * j) = mb_rd_words (view (plat ?u)) j) \<and>
      (\<forall>j. j < 4 * Suc i \<longrightarrow> msg' j = put32 msg (4 * i) ?w j)"
    using Suc.prems v by (intro Suc.IH) auto
  then obtain msg' t where ih: "mbox_read_data P h [Suc i..<Suc i + k] (put32 msg (4 * i) ?w) ?u = (Inr (0, msg'), t)"
    "bars t = bars s" "view (plat t) = (view (plat s))\<lparr>mb_rd_index := Suc i + k\<rparr>"
    and words: "\<forall>j. Suc i \<le> j \<and> j < Suc i + k \<longrightarrow> get32 msg' (4 * j) = mb_rd_words (view (plat s)) j"
    and low: "\<forall>j. j < 4 * Suc i \<longrightarrow> msg' j = put32 msg (4 * i) ?w j"
    using v by auto
  have "get32 msg' (4 * i) = get32 (put32 msg (4 * i) ?w) (4 * i)"
    using low by (simp add: get32_def)
  then have "\<forall>j. i \<le> j \<and> j < i + Suc k \<longrightarrow> get32 msg' (4 * j) = mb_rd_words (view (plat s)) j"
    using words by (metis add_Suc_right add_Suc_shift get32_put32_same le_neq_implies_less Suc_leI)
  moreover have "[i..<i + Suc k] = i # [Suc i..<Suc i + k]"
    by (simp add: upt_conv_Cons)
  then have "mbox_read_data P h [i..<i + Suc k] msg s = (Inr (0, msg'), t)"
    using ih p by (simp add: prog_simps)
  moreover have "\<forall>j. j < 4 * i \<longrightarrow> msg' j = msg j" using low by simp
  ultimately show ?case using ih by auto
qed

lemma mbox_mapped_bars: "bars t = bars s \<Longrightarrow> mbox_mapped h base (bars t) = mbox_mapped h base (bars s)"
  by simp

lemma mbox_read_setup_device:
  assumes "mailbox_device P base view peer" and m: "mbox_mapped h base (bars s)"
    and "mb_rd_len (view (plat s)) \<noteq> 0" and "unat (mb_rd_len (view (plat s))) \<le> 1024"
  obtains t where "mbox_read_setup P h s = (Inr (mb_rd_len (view (plat s))), t)" "bars t = bars s"
    "view (plat t) = (view (plat s))\<lparr>mb_rd_index := 0\<rparr>"
proof -
  let ?n = "mb_rd_len (view (plat s))"
  let ?u = "s\<lparr>plat := snd (m_load32 P (plat s) (base + FMB_REG_RD_LEN))\<rparr>"
  let ?t = "?u\<lparr>plat := m_store32 P (plat ?u) (base + FMB_REG_RD_INDEX) 0\<rparr>"
  have n: "?n \<le> FPGA_MBOX_MSG_DATA_LEN div 4" using assms(4) by (simp add: word_le_nat_alt)
  then have "\<not> ?n > FPGA_MBOX_MSG_DATA_LEN div 4" "fpga_hal_mbox_check_len (push_bit 2 ?n) = 0"
    using mbox_check_len_shift(1) [OF n] assms(3) by simp_all
  moreover have "fpga_pci_peek P h FMB_REG_RD_LEN s = (Inr ?n, ?u)"
    using mapped_accesses(1) [OF m, of FMB_REG_RD_LEN] mailbox_deviceD(3) [OF assms(1)] by simp
  moreover have "fpga_pci_poke P h FMB_REG_RD_INDEX 0 ?u = (Inr (), ?t)"
    using mapped_accesses(2) [of h base ?u FMB_REG_RD_INDEX] m by simp
  ultimately have "mbox_read_setup P h s = (Inr ?n, ?t)"
    by (simp add: mbox_read_setup_def prog_simps)
  moreover have "view (plat ?t) = (view (plat s))\<lparr>mb_rd_index := 0\<rparr>"
    using mailbox_deviceD(4,8) [OF assms(1)] by simp
  ultimately show thesis using that [of ?t] by simp
qed

lemma mbox_read_async_device:
  assumes "mailbox_device P base view peer" and "mbox_mapped h base (bars s)"
    and "mb_status (view (plat s)) AND FMB_RX_EVT \<noteq> 0"
    and "mb_rd_len (view (plat s)) \<noteq> 0" and "unat (mb_rd_len (view (plat s))) \<le> 1024"
  shows "\<exists>msg' t. fpga_hal_mbox_read_async P h msg len s =
      (Inr (0, msg', push_bit 2 (mb_rd_len (view (plat s)))), t) \<and> bars t = bars s \<and>
    (\<forall>j < unat (mb_rd_len (view (plat s))). get32 msg' (4 * j) = mb_rd_words (view (plat s)) j) \<and>
    mb_status (view (plat t)) = mb_status (view (plat s)) AND NOT FMB_RX_EVT"
proof -
  let ?n = "mb_rd_len (view (plat s))"
  let ?u = "s\<lparr>plat := snd (m_load32 P (plat s) (base + FMB_REG_STATUS))\<rparr>"
  have p: "fpga_pci_peek P h FMB_REG_STATUS s = (Inr (mb_status (view (plat s))), ?u)"
    using mapped_accesses(1) [OF assms(2), of FMB_REG_STATUS] mailbox_deviceD(1) [OF assms(1)] by simp
  have u: "view (plat ?u) = view (plat s)" using mailbox_deviceD(2) [OF assms(1)] by simp
  obtain v where su: "mbox_read_setup P h ?u = (Inr ?n, v)" and v: "bars v = bars s"
    "view (plat v) = (view (plat s))\<lparr>mb_rd_index := 0\<rparr>"
    using mbox_read_setup_device [OF assms(1), of h ?u] assms(2,4,5) u by auto
  obtain msg' w where d: "mbox_read_data P h [0..<unat ?n] msg v = (Inr (0, msg'), w)" "bars w = bars s"
    "view (plat w) = (view (plat v))\<lparr>mb_rd_index := unat ?n\<rparr>"
    and words: "\<forall>j < unat ?n. get32 msg' (4 * j) = mb_rd_words (view (plat s)) j"
    using mbox_read_data_device [OF assms(1), of h v 0 "unat ?n" msg] assms(2) v by auto
  let ?t = "w\<lparr>plat := m_store32 P (plat w) (base + FMB_REG_STATUS) FMB_RX_EVT\<rparr>"
  have "fpga_pci_poke P h FMB_REG_STATUS FMB_RX_EVT w = (Inr (), ?t)"
    using mapped_accesses(2) [of h base w FMB_REG_STATUS] assms(2) d(2) by simp
  then have "fpga_hal_mbox_read_async P h msg len s = (Inr (0, msg', push_bit 2 ?n), ?t)"
    using assms(3) p su d(1) by (simp add: fpga_hal_mbox_read_async_def prog_simps)
  moreover have "mb_status (view (plat ?t)) = mb_status (view (plat s)) AND NOT FMB_RX_EVT"
    using mailbox_deviceD(7) [OF assms(1)] d(3) v by simp
  ultimately show ?thesis using words d(2) by (intro exI [of _ msg'] exI [of _ ?t]) simp
qed

text \<open>
  C21. On a device that behaves as the mailbox registers do, fpga_hal_mbox_read_async copies a
  pending message word for word into the buffer, returns its length in bytes and acknowledges the
  receive event and no other.
\<close>

theorem mbox_read_delivers:
  assumes "mailbox_device P base view peer" and "mbox_mapped h base (bars s)"
    and "mb_status (view (plat s)) AND FMB_RX_EVT \<noteq> 0"
    and "mb_rd_len (view (plat s)) \<noteq> 0" and "unat (mb_rd_len (view (plat s))) \<le> 1024"
  shows "\<exists>msg' t. fpga_hal_mbox_read_async P h msg len s =
      (Inr (0, msg', push_bit 2 (mb_rd_len (view (plat s)))), t) \<and>
    (\<forall>j < unat (mb_rd_len (view (plat s))). get32 msg' (4 * j) = mb_rd_words (view (plat s)) j) \<and>
    mb_status (view (plat t)) = mb_status (view (plat s)) AND NOT FMB_RX_EVT"
  using mbox_read_async_device [OF assms, of msg len] by blast

lemma mbox_write_data_device:
  assumes "mailbox_device P base view peer" and "mbox_mapped h base (bars s)"
    and "mb_wr_index (view (plat s)) = i"
  shows "\<exists>t. mbox_write_data P h [i..<i + k] msg s = (Inr (), t) \<and> bars t = bars s \<and>
    view (plat t) = (view (plat s))\<lparr>mb_wr_index := i + k, mb_wr_words :=
      (\<lambda>j. if i \<le> j \<and> j < i + k then get32 msg (4 * j) else mb_wr_words (view (plat s)) j)\<rparr>"
  using assms(2,3)
proof (induction k arbitrary: i s)
  case 0
  have "(\<lambda>j. if i \<le> j \<and> j < i + 0 then get32 msg (4 * j) else f j) = f" for f
    by (rule ext) auto
  with 0 show ?case by (simp add: prog_simps)
next
  case (Suc k)
  let ?u = "s\<lparr>plat := m_store32 P (plat s) (base + FMB_REG_WR_DATA) (get32 msg (4 * i))\<rparr>"
  have p: "fpga_pci_poke P h FMB_REG_WR_DATA (get32 msg (4 * i)) s = (Inr (), ?u)"
    using mapped_accesses(2) [OF Suc.prems(1), of FMB_REG_WR_DATA] by simp
  have v: "view (plat ?u) = (view (plat s))\<lparr>mb_wr_words := (mb_wr_words (view (plat s)))(i := get32 msg (4 * i)),
      mb_wr_index := Suc i\<rparr>"
    using mailbox_deviceD(10) [OF assms(1)] Suc.prems(2) by simp
  have "\<exists>t. mbox_write_data P h [Suc i..<Suc i + k] msg ?u = (Inr (), t) \<and> bars t = bars ?u \<and>
    view (plat t) = (view (plat ?u))\<lparr>mb_wr_index := Suc i + k, mb_wr_words :=
      (\<lambda>j. if Suc i \<le> j \<and> j < Suc i + k then get32 msg (4 * j) else mb_wr_words (view (plat ?u)) j)\<rparr>"
    using Suc.prems v by (intro Suc.IH) auto
  then obtain t where ih: "mbox_write_data P h [Suc i..<Suc i + k] msg ?u = (Inr (), t)" "bars t = bars s"
    "view (plat t) = (view (plat ?u))\<lparr>mb_wr_index := Suc i + k, mb_wr_words :=
      (\<lambda>j. if Suc i \<le> j \<and> j < Suc i + k then get32 msg (4 * j) else mb_wr_words (view (plat ?u)) j)\<rparr>"
    by auto
  have "[i..<i + Suc k] = i # [Suc i..<Suc i + k]"
    by (simp add: upt_conv_Cons)
  then have "mbox_write_data P h [i..<i + Suc k] msg s = (Inr (), t)"
    using ih p by (simp add: prog_simps)
  moreover have "(\<lambda>j. if Suc i \<le> j \<and> j < Suc i + k then get32 msg (4 * j) else mb_wr_words (view (plat ?u)) j) =
      (\<lambda>j. if i \<le> j \<and> j < i + Suc k then get32 msg (4 * j) else mb_wr_words (view (plat s)) j)"
    by (rule ext) (auto simp: v [simplified])
  ultimately show ?case using ih(2,3) v by (simp only: v) simp
qed

text \<open>A write hands the message over word by word, and the length last.\<close>

lemma and_not_and: "((v :: 'a::len word) AND NOT m) AND m = 0" "v AND m = 0 \<Longrightarrow> v AND NOT m = v"
proof -
  show "(v AND NOT m) AND m = 0" by (rule bit_word_eqI) (auto simp: bit_simps)
  assume "v AND m = 0"
  then have "\<not> (bit v n \<and> bit m n)" for n by (metis bit_0_eq bit_and_iff bot_apply bot_bool_def)
  then show "v AND NOT m = v" by (intro bit_word_eqI) (auto simp: bit_simps)
qed

lemma mbox_tc_ack_device:
  assumes "mailbox_device P base view peer" and m: "mbox_mapped h base (bars s)"
  obtains t where "fpga_hal_mbox_write_async_tc_ack P h s =
      (Inr (mb_status (view (plat s)) AND FMB_TX_EVT \<noteq> 0), t)" "bars t = bars s"
    "view (plat t) = (view (plat s))\<lparr>mb_status := mb_status (view (plat s)) AND NOT FMB_TX_EVT\<rparr>"
proof -
  let ?v = "mb_status (view (plat s))"
  let ?u = "s\<lparr>plat := snd (m_load32 P (plat s) (base + FMB_REG_STATUS))\<rparr>"
  let ?t = "?u\<lparr>plat := m_store32 P (plat ?u) (base + FMB_REG_STATUS) FMB_TX_EVT\<rparr>"
  have p: "fpga_pci_peek P h FMB_REG_STATUS s = (Inr ?v, ?u)"
    using mapped_accesses(1) [OF m, of FMB_REG_STATUS] mailbox_deviceD(1) [OF assms(1)] by simp
  have q: "fpga_pci_poke P h FMB_REG_STATUS FMB_TX_EVT ?u = (Inr (), ?t)"
    using mapped_accesses(2) [of h base ?u FMB_REG_STATUS] m by simp
  note v = mailbox_deviceD(2,7) [OF assms(1)]
  show thesis
  proof (cases "?v AND FMB_TX_EVT = 0")
    case True
    then show thesis
      using that [of ?u] p v and_not_and(2) [OF True]
      by (simp add: fpga_hal_mbox_write_async_tc_ack_def prog_simps)
  next
    case False
    then show thesis
      using that [of ?t] p q v by (simp add: fpga_hal_mbox_write_async_tc_ack_def prog_simps)
  qed
qed

lemma mbox_write_async_device:
  assumes "mailbox_device P base view peer" and "mbox_mapped h base (bars s)"
    and "fpga_hal_mbox_check_len len = 0"
  shows "\<exists>t m. fpga_hal_mbox_write_async P h msg len s = (Inr (), t) \<and> bars t = bars s \<and>
    view (plat t) = peer m \<and> mb_wr_len m = drop_bit 2 len \<and>
    (\<forall>j < unat len div 4. mb_wr_words m j = get32 msg (4 * j)) \<and>
    mb_status m = mb_status (view (plat s)) AND NOT FMB_TX_EVT"
proof -
  obtain u ack where a: "fpga_hal_mbox_write_async_tc_ack P h s = (Inr ack, u)" and u: "bars u = bars s"
    "view (plat u) = (view (plat s))\<lparr>mb_status := mb_status (view (plat s)) AND NOT FMB_TX_EVT\<rparr>"
    using mbox_tc_ack_device [OF assms(1,2)] by blast
  let ?v = "u\<lparr>plat := m_store32 P (plat u) (base + FMB_REG_WR_INDEX) 0\<rparr>"
  have p: "fpga_pci_poke P h FMB_REG_WR_INDEX 0 u = (Inr (), ?v)"
    using mapped_accesses(2) [of h base u FMB_REG_WR_INDEX] assms(2) u by simp
  have v: "view (plat ?v) = (view (plat u))\<lparr>mb_wr_index := 0\<rparr>"
    using mailbox_deviceD(9) [OF assms(1)] by simp
  let ?n = "unat (drop_bit 2 len)"
  have n: "?n = unat len div 4" by (simp add: drop_bit_eq_div unat_div)
  obtain w where d: "mbox_write_data P h [0..<?n] msg ?v = (Inr (), w)" "bars w = bars s"
    and w: "view (plat w) = (view (plat ?v))\<lparr>mb_wr_index := ?n, mb_wr_words :=
      (\<lambda>j. if 0 \<le> j \<and> j < ?n then get32 msg (4 * j) else mb_wr_words (view (plat ?v)) j)\<rparr>"
    using mbox_write_data_device [OF assms(1), of h ?v 0 ?n msg] assms(2) u v by auto
  let ?t = "w\<lparr>plat := m_store32 P (plat w) (base + FMB_REG_WR_LEN) (drop_bit 2 len)\<rparr>"
  have "fpga_pci_poke P h FMB_REG_WR_LEN (drop_bit 2 len) w = (Inr (), ?t)"
    using mapped_accesses(2) [of h base w FMB_REG_WR_LEN] assms(2) d(2) by simp
  then have ret: "fpga_hal_mbox_write_async P h msg len s = (Inr (), ?t)"
    using assms(3) a p d(1) by (simp add: fpga_hal_mbox_write_async_def prog_simps Let_def)
  let ?m = "(view (plat w))\<lparr>mb_wr_len := drop_bit 2 len\<rparr>"
  have "view (plat ?t) = peer ?m"
    using mailbox_deviceD(11) [OF assms(1)] by simp
  moreover have "mb_wr_len ?m = drop_bit 2 len" "mb_status ?m = mb_status (view (plat s)) AND NOT FMB_TX_EVT"
    "\<forall>j < unat len div 4. mb_wr_words ?m j = get32 msg (4 * j)"
    using w v u n by simp_all
  ultimately show ?thesis using ret d(2) by (intro exI [of _ ?t] exI [of _ ?m]) simp
qed

text \<open>
  C22. On such a device fpga_hal_mbox_write_async hands a message of valid length over word for
  word, writes its length in words last and has cleared the previous transmit event.
\<close>

theorem mbox_write_transfers:
  assumes "mailbox_device P base view peer" and "mbox_mapped h base (bars s)"
    and "fpga_hal_mbox_check_len len = 0"
  shows "\<exists>t m. fpga_hal_mbox_write_async P h msg len s = (Inr (), t) \<and> view (plat t) = peer m \<and>
    mb_wr_len m = drop_bit 2 len \<and>
    (\<forall>j < unat len div 4. mb_wr_words m j = get32 msg (4 * j)) \<and>
    mb_status m AND FMB_TX_EVT = 0"
proof -
  have "(v AND NOT FMB_TX_EVT) AND FMB_TX_EVT = 0" for v by (rule and_not_and(1))
  then show ?thesis using mbox_write_async_device [OF assms, of msg] by metis
qed

section \<open>An answering peer\<close>

text \<open>An operation that leaves everything outside the platform alone changes the platform only.\<close>

lemma mbox_reset_device:
  assumes "mailbox_device P base view peer" and m: "mbox_mapped h base (bars s)"
  obtains t where "fpga_hal_mbox_reset P h s = (Inr (), t)" "bars t = bars s"
proof -
  let ?u = "s\<lparr>plat := snd (m_load32 P (plat s) (base + FMB_REG_STATUS))\<rparr>"
  have p: "fpga_pci_peek P h FMB_REG_STATUS s = (Inr (fst (m_load32 P (plat s) (base + FMB_REG_STATUS))), ?u)"
    using mapped_accesses(1) [OF m, of FMB_REG_STATUS] by simp
  have q: "fpga_pci_poke P h FMB_REG_STATUS v w = (Inr (), w\<lparr>plat := m_store32 P (plat w) (base + FMB_REG_STATUS) v\<rparr>)"
    if "bars w = bars s" for v and w :: "('a, 'b) pci_st_scheme"
    using mapped_accesses(2) [of h base w FMB_REG_STATUS] m that by simp
  show thesis
    using that [of "snd (fpga_hal_mbox_reset P h s)"] p
    by (simp add: fpga_hal_mbox_reset_def prog_simps q)
qed

text \<open>A peer that takes every message at once and has an answer ready.\<close>

definition answers :: "(mailbox \<Rightarrow> mailbox) \<Rightarrow> bool" where
  "answers peer \<longleftrightarrow> (\<forall>m. mb_status (peer m) AND FMB_TX_EVT \<noteq> 0 \<and> mb_status (peer m) AND FMB_RX_EVT \<noteq> 0 \<and>
     mb_rd_len (peer m) \<noteq> 0 \<and> unat (mb_rd_len (peer m)) \<le> 1024)"

lemma mbox_write_device:
  assumes "mailbox_device P base view peer" and m: "mbox_mapped h base (bars s)"
    and "fpga_hal_mbox_check_len len = 0" and "answers peer" and "mbox_timeout s \<noteq> 0"
  shows "\<exists>t m. fpga_hal_mbox_write P h msg len s = (Inr (), t) \<and> bars t = bars s \<and>
    view (plat t) = (peer m)\<lparr>mb_status := mb_status (peer m) AND NOT FMB_TX_EVT\<rparr> \<and>
    (\<forall>j < unat len div 4. mb_wr_words m j = get32 msg (4 * j))"
proof -
  obtain u m where a: "fpga_hal_mbox_write_async P h msg len s = (Inr (), u)" and u: "bars u = bars s"
    "view (plat u) = peer m" and words: "\<forall>j < unat len div 4. mb_wr_words m j = get32 msg (4 * j)"
    using mbox_write_async_device [OF assms(1-3), of msg] by blast
  have "mbox_timeout u = mbox_timeout s"
    using leavesD [OF leaves_mbox_write_async [OF plat_free_mbox(1)] a] .
  then obtain n where n: "unat (mbox_timeout u) = Suc n"
    using assms(5) by (metis not0_implies_Suc unat_eq_0)
  obtain t where t: "fpga_hal_mbox_write_async_tc_ack P h u = (Inr (mb_status (peer m) AND FMB_TX_EVT \<noteq> 0), t)"
    "bars t = bars u" "view (plat t) = (peer m)\<lparr>mb_status := mb_status (peer m) AND NOT FMB_TX_EVT\<rparr>"
    using mbox_tc_ack_device [OF assms(1), of h u] assms(2) u by auto
  have "mb_status (peer m) AND FMB_TX_EVT \<noteq> 0" using assms(4) by (simp add: answers_def)
  then have "fpga_hal_mbox_write P h msg len s = (Inr (), t)"
    using a t(1) n by (simp add: fpga_hal_mbox_write_def prog_simps)
  with t u words show ?thesis by (intro exI [of _ t] exI [of _ m]) simp
qed

lemma mbox_read_device:
  assumes "mailbox_device P base view peer" and "mbox_mapped h base (bars s)"
    and "mb_status (view (plat s)) AND FMB_RX_EVT \<noteq> 0"
    and "mb_rd_len (view (plat s)) \<noteq> 0" and "unat (mb_rd_len (view (plat s))) \<le> 1024"
    and "mbox_timeout s \<noteq> 0"
  shows "\<exists>msg' t. fpga_hal_mbox_read P h msg len s =
      (Inr (0, msg', push_bit 2 (mb_rd_len (view (plat s)))), t) \<and> bars t = bars s \<and>
    (\<forall>j < unat (mb_rd_len (view (plat s))). get32 msg' (4 * j) = mb_rd_words (view (plat s)) j)"
proof -
  obtain n where n: "unat (mbox_timeout s) = Suc n"
    using assms(6) by (metis not0_implies_Suc unat_eq_0)
  obtain msg' t where r: "fpga_hal_mbox_read_async P h msg len s =
      (Inr (0, msg', push_bit 2 (mb_rd_len (view (plat s)))), t)" "bars t = bars s"
    "\<forall>j < unat (mb_rd_len (view (plat s))). get32 msg' (4 * j) = mb_rd_words (view (plat s)) j"
    using mbox_read_async_device [OF assms(1-5), of msg len] by blast
  then have "fpga_hal_mbox_read P h msg len s = (Inr (0, msg', push_bit 2 (mb_rd_len (view (plat s)))), t)"
    using n by (simp add: fpga_hal_mbox_read_def prog_simps)
  with r show ?thesis by blast
qed

section \<open>The cost of waiting\<close>

lemma keeps_mbox_read_data [keeps_intros]:
  "access_closed P I \<Longrightarrow> keeps (\<lambda>s. I (plat s)) (mbox_read_data P h is msg)"
  by (induction P h "is" msg rule: mbox_read_data.induct) (auto intro!: keeps_intros)

lemma keeps_mbox_read_async [keeps_intros]:
  "access_closed P I \<Longrightarrow> keeps (\<lambda>s. I (plat s)) (fpga_hal_mbox_read_async P h msg len)"
  by (auto simp: fpga_hal_mbox_read_async_def mbox_read_setup_def mbox_rx_ack_def intro!: keeps_intros)

lemma keeps_mbox_tc_ack [keeps_intros]:
  "access_closed P I \<Longrightarrow> keeps (\<lambda>s. I (plat s)) (fpga_hal_mbox_write_async_tc_ack P h)"
  by (auto simp: fpga_hal_mbox_write_async_tc_ack_def intro!: keeps_intros)

lemma keeps_mbox_write_data [keeps_intros]:
  "access_closed P I \<Longrightarrow> keeps (\<lambda>s. I (plat s)) (mbox_write_data P h is msg)"
  by (induction P h "is" msg rule: mbox_write_data.induct) (auto intro!: keeps_intros)

lemma keeps_mbox_write_async [keeps_intros]:
  "access_closed P I \<Longrightarrow> keeps (\<lambda>s. I (plat s)) (fpga_hal_mbox_write_async P h msg len)"
  by (auto simp: fpga_hal_mbox_write_async_def Let_def intro!: keeps_intros)

lemma cost_mbox:
  assumes "mem_budget P cost"
  shows "cost (plat (snd (fpga_hal_mbox_read_async P h msg len s))) \<le> cost (plat s)"
    and "cost (plat (snd (fpga_hal_mbox_write_async_tc_ack P h s))) \<le> cost (plat s)"
    and "cost (plat (snd (fpga_hal_mbox_write_async P h msg len s))) \<le> cost (plat s)"
  by (rule mem_budget_keeps [OF assms], erule keeps_mbox_read_async keeps_mbox_tc_ack keeps_mbox_write_async)+

lemma cost_mbox_sync:
  assumes "mem_budget P cost"
  shows "cost (plat (snd (fpga_hal_mbox_read P h msg len s))) \<le> cost (plat s) + unat (mbox_timeout s)"
    and "cost (plat (snd (fpga_hal_mbox_write P h msg len s))) \<le> cost (plat s) + unat (mbox_timeout s)"
proof -
  have nap: "cost (plat (mbox_nap P s)) \<le> cost (plat s) + 1" for s :: "('a, 'b) mbox_st_scheme"
    using assms by (simp add: mem_budget_def mbox_nap_def)
  have "cost (plat (snd (mbox_read_round P h msg len s))) \<le> cost (plat s) + 0" for s :: "('a, 'b) mbox_st_scheme"
    using cost_mbox(1) [OF assms, of h msg len s]
    by (simp add: mbox_read_round_def case_prod_beta split: sum.splits)
  then have "cost (plat (snd (mbox_read_loop P h msg len n s))) \<le> cost (plat s) + n * (0 + 1)" for n
    by (rule mbox_read_poll.cost_loop) (rule nap)
  then show "cost (plat (snd (fpga_hal_mbox_read P h msg len s))) \<le> cost (plat s) + unat (mbox_timeout s)"
    by (simp add: fpga_hal_mbox_read_def prog_simps)
  have "cost (plat (snd (mbox_write_round P h s))) \<le> cost (plat s) + 0" for s :: "('a, 'b) mbox_st_scheme"
    using cost_mbox(2) [OF assms, of h s]
    by (simp add: mbox_write_round_def case_prod_beta split: sum.splits)
  then have w: "cost (plat (snd (mbox_write_loop P h n s))) \<le> cost (plat s) + n * (0 + 1)"
    for n and s :: "('a, 'b) mbox_st_scheme"
    by (rule mbox_write_poll.cost_loop) (rule nap)
  obtain r t where a: "fpga_hal_mbox_write_async P h msg len s = (r, t)" by fastforce
  have "cost (plat t) \<le> cost (plat s)" "mbox_timeout t = mbox_timeout s"
    using cost_mbox(3) [OF assms, of h msg len s] a
      leavesD [OF leaves_mbox_write_async [OF plat_free_mbox(1)] a] by simp_all
  then show "cost (plat (snd (fpga_hal_mbox_write P h msg len s))) \<le> cost (plat s) + unat (mbox_timeout s)"
    using w [of "unat (mbox_timeout t)" t] a
    by (simp add: fpga_hal_mbox_write_def prog_simps split: sum.splits)
qed

theorem mbox_wait_bounded:
  assumes "mem_budget P cost"
  shows "cost (plat (snd (fpga_hal_mbox_read P h msg len s))) \<le> cost (plat s) + unat (mbox_timeout s) \<and>
    cost (plat (snd (fpga_hal_mbox_write P h msg len s))) \<le> cost (plat s) + unat (mbox_timeout s)"
  using cost_mbox_sync [OF assms] by blast

section \<open>Instances\<close>

text \<open>A mailbox mapped at \<open>0x100000\<close> as the whole platform.\<close>

definition mbox_platform :: "mailbox platform" where
  "mbox_platform = \<lparr>
     k_scan_hex = (\<lambda>h path. Scan_eof),
     k_stat = (\<lambda>h path. None),
     k_readdir = (\<lambda>h path. None),
     k_open = (\<lambda>h path mode. False),
     k_write = (\<lambda>h path buf. (-1, h)),
     k_mmap = (\<lambda>h path len. (None, h)),
     k_munmap = (\<lambda>h addr len. (True, h)),
     k_nanosleep = (\<lambda>ms h. h),
     c_rand = (\<lambda>h. (0, h)),
     c_indet = (\<lambda>h. 0),
     m_load8 = (\<lambda>h a. (0, h)),
     m_load32 = (\<lambda>h a.
       if a = 0x10000c then (mb_status h, h)
       else if a = 0x100038 then (mb_rd_len h, h)
       else if a = 0x100034 then (mb_rd_words h (mb_rd_index h), h\<lparr>mb_rd_index := Suc (mb_rd_index h)\<rparr>)
       else (0, h)),
     m_load64 = (\<lambda>h a. (0, h)),
     m_store8 = (\<lambda>h a v. h),
     m_store32 = (\<lambda>h a v.
       if a = 0x10000c then h\<lparr>mb_status := mb_status h AND NOT v\<rparr>
       else if a = 0x100030 then h\<lparr>mb_rd_index := unat v\<rparr>
       else if a = 0x100020 then h\<lparr>mb_wr_index := unat v\<rparr>
       else if a = 0x100024 then h\<lparr>mb_wr_words := (mb_wr_words h)(mb_wr_index h := v),
                                   mb_wr_index := Suc (mb_wr_index h)\<rparr>
       else if a = 0x100028 then h\<lparr>mb_wr_len := v\<rparr>
       else h),
     m_store64 = (\<lambda>h a v. h)\<rparr>"

definition mbox_demo :: "mailbox mbox_st" where
  "mbox_demo = \<lparr>bars = bars demo_mapped,
     plat = \<lparr>mb_status = 1, mb_rd_index = 7, mb_rd_words = (\<lambda>i. of_nat (10 + i)), mb_rd_len = 3,
             mb_wr_index = 7, mb_wr_words = (\<lambda>_. 0), mb_wr_len = 0\<rparr>,
     mbox_timeout = 5, mbox_delay_msec = 10\<rparr>"

lemma mbox_platform_device: "mailbox_device mbox_platform 0x100000 (\<lambda>h. h) (\<lambda>m. m)"
  by (simp add: mailbox_device_def mbox_platform_def)

lemma mbox_demo_mapped: "mbox_mapped 0 0x100000 (bars mbox_demo)"
  using demo_mapped_ok by (simp add: mbox_mapped_def region_mapped_def mbox_demo_def demo_mapped_bar)

theorem mbox_read_delivers_witness:
  "\<exists>msg' t. fpga_hal_mbox_read_async mbox_platform 0 zero_bytes 0 mbox_demo = (Inr (0, msg', 12), t) \<and>
     get32 msg' 8 = 12"
proof -
  obtain msg' t where r: "fpga_hal_mbox_read_async mbox_platform 0 zero_bytes 0 mbox_demo =
      (Inr (0, msg', push_bit 2 (mb_rd_len (plat mbox_demo))), t)"
    and w: "\<forall>j < unat (mb_rd_len (plat mbox_demo)). get32 msg' (4 * j) = mb_rd_words (plat mbox_demo) j"
    using mbox_read_delivers [OF mbox_platform_device mbox_demo_mapped, of zero_bytes 0]
    by (auto simp: mbox_demo_def)
  then show ?thesis using w [rule_format, of 2] by (simp add: mbox_demo_def)
qed

theorem mbox_write_transfers_witness:
  "\<exists>t. fpga_hal_mbox_write_async mbox_platform 0 zero_bytes 8 mbox_demo = (Inr (), t) \<and>
     mb_wr_len (plat t) = 2"
  using mbox_write_transfers [OF mbox_platform_device mbox_demo_mapped, of 8 zero_bytes]
  by (auto simp: fpga_hal_mbox_check_len_def)

theorem mbox_wait_bounded_witness:
  "demo_sleeps (plat (snd (fpga_hal_mbox_read demo_platform 0 zero_bytes 0
     \<lparr>bars = bars demo_mapped, plat = demo_h [], mbox_timeout = 5, mbox_delay_msec = 10\<rparr>))) \<le> 5"
proof -
  have "mem_budget demo_platform demo_sleeps" by (simp add: mem_budget_def)
  from mbox_wait_bounded [OF this, of 0 zero_bytes 0
      "\<lparr>bars = bars demo_mapped, plat = demo_h [], mbox_timeout = 5, mbox_delay_msec = 10\<rparr>"]
  show ?thesis by (simp add: demo_h_def)
qed

end
