(* ===== verification/Afi_Cmd.thy ===== *)
theory Afi_Cmd
  imports Hal_Mbox
begin

text \<open>
  \<open>sdk/userspace/fpga_libs/fpga_mgmt/fpga_mgmt_cmd.c\<close> and \<open>afi_cmd_api.h\<close>: the AFI command protocol
  over the mailbox. A command is a packed little-endian message of at most 4096 bytes: a header of
  four words (version, opcode, length and flags, id) and a body. The state holds the handle of the
  mailbox BAR of every slot, the parameters of the mailbox and the command id of
  \<open>afi_get_next_id\<close>.
\<close>

abbreviation (input) FPGA_MGMT_TIMEOUT_DFLT :: u32 where "FPGA_MGMT_TIMEOUT_DFLT \<equiv> 2500"
abbreviation (input) FPGA_MGMT_DELAY_MSEC_DFLT :: u32 where "FPGA_MGMT_DELAY_MSEC_DFLT \<equiv> 2"
abbreviation (input) AFI_CMD_HDR_FLAGS_SHIFT :: nat where "AFI_CMD_HDR_FLAGS_SHIFT \<equiv> 24"
abbreviation (input) AFI_CMD_HDR_LEN_MASK :: u32 where "AFI_CMD_HDR_LEN_MASK \<equiv> 0xffffff"
abbreviation (input) AFI_MAX_RETRIES :: nat where "AFI_MAX_RETRIES \<equiv> 1"
abbreviation (input) AFI_CMD_DATA_LEN :: nat where "AFI_CMD_DATA_LEN \<equiv> 4096"
abbreviation (input) AFI_CMD_API_VERSION :: u32 where "AFI_CMD_API_VERSION \<equiv> 0x10002"
abbreviation (input) AFI_CMD_HDR_IS_RSP :: u32 where "AFI_CMD_HDR_IS_RSP \<equiv> 1"
abbreviation (input) AFI_CMD_HDR_ALL_FLAGS :: u32 where "AFI_CMD_HDR_ALL_FLAGS \<equiv> 1"
abbreviation (input) AFI_CMD_ERROR :: u32 where "AFI_CMD_ERROR \<equiv> 0"
abbreviation (input) AFI_CMD_LOAD :: u32 where "AFI_CMD_LOAD \<equiv> 1"
abbreviation (input) AFI_CMD_METRICS :: u32 where "AFI_CMD_METRICS \<equiv> 2"
abbreviation (input) AFI_CMD_CLEAR :: u32 where "AFI_CMD_CLEAR \<equiv> 3"

text \<open>The sizes and offsets of the packed structures.\<close>

abbreviation (input) SIZEOF_HDR :: nat where "SIZEOF_HDR \<equiv> 16"
abbreviation (input) SIZEOF_LOAD_REQ :: nat where "SIZEOF_LOAD_REQ \<equiv> 248"
abbreviation (input) SIZEOF_METRICS_REQ :: nat where "SIZEOF_METRICS_REQ \<equiv> 4"
abbreviation (input) SIZEOF_CLEAR_REQ :: nat where "SIZEOF_CLEAR_REQ \<equiv> 4"
abbreviation (input) SIZEOF_METRICS_RSP :: nat where "SIZEOF_METRICS_RSP \<equiv> 584"
abbreviation (input) SIZEOF_ERR_RSP :: nat where "SIZEOF_ERR_RSP \<equiv> 4"
abbreviation (input) BODY :: nat where "BODY \<equiv> 16"

section \<open>State\<close>

text \<open>\<open>fpga_mgmt_state\<close> and the static \<open>id\<close> of \<open>afi_get_next_id\<close>.\<close>

record 'h mgmt_st = "'h mbox_st" +
  slots :: "int list"
  mgmt_timeout :: u32
  mgmt_delay_msec :: u32
  initialized :: bool
  next_id :: u32

section \<open>The header\<close>

definition hdr_version :: "bytes \<Rightarrow> u32" where "hdr_version cmd = get32 cmd 0"
definition hdr_op :: "bytes \<Rightarrow> u32" where "hdr_op cmd = get32 cmd 4"
definition hdr_len_flags :: "bytes \<Rightarrow> u32" where "hdr_len_flags cmd = get32 cmd 8"
definition hdr_id :: "bytes \<Rightarrow> u32" where "hdr_id cmd = get32 cmd 12"

definition MAJOR_VERSION :: "u32 \<Rightarrow> u32" where "MAJOR_VERSION x = x AND 0xffff"

definition afi_cmd_hdr_get_len :: "bytes \<Rightarrow> u32" where
  "afi_cmd_hdr_get_len cmd = hdr_len_flags cmd AND AFI_CMD_HDR_LEN_MASK"

definition afi_cmd_hdr_get_flags :: "bytes \<Rightarrow> u32" where
  "afi_cmd_hdr_get_flags cmd = drop_bit AFI_CMD_HDR_FLAGS_SHIFT (hdr_len_flags cmd)"

text \<open>
  The setters return their code and the buffer. \<open>len\<close> is a \<open>size_t\<close>; the mask is an \<open>int\<close>, so its
  complement is sign-extended for the test.
\<close>

definition afi_cmd_hdr_set_len :: "bytes \<Rightarrow> u64 \<Rightarrow> int \<times> bytes" where
  "afi_cmd_hdr_set_len cmd len =
     (if len AND NOT 0xffffff \<noteq> 0 then (FPGA_ERR_SOFTWARE_PROBLEM, cmd)
      else (0, put32 cmd 8 ((hdr_len_flags cmd AND NOT AFI_CMD_HDR_LEN_MASK) OR ucast len)))"

definition afi_cmd_hdr_set_flags :: "bytes \<Rightarrow> u32 \<Rightarrow> int \<times> bytes" where
  "afi_cmd_hdr_set_flags cmd flags =
     (if flags AND NOT AFI_CMD_HDR_ALL_FLAGS \<noteq> 0 then (FPGA_ERR_SOFTWARE_PROBLEM, cmd)
      else (0, put32 cmd 8 ((hdr_len_flags cmd AND AFI_CMD_HDR_LEN_MASK)
                 OR push_bit AFI_CMD_HDR_FLAGS_SHIFT flags)))"

definition afi_get_next_id :: "'h platform \<Rightarrow> (('h, 'z) mgmt_st_scheme, u32) prog" where
  "afi_get_next_id P =
     bindE (gets next_id) (\<lambda>i.
     bindE (if i = 0 then on_plat (c_rand P) else ok i) (\<lambda>i'.
     bindE (modify (\<lambda>s. s\<lparr>next_id := i' + 1\<rparr>)) (\<lambda>_. ok i')))"

section \<open>Requests\<close>

text \<open>The header of a request with the given opcode, id and payload length.\<close>

definition fill_header :: "bytes \<Rightarrow> u32 \<Rightarrow> u32 \<Rightarrow> nat \<Rightarrow> bytes" where
  "fill_header cmd op i payload_len =
     (let c1 = put32 cmd 0 AFI_CMD_API_VERSION;
          c2 = put32 c1 4 op;
          c3 = put32 c2 12 i;
          c4 = snd (afi_cmd_hdr_set_len c3 (of_nat payload_len))
      in snd (afi_cmd_hdr_set_flags c4 0))"

text \<open>
  The body of a load request: the AFI id as a string of 64 bytes with a final NUL, the flags, and the
  first frequency of each of the three clock groups. \<open>1000000 * clock_mains[i]\<close> is a product of
  32-bit integers that is widened afterwards.
\<close>

definition fpga_mgmt_cmd_init_load ::
  "'h platform \<Rightarrow> bytes \<Rightarrow> load_local_image_options \<Rightarrow> (('h, 'z) mgmt_st_scheme, bytes \<times> u32) prog" where
  "fpga_mgmt_cmd_init_load P cmd opt =
     bindE (afi_get_next_id P) (\<lambda>i.
     let c1 = fill_header cmd AFI_CMD_LOAD i SIZEOF_LOAD_REQ;
         c2 = put_list c1 BODY (strncpy AFI_ID_STR_MAX (opt_afi_id opt));
         c3 = c2(BODY + (AFI_ID_STR_MAX - 1) := 0);
         c4 = put32 c3 (BODY + 72) (opt_flags opt);
         c5 = foldl (\<lambda>c k. put64 c (BODY + 80 + 56 * k) (ucast (1000000 * opt_clock_mains opt ! k)))
                c4 [0..<FPGA_MMCM_GROUP_MAX]
     in ok (c5, of_nat (SIZEOF_HDR + SIZEOF_LOAD_REQ)))"

definition fpga_mgmt_cmd_init_metrics ::
  "'h platform \<Rightarrow> bytes \<Rightarrow> u32 \<Rightarrow> (('h, 'z) mgmt_st_scheme, bytes \<times> u32) prog" where
  "fpga_mgmt_cmd_init_metrics P cmd flags =
     bindE (afi_get_next_id P) (\<lambda>i.
     let c1 = fill_header cmd AFI_CMD_METRICS i SIZEOF_METRICS_REQ;
         c2 = put32 c1 BODY (flags AND
           (FPGA_CMD_GET_HW_METRICS OR FPGA_CMD_CLEAR_HW_METRICS OR FPGA_CMD_CLEAR_AFI_CACHE))
     in ok (c2, of_nat (SIZEOF_HDR + SIZEOF_METRICS_REQ)))"

definition fpga_mgmt_cmd_init_clear ::
  "'h platform \<Rightarrow> bytes \<Rightarrow> (('h, 'z) mgmt_st_scheme, bytes \<times> u32) prog" where
  "fpga_mgmt_cmd_init_clear P cmd =
     bindE (afi_get_next_id P) (\<lambda>i.
     let c1 = fill_header cmd AFI_CMD_CLEAR i SIZEOF_CLEAR_REQ;
         c2 = put32 c1 BODY 0
     in ok (c2, of_nat (SIZEOF_HDR + SIZEOF_CLEAR_REQ)))"

section \<open>Responses\<close>

text \<open>The offset of the metrics in the response, or the failure of a response that is too short.\<close>

definition fpga_mgmt_cmd_handle_metrics :: "u32 \<Rightarrow> int + nat" where
  "fpga_mgmt_cmd_handle_metrics len =
     (if len < of_nat (SIZEOF_HDR + SIZEOF_METRICS_RSP) then Inl FPGA_ERR_AFI_CMD_MALFORMED else Inr BODY)"

definition fpga_mgmt_handle_afi_cmd_error_rsp :: "bytes \<Rightarrow> u32 \<Rightarrow> int" where
  "fpga_mgmt_handle_afi_cmd_error_rsp rsp len =
     (let error = sint (get32 rsp BODY);
          tmp_len = of_nat (SIZEOF_HDR + SIZEOF_ERR_RSP)
      in if len < tmp_len then FPGA_ERR_AFI_CMD_MALFORMED
         else if error = FPGA_ERR_AFI_CMD_API_VERSION_INVALID \<and> len < tmp_len + 4
           then FPGA_ERR_AFI_CMD_MALFORMED
         else error)"

definition fpga_mgmt_afi_validate_header :: "bytes \<Rightarrow> bytes \<Rightarrow> u32 \<Rightarrow> int" where
  "fpga_mgmt_afi_validate_header cmd rsp len =
     (let is_response = afi_cmd_hdr_get_flags rsp AND AFI_CMD_HDR_IS_RSP;
          payload_len = afi_cmd_hdr_get_len rsp
      in if MAJOR_VERSION (hdr_version cmd) \<noteq> MAJOR_VERSION (hdr_version rsp)
           then FPGA_ERR_AFI_CMD_MALFORMED
         else if hdr_op cmd \<noteq> hdr_op rsp then
           (if hdr_op rsp = AFI_CMD_ERROR then fpga_mgmt_handle_afi_cmd_error_rsp rsp len
            else - EAGAIN)
         else if hdr_id cmd \<noteq> hdr_id rsp then - EAGAIN
         else if len < of_nat SIZEOF_HDR then FPGA_ERR_AFI_CMD_MALFORMED
         else if AFI_CMD_DATA_LEN < unat payload_len + SIZEOF_HDR then FPGA_ERR_AFI_CMD_MALFORMED
         else if is_response = 0 then FPGA_ERR_AFI_CMD_MALFORMED
         else 0)"

section \<open>The mailbox of a slot\<close>

definition fpga_mgmt_mbox_attach :: "'h platform \<Rightarrow> nat \<Rightarrow> (('h, 'z) mgmt_st_scheme, unit) prog" where
  "fpga_mgmt_mbox_attach P slot_id =
     bindE (gets (\<lambda>s. slots s ! slot_id)) (\<lambda>h.
     bindE (if h = PCI_BAR_HANDLE_INIT then
         bindE (fpga_pci_attach P (int slot_id) (int FPGA_MGMT_PF) FPGA_MBOX_RESOURCE_NUM 0) (\<lambda>handle.
         bindE (modify (\<lambda>s. s\<lparr>slots := (slots s)[slot_id := handle]\<rparr>)) (\<lambda>_.
         bindE (gets mgmt_timeout) (\<lambda>timeout.
         bindE (gets mgmt_delay_msec) (\<lambda>delay_msec.
         bindE (fpga_hal_mbox_init timeout delay_msec) (\<lambda>_. ok handle)))))
       else ok h) (\<lambda>handle.
     fpga_hal_mbox_attach P handle True))"

definition fpga_mgmt_mbox_detach :: "'h platform \<Rightarrow> nat \<Rightarrow> (('h, 'z) mgmt_st_scheme, unit) prog" where
  "fpga_mgmt_mbox_detach P slot_id =
     bindE (gets (\<lambda>s. slots s ! slot_id)) (\<lambda>handle.
     if handle \<noteq> PCI_BAR_HANDLE_INIT then
       bindE (attempt (fpga_hal_mbox_detach P handle True)) (\<lambda>_.
       bindE (attempt (fpga_pci_detach P handle)) (\<lambda>_.
       modify (\<lambda>s. s\<lparr>slots := (slots s)[slot_id := PCI_BAR_HANDLE_INIT]\<rparr>)))
     else ok ())"

text \<open>\<open>ret |= fpga_mgmt_mbox_detach(i)\<close> over all slots.\<close>

fun mgmt_detach_loop :: "'h platform \<Rightarrow> nat list \<Rightarrow> bool \<Rightarrow> (('h, 'z) mgmt_st_scheme, bool) prog" where
  "mgmt_detach_loop P [] failed = ok failed"
| "mgmt_detach_loop P (i # is) failed =
     bindE (attempt (fpga_mgmt_mbox_detach P i)) (\<lambda>r. mgmt_detach_loop P is (failed \<or> isl r))"

definition fpga_mgmt_detach_all :: "'h platform \<Rightarrow> (('h, 'z) mgmt_st_scheme, unit) prog" where
  "fpga_mgmt_detach_all P =
     bindE (mgmt_detach_loop P [0..<FPGA_SLOT_MAX] False) (\<lambda>failed.
     ret_code (if failed then -1 else 0) ())"

section \<open>Sending a command\<close>

text \<open>
  The code is returned beside the response buffer and the length, which the callers see even when
  the command fails.
\<close>

function mgmt_read_rsp ::
  "'h platform \<Rightarrow> int \<Rightarrow> bytes \<Rightarrow> bytes \<Rightarrow> u32 \<Rightarrow> nat
    \<Rightarrow> (('h, 'z) mgmt_st_scheme, int \<times> bytes \<times> u32) prog" where
  "mgmt_read_rsp P handle cmd rsp len retries =
     bindE (fpga_hal_mbox_read P handle rsp len) (\<lambda>(ret, rsp', len').
     if ret \<noteq> 0 then ok (ret, rsp', len')
     else
       let ret' = fpga_mgmt_afi_validate_header cmd rsp' len' in
       if ret' = 0 then ok (0, rsp', len')
       else if ret' \<noteq> - EAGAIN then ok (ret', rsp', len')
       else if AFI_MAX_RETRIES \<le> retries then ok (- ETIMEDOUT, rsp', len')
       else mgmt_read_rsp P handle cmd rsp' len' (Suc retries))"
  by pat_completeness auto
termination
  by (relation "measure (\<lambda>(P, handle, cmd, rsp, len, retries). AFI_MAX_RETRIES - retries)") auto

declare mgmt_read_rsp.simps [simp del]

definition fpga_mgmt_send_cmd ::
  "'h platform \<Rightarrow> nat \<Rightarrow> bytes \<Rightarrow> bytes \<Rightarrow> u32 \<Rightarrow> (('h, 'z) mgmt_st_scheme, int \<times> bytes \<times> u32) prog" where
  "fpga_mgmt_send_cmd P slot_id cmd rsp len =
     bindE (gets (\<lambda>s. slots s ! slot_id)) (\<lambda>handle.
     bindE (attempt (fpga_hal_mbox_write P handle cmd len)) (\<lambda>r.
     case r of
       Inl ret \<Rightarrow> ok (ret, rsp, len)
     | Inr _ \<Rightarrow> mgmt_read_rsp P handle cmd rsp len 0))"

definition fpga_mgmt_process_cmd ::
  "'h platform \<Rightarrow> int \<Rightarrow> bytes \<Rightarrow> bytes \<Rightarrow> u32 \<Rightarrow> (('h, 'z) mgmt_st_scheme, int \<times> bytes \<times> u32) prog" where
  "fpga_mgmt_process_cmd P slot_id cmd rsp len =
     (if slot_id < 0 \<or> int FPGA_SLOT_MAX \<le> slot_id then ok (- EINVAL, rsp, len)
      else
        bindE (attempt (fpga_mgmt_mbox_attach P (nat slot_id))) (\<lambda>r.
        case r of
          Inl ret \<Rightarrow> ok (ret, rsp, len)
        | Inr _ \<Rightarrow> fpga_mgmt_send_cmd P (nat slot_id) cmd rsp len))"

section \<open>Two fields of one word\<close>

text \<open>
  Two fields packed together: each setter changes its own field only. What a sequence of writes
  leaves in the fields is then the last value written to each.
\<close>

locale field_pair =
  fixes get_a :: "'m \<Rightarrow> 'a" and set_a :: "'m \<Rightarrow> 'a \<Rightarrow> 'm" and valid_a :: "'a \<Rightarrow> bool"
    and get_b :: "'m \<Rightarrow> 'b" and set_b :: "'m \<Rightarrow> 'b \<Rightarrow> 'm" and valid_b :: "'b \<Rightarrow> bool"
  assumes a_a: "valid_a v \<Longrightarrow> get_a (set_a m v) = v"
    and b_b: "valid_b w \<Longrightarrow> get_b (set_b m w) = w"
    and a_b: "valid_b w \<Longrightarrow> get_a (set_b m w) = get_a m"
    and b_a: "valid_a v \<Longrightarrow> get_b (set_a m v) = get_b m"
begin

fun put_field :: "'m \<Rightarrow> 'a + 'b \<Rightarrow> 'm" where
  "put_field m (Inl v) = set_a m v"
| "put_field m (Inr w) = set_b m w"

definition valid :: "'a + 'b \<Rightarrow> bool" where
  "valid x = (case x of Inl v \<Rightarrow> valid_a v | Inr w \<Rightarrow> valid_b w)"

lemma writes:
  "\<forall>x \<in> set xs. valid x \<Longrightarrow>
    get_a (foldl put_field m xs) = last (get_a m # map projl (filter isl xs)) \<and>
    get_b (foldl put_field m xs) = last (get_b m # map projr (filter (\<lambda>x. \<not> isl x) xs))"
proof (induction xs rule: rev_induct)
  case (snoc x xs)
  then show ?case by (cases x) (auto simp: valid_def a_a b_b a_b b_a)
qed simp

end

lemma len_mask_bits: "v AND (0xffffff :: u32) = take_bit 24 v"
  by (simp add: take_bit_eq_mask mask_eq_exp_minus_1)

lemma and_not_mask: "(x :: 'a::len word) AND NOT (mask n) = 0 \<longleftrightarrow> unat x < 2 ^ n"
proof -
  have "x AND NOT (mask n) = 0 \<longleftrightarrow> take_bit n x = x"
    by (auto simp: bit_eq_iff bit_simps)
  also have "\<dots> \<longleftrightarrow> unat (take_bit n x) = unat x" by (simp only: word_unat_eq_iff)
  also have "\<dots> \<longleftrightarrow> unat x < 2 ^ n"
    by (simp only: unsigned_take_bit_eq take_bit_nat_eq_self_iff)
  finally show ?thesis .
qed

lemma len_mask_fits: "(x :: u64) AND NOT 0xffffff = 0 \<longleftrightarrow> unat x < 2 ^ 24"
  using and_not_mask [of x 24] by (simp add: mask_eq_exp_minus_1)

lemma flags_mask_fits: "(x :: u32) AND NOT AFI_CMD_HDR_ALL_FLAGS = 0 \<longleftrightarrow> x < 2"
  using and_not_mask [of x 1] by (simp add: word_less_nat_alt)

lemma len_flags_get [simp]: "hdr_len_flags (put32 cmd 8 v) = v"
  by (simp add: hdr_len_flags_def)

lemma unat_ucast_u64 [simp]: "unat (ucast (v :: u32) :: u64) = unat v"
  by transfer simp

lemma ucast_u64_u32 [simp]: "ucast (ucast (v :: u32) :: u64) = v"
  by (rule ucast_up_down) simp

lemma word_bits_above: "unat (v :: 'a::len word) < 2 ^ n \<Longrightarrow> n \<le> m \<Longrightarrow> \<not> bit v m"
  by (simp add: and_not_mask [symmetric] bit_eq_iff bit_simps) (metis bit_imp_le_length linorder_not_less)

interpretation hdr_fields: field_pair afi_cmd_hdr_get_len "\<lambda>cmd v. snd (afi_cmd_hdr_set_len cmd (ucast v))"
  "\<lambda>v. unat v < 2 ^ 24" afi_cmd_hdr_get_flags "\<lambda>cmd f. snd (afi_cmd_hdr_set_flags cmd f)" "\<lambda>f. f < 2"
proof unfold_locales
  fix cmd and v :: u32
    assume v: "unat v < 2 ^ 24"
  have s: "snd (afi_cmd_hdr_set_len cmd (ucast v)) =
      put32 cmd 8 ((hdr_len_flags cmd AND NOT AFI_CMD_HDR_LEN_MASK) OR v)"
    using v by (simp add: afi_cmd_hdr_set_len_def len_mask_fits [simplified])
  have t: "bit v m \<Longrightarrow> m < 24" for m
    using word_bits_above [OF v, of m] by (cases "m < 24") auto
  have len: "hdr_len_flags cmd AND NOT AFI_CMD_HDR_LEN_MASK = hdr_len_flags cmd AND NOT (mask 24)"
    by (simp add: mask_eq_exp_minus_1)
  show "afi_cmd_hdr_get_len (snd (afi_cmd_hdr_set_len cmd (ucast v))) = v"
    unfolding s len by (rule bit_word_eqI) (auto simp: afi_cmd_hdr_get_len_def len_mask_bits bit_simps dest: t)
  show "afi_cmd_hdr_get_flags (snd (afi_cmd_hdr_set_len cmd (ucast v))) = afi_cmd_hdr_get_flags cmd"
    unfolding s len by (rule bit_word_eqI) (auto simp: afi_cmd_hdr_get_flags_def bit_simps dest: t bit_imp_le_length)
next
  fix cmd and w :: u32
  assume w: "w < 2"
  have s: "snd (afi_cmd_hdr_set_flags cmd w) =
      put32 cmd 8 (take_bit 24 (hdr_len_flags cmd) OR push_bit AFI_CMD_HDR_FLAGS_SHIFT w)"
    using w by (simp add: afi_cmd_hdr_set_flags_def flags_mask_fits [simplified] len_mask_bits)
  have t: "bit w m \<Longrightarrow> m = 0" for m
    using word_bits_above [of w 1 m] w by (cases m) (auto simp: word_less_nat_alt)
  show "afi_cmd_hdr_get_flags (snd (afi_cmd_hdr_set_flags cmd w)) = w"
    unfolding s by (rule bit_word_eqI) (auto simp: afi_cmd_hdr_get_flags_def bit_simps dest: t bit_imp_le_length)
  show "afi_cmd_hdr_get_len (snd (afi_cmd_hdr_set_flags cmd w)) = afi_cmd_hdr_get_len cmd"
    unfolding s by (rule bit_word_eqI) (auto simp: afi_cmd_hdr_get_len_def len_mask_bits bit_simps)
qed

section \<open>Built requests\<close>

text \<open>The header of a request: version, opcode, id and payload length as given, no flag set.\<close>

definition request_header :: "bytes \<Rightarrow> u32 \<Rightarrow> u32 \<Rightarrow> nat \<Rightarrow> bool" where
  "request_header cmd op i n \<longleftrightarrow> hdr_version cmd = AFI_CMD_API_VERSION \<and> hdr_op cmd = op \<and> hdr_id cmd = i \<and>
     unat (afi_cmd_hdr_get_len cmd) = n \<and> afi_cmd_hdr_get_flags cmd = 0"

lemma set_len_flags_outside:
  "j < 8 \<or> 12 \<le> j \<Longrightarrow> snd (afi_cmd_hdr_set_len cmd v) j = cmd j"
  "j < 8 \<or> 12 \<le> j \<Longrightarrow> snd (afi_cmd_hdr_set_flags cmd f) j = cmd j"
  by (auto simp: afi_cmd_hdr_set_len_def afi_cmd_hdr_set_flags_def)

lemma get32_cong: "(\<And>k. k < 4 \<Longrightarrow> b (i + k) = c (i + k)) \<Longrightarrow> get32 b i = get32 c i"
proof -
  assume e: "\<And>k. k < 4 \<Longrightarrow> b (i + k) = c (i + k)"
  from e [of 0] e [of 1] e [of 2] e [of 3] show ?thesis by (simp add: get32_def)
qed

lemma fill_header_request:
  assumes "n < 2 ^ 24"
  shows "request_header (fill_header cmd op i n) op i n"
proof -
  let ?c = "put32 (put32 (put32 cmd 0 AFI_CMD_API_VERSION) 4 op) 12 i"
  have n: "(of_nat n :: u64) = ucast (of_nat n :: u32)" "unat (of_nat n :: u32) = n"
    using assms by (simp_all add: unat_of_nat unat_eq_nat_uint [symmetric] word_unat_eq_iff)
  let ?d = "snd (afi_cmd_hdr_set_len ?c (ucast (of_nat n :: u32)))"
  have f: "fill_header cmd op i n = snd (afi_cmd_hdr_set_flags ?d 0)"
    by (simp add: fill_header_def Let_def n(1))
  have other: "get32 (snd (afi_cmd_hdr_set_flags ?d 0)) j = get32 ?c j" if "j + 4 \<le> 8 \<or> 12 \<le> j" for j
    using that by (intro get32_cong) (auto simp: set_len_flags_outside)
  have "afi_cmd_hdr_get_len (snd (afi_cmd_hdr_set_flags ?d 0)) = of_nat n"
    using hdr_fields.a_b [of 0 ?d] hdr_fields.a_a [of "of_nat n" ?c] assms n by simp
  moreover have "afi_cmd_hdr_get_flags (snd (afi_cmd_hdr_set_flags ?d 0)) = 0"
    using hdr_fields.b_b [of 0 ?d] by simp
  ultimately show ?thesis
    using n(2) by (simp add: f request_header_def hdr_version_def hdr_op_def hdr_id_def other)
qed

lemma request_header_outside:
  "request_header cmd op i n \<Longrightarrow> (\<And>j. j < 16 \<Longrightarrow> cmd' j = cmd j) \<Longrightarrow> request_header cmd' op i n"
proof -
  assume e: "\<And>j. j < 16 \<Longrightarrow> cmd' j = cmd j" and r: "request_header cmd op i n"
  have "get32 cmd' j = get32 cmd j" if "j \<le> 12" for j
    using that by (intro get32_cong e) simp
  then show ?thesis
    using r by (simp add: request_header_def hdr_version_def hdr_op_def hdr_id_def
        afi_cmd_hdr_get_len_def afi_cmd_hdr_get_flags_def hdr_len_flags_def)
qed

lemma cstr_append: "0 \<notin> set xs \<Longrightarrow> cstr (xs @ ys) = xs @ cstr ys"
  by (induction xs) (auto simp: cstr_def)

lemma cstr_nonzero: "0 \<notin> set (cstr xs)"
  by (auto simp: cstr_def dest: set_takeWhileD)

lemma cstr_strncpy_truncated: "cstr ((strncpy (Suc n) src)[n := 0]) = take n (cstr src)"
proof -
  have nz: "0 \<notin> set (take n (cstr src))" using cstr_nonzero set_take_subset by fastforce
  have "(strncpy (Suc n) src)[n := 0] = take n (strncpy (Suc n) src) @ [0]"
    by (rule nth_equalityI) (auto simp: nth_append nth_list_update)
  also have "take n (strncpy (Suc n) src) = take n (cstr src) @ replicate (n - length (cstr src)) 0"
    by (simp add: strncpy_def take_replicate min_def del: replicate.simps)
  finally have "(strncpy (Suc n) src)[n := 0] = take n (cstr src) @ replicate (n - length (cstr src)) 0 @ [0]"
    by simp
  moreover have "cstr (replicate k 0 @ [0]) = []" for k
    by (cases k) (simp_all add: cstr_def)
  ultimately show ?thesis using nz by (simp add: cstr_append)
qed

lemma next_id_Inr: "\<exists>i t. afi_get_next_id P s = (Inr i, t) \<and> next_id t = i + 1"
  by (simp add: afi_get_next_id_def prog_simps split: prod.splits)

lemma nth_get_list: "k < n \<Longrightarrow> get_list b i n ! k = b (i + k)"
  by (simp add: get_list_def)

lemma length_get_list: "length (get_list b i n) = n"
  by (simp add: get_list_def)

text \<open>Every request is a well-formed message that the mailbox accepts.\<close>

lemma init_load_request:
  "\<exists>c i t. fpga_mgmt_cmd_init_load P cmd opt s = (Inr (c, 264), t) \<and>
     next_id t = i + 1 \<and> request_header c AFI_CMD_LOAD i 248 \<and> fpga_hal_mbox_check_len 264 = 0 \<and>
     cstr (get_list c 16 64) = take 63 (cstr (opt_afi_id opt)) \<and> get32 c 88 = opt_flags opt \<and>
     (\<forall>k < FPGA_MMCM_GROUP_MAX. get64 c (96 + 56 * k) = ucast (1000000 * opt_clock_mains opt ! k))"
proof -
  obtain i t where i: "afi_get_next_id P s = (Inr i, t)" "next_id t = i + 1"
    using next_id_Inr by blast
  let ?c2 = "put_list (fill_header cmd AFI_CMD_LOAD i 248) 16 (strncpy 64 (opt_afi_id opt))"
  let ?c4 = "put32 (?c2(79 := 0)) 88 (opt_flags opt)"
  let ?v = "\<lambda>k. ucast (1000000 * opt_clock_mains opt ! k)"
  let ?c = "put64 (put64 (put64 ?c4 96 (?v 0)) 152 (?v 1)) 208 (?v 2)"
  have init: "fpga_mgmt_cmd_init_load P cmd opt s = (Inr (?c, 264), t)"
    using i by (simp add: fpga_mgmt_cmd_init_load_def prog_simps Let_def upt_rec numeral_2_eq_2)
  have "request_header ?c AFI_CMD_LOAD i 248"
    by (rule request_header_outside [OF fill_header_request]) (auto simp: put_list_outside)
  moreover have "get_list ?c 16 64 = (strncpy (Suc 63) (opt_afi_id opt))[63 := 0]"
  proof (rule nth_equalityI)
    fix k assume "k < length (get_list ?c 16 64)"
    then have k: "k < 64" by (simp only: length_get_list)
    then have "?c (16 + k) = (?c2(79 := 0)) (16 + k)" by simp
    also have "\<dots> = (strncpy 64 (opt_afi_id opt))[63 := 0] ! k"
      using k put_list_inside [of k "strncpy 64 (opt_afi_id opt)" _ 16]
      by (auto simp: nth_list_update)
    finally show "get_list ?c 16 64 ! k = (strncpy (Suc 63) (opt_afi_id opt))[63 := 0] ! k"
      using k by (simp only: nth_get_list) simp
  qed (simp only: length_get_list length_list_update length_strncpy)
  then have "cstr (get_list ?c 16 64) = take 63 (cstr (opt_afi_id opt))"
    by (simp only: cstr_strncpy_truncated)
  moreover have "get32 ?c 88 = opt_flags opt" by simp
  moreover have "\<forall>k < FPGA_MMCM_GROUP_MAX. get64 ?c (96 + 56 * k) = ?v k"
    by (auto simp: less_Suc_eq numeral_3_eq_3 numeral_2_eq_2)
  moreover have "fpga_hal_mbox_check_len 264 = 0"
    by (simp add: fpga_hal_mbox_check_len_def)
  ultimately show ?thesis using init i(2) by blast
qed

theorem load_request:
  "\<exists>c i t. fpga_mgmt_cmd_init_load P cmd opt s = (Inr (c, 264), t) \<and>
     next_id t = i + 1 \<and> request_header c AFI_CMD_LOAD i 248 \<and> fpga_hal_mbox_check_len 264 = 0 \<and>
     cstr (get_list c 16 64) = take 63 (cstr (opt_afi_id opt)) \<and> get32 c 88 = opt_flags opt \<and>
     map (\<lambda>k. get64 c (96 + 56 * k)) [0..<FPGA_MMCM_GROUP_MAX] =
       map (\<lambda>k. ucast (1000000 * opt_clock_mains opt ! k)) [0..<FPGA_MMCM_GROUP_MAX]"
proof -
  have "map (\<lambda>k. get64 c (96 + 56 * k)) [0..<FPGA_MMCM_GROUP_MAX] =
      map (\<lambda>k. ucast (1000000 * opt_clock_mains opt ! k)) [0..<FPGA_MMCM_GROUP_MAX] \<longleftrightarrow>
      (\<forall>k < FPGA_MMCM_GROUP_MAX. get64 c (96 + 56 * k) = ucast (1000000 * opt_clock_mains opt ! k))" for c
    by auto
  then show ?thesis using init_load_request [of P cmd opt s] by presburger
qed

lemma metrics_request:
  "\<exists>c i t. fpga_mgmt_cmd_init_metrics P cmd flags s = (Inr (c, 20), t) \<and>
     next_id t = i + 1 \<and> request_header c AFI_CMD_METRICS i 4 \<and> get32 c 16 = flags AND 0x106"
proof -
  obtain i t where i: "afi_get_next_id P s = (Inr i, t)" "next_id t = i + 1"
    using next_id_Inr by blast
  have h: "request_header (put32 (fill_header cmd op i 4) 16 v) op i 4" for op v
    by (rule request_header_outside [OF fill_header_request]) auto
  show ?thesis
    using i h [of AFI_CMD_METRICS "flags AND 0x106"]
    by (intro exI [of _ "put32 (fill_header cmd AFI_CMD_METRICS i 4) 16 (flags AND 0x106)"] exI [of _ i] exI [of _ t])
      (simp add: fpga_mgmt_cmd_init_metrics_def prog_simps Let_def)
qed

lemma clear_request:
  "\<exists>c i t. fpga_mgmt_cmd_init_clear P cmd s = (Inr (c, 20), t) \<and>
     next_id t = i + 1 \<and> request_header c AFI_CMD_CLEAR i 4 \<and> get32 c 16 = 0"
proof -
  obtain i t where i: "afi_get_next_id P s = (Inr i, t)" "next_id t = i + 1"
    using next_id_Inr by blast
  have h: "request_header (put32 (fill_header cmd op i 4) 16 v) op i 4" for op v
    by (rule request_header_outside [OF fill_header_request]) auto
  show ?thesis
    using i h [of AFI_CMD_CLEAR 0]
    by (intro exI [of _ "put32 (fill_header cmd AFI_CMD_CLEAR i 4) 16 0"] exI [of _ i] exI [of _ t])
      (simp add: fpga_mgmt_cmd_init_clear_def prog_simps Let_def)
qed

theorem metrics_clear_requests:
  "(\<exists>c i t. fpga_mgmt_cmd_init_metrics P cmd flags s = (Inr (c, 20), t) \<and>
     next_id t = i + 1 \<and> request_header c AFI_CMD_METRICS i 4 \<and>
     get32 c 16 = flags AND 0x106) \<and>
   (\<exists>c i t. fpga_mgmt_cmd_init_clear P cmd s = (Inr (c, 20), t) \<and>
     next_id t = i + 1 \<and> request_header c AFI_CMD_CLEAR i 4 \<and> get32 c 16 = 0) \<and>
   fpga_hal_mbox_check_len 20 = 0"
  by (rule conjI [OF metrics_request conjI [OF clear_request]]) (simp add: fpga_hal_mbox_check_len_def)

section \<open>Accepted responses\<close>

definition same_major :: "bytes \<Rightarrow> bytes \<Rightarrow> bool" where
  "same_major cmd rsp \<longleftrightarrow> MAJOR_VERSION (hdr_version cmd) = MAJOR_VERSION (hdr_version rsp)"

text \<open>
  Exactly two kinds of response are accepted: the answer to the command, and an error response whose
  error field is 0, of which neither id nor flags nor payload length are looked at.
\<close>

text \<open>
  C7. fpga_mgmt_afi_validate_header accepts exactly two kinds of response of the same major
  version: the answer with the opcode and id of the command, a header's length, a payload length
  that fits the buffer and the response flag; and an error response of at least 20 bytes whose
  error field is 0, whatever its id and flags.
\<close>

theorem validate_header_iff:
  "fpga_mgmt_afi_validate_header cmd rsp len = 0 \<longleftrightarrow> same_major cmd rsp \<and>
     (hdr_op cmd = hdr_op rsp \<and> hdr_id cmd = hdr_id rsp \<and> 16 \<le> unat len \<and>
        unat (afi_cmd_hdr_get_len rsp) \<le> 4080 \<and> afi_cmd_hdr_get_flags rsp AND AFI_CMD_HDR_IS_RSP \<noteq> 0 \<or>
      hdr_op cmd \<noteq> AFI_CMD_ERROR \<and> hdr_op rsp = AFI_CMD_ERROR \<and> 20 \<le> unat len \<and> get32 rsp 16 = 0)"
proof -
  have e: "fpga_mgmt_handle_afi_cmd_error_rsp rsp len = 0 \<longleftrightarrow> 20 \<le> unat len \<and> get32 rsp 16 = 0"
    by (auto simp: fpga_mgmt_handle_afi_cmd_error_rsp_def Let_def word_less_nat_alt signed_eq_0_iff)
  show ?thesis
    by (auto simp: fpga_mgmt_afi_validate_header_def same_major_def Let_def e word_less_nat_alt)
qed

text \<open>A request is never taken for its own response.\<close>

lemma validate_header_no_echo:
  "request_header cmd op i n \<Longrightarrow> fpga_mgmt_afi_validate_header cmd cmd len \<noteq> 0"
  by (simp add: validate_header_iff request_header_def)

section \<open>Ids\<close>

text \<open>
  Two commands in a row never have the same id, so that the response to the previous command is not
  accepted: \<open>rand\<close> returns at most \<open>RAND_MAX\<close>, which is below \<open>2 ^ 31\<close>.
\<close>

theorem next_id_fresh:
  assumes "\<And>h. unat (fst (c_rand P h)) < 2 ^ 31"
    and "afi_get_next_id P s = (Inr i, t)" and "next_id u = next_id t" and "afi_get_next_id P u = (Inr j, v)"
  shows "i \<noteq> j"
proof (cases "next_id u = 0")
  case False
  then have "j = i + 1" using assms(2-4)
    by (auto simp: afi_get_next_id_def prog_simps split: prod.splits if_splits)
  then show ?thesis by simp
next
  case True
  then have "i + 1 = 0" "j = fst (c_rand P (plat u))" using assms(2-4)
    by (auto simp: afi_get_next_id_def prog_simps split: prod.splits if_splits)
  then have "i = - 1" by (simp add: eq_neg_iff_add_eq_0)
  moreover have "unat (- 1 :: u32) = 2 ^ 32 - 1" by (simp add: unsigned_minus_1_eq_mask mask_eq_exp_minus_1)
  ultimately show ?thesis using assms(1) [of "plat u"] \<open>j = _\<close> by auto
qed

definition demo_mgmt :: "demo mgmt_st" where
  "demo_mgmt = \<lparr>bars = bars demo_table, plat = plat demo_table, mbox_timeout = 0, mbox_delay_msec = 0,
     slots = replicate FPGA_SLOT_MAX PCI_BAR_HANDLE_INIT, mgmt_timeout = 3, mgmt_delay_msec = 2,
     initialized = True, next_id = 0\<rparr>"

theorem next_id_fresh_witness:
  "\<exists>t u. afi_get_next_id demo_platform demo_mgmt = (Inr 42, t) \<and>
     afi_get_next_id demo_platform t = (Inr 43, u) \<and> (42 :: u32) \<noteq> 43"
proof -
  obtain t where t: "afi_get_next_id demo_platform demo_mgmt = (Inr 42, t)" "next_id t = 43"
    by (simp add: afi_get_next_id_def prog_simps demo_mgmt_def)
  obtain u where u: "afi_get_next_id demo_platform t = (Inr 43, u)"
    using t(2) by (simp add: afi_get_next_id_def prog_simps)
  have "(42 :: u32) \<noteq> 43" by (rule next_id_fresh [OF _ t(1) refl u]) simp
  with t u show ?thesis by blast
qed

section \<open>The handles of the slots\<close>

text \<open>
  The invariant of the management state: every slot holds no handle or one that is in use in the BAR
  table, and no two slots hold the same.
\<close>

definition slots_inv :: "fpga_pci_bar list \<Rightarrow> int list \<Rightarrow> bool" where
  "slots_inv bs hs \<longleftrightarrow> bars_inv bs \<and> length hs = FPGA_SLOT_MAX \<and>
     set hs \<subseteq> insert PCI_BAR_HANDLE_INIT (used_handles bs) \<and>
     (\<forall>i < FPGA_SLOT_MAX. \<forall>j < FPGA_SLOT_MAX. i \<noteq> j \<longrightarrow> hs ! i \<noteq> PCI_BAR_HANDLE_INIT \<longrightarrow> hs ! i \<noteq> hs ! j)"

abbreviation mgmt_inv :: "('h, 'z) mgmt_st_scheme \<Rightarrow> bool" where
  "mgmt_inv s \<equiv> slots_inv (bars s) (slots s)"

lemma plat_free_mgmt [simp]: "plat_free slots" "plat_free mgmt_timeout" "plat_free mgmt_delay_msec"
  "plat_free initialized" "plat_free next_id"
  by (simp_all add: plat_free_def)

lemma keeps_mgmt_leaves: "leaves bars m \<Longrightarrow> leaves slots m \<Longrightarrow> keeps mgmt_inv m"
  by (simp add: leaves_def keeps_def)

lemma slots_inv_mono:
  "slots_inv bs hs \<Longrightarrow> bars_inv bs' \<Longrightarrow> used_handles bs \<subseteq> used_handles bs' \<Longrightarrow> slots_inv bs' hs"
  by (auto simp: slots_inv_def)

lemma minus_one_unused [simp]: "- 1 \<notin> used_handles bs"
  by (simp add: used_handles_def)

lemma slots_inv_clear:
  assumes "slots_inv bs hs" and "i < FPGA_SLOT_MAX"
  shows "slots_inv bs (hs[i := PCI_BAR_HANDLE_INIT])"
  using assms set_update_subset_insert [of hs i PCI_BAR_HANDLE_INIT]
  by (auto simp: slots_inv_def nth_list_update)

lemma slots_inv_free:
  assumes "slots_inv bs hs" and "i < FPGA_SLOT_MAX" and "hs ! i \<noteq> PCI_BAR_HANDLE_INIT"
  shows "slots_inv (bs[nat (hs ! i) := zero_bar]) (hs[i := PCI_BAR_HANDLE_INIT])"
proof -
  have len: "length hs = FPGA_SLOT_MAX" using assms(1) by (simp add: slots_inv_def)
  have "hs ! i \<in> set hs" using assms(2) len by simp
  then have h: "hs ! i \<in> used_handles bs" using assms(1,3) by (auto simp: slots_inv_def)
  then have u: "used_handles (bs[nat (hs ! i) := zero_bar]) = used_handles bs - {hs ! i}"
    by (subst used_handles_update) (auto simp: used_handles_def zero_bar_def)
  have "hs[i := PCI_BAR_HANDLE_INIT] ! j \<noteq> hs ! i" if "j < FPGA_SLOT_MAX" for j
  proof -
    have "j \<noteq> i \<longrightarrow> hs ! i \<noteq> hs ! j" using assms that unfolding slots_inv_def by blast
    then show ?thesis using that len assms(2,3) by (auto simp: nth_list_update split: if_splits)
  qed
  then have "set (hs[i := PCI_BAR_HANDLE_INIT]) \<subseteq> insert PCI_BAR_HANDLE_INIT (used_handles bs - {hs ! i})"
    using slots_inv_clear [OF assms(1,2)] len
    by (auto simp: slots_inv_def in_set_conv_nth)
  with slots_inv_clear [OF assms(1,2)] show ?thesis
    by (simp add: slots_inv_def u bars_inv_update)
qed

lemma slots_inv_attach:
  assumes "slots_inv bs hs" and "i < FPGA_SLOT_MAX" and "bars_inv bs'"
    and "h \<notin> used_handles bs" and "used_handles bs' = insert h (used_handles bs)"
  shows "slots_inv bs' (hs[i := h])"
proof -
  have "h \<notin> set hs \<or> h = PCI_BAR_HANDLE_INIT" using assms(1,4) by (auto simp: slots_inv_def)
  then have "\<forall>j < FPGA_SLOT_MAX. hs ! j \<noteq> h \<or> h = PCI_BAR_HANDLE_INIT"
    using assms(1) by (auto simp: slots_inv_def in_set_conv_nth)
  then show ?thesis
    using assms set_update_subset_insert [of hs i h]
    by (auto simp: slots_inv_def nth_list_update)
qed

lemma slots_more: "leaves pci_st.more m \<Longrightarrow> leaves slots m"
proof (rule leavesI)
  fix s :: "('a, 'b) mgmt_st_scheme"
  assume "leaves pci_st.more m"
  then have "pci_st.more (snd (m s)) = pci_st.more s" by (rule leaves_snd)
  then show "slots (snd (m s)) = slots s"
    by (cases "snd (m s)"; cases s) simp
qed

lemma leaves_slots_pci_attach: "leaves slots (fpga_pci_attach P slot pf b flags)"
  by (rule slots_more [OF leaves_more_attach])

lemma leaves_slots_pci_detach: "leaves slots (fpga_pci_detach P h)"
  by (rule slots_more [OF leaves_more_detach])

lemma leaves_mbox_init [leaves_intros]: "leaves bars (fpga_hal_mbox_init a b)" "leaves slots (fpga_hal_mbox_init a b)"
  by (simp_all add: leaves_def fpga_hal_mbox_init_def prog_simps)

lemma keeps_mgmt_hal [keeps_intros]:
  "keeps mgmt_inv (fpga_hal_mbox_attach P h c)"
  "keeps mgmt_inv (fpga_hal_mbox_detach P h c)"
  by (intro keeps_mgmt_leaves leaves_mbox_attach plat_free_bars plat_free_mgmt)+

lemma keeps_mgmt_mbox_attach [keeps_intros]:
  assumes i: "i < FPGA_SLOT_MAX"
  shows "keeps mgmt_inv (fpga_mgmt_mbox_attach P i)"
proof (rule keepsI)
  fix s :: "('a, 'b) mgmt_st_scheme"
  assume I: "mgmt_inv s"
  then have B: "bars_inv (bars s)" by (simp add: slots_inv_def)
  show "mgmt_inv (snd (fpga_mgmt_mbox_attach P i s))"
  proof (cases "slots s ! i = PCI_BAR_HANDLE_INIT")
    case False
    then have "fpga_mgmt_mbox_attach P i s = fpga_hal_mbox_attach P (slots s ! i) True s"
      by (simp add: fpga_mgmt_mbox_attach_def prog_simps)
    then show ?thesis using keeps_snd [of mgmt_inv, OF keeps_mgmt_hal(1) I] by simp
  next
    case True
    obtain r t where a: "fpga_pci_attach P (int i) (int FPGA_MGMT_PF) FPGA_MBOX_RESOURCE_NUM 0 s = (r, t)"
      by fastforce
    have slots: "slots t = slots s" using a by (rule leavesD [OF leaves_slots_pci_attach])
    have "holds_handles (used_handles (bars s)) s" using B by (simp add: holds_handles_def)
    then have t: "bars_inv (bars t)" "used_handles (bars s) \<subseteq> used_handles (bars t)"
      using keepsD [OF keeps_holds_attach _ a] by (auto simp: holds_handles_def)
    show ?thesis
    proof (cases r)
      case (Inl e)
      then have "snd (fpga_mgmt_mbox_attach P i s) = t"
        using True a by (simp add: fpga_mgmt_mbox_attach_def prog_simps)
      then show ?thesis using I t slots slots_inv_mono by simp
    next
      case (Inr h)
      let ?u = "snd (fpga_hal_mbox_init (mgmt_timeout t) (mgmt_delay_msec t) (t\<lparr>slots := (slots t)[i := h]\<rparr>))"
      have u: "bars ?u = bars t" "slots ?u = (slots s)[i := h]"
        using slots by (simp_all add: fpga_hal_mbox_init_def prog_simps)
      have "slots_inv (bars t) ((slots s)[i := h])"
      proof (cases "0 \<le> h")
        case True
        then have f: "first_free (bars s) 0 = Some (nat h)"
          and "\<exists>base sz. bars t = attached_bars (bars s) (nat h) base sz"
          using attach_table [OF a [unfolded Inr] True B] by auto
        then have "h \<notin> used_handles (bars s)" "used_handles (bars t) = insert h (used_handles (bars s))"
          using first_free_Some [OF f] True
          by (auto simp: used_handles_def attached_bars_def nth_list_update)
        then show ?thesis using slots_inv_attach [OF I i t(1)] by simp
      next
        case False
        obtain spec v where "bars v = bars s"
          "fpga_pci_bar_attach P spec (nat (int FPGA_MGMT_PF)) (nat FPGA_MBOX_RESOURCE_NUM)
             (0 AND BURST_CAPABLE \<noteq> 0) v = (Inr h, t)"
          using pci_attach_Inr [OF a [unfolded Inr]] by blast
        then have "h = -1" using False B by (auto elim!: bar_attach_Inr)
        then show ?thesis using slots_inv_clear [OF slots_inv_mono [OF I t] i] by simp
      qed
      then have "mgmt_inv ?u" using u by simp
      moreover have "fpga_mgmt_mbox_attach P i s = fpga_hal_mbox_attach P h True ?u"
        using True a Inr by (simp add: fpga_mgmt_mbox_attach_def prog_simps fpga_hal_mbox_init_def)
      ultimately show ?thesis using keeps_snd [of mgmt_inv, OF keeps_mgmt_hal(1)] by simp
    qed
  qed
qed

lemma keeps_mgmt_mbox_detach [keeps_intros]:
  assumes i: "i < FPGA_SLOT_MAX"
  shows "keeps mgmt_inv (fpga_mgmt_mbox_detach P i)"
proof (rule keepsI)
  fix s :: "('a, 'b) mgmt_st_scheme"
  assume I: "mgmt_inv s"
  let ?h = "slots s ! i"
  show "mgmt_inv (snd (fpga_mgmt_mbox_detach P i s))"
  proof (cases "?h = PCI_BAR_HANDLE_INIT")
    case True
    then show ?thesis using I by (simp add: fpga_mgmt_mbox_detach_def prog_simps)
  next
    case False
    obtain r t where d: "fpga_hal_mbox_detach P ?h True s = (r, t)" by fastforce
    have t: "bars t = bars s" "slots t = slots s"
      by (rule leavesD [OF leaves_mbox_attach(2) d], simp)+
    obtain q u where p: "fpga_pci_detach P ?h t = (q, u)" by fastforce
    have u: "slots u = slots s" using leavesD [OF leaves_slots_pci_detach p] t by simp
    have final: "snd (fpga_mgmt_mbox_detach P i s) = u\<lparr>slots := (slots u)[i := PCI_BAR_HANDLE_INIT]\<rparr>"
      using False d p by (simp add: fpga_mgmt_mbox_detach_def prog_simps)
    have "bars_inv (bars t)" using I t by (simp add: slots_inv_def)
    with p show ?thesis
      using slots_inv_clear [OF I i] slots_inv_free [OF I i False]
      by (cases rule: detach_cases) (simp_all add: final t u)
  qed
qed

lemma keeps_mgmt_detach_loop: "\<forall>i \<in> set is. i < FPGA_SLOT_MAX \<Longrightarrow> keeps mgmt_inv (mgmt_detach_loop P is f)"
  by (induction P "is" f rule: mgmt_detach_loop.induct) (auto intro!: keeps_intros)

lemma keeps_mgmt_detach_all [keeps_intros]: "keeps mgmt_inv (fpga_mgmt_detach_all P)"
  unfolding fpga_mgmt_detach_all_def by (intro keeps_intros keeps_mgmt_detach_loop) auto

lemma leaves_mgmt_read_rsp [leaves_intros]:
  "plat_free f \<Longrightarrow> leaves f (mgmt_read_rsp P h cmd rsp len n)"
proof (induction P h cmd rsp len n rule: mgmt_read_rsp.induct)
  case (1 P h cmd rsp len n)
  then show ?case
    by (subst mgmt_read_rsp.simps) (simp only: Let_def, auto intro!: leaves_intros)
qed

lemma leaves_send_cmd [leaves_intros]: "plat_free f \<Longrightarrow> leaves f (fpga_mgmt_send_cmd P i cmd rsp len)"
  by (auto simp: fpga_mgmt_send_cmd_def intro!: leaves_intros)

lemma keeps_mgmt_process_cmd [keeps_intros]: "keeps mgmt_inv (fpga_mgmt_process_cmd P slot_id cmd rsp len)"
  unfolding fpga_mgmt_process_cmd_def
  by (intro keeps_intros keeps_mgmt_leaves leaves_send_cmd plat_free_bars plat_free_mgmt) auto

section \<open>What a command returns\<close>

lemma mbox_read_bounds: "mbox_read_post msg len (ret, msg', len') \<Longrightarrow> \<forall>j \<ge> 4096. msg' j = msg j"
  by (auto simp: mbox_read_post_def split: if_splits)

text \<open>The response that is returned with code 0 was accepted for the command.\<close>

definition rsp_post :: "bytes \<Rightarrow> bytes \<Rightarrow> int \<times> bytes \<times> u32 \<Rightarrow> bool" where
  "rsp_post cmd rsp = (\<lambda>(ret, rsp', len').
     ret \<noteq> - EAGAIN \<and> (\<forall>j \<ge> 4096. rsp' j = rsp j) \<and>
     (ret = 0 \<longrightarrow> fpga_mgmt_afi_validate_header cmd rsp' len' = 0 \<and>
        unat len' mod 4 = 0 \<and> 4 \<le> unat len' \<and> unat len' \<le> 4096))"

lemma read_rsp_result:
  "\<exists>x. fst (mgmt_read_rsp P h cmd rsp len n s) = Inr x \<and> rsp_post cmd rsp x"
proof (induction P h cmd rsp len n arbitrary: s rule: mgmt_read_rsp.induct)
  case (1 P h cmd rsp len n)
  obtain r t where rd: "fpga_hal_mbox_read P h rsp len s = (r, t)" by fastforce
  obtain ret rsp' len' where r: "r = Inr (ret, rsp', len')"
    and code: "ret \<in> {0, - ETIMEDOUT, - EINVAL, FPGA_ERR_AFI_CMD_MALFORMED}"
    and post: "mbox_read_post rsp len (ret, rsp', len')"
    using mbox_read_result [of P h rsp len s] rd by auto
  note high = mbox_read_bounds [OF post]
  let ?v = "fpga_mgmt_afi_validate_header cmd rsp' len'"
  show ?case
  proof (cases "ret = 0 \<and> ?v = - EAGAIN \<and> \<not> AFI_MAX_RETRIES \<le> n")
    case True
    have "\<exists>x. fst (mgmt_read_rsp P h cmd rsp' len' (Suc n) t) = Inr x \<and> rsp_post cmd rsp' x"
      by (rule "1.IH" [of ret]) (use True in auto)
    then obtain x where "fst (mgmt_read_rsp P h cmd rsp' len' (Suc n) t) = Inr x" "rsp_post cmd rsp' x"
      by blast
    moreover have "rsp_post cmd rsp x" using \<open>rsp_post cmd rsp' x\<close> high by (auto simp: rsp_post_def split: prod.splits)
    moreover have "mgmt_read_rsp P h cmd rsp len n s = mgmt_read_rsp P h cmd rsp' len' (Suc n) t"
      using True rd r by (subst mgmt_read_rsp.simps) (simp add: prog_simps)
    ultimately show ?thesis by simp
  next
    case False
    let ?c = "if ret \<noteq> 0 then ret else if ?v = - EAGAIN then - ETIMEDOUT else ?v"
    have "fst (mgmt_read_rsp P h cmd rsp len n s) = Inr (?c, rsp', len')"
      using False rd r by (subst mgmt_read_rsp.simps) (auto simp: prog_simps Let_def)
    moreover have "rsp_post cmd rsp (?c, rsp', len')"
      using code post high by (auto simp: rsp_post_def mbox_read_post_def)
    ultimately show ?thesis by blast
  qed
qed

lemma mbox_tc_ack_InlD: "fpga_hal_mbox_write_async_tc_ack P h s = (Inl e, t) \<Longrightarrow> e = -1"
  by (auto simp: fpga_hal_mbox_write_async_tc_ack_def prog_simps split: if_splits prod.splits sum.splits)

lemma mbox_write_data_InlD: "mbox_write_data P h is msg s = (Inl e, t) \<Longrightarrow> e = - EINVAL"
  by (induction P h "is" msg arbitrary: s rule: mbox_write_data.induct)
    (auto simp: prog_simps split: prod.splits sum.splits dest: poke_InlD)

lemma mbox_write_async_InlD:
  "fpga_hal_mbox_write_async P h msg len s = (Inl e, t) \<Longrightarrow>
    e \<in> {-1, - EINVAL, FPGA_ERR_AFI_CMD_MALFORMED}"
  by (auto simp: fpga_hal_mbox_write_async_def Let_def ret_code_apply
      elim!: bindE_InlE dest!: mbox_tc_ack_InlD mbox_write_data_InlD poke_InlD mbox_check_len_cases
      split: if_splits)

lemma mbox_write_loop_InlD: "mbox_write_loop P h n s = (Inl e, t) \<Longrightarrow> e \<in> {-1, - ETIMEDOUT}"
  by (induction P h n arbitrary: s rule: mbox_write_loop.induct)
    (auto simp: prog_simps split: prod.splits sum.splits if_splits dest: mbox_tc_ack_InlD)

lemma mbox_write_InlD:
  assumes "fpga_hal_mbox_write P h msg len s = (Inl e, t)"
  shows "e \<in> {-1, - EINVAL, FPGA_ERR_AFI_CMD_MALFORMED, - ETIMEDOUT}"
proof -
  obtain r u where a: "fpga_hal_mbox_write_async P h msg len s = (r, u)" by fastforce
  then show ?thesis
    using assms mbox_write_async_InlD [of P h msg len s e u] mbox_write_loop_InlD [of P h _ u e t]
    by (cases r) (auto simp: fpga_hal_mbox_write_def prog_simps)
qed

lemma send_cmd_result:
  "\<exists>x. fst (fpga_mgmt_send_cmd P i cmd rsp len s) = Inr x \<and> rsp_post cmd rsp x"
proof -
  obtain r t where w: "fpga_hal_mbox_write P (slots s ! i) cmd len s = (r, t)" by fastforce
  show ?thesis
  proof (cases r)
    case (Inl e)
    then have "e \<in> {-1, - EINVAL, FPGA_ERR_AFI_CMD_MALFORMED, - ETIMEDOUT}" using mbox_write_InlD w by blast
    then show ?thesis
      using w Inl by (auto simp: fpga_mgmt_send_cmd_def prog_simps rsp_post_def)
  next
    case (Inr u)
    then show ?thesis
      using w read_rsp_result [of P "slots s ! i" cmd rsp len 0 t]
      by (simp add: fpga_mgmt_send_cmd_def prog_simps)
  qed
qed

lemma nonzero_mgmt_mbox_attach [nonzero_intros]: "nonzero (fpga_mgmt_mbox_attach P i)"
  by (auto simp: fpga_mgmt_mbox_attach_def fpga_hal_mbox_attach_def fpga_hal_mbox_init_def
      intro!: nonzero_intros)

lemma process_cmd_Inr:
  assumes "fpga_mgmt_process_cmd P slot_id cmd rsp len s = (Inr (0, rsp', len'), t)"
  obtains u where "0 \<le> slot_id" "slot_id < int FPGA_SLOT_MAX"
    "fpga_mgmt_mbox_attach P (nat slot_id) s = (Inr (), u)"
    "fpga_mgmt_send_cmd P (nat slot_id) cmd rsp len u = (Inr (0, rsp', len'), t)"
proof -
  have slot: "0 \<le> slot_id" "slot_id < int FPGA_SLOT_MAX"
    using assms by (auto simp: fpga_mgmt_process_cmd_def prog_simps split: if_splits)
  obtain r u where a: "fpga_mgmt_mbox_attach P (nat slot_id) s = (r, u)" by fastforce
  show thesis
  proof (cases r)
    case (Inl e)
    then have "e \<noteq> 0" using nonzeroD [OF nonzero_mgmt_mbox_attach] a by blast
    then show ?thesis using assms slot a Inl by (simp add: fpga_mgmt_process_cmd_def prog_simps)
  next
    case (Inr x)
    then show ?thesis
      using that [OF slot] assms slot a by (simp add: fpga_mgmt_process_cmd_def prog_simps)
  qed
qed

lemma process_cmd_total: "\<exists>x. fst (fpga_mgmt_process_cmd P slot_id cmd rsp len s) = Inr x"
proof -
  obtain r u where "fpga_mgmt_mbox_attach P (nat slot_id) s = (r, u)" by fastforce
  then show ?thesis
    using send_cmd_result [of P "nat slot_id" cmd rsp len u]
    by (cases r) (auto simp: fpga_mgmt_process_cmd_def prog_simps)
qed

text \<open>
  C6. When fpga_mgmt_process_cmd returns 0, the slot id was in range, the response buffer holds a
  message that fpga_mgmt_afi_validate_header accepts for the command, its length is a multiple of
  4 of at most 4096, and no byte beyond the 4096 of the buffer was written, for any behaviour of
  the hardware.
\<close>

theorem process_cmd_answered:
  assumes "fpga_mgmt_process_cmd P slot_id cmd rsp len s = (Inr (0, rsp', len'), t)"
  shows "0 \<le> slot_id \<and> slot_id < int FPGA_SLOT_MAX \<and> fpga_mgmt_afi_validate_header cmd rsp' len' = 0 \<and>
    unat len' mod 4 = 0 \<and> unat len' \<le> 4096 \<and> (\<forall>j \<ge> 4096. rsp' j = rsp j)"
  using assms
proof (rule process_cmd_Inr)
  fix u
  assume "0 \<le> slot_id" "slot_id < int FPGA_SLOT_MAX"
    "fpga_mgmt_send_cmd P (nat slot_id) cmd rsp len u = (Inr (0, rsp', len'), t)"
  then show ?thesis
    using send_cmd_result [of P "nat slot_id" cmd rsp len u] by (auto simp: rsp_post_def)
qed

section \<open>A command that is answered completes\<close>

lemma and_not_other: "(v AND NOT FMB_TX_EVT) AND FMB_RX_EVT = v AND FMB_RX_EVT"
  by (simp add: and.assoc)

lemma send_cmd_device:
  assumes "mailbox_device P base view peer" and "answers peer"
    and "mbox_mapped (slots s ! i) base (bars s)"
    and "fpga_hal_mbox_check_len len = 0" and "mbox_timeout s \<noteq> 0"
  shows "\<exists>rsp' t m. (\<forall>j < unat len div 4. mb_wr_words m j = get32 cmd (4 * j)) \<and>
    (\<forall>j < unat (mb_rd_len (peer m)). get32 rsp' (4 * j) = mb_rd_words (peer m) j) \<and>
    (let len' = push_bit 2 (mb_rd_len (peer m)); ret = fpga_mgmt_afi_validate_header cmd rsp' len' in
     ret \<noteq> - EAGAIN \<longrightarrow> fpga_mgmt_send_cmd P i cmd rsp len s = (Inr (ret, rsp', len'), t) \<and>
       t = s\<lparr>plat := plat t\<rparr>)"
proof -
  obtain u m where w: "fpga_hal_mbox_write P (slots s ! i) cmd len s = (Inr (), u)" and u: "bars u = bars s"
    "view (plat u) = (peer m)\<lparr>mb_status := mb_status (peer m) AND NOT FMB_TX_EVT\<rparr>"
    and words: "\<forall>j < unat len div 4. mb_wr_words m j = get32 cmd (4 * j)"
    using mbox_write_device [OF assms(1,3,4,2,5), of cmd] by blast
  have keep: "u = s\<lparr>plat := plat u\<rparr>" by (rule plat_only [OF leaves_mbox_write [OF plat_free_rest] w])
  have timeout: "mbox_timeout u = mbox_timeout s" "slots u = slots s"
    by (rule leavesD [OF leaves_mbox_write w], simp)+
  have peer: "mb_status (peer m) AND FMB_RX_EVT \<noteq> 0" "mb_rd_len (peer m) \<noteq> 0" "unat (mb_rd_len (peer m)) \<le> 1024"
    using assms(2) by (simp_all add: answers_def)
  obtain rsp' t where r: "fpga_hal_mbox_read P (slots s ! i) rsp len u =
      (Inr (0, rsp', push_bit 2 (mb_rd_len (peer m))), t)" "bars t = bars u"
    "\<forall>j < unat (mb_rd_len (peer m)). get32 rsp' (4 * j) = mb_rd_words (peer m) j"
    using mbox_read_device [OF assms(1), of "slots s ! i" u rsp len] assms(3,5) u timeout peer and_not_other
    by auto
  have "t = u\<lparr>plat := plat t\<rparr>" by (rule plat_only [OF leaves_mbox_read [OF plat_free_rest] r(1)])
  then have keep': "t = s\<lparr>plat := plat t\<rparr>" by (subst (asm) keep) simp
  let ?len' = "push_bit 2 (mb_rd_len (peer m))"
  have "fpga_mgmt_send_cmd P i cmd rsp len s =
      (Inr (fpga_mgmt_afi_validate_header cmd rsp' ?len', rsp', ?len'), t)"
    if "fpga_mgmt_afi_validate_header cmd rsp' ?len' \<noteq> - EAGAIN"
    using that w r(1) by (simp add: fpga_mgmt_send_cmd_def prog_simps mgmt_read_rsp.simps [of P _ cmd rsp len 0] Let_def)
  then show ?thesis
    using words r(3) keep' by (intro exI [of _ rsp'] exI [of _ t] exI [of _ m]) (simp add: Let_def)
qed

lemma process_cmd_device:
  assumes "mailbox_device P base view peer" and "answers peer"
    and "0 \<le> slot_id" and "slot_id < int FPGA_SLOT_MAX"
    and "mbox_mapped (slots s ! nat slot_id) base (bars s)"
    and "fpga_hal_mbox_check_len len = 0" and "mbox_timeout s \<noteq> 0"
  shows "\<exists>rsp' t m. (\<forall>j < unat len div 4. mb_wr_words m j = get32 cmd (4 * j)) \<and>
    (\<forall>j < unat (mb_rd_len (peer m)). get32 rsp' (4 * j) = mb_rd_words (peer m) j) \<and>
    (let len' = push_bit 2 (mb_rd_len (peer m)); ret = fpga_mgmt_afi_validate_header cmd rsp' len' in
     ret \<noteq> - EAGAIN \<longrightarrow> fpga_mgmt_process_cmd P slot_id cmd rsp len s = (Inr (ret, rsp', len'), t) \<and>
       t = s\<lparr>plat := plat t\<rparr>)"
proof -
  let ?h = "slots s ! nat slot_id"
  obtain u where r: "fpga_hal_mbox_reset P ?h s = (Inr (), u)" "bars u = bars s"
    by (rule mbox_reset_device [OF assms(1,5)])
  have keep: "u = s\<lparr>plat := plat u\<rparr>" by (rule plat_only [OF leaves_mbox_reset [OF plat_free_rest] r(1)])
  have same: "mbox_timeout u = mbox_timeout s" "slots u = slots s"
    by (rule leavesD [OF leaves_mbox_reset r(1)], simp)+
  have trans: "t = s\<lparr>plat := plat t\<rparr>" if "t = u\<lparr>plat := plat t\<rparr>" for t
    using that by (subst (asm) keep) simp
  have "?h \<noteq> PCI_BAR_HANDLE_INIT" using assms(5) by (auto simp: mbox_mapped_def region_mapped_def)
  then have a: "fpga_mgmt_mbox_attach P (nat slot_id) s = (Inr (), u)"
    using r(1) by (simp add: fpga_mgmt_mbox_attach_def fpga_hal_mbox_attach_def prog_simps)
  have "fpga_mgmt_process_cmd P slot_id cmd rsp len s = fpga_mgmt_send_cmd P (nat slot_id) cmd rsp len u"
    using assms(3,4) a by (simp add: fpga_mgmt_process_cmd_def prog_simps)
  then show ?thesis
    using send_cmd_device [OF assms(1,2), of u "nat slot_id" len cmd rsp] assms(5-7) r(2) same trans
    unfolding Let_def by (metis (no_types, lifting))
qed

text \<open>
  C23. On a mailbox whose peer answers every message, fpga_mgmt_process_cmd hands the command over
  word for word, reads the answer word for word and returns the verdict of the header validation,
  unless that asks for another read.
\<close>

theorem process_cmd_completes:
  assumes "mailbox_device P base view peer" and "answers peer"
    and "0 \<le> slot_id" and "slot_id < int FPGA_SLOT_MAX"
    and "mbox_mapped (slots s ! nat slot_id) base (bars s)"
    and "fpga_hal_mbox_check_len len = 0" and "mbox_timeout s \<noteq> 0"
  shows "\<exists>rsp' t m. (\<forall>j < unat len div 4. mb_wr_words m j = get32 cmd (4 * j)) \<and>
    (\<forall>j < unat (mb_rd_len (peer m)). get32 rsp' (4 * j) = mb_rd_words (peer m) j) \<and>
    (let len' = push_bit 2 (mb_rd_len (peer m)); ret = fpga_mgmt_afi_validate_header cmd rsp' len' in
     ret \<noteq> - EAGAIN \<longrightarrow> fpga_mgmt_process_cmd P slot_id cmd rsp len s = (Inr (ret, rsp', len'), t))"
  using process_cmd_device [OF assms, of cmd rsp] unfolding Let_def by meson

text \<open>The cost of a command: one write and at most two reads.\<close>

lemma cost_read_rsp:
  assumes "mem_budget P cost"
  shows "n \<le> AFI_MAX_RETRIES \<Longrightarrow> cost (plat (snd (mgmt_read_rsp P h cmd rsp len n s)))
    \<le> cost (plat s) + (Suc AFI_MAX_RETRIES - n) * unat (mbox_timeout s)"
proof (induction "AFI_MAX_RETRIES - n" arbitrary: n rsp len s)
  case 0
  obtain r t where rd: "fpga_hal_mbox_read P h rsp len s = (r, t)" by fastforce
  then have "snd (mgmt_read_rsp P h cmd rsp len n s) = t"
    using 0 by (subst mgmt_read_rsp.simps) (auto simp: prog_simps Let_def split: sum.splits)
  then show ?case using 0 rd cost_mbox_sync(1) [OF assms, of h rsp len s] by simp
next
  case (Suc k)
  obtain r t where rd: "fpga_hal_mbox_read P h rsp len s = (r, t)" by fastforce
  then have t: "cost (plat t) \<le> cost (plat s) + unat (mbox_timeout s)" "mbox_timeout t = mbox_timeout s"
    using cost_mbox_sync(1) [OF assms, of h rsp len s] leavesD [OF leaves_mbox_read [OF plat_free_mbox(1)] rd]
    by simp_all
  have "snd (mgmt_read_rsp P h cmd rsp len n s) = t \<or> (\<exists>rsp' len'.
      snd (mgmt_read_rsp P h cmd rsp len n s) = snd (mgmt_read_rsp P h cmd rsp' len' (Suc n) t))"
    using rd by (subst (1 2) mgmt_read_rsp.simps [of P h cmd rsp len n])
      (auto simp: bindE_apply Let_def ok_apply split: sum.splits if_splits)
  then obtain rsp' len' where "snd (mgmt_read_rsp P h cmd rsp len n s) = t \<or>
      snd (mgmt_read_rsp P h cmd rsp len n s) = snd (mgmt_read_rsp P h cmd rsp' len' (Suc n) t)"
    by blast
  moreover have "cost (plat (snd (mgmt_read_rsp P h cmd rsp' len' (Suc n) t)))
      \<le> cost (plat t) + (Suc AFI_MAX_RETRIES - Suc n) * unat (mbox_timeout t)"
    using Suc by (intro Suc.hyps(1)) auto
  moreover have "n = 0" using Suc by simp
  ultimately show ?case using t by auto
qed

text \<open>
  C35. Sending a command, stale responses included, sleeps at most three times the mailbox
  timeout.
\<close>

theorem send_cmd_bounded:
  assumes "mem_budget P cost"
  shows "cost (plat (snd (fpga_mgmt_send_cmd P i cmd rsp len s))) \<le> cost (plat s) + 3 * unat (mbox_timeout s)"
proof -
  obtain r t where w: "fpga_hal_mbox_write P (slots s ! i) cmd len s = (r, t)" by fastforce
  then have t: "cost (plat t) \<le> cost (plat s) + unat (mbox_timeout s)" "mbox_timeout t = mbox_timeout s"
    using cost_mbox_sync(2) [OF assms, of "slots s ! i" cmd len s]
      leavesD [OF leaves_mbox_write [OF plat_free_mbox(1)] w] by simp_all
  then show ?thesis
    using w cost_read_rsp [OF assms, of 0 "slots s ! i" cmd rsp len t]
    by (cases r) (auto simp: fpga_mgmt_send_cmd_def prog_simps)
qed

section \<open>Detaching\<close>

lemma mbox_detach_step:
  assumes I: "mgmt_inv s" and i: "i < FPGA_SLOT_MAX" and unmap: "\<And>h a n. fst (k_munmap P h a n)"
  obtains t where "fpga_mgmt_mbox_detach P i s = (Inr (), t)" "mgmt_inv t"
    "slots t = (slots s)[i := PCI_BAR_HANDLE_INIT]"
    "used_handles (bars t) = used_handles (bars s) - {slots s ! i}"
proof (cases "slots s ! i = PCI_BAR_HANDLE_INIT")
  case True
  then have "(slots s)[i := PCI_BAR_HANDLE_INIT] = slots s" by (metis list_update_id)
  then show thesis
    using that [of s] True I by (simp add: fpga_mgmt_mbox_detach_def prog_simps)
next
  case False
  let ?h = "slots s ! i"
  obtain r v where d: "fpga_hal_mbox_detach P ?h True s = (r, v)" by fastforce
  have v: "bars v = bars s" "slots v = slots s"
    by (rule leavesD [OF leaves_mbox_attach(2) d], simp)+
  obtain q u where p: "fpga_pci_detach P ?h v = (q, u)" by fastforce
  have u: "slots u = slots s" using leavesD [OF leaves_slots_pci_detach p] v by simp
  let ?t = "u\<lparr>slots := (slots u)[i := PCI_BAR_HANDLE_INIT]\<rparr>"
  have det: "fpga_mgmt_mbox_detach P i s = (Inr (), ?t)"
    using False d p by (simp add: fpga_mgmt_mbox_detach_def prog_simps)
  have "mgmt_inv ?t" using keepsD [OF keeps_mgmt_mbox_detach [OF i] I det] .
  have h: "?h \<in> used_handles (bars s)"
  proof -
    have "?h \<in> set (slots s)" using I i by (simp add: slots_inv_def)
    then show ?thesis using I False by (auto simp: slots_inv_def)
  qed
  then have "q = Inr ()" "bars u = (bars s)[nat ?h := zero_bar]"
    using p v I unmap by (auto simp: fpga_pci_detach_def fpga_pci_bar_free_def fpga_pci_bar_get_def
        used_handles_def slots_inv_def bars_inv_def prog_simps split: if_splits prod.splits) (metis fst_conv)+
  then have "used_handles (bars u) = used_handles (bars s) - {?h}"
  proof -
    have "0 \<le> ?h" "nat ?h < length (bars s)" using h by (auto simp: used_handles_def)
    then show ?thesis
      using used_handles_update [of "nat ?h" "bars s" zero_bar] \<open>bars u = _\<close> by (simp add: zero_bar_def)
  qed
  then show thesis using that [OF det \<open>mgmt_inv ?t\<close>] u by simp
qed

lemma detach_loop_step:
  assumes unmap: "\<And>h a n. fst (k_munmap P h a n)"
  shows "mgmt_inv s \<Longrightarrow> \<forall>i \<in> set is. i < FPGA_SLOT_MAX \<Longrightarrow> distinct is \<Longrightarrow>
    \<exists>t. mgmt_detach_loop P is f s = (Inr f, t) \<and> mgmt_inv t \<and>
      (\<forall>j < FPGA_SLOT_MAX. slots t ! j = (if j \<in> set is then PCI_BAR_HANDLE_INIT else slots s ! j)) \<and>
      used_handles (bars t) = used_handles (bars s) - (\<lambda>i. slots s ! i) ` set is"
proof (induction "is" arbitrary: s)
  case Nil
  then show ?case by (simp add: prog_simps)
next
  case (Cons i "is")
  have i: "i < FPGA_SLOT_MAX" using Cons.prems(2) by simp
  obtain t where t: "fpga_mgmt_mbox_detach P i s = (Inr (), t)" "mgmt_inv t"
    "slots t = (slots s)[i := PCI_BAR_HANDLE_INIT]"
    "used_handles (bars t) = used_handles (bars s) - {slots s ! i}"
    by (rule mbox_detach_step [OF Cons.prems(1) i unmap])
  obtain u where u: "mgmt_detach_loop P is f t = (Inr f, u)" "mgmt_inv u"
    "\<forall>j < FPGA_SLOT_MAX. slots u ! j = (if j \<in> set is then PCI_BAR_HANDLE_INIT else slots t ! j)"
    "used_handles (bars u) = used_handles (bars t) - (\<lambda>i. slots t ! i) ` set is"
    using Cons.IH [OF t(2)] Cons.prems by auto
  have same: "slots t ! j = slots s ! j" if "j \<in> set is" for j
    using that Cons.prems(3) t(3) by (cases "j = i") simp_all
  have "mgmt_detach_loop P (i # is) f s = (Inr f, u)"
    using t(1) u(1) by (simp add: prog_simps)
  moreover have "length (slots s) = FPGA_SLOT_MAX" using Cons.prems(1) by (simp add: slots_inv_def)
  then have "\<forall>j < FPGA_SLOT_MAX. slots u ! j = (if j \<in> set (i # is) then PCI_BAR_HANDLE_INIT else slots s ! j)"
    using u(3) t(3) Cons.prems(2) by (auto simp: nth_list_update)
  moreover have "used_handles (bars u) = used_handles (bars s) - (\<lambda>i. slots s ! i) ` set (i # is)"
    using u(4) t(4) same by auto
  ultimately show ?case using u(2) by blast
qed


section \<open>Instances\<close>

lemma demo_mgmt_inv: "mgmt_inv demo_mgmt"
proof -
  have "bars_inv (bars demo_mgmt)" using demo_table_inv(1) by (simp add: demo_mgmt_def)
  then show ?thesis
    by (simp add: slots_inv_def) (auto simp: demo_mgmt_def less_Suc_eq numeral_eq_Suc)
qed


theorem send_cmd_bounded_witness:
  "demo_sleeps (plat (snd (fpga_mgmt_send_cmd demo_platform 0 zero_bytes zero_bytes 16
     (demo_mgmt\<lparr>mbox_timeout := 4\<rparr>)))) \<le> 12"
proof -
  have "mem_budget demo_platform demo_sleeps" by (simp add: mem_budget_def)
  from send_cmd_bounded [OF this, of 0 zero_bytes zero_bytes 16 "demo_mgmt\<lparr>mbox_timeout := 4\<rparr>"]
  show ?thesis by (simp add: demo_mgmt_def demo_table_def demo_bus_def demo_h_def)
qed

text \<open>A mailbox whose peer answers every message with its header, marked as a response.\<close>

definition echo_peer :: "mailbox \<Rightarrow> mailbox" where
  "echo_peer m = m\<lparr>mb_status := 3, mb_rd_len := 4,
     mb_rd_words := (\<lambda>i. if i = 2 then mb_wr_words m 2 OR 0x1000000 else mb_wr_words m i)\<rparr>"

definition echo_platform :: "mailbox platform" where
  "echo_platform = mbox_platform\<lparr>m_store32 := (\<lambda>h a v.
     if a = 0x100028 then echo_peer (h\<lparr>mb_wr_len := v\<rparr>) else m_store32 mbox_platform h a v)\<rparr>"

lemma echo_platform_device: "mailbox_device echo_platform 0x100000 (\<lambda>h. h) echo_peer"
  by (simp add: mailbox_device_def echo_platform_def mbox_platform_def)

lemma echo_answers: "answers echo_peer"
  by (simp add: answers_def echo_peer_def)

definition echo_mgmt :: "mailbox mgmt_st" where
  "echo_mgmt = \<lparr>bars = bars demo_mapped,
     plat = \<lparr>mb_status = 0, mb_rd_index = 0, mb_rd_words = (\<lambda>_. 0), mb_rd_len = 0,
             mb_wr_index = 0, mb_wr_words = (\<lambda>_. 0), mb_wr_len = 0\<rparr>,
     mbox_timeout = 3, mbox_delay_msec = 0, slots = 0 # replicate 7 PCI_BAR_HANDLE_INIT,
     mgmt_timeout = 3, mgmt_delay_msec = 2, initialized = True, next_id = 0\<rparr>"

definition code_and_len :: "int + int \<times> bytes \<times> u32 \<Rightarrow> (int \<times> u32) option" where
  "code_and_len r = (case r of Inl _ \<Rightarrow> None | Inr (c, _, l) \<Rightarrow> Some (c, l))"

theorem process_cmd_answered_witness:
  "\<exists>rsp t. fpga_mgmt_process_cmd echo_platform 0 zero_bytes zero_bytes 16 echo_mgmt = (Inr (0, rsp, 16), t) \<and>
     fpga_mgmt_afi_validate_header zero_bytes rsp 16 = 0"
proof -
  have "code_and_len (fst (fpga_mgmt_process_cmd echo_platform 0 zero_bytes zero_bytes 16 echo_mgmt)) = Some (0, 16)"
    by code_simp
  then obtain rsp t where
    r: "fpga_mgmt_process_cmd echo_platform 0 zero_bytes zero_bytes 16 echo_mgmt = (Inr (0, rsp, 16), t)"
    by (cases "fpga_mgmt_process_cmd echo_platform 0 zero_bytes zero_bytes 16 echo_mgmt")
      (auto simp: code_and_len_def split: sum.splits)
  show ?thesis using process_cmd_answered [OF r] r by blast
qed

lemma echo_mgmt_mapped: "mbox_mapped (slots echo_mgmt ! nat 0) 0x100000 (bars echo_mgmt)"
  using mbox_demo_mapped by (simp add: echo_mgmt_def mbox_demo_def)

text \<open>A metrics request without its body is answered by its own header.\<close>

theorem process_cmd_completes_witness:
  "\<exists>rsp t. fpga_mgmt_process_cmd echo_platform 0 zero_bytes zero_bytes 16 echo_mgmt = (Inr (0, rsp, 16), t) \<and>
     get32 rsp 8 = 0x1000000"
proof -
  have "fpga_hal_mbox_check_len 16 = 0" "mbox_timeout echo_mgmt \<noteq> 0"
    by (simp_all add: fpga_hal_mbox_check_len_def echo_mgmt_def)
  then obtain rsp t m where sent: "\<forall>j < unat (16 :: u32) div 4. mb_wr_words m j = get32 zero_bytes (4 * j)"
    and rsp: "\<forall>j < unat (mb_rd_len (echo_peer m)). get32 rsp (4 * j) = mb_rd_words (echo_peer m) j"
    and run: "let len' = push_bit 2 (mb_rd_len (echo_peer m)); ret = fpga_mgmt_afi_validate_header zero_bytes rsp len' in
      ret \<noteq> - EAGAIN \<longrightarrow>
      fpga_mgmt_process_cmd echo_platform 0 zero_bytes zero_bytes 16 echo_mgmt = (Inr (ret, rsp, len'), t)"
    using process_cmd_completes [OF echo_platform_device echo_answers _ _ echo_mgmt_mapped, of 16 zero_bytes zero_bytes]
    by auto
  have w: "mb_wr_words m 0 = 0" "mb_wr_words m 1 = 0" "mb_wr_words m 2 = 0" "mb_wr_words m 3 = 0"
    using sent [rule_format, of 0] sent [rule_format, of 1] sent [rule_format, of 2] sent [rule_format, of 3] by simp_all
  have r: "get32 rsp 0 = 0" "get32 rsp 4 = 0" "get32 rsp 8 = 0x1000000" "get32 rsp 12 = 0"
    using rsp [rule_format, of 0] rsp [rule_format, of 1] rsp [rule_format, of 2] rsp [rule_format, of 3] w
    by (simp_all add: echo_peer_def)
  have "fpga_mgmt_afi_validate_header zero_bytes rsp 16 = 0"
    using r by (simp add: fpga_mgmt_afi_validate_header_def hdr_version_def hdr_op_def hdr_id_def
        hdr_len_flags_def afi_cmd_hdr_get_flags_def afi_cmd_hdr_get_len_def MAJOR_VERSION_def)
  then have "fpga_mgmt_process_cmd echo_platform 0 zero_bytes zero_bytes 16 echo_mgmt = (Inr (0, rsp, 16), t)"
    using run by (simp add: echo_peer_def Let_def)
  with r show ?thesis by blast
qed

end
