(* ===== verification/Fpga_Mgmt.thy ===== *)
theory Fpga_Mgmt
  imports Afi_Cmd
begin

text \<open>
  \<open>sdk/userspace/fpga_libs/fpga_mgmt/fpga_mgmt.c\<close>: the management API. It loads, clears and
  describes the image of a slot with AFI commands, waits for the end of a load or clear by polling
  the description, and removes and rescans the application function when the image has changed its
  PCI ids. Functions that fill a structure of the caller also when they fail return their code
  beside the structure. The description of a C library error number is a parameter.
\<close>

abbreviation (input) FPGA_MGMT_SYNC_TIMEOUT :: u32 where "FPGA_MGMT_SYNC_TIMEOUT \<equiv> 90000"
abbreviation (input) FPGA_MGMT_RL_RELOAD_DELAY :: u64 where "FPGA_MGMT_RL_RELOAD_DELAY \<equiv> 1000"
abbreviation (input) FPGA_MGMT_RL_RELOAD_RETRIES :: nat where "FPGA_MGMT_RL_RELOAD_RETRIES \<equiv> 30"
abbreviation (input) FPGA_MGMT_SYNC_DELAY_MSEC :: u32 where "FPGA_MGMT_SYNC_DELAY_MSEC \<equiv> 2"
abbreviation (input) MGMT_PF_BAR0 :: int where "MGMT_PF_BAR0 \<equiv> 0"
abbreviation (input) FPGA_VIRTUAL_LED_REG_OFFSET :: u64 where "FPGA_VIRTUAL_LED_REG_OFFSET \<equiv> 0xD0"
abbreviation (input) FPGA_VIRTUAL_DIP_REG_OFFSET :: u64 where "FPGA_VIRTUAL_DIP_REG_OFFSET \<equiv> 0xD4"

section \<open>Library state\<close>

definition fpga_pci_init :: "(('h, 'z) pci_st_scheme, unit) prog" where
  "fpga_pci_init = ok ()"

definition fpga_mgmt_init :: "(('h, 'z) mgmt_st_scheme, unit) prog" where
  "fpga_mgmt_init =
     bindE (modify (\<lambda>s. s\<lparr>slots := replicate FPGA_SLOT_MAX PCI_BAR_HANDLE_INIT, initialized := True\<rparr>)) (\<lambda>_.
     fpga_pci_init)"

fun mgmt_close_loop :: "'h platform \<Rightarrow> nat list \<Rightarrow> (('h, 'z) mgmt_st_scheme, unit) prog" where
  "mgmt_close_loop P [] = ok ()"
| "mgmt_close_loop P (i # is) =
     bindE (gets (\<lambda>s. slots s ! i)) (\<lambda>handle.
     bindE (if handle \<noteq> PCI_BAR_HANDLE_INIT
       then bindE (attempt (fpga_mgmt_mbox_detach P i)) (\<lambda>_. ok ()) else ok ()) (\<lambda>_.
     mgmt_close_loop P is))"

definition fpga_mgmt_close :: "'h platform \<Rightarrow> (('h, 'z) mgmt_st_scheme, unit) prog" where
  "fpga_mgmt_close P =
     bindE (gets initialized) (\<lambda>ini.
     if \<not> ini then ok ()
     else
       bindE (modify (\<lambda>s. s\<lparr>initialized := False\<rparr>)) (\<lambda>_.
       mgmt_close_loop P [0..<FPGA_SLOT_MAX]))"

definition fpga_mgmt_set_cmd_timeout :: "u32 \<Rightarrow> (('h, 'z) mgmt_st_scheme, unit) prog" where
  "fpga_mgmt_set_cmd_timeout v = modify (\<lambda>s. s\<lparr>mgmt_timeout := v\<rparr>)"

definition fpga_mgmt_set_cmd_delay_msec :: "u32 \<Rightarrow> (('h, 'z) mgmt_st_scheme, unit) prog" where
  "fpga_mgmt_set_cmd_delay_msec v = modify (\<lambda>s. s\<lparr>mgmt_delay_msec := v\<rparr>)"

text \<open>\<open>fail_on_with_code(!fpga_mgmt_state.initialized, ..)\<close>.\<close>

definition require_init :: "(('h, 'z) mgmt_st_scheme, unit) prog" where
  "require_init = bindE (gets initialized) (\<lambda>ini. fail_on (\<not> ini) FPGA_ERR_SOFTWARE_PROBLEM)"

text \<open>\<open>fail_on_unsupported_options(flags, FPGA_CMD_UNSUPPORTED_FLAGS, ..)\<close>.\<close>

definition require_supported :: "u32 \<Rightarrow> ('s, unit) prog" where
  "require_supported flags =
     fail_on (flags AND FPGA_CMD_UNSUPPORTED_FLAGS \<noteq> 0) FPGA_ERR_SOFTWARE_PROBLEM"

definition fail_slot_id :: "int \<Rightarrow> ('s, unit) prog" where
  "fail_slot_id slot_id = fail_on (slot_id < 0 \<or> int FPGA_SLOT_MAX \<le> slot_id) (- EINVAL)"

section \<open>Describing a slot\<close>

definition fpga_mgmt_get_sh_version :: "'h platform \<Rightarrow> int \<Rightarrow> (('h, 'z) mgmt_st_scheme, u32) prog" where
  "fpga_mgmt_get_sh_version P slot_id =
     bindE (fail_slot_id slot_id) (\<lambda>_.
     bindE (fpga_mgmt_mbox_attach P (nat slot_id)) (\<lambda>_.
     bindE (gets (\<lambda>s. slots s ! nat slot_id)) (\<lambda>handle.
     fpga_hal_mbox_get_versions P handle)))"

text \<open>
  The retries of \<open>fpga_mgmt_describe_cmd\<close>: \<open>n\<close> more are allowed. The length that is sent again is the
  one the attempt before has left in \<open>len\<close>.
\<close>

fun mgmt_describe_retry ::
  "'h platform \<Rightarrow> int \<Rightarrow> bytes \<Rightarrow> int \<times> bytes \<times> u32 \<Rightarrow> nat
    \<Rightarrow> (('h, 'z) mgmt_st_scheme, int \<times> bytes \<times> u32) prog" where
  "mgmt_describe_retry P slot_id cmd r 0 = ok r"
| "mgmt_describe_retry P slot_id cmd (ret, rsp, len) (Suc n) =
     (if ret = FPGA_ERR_AFI_CMD_MALFORMED \<or> ret = - ETIMEDOUT then
        bindE (msleep P FPGA_MGMT_RL_RELOAD_DELAY) (\<lambda>_.
        bindE (fpga_mgmt_process_cmd P slot_id cmd rsp len) (\<lambda>r'.
        mgmt_describe_retry P slot_id cmd r' n))
      else ok (ret, rsp, len))"

definition metrics_ids :: "bytes \<Rightarrow> nat \<Rightarrow> fpga_meta_ids" where
  "metrics_ids rsp off = \<lparr>afi_id = get_list rsp off AFI_ID_STR_MAX,
     afi_device_ids = \<lparr>ids_vendor_id = get16 rsp (off + 64), ids_device_id = get16 rsp (off + 66),
       ids_svid = get16 rsp (off + 68), ids_ssid = get16 rsp (off + 70)\<rparr>\<rparr>"

text \<open>The response structure translated to the API structure, up to the AFI id.\<close>

definition metrics_to_info :: "bytes \<Rightarrow> nat \<Rightarrow> int \<Rightarrow> fpga_mgmt_image_info \<Rightarrow> fpga_mgmt_image_info" where
  "metrics_to_info rsp off slot_id info =
     (let ids = metrics_ids rsp off;
          name = (if hd (afi_id ids) = 0 then bytes_of_string ''none'' else afi_id ids)
      in info\<lparr>info_status := sint (get32 rsp (off + 72)), info_status_q := sint (get32 rsp (off + 76)),
              info_slot_id := slot_id, info_ids := ids\<lparr>afi_id := strncpy AFI_ID_STR_MAX name\<rparr>\<rparr>)"

text \<open>
  The last step: the reload is triggered and the status reported as busy. The \<open>ret\<close> of this block is
  a variable of its own, so a failure ends the function with the outer code, which is 0.
\<close>

definition mgmt_rl_reload ::
  "'h platform \<Rightarrow> int \<Rightarrow> fpga_mgmt_image_info \<Rightarrow> (('h, 'z) mgmt_st_scheme, fpga_mgmt_image_info) prog" where
  "mgmt_rl_reload P slot_id info =
     bindE (attempt (bindE (fpga_mgmt_mbox_attach P (nat slot_id)) (\<lambda>_.
       bindE (gets (\<lambda>s. slots s ! nat slot_id)) (\<lambda>handle.
       fpga_pci_poke P handle FMB_REG_RL_RELOAD 1)))) (\<lambda>r.
     case r of
       Inl _ \<Rightarrow> ok info
     | Inr _ \<Rightarrow> ok (info\<lparr>info_status := FPGA_STATUS_BUSY\<rparr>))"

text \<open>Filling in \<open>info\<close> from a response; the structure is changed as far as the function gets.\<close>

definition mgmt_fill_info ::
  "'h platform \<Rightarrow> int \<Rightarrow> bytes \<Rightarrow> nat \<Rightarrow> fpga_mgmt_image_info
    \<Rightarrow> (('h, 'z) mgmt_st_scheme, int \<times> fpga_mgmt_image_info) prog" where
  "mgmt_fill_info P slot_id rsp off info =
     (let info1 = metrics_to_info rsp off slot_id info in
      bindE (attempt (fpga_mgmt_get_sh_version P slot_id)) (\<lambda>r1.
      case r1 of
        Inl e \<Rightarrow> ok (e, info1)
      | Inr sh_version \<Rightarrow>
          let info2 = info1\<lparr>info_sh_version := sh_version\<rparr> in
          bindE (attempt (fpga_pci_get_resource_map P slot_id (int FPGA_MGMT_PF))) (\<lambda>r2.
          case r2 of
            Inl e \<Rightarrow> ok (e, info2)
          | Inr mbox_map \<Rightarrow>
              let info3 = info2\<lparr>info_metrics :=
                (if IS_F1 mbox_map then F1_metrics (decode_f1_metrics rsp (off + 80))
                 else F2_metrics (decode_f2_metrics rsp (off + 80)))\<rparr> in
              bindE (if sint (get32 rsp (off + 72)) = FPGA_STATUS_LOADING_RL
                then mgmt_rl_reload P slot_id info3 else ok info3) (\<lambda>info4.
              ok (0, info4)))))"

definition fpga_mgmt_describe_cmd ::
  "'h platform \<Rightarrow> int \<Rightarrow> fpga_mgmt_image_info \<Rightarrow> u32
    \<Rightarrow> (('h, 'z) mgmt_st_scheme, int \<times> fpga_mgmt_image_info) prog" where
  "fpga_mgmt_describe_cmd P slot_id info flags =
     (if slot_id < 0 \<or> int FPGA_SLOT_MAX \<le> slot_id then ok (- EINVAL, info)
      else
        bindE (fpga_mgmt_cmd_init_metrics P zero_bytes flags) (\<lambda>(cmd, len).
        bindE (fpga_mgmt_process_cmd P slot_id cmd zero_bytes len) (\<lambda>r.
        bindE (mgmt_describe_retry P slot_id cmd r (Suc FPGA_MGMT_RL_RELOAD_RETRIES)) (\<lambda>(ret, rsp, len').
        if ret \<noteq> 0 then ok (ret, info)
        else
          case fpga_mgmt_cmd_handle_metrics len' of
            Inl e \<Rightarrow> ok (e, info)
          | Inr off \<Rightarrow> mgmt_fill_info P slot_id rsp off info))))"

definition fpga_mgmt_describe_local_image ::
  "'h platform \<Rightarrow> int \<Rightarrow> fpga_mgmt_image_info \<Rightarrow> u32
    \<Rightarrow> (('h, 'z) mgmt_st_scheme, int \<times> fpga_mgmt_image_info) prog" where
  "fpga_mgmt_describe_local_image P slot_id info flags =
     bindE (attempt (bindE require_init (\<lambda>_. require_supported flags))) (\<lambda>r.
     case r of
       Inl e \<Rightarrow> ok (e, info)
     | Inr _ \<Rightarrow>
         bindE (fpga_mgmt_describe_cmd P slot_id info flags) (\<lambda>(ret, info').
         if ret \<noteq> 0 then ok (ret, info')
         else
           bindE (attempt (fpga_pci_get_slot_spec P slot_id)) (\<lambda>r2.
           case r2 of
             Inl e \<Rightarrow> ok (e, info')
           | Inr spec \<Rightarrow> ok (0, info'\<lparr>info_spec := spec\<rparr>))))"

definition fpga_mgmt_get_status :: "'h platform \<Rightarrow> int \<Rightarrow> (('h, 'z) mgmt_st_scheme, int \<times> int) prog" where
  "fpga_mgmt_get_status P slot_id =
     bindE require_init (\<lambda>_.
     bindE (fail_slot_id slot_id) (\<lambda>_.
     bindE (fpga_mgmt_describe_local_image P slot_id zero_image_info 0) (\<lambda>(ret, info).
     ret_code ret (info_status info, info_status_q info))))"

section \<open>Names of codes\<close>

definition fpga_mgmt_get_status_name :: "int \<Rightarrow> string" where
  "fpga_mgmt_get_status_name status = FPGA_STATUS2STR status"

definition fpga_mgmt_strerror :: "(int \<Rightarrow> string) \<Rightarrow> int \<Rightarrow> string" where
  "fpga_mgmt_strerror c_strerror err = (if err < 0 then c_strerror (- err) else FPGA_ERR2STR err)"

text \<open>The help texts: lines that each end with a newline.\<close>

definition text_lines :: "string list \<Rightarrow> string" where
  "text_lines ls = concat (map (\<lambda>l. l @ [CHR 0x0A]) ls)"

definition long_help_FPGA_ERR_AFI_CMD_BUSY :: string where
  "long_help_FPGA_ERR_AFI_CMD_BUSY = text_lines [
     ''The FPGA is busy with an operation such as a load or a clear.'']"

definition long_help_FPGA_ERR_AFI_ID_INVALID :: string where
  "long_help_FPGA_ERR_AFI_ID_INVALID = text_lines [
     ''The agfi id passed is invalid or you do not have permission to load'',
     ''the AFI.'']"

definition long_help_FPGA_ERR_AFI_CMD_API_VERSION_INVALID :: string where
  "long_help_FPGA_ERR_AFI_CMD_API_VERSION_INVALID = text_lines [
     ''The FPGA images tools are outdated. Newer tools are available at'',
     ''https://github.com/aws/aws-fpga'']"

definition long_help_FPGA_ERR_CL_ID_MISMATCH :: string where
  "long_help_FPGA_ERR_CL_ID_MISMATCH = text_lines [
     ''The vendor and device ID presented by the CL did not match expected'',
     ''values provided at ingestion time.'']"

definition long_help_FPGA_ERR_CL_DDR_CALIB_FAILED :: string where
  "long_help_FPGA_ERR_CL_DDR_CALIB_FAILED = text_lines [
     ''The DDR controllers in the CL did not correctly calibrate DDR.'']"

definition long_help_FPGA_ERR_SHELL_MISMATCH :: string where
  "long_help_FPGA_ERR_SHELL_MISMATCH = text_lines [
     ''The requested AFI relies on a shell which is not supported on this'',
     ''instance type.'']"

definition long_help_FPGA_ERR_POWER_VIOLATION :: string where
  "long_help_FPGA_ERR_POWER_VIOLATION = text_lines [
     ''The loaded CL exceeded maximum allowed power consumption and was'',
     ''automatically disabled. To clear this condition, simply reload the AFI.'']"

definition long_help_FPGA_ERR_PCI_MISSING :: string where
  "long_help_FPGA_ERR_PCI_MISSING = text_lines [
     ''Unable to locate a PCI device or resource for communicating with the'',
     ''FPGA API. This can happen if the FPGA has stopped behaving correctly'',
     ''and the instance will need to be stopped and restarted. This can also'',
     ''happen if the tools are run on a system with no AWS FPGA attached.'']"

definition long_help_ETIMEDOUT :: string where
  "long_help_ETIMEDOUT = text_lines [
     ''A time out error is usually spurious and the request can be retried. If'',
     ''it continues to fail, the FPGA may be inaccessible or the the FPGA API'',
     ''may be unresponsive.'']"

definition long_help_FPGA_ERR_AFI_CMD_MALFORMED :: string where
  "long_help_FPGA_ERR_AFI_CMD_MALFORMED = text_lines [
     ''A malformed response from the FPGA API can indicate that the FPGA has'',
     ''stopped behaving correctly and the instance will need to be stopped and'',
     ''and restarted. If this continues to happen (after an instance restart),'',
     ''this may be an indication that your AFI is exceeding allowed power'',
     ''consumption limits.'']"

definition long_help_FPGA_ERR_SOFTWARE_PROBLEM :: string where
  "long_help_FPGA_ERR_SOFTWARE_PROBLEM = text_lines [
     ''This usually indicates a bug in the fpga image tools, but can also be a'',
     ''symptom of a bug in the code which is using the library in cases where'',
     ''the customer is using the library directly.'']"

definition long_help_FPGA_ERR_UNRESPONSIVE :: string where
  "long_help_FPGA_ERR_UNRESPONSIVE = text_lines [
     ''The FPGA or PCI subsystem is not responding. This can happen if the FPGA'',
     ''stopped behaving correctly and the instance will need to be stopped and'',
     ''restarted.'']"

definition fpga_mgmt_strerror_long :: "int \<Rightarrow> string option" where
  "fpga_mgmt_strerror_long err =
    (if err = FPGA_ERR_AFI_CMD_BUSY then Some long_help_FPGA_ERR_AFI_CMD_BUSY
     else if err = FPGA_ERR_AFI_ID_INVALID then Some long_help_FPGA_ERR_AFI_ID_INVALID
     else if err = FPGA_ERR_AFI_CMD_API_VERSION_INVALID
       then Some long_help_FPGA_ERR_AFI_CMD_API_VERSION_INVALID
     else if err = FPGA_ERR_CL_ID_MISMATCH then Some long_help_FPGA_ERR_CL_ID_MISMATCH
     else if err = FPGA_ERR_CL_DDR_CALIB_FAILED then Some long_help_FPGA_ERR_CL_DDR_CALIB_FAILED
     else if err = FPGA_ERR_SHELL_MISMATCH then Some long_help_FPGA_ERR_SHELL_MISMATCH
     else if err = FPGA_ERR_POWER_VIOLATION then Some long_help_FPGA_ERR_POWER_VIOLATION
     else if err = FPGA_ERR_PCI_MISSING then Some long_help_FPGA_ERR_PCI_MISSING
     else if err = FPGA_ERR_AFI_CMD_MALFORMED then Some long_help_FPGA_ERR_AFI_CMD_MALFORMED
     else if err = - EINVAL \<or> err = FPGA_ERR_SOFTWARE_PROBLEM
       then Some long_help_FPGA_ERR_SOFTWARE_PROBLEM
     else if err = FPGA_ERR_UNRESPONSIVE then Some long_help_FPGA_ERR_UNRESPONSIVE
     else if err = - ETIMEDOUT then Some long_help_ETIMEDOUT
     else None)"

section \<open>Clearing and loading\<close>

definition fpga_mgmt_clear_local_image :: "'h platform \<Rightarrow> int \<Rightarrow> (('h, 'z) mgmt_st_scheme, unit) prog" where
  "fpga_mgmt_clear_local_image P slot_id =
     bindE require_init (\<lambda>_.
     bindE (fail_slot_id slot_id) (\<lambda>_.
     bindE (fpga_mgmt_cmd_init_clear P zero_bytes) (\<lambda>(cmd, len).
     bindE (fpga_mgmt_process_cmd P slot_id cmd zero_bytes len) (\<lambda>(ret, rsp, len').
     ret_code ret ()))))"

text \<open>
  The polling loop of the synchronous operations. \<open>done\<close> inspects the description: the final code of
  the awaited status, or \<open>None\<close> for any other. \<open>n\<close> is the number of retries that are left. A busy
  slot is polled again after a delay; an error status ends the operation with the status qualifier as
  its code, whatever its value. A failure of the loop is a jump to the end of the function.
\<close>

fun mgmt_sync_wait ::
  "'h platform \<Rightarrow> int \<Rightarrow> (fpga_mgmt_image_info \<Rightarrow> int option) \<Rightarrow> u32 \<Rightarrow> fpga_mgmt_image_info \<Rightarrow> nat
    \<Rightarrow> (('h, 'z) mgmt_st_scheme, fpga_mgmt_image_info) prog" where
  "mgmt_sync_wait P slot_id final delay_msec info n =
     bindE (fpga_mgmt_describe_cmd P slot_id info 0) (\<lambda>(ret, info').
     case (if ret = 0 then final info' else None) of
       Some code \<Rightarrow> if code = 0 then ok info' else fail code
     | None \<Rightarrow>
         if ret = 0 \<and> info_status info' = FPGA_STATUS_BUSY then
           (case n of
              0 \<Rightarrow> fail (- ETIMEDOUT)
            | Suc m \<Rightarrow>
                bindE (msleep P (ucast delay_msec)) (\<lambda>_.
                mgmt_sync_wait P slot_id final delay_msec info' m))
         else fail (info_status_q info'))"

declare mgmt_sync_wait.simps [simp del]

definition sync_timeout :: "u32 \<Rightarrow> nat" where
  "sync_timeout timeout =
     unat (if timeout > FPGA_MGMT_SYNC_TIMEOUT then timeout else FPGA_MGMT_SYNC_TIMEOUT)"

definition sync_delay :: "u32 \<Rightarrow> u32" where
  "sync_delay delay_msec =
     (if delay_msec > FPGA_MGMT_SYNC_DELAY_MSEC then delay_msec else FPGA_MGMT_SYNC_DELAY_MSEC)"

definition ids_match :: "afi_device_ids \<Rightarrow> fpga_pci_resource_map \<Rightarrow> bool" where
  "ids_match ids m = (ids_vendor_id ids = vendor_id m \<and> ids_device_id ids = device_id m \<and>
     ids_svid ids = subsystem_vendor_id m \<and> ids_ssid ids = subsystem_device_id m)"

text \<open>
  The end of both operations: the application function is removed and rescanned when the shell
  version or the PCI ids have changed, then the slot spec is filled in.
\<close>

definition mgmt_sync_finish ::
  "'h platform \<Rightarrow> int \<Rightarrow> u32 \<Rightarrow> fpga_pci_resource_map \<Rightarrow> fpga_mgmt_image_info
    \<Rightarrow> (('h, 'z) mgmt_st_scheme, fpga_mgmt_image_info) prog" where
  "mgmt_sync_finish P slot_id prev_sh_version app_map tmp_info =
     bindE (fpga_mgmt_get_sh_version P slot_id) (\<lambda>sh_version.
     bindE (if sh_version \<noteq> prev_sh_version \<or> \<not> ids_match (afi_device_ids (info_ids tmp_info)) app_map
       then fpga_pci_rescan_slot_app_pfs P slot_id else ok ()) (\<lambda>_.
     bindE (fpga_pci_get_slot_spec P slot_id) (\<lambda>spec.
     ok (tmp_info\<lparr>info_spec := spec\<rparr>))))"

definition clear_final :: "fpga_mgmt_image_info \<Rightarrow> int option" where
  "clear_final info = (if info_status info = FPGA_STATUS_CLEARED then Some 0 else None)"

definition mgmt_clear_sync ::
  "'h platform \<Rightarrow> int \<Rightarrow> u32 \<Rightarrow> u32 \<Rightarrow> (('h, 'z) mgmt_st_scheme, fpga_mgmt_image_info) prog" where
  "mgmt_clear_sync P slot_id timeout delay_msec =
     bindE require_init (\<lambda>_.
     bindE (fail_on (int FPGA_SLOT_MAX \<le> slot_id) (- EINVAL)) (\<lambda>_.
     bindE (fpga_mgmt_get_sh_version P slot_id) (\<lambda>prev_sh_version.
     bindE (fpga_pci_get_resource_map P slot_id (int FPGA_APP_PF)) (\<lambda>app_map.
     bindE (fpga_mgmt_clear_local_image P slot_id) (\<lambda>_.
     bindE (mgmt_sync_wait P slot_id clear_final (sync_delay delay_msec) zero_image_info
       (sync_timeout timeout)) (\<lambda>tmp_info.
     mgmt_sync_finish P slot_id prev_sh_version app_map tmp_info))))))"

text \<open>The caller's \<open>info\<close> is written at the end only; the code is returned beside it.\<close>

definition fpga_mgmt_clear_local_image_sync ::
  "'h platform \<Rightarrow> int \<Rightarrow> u32 \<Rightarrow> u32 \<Rightarrow> fpga_mgmt_image_info
    \<Rightarrow> (('h, 'z) mgmt_st_scheme, int \<times> fpga_mgmt_image_info) prog" where
  "fpga_mgmt_clear_local_image_sync P slot_id timeout delay_msec info =
     bindE (attempt (mgmt_clear_sync P slot_id timeout delay_msec)) (\<lambda>r.
     case r of Inl e \<Rightarrow> ok (e, info) | Inr info' \<Rightarrow> ok (0, info'))"

definition fpga_mgmt_init_load_local_image_options :: load_local_image_options where
  "fpga_mgmt_init_load_local_image_options =
     \<lparr>opt_slot_id = 0, opt_afi_id = [], opt_flags = 0, opt_clock_mains = replicate FPGA_MMCM_GROUP_MAX 0\<rparr>"

text \<open>The flags in the options of the caller are masked on the way; they are part of the result.\<close>

definition fpga_mgmt_load_local_image_with_options ::
  "'h platform \<Rightarrow> load_local_image_options
    \<Rightarrow> (('h, 'z) mgmt_st_scheme, int \<times> load_local_image_options) prog" where
  "fpga_mgmt_load_local_image_with_options P opt =
     bindE (attempt (bindE require_init (\<lambda>_. bindE (require_supported (opt_flags opt)) (\<lambda>_.
       fail_slot_id (opt_slot_id opt))))) (\<lambda>r.
     case r of
       Inl e \<Rightarrow> ok (e, opt)
     | Inr _ \<Rightarrow>
         let opt' = opt\<lparr>opt_flags := opt_flags opt AND FPGA_CMD_ALL_FLAGS\<rparr> in
         bindE (fpga_mgmt_cmd_init_load P zero_bytes opt') (\<lambda>(cmd, len).
         bindE (fpga_mgmt_process_cmd P (opt_slot_id opt') cmd zero_bytes len) (\<lambda>(ret, rsp, len').
         ok (ret, opt'))))"

definition load_options :: "int \<Rightarrow> u8 list \<Rightarrow> u32 \<Rightarrow> load_local_image_options" where
  "load_options slot_id afi flags = fpga_mgmt_init_load_local_image_options
     \<lparr>opt_slot_id := slot_id, opt_afi_id := afi, opt_flags := flags\<rparr>"

definition fpga_mgmt_load_local_image_flags ::
  "'h platform \<Rightarrow> int \<Rightarrow> u8 list \<Rightarrow> u32 \<Rightarrow> (('h, 'z) mgmt_st_scheme, unit) prog" where
  "fpga_mgmt_load_local_image_flags P slot_id afi flags =
     bindE (fpga_mgmt_load_local_image_with_options P (load_options slot_id afi flags)) (\<lambda>(ret, opt).
     ret_code ret ())"

definition fpga_mgmt_load_local_image ::
  "'h platform \<Rightarrow> int \<Rightarrow> u8 list \<Rightarrow> (('h, 'z) mgmt_st_scheme, unit) prog" where
  "fpga_mgmt_load_local_image P slot_id afi = fpga_mgmt_load_local_image_flags P slot_id afi 0"

definition load_final :: "load_local_image_options \<Rightarrow> fpga_mgmt_image_info \<Rightarrow> int option" where
  "load_final opt info =
     (if info_status info = FPGA_STATUS_LOADED then
        if FPGA_CMD_PREFETCH AND opt_flags opt \<noteq> FPGA_CMD_PREFETCH then
          Some (if strncmp_eq (opt_afi_id opt) (afi_id (info_ids info)) AFI_ID_STR_MAX then 0
                else FPGA_ERR_FAIL)
        else Some 0
      else None)"

definition mgmt_load_sync ::
  "'h platform \<Rightarrow> load_local_image_options \<Rightarrow> u32 \<Rightarrow> u32
    \<Rightarrow> (('h, 'z) mgmt_st_scheme, fpga_mgmt_image_info) prog" where
  "mgmt_load_sync P opt timeout delay_msec =
     bindE require_init (\<lambda>_.
     bindE (require_supported (opt_flags opt)) (\<lambda>_.
     bindE (fail_on (int FPGA_SLOT_MAX \<le> opt_slot_id opt) (- EINVAL)) (\<lambda>_.
     bindE (fpga_mgmt_get_sh_version P (opt_slot_id opt)) (\<lambda>prev_sh_version.
     bindE (fpga_pci_get_resource_map P (opt_slot_id opt) (int FPGA_APP_PF)) (\<lambda>app_map.
     bindE (fpga_mgmt_load_local_image_with_options P opt) (\<lambda>(ret, opt').
     bindE (ret_code ret ()) (\<lambda>_.
     bindE (mgmt_sync_wait P (opt_slot_id opt') (load_final opt') (sync_delay delay_msec)
       zero_image_info (sync_timeout timeout)) (\<lambda>tmp_info.
     mgmt_sync_finish P (opt_slot_id opt') prev_sh_version app_map tmp_info))))))))"

definition fpga_mgmt_load_local_image_sync_with_options ::
  "'h platform \<Rightarrow> load_local_image_options \<Rightarrow> u32 \<Rightarrow> u32 \<Rightarrow> fpga_mgmt_image_info
    \<Rightarrow> (('h, 'z) mgmt_st_scheme, int \<times> fpga_mgmt_image_info) prog" where
  "fpga_mgmt_load_local_image_sync_with_options P opt timeout delay_msec info =
     bindE (attempt (mgmt_load_sync P opt timeout delay_msec)) (\<lambda>r.
     case r of Inl e \<Rightarrow> ok (e, info) | Inr info' \<Rightarrow> ok (0, info'))"

definition fpga_mgmt_load_local_image_sync_flags ::
  "'h platform \<Rightarrow> int \<Rightarrow> u8 list \<Rightarrow> u32 \<Rightarrow> u32 \<Rightarrow> u32 \<Rightarrow> fpga_mgmt_image_info
    \<Rightarrow> (('h, 'z) mgmt_st_scheme, int \<times> fpga_mgmt_image_info) prog" where
  "fpga_mgmt_load_local_image_sync_flags P slot_id afi flags timeout delay_msec info =
     fpga_mgmt_load_local_image_sync_with_options P (load_options slot_id afi flags) timeout delay_msec info"

definition fpga_mgmt_load_local_image_sync ::
  "'h platform \<Rightarrow> int \<Rightarrow> u8 list \<Rightarrow> u32 \<Rightarrow> u32 \<Rightarrow> fpga_mgmt_image_info
    \<Rightarrow> (('h, 'z) mgmt_st_scheme, int \<times> fpga_mgmt_image_info) prog" where
  "fpga_mgmt_load_local_image_sync P slot_id afi timeout delay_msec info =
     fpga_mgmt_load_local_image_sync_flags P slot_id afi 0 timeout delay_msec info"

section \<open>Virtual LEDs and DIP switches\<close>

text \<open>The BAR is detached on success only. The out parameter is written before the detach.\<close>

definition vreg_read :: "'h platform \<Rightarrow> int \<Rightarrow> u64 \<Rightarrow> (('h, 'z) pci_st_scheme, int \<times> u32 option) prog" where
  "vreg_read P slot_id off =
     bindE (attempt (bindE (fpga_pci_attach P slot_id (int FPGA_MGMT_PF) MGMT_PF_BAR0 0) (\<lambda>h.
       bindE (fpga_pci_peek P h off) (\<lambda>v. ok (h, v))))) (\<lambda>r.
     case r of
       Inl e \<Rightarrow> ok (e, None)
     | Inr (h, v) \<Rightarrow>
         bindE (attempt (fpga_pci_detach P h)) (\<lambda>r2.
         ok (case r2 of Inl e \<Rightarrow> (e, Some v) | Inr _ \<Rightarrow> (0, Some v))))"

definition fpga_mgmt_get_vLED_status ::
  "'h platform \<Rightarrow> int \<Rightarrow> (('h, 'z) pci_st_scheme, int \<times> u16 option) prog" where
  "fpga_mgmt_get_vLED_status P slot_id =
     bindE (vreg_read P slot_id FPGA_VIRTUAL_LED_REG_OFFSET) (\<lambda>(ret, v).
     ok (ret, map_option (\<lambda>read_data. ucast (read_data AND 0xFFFF)) v))"

definition fpga_mgmt_set_vDIP :: "'h platform \<Rightarrow> int \<Rightarrow> u16 \<Rightarrow> (('h, 'z) pci_st_scheme, unit) prog" where
  "fpga_mgmt_set_vDIP P slot_id v =
     bindE (fpga_pci_attach P slot_id (int FPGA_MGMT_PF) MGMT_PF_BAR0 0) (\<lambda>h.
     bindE (fpga_pci_poke P h FPGA_VIRTUAL_DIP_REG_OFFSET (ucast v)) (\<lambda>_.
     fpga_pci_detach P h))"

definition fpga_mgmt_get_vDIP_status ::
  "'h platform \<Rightarrow> int \<Rightarrow> (('h, 'z) pci_st_scheme, int \<times> u16 option) prog" where
  "fpga_mgmt_get_vDIP_status P slot_id =
     bindE (vreg_read P slot_id FPGA_VIRTUAL_DIP_REG_OFFSET) (\<lambda>(ret, v).
     ok (ret, map_option ucast v))"

section \<open>The invariant of the library\<close>

lemma keeps_mgmt_msleep [keeps_intros]: "keeps mgmt_inv (msleep P ms)"
  by (intro keeps_mgmt_leaves leaves_intros plat_free_bars plat_free_mgmt)

lemma keeps_mgmt_next_id [keeps_intros]: "keeps mgmt_inv (afi_get_next_id P)"
  unfolding afi_get_next_id_def
  by (intro keeps_intros keeps_mgmt_leaves leaves_intros plat_free_bars plat_free_mgmt)
    (simp_all add: leaves_def prog_simps)

lemma keeps_mgmt_init_cmds [keeps_intros]:
  "keeps mgmt_inv (fpga_mgmt_cmd_init_metrics P cmd flags)"
  "keeps mgmt_inv (fpga_mgmt_cmd_init_clear P cmd)"
  "keeps mgmt_inv (fpga_mgmt_cmd_init_load P cmd opt)"
  unfolding fpga_mgmt_cmd_init_metrics_def fpga_mgmt_cmd_init_clear_def fpga_mgmt_cmd_init_load_def Let_def
  by (intro keeps_intros)+

lemma keeps_mgmt_sysfs [keeps_intros]:
  "keeps mgmt_inv (fpga_pci_get_slot_spec P i)"
  "keeps mgmt_inv (fpga_pci_get_resource_map P i pf)"
  "keeps mgmt_inv (fpga_pci_rescan_slot_app_pfs P i)"
  by (intro keeps_mgmt_leaves leaves_get_slot_spec leaves_get_resource_map leaves_rescan_slot_app_pfs
      plat_free_bars plat_free_mgmt)+

lemma leaves_slots_accesses:
  "leaves slots (fpga_pci_peek P h off)" "leaves slots (fpga_pci_poke P h off v)"
  by (intro leaves_accesses plat_free_mgmt)+

lemma keeps_mgmt_accesses [keeps_intros]:
  "keeps mgmt_inv (fpga_pci_peek P h off)" "keeps mgmt_inv (fpga_pci_poke P h off v)"
  "keeps mgmt_inv (fpga_hal_mbox_get_versions P h)"
  by (intro keeps_mgmt_leaves leaves_accesses leaves_mbox_get_versions plat_free_bars plat_free_mgmt)+

lemma fail_slot_id_cases:
  "bindE (fail_slot_id i) f = (if i < 0 \<or> int FPGA_SLOT_MAX \<le> i then fail (- EINVAL) else f ())"
  by (simp add: fail_slot_id_def fail_on_def)

lemma keeps_mgmt_get_sh_version [keeps_intros]: "keeps mgmt_inv (fpga_mgmt_get_sh_version P slot_id)"
  unfolding fpga_mgmt_get_sh_version_def fail_slot_id_cases by (intro keeps_intros) auto

lemma keeps_mgmt_describe_retry [keeps_intros]: "keeps mgmt_inv (mgmt_describe_retry P slot_id cmd r n)"
  by (induction P slot_id cmd r n rule: mgmt_describe_retry.induct) (auto intro!: keeps_intros)

lemma keeps_mgmt_rl_reload:
  "0 \<le> slot_id \<Longrightarrow> slot_id < int FPGA_SLOT_MAX \<Longrightarrow> keeps mgmt_inv (mgmt_rl_reload P slot_id info)"
  unfolding mgmt_rl_reload_def by (intro keeps_intros) auto

lemma keeps_mgmt_describe_cmd [keeps_intros]: "keeps mgmt_inv (fpga_mgmt_describe_cmd P slot_id info flags)"
  unfolding fpga_mgmt_describe_cmd_def mgmt_fill_info_def Let_def
  by (intro keeps_intros keeps_mgmt_rl_reload) auto

lemma keeps_mgmt_require [keeps_intros]:
  "keeps mgmt_inv require_init" "keeps I (require_supported flags)" "keeps I (fail_slot_id i)"
  unfolding require_init_def require_supported_def fail_slot_id_def by (intro keeps_intros)+

lemma keeps_mgmt_describe [keeps_intros]:
  "keeps mgmt_inv (fpga_mgmt_describe_local_image P slot_id info flags)"
  "keeps mgmt_inv (fpga_mgmt_get_status P slot_id)"
  unfolding fpga_mgmt_get_status_def fpga_mgmt_describe_local_image_def by (intro keeps_intros)+

lemma keeps_mgmt_clear [keeps_intros]: "keeps mgmt_inv (fpga_mgmt_clear_local_image P slot_id)"
  unfolding fpga_mgmt_clear_local_image_def by (intro keeps_intros)

lemma keeps_mgmt_sync_wait [keeps_intros]: "keeps mgmt_inv (mgmt_sync_wait P slot_id final d info n)"
proof (induction n arbitrary: info)
  case 0
  show ?case by (subst mgmt_sync_wait.simps) (auto intro!: keeps_intros)
next
  case (Suc n)
  show ?case by (subst mgmt_sync_wait.simps) (auto intro!: keeps_intros Suc.IH)
qed

lemma keeps_mgmt_sync_finish [keeps_intros]: "keeps mgmt_inv (mgmt_sync_finish P slot_id v m info)"
  unfolding mgmt_sync_finish_def by (intro keeps_intros)

lemma keeps_mgmt_clear_sync [keeps_intros]:
  "keeps mgmt_inv (fpga_mgmt_clear_local_image_sync P slot_id timeout delay_msec info)"
  unfolding fpga_mgmt_clear_local_image_sync_def mgmt_clear_sync_def by (intro keeps_intros)

lemma keeps_mgmt_load [keeps_intros]: "keeps mgmt_inv (fpga_mgmt_load_local_image_with_options P opt)"
  unfolding fpga_mgmt_load_local_image_with_options_def Let_def by (intro keeps_intros)

lemma keeps_mgmt_load_sync [keeps_intros]:
  "keeps mgmt_inv (fpga_mgmt_load_local_image_sync_with_options P opt timeout delay_msec info)"
  unfolding fpga_mgmt_load_local_image_sync_with_options_def mgmt_load_sync_def by (intro keeps_intros)

lemma keeps_mgmt_close_loop: "\<forall>i \<in> set is. i < FPGA_SLOT_MAX \<Longrightarrow> keeps mgmt_inv (mgmt_close_loop P is)"
  by (induction P "is" rule: mgmt_close_loop.induct) (auto intro!: keeps_intros)

lemma keeps_mgmt_close [keeps_intros]: "keeps mgmt_inv (fpga_mgmt_close P)"
  unfolding fpga_mgmt_close_def
  by (intro keeps_intros keeps_mgmt_close_loop) (auto simp: keeps_def prog_simps)

lemma keeps_mgmt_settings [keeps_intros]:
  "keeps mgmt_inv (fpga_mgmt_set_cmd_timeout v)" "keeps mgmt_inv (fpga_mgmt_set_cmd_delay_msec v)"
  "keeps mgmt_inv fpga_mgmt_init"
  by (auto simp: keeps_def fpga_mgmt_set_cmd_timeout_def fpga_mgmt_set_cmd_delay_msec_def
      fpga_mgmt_init_def fpga_pci_init_def prog_simps slots_inv_def)

text \<open>
  The virtual registers: the handle that is attached for an access is fresh, so detaching it gives
  the table back as it was; when the access or the detach fails the entry stays allocated.
\<close>

lemma attach_used:
  assumes "fpga_pci_attach P slot_id pf b flags s = (r, t)" and "bars_inv (bars s)"
  shows "bars_inv (bars t) \<and> used_handles (bars s) \<subseteq> used_handles (bars t)"
proof -
  have "holds_handles (used_handles (bars s)) s" using assms(2) by (simp add: holds_handles_def)
  from keepsD [OF keeps_holds_attach this assms(1)] show ?thesis by (simp add: holds_handles_def)
qed

lemma peek_Inr_handle: "fpga_pci_peek P h off s = (Inr v, t) \<Longrightarrow> 0 \<le> h"
  by (auto simp: fpga_pci_peek_def reg_ptr_def fpga_pci_bar_get_mem_at_offset_def fpga_pci_bar_get_def
      prog_simps split: if_splits)

lemma poke_Inr_handle: "fpga_pci_poke P h off v s = (Inr u, t) \<Longrightarrow> 0 \<le> h"
  by (auto simp: fpga_pci_poke_def reg_ptr_def fpga_pci_bar_get_mem_at_offset_def fpga_pci_bar_get_def
      prog_simps split: if_splits)

lemma vreg_read_table:
  assumes "vreg_read P slot_id off s = (r, t)" and B: "bars_inv (bars s)"
  shows "\<exists>ret v. r = Inr (ret, v) \<and> (ret = 0 \<longrightarrow> v \<noteq> None \<and> bars t = bars s) \<and>
    bars_inv (bars t) \<and> used_handles (bars s) \<subseteq> used_handles (bars t)"
proof -
  obtain q u where a: "fpga_pci_attach P slot_id (int FPGA_MGMT_PF) MGMT_PF_BAR0 0 s = (q, u)" by fastforce
  note used = attach_used [OF a B]
  show ?thesis
  proof (cases q)
    case (Inl e)
    then have "e \<noteq> 0" using nonzeroD [OF nonzero_attach] a by blast
    then show ?thesis using assms Inl a used by (auto simp: vreg_read_def prog_simps)
  next
    case (Inr h)
    obtain p v where peek: "fpga_pci_peek P h off u = (p, v)" by fastforce
    have v: "bars v = bars u" using leavesD [OF leaves_accesses(4) [OF plat_free_bars] peek] .
    show ?thesis
    proof (cases p)
      case Inl
      then show ?thesis
        using assms a Inr peek used v peek_InlD [of P h off u]
        by (auto simp: vreg_read_def prog_simps)
    next
      case (Inr x)
      with peek have h: "0 \<le> h" using peek_Inr_handle by blast
      obtain d w where det: "fpga_pci_detach P h v = (d, w)" by fastforce
      have "if d = Inr () then bars w = bars s else bars w = bars u"
        using attach_detach_table [OF _ h B v det] a \<open>q = Inr h\<close> by simp
      moreover have "d \<noteq> Inl 0"
        using det by (auto simp: fpga_pci_detach_def fpga_pci_bar_free_def fpga_pci_bar_get_def
            prog_simps split: if_splits prod.splits)
      ultimately show ?thesis
        using assms a \<open>q = Inr h\<close> Inr peek det used
        by (cases d) (auto simp: vreg_read_def prog_simps)
    qed
  qed
qed

lemma set_vDIP_table:
  assumes "fpga_mgmt_set_vDIP P slot_id x s = (r, t)" and B: "bars_inv (bars s)"
  shows "(r = Inr () \<longrightarrow> bars t = bars s) \<and> bars_inv (bars t) \<and> used_handles (bars s) \<subseteq> used_handles (bars t)"
proof -
  obtain q u where a: "fpga_pci_attach P slot_id (int FPGA_MGMT_PF) MGMT_PF_BAR0 0 s = (q, u)" by fastforce
  note used = attach_used [OF a B]
  show ?thesis
  proof (cases q)
    case (Inl e)
    then show ?thesis using assms a used by (auto simp: fpga_mgmt_set_vDIP_def prog_simps)
  next
    case (Inr h)
    obtain p v where poke: "fpga_pci_poke P h FPGA_VIRTUAL_DIP_REG_OFFSET (ucast x) u = (p, v)" by fastforce
    have v: "bars v = bars u" using leavesD [OF leaves_accesses(1) [OF plat_free_bars] poke] .
    show ?thesis
    proof (cases p)
      case Inl
      then show ?thesis
        using assms a \<open>q = Inr h\<close> poke used v by (auto simp: fpga_mgmt_set_vDIP_def prog_simps)
    next
      case (Inr y)
      with poke have h: "0 \<le> h" using poke_Inr_handle by blast
      obtain d w where det: "fpga_pci_detach P h v = (d, w)" by fastforce
      have "if d = Inr () then bars w = bars s else bars w = bars u"
        using attach_detach_table [OF _ h B v det] a \<open>q = Inr h\<close> by simp
      then show ?thesis
        using assms a \<open>q = Inr h\<close> Inr poke det used
        by (auto simp: fpga_mgmt_set_vDIP_def prog_simps split: if_splits)
    qed
  qed
qed

lemma leaves_slots_vregs:
  "leaves slots (vreg_read P slot_id off)" "leaves slots (fpga_mgmt_set_vDIP P slot_id x)"
  unfolding vreg_read_def fpga_mgmt_set_vDIP_def
  by (intro leaves_intros leaves_slots_pci_attach leaves_slots_pci_detach plat_free_mgmt)+

lemma keeps_mgmt_vreg_read [keeps_intros]: "keeps mgmt_inv (vreg_read P slot_id off)"
proof (rule keepsI)
  fix s :: "('a, 'b) mgmt_st_scheme"
  assume I: "mgmt_inv s"
  obtain r t where v: "vreg_read P slot_id off s = (r, t)" by fastforce
  have "bars_inv (bars s)" using I by (simp add: slots_inv_def)
  from vreg_read_table [OF v this] leavesD [OF leaves_slots_vregs(1) v] I slots_inv_mono v
  show "mgmt_inv (snd (vreg_read P slot_id off s))" by auto
qed

lemma keeps_mgmt_set_vDIP [keeps_intros]: "keeps mgmt_inv (fpga_mgmt_set_vDIP P slot_id x)"
proof (rule keepsI)
  fix s :: "('a, 'b) mgmt_st_scheme"
  assume I: "mgmt_inv s"
  obtain r t where v: "fpga_mgmt_set_vDIP P slot_id x s = (r, t)" by fastforce
  have "bars_inv (bars s)" using I by (simp add: slots_inv_def)
  from set_vDIP_table [OF v this] leavesD [OF leaves_slots_vregs(2) v] I slots_inv_mono v
  show "mgmt_inv (snd (fpga_mgmt_set_vDIP P slot_id x s))" by auto
qed

lemma keeps_mgmt_led_dip [keeps_intros]:
  "keeps mgmt_inv (fpga_mgmt_get_vLED_status P slot_id)" "keeps mgmt_inv (fpga_mgmt_get_vDIP_status P slot_id)"
  unfolding fpga_mgmt_get_vLED_status_def fpga_mgmt_get_vDIP_status_def by (intro keeps_intros)+

text \<open>The calls of the API, and the states a program reaches with them after \<open>fpga_mgmt_init\<close>.\<close>

datatype mgmt_op = Mgmt_init | Mgmt_close | Set_timeout u32 | Set_delay u32
  | Describe int u32 | Get_status int | Clear int | Clear_sync int u32 u32
  | Load load_local_image_options | Load_sync load_local_image_options u32 u32
  | Get_vLED int | Set_vDIP int u16 | Get_vDIP int

fun mgmt_op_step :: "'h platform \<Rightarrow> mgmt_op \<Rightarrow> ('h, 'z) mgmt_st_scheme \<Rightarrow> ('h, 'z) mgmt_st_scheme" where
  "mgmt_op_step P Mgmt_init s = snd (fpga_mgmt_init s)"
| "mgmt_op_step P Mgmt_close s = snd (fpga_mgmt_close P s)"
| "mgmt_op_step P (Set_timeout v) s = snd (fpga_mgmt_set_cmd_timeout v s)"
| "mgmt_op_step P (Set_delay v) s = snd (fpga_mgmt_set_cmd_delay_msec v s)"
| "mgmt_op_step P (Describe i flags) s = snd (fpga_mgmt_describe_local_image P i zero_image_info flags s)"
| "mgmt_op_step P (Get_status i) s = snd (fpga_mgmt_get_status P i s)"
| "mgmt_op_step P (Clear i) s = snd (fpga_mgmt_clear_local_image P i s)"
| "mgmt_op_step P (Clear_sync i tmo d) s = snd (fpga_mgmt_clear_local_image_sync P i tmo d zero_image_info s)"
| "mgmt_op_step P (Load opt) s = snd (fpga_mgmt_load_local_image_with_options P opt s)"
| "mgmt_op_step P (Load_sync opt tmo d) s =
     snd (fpga_mgmt_load_local_image_sync_with_options P opt tmo d zero_image_info s)"
| "mgmt_op_step P (Get_vLED i) s = snd (fpga_mgmt_get_vLED_status P i s)"
| "mgmt_op_step P (Set_vDIP i x) s = snd (fpga_mgmt_set_vDIP P i x s)"
| "mgmt_op_step P (Get_vDIP i) s = snd (fpga_mgmt_get_vDIP_status P i s)"

inductive mgmt_steps :: "'h platform \<Rightarrow> ('h, 'z) mgmt_st_scheme \<Rightarrow> ('h, 'z) mgmt_st_scheme \<Rightarrow> bool"
  for P where
  mgmt_steps_refl: "mgmt_steps P s s"
| mgmt_steps_step: "mgmt_steps P s t \<Longrightarrow> u = mgmt_op_step P opn t \<Longrightarrow> mgmt_steps P s u"

lemmas mgmt_api_keeps = keeps_mgmt_settings keeps_mgmt_close keeps_mgmt_describe keeps_mgmt_clear
  keeps_mgmt_clear_sync keeps_mgmt_load keeps_mgmt_load_sync keeps_mgmt_led_dip keeps_mgmt_set_vDIP

lemma mgmt_op_step_inv: "mgmt_inv s \<Longrightarrow> mgmt_inv (mgmt_op_step P opn s)"
  by (cases opn) (simp_all only: mgmt_op_step.simps, (rule keeps_snd, rule mgmt_api_keeps, assumption)+)

text \<open>
  C24. After fpga_mgmt_init and any sequence of calls of the API, with any arguments and any
  platform, each slot handle is PCI_BAR_HANDLE_INIT or a handle in use of the BAR table, and no
  two slots share one.
\<close>

theorem mgmt_invariant:
  assumes "mgmt_steps P (snd (fpga_mgmt_init s)) t" and "bars_inv (bars s)"
  shows "bars_inv (bars t) \<and> length (slots t) = FPGA_SLOT_MAX \<and>
    (\<forall>i < FPGA_SLOT_MAX. slots t ! i = PCI_BAR_HANDLE_INIT \<or> slots t ! i \<in> used_handles (bars t) \<and>
      (\<forall>j < FPGA_SLOT_MAX. i \<noteq> j \<longrightarrow> slots t ! i \<noteq> slots t ! j))"
proof -
  have "mgmt_inv (snd (fpga_mgmt_init s))"
    using assms(2) by (simp add: fpga_mgmt_init_def fpga_pci_init_def prog_simps slots_inv_def)
  with assms(1) have I: "mgmt_inv t"
    by (induction rule: mgmt_steps.induct) (auto intro: mgmt_op_step_inv)
  then have len: "length (slots t) = FPGA_SLOT_MAX" by (simp add: slots_inv_def)
  have "slots t ! i = PCI_BAR_HANDLE_INIT \<or> slots t ! i \<in> used_handles (bars t)" if "i < FPGA_SLOT_MAX" for i
  proof -
    have "slots t ! i \<in> set (slots t)" using that len by simp
    then show ?thesis using I unfolding slots_inv_def by blast
  qed
  with I len show ?thesis unfolding slots_inv_def by blast
qed

section \<open>What the description says\<close>

lemma process_cmd_valid:
  assumes "fpga_mgmt_process_cmd P slot_id cmd rsp len s = (Inr (0, rsp', len'), t)"
  shows "fpga_mgmt_afi_validate_header cmd rsp' len' = 0"
  using assms
proof (rule process_cmd_Inr)
  fix u
  assume "fpga_mgmt_send_cmd P (nat slot_id) cmd rsp len u = (Inr (0, rsp', len'), t)"
  then show ?thesis
    using send_cmd_result [of P "nat slot_id" cmd rsp len u] by (auto simp: rsp_post_def)
qed

lemma describe_retry_valid:
  "mgmt_describe_retry P slot_id cmd r n s = (Inr (0, rsp, len), t) \<Longrightarrow>
    (\<And>rsp len. r = (0, rsp, len) \<Longrightarrow> fpga_mgmt_afi_validate_header cmd rsp len = 0) \<Longrightarrow>
    fpga_mgmt_afi_validate_header cmd rsp len = 0"
proof (induction P slot_id cmd r n arbitrary: s rule: mgmt_describe_retry.induct)
  case (1 P slot_id cmd r)
  then show ?case by (simp add: prog_simps)
next
  case (2 P slot_id cmd ret rsp0 len0 n)
  show ?case
  proof (cases "ret = FPGA_ERR_AFI_CMD_MALFORMED \<or> ret = - ETIMEDOUT")
    case False
    then show ?thesis using 2 by (auto simp: prog_simps)
  next
    case True
    let ?u = "snd (msleep P FPGA_MGMT_RL_RELOAD_DELAY s)"
    obtain r' v where p: "fpga_mgmt_process_cmd P slot_id cmd rsp0 len0 ?u = (Inr r', v)"
      using process_cmd_total [of P slot_id cmd rsp0 len0 ?u] by (metis prod.collapse)
    have "mgmt_describe_retry P slot_id cmd r' n v = (Inr (0, rsp, len), t)"
      using "2.prems"(1) True p by (simp add: bindE_apply msleep_apply)
    then show ?thesis
      using "2.IH" [OF True, of r' v] p process_cmd_valid by blast
  qed
qed

text \<open>What a metrics response at \<open>off\<close> says, in the fields of the API structure.\<close>

definition describes :: "bytes \<Rightarrow> fpga_mgmt_image_info \<Rightarrow> bool" where
  "describes rsp info \<longleftrightarrow>
     (info_status info = sint (get32 rsp 88) \<or>
      sint (get32 rsp 88) = FPGA_STATUS_LOADING_RL \<and> info_status info = FPGA_STATUS_BUSY) \<and>
     info_status_q info = sint (get32 rsp 92) \<and>
     cstr (afi_id (info_ids info)) =
       (if rsp 16 = 0 then bytes_of_string ''none'' else cstr (get_list rsp 16 64)) \<and>
     afi_device_ids (info_ids info) = \<lparr>ids_vendor_id = get16 rsp 80, ids_device_id = get16 rsp 82,
       ids_svid = get16 rsp 84, ids_ssid = get16 rsp 86\<rparr> \<and>
     (info_metrics info = F1_metrics (decode_f1_metrics rsp 96) \<or>
      info_metrics info = F2_metrics (decode_f2_metrics rsp 96))"

lemma cstr_strncpy_whole: "length src \<le> n \<Longrightarrow> cstr (strncpy n src) = cstr src"
proof -
  assume l: "length src \<le> n"
  have le: "length (cstr src) \<le> length src" by (simp add: cstr_def length_takeWhile_le)
  show ?thesis
  proof (cases "length (cstr src) < n")
    case True
    then show ?thesis by (rule cstr_strncpy)
  next
    case False
    with l le have "length (cstr src) = n" "length src = n" by simp_all
    then have "cstr src = src" by (metis cstr_def takeWhile_eq_take take_all order_refl)
    then show ?thesis using \<open>length (cstr src) = n\<close> by (simp add: strncpy_def)
  qed
qed

lemma metrics_to_info_describes:
  "describes rsp (metrics_to_info rsp BODY slot_id info
     \<lparr>info_sh_version := v, info_metrics := (if f1 then F1_metrics (decode_f1_metrics rsp (BODY + 80))
        else F2_metrics (decode_f2_metrics rsp (BODY + 80)))\<rparr>)"
proof -
  have hd: "hd (get_list rsp 16 64) = rsp 16" by (simp add: get_list_def upt_conv_Cons)
  have none: "cstr (bytes_of_string ''none'') = bytes_of_string ''none''" by code_simp
  have "length (bytes_of_string ''none'') \<le> 64" by (simp add: bytes_of_string_def)
  then have "cstr (strncpy 64 (bytes_of_string ''none'')) = bytes_of_string ''none''"
    using cstr_strncpy_whole none by metis
  moreover have "cstr (strncpy 64 (get_list rsp 16 64)) = cstr (get_list rsp 16 64)"
    by (rule cstr_strncpy_whole) (simp add: length_get_list)
  ultimately show ?thesis
    by (simp add: describes_def metrics_to_info_def metrics_ids_def Let_def hd)
qed

lemma rl_reload_Inr:
  "mgmt_rl_reload P slot_id info s = (Inr info', t) \<Longrightarrow>
    info' = info \<or> info' = info\<lparr>info_status := FPGA_STATUS_BUSY\<rparr>"
  by (auto simp: mgmt_rl_reload_def bindE_apply attempt_apply ok_apply split: prod.splits sum.splits)

lemma describes_busy:
  "describes rsp info \<Longrightarrow> sint (get32 rsp 88) = FPGA_STATUS_LOADING_RL \<Longrightarrow>
    describes rsp (info\<lparr>info_status := FPGA_STATUS_BUSY\<rparr>)"
  by (simp add: describes_def)

lemma fill_info_describes:
  assumes "mgmt_fill_info P slot_id rsp BODY info s = (Inr (0, info'), t)"
  shows "describes rsp info' \<and> info_slot_id info' = slot_id \<and> info_spec info' = info_spec info"
proof -
  let ?i1 = "metrics_to_info rsp BODY slot_id info"
  have i1: "info_slot_id ?i1 = slot_id" "info_spec ?i1 = info_spec info"
    by (simp_all add: metrics_to_info_def Let_def)
  obtain q u where v: "fpga_mgmt_get_sh_version P slot_id s = (q, u)" by fastforce
  have "nonzero (fpga_mgmt_get_sh_version P slot_id)"
    unfolding fpga_mgmt_get_sh_version_def fail_slot_id_def fpga_hal_mbox_get_versions_def
    by (intro nonzero_intros) auto
  then obtain ver where q: "q = Inr ver"
    using assms v by (cases q) (auto simp: mgmt_fill_info_def Let_def prog_simps dest: nonzeroD)
  obtain p w where m: "fpga_pci_get_resource_map P slot_id (int FPGA_MGMT_PF) u = (p, w)" by fastforce
  have "nonzero (fpga_pci_get_resource_map P slot_id (int FPGA_MGMT_PF))"
    unfolding fpga_pci_get_resource_map_def by (intro nonzero_intros nonzero_get_slot_spec) auto
  then obtain mbox_map where p: "p = Inr mbox_map"
    using assms v q m by (cases p) (auto simp: mgmt_fill_info_def Let_def prog_simps dest: nonzeroD)
  let ?i3 = "?i1\<lparr>info_sh_version := ver, info_metrics :=
      (if IS_F1 mbox_map then F1_metrics (decode_f1_metrics rsp (BODY + 80))
       else F2_metrics (decode_f2_metrics rsp (BODY + 80)))\<rparr>"
  have d: "describes rsp ?i3" by (rule metrics_to_info_describes)
  have "info' = ?i3 \<or> sint (get32 rsp 88) = FPGA_STATUS_LOADING_RL \<and>
      info' = ?i3\<lparr>info_status := FPGA_STATUS_BUSY\<rparr>"
    using assms v q m p
    by (auto simp: mgmt_fill_info_def Let_def bindE_apply attempt_apply ok_apply
        split: if_splits prod.splits sum.splits dest!: rl_reload_Inr)
  then show ?thesis
    using d describes_busy [OF d] i1 by auto
qed

lemma describe_cmd_Inr:
  assumes "fpga_mgmt_describe_cmd P slot_id info flags s = (Inr (0, info'), t)"
  shows "\<exists>cmd i rsp len. request_header cmd AFI_CMD_METRICS i 4 \<and> get32 cmd 16 = flags AND 0x106 \<and>
    fpga_mgmt_afi_validate_header cmd rsp len = 0 \<and> 600 \<le> unat len \<and> describes rsp info' \<and>
    0 \<le> slot_id \<and> slot_id < int FPGA_SLOT_MAX \<and> info_slot_id info' = slot_id \<and>
    info_spec info' = info_spec info"
proof -
  have slot: "0 \<le> slot_id" "slot_id < int FPGA_SLOT_MAX"
    using assms by (auto simp: fpga_mgmt_describe_cmd_def ok_apply split: if_splits)
  obtain cmd i u where c: "fpga_mgmt_cmd_init_metrics P zero_bytes flags s = (Inr (cmd, 20), u)"
    "request_header cmd AFI_CMD_METRICS i 4" "get32 cmd 16 = flags AND 0x106"
    using metrics_request [of P zero_bytes flags s] by blast
  obtain r v where p: "fpga_mgmt_process_cmd P slot_id cmd zero_bytes 20 u = (Inr r, v)"
    using process_cmd_total [of P slot_id cmd zero_bytes 20 u] by (metis prod.collapse)
  have n: "\<not> (slot_id < 0 \<or> int FPGA_SLOT_MAX \<le> slot_id)" using slot by simp
  let ?rest = "\<lambda>(ret, rsp, len'). if ret \<noteq> 0 then ok (ret, info) else case fpga_mgmt_cmd_handle_metrics len' of
        Inl e \<Rightarrow> ok (e, info) | Inr off \<Rightarrow> mgmt_fill_info P slot_id rsp off info"
  have "bindE (mgmt_describe_retry P slot_id cmd r (Suc FPGA_MGMT_RL_RELOAD_RETRIES)) ?rest v = (Inr (0, info'), t)"
    using assms [unfolded fpga_mgmt_describe_cmd_def if_not_P [OF n] bindE_apply c(1)] p
    by (simp only: prod.case sum.case bindE_apply p)
  then obtain y w where rt: "mgmt_describe_retry P slot_id cmd r (Suc FPGA_MGMT_RL_RELOAD_RETRIES) v = (Inr y, w)"
    and rest: "?rest y w = (Inr (0, info'), t)"
    by (rule bindE_InrE)
  obtain ret rsp len where y: "y = (ret, rsp, len)" by (cases y) auto
  with rest have ret: "ret = 0" and len: "600 \<le> unat len"
    and fill: "mgmt_fill_info P slot_id rsp BODY info w = (Inr (0, info'), t)"
    by (auto simp: ok_apply fpga_mgmt_cmd_handle_metrics_def word_less_nat_alt split: if_splits)
  have "fpga_mgmt_afi_validate_header cmd rsp len = 0"
    by (rule describe_retry_valid [OF rt [unfolded y ret]]) (use p process_cmd_valid in blast)
  then show ?thesis using c(2,3) slot len fill_info_describes [OF fill] by blast
qed

lemma describe_slot:
  "fpga_mgmt_describe_cmd P slot_id info flags s = (Inr (0, info'), t) \<Longrightarrow> info_slot_id info' = slot_id"
  using describe_cmd_Inr by blast


section \<open>Synchronous load and clear\<close>

lemma sync_wait_Inr:
  "mgmt_sync_wait P slot_id final d info n s = (Inr info', t) \<Longrightarrow>
    final info' = Some 0 \<and>
    (\<exists>i u. fpga_mgmt_describe_cmd P slot_id i 0 u = (Inr (0, info'), t))"
proof (induction n arbitrary: info s)
  case 0
  then show ?case
    by (subst (asm) mgmt_sync_wait.simps)
      (auto simp: bindE_apply ok_apply fail_apply split: prod.splits sum.splits if_splits option.splits)
next
  case (Suc n)
  show ?case
    using Suc.prems Suc.IH
    by (subst (asm) mgmt_sync_wait.simps)
      (auto simp: bindE_apply ok_apply fail_apply msleep_apply
        split: prod.splits sum.splits if_splits option.splits)
qed

lemma sync_finish_Inr:
  assumes "mgmt_sync_finish P slot_id v m info s = (Inr info', t)"
  obtains spec u where "fpga_pci_get_slot_spec P slot_id u = (Inr spec, t)" "info' = info\<lparr>info_spec := spec\<rparr>"
  using assms unfolding mgmt_sync_finish_def
  by (elim bindE_InrE) (simp add: ok_apply)

lemma load_with_options_Inr:
  assumes "fpga_mgmt_load_local_image_with_options P opt s = (Inr (0, opt'), t)"
  shows "opt' = opt\<lparr>opt_flags := opt_flags opt AND FPGA_CMD_ALL_FLAGS\<rparr>"
proof -
  let ?m = "bindE require_init (\<lambda>_. bindE (require_supported (opt_flags opt)) (\<lambda>_. fail_slot_id (opt_slot_id opt)))"
  have "nonzero ?m"
    unfolding require_init_def require_supported_def fail_slot_id_def by (intro nonzero_intros) auto
  then have "fst (?m s) \<noteq> Inl 0" unfolding nonzero_def by blast
  then show ?thesis
    using assms by (auto simp: fpga_mgmt_load_local_image_with_options_def Let_def bindE_apply [of "attempt _"]
        attempt_def ok_apply elim!: bindE_InrE split: sum.splits prod.splits)
qed


lemma load_sync_Inr:
  fixes s t :: "('h, 'z) mgmt_st_scheme"
  assumes "mgmt_load_sync P opt timeout d s = (Inr info', t)"
  obtains opt' tmp spec and u w x :: "('h, 'z) mgmt_st_scheme"
  where "opt' = opt\<lparr>opt_flags := opt_flags opt AND FPGA_CMD_ALL_FLAGS\<rparr>"
    "mgmt_sync_wait P (opt_slot_id opt) (load_final opt') (sync_delay d) zero_image_info
       (sync_timeout timeout) u = (Inr tmp, w)"
    "fpga_pci_get_slot_spec P (opt_slot_id opt) x = (Inr spec, t)" "info' = tmp\<lparr>info_spec := spec\<rparr>"
proof -
  obtain v ret opt' u tmp w pv m where l: "fpga_mgmt_load_local_image_with_options P opt v = (Inr (ret, opt'), u)"
    and ret: "ret_code ret () u = (Inr (), u)"
    and w: "mgmt_sync_wait P (opt_slot_id opt') (load_final opt') (sync_delay d) zero_image_info
       (sync_timeout timeout) u = (Inr tmp, w)"
    and f: "mgmt_sync_finish P (opt_slot_id opt') pv m tmp w = (Inr info', t)"
    using assms unfolding mgmt_load_sync_def
    by (auto elim!: bindE_InrE simp: ret_code_apply split: if_splits)
  have "ret = 0" using ret by (auto simp: ret_code_apply split: if_splits)
  with l have opt': "opt' = opt\<lparr>opt_flags := opt_flags opt AND FPGA_CMD_ALL_FLAGS\<rparr>"
    using load_with_options_Inr by blast
  with w f show thesis
    using that [of opt' u tmp w] by (auto elim: sync_finish_Inr)
qed

lemma load_final_Some:
  assumes "load_final (opt\<lparr>opt_flags := opt_flags opt AND FPGA_CMD_ALL_FLAGS\<rparr>) info = Some 0"
  shows "info_status info = FPGA_STATUS_LOADED \<and>
    (FPGA_CMD_PREFETCH AND opt_flags opt = 0 \<longrightarrow>
      strncmp_eq (opt_afi_id opt) (afi_id (info_ids info)) AFI_ID_STR_MAX)"
proof -
  have m: "FPGA_CMD_PREFETCH AND (opt_flags opt AND FPGA_CMD_ALL_FLAGS) =
      (FPGA_CMD_PREFETCH AND opt_flags opt) AND FPGA_CMD_ALL_FLAGS"
    by (simp only: and.assoc)
  have "FPGA_CMD_PREFETCH AND (opt_flags opt AND FPGA_CMD_ALL_FLAGS) \<noteq> FPGA_CMD_PREFETCH"
    if "FPGA_CMD_PREFETCH AND opt_flags opt = 0"
    unfolding m that by simp
  then show ?thesis
    using assms unfolding load_final_def by (simp split: if_splits) blast
qed

text \<open>
  C2. When a synchronous load returns 0 and has written the caller's structure, the last
  description reported the slot as loaded, with the requested AFI id unless prefetching was asked
  for, and the slot spec is that of a mailbox device, for any behaviour of the hardware.
\<close>

theorem load_sync_loaded:
  assumes "fpga_mgmt_load_local_image_sync_with_options P opt timeout d info s = (Inr (0, info'), t)"
    and "info' \<noteq> info"
  shows "info_status info' = FPGA_STATUS_LOADED \<and>
    (FPGA_CMD_PREFETCH AND opt_flags opt = 0 \<longrightarrow>
      strncmp_eq (opt_afi_id opt) (afi_id (info_ids info')) AFI_ID_STR_MAX) \<and>
    0 \<le> opt_slot_id opt \<and> opt_slot_id opt < int FPGA_SLOT_MAX \<and> info_slot_id info' = opt_slot_id opt \<and>
    is_mbox_map (info_spec info' ! FPGA_MGMT_PF)"
proof -
  have m: "mgmt_load_sync P opt timeout d s = (Inr info', t)"
    using assms by (auto simp: fpga_mgmt_load_local_image_sync_with_options_def bindE_apply attempt_apply
        ok_apply split: prod.splits sum.splits)
  show ?thesis
  proof (rule load_sync_Inr [OF m])
    fix opt' tmp spec and u w x :: "('a, 'b) mgmt_st_scheme"
    assume opt': "opt' = opt\<lparr>opt_flags := opt_flags opt AND FPGA_CMD_ALL_FLAGS\<rparr>"
      and w: "mgmt_sync_wait P (opt_slot_id opt) (load_final opt') (sync_delay d) zero_image_info
         (sync_timeout timeout) u = (Inr tmp, w)"
      and spec: "fpga_pci_get_slot_spec P (opt_slot_id opt) x = (Inr spec, t)"
      and info': "info' = tmp\<lparr>info_spec := spec\<rparr>"
    from sync_wait_Inr [OF w] obtain i y where final: "load_final opt' tmp = Some 0"
      and desc: "fpga_mgmt_describe_cmd P (opt_slot_id opt) i 0 y = (Inr (0, tmp), w)" by blast
    then show ?thesis
      using load_final_Some [of opt tmp] opt' get_slot_spec_facts [OF spec] describe_slot [OF desc]
      by (simp add: info')
  qed
qed

theorem clear_sync_cleared:
  assumes "fpga_mgmt_clear_local_image_sync P slot_id timeout d info s = (Inr (0, info'), t)"
    and "info' \<noteq> info"
  shows "info_status info' = FPGA_STATUS_CLEARED \<and> info_slot_id info' = slot_id \<and>
    0 \<le> slot_id \<and> slot_id < int FPGA_SLOT_MAX \<and> is_mbox_map (info_spec info' ! FPGA_MGMT_PF)"
proof -
  have m: "mgmt_clear_sync P slot_id timeout d s = (Inr info', t)"
    using assms by (auto simp: fpga_mgmt_clear_local_image_sync_def bindE_apply attempt_apply
        ok_apply split: prod.splits sum.splits)
  then obtain u tmp w pv m where w: "mgmt_sync_wait P slot_id clear_final (sync_delay d) zero_image_info
       (sync_timeout timeout) u = (Inr tmp, w)"
    and f: "mgmt_sync_finish P slot_id pv m tmp w = (Inr info', t)"
    unfolding mgmt_clear_sync_def by (elim bindE_InrE) blast
  from sync_wait_Inr [OF w] obtain i y where final: "clear_final tmp = Some 0"
    and desc: "fpga_mgmt_describe_cmd P slot_id i 0 y = (Inr (0, tmp), w)" by blast
  show ?thesis
  proof (rule sync_finish_Inr [OF f])
    fix spec and x :: "('a, 'b) mgmt_st_scheme"
    assume spec: "fpga_pci_get_slot_spec P slot_id x = (Inr spec, t)" and info': "info' = tmp\<lparr>info_spec := spec\<rparr>"
    then show ?thesis
      using final get_slot_spec_facts [OF spec] describe_slot [OF desc]
      by (simp add: clear_final_def split: if_splits)
  qed
qed

text \<open>
  The states after \<open>k\<close> looks that found the slot busy, each followed by a nap; \<open>None\<close> when one of
  them did not.
\<close>

fun busy_looks ::
  "'h platform \<Rightarrow> int \<Rightarrow> (fpga_mgmt_image_info \<Rightarrow> int option) \<Rightarrow> u32 \<Rightarrow> nat
    \<Rightarrow> fpga_mgmt_image_info \<times> ('h, 'z) mgmt_st_scheme \<Rightarrow> (fpga_mgmt_image_info \<times> ('h, 'z) mgmt_st_scheme) option"
  where
  "busy_looks P slot_id final d 0 x = Some x"
| "busy_looks P slot_id final d (Suc k) (info, s) =
     (case fpga_mgmt_describe_cmd P slot_id info 0 s of
        (Inl e, t) \<Rightarrow> None
      | (Inr (ret, info'), t) \<Rightarrow>
          if ret = 0 \<and> final info' = None \<and> info_status info' = FPGA_STATUS_BUSY
          then busy_looks P slot_id final d k (info', snd (msleep P (ucast d) t)) else None)"

lemma sync_wait_busy:
  "busy_looks P slot_id final d k (info, s) = Some (info', s') \<Longrightarrow> k \<le> n \<Longrightarrow>
    mgmt_sync_wait P slot_id final d info n s = mgmt_sync_wait P slot_id final d info' (n - k) s'"
proof (induction k arbitrary: info s n)
  case (Suc k)
  then obtain m where n: "n = Suc m" by (cases n) auto
  obtain i t where desc: "fpga_mgmt_describe_cmd P slot_id info 0 s = (Inr (0, i), t)"
    and busy: "final i = None" "info_status i = FPGA_STATUS_BUSY"
    and rest: "busy_looks P slot_id final d k (i, snd (msleep P (ucast d) t)) = Some (info', s')"
    using Suc.prems(1) by (auto split: prod.splits sum.splits if_splits)
  have "mgmt_sync_wait P slot_id final d info n s =
      mgmt_sync_wait P slot_id final d i m (snd (msleep P (ucast d) t))"
    using desc busy by (subst mgmt_sync_wait.simps) (simp add: n bindE_apply msleep_apply)
  also have "\<dots> = mgmt_sync_wait P slot_id final d info' (m - k) s'"
    using Suc.IH [OF rest] Suc.prems(2) n by simp
  finally show ?case by (simp add: n)
qed simp


section \<open>A shell that answers\<close>

text \<open>
  A shell whose mailbox echoes the header of every message as a response of 600 bytes and fills the
  body from \<open>img\<close>, whose version register reads \<open>ver\<close> and whose slot is found in sysfs with the spec
  \<open>spec\<close>.
\<close>

definition reports :: "(mailbox \<Rightarrow> mailbox) \<Rightarrow> bytes \<Rightarrow> bool" where
  "reports peer img \<longleftrightarrow> (\<forall>m. mb_status (peer m) = 3 \<and> mb_rd_len (peer m) = 150 \<and>
     mb_rd_words (peer m) = (\<lambda>i. if i = 2 then mb_wr_words m 2 OR 0x1000000
       else if i < 4 then mb_wr_words m i else get32 img (4 * i)))"

definition shell_ready ::
  "'h platform \<Rightarrow> int \<Rightarrow> u64 \<Rightarrow> ('h \<Rightarrow> mailbox) \<Rightarrow> (mailbox \<Rightarrow> mailbox) \<Rightarrow> bytes \<Rightarrow> u32 \<Rightarrow> fpga_slot_spec
    \<Rightarrow> ('h, 'z) mgmt_st_scheme \<Rightarrow> bool" where
  "shell_ready P slot_id base view peer img ver spec s \<longleftrightarrow>
     mailbox_device P base view peer \<and> reports peer img \<and> 0 \<le> slot_id \<and> slot_id < int FPGA_SLOT_MAX \<and>
     mbox_mapped (slots s ! nat slot_id) base (bars s) \<and> mbox_timeout s \<noteq> 0 \<and> initialized s \<and>
     (\<forall>h. fst (m_load32 P h base) = ver) \<and>
     (\<forall>u :: ('h, 'z) mgmt_st_scheme. fst (fpga_pci_get_slot_spec P slot_id u) = Inr spec)"

lemma reports_answers: "reports peer img \<Longrightarrow> answers peer"
  by (simp add: reports_def answers_def)

lemma shell_ready_plat [simp]:
  "shell_ready P slot_id base view peer img ver spec (s\<lparr>plat := h\<rparr>) =
   shell_ready P slot_id base view peer img ver spec s"
  "shell_ready P slot_id base view peer img ver spec (s\<lparr>next_id := i\<rparr>) =
   shell_ready P slot_id base view peer img ver spec s"
  by (simp_all add: shell_ready_def)

lemma shell_ready_leaves:
  assumes "leaves (\<lambda>s. s\<lparr>plat := undefined\<rparr>) m" and "m s = (r, t)"
    and "shell_ready P slot_id base view peer img ver spec s"
  shows "shell_ready P slot_id base view peer img ver spec t"
  using assms(3) by (subst plat_only [OF assms(1,2)]) simp

lemma validate_echo:
  assumes "request_header cmd op i n" and "n \<le> 4080"
    and "get32 rsp 0 = get32 cmd 0" "get32 rsp 4 = get32 cmd 4" "get32 rsp 8 = get32 cmd 8 OR 0x1000000"
      "get32 rsp 12 = get32 cmd 12"
  shows "fpga_mgmt_afi_validate_header cmd rsp 600 = 0"
proof -
  have len: "afi_cmd_hdr_get_len rsp = afi_cmd_hdr_get_len cmd"
    using assms(5) by (auto simp: afi_cmd_hdr_get_len_def hdr_len_flags_def len_mask_bits bit_simps
        intro!: bit_word_eqI)
  have "afi_cmd_hdr_get_flags rsp AND AFI_CMD_HDR_IS_RSP \<noteq> 0"
  proof -
    have "bit (afi_cmd_hdr_get_flags rsp AND AFI_CMD_HDR_IS_RSP) 0"
      using assms(5) by (simp add: afi_cmd_hdr_get_flags_def hdr_len_flags_def bit_simps)
    then show ?thesis by (metis bit_0_eq bot_apply bot_bool_def)
  qed
  then show ?thesis
    using assms len by (simp add: fpga_mgmt_afi_validate_header_def hdr_version_def hdr_op_def hdr_id_def
        request_header_def Let_def)
qed

lemma process_cmd_shell:
  assumes "shell_ready P slot_id base view peer img ver spec s"
    and c: "request_header cmd op i n" and n: "n \<le> 4080"
    and len: "fpga_hal_mbox_check_len len = 0" "16 \<le> unat len"
  obtains rsp' t where "fpga_mgmt_process_cmd P slot_id cmd rsp len s = (Inr (0, rsp', 600), t)"
    "\<forall>j. 16 \<le> j \<and> j < 600 \<longrightarrow> rsp' j = img j"
    "shell_ready P slot_id base view peer img ver spec t"
proof -
  note R = assms(1) [unfolded shell_ready_def]
  obtain rsp' t m where sent: "\<forall>j < unat len div 4. mb_wr_words m j = get32 cmd (4 * j)"
    and rsp: "\<forall>j < unat (mb_rd_len (peer m)). get32 rsp' (4 * j) = mb_rd_words (peer m) j"
    and run: "let len' = push_bit 2 (mb_rd_len (peer m)); ret = fpga_mgmt_afi_validate_header cmd rsp' len' in
      ret \<noteq> - EAGAIN \<longrightarrow> fpga_mgmt_process_cmd P slot_id cmd rsp len s = (Inr (ret, rsp', len'), t) \<and>
      t = s\<lparr>plat := plat t\<rparr>"
    using process_cmd_device [of P base view peer slot_id s len cmd rsp] R len(1) reports_answers by blast
  have p: "mb_rd_len (peer m) = 150" "mb_rd_words (peer m) = (\<lambda>i. if i = 2 then mb_wr_words m 2 OR 0x1000000
       else if i < 4 then mb_wr_words m i else get32 img (4 * i))"
    using R by (simp_all add: reports_def)
  have w: "mb_wr_words m 0 = get32 cmd 0" "mb_wr_words m 1 = get32 cmd 4" "mb_wr_words m 2 = get32 cmd 8"
      "mb_wr_words m 3 = get32 cmd 12"
    using len(2) sent [rule_format, of 0] sent [rule_format, of 1] sent [rule_format, of 2] sent [rule_format, of 3]
    by simp_all
  have "get32 rsp' 0 = get32 cmd 0" "get32 rsp' 4 = get32 cmd 4" "get32 rsp' 8 = get32 cmd 8 OR 0x1000000"
      "get32 rsp' 12 = get32 cmd 12"
    using rsp [rule_format, of 0] rsp [rule_format, of 1] rsp [rule_format, of 2] rsp [rule_format, of 3] w p
    by simp_all
  then have "fpga_mgmt_afi_validate_header cmd rsp' 600 = 0" by (rule validate_echo [OF c n])
  then have ret: "fpga_mgmt_process_cmd P slot_id cmd rsp len s = (Inr (0, rsp', 600), t)"
    and t: "t = s\<lparr>plat := plat t\<rparr>"
    using run p(1) by (simp_all add: Let_def)
  have words: "get32 rsp' (4 * k) = get32 img (4 * k)" if "4 \<le> k" "k < 150" for k
    using rsp [rule_format, of k] that p by simp
  have "rsp' j = img j" if "16 \<le> j" "j < 600" for j
    using that by (intro get32_inject [OF words [of "j div 4"]]) simp_all
  moreover have "shell_ready P slot_id base view peer img ver spec t"
    using assms(1) by (subst t) simp
  ultimately show thesis using that ret by blast
qed

lemma sh_version_shell:
  assumes "shell_ready P slot_id base view peer img ver spec s"
  obtains t where "fpga_mgmt_get_sh_version P slot_id s = (Inr ver, t)"
    "shell_ready P slot_id base view peer img ver spec t"
proof -
  note R = assms(1) [unfolded shell_ready_def]
  let ?h = "slots s ! nat slot_id"
  obtain u where r: "fpga_hal_mbox_reset P ?h s = (Inr (), u)" "bars u = bars s"
    by (rule mbox_reset_device [of P base view peer ?h s]) (use R in auto)
  have u: "shell_ready P slot_id base view peer img ver spec u"
    by (rule shell_ready_leaves [OF leaves_mbox_reset [OF plat_free_rest] r(1) assms])
  have slots: "slots u = slots s" by (rule leavesD [OF leaves_mbox_reset r(1)]) simp
  have "?h \<noteq> PCI_BAR_HANDLE_INIT" using R by (auto simp: mbox_mapped_def region_mapped_def)
  then have a: "fpga_mgmt_mbox_attach P (nat slot_id) s = (Inr (), u)"
    using r(1) by (simp add: fpga_mgmt_mbox_attach_def fpga_hal_mbox_attach_def prog_simps)
  let ?t = "u\<lparr>plat := snd (m_load32 P (plat u) base)\<rparr>"
  have "fpga_pci_peek P ?h FMB_REG_SH_VERSION u = (Inr ver, ?t)"
    using mapped_accesses(1) [of ?h base u FMB_REG_SH_VERSION] R r(2) by simp
  then have "fpga_mgmt_get_sh_version P slot_id s = (Inr ver, ?t)"
    using R a slots by (simp add: fpga_mgmt_get_sh_version_def fail_slot_id_cases fpga_hal_mbox_get_versions_def
        bindE_apply or_code_apply gets_apply)
  then show thesis using that u by simp
qed

lemma slot_spec_shell:
  assumes "shell_ready P slot_id base view peer img ver spec s"
  obtains t where "fpga_pci_get_slot_spec P slot_id s = (Inr spec, t)"
    "shell_ready P slot_id base view peer img ver spec t"
proof -
  obtain r t where g: "fpga_pci_get_slot_spec P slot_id s = (r, t)" by fastforce
  then have "r = Inr spec" using assms unfolding shell_ready_def by (metis fst_conv)
  moreover have "shell_ready P slot_id base view peer img ver spec t"
    by (rule shell_ready_leaves [OF leaves_get_slot_spec [OF plat_free_rest] g assms])
  ultimately show thesis using that g by blast
qed

lemma resource_map_shell:
  assumes "shell_ready P slot_id base view peer img ver spec s" and "pf = 0 \<or> pf = 1"
  obtains t where "fpga_pci_get_resource_map P slot_id pf s = (Inr (spec ! nat pf), t)"
    "shell_ready P slot_id base view peer img ver spec t"
proof (rule slot_spec_shell [OF assms(1)])
  fix t
  assume "fpga_pci_get_slot_spec P slot_id s = (Inr spec, t)"
    "shell_ready P slot_id base view peer img ver spec t"
  then show thesis
    using that [of t] assms by (auto simp: fpga_pci_get_resource_map_def shell_ready_def bindE_apply ok_apply)
qed

lemma describe_retry_done:
  "ret \<noteq> FPGA_ERR_AFI_CMD_MALFORMED \<Longrightarrow> ret \<noteq> - ETIMEDOUT \<Longrightarrow>
    mgmt_describe_retry P slot_id cmd (ret, rsp, len) n s = (Inr (ret, rsp, len), s)"
  by (cases n) (simp_all add: ok_apply)

lemma keeps_shell_init_cmds:
  "keeps (shell_ready P slot_id base view peer img ver spec) (fpga_mgmt_cmd_init_metrics Q cmd flags)"
  "keeps (shell_ready P slot_id base view peer img ver spec) (fpga_mgmt_cmd_init_clear Q cmd)"
  "keeps (shell_ready P slot_id base view peer img ver spec) (fpga_mgmt_cmd_init_load Q cmd opt)"
proof -
  have "keeps (shell_ready P slot_id base view peer img ver spec) (afi_get_next_id Q)" for Q
    by (rule keepsI) (auto simp: afi_get_next_id_def prog_simps on_plat_def split: prod.splits)
  then show "keeps (shell_ready P slot_id base view peer img ver spec) (fpga_mgmt_cmd_init_metrics Q cmd flags)"
    "keeps (shell_ready P slot_id base view peer img ver spec) (fpga_mgmt_cmd_init_clear Q cmd)"
    "keeps (shell_ready P slot_id base view peer img ver spec) (fpga_mgmt_cmd_init_load Q cmd opt)"
    unfolding fpga_mgmt_cmd_init_metrics_def fpga_mgmt_cmd_init_clear_def fpga_mgmt_cmd_init_load_def Let_def
    by (intro keeps_intros; assumption)+
qed

lemma check_len_requests: "fpga_hal_mbox_check_len 20 = 0" "fpga_hal_mbox_check_len 264 = 0"
  by (simp_all add: fpga_hal_mbox_check_len_def)

text \<open>What the shell reports about the image.\<close>

definition reported :: "bytes \<Rightarrow> fpga_mgmt_image_info \<Rightarrow> bool" where
  "reported img info \<longleftrightarrow> info_status info = sint (get32 img 88) \<and> info_status_q info = sint (get32 img 92) \<and>
     length (afi_id (info_ids info)) = AFI_ID_STR_MAX \<and>
     cstr (afi_id (info_ids info)) =
       (if img 16 = 0 then bytes_of_string ''none'' else cstr (get_list img 16 64)) \<and>
     afi_device_ids (info_ids info) = \<lparr>ids_vendor_id = get16 img 80, ids_device_id = get16 img 82,
       ids_svid = get16 img 84, ids_ssid = get16 img 86\<rparr>"

lemma describe_cmd_shell:
  assumes "shell_ready P slot_id base view peer img ver spec s"
    and "sint (get32 img 88) \<noteq> FPGA_STATUS_LOADING_RL"
  obtains info' t where "fpga_mgmt_describe_cmd P slot_id info flags s = (Inr (0, info'), t)"
    "reported img info'" "shell_ready P slot_id base view peer img ver spec t"
proof -
  have slot: "\<not> (slot_id < 0 \<or> int FPGA_SLOT_MAX \<le> slot_id)" using assms(1) by (simp add: shell_ready_def)
  obtain cmd i u where c: "fpga_mgmt_cmd_init_metrics P zero_bytes flags s = (Inr (cmd, 20), u)"
    "request_header cmd AFI_CMD_METRICS i 4"
    using metrics_request [of P zero_bytes flags s] by blast
  have u: "shell_ready P slot_id base view peer img ver spec u"
    by (rule keepsD [OF keeps_shell_init_cmds(1) assms(1) c(1)])
  obtain rsp v where p: "fpga_mgmt_process_cmd P slot_id cmd zero_bytes 20 u = (Inr (0, rsp, 600), v)"
    and same: "\<forall>j. 16 \<le> j \<and> j < 600 \<longrightarrow> rsp j = img j"
    and v: "shell_ready P slot_id base view peer img ver spec v"
    by (rule process_cmd_shell [OF u c(2), of 20 zero_bytes]) (simp_all add: check_len_requests)
  let ?i1 = "metrics_to_info rsp BODY slot_id info"
  obtain w where ver: "fpga_mgmt_get_sh_version P slot_id v = (Inr ver, w)"
    and w: "shell_ready P slot_id base view peer img ver spec w"
    by (rule sh_version_shell [OF v])
  obtain t where m: "fpga_pci_get_resource_map P slot_id (int FPGA_MGMT_PF) w = (Inr (spec ! nat (int FPGA_MGMT_PF)), t)"
    and t: "shell_ready P slot_id base view peer img ver spec t"
    by (rule resource_map_shell [OF w, of "int FPGA_MGMT_PF"]) simp_all
  have st: "get32 rsp 88 = get32 img 88" "get32 rsp 92 = get32 img 92" using same by (simp_all add: get32_def)
  let ?i3 = "?i1\<lparr>info_sh_version := ver, info_metrics :=
      (if IS_F1 (spec ! 1) then F1_metrics (decode_f1_metrics rsp (BODY + 80))
       else F2_metrics (decode_f2_metrics rsp (BODY + 80)))\<rparr>"
  have fill: "mgmt_fill_info P slot_id rsp BODY info v = (Inr (0, ?i3), t)"
    using ver m st assms(2) by (simp add: mgmt_fill_info_def Let_def prog_simps)
  have "fpga_mgmt_cmd_handle_metrics 600 = Inr BODY" by (simp add: fpga_mgmt_cmd_handle_metrics_def)
  then have "fpga_mgmt_describe_cmd P slot_id info flags s = (Inr (0, ?i3), t)"
    unfolding fpga_mgmt_describe_cmd_def if_not_P [OF slot] bindE_apply c(1) prod.case sum.case p
    by (subst describe_retry_done) (simp_all add: fill)
  moreover have "describes rsp ?i3" by (rule metrics_to_info_describes)
  then have "reported img ?i3"
    using st same assms(2) by (auto simp: describes_def reported_def metrics_to_info_def Let_def get16_def
        intro!: arg_cong [of _ _ cstr] get_list_cong)
  ultimately show thesis using that t by blast
qed

lemma clear_shell:
  assumes "shell_ready P slot_id base view peer img ver spec s"
  obtains t where "fpga_mgmt_clear_local_image P slot_id s = (Inr (), t)"
    "shell_ready P slot_id base view peer img ver spec t"
proof -
  have slot: "\<not> (slot_id < 0 \<or> int FPGA_SLOT_MAX \<le> slot_id)" "initialized s"
    using assms(1) by (simp_all add: shell_ready_def)
  obtain cmd i u where c: "fpga_mgmt_cmd_init_clear P zero_bytes s = (Inr (cmd, 20), u)"
    "request_header cmd AFI_CMD_CLEAR i 4"
    using clear_request [of P zero_bytes s] by blast
  have u: "shell_ready P slot_id base view peer img ver spec u"
    by (rule keepsD [OF keeps_shell_init_cmds(2) assms(1) c(1)])
  obtain rsp t where p: "fpga_mgmt_process_cmd P slot_id cmd zero_bytes 20 u = (Inr (0, rsp, 600), t)"
    and t: "shell_ready P slot_id base view peer img ver spec t"
    by (rule process_cmd_shell [OF u c(2), of 20 zero_bytes]) (simp_all add: check_len_requests)
  have "fpga_mgmt_clear_local_image P slot_id s = (Inr (), t)"
    unfolding fpga_mgmt_clear_local_image_def fail_slot_id_cases if_not_P [OF slot(1)]
    using slot(2) c(1) p by (simp add: require_init_def prog_simps)
  then show thesis using that t by blast
qed

lemma load_shell:
  assumes "shell_ready P slot_id base view peer img ver spec s"
    and "opt_slot_id opt = slot_id" and "opt_flags opt AND FPGA_CMD_UNSUPPORTED_FLAGS = 0"
  obtains t where "fpga_mgmt_load_local_image_with_options P opt s =
      (Inr (0, opt\<lparr>opt_flags := opt_flags opt AND FPGA_CMD_ALL_FLAGS\<rparr>), t)"
    "shell_ready P slot_id base view peer img ver spec t"
proof -
  have slot: "0 \<le> slot_id" "slot_id < int FPGA_SLOT_MAX" "initialized s"
    using assms(1) by (simp_all add: shell_ready_def)
  let ?opt = "opt\<lparr>opt_flags := opt_flags opt AND FPGA_CMD_ALL_FLAGS\<rparr>"
  obtain cmd i u where c: "fpga_mgmt_cmd_init_load P zero_bytes ?opt s = (Inr (cmd, 264), u)"
    "request_header cmd AFI_CMD_LOAD i 248"
    using init_load_request [of P zero_bytes ?opt s] by blast
  have u: "shell_ready P slot_id base view peer img ver spec u"
    by (rule keepsD [OF keeps_shell_init_cmds(3) assms(1) c(1)])
  obtain rsp t where p: "fpga_mgmt_process_cmd P slot_id cmd zero_bytes 264 u = (Inr (0, rsp, 600), t)"
    and t: "shell_ready P slot_id base view peer img ver spec t"
    by (rule process_cmd_shell [OF u c(2), of 264 zero_bytes]) (simp_all add: check_len_requests)
  have "bindE require_init (\<lambda>_. bindE (require_supported (opt_flags opt)) (\<lambda>_. fail_slot_id (opt_slot_id opt))) s =
      (Inr (), s)"
    using slot assms(2,3) by (simp add: require_init_def require_supported_def fail_slot_id_def prog_simps)
  then have "fpga_mgmt_load_local_image_with_options P opt s = (Inr (0, ?opt), t)"
    using c(1) p assms(2)
    by (simp add: fpga_mgmt_load_local_image_with_options_def bindE_apply [of "attempt _"] attempt_apply Let_def)
      (simp add: bindE_apply ok_apply)
  then show thesis using that t by blast
qed

lemma sync_wait_shell:
  assumes "shell_ready P slot_id base view peer img ver spec s"
    and "sint (get32 img 88) \<noteq> FPGA_STATUS_LOADING_RL"
    and "\<And>info. reported img info \<Longrightarrow> final info = Some 0"
  obtains info' t where "mgmt_sync_wait P slot_id final d info n s = (Inr info', t)" "reported img info'"
    "shell_ready P slot_id base view peer img ver spec t"
proof (rule describe_cmd_shell [OF assms(1,2), of info 0])
  fix info' t
  assume "fpga_mgmt_describe_cmd P slot_id info 0 s = (Inr (0, info'), t)" and r: "reported img info'"
    and t: "shell_ready P slot_id base view peer img ver spec t"
  then have "mgmt_sync_wait P slot_id final d info n s = (Inr info', t)"
    using assms(3) [OF r] by (subst mgmt_sync_wait.simps) (simp add: bindE_apply ok_apply)
  then show thesis using that r t by blast
qed

lemma sync_finish_shell:
  assumes "shell_ready P slot_id base view peer img ver spec s"
    and "ids_match (afi_device_ids (info_ids info)) app_map"
  obtains t where "mgmt_sync_finish P slot_id ver app_map info s = (Inr (info\<lparr>info_spec := spec\<rparr>), t)"
    "shell_ready P slot_id base view peer img ver spec t"
proof (rule sh_version_shell [OF assms(1)])
  fix u
  assume v: "fpga_mgmt_get_sh_version P slot_id s = (Inr ver, u)"
    and u: "shell_ready P slot_id base view peer img ver spec u"
  show thesis
  proof (rule slot_spec_shell [OF u])
    fix t
    assume "fpga_pci_get_slot_spec P slot_id u = (Inr spec, t)"
      and "shell_ready P slot_id base view peer img ver spec t"
    then show thesis
      using that [of t] v assms(2) by (simp add: mgmt_sync_finish_def bindE_apply ok_apply)
  qed
qed

definition image_ids :: "bytes \<Rightarrow> afi_device_ids" where
  "image_ids img = \<lparr>ids_vendor_id = get16 img 80, ids_device_id = get16 img 82,
     ids_svid = get16 img 84, ids_ssid = get16 img 86\<rparr>"

lemma reported_ids: "reported img info \<Longrightarrow> afi_device_ids (info_ids info) = image_ids img"
  by (simp add: reported_def image_ids_def)

lemma clear_sync_shell:
  assumes R: "shell_ready P slot_id base view peer img ver spec s"
    and st: "get32 img 88 = 1" and ids: "ids_match (image_ids img) (spec ! FPGA_APP_PF)"
  obtains info' t where "fpga_mgmt_clear_local_image_sync P slot_id timeout d info s = (Inr (0, info'), t)"
    "reported img info'" "info_spec info' = spec" "shell_ready P slot_id base view peer img ver spec t"
proof (rule sh_version_shell [OF R])
  fix u1
  assume v: "fpga_mgmt_get_sh_version P slot_id s = (Inr ver, u1)"
    and u1: "shell_ready P slot_id base view peer img ver spec u1"
  obtain u2 where m: "fpga_pci_get_resource_map P slot_id (int FPGA_APP_PF) u1 = (Inr (spec ! nat (int FPGA_APP_PF)), u2)"
    and u2: "shell_ready P slot_id base view peer img ver spec u2"
    by (rule resource_map_shell [OF u1, of "int FPGA_APP_PF"]) simp_all
  obtain u3 where c: "fpga_mgmt_clear_local_image P slot_id u2 = (Inr (), u3)"
    and u3: "shell_ready P slot_id base view peer img ver spec u3"
    by (rule clear_shell [OF u2])
  obtain tmp u4 where w: "mgmt_sync_wait P slot_id clear_final (sync_delay d) zero_image_info (sync_timeout timeout) u3 =
      (Inr tmp, u4)" and r: "reported img tmp" and u4: "shell_ready P slot_id base view peer img ver spec u4"
    by (rule sync_wait_shell [OF u3, of clear_final]) (use st in \<open>auto simp: reported_def clear_final_def\<close>)
  obtain t where f: "mgmt_sync_finish P slot_id ver (spec ! FPGA_APP_PF) tmp u4 = (Inr (tmp\<lparr>info_spec := spec\<rparr>), t)"
    and t: "shell_ready P slot_id base view peer img ver spec t"
    by (rule sync_finish_shell [OF u4, of tmp "spec ! FPGA_APP_PF"]) (use ids reported_ids [OF r] in simp)
  have "initialized s" "slot_id < int FPGA_SLOT_MAX" using R by (simp_all add: shell_ready_def)
  then have "mgmt_clear_sync P slot_id timeout d s = (Inr (tmp\<lparr>info_spec := spec\<rparr>), t)"
    using v m c w f by (simp add: mgmt_clear_sync_def require_init_def prog_simps)
  then have "fpga_mgmt_clear_local_image_sync P slot_id timeout d info s = (Inr (0, tmp\<lparr>info_spec := spec\<rparr>), t)"
    by (simp add: fpga_mgmt_clear_local_image_sync_def prog_simps)
  moreover have "reported img (tmp\<lparr>info_spec := spec\<rparr>)" using r by (simp add: reported_def)
  ultimately show thesis using that t by simp
qed

text \<open>The image is the one that \<open>opt\<close> asks for, unless it asks for a prefetch, which is not checked.\<close>

definition requested :: "load_local_image_options \<Rightarrow> bytes \<Rightarrow> bool" where
  "requested opt img \<longleftrightarrow> FPGA_CMD_PREFETCH AND opt_flags opt = FPGA_CMD_PREFETCH \<or>
     img 16 \<noteq> 0 \<and> cstr (take AFI_ID_STR_MAX (opt_afi_id opt)) = cstr (get_list img 16 AFI_ID_STR_MAX)"

lemma load_final_shell:
  assumes "reported img info" and "get32 img 88 = 0" and "requested opt img"
  shows "load_final (opt\<lparr>opt_flags := opt_flags opt AND FPGA_CMD_ALL_FLAGS\<rparr>) info = Some 0"
proof -
  have "FPGA_CMD_PREFETCH AND (opt_flags opt AND FPGA_CMD_ALL_FLAGS) = FPGA_CMD_PREFETCH"
    if "FPGA_CMD_PREFETCH AND opt_flags opt = FPGA_CMD_PREFETCH"
    by (simp only: and.assoc [symmetric] that) (simp add: FPGA_CMD_ALL_FLAGS_def)
  then show ?thesis
    using assms by (auto simp: load_final_def reported_def requested_def strncmp_eq_def)
qed

lemma load_sync_shell:
  assumes R: "shell_ready P slot_id base view peer img ver spec s"
    and opt: "opt_slot_id opt = slot_id" "opt_flags opt AND FPGA_CMD_UNSUPPORTED_FLAGS = 0" "requested opt img"
    and st: "get32 img 88 = 0" and ids: "ids_match (image_ids img) (spec ! FPGA_APP_PF)"
  obtains info' t where
    "fpga_mgmt_load_local_image_sync_with_options P opt timeout d info s = (Inr (0, info'), t)"
    "reported img info'" "info_spec info' = spec" "shell_ready P slot_id base view peer img ver spec t"
proof (rule sh_version_shell [OF R])
  fix u1
  assume v: "fpga_mgmt_get_sh_version P slot_id s = (Inr ver, u1)"
    and u1: "shell_ready P slot_id base view peer img ver spec u1"
  let ?opt = "opt\<lparr>opt_flags := opt_flags opt AND FPGA_CMD_ALL_FLAGS\<rparr>"
  obtain u2 where m: "fpga_pci_get_resource_map P slot_id (int FPGA_APP_PF) u1 = (Inr (spec ! nat (int FPGA_APP_PF)), u2)"
    and u2: "shell_ready P slot_id base view peer img ver spec u2"
    by (rule resource_map_shell [OF u1, of "int FPGA_APP_PF"]) simp_all
  obtain u3 where c: "fpga_mgmt_load_local_image_with_options P opt u2 = (Inr (0, ?opt), u3)"
    and u3: "shell_ready P slot_id base view peer img ver spec u3"
    by (rule load_shell [OF u2 opt(1,2)])
  obtain tmp u4 where w: "mgmt_sync_wait P slot_id (load_final ?opt) (sync_delay d) zero_image_info (sync_timeout timeout) u3 =
      (Inr tmp, u4)" and r: "reported img tmp" and u4: "shell_ready P slot_id base view peer img ver spec u4"
    by (rule sync_wait_shell [OF u3, of "load_final ?opt"]) (use st load_final_shell [OF _ st opt(3)] in auto)
  obtain t where f: "mgmt_sync_finish P slot_id ver (spec ! FPGA_APP_PF) tmp u4 = (Inr (tmp\<lparr>info_spec := spec\<rparr>), t)"
    and t: "shell_ready P slot_id base view peer img ver spec t"
    by (rule sync_finish_shell [OF u4, of tmp "spec ! FPGA_APP_PF"]) (use ids reported_ids [OF r] in simp)
  have "initialized s" "slot_id < int FPGA_SLOT_MAX" using R by (simp_all add: shell_ready_def)
  then have "mgmt_load_sync P opt timeout d s = (Inr (tmp\<lparr>info_spec := spec\<rparr>), t)"
    using v m c w f opt(1,2) by (simp add: mgmt_load_sync_def require_init_def require_supported_def prog_simps)
  then have "fpga_mgmt_load_local_image_sync_with_options P opt timeout d info s =
      (Inr (0, tmp\<lparr>info_spec := spec\<rparr>), t)"
    by (simp add: fpga_mgmt_load_local_image_sync_with_options_def prog_simps)
  moreover have "reported img (tmp\<lparr>info_spec := spec\<rparr>)" using r by (simp add: reported_def)
  ultimately show thesis using that t by simp
qed

text \<open>
  C1. On a shell whose mailbox answers every message and reports an image with the PCI ids that
  sysfs shows, a synchronous load of that image and a synchronous clear return 0 and describe the
  image and the spec of the slot.
\<close>

theorem sync_completes:
  assumes "shell_ready P slot_id base view peer img ver spec s"
    and "ids_match (image_ids img) (spec ! FPGA_APP_PF)" and "opt_slot_id opt = slot_id"
    and "opt_flags opt AND FPGA_CMD_UNSUPPORTED_FLAGS = 0"
  shows "(get32 img 88 = 0 \<and> requested opt img \<longrightarrow>
      (\<exists>info' t. fpga_mgmt_load_local_image_sync_with_options P opt timeout d info s = (Inr (0, info'), t) \<and>
        reported img info' \<and> info_spec info' = spec)) \<and>
    (get32 img 88 = 1 \<longrightarrow>
      (\<exists>info' t. fpga_mgmt_clear_local_image_sync P slot_id timeout d info s = (Inr (0, info'), t) \<and>
        reported img info' \<and> info_spec info' = spec))"
proof (intro conjI impI; (elim conjE)?)
  assume "get32 img 88 = 0" "requested opt img"
  then show "\<exists>info' t. fpga_mgmt_load_local_image_sync_with_options P opt timeout d info s = (Inr (0, info'), t) \<and>
        reported img info' \<and> info_spec info' = spec"
    using load_sync_shell [OF assms(1,3,4) _ _ assms(2)] by metis
next
  assume "get32 img 88 = 1"
  then show "\<exists>info' t. fpga_mgmt_clear_local_image_sync P slot_id timeout d info s = (Inr (0, info'), t) \<and>
        reported img info' \<and> info_spec info' = spec"
    using clear_sync_shell [OF assms(1) _ assms(2)] by metis
qed

section \<open>Guards, names and virtual registers\<close>

theorem uninitialised_rejected:
  assumes "\<not> initialized s"
  shows "fpga_mgmt_describe_local_image P i info flags s = (Inr (FPGA_ERR_SOFTWARE_PROBLEM, info), s) \<and>
    fpga_mgmt_get_status P i s = (Inl FPGA_ERR_SOFTWARE_PROBLEM, s) \<and>
    fpga_mgmt_clear_local_image P i s = (Inl FPGA_ERR_SOFTWARE_PROBLEM, s) \<and>
    fpga_mgmt_clear_local_image_sync P i timeout d info s = (Inr (FPGA_ERR_SOFTWARE_PROBLEM, info), s) \<and>
    fpga_mgmt_load_local_image_with_options P opt s = (Inr (FPGA_ERR_SOFTWARE_PROBLEM, opt), s) \<and>
    fpga_mgmt_load_local_image_sync_with_options P opt timeout d info s =
      (Inr (FPGA_ERR_SOFTWARE_PROBLEM, info), s) \<and>
    fpga_mgmt_close P s = (Inr (), s)"
  using assms
  by (simp_all add: fpga_mgmt_describe_local_image_def fpga_mgmt_get_status_def fpga_mgmt_clear_local_image_def
      fpga_mgmt_clear_local_image_sync_def mgmt_clear_sync_def fpga_mgmt_load_local_image_with_options_def
      fpga_mgmt_load_local_image_sync_with_options_def mgmt_load_sync_def fpga_mgmt_close_def
      require_init_def prog_simps)

text \<open>Error numbers and status codes have names of their own.\<close>

definition fpga_status_codes :: "int list" where
  "fpga_status_codes = [0..5] @ [7]"

theorem strerror_names:
  "inj_on (fpga_mgmt_strerror f) (set fpga_err_codes) \<and> inj_on fpga_mgmt_get_status_name (set fpga_status_codes) \<and>
   fpga_mgmt_strerror f err = (if err < 0 then f (- err)
     else if err \<in> set fpga_err_codes then FPGA_ERR2STR err else ''internal-error'') \<and>
   ((\<exists>help. fpga_mgmt_strerror_long err = Some help) \<longleftrightarrow>
      err \<in> {3, 5, 11, 12, 13, 16, 17, 20, 21, 24, 25, - EINVAL, - ETIMEDOUT})"
proof -
  have nonneg: "\<forall>e \<in> set fpga_err_codes. \<not> e < 0" by code_simp
  then have "fpga_mgmt_strerror f e = FPGA_ERR2STR e" if "e \<in> set fpga_err_codes" for e
    using that by (simp add: fpga_mgmt_strerror_def)
  then have "inj_on (fpga_mgmt_strerror f) (set fpga_err_codes)"
    using FPGA_ERR2STR_inj by (simp cong: inj_on_cong)
  moreover have "distinct (map fpga_mgmt_get_status_name fpga_status_codes)" by code_simp
  then have "inj_on fpga_mgmt_get_status_name (set fpga_status_codes)" by (simp add: distinct_map)
  ultimately show ?thesis
    using FPGA_ERR2STR_unknown [of err]
    by (simp add: fpga_mgmt_strerror_def fpga_mgmt_strerror_long_def)
qed

text \<open>The accesses to the virtual registers and the BAR table.\<close>

theorem virtual_registers_release:
  assumes "bars_inv (bars s)"
  shows "(\<exists>ret v t. fpga_mgmt_get_vLED_status P i s = (Inr (ret, v), t) \<and>
      (ret = 0 \<longrightarrow> v \<noteq> None \<and> bars t = bars s) \<and> used_handles (bars s) \<subseteq> used_handles (bars t)) \<and>
    (\<exists>ret v t. fpga_mgmt_get_vDIP_status P i s = (Inr (ret, v), t) \<and>
      (ret = 0 \<longrightarrow> v \<noteq> None \<and> bars t = bars s) \<and> used_handles (bars s) \<subseteq> used_handles (bars t)) \<and>
    (\<exists>r t. fpga_mgmt_set_vDIP P i x s = (r, t) \<and> (r = Inr () \<longrightarrow> bars t = bars s) \<and>
      used_handles (bars s) \<subseteq> used_handles (bars t))"
proof -
  obtain r t where "fpga_mgmt_set_vDIP P i x s = (r, t)" by fastforce
  with set_vDIP_table [OF this assms] show ?thesis
    using vreg_read_table [OF _ assms, of P i FPGA_VIRTUAL_LED_REG_OFFSET]
      vreg_read_table [OF _ assms, of P i FPGA_VIRTUAL_DIP_REG_OFFSET]
    by (auto simp: fpga_mgmt_get_vLED_status_def fpga_mgmt_get_vDIP_status_def bindE_apply ok_apply
        split: prod.splits sum.splits)
qed

section \<open>Instances\<close>

theorem uninitialised_rejected_witness:
  "fpga_mgmt_clear_local_image demo_platform 0 (demo_mgmt\<lparr>initialized := False\<rparr>) =
     (Inl FPGA_ERR_SOFTWARE_PROBLEM, demo_mgmt\<lparr>initialized := False\<rparr>)"
  using uninitialised_rejected [of "demo_mgmt\<lparr>initialized := False\<rparr>" demo_platform 0] by simp

theorem mgmt_invariant_witness:
  "length (slots (mgmt_op_step demo_platform (Get_vLED 0) (snd (fpga_mgmt_init demo_mgmt)))) = FPGA_SLOT_MAX"
proof -
  let ?s = "snd (fpga_mgmt_init demo_mgmt)"
  have "bars_inv (bars demo_mgmt)" using demo_mgmt_inv by (simp add: slots_inv_def)
  moreover have "mgmt_steps demo_platform ?s (mgmt_op_step demo_platform (Get_vLED 0) ?s)"
    by (rule mgmt_steps_step [OF mgmt_steps_refl refl])
  ultimately show ?thesis using mgmt_invariant by blast
qed

theorem virtual_registers_release_witness:
  "\<exists>ret v t. fpga_mgmt_get_vLED_status demo_platform 0 demo_mgmt = (Inr (ret, v), t) \<and>
     used_handles (bars demo_mgmt) \<subseteq> used_handles (bars t)"
proof -
  have "bars_inv (bars demo_mgmt)" using demo_mgmt_inv by (simp add: slots_inv_def)
  from virtual_registers_release [OF this, of demo_platform 0] show ?thesis by blast
qed

text \<open>With no device the first look fails and the wait ends with code 0.\<close>

definition describe_code :: "(int + int \<times> fpga_mgmt_image_info) \<times> 's \<Rightarrow> (int \<times> int) option" where
  "describe_code x = (case fst x of Inl _ \<Rightarrow> None | Inr (c, i) \<Rightarrow> Some (c, info_status_q i))"


section \<open>Instances with such a shell\<close>

text \<open>The image \<open>a\<close> with status \<open>st\<close> and the ids that sysfs shows for the application function.\<close>

definition shell_image :: "u32 \<Rightarrow> bytes" where
  "shell_image st = (\<lambda>i. if i = 16 then 97 else if i = 80 \<or> i = 84 then 0x0f else if i = 81 \<or> i = 85 then 0x1d
     else if i = 82 \<or> i = 86 then 0x48 else if i = 83 \<or> i = 87 then 0x92 else if i = 88 then ucast st else 0)"

definition shell_peer :: "bytes \<Rightarrow> mailbox \<Rightarrow> mailbox" where
  "shell_peer img m = m\<lparr>mb_status := 3, mb_rd_len := 150,
     mb_rd_words := (\<lambda>i. if i = 2 then mb_wr_words m 2 OR 0x1000000
       else if i < 4 then mb_wr_words m i else get32 img (4 * i))\<rparr>"

definition shell_platform :: "bytes \<Rightarrow> mailbox platform" where
  "shell_platform img = mbox_platform\<lparr>
     k_scan_hex := (\<lambda>h path. if ends_with ''vendor'' path then Scan_value 0x1d0f else Scan_value 0x9248),
     k_stat := (\<lambda>h path. Some 0x10000),
     k_readdir := (\<lambda>h path. Some [''0000:34:00.1'']),
     m_store32 := (\<lambda>h a v.
       if a = 0x100028 then shell_peer img (h\<lparr>mb_wr_len := v\<rparr>) else m_store32 mbox_platform h a v)\<rparr>"

definition shell_map :: "u8 \<Rightarrow> u8 \<Rightarrow> fpga_pci_resource_map" where
  "shell_map d f = zero_resource_map\<lparr>vendor_id := 0x1d0f, device_id := 0x9248, subsystem_vendor_id := 0x1d0f,
     subsystem_device_id := 0x9248, domain := 0, bus := 0x34, dev := d, func := f,
     resource_burstable := [True, True, True, False, True],
     resource_size := [0x10000, 0x10000, 0x10000, 0, 0x10000]\<rparr>"

lemma shell_slot_spec:
  "fst (fpga_pci_get_slot_spec (shell_platform img) 0 (u :: mailbox mgmt_st)) = Inr [shell_map 0 0, shell_map 0 1]"
  by code_simp


lemma shell_reports: "reports (shell_peer img) img"
  by (simp add: reports_def shell_peer_def)

lemma shell_mailbox: "mailbox_device (shell_platform img) 0x100000 (\<lambda>h. h) (shell_peer img)"
  by (simp add: mailbox_device_def shell_platform_def mbox_platform_def)

lemma shell_is_ready:
  "shell_ready (shell_platform img) 0 0x100000 (\<lambda>h. h) (shell_peer img) img 0 [shell_map 0 0, shell_map 0 1] echo_mgmt"
proof -
  have "fst (m_load32 (shell_platform img) h 0x100000) = 0" for h
    by (simp add: shell_platform_def mbox_platform_def)
  moreover have "mbox_timeout echo_mgmt \<noteq> 0" "initialized echo_mgmt" by (simp_all add: echo_mgmt_def)
  ultimately show ?thesis
    using shell_reports [of img] shell_mailbox [of img] shell_slot_spec [of img] echo_mgmt_mapped
    by (simp add: shell_ready_def)
qed

lemma shell_ids: "ids_match (image_ids (shell_image st)) ([shell_map 0 0, shell_map 0 1] ! FPGA_APP_PF)"
  by (simp add: ids_match_def image_ids_def shell_image_def shell_map_def get16_def)

lemma shell_status: "get32 (shell_image 0) 88 = 0" "get32 (shell_image 1) 88 = 1"
  by (simp_all add: shell_image_def get32_def)

lemma shell_requested: "requested (load_options 0 [97] 0) (shell_image st)"
proof -
  have "get_list (shell_image st) 16 64 = 97 # map (\<lambda>j. shell_image st (16 + j)) [1..<64]"
    by (simp add: get_list_def upt_conv_Cons shell_image_def)
  moreover have "shell_image st 17 = 0" by (simp add: shell_image_def)
  ultimately have "cstr (get_list (shell_image st) 16 64) = [97]"
    by (simp add: cstr_def upt_conv_Cons)
  then show ?thesis
    by (simp add: requested_def load_options_def shell_image_def cstr_def)
qed

theorem sync_completes_witness:
  "\<exists>info' t. fpga_mgmt_load_local_image_sync_with_options (shell_platform (shell_image 0)) (load_options 0 [97] 0)
      0 0 zero_image_info echo_mgmt = (Inr (0, info'), t) \<and> info_status info' = 0 \<and>
    cstr (afi_id (info_ids info')) = cstr (get_list (shell_image 0) 16 64)"
proof -
  have "opt_slot_id (load_options 0 [97] 0) = 0" "opt_flags (load_options 0 [97] 0) AND FPGA_CMD_UNSUPPORTED_FLAGS = 0"
    by (simp_all add: load_options_def)
  from sync_completes [OF shell_is_ready shell_ids this] obtain info' t where
    "fpga_mgmt_load_local_image_sync_with_options (shell_platform (shell_image 0)) (load_options 0 [97] 0)
      0 0 zero_image_info echo_mgmt = (Inr (0, info'), t)" "reported (shell_image 0) info'"
    using shell_status(1) shell_requested by blast
  then show ?thesis using shell_status(1) by (auto simp: reported_def shell_image_def)
qed

lemma shell_load:
  obtains info' t where
    "fpga_mgmt_load_local_image_sync_with_options (shell_platform (shell_image 0)) (load_options 0 [97] 0)
      0 0 zero_image_info echo_mgmt = (Inr (0, info'), t)"
    "reported (shell_image 0) info'" "info_spec info' = [shell_map 0 0, shell_map 0 1]"
  by (rule load_sync_shell [OF shell_is_ready, of "load_options 0 [97] 0" "shell_image 0"])
    (use shell_ids shell_status shell_requested in \<open>auto simp: load_options_def\<close>)

lemma shell_spec_nonzero: "zero_image_info \<noteq> info" if "info_spec info = [shell_map 0 0, shell_map 0 1]"
proof
  assume "zero_image_info = info"
  then have "[shell_map 0 0, shell_map 0 1] = info_spec zero_image_info" using that by simp
  then have "shell_map 0 0 = info_spec zero_image_info ! 0" by (metis nth_Cons_0)
  then show False by (simp add: zero_image_info_def zero_slot_spec_def shell_map_def zero_resource_map_def)
qed

theorem load_sync_loaded_witness:
  "\<exists>info' t. fpga_mgmt_load_local_image_sync_with_options (shell_platform (shell_image 0)) (load_options 0 [97] 0)
      0 0 zero_image_info echo_mgmt = (Inr (0, info'), t) \<and> info_slot_id info' = 0 \<and>
    strncmp_eq [97] (afi_id (info_ids info')) 64"
proof (rule shell_load)
  fix info' t
  assume r: "fpga_mgmt_load_local_image_sync_with_options (shell_platform (shell_image 0)) (load_options 0 [97] 0)
      0 0 zero_image_info echo_mgmt = (Inr (0, info'), t)" and "info_spec info' = [shell_map 0 0, shell_map 0 1]"
  then have "info' \<noteq> zero_image_info" using shell_spec_nonzero by metis
  from load_sync_loaded [OF r this] r show ?thesis by (auto simp: load_options_def)
qed

theorem clear_sync_cleared_witness:
  "\<exists>info' t. fpga_mgmt_clear_local_image_sync (shell_platform (shell_image 1)) 0 0 0 zero_image_info echo_mgmt =
     (Inr (0, info'), t) \<and> info_status info' = FPGA_STATUS_CLEARED"
proof -
  obtain info' t where
    r: "fpga_mgmt_clear_local_image_sync (shell_platform (shell_image 1)) 0 0 0 zero_image_info echo_mgmt =
      (Inr (0, info'), t)" and "info_spec info' = [shell_map 0 0, shell_map 0 1]"
    by (rule clear_sync_shell [OF shell_is_ready shell_status(2) shell_ids])
  then have "info' \<noteq> zero_image_info" using shell_spec_nonzero by metis
  from clear_sync_cleared [OF r this] r show ?thesis by blast
qed


end
