(* ===== verification/Clkgen_Mmcm.thy ===== *)
theory Clkgen_Mmcm
  imports Pci_Bars Demo_Platform
begin

text \<open>
  \<open>sdk/userspace/fpga_libs/fpga_clkgen/fpga_clkgen_mmcm.c\<close>: the four MMCMs (clock managers) of the
  AWS_CLK_GEN block behind a BAR, with their multiplier and divider registers. The state extends that
  of the PCI library with the four records the file keeps.
\<close>

abbreviation (input) MAX_CLKGEN_LOOP_RETRIES :: nat where "MAX_CLKGEN_LOOP_RETRIES \<equiv> 100"
abbreviation (input) AWS_CLKGEN_LOOP_DELAY_MS :: u64 where "AWS_CLKGEN_LOOP_DELAY_MS \<equiv> 50"
abbreviation (input) AWS_CLKGEN_BASE_B :: u64 where "AWS_CLKGEN_BASE_B \<equiv> 0x50000"
abbreviation (input) AWS_CLKGEN_BASE_C :: u64 where "AWS_CLKGEN_BASE_C \<equiv> 0x51000"
abbreviation (input) AWS_CLKGEN_BASE_A :: u64 where "AWS_CLKGEN_BASE_A \<equiv> 0x52000"
abbreviation (input) AWS_CLKGEN_BASE_HBM :: u64 where "AWS_CLKGEN_BASE_HBM \<equiv> 0x54000"
abbreviation (input) MMCM_STATUS_LOCKED :: u32 where "MMCM_STATUS_LOCKED \<equiv> 1"
abbreviation (input) MMCM_STATUS_REG :: u64 where "MMCM_STATUS_REG \<equiv> 0x04"
abbreviation (input) MMCM_MAIN_CFG_REG :: u64 where "MMCM_MAIN_CFG_REG \<equiv> 0x200"
abbreviation (input) MMCM_CLK0_CFG_REG :: u64 where "MMCM_CLK0_CFG_REG \<equiv> 0x208"
abbreviation (input) MMCM_CLK1_CFG_REG :: u64 where "MMCM_CLK1_CFG_REG \<equiv> 0x214"
abbreviation (input) MMCM_CLK2_CFG_REG :: u64 where "MMCM_CLK2_CFG_REG \<equiv> 0x220"
abbreviation (input) MMCM_LOAD_CFG_REG :: u64 where "MMCM_LOAD_CFG_REG \<equiv> 0x25C"
abbreviation (input) AWS_CLKGEN_ID_REG :: u64 where "AWS_CLKGEN_ID_REG \<equiv> 0x58000"
abbreviation (input) AWS_CLKGEN_VER_REG :: u64 where "AWS_CLKGEN_VER_REG \<equiv> 0x58004"
abbreviation (input) AWS_CLKGEN_BLD_REG :: u64 where "AWS_CLKGEN_BLD_REG \<equiv> 0x58008"
abbreviation (input) AWS_CLKGEN_CLKS_AVAIL :: u64 where "AWS_CLKGEN_CLKS_AVAIL \<equiv> 0x5800C"
abbreviation (input) AWS_CLKGEN_GRST_REG :: u64 where "AWS_CLKGEN_GRST_REG \<equiv> 0x58010"
abbreviation (input) AWS_CLKGEN_SYSRST_REG :: u64 where "AWS_CLKGEN_SYSRST_REG \<equiv> 0x58014"
abbreviation (input) AWS_CLKGEN_LOCK_REG :: u64 where "AWS_CLKGEN_LOCK_REG \<equiv> 0x58020"
abbreviation (input) MAX_CLKS_IN_MMCM :: nat where "MAX_CLKS_IN_MMCM \<equiv> 3"

datatype fpga_clkgen_mmcm_group = clkgen_group_a | clkgen_group_b | clkgen_group_c | clkgen_group_hbm

record fpga_clkgen_mmcm =
  mmcm_base_offset :: u64
  clk_cfg_regs :: "u64 list"
  mmcm_handle :: int
  lock_bit :: u32
  avail_bit_start :: u32
  num_clocks :: u32
  clk_avails :: "u32 list"
  any_clocks_available :: u32
  clk_div_has_frac :: "bool list"

record 'h clk_st = "'h pci_st" +
  group_a :: fpga_clkgen_mmcm
  group_b :: fpga_clkgen_mmcm
  group_c :: fpga_clkgen_mmcm
  group_hbm :: fpga_clkgen_mmcm

text \<open>The static records are zero before the first \<open>mmcm_init\<close>.\<close>

definition zero_mmcm :: fpga_clkgen_mmcm where
  "zero_mmcm = \<lparr>mmcm_base_offset = 0, clk_cfg_regs = replicate MAX_CLKS_IN_MMCM 0, mmcm_handle = 0, lock_bit = 0,
     avail_bit_start = 0, num_clocks = 0, clk_avails = replicate MAX_CLKS_IN_MMCM 0, any_clocks_available = 0,
     clk_div_has_frac = replicate MAX_CLKS_IN_MMCM False\<rparr>"

fun get_mmcm :: "fpga_clkgen_mmcm_group \<Rightarrow> ('h, 'z) clk_st_scheme \<Rightarrow> fpga_clkgen_mmcm" where
  "get_mmcm clkgen_group_a s = group_a s"
| "get_mmcm clkgen_group_b s = group_b s"
| "get_mmcm clkgen_group_c s = group_c s"
| "get_mmcm clkgen_group_hbm s = group_hbm s"

text \<open>Writing through the pointer that \<open>get_mmcm\<close> returns.\<close>

fun put_mmcm :: "fpga_clkgen_mmcm_group \<Rightarrow> fpga_clkgen_mmcm \<Rightarrow> ('h, 'z) clk_st_scheme \<Rightarrow> ('h, 'z) clk_st_scheme" where
  "put_mmcm clkgen_group_a m s = s\<lparr>group_a := m\<rparr>"
| "put_mmcm clkgen_group_b m s = s\<lparr>group_b := m\<rparr>"
| "put_mmcm clkgen_group_c m s = s\<lparr>group_c := m\<rparr>"
| "put_mmcm clkgen_group_hbm m s = s\<lparr>group_hbm := m\<rparr>"

section \<open>Initialisation\<close>

text \<open>The \<open>switch\<close> of \<open>mmcm_init\<close>.\<close>

fun mmcm_layout :: "fpga_clkgen_mmcm_group \<Rightarrow> fpga_clkgen_mmcm \<Rightarrow> fpga_clkgen_mmcm" where
  "mmcm_layout clkgen_group_a m =
     m\<lparr>mmcm_base_offset := AWS_CLKGEN_BASE_A, avail_bit_start := 1, num_clocks := 3, lock_bit := 0\<rparr>"
| "mmcm_layout clkgen_group_b m =
     m\<lparr>mmcm_base_offset := AWS_CLKGEN_BASE_B, avail_bit_start := 4, num_clocks := 2, lock_bit := 4\<rparr>"
| "mmcm_layout clkgen_group_c m =
     m\<lparr>mmcm_base_offset := AWS_CLKGEN_BASE_C, avail_bit_start := 6, num_clocks := 2, lock_bit := 6\<rparr>"
| "mmcm_layout clkgen_group_hbm m =
     m\<lparr>mmcm_base_offset := AWS_CLKGEN_BASE_HBM, avail_bit_start := 8, num_clocks := 1, lock_bit := 8\<rparr>"

definition init_cfg_regs :: "u64 list" where
  "init_cfg_regs = [MMCM_CLK0_CFG_REG, MMCM_CLK1_CFG_REG, MMCM_CLK2_CFG_REG]"

definition init_div_has_frac :: "bool list" where
  "init_div_has_frac = [True, False, False]"

text \<open>The loop over the clocks; \<open>any_clocks_available\<close> is only ever set.\<close>

fun mmcm_avail_loop :: "u32 \<Rightarrow> nat list \<Rightarrow> fpga_clkgen_mmcm \<Rightarrow> fpga_clkgen_mmcm" where
  "mmcm_avail_loop shifted [] m = m"
| "mmcm_avail_loop shifted (i # is) m =
     (let avail = shifted AND push_bit i 1
      in mmcm_avail_loop shifted is
           (m\<lparr>clk_avails := (clk_avails m)[i := avail],
              clk_cfg_regs := (clk_cfg_regs m)[i := init_cfg_regs ! i],
              clk_div_has_frac := (clk_div_has_frac m)[i := init_div_has_frac ! i],
              any_clocks_available := (if avail \<noteq> 0 then 1 else any_clocks_available m)\<rparr>))"

definition mmcm_init :: "'h platform \<Rightarrow> fpga_clkgen_mmcm_group \<Rightarrow> int \<Rightarrow> (('h, 'z) clk_st_scheme, unit) prog" where
  "mmcm_init P grp handle =
     bindE (modify (\<lambda>s. put_mmcm grp (mmcm_layout grp ((get_mmcm grp s)\<lparr>mmcm_handle := handle\<rparr>)) s)) (\<lambda>_.
     bindE (fpga_pci_peek P handle AWS_CLKGEN_CLKS_AVAIL) (\<lambda>clks_avail_value.
     modify (\<lambda>s. let m = get_mmcm grp s in
       put_mmcm grp
         (mmcm_avail_loop (drop_bit (unat (avail_bit_start m)) clks_avail_value) [0..<unat (num_clocks m)] m) s)))"

definition mmcm_clk_avail_any :: "fpga_clkgen_mmcm_group \<Rightarrow> (('h, 'z) clk_st_scheme, bool) prog" where
  "mmcm_clk_avail_any grp = gets (\<lambda>s. any_clocks_available (get_mmcm grp s) \<noteq> 0)"

definition mmcm_clk_avail :: "fpga_clkgen_mmcm_group \<Rightarrow> nat \<Rightarrow> (('h, 'z) clk_st_scheme, bool) prog" where
  "mmcm_clk_avail grp clk_index = gets (\<lambda>s. let m = get_mmcm grp s in
     clk_index < unat (num_clocks m) \<and> clk_avails m ! clk_index \<noteq> 0)"

section \<open>Lock\<close>

definition mmcm_is_locked :: "'h platform \<Rightarrow> fpga_clkgen_mmcm_group \<Rightarrow> (('h, 'z) clk_st_scheme, bool) prog" where
  "mmcm_is_locked P grp =
     bindE (gets (get_mmcm grp)) (\<lambda>m.
     bindE (fpga_pci_peek P (mmcm_handle m) (mmcm_base_offset m + MMCM_STATUS_REG)) (\<lambda>v.
     ok (v AND MMCM_STATUS_LOCKED \<noteq> 0)))"

text \<open>
  The waiting loop: \<open>n\<close> more looks at a register, with a delay after each that does not satisfy
  \<open>test\<close>. The result says whether one did (\<open>loop_count < MAX_CLKGEN_LOOP_RETRIES\<close> at the end).
\<close>

fun clkgen_poll ::
  "'h platform \<Rightarrow> int \<Rightarrow> u64 \<Rightarrow> (u32 \<Rightarrow> bool) \<Rightarrow> nat \<Rightarrow> (('h, 'z) pci_st_scheme, bool) prog" where
  "clkgen_poll P h off test 0 = ok False"
| "clkgen_poll P h off test (Suc n) =
     bindE (fpga_pci_peek P h off) (\<lambda>v.
     if test v then ok True
     else bindE (msleep P AWS_CLKGEN_LOOP_DELAY_MS) (\<lambda>_. clkgen_poll P h off test n))"

definition mmcm_wait_for_locked :: "'h platform \<Rightarrow> fpga_clkgen_mmcm_group \<Rightarrow> (('h, 'z) clk_st_scheme, unit) prog" where
  "mmcm_wait_for_locked P grp =
     bindE (gets (get_mmcm grp)) (\<lambda>m.
     bindE (clkgen_poll P (mmcm_handle m) (mmcm_base_offset m + MMCM_STATUS_REG)
       (\<lambda>v. v = MMCM_STATUS_LOCKED) MAX_CLKGEN_LOOP_RETRIES) (\<lambda>locked.
     fail_on (\<not> locked) FPGA_ERR_HARDWARE_BUSY))"

section \<open>Multipliers and dividers\<close>

text \<open>The register values; a multiplier or divider of 0 is replaced by 1.\<close>

definition at_least_1 :: "u32 \<Rightarrow> u32" where
  "at_least_1 x = (if x = 0 then 1 else x)"

definition main_cfg_value :: "u32 \<Rightarrow> u32 \<Rightarrow> u32 \<Rightarrow> u32" where
  "main_cfg_value mul mult_frac dv =
     (at_least_1 dv AND 0xFF) OR (push_bit 8 (at_least_1 mul) AND 0xFF00) OR (push_bit 16 mult_frac AND 0x0FFF0000)"

definition clk_cfg_value :: "bool \<Rightarrow> u32 \<Rightarrow> u32 \<Rightarrow> u32" where
  "clk_cfg_value has_frac dv div_frac =
     (if has_frac then (at_least_1 dv AND 0xFF) OR (push_bit 8 div_frac AND 0x000FFF00)
      else at_least_1 dv AND 0xFF)"

definition mmcm_set_shared_clock ::
  "'h platform \<Rightarrow> fpga_clkgen_mmcm_group \<Rightarrow> u32 \<Rightarrow> u32 \<Rightarrow> u32 \<Rightarrow> (('h, 'z) clk_st_scheme, unit) prog" where
  "mmcm_set_shared_clock P grp mul mult_frac dv =
     bindE (gets (get_mmcm grp)) (\<lambda>m.
     fpga_pci_poke P (mmcm_handle m) (mmcm_base_offset m + MMCM_MAIN_CFG_REG) (main_cfg_value mul mult_frac dv))"

definition mmcm_get_shared_clock ::
  "'h platform \<Rightarrow> fpga_clkgen_mmcm_group \<Rightarrow> (('h, 'z) clk_st_scheme, u32 \<times> u32 \<times> u32) prog" where
  "mmcm_get_shared_clock P grp =
     bindE (gets (get_mmcm grp)) (\<lambda>m.
     bindE (fpga_pci_peek P (mmcm_handle m) (mmcm_base_offset m + MMCM_MAIN_CFG_REG)) (\<lambda>v.
     ok (drop_bit 8 v AND 0xFF, drop_bit 16 v AND 0x3FF, v AND 0xFF)))"

definition mmcm_set_clk_div ::
  "'h platform \<Rightarrow> fpga_clkgen_mmcm_group \<Rightarrow> nat \<Rightarrow> u32 \<Rightarrow> u32 \<Rightarrow> (('h, 'z) clk_st_scheme, unit) prog" where
  "mmcm_set_clk_div P grp clk_index dv div_frac =
     bindE (gets (get_mmcm grp)) (\<lambda>m.
     bindE (fail_on (unat (num_clocks m) \<le> clk_index) FPGA_ERR_SOFTWARE_PROBLEM) (\<lambda>_.
     fpga_pci_poke P (mmcm_handle m) (mmcm_base_offset m + clk_cfg_regs m ! clk_index)
       (clk_cfg_value (clk_div_has_frac m ! clk_index) dv div_frac)))"

definition mmcm_get_clk_div ::
  "'h platform \<Rightarrow> fpga_clkgen_mmcm_group \<Rightarrow> nat \<Rightarrow> (('h, 'z) clk_st_scheme, u32 \<times> u32) prog" where
  "mmcm_get_clk_div P grp clk_index =
     bindE (gets (get_mmcm grp)) (\<lambda>m.
     bindE (fail_on (unat (num_clocks m) \<le> clk_index) FPGA_ERR_SOFTWARE_PROBLEM) (\<lambda>_.
     bindE (fpga_pci_peek P (mmcm_handle m) (mmcm_base_offset m + clk_cfg_regs m ! clk_index)) (\<lambda>v.
     ok (v AND 0xFF, if clk_div_has_frac m ! clk_index then drop_bit 8 v AND 0x3FF else 0))))"

definition mmcm_load_cfg :: "'h platform \<Rightarrow> fpga_clkgen_mmcm_group \<Rightarrow> u32 \<Rightarrow> (('h, 'z) clk_st_scheme, unit) prog" where
  "mmcm_load_cfg P grp reset =
     bindE (gets (get_mmcm grp)) (\<lambda>m.
     fpga_pci_poke P (mmcm_handle m) (mmcm_base_offset m + MMCM_LOAD_CFG_REG) (if reset \<noteq> 0 then 1 else 3))"

definition mmcm_get_expected_lock_mask :: "(('h, 'z) clk_st_scheme, u32) prog" where
  "mmcm_get_expected_lock_mask = gets (\<lambda>s.
     fold (\<lambda>grp mask. let m = get_mmcm grp s in
        mask OR (if any_clocks_available m \<noteq> 0 then push_bit (unat (lock_bit m)) 1 else 0))
       [clkgen_group_a, clkgen_group_b, clkgen_group_c, clkgen_group_hbm] 0)"

section \<open>Frames\<close>

lemma get_put_mmcm [simp]:
  "get_mmcm g (put_mmcm g' m s) = (if g = g' then m else get_mmcm g s)"
  by (cases g; cases g') simp_all

lemma get_mmcm_plat [simp]: "get_mmcm g (s\<lparr>plat := h\<rparr>) = get_mmcm g s"
  by (cases g) simp_all

lemma put_mmcm_sel [simp]: "bars (put_mmcm g m s) = bars s" "plat (put_mmcm g m s) = plat s"
  by (cases g; simp)+

lemma put_mmcm_plat [simp]: "(put_mmcm g m s)\<lparr>plat := h\<rparr> = put_mmcm g m (s\<lparr>plat := h\<rparr>)"
  by (cases g) simp_all

lemma plat_free_mmcm [simp]: "plat_free (get_mmcm g)"
  by (simp add: plat_free_def)

lemma leaves_put_mmcm [leaves_intros]:
  "(\<And>m s. f (put_mmcm g m s) = f s) \<Longrightarrow> leaves f (modify (\<lambda>s. put_mmcm g (k s) s))"
  by (auto simp: leaves_def modify_apply)

lemma leaves_bars_mmcm_init [leaves_intros]: "leaves bars (mmcm_init P g h)"
  unfolding mmcm_init_def Let_def by (intro leaves_intros plat_free_bars) simp_all

lemma leaves_clkgen_poll [leaves_intros]: "plat_free f \<Longrightarrow> leaves f (clkgen_poll P h off test n)"
  by (induction n) (auto intro!: leaves_intros)

lemma leaves_mmcm_get [leaves_intros]:
  "plat_free f \<Longrightarrow> leaves f (mmcm_is_locked P g)" "plat_free f \<Longrightarrow> leaves f (mmcm_wait_for_locked P g)"
  "plat_free f \<Longrightarrow> leaves f (mmcm_get_shared_clock P g)" "plat_free f \<Longrightarrow> leaves f (mmcm_get_clk_div P g i)"
  "leaves f (mmcm_clk_avail_any g)" "leaves f (mmcm_clk_avail g i)" "leaves f mmcm_get_expected_lock_mask"
  unfolding mmcm_is_locked_def mmcm_wait_for_locked_def mmcm_get_shared_clock_def mmcm_get_clk_div_def
    mmcm_clk_avail_any_def mmcm_clk_avail_def mmcm_get_expected_lock_mask_def
  by (intro leaves_intros; assumption)+

lemma leaves_mmcm_set [leaves_intros]:
  "plat_free f \<Longrightarrow> leaves f (mmcm_set_shared_clock P g mul fr dv)" "plat_free f \<Longrightarrow> leaves f (mmcm_set_clk_div P g i dv fr)"
  "plat_free f \<Longrightarrow> leaves f (mmcm_load_cfg P g reset)"
  unfolding mmcm_set_shared_clock_def mmcm_set_clk_div_def mmcm_load_cfg_def
  by (intro leaves_intros; assumption)+

section \<open>What is written is read back\<close>

text \<open>A word of device memory that keeps the value stored in it.\<close>

definition remembers :: "'h platform \<Rightarrow> bool" where
  "remembers P \<longleftrightarrow> (\<forall>h a v. fst (m_load32 P (m_store32 P h a v) a) = v)"

lemma peek_poke:
  assumes "remembers P" and "fpga_pci_poke P h off v s = (Inr u, t)"
  shows "fst (fpga_pci_peek P h off t) = Inr v"
  using assms by (auto simp: fpga_pci_poke_def fpga_pci_peek_def reg_ptr_def remembers_def prog_simps
      case_prod_beta split: if_splits)

lemma main_cfg_fields:
  "main_cfg_value mul fr dv AND 0xFF = at_least_1 dv AND 0xFF"
  "drop_bit 8 (main_cfg_value mul fr dv) AND 0xFF = at_least_1 mul AND 0xFF"
  "drop_bit 16 (main_cfg_value mul fr dv) AND 0x3FF = fr AND 0x3FF"
proof -
  have m: "0xFF = (mask 8 :: u32)" "0xFF00 = push_bit 8 (mask 8 :: u32)" "0x3FF = (mask 10 :: u32)"
    "0x0FFF0000 = push_bit 16 (mask 12 :: u32)"
    by (simp_all add: mask_eq_exp_minus_1)
  show "main_cfg_value mul fr dv AND 0xFF = at_least_1 dv AND 0xFF"
    "drop_bit 8 (main_cfg_value mul fr dv) AND 0xFF = at_least_1 mul AND 0xFF"
    "drop_bit 16 (main_cfg_value mul fr dv) AND 0x3FF = fr AND 0x3FF"
    unfolding main_cfg_value_def m by (rule bit_word_eqI, auto simp: bit_simps)+
qed

lemma clk_cfg_fields:
  "clk_cfg_value has_frac dv fr AND 0xFF = at_least_1 dv AND 0xFF"
  "drop_bit 8 (clk_cfg_value True dv fr) AND 0x3FF = fr AND 0x3FF"
proof -
  have m: "0xFF = (mask 8 :: u32)" "0x000FFF00 = push_bit 8 (mask 12 :: u32)" "0x3FF = (mask 10 :: u32)"
    by (simp_all add: mask_eq_exp_minus_1)
  show "clk_cfg_value has_frac dv fr AND 0xFF = at_least_1 dv AND 0xFF"
    "drop_bit 8 (clk_cfg_value True dv fr) AND 0x3FF = fr AND 0x3FF"
    unfolding clk_cfg_value_def m by (rule bit_word_eqI, auto simp: bit_simps)+
qed

text \<open>
  C28. Reading the shared clock and the dividers back from the configuration registers gives what
  was programmed, for the values that the fields of the registers can hold.
\<close>

theorem mmcm_registers_roundtrip:
  assumes "remembers P"
  shows "(mmcm_set_shared_clock P g mul fr dv s = (Inr (), t) \<longrightarrow>
      fst (mmcm_get_shared_clock P g t) = Inr (at_least_1 mul AND 0xFF, fr AND 0x3FF, at_least_1 dv AND 0xFF)) \<and>
    (mmcm_set_clk_div P g i dv fr s = (Inr (), t) \<longrightarrow>
      fst (mmcm_get_clk_div P g i t) =
        Inr (at_least_1 dv AND 0xFF, if clk_div_has_frac (get_mmcm g s) ! i then fr AND 0x3FF else 0))"
proof (intro conjI impI)
  assume w: "mmcm_set_shared_clock P g mul fr dv s = (Inr (), t)"
  have g: "get_mmcm g t = get_mmcm g s" by (rule leavesD [OF leaves_mmcm_set(1) [OF plat_free_mmcm] w])
  let ?m = "get_mmcm g s"
  have "fst (fpga_pci_peek P (mmcm_handle ?m) (mmcm_base_offset ?m + MMCM_MAIN_CFG_REG) t) = Inr (main_cfg_value mul fr dv)"
    using w by (intro peek_poke [OF assms]) (simp add: mmcm_set_shared_clock_def prog_simps)
  then show "fst (mmcm_get_shared_clock P g t) = Inr (at_least_1 mul AND 0xFF, fr AND 0x3FF, at_least_1 dv AND 0xFF)"
    by (auto simp: mmcm_get_shared_clock_def prog_simps g main_cfg_fields split: prod.splits)
next
  assume w: "mmcm_set_clk_div P g i dv fr s = (Inr (), t)"
  have g: "get_mmcm g t = get_mmcm g s" by (rule leavesD [OF leaves_mmcm_set(2) [OF plat_free_mmcm] w])
  let ?m = "get_mmcm g s"
  have i: "\<not> unat (num_clocks ?m) \<le> i"
    and "fpga_pci_poke P (mmcm_handle ?m) (mmcm_base_offset ?m + clk_cfg_regs ?m ! i)
      (clk_cfg_value (clk_div_has_frac ?m ! i) dv fr) s = (Inr (), t)"
    using w by (auto simp: mmcm_set_clk_div_def prog_simps split: if_splits)
  then have "fst (fpga_pci_peek P (mmcm_handle ?m) (mmcm_base_offset ?m + clk_cfg_regs ?m ! i) t) =
      Inr (clk_cfg_value (clk_div_has_frac ?m ! i) dv fr)"
    by (intro peek_poke [OF assms])
  then show "fst (mmcm_get_clk_div P g i t) =
      Inr (at_least_1 dv AND 0xFF, if clk_div_has_frac ?m ! i then fr AND 0x3FF else 0)"
    using i by (auto simp: mmcm_get_clk_div_def prog_simps g clk_cfg_fields split: prod.splits)
qed

section \<open>Waiting for the lock\<close>

definition clkgen_look ::
  "'h platform \<Rightarrow> int \<Rightarrow> u64 \<Rightarrow> (u32 \<Rightarrow> bool) \<Rightarrow> ('h, 'z) pci_st_scheme \<Rightarrow> (int + bool) option \<times> ('h, 'z) pci_st_scheme" where
  "clkgen_look P h off test s = (case fpga_pci_peek P h off s of
     (Inl e, t) \<Rightarrow> (Some (Inl e), t)
   | (Inr v, t) \<Rightarrow> (if test v then Some (Inr True) else None, t))"

interpretation clkgen_poll: bounded_poll "clkgen_poll P h off test" "clkgen_look P h off test"
  "\<lambda>s. snd (msleep P AWS_CLKGEN_LOOP_DELAY_MS s)" "Inr False" for P :: "'h platform" and h off test
  by unfold_locales (auto simp: clkgen_look_def prog_simps split: prod.splits sum.splits)

lemma cost_clkgen_poll:
  assumes "mem_budget P cost"
  shows "cost (plat (snd (clkgen_poll P h off test n s))) \<le> cost (plat s) + n"
proof -
  have c: "cost (plat (snd (fpga_pci_peek P h off s))) \<le> cost (plat s)" for s :: "('a, 'b) pci_st_scheme"
    by (rule mem_budget_keeps [OF assms], erule keeps_peek)
  have look: "cost (plat (snd (clkgen_look P h off test s))) \<le> cost (plat s) + 0" for s :: "('a, 'b) pci_st_scheme"
    using c [of s] by (simp add: clkgen_look_def case_prod_beta split: sum.splits)
  have nap: "cost (plat (snd (msleep P AWS_CLKGEN_LOOP_DELAY_MS s))) \<le> cost (plat s) + 1"
    for s :: "('a, 'b) pci_st_scheme"
    using assms by (simp add: mem_budget_def msleep_apply)
  from clkgen_poll.cost_loop [of "\<lambda>s. cost (plat s)", OF look nap] show ?thesis by simp
qed

end
