(* ===== verification/C_Double.thy ===== *)
theory C_Double
  imports Complex_Main Prelude
begin

text \<open>
  The double precision arithmetic of C (IEEE 754, round to nearest, ties to even) on the values the
  clock library computes with: non-negative ones, whose finite values are rationals. The exponent is
  unbounded: the operands are quotients of 32-bit integers, far from overflow and from subnormals.
\<close>

datatype c_double = Fin rat | Inf | NaN

section \<open>Rounding\<close>

definition pow2 :: "int \<Rightarrow> rat" where
  "pow2 e = (if 0 \<le> e then 2 ^ nat e else 1 / 2 ^ nat (- e))"

text \<open>The number of binary digits of a natural number.\<close>

fun bit_size :: "nat \<Rightarrow> nat" where
  "bit_size n = (if n = 0 then 0 else Suc (bit_size (n div 2)))"

declare bit_size.simps [simp del]

text \<open>The exponent of the leading digit of a positive rational.\<close>

definition exponent :: "rat \<Rightarrow> int" where
  "exponent x = (let (p, q) = quotient_of x; k = int (bit_size (nat p)) - int (bit_size (nat q))
     in if pow2 k \<le> x then k else k - 1)"

definition round_even :: "rat \<Rightarrow> int" where
  "round_even y = (let f = \<lfloor>y\<rfloor>; d = y - of_int f
     in if d < 1 / 2 then f else if 1 / 2 < d then f + 1 else if even f then f else f + 1)"

definition rnd :: "rat \<Rightarrow> rat" where
  "rnd x = (if x \<le> 0 then 0 else
     let u = pow2 (exponent x - 52) in of_int (round_even (x / u)) * u)"

section \<open>Operations\<close>

definition double_of_u32 :: "u32 \<Rightarrow> c_double" where
  "double_of_u32 x = Fin (of_int (uint x))"

fun d_add :: "c_double \<Rightarrow> c_double \<Rightarrow> c_double" where
  "d_add (Fin a) (Fin b) = Fin (rnd (a + b))"
| "d_add NaN _ = NaN"
| "d_add _ NaN = NaN"
| "d_add _ _ = Inf"

fun d_mult :: "c_double \<Rightarrow> c_double \<Rightarrow> c_double" where
  "d_mult (Fin a) (Fin b) = Fin (rnd (a * b))"
| "d_mult NaN _ = NaN"
| "d_mult _ NaN = NaN"
| "d_mult (Fin a) Inf = (if a = 0 then NaN else Inf)"
| "d_mult Inf (Fin b) = (if b = 0 then NaN else Inf)"
| "d_mult Inf Inf = Inf"

fun d_div :: "c_double \<Rightarrow> c_double \<Rightarrow> c_double" where
  "d_div (Fin a) (Fin b) = (if b = 0 then if a = 0 then NaN else Inf else Fin (rnd (a / b)))"
| "d_div NaN _ = NaN"
| "d_div _ NaN = NaN"
| "d_div (Fin a) Inf = Fin 0"
| "d_div Inf (Fin b) = Inf"
| "d_div Inf Inf = NaN"

section \<open>The rounding error\<close>

lemma pow2_pos [simp]: "0 < pow2 e"
  by (simp add: pow2_def)

lemma pow2_add: "pow2 (a + b) = pow2 a * pow2 b"
proof -
  have p: "pow2 e = 2 powi e" for e
    by (simp add: pow2_def power_int_def inverse_eq_divide power_one_over)
  show ?thesis by (simp add: p power_int_add)
qed

lemma bit_size_bounds: "0 < n \<Longrightarrow> 2 ^ bit_size n \<le> 2 * n \<and> n < 2 ^ bit_size n"
proof (induction n rule: bit_size.induct)
  case (1 n)
  show ?case
  proof (cases "n = 1")
    case True
    then show ?thesis by (simp add: bit_size.simps)
  next
    case False
    with 1 have "2 ^ bit_size (n div 2) \<le> 2 * (n div 2) \<and> n div 2 < 2 ^ bit_size (n div 2)" by simp
    then show ?thesis using 1(2) by (subst (1 2) bit_size.simps) auto
  qed
qed

lemma exponent_le: "0 < x \<Longrightarrow> pow2 (exponent x) \<le> x"
proof -
  assume x: "0 < x"
  obtain p q where pq: "quotient_of x = (p, q)" by fastforce
  have q: "0 < q" using quotient_of_denom_pos [OF pq] .
  have xe: "x = of_int p / of_int q" using quotient_of_div [OF pq] .
  then have p: "0 < p" using x q by (simp add: zero_less_divide_iff)
  let ?a = "bit_size (nat p)" and ?b = "bit_size (nat q)"
  let ?k = "int ?a - int ?b"
  have pa: "(2 :: rat) ^ ?a \<le> 2 * of_int p"
  proof -
    have "(of_nat (2 ^ ?a) :: rat) \<le> of_nat (2 * nat p)" using bit_size_bounds [of "nat p"] p by (simp only: of_nat_le_iff)
    then show ?thesis using p by simp
  qed
  have qb: "of_int q \<le> (2 :: rat) ^ ?b"
  proof -
    have "(of_nat (nat q) :: rat) \<le> of_nat (2 ^ ?b)" using bit_size_bounds [of "nat q"] q by (simp only: of_nat_le_iff) linarith
    then show ?thesis using q by simp
  qed
  have "pow2 (?k - 1) * 2 * 2 ^ ?b = 2 ^ ?a"
  proof -
    have "pow2 (?k - 1) * pow2 1 * pow2 (int ?b) = pow2 (int ?a)"
      by (simp add: pow2_add [symmetric])
    then show ?thesis by (simp add: pow2_def)
  qed
  then have "pow2 (?k - 1) * 2 * 2 ^ ?b \<le> 2 * of_int p" using pa by simp
  then have "pow2 (?k - 1) * 2 ^ ?b \<le> of_int p" by simp
  moreover have "pow2 (?k - 1) * of_int q \<le> pow2 (?k - 1) * 2 ^ ?b"
    using qb by (intro mult_left_mono) (simp_all add: order_less_imp_le)
  ultimately have "pow2 (?k - 1) * of_int q \<le> of_int p" by linarith
  then have "pow2 (?k - 1) \<le> x" using q by (simp add: xe le_divide_eq)
  then show ?thesis by (simp add: exponent_def pq Let_def)
qed

lemma round_even_error: "\<bar>of_int (round_even y) - y\<bar> \<le> 1 / 2"
proof -
  have "of_int \<lfloor>y\<rfloor> \<le> y" "y < of_int \<lfloor>y\<rfloor> + 1" by linarith+
  then show ?thesis by (auto simp: round_even_def Let_def)
qed

lemma rnd_error: "0 \<le> x \<Longrightarrow> \<bar>rnd x - x\<bar> \<le> x / 2 ^ 53"
proof (cases "x = 0")
  case False
  moreover assume "0 \<le> x"
  ultimately have x: "0 < x" by simp
  let ?u = "pow2 (exponent x - 52)"
  have u: "?u \<noteq> 0" using pow2_pos [of "exponent x - 52"] by linarith
  have "rnd x - x = (of_int (round_even (x / ?u)) - x / ?u) * ?u"
    using x u by (simp add: rnd_def Let_def left_diff_distrib)
  then have "\<bar>rnd x - x\<bar> = \<bar>of_int (round_even (x / ?u)) - x / ?u\<bar> * ?u"
    using pow2_pos [of "exponent x - 52"] by (simp only: abs_mult abs_of_pos)
  also have "\<dots> \<le> 1 / 2 * ?u" by (rule mult_right_mono [OF round_even_error]) (simp add: order_less_imp_le)
  also have "\<dots> \<le> x / 2 ^ 53"
  proof -
    have "?u * pow2 52 = pow2 (exponent x)" by (simp add: pow2_add [symmetric])
    then have "?u * 2 ^ 52 \<le> x" using exponent_le [OF x] by (simp add: pow2_def)
    then show ?thesis by simp
  qed
  finally show ?thesis .
qed (simp add: rnd_def)

lemma rnd_nonneg: "0 \<le> rnd x"
proof (cases "0 < x")
  case True
  have "0 \<le> round_even y" if "0 \<le> y" for y
    using that by (auto simp: round_even_def Let_def)
  then show ?thesis using True by (simp add: rnd_def Let_def order_less_imp_le)
qed (simp add: rnd_def)

section \<open>Accumulated errors\<close>

text \<open>
  A double that is within \<open>k\<close> roundings of an exact value: the quotient is at most \<open>(1 + 2 ^ -52) ^ k\<close>
  in either direction, so that products and quotients add the exponents.
\<close>

definition eps1 :: rat where
  "eps1 = 1 + 1 / 2 ^ 52"

definition close :: "nat \<Rightarrow> c_double \<Rightarrow> rat \<Rightarrow> bool" where
  "close k d y \<longleftrightarrow> (\<exists>x. d = Fin x \<and> y \<le> x * eps1 ^ k \<and> x \<le> y * eps1 ^ k)"

lemma eps1_pos [simp]: "0 < eps1" "0 \<le> eps1" "1 \<le> eps1" "0 < eps1 ^ k" "0 \<le> eps1 ^ k" "\<not> eps1 ^ k \<le> 0"
  by (simp_all add: eps1_def not_le)

lemma rnd_close:
  assumes "0 \<le> y" and "y \<le> x * eps1 ^ k" and "x \<le> y * eps1 ^ k"
  shows "y \<le> rnd x * eps1 ^ Suc k" and "rnd x \<le> y * eps1 ^ Suc k"
proof -
  have x: "0 \<le> x" using order_trans [OF assms(1,2)] by (simp add: zero_le_mult_iff)
  have e: "x - x / 2 ^ 53 \<le> rnd x" "rnd x \<le> x + x / 2 ^ 53" using rnd_error [OF x] by linarith+
  have "x \<le> (x - x / 2 ^ 53) * eps1"
  proof -
    have "(x - x / 2 ^ 53) * eps1 = x * ((1 - 1 / 2 ^ 53) * eps1)" by (simp add: algebra_simps)
    moreover have "1 \<le> (1 - 1 / 2 ^ 53) * eps1" by (simp add: eps1_def)
    then have "x * 1 \<le> x * ((1 - 1 / 2 ^ 53) * eps1)" by (rule mult_left_mono [OF _ x])
    ultimately show ?thesis by linarith
  qed
  also have "\<dots> \<le> rnd x * eps1" by (rule mult_right_mono [OF e(1)]) simp
  finally have "x * eps1 ^ k \<le> rnd x * eps1 * eps1 ^ k" by (rule mult_right_mono) simp
  then have "x * eps1 ^ k \<le> rnd x * eps1 ^ Suc k" by (simp only: power_Suc mult.assoc)
  with assms(2) show "y \<le> rnd x * eps1 ^ Suc k" by (rule order_trans)
  have "rnd x \<le> x * eps1" using e(2) x by (simp add: eps1_def algebra_simps)
  also have "\<dots> \<le> y * eps1 ^ k * eps1" by (rule mult_right_mono [OF assms(3)]) simp
  finally show "rnd x \<le> y * eps1 ^ Suc k" by (simp only: power_Suc2 mult.assoc)
qed

lemma close_Fin: "close 0 (Fin x) x"
  by (simp add: close_def)

lemma close_u32: "close 0 (double_of_u32 x) (of_int (uint x))"
  by (simp add: close_def double_of_u32_def)

lemma close_more:
  assumes "close k d y" and "0 \<le> y"
  shows "\<exists>x. d = Fin x \<and> 0 \<le> x \<and> (0 < y \<longrightarrow> 0 < x)"
proof -
  obtain x where x: "d = Fin x" "y \<le> x * eps1 ^ k" using assms(1) by (auto simp: close_def)
  have "0 \<le> x" using order_trans [OF assms(2) x(2)] by (simp add: zero_le_mult_iff)
  moreover have "0 < x" if "0 < y"
    using order_less_le_trans [OF that x(2)] \<open>0 \<le> x\<close> by (simp add: zero_less_mult_iff)
  ultimately show ?thesis using x(1) by blast
qed

lemma close_mult:
  assumes "close k a A" "close l b B" "0 \<le> A" "0 \<le> B"
  shows "close (Suc (k + l)) (d_mult a b) (A * B)"
proof -
  obtain x y where x: "a = Fin x" "A \<le> x * eps1 ^ k" "x \<le> A * eps1 ^ k" "0 \<le> x"
    and y: "b = Fin y" "B \<le> y * eps1 ^ l" "y \<le> B * eps1 ^ l" "0 \<le> y"
    using assms(1,2) close_more [OF assms(1,3)] close_more [OF assms(2,4)] by (auto simp: close_def)
  have "A * B \<le> (x * eps1 ^ k) * (y * eps1 ^ l)" "x * y \<le> (A * eps1 ^ k) * (B * eps1 ^ l)"
    by (rule mult_mono; use x y assms(3,4) in simp)+
  then have "A * B \<le> x * y * eps1 ^ (k + l)" "x * y \<le> A * B * eps1 ^ (k + l)"
    by (simp_all add: power_add mult_ac)
  from rnd_close [OF mult_nonneg_nonneg [OF assms(3,4)] this] show ?thesis
    using x(1) y(1) by (simp add: close_def)
qed

lemma close_div:
  assumes "close k a A" "close l b B" "0 \<le> A" "0 < B"
  shows "close (Suc (k + l)) (d_div a b) (A / B)"
proof -
  obtain x y where x: "a = Fin x" "A \<le> x * eps1 ^ k" "x \<le> A * eps1 ^ k" "0 \<le> x"
    and y: "b = Fin y" "B \<le> y * eps1 ^ l" "y \<le> B * eps1 ^ l" "0 < y"
    using assms(1,2) close_more [OF assms(1,3)] close_more [OF assms(2) order_less_imp_le [OF assms(4)]] assms(4)
    by (auto simp: close_def)
  have "A * y \<le> (x * eps1 ^ k) * (B * eps1 ^ l)" "x * B \<le> (A * eps1 ^ k) * (y * eps1 ^ l)"
    by (rule mult_mono; use x y assms(3,4) in simp)+
  then have "A / B \<le> x / y * eps1 ^ (k + l)" "x / y \<le> A / B * eps1 ^ (k + l)"
    using y(4) assms(4) by (simp_all add: power_add field_simps)
  from rnd_close [OF divide_nonneg_pos [OF assms(3,4)] this] show ?thesis
    using x(1) y(1,4) by (simp add: close_def)
qed

lemma close_add:
  assumes "close k a A" "close l b B" "0 \<le> A" "0 \<le> B"
  shows "close (Suc (k + l)) (d_add a b) (A + B)"
proof -
  obtain x y where x: "a = Fin x" "A \<le> x * eps1 ^ k" "x \<le> A * eps1 ^ k" "0 \<le> x"
    and y: "b = Fin y" "B \<le> y * eps1 ^ l" "y \<le> B * eps1 ^ l" "0 \<le> y"
    using assms(1,2) close_more [OF assms(1,3)] close_more [OF assms(2,4)] by (auto simp: close_def)
  have up: "z * eps1 ^ k \<le> z * eps1 ^ (k + l)" "z * eps1 ^ l \<le> z * eps1 ^ (k + l)" if "0 \<le> z" for z
    by (intro mult_left_mono power_increasing that; simp)+
  have "A + B \<le> (x + y) * eps1 ^ (k + l)" "x + y \<le> (A + B) * eps1 ^ (k + l)"
    using x y up [OF x(4)] up [OF y(4)] up [OF assms(3)] up [OF assms(4)]
    unfolding distrib_right by linarith+
  from rnd_close [OF add_nonneg_nonneg [OF assms(3,4)] this] show ?thesis
    using x(1) y(1) by (simp add: close_def)
qed

lemma close_7:
  assumes "close 7 d y" and "0 \<le> y"
  shows "\<exists>x. d = Fin x \<and> \<bar>x - y\<bar> \<le> y / 2 ^ 49"
proof -
  obtain x where x: "d = Fin x" "y \<le> x * eps1 ^ 7" "x \<le> y * eps1 ^ 7" "0 \<le> x"
    using assms close_more [OF assms] by (auto simp: close_def)
  have e: "(1 - 1 / 2 ^ 49) * eps1 ^ 7 \<le> 1" "eps1 ^ 7 \<le> 1 + 1 / 2 ^ 49"
    by (simp_all add: eps1_def power_divide)
  have "y * eps1 ^ 7 \<le> y * (1 + 1 / 2 ^ 49)" by (rule mult_left_mono [OF e(2) assms(2)])
  moreover have "(1 - 1 / 2 ^ 49) * y \<le> (1 - 1 / 2 ^ 49) * (x * eps1 ^ 7)" by (rule mult_left_mono [OF x(2)]) simp
  moreover have "x * ((1 - 1 / 2 ^ 49) * eps1 ^ 7) \<le> x * 1" by (rule mult_left_mono [OF e(1) x(4)])
  ultimately have "x \<le> y + y / 2 ^ 49" "y - y / 2 ^ 49 \<le> x" using x(3) by (simp_all add: algebra_simps)
  then have "\<bar>x - y\<bar> \<le> y / 2 ^ 49" by linarith
  then show ?thesis using x(1) by blast
qed

end
