(* ===== verification/Clkgen.thy ===== *)
theory Clkgen
  imports Clkgen_Mmcm C_Double
begin

text \<open>
  \<open>sdk/userspace/fpga_libs/fpga_clkgen/fpga_clkgen_utils.c\<close>: the clock recipes of AWS_CLK_GEN. A call
  attaches the BAR of the block, checks its ids, holds the design in reset, programs the clock groups
  from a recipe or from the table of frequencies, releases the resets once the clocks are locked, and
  detaches the BAR. Reading the frequencies back uses double precision arithmetic.
\<close>

abbreviation (input) AWS_CLKGEN_TABLE_ROWS :: nat where "AWS_CLKGEN_TABLE_ROWS \<equiv> 42"
abbreviation (input) CLKGEN_A_RECIPE_TABLE_ROWS :: u32 where "CLKGEN_A_RECIPE_TABLE_ROWS \<equiv> 3"
abbreviation (input) CLKGEN_B_RECIPE_TABLE_ROWS :: u32 where "CLKGEN_B_RECIPE_TABLE_ROWS \<equiv> 6"
abbreviation (input) CLKGEN_C_RECIPE_TABLE_ROWS :: u32 where "CLKGEN_C_RECIPE_TABLE_ROWS \<equiv> 4"
abbreviation (input) CLKGEN_HBM_RECIPE_TABLE_ROWS :: u32 where "CLKGEN_HBM_RECIPE_TABLE_ROWS \<equiv> 5"
abbreviation (input) AWS_CLKGEN_PF :: int where "AWS_CLKGEN_PF \<equiv> 1"
abbreviation (input) AWS_CLKGEN_BAR :: int where "AWS_CLKGEN_BAR \<equiv> 4"
abbreviation (input) AWS_CLKGEN_ID :: u32 where "AWS_CLKGEN_ID \<equiv> 0x90481D0F"
abbreviation (input) AWS_CLKGEN_VER :: u32 where "AWS_CLKGEN_VER \<equiv> 0x02010000"
abbreviation (input) AWS_CLKGEN_BLD :: u32 where "AWS_CLKGEN_BLD \<equiv> 0x09232223"
abbreviation (input) FPGA_CLKGEN_GROUP_CLKS_MAX :: nat where "FPGA_CLKGEN_GROUP_CLKS_MAX \<equiv> 3"
abbreviation (input) FPGA_CLKGEN_GROUP_A_CLKS :: nat where "FPGA_CLKGEN_GROUP_A_CLKS \<equiv> 3"
abbreviation (input) FPGA_CLKGEN_GROUP_B_CLKS :: nat where "FPGA_CLKGEN_GROUP_B_CLKS \<equiv> 2"
abbreviation (input) FPGA_CLKGEN_GROUP_C_CLKS :: nat where "FPGA_CLKGEN_GROUP_C_CLKS \<equiv> 2"
abbreviation (input) FPGA_CLKGEN_GROUP_HBM_CLKS :: nat where "FPGA_CLKGEN_GROUP_HBM_CLKS \<equiv> 1"
abbreviation (input) CLKGEN_A_1_MAX :: u32 where "CLKGEN_A_1_MAX \<equiv> 125"
abbreviation (input) CLKGEN_B_0_MAX :: u32 where "CLKGEN_B_0_MAX \<equiv> 450"
abbreviation (input) CLKGEN_C_0_MAX :: u32 where "CLKGEN_C_0_MAX \<equiv> 300"
abbreviation (input) CLKGEN_HBM_MAX :: u32 where "CLKGEN_HBM_MAX \<equiv> 450"

record clkgen_recipe =
  rcp_mult :: u32
  rcp_mult_frac :: u32
  rcp_div :: u32
  rcp_div0 :: u32
  rcp_div0_frac :: u32
  rcp_div1 :: u32
  rcp_div2 :: u32

text \<open>The four \<open>struct fpga_clkgen_group\<close>, each an array of \<open>FPGA_CLKGEN_GROUP_CLKS_MAX\<close> doubles.\<close>

record fpga_clkgen_info =
  clock_group_a :: "c_double list"
  clock_group_b :: "c_double list"
  clock_group_c :: "c_double list"
  clock_group_hbm :: "c_double list"

section \<open>Tables\<close>

text \<open>Columns: frequency, shared multiplier, shared divider, multiplier fraction, divider 0 and its fraction.\<close>

definition FREQ_TABLE :: "u32 list list" where
  "FREQ_TABLE = [
     [87, 8, 1, 750, 10, 0],
     [97, 9, 1, 750, 10, 0],
     [100, 12, 1, 0, 12, 0],
     [109, 10, 1, 875, 10, 0],
     [125, 11, 1, 875, 9, 500],
     [136, 13, 1, 625, 10, 0],
     [150, 12, 1, 0, 8, 0],
     [156, 15, 1, 625, 10, 0],
     [166, 16, 1, 625, 10, 0],
     [171, 17, 1, 125, 10, 0],
     [177, 17, 1, 750, 10, 0],
     [182, 18, 1, 250, 10, 0],
     [187, 18, 1, 750, 10, 0],
     [196, 19, 1, 625, 10, 0],
     [200, 12, 1, 0, 6, 0],
     [218, 21, 1, 750, 10, 0],
     [227, 22, 1, 750, 10, 0],
     [250, 11, 1, 875, 4, 750],
     [265, 26, 2, 500, 5, 0],
     [266, 8, 1, 0, 3, 0],
     [273, 27, 2, 250, 5, 0],
     [291, 29, 2, 0, 5, 0],
     [300, 12, 1, 0, 4, 0],
     [318, 31, 2, 750, 5, 0],
     [333, 10, 1, 0, 3, 0],
     [343, 34, 4, 250, 2, 500],
     [364, 36, 4, 750, 2, 500],
     [375, 37, 4, 500, 2, 500],
     [400, 12, 1, 0, 3, 0],
     [405, 20, 1, 250, 5, 0],
     [410, 20, 1, 500, 5, 0],
     [415, 20, 1, 750, 5, 0],
     [420, 21, 1, 0, 5, 0],
     [425, 21, 1, 250, 5, 0],
     [430, 21, 1, 500, 5, 0],
     [435, 21, 1, 750, 5, 0],
     [437, 43, 4, 625, 2, 500],
     [440, 22, 1, 0, 5, 0],
     [445, 22, 1, 250, 5, 0],
     [450, 11, 1, 250, 2, 500],
     [458, 45, 4, 750, 2, 500],
     [500, 15, 1, 0, 3, 0]]"

definition recipe :: "u32 \<Rightarrow> u32 \<Rightarrow> u32 \<Rightarrow> u32 \<Rightarrow> u32 \<Rightarrow> u32 \<Rightarrow> u32 \<Rightarrow> clkgen_recipe" where
  "recipe mul mul_frac dv dv0 dv0_frac dv1 dv2 = \<lparr>rcp_mult = mul, rcp_mult_frac = mul_frac, rcp_div = dv,
     rcp_div0 = dv0, rcp_div0_frac = dv0_frac, rcp_div1 = dv1, rcp_div2 = dv2\<rparr>"

definition clkgen_a_recipes :: "clkgen_recipe list" where
  "clkgen_a_recipes = [
     recipe 15 0 1 24 0 8 6,
     recipe 15 0 1 12 0 4 3,
     recipe 12 500 1 80 0 10 20]"

definition clkgen_b_recipes :: "clkgen_recipe list" where
  "clkgen_b_recipes = [
     recipe 12 500 1 5 0 10 1,
     recipe 11 875 1 9 500 19 1,
     recipe 11 250 1 2 500 5 1,
     recipe 11 875 1 4 750 19 1,
     recipe 12 0 1 4 0 16 1,
     recipe 12 0 1 3 0 12 1]"

definition clkgen_c_recipes :: "clkgen_recipe list" where
  "clkgen_c_recipes = [
     recipe 12 0 1 4 0 3 1,
     recipe 12 0 1 8 0 6 1,
     recipe 12 0 1 16 0 12 1,
     recipe 8 0 1 4 0 3 1]"

definition clkgen_hbm_recipes :: "clkgen_recipe list" where
  "clkgen_hbm_recipes = [
     recipe 12 500 1 5 0 1 1,
     recipe 11 875 1 9 500 1 1,
     recipe 11 250 1 2 500 1 1,
     recipe 12 0 1 4 0 1 1,
     recipe 12 0 1 3 0 1 1]"

section \<open>One clock group\<close>

definition aws_clkgen_mmcm_init :: "'h platform \<Rightarrow> int \<Rightarrow> (('h, 'z) clk_st_scheme, unit) prog" where
  "aws_clkgen_mmcm_init P h =
     bindE (mmcm_init P clkgen_group_a h) (\<lambda>_.
     bindE (mmcm_init P clkgen_group_b h) (\<lambda>_.
     bindE (mmcm_init P clkgen_group_c h) (\<lambda>_.
     mmcm_init P clkgen_group_hbm h)))"

definition shared_freq :: "u32 \<Rightarrow> u32 \<Rightarrow> u32 \<Rightarrow> c_double" where
  "shared_freq mul mul_frac dv =
     d_div (d_mult (Fin 100) (d_add (double_of_u32 mul) (d_div (double_of_u32 mul_frac) (Fin 1000)))) (double_of_u32 dv)"

definition clock_freq :: "c_double \<Rightarrow> u32 \<Rightarrow> u32 \<Rightarrow> c_double" where
  "clock_freq shared dv div_frac =
     d_div shared (d_add (double_of_u32 dv) (d_div (double_of_u32 div_frac) (Fin 1000)))"

text \<open>The array of the caller is filled as far as the function gets; the code is returned beside it.\<close>

fun get_freq_loop ::
  "'h platform \<Rightarrow> fpga_clkgen_mmcm_group \<Rightarrow> c_double \<Rightarrow> nat list \<Rightarrow> c_double list
    \<Rightarrow> (('h, 'z) clk_st_scheme, int \<times> c_double list) prog" where
  "get_freq_loop P grp shared [] cfg = ok (0, cfg)"
| "get_freq_loop P grp shared (i # is) cfg =
     bindE (attempt (mmcm_get_clk_div P grp i)) (\<lambda>r.
     case r of
       Inl e \<Rightarrow> ok (e, cfg)
     | Inr (dv, div_frac) \<Rightarrow> get_freq_loop P grp shared is (cfg[i := clock_freq shared dv div_frac]))"

definition aws_clkgen_get_freq ::
  "'h platform \<Rightarrow> fpga_clkgen_mmcm_group \<Rightarrow> c_double list \<Rightarrow> nat
    \<Rightarrow> (('h, 'z) clk_st_scheme, int \<times> c_double list) prog" where
  "aws_clkgen_get_freq P grp cfg n =
     (if n < 1 \<or> FPGA_CLKGEN_GROUP_CLKS_MAX < n then ok (FPGA_ERR_SOFTWARE_PROBLEM, cfg)
      else
        bindE (mmcm_clk_avail_any grp) (\<lambda>any.
        if \<not> any then ok (0, cfg)
        else
          bindE (attempt (mmcm_get_shared_clock P grp)) (\<lambda>r.
          case r of
            Inl e \<Rightarrow> ok (e, cfg)
          | Inr (mul, mul_frac, dv) \<Rightarrow> get_freq_loop P grp (shared_freq mul mul_frac dv) [0..<n] cfg)))"

text \<open>The loop of \<open>aws_clkgen_set_mmcm\<close> over the dividers.\<close>

fun set_divs_loop ::
  "'h platform \<Rightarrow> fpga_clkgen_mmcm_group \<Rightarrow> (nat \<times> u32 \<times> u32) list \<Rightarrow> (('h, 'z) clk_st_scheme, unit) prog" where
  "set_divs_loop P grp [] = ok ()"
| "set_divs_loop P grp ((i, dv, div_frac) # ds) =
     bindE (mmcm_clk_avail grp i) (\<lambda>avail.
     bindE (if avail then mmcm_set_clk_div P grp i dv div_frac else ok ()) (\<lambda>_.
     set_divs_loop P grp ds))"

definition aws_clkgen_set_mmcm ::
  "'h platform \<Rightarrow> fpga_clkgen_mmcm_group \<Rightarrow> clkgen_recipe \<Rightarrow> u32 \<Rightarrow> (('h, 'z) clk_st_scheme, unit) prog" where
  "aws_clkgen_set_mmcm P grp r reset =
     bindE (mmcm_clk_avail_any grp) (\<lambda>any.
     if \<not> any then ok ()
     else
       bindE (if reset = 0 then
           bindE (mmcm_set_shared_clock P grp (rcp_mult r) (rcp_mult_frac r) (rcp_div r)) (\<lambda>_.
           set_divs_loop P grp [(0, rcp_div0 r, rcp_div0_frac r), (1, rcp_div1 r, 0), (2, rcp_div2 r, 0)])
         else ok ()) (\<lambda>_.
       bindE (mmcm_wait_for_locked P grp) (\<lambda>_.
       bindE (mmcm_load_cfg P grp reset) (\<lambda>_.
       mmcm_wait_for_locked P grp))))"

text \<open>The search from the last row down; the index is 0 when no row fits.\<close>

fun freq_index :: "u32 \<Rightarrow> nat \<Rightarrow> nat" where
  "freq_index req_freq 0 = 0"
| "freq_index req_freq (Suc i) = (if FREQ_TABLE ! i ! 0 \<le> req_freq then i else freq_index req_freq i)"

definition table_recipe :: "nat \<Rightarrow> clkgen_recipe" where
  "table_recipe idx = (let row = FREQ_TABLE ! idx
     in recipe (row ! 1) (row ! 3) (row ! 2) (row ! 4) (row ! 5) 0xF 0xF)"

definition aws_clkgen_set_freq ::
  "'h platform \<Rightarrow> fpga_clkgen_mmcm_group \<Rightarrow> u32 \<Rightarrow> u32 \<Rightarrow> (('h, 'z) clk_st_scheme, unit) prog" where
  "aws_clkgen_set_freq P grp req_freq reset =
     bindE (fail_on (reset = 0 \<and> req_freq < FREQ_TABLE ! 0 ! 0) FPGA_ERR_INVALID_CLKGEN_INPUTS) (\<lambda>_.
     aws_clkgen_set_mmcm P grp
       (if reset = 0 then table_recipe (freq_index req_freq AWS_CLKGEN_TABLE_ROWS) else recipe 0 0 0 0 0 0 0) reset)"

section \<open>Resets and identification\<close>

text \<open>
  When the lock does not come, \<open>rc\<close> is that of the last read, which is 0: the function leaves
  without releasing the resets and reports success.
\<close>

definition aws_clkgen_reset :: "'h platform \<Rightarrow> int \<Rightarrow> u32 \<Rightarrow> (('h, 'z) clk_st_scheme, unit) prog" where
  "aws_clkgen_reset P h reset =
     bindE (fpga_pci_poke P h AWS_CLKGEN_GRST_REG 0) (\<lambda>_.
     bindE (if reset = 0 then
         bindE mmcm_get_expected_lock_mask (\<lambda>lock_mask.
         clkgen_poll P h AWS_CLKGEN_LOCK_REG (\<lambda>v. v AND lock_mask = lock_mask) MAX_CLKGEN_LOOP_RETRIES)
       else ok True) (\<lambda>go_on.
     if go_on then fpga_pci_poke P h AWS_CLKGEN_SYSRST_REG (if reset \<noteq> 0 then 0xFFFFFFFF else 0)
     else ok ()))"

definition aws_clkgen_check_id :: "'h platform \<Rightarrow> int \<Rightarrow> (('h, 'z) clk_st_scheme, unit) prog" where
  "aws_clkgen_check_id P h =
     bindE (fpga_pci_peek P h AWS_CLKGEN_ID_REG) (\<lambda>id_reg.
     bindE (fail_on (id_reg \<noteq> AWS_CLKGEN_ID) 1) (\<lambda>_.
     bindE (fpga_pci_peek P h AWS_CLKGEN_VER_REG) (\<lambda>ver_reg.
     bindE (fail_on (ver_reg \<noteq> AWS_CLKGEN_VER) 1) (\<lambda>_.
     bindE (fpga_pci_peek P h AWS_CLKGEN_BLD_REG) (\<lambda>bld_reg.
     fail_on (bld_reg \<noteq> AWS_CLKGEN_BLD) 1)))))"

section \<open>The calls\<close>

text \<open>
  What every call has around its own part: attach, initialise, check the ids, and at \<open>out\<close> detach the
  handle if there is one. The result of the detach is not looked at.
\<close>

definition clkgen_session ::
  "'h platform \<Rightarrow> int \<Rightarrow> (int \<Rightarrow> (('h, 'z) clk_st_scheme, 'a) prog) \<Rightarrow> (('h, 'z) clk_st_scheme, 'a) prog" where
  "clkgen_session P slot_id body =
     bindE (fpga_pci_attach P slot_id AWS_CLKGEN_PF AWS_CLKGEN_BAR 0) (\<lambda>h.
     bindE (attempt (bindE (aws_clkgen_mmcm_init P h) (\<lambda>_.
       bindE (or_code (aws_clkgen_check_id P h) FPGA_ERR_CLKGEN_NOT_FOUND) (\<lambda>_.
       body h)))) (\<lambda>r.
     bindE (if h \<noteq> PCI_BAR_HANDLE_INIT then bindE (attempt (fpga_pci_detach P h)) (\<lambda>_. ok ()) else ok ()) (\<lambda>_.
     case r of Inl e \<Rightarrow> fail e | Inr a \<Rightarrow> ok a)))"

text \<open>The groups in order; the function stops at the first that fails.\<close>

definition clkgen_get_all ::
  "'h platform \<Rightarrow> fpga_clkgen_info \<Rightarrow> (('h, 'z) clk_st_scheme, int \<times> fpga_clkgen_info) prog" where
  "clkgen_get_all P info =
     bindE (aws_clkgen_get_freq P clkgen_group_a (clock_group_a info) FPGA_CLKGEN_GROUP_A_CLKS) (\<lambda>(rc, cs).
     let info = info\<lparr>clock_group_a := cs\<rparr> in
     if rc \<noteq> 0 then ok (rc, info)
     else bindE (aws_clkgen_get_freq P clkgen_group_b (clock_group_b info) FPGA_CLKGEN_GROUP_B_CLKS) (\<lambda>(rc, cs).
     let info = info\<lparr>clock_group_b := cs\<rparr> in
     if rc \<noteq> 0 then ok (rc, info)
     else bindE (aws_clkgen_get_freq P clkgen_group_c (clock_group_c info) FPGA_CLKGEN_GROUP_C_CLKS) (\<lambda>(rc, cs).
     let info = info\<lparr>clock_group_c := cs\<rparr> in
     if rc \<noteq> 0 then ok (rc, info)
     else bindE (aws_clkgen_get_freq P clkgen_group_hbm (clock_group_hbm info) FPGA_CLKGEN_GROUP_HBM_CLKS) (\<lambda>(rc, cs).
     ok (rc, info\<lparr>clock_group_hbm := cs\<rparr>)))))"

definition aws_clkgen_get_dynamic ::
  "'h platform \<Rightarrow> int \<Rightarrow> fpga_clkgen_info \<Rightarrow> (('h, 'z) clk_st_scheme, int \<times> fpga_clkgen_info) prog" where
  "aws_clkgen_get_dynamic P slot_id info =
     bindE (attempt (clkgen_session P slot_id (\<lambda>h. clkgen_get_all P info))) (\<lambda>r.
     case r of Inl e \<Rightarrow> ok (e, info) | Inr x \<Rightarrow> ok x)"

definition aws_clkgen_set_recipe ::
  "'h platform \<Rightarrow> int \<Rightarrow> u32 \<Rightarrow> u32 \<Rightarrow> u32 \<Rightarrow> u32 \<Rightarrow> u32 \<Rightarrow> (('h, 'z) clk_st_scheme, unit) prog" where
  "aws_clkgen_set_recipe P slot_id recipe_a recipe_b recipe_c recipe_hbm reset =
     bindE (fail_on (reset = 0 \<and> (CLKGEN_A_RECIPE_TABLE_ROWS \<le> recipe_a \<or> CLKGEN_B_RECIPE_TABLE_ROWS \<le> recipe_b \<or>
       CLKGEN_C_RECIPE_TABLE_ROWS \<le> recipe_c \<or> CLKGEN_HBM_RECIPE_TABLE_ROWS \<le> recipe_hbm))
       FPGA_ERR_INVALID_CLKGEN_INPUTS) (\<lambda>_.
     let index = (\<lambda>recipe. if reset = 0 then unat recipe else 0) in
     clkgen_session P slot_id (\<lambda>h.
       bindE (aws_clkgen_reset P h 1) (\<lambda>_.
       bindE (aws_clkgen_set_mmcm P clkgen_group_a (clkgen_a_recipes ! index recipe_a) reset) (\<lambda>_.
       bindE (aws_clkgen_set_mmcm P clkgen_group_b (clkgen_b_recipes ! index recipe_b) reset) (\<lambda>_.
       bindE (aws_clkgen_set_mmcm P clkgen_group_c (clkgen_c_recipes ! index recipe_c) reset) (\<lambda>_.
       bindE (aws_clkgen_set_mmcm P clkgen_group_hbm (clkgen_hbm_recipes ! index recipe_hbm) reset) (\<lambda>_.
       aws_clkgen_reset P h 0)))))))"

definition aws_clkgen_set_dynamic ::
  "'h platform \<Rightarrow> int \<Rightarrow> u32 \<Rightarrow> u32 \<Rightarrow> u32 \<Rightarrow> u32 \<Rightarrow> u32 \<Rightarrow> (('h, 'z) clk_st_scheme, unit) prog" where
  "aws_clkgen_set_dynamic P slot_id clk_a clk_b clk_c clk_hbm reset =
     bindE (fail_on (reset = 0 \<and> (CLKGEN_A_1_MAX < clk_a \<or> CLKGEN_B_0_MAX < clk_b \<or> CLKGEN_C_0_MAX < clk_c \<or>
       CLKGEN_HBM_MAX < clk_hbm)) FPGA_ERR_INVALID_CLKGEN_INPUTS) (\<lambda>_.
     let freq = (\<lambda>clk. if reset = 0 then clk else 0) in
     clkgen_session P slot_id (\<lambda>h.
       bindE (aws_clkgen_reset P h 1) (\<lambda>_.
       bindE (aws_clkgen_set_freq P clkgen_group_a (freq clk_a) reset) (\<lambda>_.
       bindE (aws_clkgen_set_freq P clkgen_group_b (freq clk_b) reset) (\<lambda>_.
       bindE (aws_clkgen_set_freq P clkgen_group_c (freq clk_c) reset) (\<lambda>_.
       bindE (aws_clkgen_set_freq P clkgen_group_hbm (freq clk_hbm) reset) (\<lambda>_.
       aws_clkgen_reset P h 0)))))))"

definition aws_clkgen_deassert_resets :: "'h platform \<Rightarrow> int \<Rightarrow> (('h, 'z) clk_st_scheme, unit) prog" where
  "aws_clkgen_deassert_resets P slot_id = clkgen_session P slot_id (\<lambda>h. aws_clkgen_reset P h 0)"

definition aws_clkgen_reset_toggle :: "'h platform \<Rightarrow> int \<Rightarrow> (('h, 'z) clk_st_scheme, unit) prog" where
  "aws_clkgen_reset_toggle P slot_id = clkgen_session P slot_id (\<lambda>h.
     bindE (aws_clkgen_reset P h 1) (\<lambda>_. aws_clkgen_reset P h 0))"

section \<open>The BAR is released\<close>

lemma leaves_bars_clkgen_init [leaves_intros]: "leaves bars (aws_clkgen_mmcm_init P h)"
  unfolding aws_clkgen_mmcm_init_def by (intro leaves_intros)

lemma leaves_check_id [leaves_intros]: "plat_free f \<Longrightarrow> leaves f (aws_clkgen_check_id P h)"
  unfolding aws_clkgen_check_id_def by (intro leaves_intros; assumption)

lemma leaves_clkgen_reset [leaves_intros]: "plat_free f \<Longrightarrow> leaves f (aws_clkgen_reset P h reset)"
  unfolding aws_clkgen_reset_def by (intro leaves_intros; assumption)

lemma leaves_set_divs_loop [leaves_intros]: "plat_free f \<Longrightarrow> leaves f (set_divs_loop P grp ds)"
  by (induction P grp ds rule: set_divs_loop.induct) (auto intro!: leaves_intros)

lemma leaves_set_mmcm [leaves_intros]: "plat_free f \<Longrightarrow> leaves f (aws_clkgen_set_mmcm P grp r reset)"
  unfolding aws_clkgen_set_mmcm_def by (intro leaves_intros; assumption)

lemma leaves_set_freq [leaves_intros]: "plat_free f \<Longrightarrow> leaves f (aws_clkgen_set_freq P grp req reset)"
  unfolding aws_clkgen_set_freq_def by (intro leaves_intros; assumption)

lemma leaves_get_freq_loop [leaves_intros]: "plat_free f \<Longrightarrow> leaves f (get_freq_loop P grp shared is cfg)"
  by (induction P grp shared "is" cfg rule: get_freq_loop.induct) (auto intro!: leaves_intros)

lemma leaves_get_freq [leaves_intros]: "plat_free f \<Longrightarrow> leaves f (aws_clkgen_get_freq P grp cfg n)"
  unfolding aws_clkgen_get_freq_def by (intro leaves_intros; assumption)

lemma leaves_get_all [leaves_intros]: "plat_free f \<Longrightarrow> leaves f (clkgen_get_all P info)"
  unfolding clkgen_get_all_def Let_def by (intro leaves_intros; assumption)

lemma session_releases:
  assumes "sane_mappings P" and I: "bars_inv (bars s)" and body: "\<And>h. leaves bars (body h)"
  shows "bars (snd (clkgen_session P slot_id body s)) = bars s"
proof -
  obtain r t where a: "fpga_pci_attach P slot_id AWS_CLKGEN_PF AWS_CLKGEN_BAR 0 s = (r, t)" by fastforce
  let ?m = "\<lambda>h. bindE (aws_clkgen_mmcm_init P h) (\<lambda>_.
       bindE (or_code (aws_clkgen_check_id P h) FPGA_ERR_CLKGEN_NOT_FOUND) (\<lambda>_. body h))"
  have m: "leaves bars (?m h)" for h by (intro leaves_intros body plat_free_bars)
  show ?thesis
  proof (cases r)
    case (Inl e)
    then show ?thesis using attach_clean [OF a assms(1) I] a by (auto simp: clkgen_session_def prog_simps)
  next
    case (Inr h)
    obtain q u where q: "?m h t = (q, u)" by fastforce
    have u: "bars u = bars t" by (rule leavesD [OF m q])
    have rest: "snd (clkgen_session P slot_id body s) =
        (if h \<noteq> PCI_BAR_HANDLE_INIT then snd (fpga_pci_detach P h u) else u)"
      unfolding clkgen_session_def bindE_apply [of "fpga_pci_attach _ _ _ _ _"] a Inr
      by (simp add: bindE_apply [of "attempt _"] attempt_apply q)
        (auto simp: prog_simps split: sum.splits prod.splits)
    show ?thesis
    proof (cases "0 \<le> h")
      case False
      then show ?thesis using attach_clean [OF a assms(1) I] rest u Inr by auto
    next
      case True
      have "h < int FPGA_PCI_BARS_MAX"
        using attach_table [OF a [unfolded Inr] True I] first_free_Some [of "bars s" 0 "nat h"] I
        by (auto simp: bars_inv_def)
      with detach_sane [OF assms(1) True this, of u] obtain v where d: "fpga_pci_detach P h u = (Inr (), v)"
        by (metis prod.collapse)
      then show ?thesis
        using attach_detach_table [OF a [unfolded Inr] True I u d] rest True by simp
    qed
  qed
qed

lemma leaves_set_body:
  "leaves bars (bindE (aws_clkgen_reset P h 1) (\<lambda>_. bindE (aws_clkgen_set_mmcm P g1 r1 reset) (\<lambda>_.
     bindE (aws_clkgen_set_mmcm P g2 r2 reset) (\<lambda>_. bindE (aws_clkgen_set_mmcm P g3 r3 reset) (\<lambda>_.
     bindE (aws_clkgen_set_mmcm P g4 r4 reset) (\<lambda>_. aws_clkgen_reset P h 0))))))"
  "leaves bars (bindE (aws_clkgen_reset P h 1) (\<lambda>_. bindE (aws_clkgen_set_freq P g1 f1 reset) (\<lambda>_.
     bindE (aws_clkgen_set_freq P g2 f2 reset) (\<lambda>_. bindE (aws_clkgen_set_freq P g3 f3 reset) (\<lambda>_.
     bindE (aws_clkgen_set_freq P g4 f4 reset) (\<lambda>_. aws_clkgen_reset P h 0))))))"
  by (intro leaves_intros plat_free_bars)+

theorem clkgen_releases:
  assumes "sane_mappings P" and "bars_inv (bars s)"
  shows "bars (snd (aws_clkgen_get_dynamic P slot_id info s)) = bars s \<and>
    bars (snd (aws_clkgen_set_recipe P slot_id ra rb rc rh reset s)) = bars s \<and>
    bars (snd (aws_clkgen_set_dynamic P slot_id fa fb fc fh reset s)) = bars s \<and>
    bars (snd (aws_clkgen_deassert_resets P slot_id s)) = bars s \<and>
    bars (snd (aws_clkgen_reset_toggle P slot_id s)) = bars s"
proof (intro conjI)
  have get: "bars (snd (clkgen_session P slot_id (\<lambda>h. clkgen_get_all P info) s)) = bars s"
    by (intro session_releases [OF assms] leaves_intros plat_free_bars)
  show "bars (snd (aws_clkgen_get_dynamic P slot_id info s)) = bars s"
    using get by (auto simp: aws_clkgen_get_dynamic_def prog_simps split: prod.splits sum.splits)
  show "bars (snd (aws_clkgen_set_recipe P slot_id ra rb rc rh reset s)) = bars s"
    using session_releases [OF assms leaves_set_body(1)]
    by (simp add: aws_clkgen_set_recipe_def Let_def bindE_apply [of "fail_on _ _"] fail_on_apply)
  show "bars (snd (aws_clkgen_set_dynamic P slot_id fa fb fc fh reset s)) = bars s"
    using session_releases [OF assms leaves_set_body(2)]
    by (simp add: aws_clkgen_set_dynamic_def Let_def bindE_apply [of "fail_on _ _"] fail_on_apply)
  show "bars (snd (aws_clkgen_deassert_resets P slot_id s)) = bars s"
    "bars (snd (aws_clkgen_reset_toggle P slot_id s)) = bars s"
    unfolding aws_clkgen_deassert_resets_def aws_clkgen_reset_toggle_def
    by (intro session_releases [OF assms] leaves_intros plat_free_bars)+
qed

section \<open>The table of frequencies\<close>

definition table_freq :: "nat \<Rightarrow> nat" where
  "table_freq i = unat (FREQ_TABLE ! i ! 0)"

lemma freq_index_le: "freq_index req n \<le> n - 1"
  by (induction req n rule: freq_index.induct) auto

lemma freq_index_fits:
  "(\<exists>i < n. FREQ_TABLE ! i ! 0 \<le> req) \<Longrightarrow> FREQ_TABLE ! freq_index req n ! 0 \<le> req"
  by (induction req n rule: freq_index.induct) (auto simp: less_Suc_eq)

lemma freq_index_last:
  "i < n \<Longrightarrow> FREQ_TABLE ! i ! 0 \<le> req \<Longrightarrow> i \<le> freq_index req n"
  by (induction req n rule: freq_index.induct) (auto simp: less_Suc_eq)

lemma table_rows: "length FREQ_TABLE = AWS_CLKGEN_TABLE_ROWS" "FREQ_TABLE ! 0 ! 0 = 87"
  by (simp_all add: FREQ_TABLE_def)

lemma table_sorted: "sorted_wrt (<) (map (\<lambda>r. unat (r ! 0)) FREQ_TABLE)"
  by code_simp

theorem freq_index_greatest:
  assumes "FREQ_TABLE ! 0 ! 0 \<le> req"
  shows "freq_index req AWS_CLKGEN_TABLE_ROWS < AWS_CLKGEN_TABLE_ROWS \<and>
    table_freq (freq_index req AWS_CLKGEN_TABLE_ROWS) \<le> unat req \<and>
    (\<forall>j < AWS_CLKGEN_TABLE_ROWS. table_freq j \<le> unat req \<longrightarrow>
      table_freq j \<le> table_freq (freq_index req AWS_CLKGEN_TABLE_ROWS))"
proof -
  let ?i = "freq_index req AWS_CLKGEN_TABLE_ROWS"
  have i: "?i < AWS_CLKGEN_TABLE_ROWS" using freq_index_le [of req AWS_CLKGEN_TABLE_ROWS] by simp
  have le: "table_freq j \<le> unat req \<longleftrightarrow> FREQ_TABLE ! j ! 0 \<le> req" for j
    by (simp add: table_freq_def word_le_nat_alt)
  have fits: "table_freq ?i \<le> unat req"
    unfolding le by (rule freq_index_fits, rule exI [of _ 0]) (use assms in simp)
  have "table_freq j \<le> table_freq ?i" if "j < AWS_CLKGEN_TABLE_ROWS" "table_freq j \<le> unat req" for j
  proof (cases "j = ?i")
    case False
    moreover have "j \<le> ?i" using freq_index_last [OF that(1)] that(2) le by blast
    ultimately have "j < ?i" by simp
    then have "table_freq j < table_freq ?i"
      using sorted_wrt_nth_less [OF table_sorted, of j ?i] i that(1) by (simp add: table_rows table_freq_def)
    then show ?thesis by simp
  qed simp
  with i fits show ?thesis by blast
qed

text \<open>
  The frequency in MHz that a row programs is \<open>row_num / row_den\<close>: 100 MHz times the multiplier, by the
  shared divider and by divider 0, with the fractions in thousandths.
\<close>

definition row_num :: "nat \<Rightarrow> int" where
  "row_num i = 100 * (1000 * uint (FREQ_TABLE ! i ! 1) + uint (FREQ_TABLE ! i ! 3))"

definition row_den :: "nat \<Rightarrow> int" where
  "row_den i = uint (FREQ_TABLE ! i ! 2) * (1000 * uint (FREQ_TABLE ! i ! 4) + uint (FREQ_TABLE ! i ! 5))"

theorem table_frequencies:
  "[i \<leftarrow> [0..<AWS_CLKGEN_TABLE_ROWS]. row_den i < \<bar>row_num i - int (table_freq i) * row_den i\<bar>] = [26] \<and>
   table_freq 26 = 364 \<and> 2 * row_num 26 = 735 * row_den 26"
  by (intro conjI; code_simp)

end
