(* ===== verification/Returns.thy ===== *)
theory Returns
  imports Platform
begin

text \<open>
  Programs that may not return, for loops whose end depends on the data and for divisions by a value
  that may be zero: \<open>None\<close> stands for a call that never comes back. Also the loop over a list of
  indices that stops at the first failure.
\<close>

section \<open>Loops over a list\<close>

fun forE :: "'b list \<Rightarrow> ('b \<Rightarrow> ('s, unit) prog) \<Rightarrow> ('s, unit) prog" where
  "forE [] f = ok ()"
| "forE (x # xs) f = bindE (f x) (\<lambda>_. forE xs f)"

lemma forE_append: "forE (xs @ ys) f = bindE (forE xs f) (\<lambda>_. forE ys f)"
  by (induction xs) (auto simp: fun_eq_iff prog_simps split: prod.splits sum.splits)

lemma forE_map: "forE (map g xs) f = forE xs (\<lambda>x. f (g x))"
  by (induction xs) simp_all

lemma keeps_forE [keeps_intros]: "(\<And>x. x \<in> set xs \<Longrightarrow> keeps I (f x)) \<Longrightarrow> keeps I (forE xs f)"
  by (induction xs) (auto intro!: keeps_intros)

lemma leaves_forE [leaves_intros]: "(\<And>x. x \<in> set xs \<Longrightarrow> leaves v (f x)) \<Longrightarrow> leaves v (forE xs f)"
  by (induction xs) (auto intro!: leaves_intros)

section \<open>Calls that may not return\<close>

type_synonym ('s, 'a) run = "'s \<Rightarrow> ((int + 'a) \<times> 's) option"

definition returns :: "('s, 'a) prog \<Rightarrow> ('s, 'a) run" where
  "returns m s = Some (m s)"

definition never :: "('s, 'a) run" where
  "never s = None"

definition bindR :: "('s, 'a) run \<Rightarrow> ('a \<Rightarrow> ('s, 'b) run) \<Rightarrow> ('s, 'b) run" where
  "bindR m k s = (case m s of
     None \<Rightarrow> None
   | Some (Inl e, t) \<Rightarrow> Some (Inl e, t)
   | Some (Inr a, t) \<Rightarrow> k a t)"

named_theorems run_simps \<open>equations that execute calls on a given state\<close>

lemma returns_apply [run_simps]: "returns m s = Some (m s)"
  by (rule returns_def)

lemma never_apply [run_simps]: "never s = None"
  by (rule never_def)

lemma bindR_apply [run_simps]: "bindR m k s = (case m s of
     None \<Rightarrow> None
   | Some (Inl e, t) \<Rightarrow> Some (Inl e, t)
   | Some (Inr a, t) \<Rightarrow> k a t)"
  by (rule bindR_def)

lemma bindR_mono [partial_function_mono]:
  assumes m: "mono_option (\<lambda>f. m f s)" and k: "\<And>a t. mono_option (\<lambda>f. k f a t)"
  shows "mono_option (\<lambda>f. bindR (m f) (k f) s)"
proof -
  have b: "bindR (m f) (k f) s =
      Option.bind (m f s) (\<lambda>x. case fst x of Inl e \<Rightarrow> Some (Inl e, snd x) | Inr a \<Rightarrow> k f a (snd x))" for f
    by (auto simp: bindR_apply split: option.splits prod.splits sum.splits)
  have c: "mono_option (\<lambda>f. case fst x of Inl e \<Rightarrow> Some (Inl e, snd x) | Inr a \<Rightarrow> k f a (snd x))" for x
    using k by (cases "fst x") (auto intro: option.const_mono)
  show ?thesis unfolding b by (rule bind_mono [OF m c])
qed

lemma returns_bind [run_simps]: "bindR (returns m) k s = (case m s of
     (Inl e, t) \<Rightarrow> Some (Inl e, t)
   | (Inr a, t) \<Rightarrow> k a t)"
  by (simp add: bindR_apply returns_apply split: prod.splits sum.splits)

text \<open>Cases in a recursion.\<close>

lemma if_run_mono [partial_function_mono]:
  "mono_option (\<lambda>f. m f s) \<Longrightarrow> mono_option (\<lambda>f. k f s) \<Longrightarrow> mono_option (\<lambda>f. (if b then m f else k f) s)"
  by (cases b) simp_all

lemma case_sum_run_mono [partial_function_mono]:
  "(\<And>e. mono_option (\<lambda>f. m f e s)) \<Longrightarrow> (\<And>a. mono_option (\<lambda>f. k f a s)) \<Longrightarrow>
    mono_option (\<lambda>f. (case x of Inl e \<Rightarrow> m f e | Inr a \<Rightarrow> k f a) s)"
  by (cases x) simp_all

end
