(* ===== verification/Refines.thy ===== *)
theory Refines
  imports Returns
begin

text \<open>
  Refinement of programs by functions of a view of the platform, such as the register file of a device
  or a block of memory: in states that satisfy a condition, the program returns a function of the view,
  changes the view by another, and changes nothing but the platform.
\<close>

section \<open>Refinement of programs by functions of a view\<close>

definition refines ::
  "(('h, 'z) pci_st_scheme \<Rightarrow> bool) \<Rightarrow> ('h \<Rightarrow> 'r) \<Rightarrow> (('h, 'z) pci_st_scheme, 'a) prog \<Rightarrow> ('r \<Rightarrow> 'a) \<Rightarrow> ('r \<Rightarrow> 'r) \<Rightarrow> bool"
  where
  "refines R view m res upd \<longleftrightarrow> (\<forall>s. R s \<longrightarrow> (\<exists>p. m s = (Inr (res (view (plat s))), s\<lparr>plat := p\<rparr>) \<and>
     view p = upd (view (plat s))))"

text \<open>Conditions that do not look at the platform.\<close>

definition plat_blind :: "(('h, 'z) pci_st_scheme \<Rightarrow> bool) \<Rightarrow> bool" where
  "plat_blind R \<longleftrightarrow> (\<forall>s p. R (s\<lparr>plat := p\<rparr>) = R s)"

named_theorems refines_intros \<open>rules for refinements by functions of the registers\<close>

lemma refinesD:
  assumes "refines R view m res upd" and "R s"
  obtains p where "m s = (Inr (res (view (plat s))), s\<lparr>plat := p\<rparr>)" "view p = upd (view (plat s))"
  using assms by (auto simp: refines_def)

lemma refines_ok [refines_intros]: "refines R view (ok a) (\<lambda>_. a) id"
  unfolding refines_def ok_apply by (metis id_apply old.unit.exhaust pci_st.surjective pci_st.update_convs(2))

lemma refines_gets [refines_intros]: "(\<And>s. R s \<Longrightarrow> f s = a) \<Longrightarrow> refines R view (gets f) (\<lambda>_. a) id"
  using refines_ok [of R view a] by (simp add: refines_def gets_apply ok_apply)

lemma refines_fail_on [refines_intros]: "\<not> c \<Longrightarrow> refines R view (fail_on c e) (\<lambda>_. ()) id"
  using refines_ok [of R view "()"] by (simp add: fail_on_def)

lemma refines_const:
  fixes R :: "('h, 'z) pci_st_scheme \<Rightarrow> bool"
  assumes "\<And>s. m s = (Inr a, s)"
  shows "refines R view m (\<lambda>_. a) id"
  using refines_ok [of R view a] unfolding refines_def ok_apply assms .

text \<open>A step whose result is known, and a step that only reads.\<close>

lemma refines_step:
  assumes "plat_blind R" and "refines R view m (\<lambda>_. a) f" and "refines R view (k a) res g"
  shows "refines R view (bindE m k) (res \<circ> f) (g \<circ> f)"
  unfolding refines_def
proof (intro allI impI)
  fix s assume R: "R s"
  obtain p where p: "m s = (Inr a, s\<lparr>plat := p\<rparr>)" "view p = f (view (plat s))"
    by (rule refinesD [OF assms(2) R])
  have "R (s\<lparr>plat := p\<rparr>)" using R assms(1) by (simp add: plat_blind_def)
  obtain p' where "k a (s\<lparr>plat := p\<rparr>) = (Inr (res (view p)), s\<lparr>plat := p'\<rparr>)" "view p' = g (view p)"
    by (rule refinesD [OF assms(3) \<open>R (s\<lparr>plat := p\<rparr>)\<close>]) simp
  then show "\<exists>p. bindE m k s = (Inr ((res \<circ> f) (view (plat s))), s\<lparr>plat := p\<rparr>) \<and> view p = (g \<circ> f) (view (plat s))"
    using p by (auto simp: bindE_apply)
qed

lemma refines_bind:
  assumes "plat_blind R" and "refines R view m x f" and "\<And>r. refines R view (k (x r)) (res r) (upd r)"
  shows "refines R view (bindE m k) (\<lambda>r. res r (f r)) (\<lambda>r. upd r (f r))"
  unfolding refines_def
proof (intro allI impI)
  fix s assume R: "R s"
  let ?r = "view (plat s)"
  obtain p where p: "m s = (Inr (x ?r), s\<lparr>plat := p\<rparr>)" "view p = f ?r"
    using refinesD [OF assms(2) R] by auto
  have "R (s\<lparr>plat := p\<rparr>)" using R assms(1) by (simp add: plat_blind_def)
  obtain p' where "k (x ?r) (s\<lparr>plat := p\<rparr>) = (Inr (res ?r (view p)), s\<lparr>plat := p'\<rparr>)" "view p' = upd ?r (view p)"
    by (rule refinesD [OF assms(3) \<open>R (s\<lparr>plat := p\<rparr>)\<close>]) simp
  then show "\<exists>p. bindE m k s = (Inr (res ?r (f ?r)), s\<lparr>plat := p\<rparr>) \<and> view p = upd ?r (f ?r)"
    using p by (auto simp: bindE_apply)
qed

lemma refines_read:
  assumes "plat_blind R" and "refines R view m x id" and "\<And>r. refines R view (k (x r)) (res r) (upd r)"
  shows "refines R view (bindE m k) (\<lambda>r. res r r) (\<lambda>r. upd r r)"
  using refines_bind [of R view m x id k res upd, OF assms] by simp

text \<open>The same, for programs whose results are known, in the form the collection applies.\<close>

lemma refines_then [refines_intros]:
  "plat_blind R \<Longrightarrow> refines R view m (\<lambda>_. a) f \<Longrightarrow> refines R view (k a) (\<lambda>_. b) g \<Longrightarrow>
    refines R view (bindE m k) (\<lambda>_. b) (\<lambda>r. g (f r))"
  using refines_step [of R view m a f k "\<lambda>_. b" g] by (simp add: comp_def)

lemma refines_cong:
  "refines R view m res upd \<Longrightarrow> (\<And>r. res r = res' r) \<Longrightarrow> (\<And>r. upd r = upd' r) \<Longrightarrow> refines R view m res' upd'"
  by (simp add: refines_def)

lemma refines_if [refines_intros]:
  "(c \<Longrightarrow> refines R view m res upd) \<Longrightarrow> (\<not> c \<Longrightarrow> refines R view m' res upd) \<Longrightarrow>
    refines R view (if c then m else m') res upd"
  by simp

text \<open>A read of the state before a program that depends on it.\<close>

lemma refines_gets_bind:
  assumes "\<And>s. R s \<Longrightarrow> \<exists>p. k (f s) s = (Inr (res (view (plat s))), s\<lparr>plat := p\<rparr>) \<and> view p = upd (view (plat s))"
  shows "refines R view (bindE (gets f) k) res upd"
  using assms by (simp add: refines_def bindE_apply gets_apply)

lemma refines_forE:
  assumes "plat_blind R" and "\<And>x. x \<in> set xs \<Longrightarrow> refines R view (f x) (\<lambda>_. ()) (g x)"
  shows "refines R view (forE xs f) (\<lambda>_. ()) (fold g xs)"
  using assms(2)
proof (induction xs)
  case Nil
  show ?case unfolding forE.simps by (rule refines_cong [OF refines_ok]) simp_all
next
  case (Cons x xs)
  show ?case
    unfolding forE.simps
    by (rule refines_cong, rule refines_then [OF assms(1)], rule Cons.prems, simp, rule Cons.IH, rule Cons.prems)
      simp_all
qed

lemma refines_on_plat:
  assumes "\<And>h. fst (f h) = x (view h)" and "\<And>h. view (snd (f h)) = upd (view h)"
  shows "refines R view (on_plat f) x upd"
  unfolding refines_def on_plat_apply using assms by (auto simp: case_prod_beta)

section \<open>Failures\<close>

lemma refines_attempt:
  "refines R view m res upd \<Longrightarrow> refines R view (attempt m) (\<lambda>r. Inr (res r)) upd"
  unfolding refines_def attempt_apply by fastforce

text \<open>A program that fails after others that succeed.\<close>

lemma refines_attempt_fail: "refines R view (attempt (fail e :: (('h, 'z) pci_st_scheme, 'a) prog)) (\<lambda>_. Inl e) id"
  unfolding refines_def attempt_apply fail_apply
  by simp (metis old.unit.exhaust pci_st.surjective pci_st.update_convs(2))

lemma refines_attempt_bind:
  assumes "plat_blind R" and "refines R view m (\<lambda>_. a) f" and "refines R view (attempt (k a)) res g"
  shows "refines R view (attempt (bindE m k)) (\<lambda>r. res (f r)) (\<lambda>r. g (f r))"
proof -
  have "attempt (bindE m k) s = bindE m (\<lambda>x. attempt (k x)) s" if "refines R view m (\<lambda>_. a) f" "R s" for s
    by (rule refinesD [OF that]) (simp add: attempt_apply bindE_apply)
  then have "refines R view (attempt (bindE m k)) = refines R view (bindE m (\<lambda>x. attempt (k x)))"
    using assms(2) by (simp add: refines_def fun_eq_iff cong: conj_cong)
  then show ?thesis
    using refines_step [OF assms(1,2), of "\<lambda>x. attempt (k x)" res g] assms(3) by (simp add: comp_def)
qed

end
