(* ===== verification/Clkgen_Device.thy ===== *)
theory Clkgen_Device
  imports Clkgen Refines
begin

text \<open>
  What the clock library does to the registers of AWS_CLK_GEN. On a device that keeps its
  configuration registers and locks in time, every operation is a function of the register file; the
  theorems relate the recipes that are programmed to the frequencies that are read back, and say what
  happens when the lock does not come.
\<close>

section \<open>The device\<close>

definition grp_base :: "fpga_clkgen_mmcm_group \<Rightarrow> u64" where
  "grp_base g = mmcm_base_offset (mmcm_layout g zero_mmcm)"

definition grp_clocks :: "fpga_clkgen_mmcm_group \<Rightarrow> nat" where
  "grp_clocks g = unat (num_clocks (mmcm_layout g zero_mmcm))"

definition grp_lock :: "fpga_clkgen_mmcm_group \<Rightarrow> u32" where
  "grp_lock g = lock_bit (mmcm_layout g zero_mmcm)"

text \<open>One round of a waiting loop, seen from the platform: a look at \<open>a\<close> and a nap.\<close>

definition look_and_nap :: "'h platform \<Rightarrow> u64 \<Rightarrow> 'h \<Rightarrow> 'h" where
  "look_and_nap P a h = k_nanosleep P AWS_CLKGEN_LOOP_DELAY_MS (snd (m_load32 P h a))"

definition reads_in_time :: "'h platform \<Rightarrow> u64 \<Rightarrow> (u32 \<Rightarrow> bool) \<Rightarrow> bool" where
  "reads_in_time P a test \<longleftrightarrow>
     (\<forall>h. \<exists>k < MAX_CLKGEN_LOOP_RETRIES. test (fst (m_load32 P ((look_and_nap P a ^^ k) h) a)))"

text \<open>
  An AWS_CLK_GEN block at \<open>base\<close> with all clocks: \<open>view\<close> is its register file, which loads and sleeps
  leave alone and stores update; the configuration registers read as they are, the identification
  registers as the library expects, and the MMCMs lock within the time it waits.
\<close>

definition clkgen_device :: "'h platform \<Rightarrow> u64 \<Rightarrow> ('h \<Rightarrow> u64 \<Rightarrow> u32) \<Rightarrow> bool" where
  "clkgen_device P base view \<longleftrightarrow>
     (\<forall>h a. view (snd (m_load32 P h a)) = view h) \<and> (\<forall>h ms. view (k_nanosleep P ms h) = view h) \<and>
     (\<forall>h a n. view (snd (k_munmap P h a n)) = view h) \<and>
     (\<forall>h off v. unat off < 0x59000 \<longrightarrow> view (m_store32 P h (base + off) v) = (view h)(off := v)) \<and>
     (\<forall>h g r. r \<in> set (MMCM_MAIN_CFG_REG # init_cfg_regs) \<longrightarrow>
        fst (m_load32 P h (base + (grp_base g + r))) = view h (grp_base g + r)) \<and>
     (\<forall>h. fst (m_load32 P h (base + AWS_CLKGEN_ID_REG)) = AWS_CLKGEN_ID \<and>
        fst (m_load32 P h (base + AWS_CLKGEN_VER_REG)) = AWS_CLKGEN_VER \<and>
        fst (m_load32 P h (base + AWS_CLKGEN_BLD_REG)) = AWS_CLKGEN_BLD \<and>
        fst (m_load32 P h (base + AWS_CLKGEN_CLKS_AVAIL)) = 0x1FF) \<and>
     (\<forall>g. reads_in_time P (base + (grp_base g + MMCM_STATUS_REG)) (\<lambda>v. v = MMCM_STATUS_LOCKED)) \<and>
     reads_in_time P (base + AWS_CLKGEN_LOCK_REG) (\<lambda>v. v AND 0x151 = 0x151)"

text \<open>The records after \<open>mmcm_init\<close> of such a device.\<close>

definition mmcm_shape :: "fpga_clkgen_mmcm \<Rightarrow> bool" where
  "mmcm_shape m \<longleftrightarrow> length (clk_avails m) = MAX_CLKS_IN_MMCM \<and> length (clk_cfg_regs m) = MAX_CLKS_IN_MMCM \<and>
     length (clk_div_has_frac m) = MAX_CLKS_IN_MMCM"

definition mmcm_ready :: "int \<Rightarrow> fpga_clkgen_mmcm_group \<Rightarrow> fpga_clkgen_mmcm \<Rightarrow> bool" where
  "mmcm_ready h g m \<longleftrightarrow> mmcm_shape m \<and> mmcm_handle m = h \<and> mmcm_base_offset m = grp_base g \<and>
     unat (num_clocks m) = grp_clocks g \<and> any_clocks_available m \<noteq> 0 \<and> lock_bit m = grp_lock g \<and>
     (\<forall>i < grp_clocks g. clk_avails m ! i \<noteq> 0 \<and> clk_cfg_regs m ! i = init_cfg_regs ! i \<and>
        clk_div_has_frac m ! i = init_div_has_frac ! i)"

definition clkgen_ready :: "int \<Rightarrow> u64 \<Rightarrow> ('h, 'z) clk_st_scheme \<Rightarrow> bool" where
  "clkgen_ready h base s \<longleftrightarrow> region_mapped h base 0x59000 (bars s) \<and> (\<forall>g. mmcm_ready h g (get_mmcm g s))"

lemma ready_plat [simp]: "clkgen_ready h base (s\<lparr>plat := p\<rparr>) = clkgen_ready h base s"
  by (simp add: clkgen_ready_def)

lemma ready_blind [simp]: "plat_blind (clkgen_ready h base)"
  by (simp add: plat_blind_def clkgen_ready_def)

lemma grp_simps [simp]:
  "grp_base clkgen_group_a = 0x52000" "grp_base clkgen_group_b = 0x50000"
  "grp_base clkgen_group_c = 0x51000" "grp_base clkgen_group_hbm = 0x54000"
  "grp_clocks clkgen_group_a = 3" "grp_clocks clkgen_group_b = 2" "grp_clocks clkgen_group_c = 2"
  "grp_clocks clkgen_group_hbm = 1" "grp_lock clkgen_group_a = 0" "grp_lock clkgen_group_b = 4"
  "grp_lock clkgen_group_c = 6" "grp_lock clkgen_group_hbm = 8"
  by (simp_all add: grp_base_def grp_clocks_def grp_lock_def)

text \<open>The offsets that are used.\<close>

lemma grp_offsets:
  "unat (grp_base g + MMCM_MAIN_CFG_REG) + 4 \<le> 0x59000" "unat (grp_base g + MMCM_LOAD_CFG_REG) + 4 \<le> 0x59000"
  "unat (grp_base g + MMCM_STATUS_REG) + 4 \<le> 0x59000"
  "i < grp_clocks g \<Longrightarrow> unat (grp_base g + init_cfg_regs ! i) + 4 \<le> 0x59000"
proof -
  show "unat (grp_base g + MMCM_MAIN_CFG_REG) + 4 \<le> 0x59000" "unat (grp_base g + MMCM_LOAD_CFG_REG) + 4 \<le> 0x59000"
    "unat (grp_base g + MMCM_STATUS_REG) + 4 \<le> 0x59000"
    by (cases g; simp)+
  assume "i < grp_clocks g"
  then have "i = 0 \<or> i = 1 \<or> i = 2" by (cases g) auto
  then show "unat (grp_base g + init_cfg_regs ! i) + 4 \<le> 0x59000"
    by (elim disjE; cases g) (simp_all add: init_cfg_regs_def)
qed

section \<open>The operations as functions of the registers\<close>

lemma clkgen_deviceD:
  assumes "clkgen_device P base view"
  shows "view (snd (m_load32 P h a)) = view h" "view (k_nanosleep P ms h) = view h"
    "view (snd (k_munmap P h a n)) = view h"
    "unat off < 0x59000 \<Longrightarrow> view (m_store32 P h (base + off) v) = (view h)(off := v)"
  using assms by (simp_all add: clkgen_device_def)

lemma device_accesses:
  assumes "clkgen_device P base view" and "clkgen_ready h base s" and "unat off + 4 \<le> 0x59000"
  obtains p q where "fpga_pci_peek P h off s = (Inr (fst (m_load32 P (plat s) (base + off))), s\<lparr>plat := p\<rparr>)"
    "view p = view (plat s)" "fpga_pci_poke P h off v s = (Inr (), s\<lparr>plat := q\<rparr>)"
    "view q = (view (plat s))(off := v)"
proof -
  have "region_mapped h base 0x59000 (bars s)" using assms(2) by (simp add: clkgen_ready_def)
  note r = region_accesses [OF this assms(3), of P]
  have "unat off < 0x59000" using assms(3) by simp
  then show thesis using that r clkgen_deviceD [OF assms(1)] by blast
qed

lemma poll_device:
  assumes "clkgen_device P base view" and "unat off + 4 \<le> 0x59000" and "clkgen_ready h base s"
    and "\<exists>k < n. test (fst (m_load32 P ((look_and_nap P (base + off) ^^ k) (plat s)) (base + off)))"
  shows "\<exists>p. clkgen_poll P h off test n s = (Inr True, s\<lparr>plat := p\<rparr>) \<and> view p = view (plat s)"
  using assms(3,4)
proof (induction n arbitrary: s)
  case (Suc n)
  obtain p q where peek: "fpga_pci_peek P h off s = (Inr (fst (m_load32 P (plat s) (base + off))), s\<lparr>plat := p\<rparr>)"
    and p: "view p = view (plat s)"
    by (rule device_accesses [OF assms(1) Suc.prems(1) assms(2)])
  have p': "p = snd (m_load32 P (plat s) (base + off))"
  proof -
    have "region_mapped h base 0x59000 (bars s)" using Suc.prems(1) by (simp add: clkgen_ready_def)
    from region_accesses(1) [OF this assms(2), of P] peek have "s\<lparr>plat := p\<rparr> = s\<lparr>plat := snd (m_load32 P (plat s) (base + off))\<rparr>"
      by simp
    then have "plat (s\<lparr>plat := p\<rparr>) = plat (s\<lparr>plat := snd (m_load32 P (plat s) (base + off))\<rparr>)" by (rule arg_cong)
    then show ?thesis by simp
  qed
  show ?case
  proof (cases "test (fst (m_load32 P (plat s) (base + off)))")
    case True
    then show ?thesis using peek p by (auto simp: bindE_apply ok_apply)
  next
    case False
    obtain k where k: "k < Suc n" "test (fst (m_load32 P ((look_and_nap P (base + off) ^^ k) (plat s)) (base + off)))"
      using Suc.prems(2) by blast
    with False obtain j where j: "k = Suc j" by (cases k) auto
    let ?h = "k_nanosleep P AWS_CLKGEN_LOOP_DELAY_MS p"
    have "?h = look_and_nap P (base + off) (plat s)" by (simp add: look_and_nap_def p')
    then have "\<exists>k < n. test (fst (m_load32 P ((look_and_nap P (base + off) ^^ k) ?h) (base + off)))"
      using k j by (auto simp: funpow_swap1)
    then have "\<exists>p'. clkgen_poll P h off test n (s\<lparr>plat := ?h\<rparr>) = (Inr True, s\<lparr>plat := ?h, plat := p'\<rparr>) \<and>
        view p' = view ?h"
      using Suc.IH [of "s\<lparr>plat := ?h\<rparr>"] Suc.prems(1) by simp
    then show ?thesis
      using False peek p clkgen_deviceD(2) [OF assms(1)] by (auto simp: bindE_apply ok_apply msleep_apply)
  qed
qed simp

lemma ready_mmcm:
  assumes "clkgen_ready h base s"
  shows "mmcm_handle (get_mmcm g s) = h" "mmcm_base_offset (get_mmcm g s) = grp_base g"
    "unat (num_clocks (get_mmcm g s)) = grp_clocks g" "any_clocks_available (get_mmcm g s) \<noteq> 0"
    "lock_bit (get_mmcm g s) = grp_lock g" "mmcm_shape (get_mmcm g s)"
    "i < grp_clocks g \<Longrightarrow> clk_avails (get_mmcm g s) ! i \<noteq> 0"
    "i < grp_clocks g \<Longrightarrow> clk_cfg_regs (get_mmcm g s) ! i = init_cfg_regs ! i"
    "i < grp_clocks g \<Longrightarrow> clk_div_has_frac (get_mmcm g s) ! i = init_div_has_frac ! i"
  using assms by (simp_all add: clkgen_ready_def mmcm_ready_def)

definition div_write :: "fpga_clkgen_mmcm_group \<Rightarrow> nat \<times> u32 \<times> u32 \<Rightarrow> (u64 \<Rightarrow> u32) \<Rightarrow> u64 \<Rightarrow> u32" where
  "div_write g d regs = (case d of (i, dv, fr) \<Rightarrow>
     if i < grp_clocks g then regs(grp_base g + init_cfg_regs ! i := clk_cfg_value (init_div_has_frac ! i) dv fr)
     else regs)"

definition program :: "fpga_clkgen_mmcm_group \<Rightarrow> clkgen_recipe \<Rightarrow> (u64 \<Rightarrow> u32) \<Rightarrow> u64 \<Rightarrow> u32" where
  "program g rc regs =
     (fold (div_write g) [(0, rcp_div0 rc, rcp_div0_frac rc), (1, rcp_div1 rc, 0), (2, rcp_div2 rc, 0)]
       (regs(grp_base g + MMCM_MAIN_CFG_REG := main_cfg_value (rcp_mult rc) (rcp_mult_frac rc) (rcp_div rc))))
     (grp_base g + MMCM_LOAD_CFG_REG := 3)"

definition resets :: "u32 \<Rightarrow> (u64 \<Rightarrow> u32) \<Rightarrow> u64 \<Rightarrow> u32" where
  "resets v regs = regs(AWS_CLKGEN_GRST_REG := 0, AWS_CLKGEN_SYSRST_REG := v)"

lemma refines_group_poke:
  fixes k :: "fpga_clkgen_mmcm \<Rightarrow> (('h, 'z) clk_st_scheme, unit) prog"
  assumes "clkgen_device P base view" and "unat (grp_base g + off) + 4 \<le> 0x59000"
    and "\<And>s :: ('h, 'z) clk_st_scheme. clkgen_ready h base s \<Longrightarrow> k (get_mmcm g s) = fpga_pci_poke P h (grp_base g + off) v"
  shows "refines (clkgen_ready h base) view (bindE (gets (get_mmcm g)) k) (\<lambda>_. ()) (\<lambda>r. r(grp_base g + off := v))"
proof (rule refines_gets_bind)
  fix s :: "('h, 'z) clk_st_scheme"
  assume R: "clkgen_ready h base s"
  show "\<exists>p. k (get_mmcm g s) s = (Inr (), s\<lparr>plat := p\<rparr>) \<and> view p = (view (plat s))(grp_base g + off := v)"
    unfolding assms(3) [OF R] by (rule device_accesses [OF assms(1) R assms(2), of v]) auto
qed

lemma refines_set_shared:
  "clkgen_device P base view \<Longrightarrow> refines (clkgen_ready h base) view (mmcm_set_shared_clock P g mul fr dv)
     (\<lambda>_. ()) (\<lambda>r. r(grp_base g + MMCM_MAIN_CFG_REG := main_cfg_value mul fr dv))"
  unfolding mmcm_set_shared_clock_def
  by (rule refines_group_poke) (simp_all add: grp_offsets ready_mmcm)

lemma refines_load_cfg:
  "clkgen_device P base view \<Longrightarrow> refines (clkgen_ready h base) view (mmcm_load_cfg P g reset)
     (\<lambda>_. ()) (\<lambda>r. r(grp_base g + MMCM_LOAD_CFG_REG := (if reset \<noteq> 0 then 1 else 3)))"
  unfolding mmcm_load_cfg_def
  by (rule refines_group_poke) (simp_all add: grp_offsets ready_mmcm)

lemma refines_set_div:
  "clkgen_device P base view \<Longrightarrow> i < grp_clocks g \<Longrightarrow>
    refines (clkgen_ready h base) view (mmcm_set_clk_div P g i dv fr) (\<lambda>_. ())
     (\<lambda>r. r(grp_base g + init_cfg_regs ! i := clk_cfg_value (init_div_has_frac ! i) dv fr))"
  unfolding mmcm_set_clk_div_def
  by (rule refines_group_poke) (simp_all add: grp_offsets ready_mmcm fail_on_def)

lemma refines_avail:
  "refines (clkgen_ready h base) view (mmcm_clk_avail g i) (\<lambda>_. i < grp_clocks g) id"
  "refines (clkgen_ready h base) view (mmcm_clk_avail_any g) (\<lambda>_. True) id"
  unfolding mmcm_clk_avail_def mmcm_clk_avail_any_def
  by (intro refines_gets; auto simp: ready_mmcm Let_def)+

lemma refines_set_divs:
  "clkgen_device P base view \<Longrightarrow>
    refines (clkgen_ready h base) view (set_divs_loop P g ds) (\<lambda>_. ()) (fold (div_write g) ds)"
proof (induction ds)
  case Nil
  show ?case unfolding set_divs_loop.simps by (rule refines_cong [OF refines_ok]) simp_all
next
  case (Cons d ds)
  obtain i dv fr where d: "d = (i, dv, fr)" by (cases d)
  have w: "refines (clkgen_ready h base) view (if i < grp_clocks g then mmcm_set_clk_div P g i dv fr else ok ())
      (\<lambda>_. ()) (div_write g d)"
    by (intro refines_if refines_cong [OF refines_set_div [OF Cons.prems]] refines_cong [OF refines_ok])
      (simp_all add: div_write_def d)
  show ?case
    unfolding d set_divs_loop.simps
    by (rule refines_cong, (rule refines_then ready_blind refines_avail(1) w Cons.IH [OF Cons.prems])+)
      (simp_all add: d)
qed

lemma refines_poll:
  assumes "clkgen_device P base view" and "unat off + 4 \<le> 0x59000" and "reads_in_time P (base + off) test"
  shows "refines (clkgen_ready h base) view (clkgen_poll P h off test MAX_CLKGEN_LOOP_RETRIES) (\<lambda>_. True) id"
  unfolding refines_def
proof (intro allI impI)
  fix s :: "('a, 'b) clk_st_scheme"
  assume R: "clkgen_ready h base s"
  from assms(3) have "\<exists>k < MAX_CLKGEN_LOOP_RETRIES.
      test (fst (m_load32 P ((look_and_nap P (base + off) ^^ k) (plat s)) (base + off)))"
    by (simp add: reads_in_time_def)
  from poll_device [OF assms(1,2) R this]
  show "\<exists>p. clkgen_poll P h off test MAX_CLKGEN_LOOP_RETRIES s = (Inr True, s\<lparr>plat := p\<rparr>) \<and>
      view p = id (view (plat s))"
    by simp
qed

lemma refines_wait:
  assumes "clkgen_device P base view"
  shows "refines (clkgen_ready h base) view (mmcm_wait_for_locked P g) (\<lambda>_. ()) id"
  unfolding mmcm_wait_for_locked_def
proof (rule refines_gets_bind)
  fix s :: "('a, 'b) clk_st_scheme"
  assume R: "clkgen_ready h base s"
  have "reads_in_time P (base + (grp_base g + MMCM_STATUS_REG)) (\<lambda>v. v = MMCM_STATUS_LOCKED)"
    using assms by (simp add: clkgen_device_def)
  from refinesD [OF refines_poll [OF assms grp_offsets(3) this] R] obtain p where
    "clkgen_poll P h (grp_base g + MMCM_STATUS_REG) (\<lambda>v. v = MMCM_STATUS_LOCKED) MAX_CLKGEN_LOOP_RETRIES s =
      (Inr True, s\<lparr>plat := p\<rparr>)" "view p = view (plat s)" by auto
  then show "\<exists>p. bindE (clkgen_poll P (mmcm_handle (get_mmcm g s)) (mmcm_base_offset (get_mmcm g s) + MMCM_STATUS_REG)
      (\<lambda>v. v = MMCM_STATUS_LOCKED) MAX_CLKGEN_LOOP_RETRIES) (\<lambda>locked. fail_on (\<not> locked) FPGA_ERR_HARDWARE_BUSY) s =
      (Inr (), s\<lparr>plat := p\<rparr>) \<and> view p = id (view (plat s))"
    by (auto simp: ready_mmcm [OF R] bindE_apply fail_on_apply)
qed

lemma refines_set_mmcm:
  assumes "clkgen_device P base view"
  shows "refines (clkgen_ready h base) view (aws_clkgen_set_mmcm P g rc 0) (\<lambda>_. ()) (program g rc)"
  unfolding aws_clkgen_set_mmcm_def
  by (rule refines_cong, rule refines_then [OF ready_blind refines_avail(2)], simp only: simp_thms if_True if_False,
      (rule refines_then ready_blind refines_set_shared refines_set_divs refines_wait refines_load_cfg assms)+)
    (simp_all add: program_def fun_eq_iff)

section \<open>Initialisation, resets and identification\<close>

lemma init_cfg_regs_nth [simp]:
  "init_cfg_regs ! 0 = MMCM_CLK0_CFG_REG" "init_cfg_regs ! Suc 0 = MMCM_CLK1_CFG_REG" "init_cfg_regs ! 2 = MMCM_CLK2_CFG_REG"
  "init_cfg_regs ! Suc (Suc 0) = MMCM_CLK2_CFG_REG" "init_div_has_frac ! Suc (Suc 0) = False"
  "init_div_has_frac ! 0 = True" "init_div_has_frac ! Suc 0 = False" "init_div_has_frac ! 2 = False"
  by (simp_all add: init_cfg_regs_def init_div_has_frac_def)

lemma put_put_mmcm [simp]: "put_mmcm g m (put_mmcm g m' s) = put_mmcm g m s"
  by (cases g) simp_all

text \<open>The record of a group on a device with all clocks.\<close>

lemma init_ready:
  assumes "mmcm_shape m"
  shows "mmcm_ready h g (let m' = mmcm_layout g (m\<lparr>mmcm_handle := h\<rparr>)
    in mmcm_avail_loop (drop_bit (unat (avail_bit_start m')) 0x1FF) [0..<unat (num_clocks m')] m')"
proof -
  have clocks: "(\<forall>i < 1. Q i) = Q 0" "(\<forall>i < 2. Q i) = (Q 0 \<and> Q (Suc 0))" "(\<forall>i < 3. Q i) = (Q 0 \<and> Q (Suc 0) \<and> Q (Suc (Suc 0)))"
    for Q :: "nat \<Rightarrow> bool"
    by (simp_all add: All_less_Suc numeral_2_eq_2 numeral_3_eq_3 conj_ac)
  show ?thesis
    by (cases g; simp add: assms [unfolded mmcm_shape_def] mmcm_shape_def mmcm_ready_def clocks upt_conv_Cons Let_def)
qed

lemma mmcm_init_device:
  assumes "clkgen_device P base view" and "region_mapped h base 0x59000 (bars s)" and "mmcm_shape (get_mmcm g s)"
  obtains p m where "mmcm_init P g h s = (Inr (), put_mmcm g m (s\<lparr>plat := p\<rparr>))" "view p = view (plat s)"
    "mmcm_ready h g m"
proof -
  let ?m = "mmcm_layout g ((get_mmcm g s)\<lparr>mmcm_handle := h\<rparr>)"
  let ?s = "put_mmcm g ?m s"
  have r: "region_mapped h base 0x59000 (bars ?s)" using assms(2) by simp
  have v: "fst (m_load32 P (plat s) (base + AWS_CLKGEN_CLKS_AVAIL)) = 0x1FF"
    using assms(1) by (simp add: clkgen_device_def)
  note init_ready [OF assms(3), of h g, unfolded Let_def]
  moreover have "mmcm_init P g h s = (Inr (), put_mmcm g
      (mmcm_avail_loop (drop_bit (unat (avail_bit_start ?m)) 0x1FF) [0..<unat (num_clocks ?m)] ?m)
      (s\<lparr>plat := snd (m_load32 P (plat s) (base + AWS_CLKGEN_CLKS_AVAIL))\<rparr>))"
    using region_accesses(1) [OF r, of AWS_CLKGEN_CLKS_AVAIL P] v
    by (simp add: mmcm_init_def prog_simps Let_def)
  ultimately show thesis using that clkgen_deviceD(1) [OF assms(1)] by blast
qed

lemma clkgen_init_device:
  assumes D: "clkgen_device P base view" and "region_mapped h base 0x59000 (bars s)" and "\<And>g. mmcm_shape (get_mmcm g s)"
  obtains t where "aws_clkgen_mmcm_init P h s = (Inr (), t)" "clkgen_ready h base t" "view (plat t) = view (plat s)"
    "bars t = bars s"
proof -
  obtain p1 m1 where 1: "mmcm_init P clkgen_group_a h s = (Inr (), put_mmcm clkgen_group_a m1 (s\<lparr>plat := p1\<rparr>))"
      "view p1 = view (plat s)" "mmcm_ready h clkgen_group_a m1"
    by (rule mmcm_init_device [OF assms])
  let ?s1 = "put_mmcm clkgen_group_a m1 (s\<lparr>plat := p1\<rparr>)"
  obtain p2 m2 where 2: "mmcm_init P clkgen_group_b h ?s1 = (Inr (), put_mmcm clkgen_group_b m2 (?s1\<lparr>plat := p2\<rparr>))"
      "view p2 = view p1" "mmcm_ready h clkgen_group_b m2"
    by (rule mmcm_init_device [OF D, of h ?s1 clkgen_group_b]) (use assms(2) assms(3) [of clkgen_group_b] in auto)
  let ?s2 = "put_mmcm clkgen_group_b m2 (?s1\<lparr>plat := p2\<rparr>)"
  obtain p3 m3 where 3: "mmcm_init P clkgen_group_c h ?s2 = (Inr (), put_mmcm clkgen_group_c m3 (?s2\<lparr>plat := p3\<rparr>))"
      "view p3 = view p2" "mmcm_ready h clkgen_group_c m3"
    by (rule mmcm_init_device [OF D, of h ?s2 clkgen_group_c]) (use assms(2) assms(3) [of clkgen_group_c] in auto)
  let ?s3 = "put_mmcm clkgen_group_c m3 (?s2\<lparr>plat := p3\<rparr>)"
  obtain p4 m4 where 4: "mmcm_init P clkgen_group_hbm h ?s3 = (Inr (), put_mmcm clkgen_group_hbm m4 (?s3\<lparr>plat := p4\<rparr>))"
      "view p4 = view p3" "mmcm_ready h clkgen_group_hbm m4"
    by (rule mmcm_init_device [OF D, of h ?s3 clkgen_group_hbm]) (use assms(2) assms(3) [of clkgen_group_hbm] in auto)
  let ?t = "put_mmcm clkgen_group_hbm m4 (?s3\<lparr>plat := p4\<rparr>)"
  have "mmcm_ready h g (get_mmcm g ?t)" for g
    using 1(3) 2(3) 3(3) 4(3) by (cases g) simp_all
  then have "clkgen_ready h base ?t" using assms(2) by (simp add: clkgen_ready_def)
  moreover have "aws_clkgen_mmcm_init P h s = (Inr (), ?t)"
    using 1(1) 2(1) 3(1) 4(1) by (simp add: aws_clkgen_mmcm_init_def bindE_apply)
  ultimately show thesis using that 1(2) 2(2) 3(2) 4(2) by simp
qed

lemma refines_poke:
  "clkgen_device P base view \<Longrightarrow> unat off + 4 \<le> 0x59000 \<Longrightarrow>
    refines (clkgen_ready h base) view (fpga_pci_poke P h off v) (\<lambda>_. ()) (\<lambda>r. r(off := v))"
  unfolding refines_def by (blast elim: device_accesses)

lemma refines_peek:
  assumes "clkgen_device P base view" and "unat off + 4 \<le> 0x59000" and "\<And>h. fst (m_load32 P h (base + off)) = x (view h)"
  shows "refines (clkgen_ready h base) view (fpga_pci_peek P h off) x id"
  unfolding refines_def using assms(3) by (metis device_accesses [OF assms(1) _ assms(2)] id_apply)

lemma refines_lock_mask: "refines (clkgen_ready h base) view mmcm_get_expected_lock_mask (\<lambda>_. 0x151 :: u32) id"
  unfolding mmcm_get_expected_lock_mask_def
proof (rule refines_gets)
  fix s :: "('a, 'b) clk_st_scheme" assume "clkgen_ready h base s"
  then have g: "any_clocks_available (get_mmcm g s) \<noteq> 0" "lock_bit (get_mmcm g s) = grp_lock g" for g
    by (simp_all add: ready_mmcm)
  show "fold (\<lambda>grp mask. let m = get_mmcm grp s in
      mask OR (if any_clocks_available m \<noteq> 0 then push_bit (unat (lock_bit m)) 1 else 0))
     [clkgen_group_a, clkgen_group_b, clkgen_group_c, clkgen_group_hbm] 0 = (0x151 :: u32)"
    by (simp add: g Let_def)
qed

lemma refines_reset:
  assumes "clkgen_device P base view"
  shows "refines (clkgen_ready h base) view (aws_clkgen_reset P h v) (\<lambda>_. ())
    (resets (if v \<noteq> 0 then 0xFFFFFFFF else 0))"
proof -
  have lock: "refines (clkgen_ready h base) view
      (clkgen_poll P h AWS_CLKGEN_LOCK_REG (\<lambda>v. v AND 0x151 = 0x151) MAX_CLKGEN_LOOP_RETRIES) (\<lambda>_. True) id"
    by (rule refines_poll [OF assms]) (use assms in \<open>simp_all add: clkgen_device_def\<close>)
  have wait: "refines (clkgen_ready h base) view (if v = 0 then bindE mmcm_get_expected_lock_mask (\<lambda>lock_mask.
        clkgen_poll P h AWS_CLKGEN_LOCK_REG (\<lambda>v. v AND lock_mask = lock_mask) MAX_CLKGEN_LOOP_RETRIES)
      else ok True) (\<lambda>_. True) id"
    by (rule refines_if, rule refines_cong, (rule refines_then ready_blind refines_lock_mask lock)+)
      (simp_all add: refines_ok)
  show ?thesis
    unfolding aws_clkgen_reset_def
    by (rule refines_cong, rule refines_then [OF ready_blind refines_poke [OF assms]], simp,
        rule refines_then [OF ready_blind wait], simp only: if_True, rule refines_poke [OF assms])
      (simp_all add: resets_def fun_eq_iff)
qed

lemma refines_check_id:
  assumes "clkgen_device P base view"
  shows "refines (clkgen_ready h base) view (aws_clkgen_check_id P h) (\<lambda>_. ()) id"
proof -
  have ids: "refines (clkgen_ready h base) view (fpga_pci_peek P h AWS_CLKGEN_ID_REG) (\<lambda>_. AWS_CLKGEN_ID) id"
    "refines (clkgen_ready h base) view (fpga_pci_peek P h AWS_CLKGEN_VER_REG) (\<lambda>_. AWS_CLKGEN_VER) id"
    "refines (clkgen_ready h base) view (fpga_pci_peek P h AWS_CLKGEN_BLD_REG) (\<lambda>_. AWS_CLKGEN_BLD) id"
    by (rule refines_peek [OF assms]; use assms in \<open>simp add: clkgen_device_def\<close>)+
  show ?thesis
    unfolding aws_clkgen_check_id_def
    by (rule refines_cong, (rule refines_then ready_blind ids refines_fail_on, (simp; fail)?)+) simp_all
qed

section \<open>Frequencies read back\<close>

definition group_shared :: "fpga_clkgen_mmcm_group \<Rightarrow> (u64 \<Rightarrow> u32) \<Rightarrow> c_double" where
  "group_shared g regs = (let v = regs (grp_base g + MMCM_MAIN_CFG_REG)
     in shared_freq (drop_bit 8 v AND 0xFF) (drop_bit 16 v AND 0x3FF) (v AND 0xFF))"

definition group_clock :: "fpga_clkgen_mmcm_group \<Rightarrow> (u64 \<Rightarrow> u32) \<Rightarrow> nat \<Rightarrow> c_double" where
  "group_clock g regs i = (let v = regs (grp_base g + init_cfg_regs ! i)
     in clock_freq (group_shared g regs) (v AND 0xFF) (if init_div_has_frac ! i then drop_bit 8 v AND 0x3FF else 0))"

lemma clocks_cases: "i < grp_clocks g \<Longrightarrow> i = 0 \<or> i = 1 \<or> i = 2"
  by (cases g) auto

lemma refines_peek_cfg:
  assumes "clkgen_device P base view" and "r \<in> set (MMCM_MAIN_CFG_REG # init_cfg_regs)"
    and "unat (grp_base g + r) + 4 \<le> 0x59000"
  shows "refines (clkgen_ready h base) view (fpga_pci_peek P h (grp_base g + r)) (\<lambda>regs. regs (grp_base g + r)) id"
  by (rule refines_peek [OF assms(1,3)]) (use assms(1,2) in \<open>auto simp: clkgen_device_def\<close>)

lemma refines_get_shared:
  assumes "clkgen_device P base view"
  shows "refines (clkgen_ready h base) view (mmcm_get_shared_clock P g)
    (\<lambda>regs. let v = regs (grp_base g + MMCM_MAIN_CFG_REG) in (drop_bit 8 v AND 0xFF, drop_bit 16 v AND 0x3FF, v AND 0xFF)) id"
  unfolding mmcm_get_shared_clock_def
proof (rule refines_gets_bind)
  fix s :: "('a, 'b) clk_st_scheme"
  assume R: "clkgen_ready h base s"
  obtain p where "fpga_pci_peek P h (grp_base g + MMCM_MAIN_CFG_REG) s =
      (Inr (view (plat s) (grp_base g + MMCM_MAIN_CFG_REG)), s\<lparr>plat := p\<rparr>)" "view p = id (view (plat s))"
    by (rule refinesD [OF refines_peek_cfg [OF assms, of MMCM_MAIN_CFG_REG g h] R]) (simp_all add: grp_offsets)
  then show "\<exists>p. bindE (fpga_pci_peek P (mmcm_handle (get_mmcm g s)) (mmcm_base_offset (get_mmcm g s) + MMCM_MAIN_CFG_REG))
      (\<lambda>v. ok (drop_bit 8 v AND 0xFF, drop_bit 16 v AND 0x3FF, v AND 0xFF)) s =
      (Inr (let v = view (plat s) (grp_base g + MMCM_MAIN_CFG_REG) in
        (drop_bit 8 v AND 0xFF, drop_bit 16 v AND 0x3FF, v AND 0xFF)), s\<lparr>plat := p\<rparr>) \<and> view p = id (view (plat s))"
    by (auto simp: ready_mmcm [OF R] bindE_apply ok_apply Let_def)
qed

lemma refines_get_div:
  assumes "clkgen_device P base view" and i: "i < grp_clocks g"
  shows "refines (clkgen_ready h base) view (mmcm_get_clk_div P g i)
    (\<lambda>regs. let v = regs (grp_base g + init_cfg_regs ! i) in
      (v AND 0xFF, if init_div_has_frac ! i then drop_bit 8 v AND 0x3FF else 0)) id"
  unfolding mmcm_get_clk_div_def
proof (rule refines_gets_bind)
  fix s :: "('a, 'b) clk_st_scheme"
  assume R: "clkgen_ready h base s"
  have "init_cfg_regs ! i \<in> set (MMCM_MAIN_CFG_REG # init_cfg_regs)"
    using clocks_cases [OF i] by (auto simp: init_cfg_regs_def)
  from refinesD [OF refines_peek_cfg [OF assms(1) this grp_offsets(4) [OF i]] R] obtain p where
    "fpga_pci_peek P h (grp_base g + init_cfg_regs ! i) s =
      (Inr (view (plat s) (grp_base g + init_cfg_regs ! i)), s\<lparr>plat := p\<rparr>)" "view p = id (view (plat s))" .
  then show "\<exists>p. bindE (fail_on (unat (num_clocks (get_mmcm g s)) \<le> i) FPGA_ERR_SOFTWARE_PROBLEM) (\<lambda>_.
      bindE (fpga_pci_peek P (mmcm_handle (get_mmcm g s)) (mmcm_base_offset (get_mmcm g s) + clk_cfg_regs (get_mmcm g s) ! i))
      (\<lambda>v. ok (v AND 0xFF, if clk_div_has_frac (get_mmcm g s) ! i then drop_bit 8 v AND 0x3FF else 0))) s =
      (Inr (let v = view (plat s) (grp_base g + init_cfg_regs ! i) in
        (v AND 0xFF, if init_div_has_frac ! i then drop_bit 8 v AND 0x3FF else 0)), s\<lparr>plat := p\<rparr>) \<and>
      view p = id (view (plat s))"
    using i by (auto simp: ready_mmcm [OF R] bindE_apply ok_apply fail_on_apply Let_def)
qed

lemma refines_get_freq_loop:
  assumes "clkgen_device P base view" and "\<forall>i \<in> set is. i < grp_clocks g"
  shows "refines (clkgen_ready h base) view (get_freq_loop P g shared is cfg)
    (\<lambda>regs. (0, fold (\<lambda>i cfg. cfg[i := (let v = regs (grp_base g + init_cfg_regs ! i)
       in clock_freq shared (v AND 0xFF) (if init_div_has_frac ! i then drop_bit 8 v AND 0x3FF else 0))]) is cfg)) id"
  using assms(2)
proof (induction "is" arbitrary: cfg)
  case Nil
  show ?case unfolding get_freq_loop.simps by (rule refines_cong [OF refines_ok]) simp_all
next
  case (Cons i "is")
  have i: "i < grp_clocks g" using Cons.prems by simp
  show ?case
    unfolding get_freq_loop.simps
    by (rule refines_cong, rule refines_read [OF ready_blind refines_attempt [OF refines_get_div [OF assms(1) i]]],
        simp only: Let_def sum.case prod.case, rule Cons.IH) (use Cons.prems in \<open>auto simp: Let_def\<close>)
qed

text \<open>The arrays of the caller: the clocks of the group first, the rest as before.\<close>

definition reported_clocks :: "fpga_clkgen_mmcm_group \<Rightarrow> (u64 \<Rightarrow> u32) \<Rightarrow> c_double list \<Rightarrow> c_double list" where
  "reported_clocks g regs cfg = map (group_clock g regs) [0..<grp_clocks g] @ drop (grp_clocks g) cfg"

definition reported_info :: "fpga_clkgen_info \<Rightarrow> (u64 \<Rightarrow> u32) \<Rightarrow> fpga_clkgen_info" where
  "reported_info info regs =
     \<lparr>clock_group_a = reported_clocks clkgen_group_a regs (clock_group_a info),
      clock_group_b = reported_clocks clkgen_group_b regs (clock_group_b info),
      clock_group_c = reported_clocks clkgen_group_c regs (clock_group_c info),
      clock_group_hbm = reported_clocks clkgen_group_hbm regs (clock_group_hbm info)\<rparr>"

definition info_shape :: "fpga_clkgen_info \<Rightarrow> bool" where
  "info_shape info \<longleftrightarrow> length (clock_group_a info) = FPGA_CLKGEN_GROUP_CLKS_MAX \<and>
     length (clock_group_b info) = FPGA_CLKGEN_GROUP_CLKS_MAX \<and>
     length (clock_group_c info) = FPGA_CLKGEN_GROUP_CLKS_MAX \<and>
     length (clock_group_hbm info) = FPGA_CLKGEN_GROUP_CLKS_MAX"

lemma fold_updates: "n \<le> length cfg \<Longrightarrow> fold (\<lambda>i cfg. cfg[i := f i]) [0..<n] cfg = map f [0..<n] @ drop n cfg"
proof (induction n)
  case (Suc n)
  then have "drop n cfg = cfg ! n # drop (Suc n) cfg" by (simp add: Cons_nth_drop_Suc)
  with Suc show ?case by (simp add: list_update_append)
qed simp

lemma refines_get_freq:
  assumes "clkgen_device P base view" and "n = grp_clocks g" and "length cfg = FPGA_CLKGEN_GROUP_CLKS_MAX"
  shows "refines (clkgen_ready h base) view (aws_clkgen_get_freq P g cfg n) (\<lambda>regs. (0, reported_clocks g regs cfg)) id"
proof -
  have n: "1 \<le> n" "n \<le> FPGA_CLKGEN_GROUP_CLKS_MAX" unfolding assms(2) by (cases g; simp)+
  have loop: "refines (clkgen_ready h base) view (get_freq_loop P g shared [0..<n] cfg)
     (\<lambda>regs. (0, map (\<lambda>i. let v = regs (grp_base g + init_cfg_regs ! i)
        in clock_freq shared (v AND 0xFF) (if init_div_has_frac ! i then drop_bit 8 v AND 0x3FF else 0)) [0..<n] @
        drop n cfg)) id" for shared
    by (rule refines_cong [OF refines_get_freq_loop [OF assms(1)]]) (use n assms(2,3) in \<open>simp_all add: fold_updates\<close>)
  have rest: "refines (clkgen_ready h base) view
      (bindE (attempt (mmcm_get_shared_clock P g)) (\<lambda>r. case r of Inl e \<Rightarrow> ok (e, cfg)
        | Inr (mul, mul_frac, dv) \<Rightarrow> get_freq_loop P g (shared_freq mul mul_frac dv) [0..<n] cfg))
      (\<lambda>regs. (0, reported_clocks g regs cfg)) id"
    by (rule refines_cong, rule refines_read [OF ready_blind refines_attempt [OF refines_get_shared [OF assms(1)]]],
        simp only: Let_def sum.case prod.case, rule loop)
      (simp_all add: reported_clocks_def group_clock_def [abs_def] group_shared_def Let_def assms(2))
  have "\<not> (n < 1 \<or> FPGA_CLKGEN_GROUP_CLKS_MAX < n)" using n by simp
  then show ?thesis
    unfolding aws_clkgen_get_freq_def if_not_P [OF \<open>\<not> (n < 1 \<or> FPGA_CLKGEN_GROUP_CLKS_MAX < n)\<close>]
    by - (rule refines_cong, rule refines_read [OF ready_blind refines_avail(2)], simp only: simp_thms if_False, rule rest,
      simp_all)
qed

lemma refines_get_all:
  assumes "clkgen_device P base view" and "info_shape info"
  shows "refines (clkgen_ready h base) view (clkgen_get_all P info) (\<lambda>regs. (0, reported_info info regs)) id"
proof -
  have len: "length (clock_group_a info) = FPGA_CLKGEN_GROUP_CLKS_MAX" "length (clock_group_b info) = FPGA_CLKGEN_GROUP_CLKS_MAX"
    "length (clock_group_c info) = FPGA_CLKGEN_GROUP_CLKS_MAX" "length (clock_group_hbm info) = FPGA_CLKGEN_GROUP_CLKS_MAX"
    using assms(2) by (simp_all add: info_shape_def)
  note get = refines_read [OF ready_blind refines_get_freq [OF assms(1)]]
  have sel: "((0 :: int) \<noteq> 0) = False" by simp
  show ?thesis
    unfolding clkgen_get_all_def Let_def
    by (rule refines_cong, rule get, simp, rule len(1), simp only: prod.case sel if_False, rule get, simp, simp add: len,
        simp only: prod.case sel if_False, rule get, simp, simp add: len,
        simp only: prod.case sel if_False, rule get, simp, simp add: len, simp only: prod.case, rule refines_ok)
      (simp_all add: reported_info_def)
qed

section \<open>Sessions\<close>

text \<open>
  A slot whose BAR 4 of function 1 can be found and mapped at \<open>base\<close>, a BAR table with room, and the
  static records of the library.
\<close>

definition clkgen_idle ::
  "'h platform \<Rightarrow> int \<Rightarrow> u64 \<Rightarrow> ('h \<Rightarrow> u64 \<Rightarrow> u32) \<Rightarrow> fpga_slot_spec \<Rightarrow> ('h, 'z) clk_st_scheme \<Rightarrow> bool" where
  "clkgen_idle P slot_id base view spec s \<longleftrightarrow>
     sane_mappings P \<and> base \<noteq> 0 \<and>
     0x59000 \<le> unat (resource_size (spec ! 1) ! 4) \<and> unat base + unat (resource_size (spec ! 1) ! 4) < 2 ^ 64 \<and>
     refines (\<lambda>_ :: ('h, 'z) clk_st_scheme. True) view (fpga_pci_get_slot_spec P slot_id) (\<lambda>_. spec) id \<and>
     refines (\<lambda>_ :: ('h, 'z) clk_st_scheme. True) view (bar_attach_map P (spec ! 1) 4 False) (\<lambda>_. base) id \<and>
     bars_inv (bars s) \<and> mappings_ok (bars s) \<and> first_free (bars s) 0 \<noteq> None \<and> (\<forall>g. mmcm_shape (get_mmcm g s))"

lemma attach_device:
  fixes s :: "('h, 'z) clk_st_scheme"
  assumes "clkgen_idle P slot_id base view spec s"
  obtains p B h where "fpga_pci_attach P slot_id AWS_CLKGEN_PF AWS_CLKGEN_BAR 0 s = (Inr h, s\<lparr>plat := p, bars := B\<rparr>)"
    "view p = view (plat s)" "region_mapped h base 0x59000 B" "0 \<le> h"
proof -
  let ?sz = "resource_size (spec ! 1) ! 4"
  note I = assms [unfolded clkgen_idle_def]
  obtain p where p: "fpga_pci_get_slot_spec P slot_id s = (Inr spec, s\<lparr>plat := p\<rparr>)" "view p = id (view (plat s))"
    by (rule refinesD [of "\<lambda>_. True" view "fpga_pci_get_slot_spec P slot_id" "\<lambda>_. spec" id s]) (use I in simp_all)
  obtain q where q: "bar_attach_map P (spec ! 1) 4 False (s\<lparr>plat := p\<rparr>) = (Inr base, s\<lparr>plat := q\<rparr>)" "view q = id (view p)"
    by (rule refinesD [of "\<lambda>_. True" view "bar_attach_map P (spec ! 1) 4 False" "\<lambda>_. base" id "s\<lparr>plat := p\<rparr>"])
      (use I in simp_all)
  obtain i where i: "first_free (bars s) 0 = Some i" using I by auto
  show thesis
    using that attach_maps [where P = P and slot_id = slot_id and s = s and spec = spec and p = p and pf = AWS_CLKGEN_PF and
      b = AWS_CLKGEN_BAR and base = base and q = q and i = i and n = "0x59000"] p q i I
    by simp
qed

lemma detach_view:
  assumes "clkgen_device P base view"
  shows "view (plat (snd (fpga_pci_detach P h s))) = view (plat s)"
  using clkgen_deviceD(3) [OF assms]
  by (auto simp: fpga_pci_detach_def fpga_pci_bar_free_def prog_simps case_prod_beta split: option.splits)

lemma detach_mmcm: "leaves (get_mmcm g) (fpga_pci_detach P h)"
  unfolding fpga_pci_detach_def fpga_pci_bar_free_def leaves_def
  by (cases g) (auto simp: prog_simps case_prod_beta split: option.splits)

lemma session_device:
  fixes s :: "('h, 'z) clk_st_scheme"
  assumes D: "clkgen_device P base view" and I: "clkgen_idle P slot_id base view spec s"
    and body: "\<And>h. refines (clkgen_ready h base) view (attempt (body h)) res upd" and fr: "\<And>h. leaves bars (body h)"
  obtains t where "clkgen_session P slot_id body s = (res (view (plat s)), t)"
    "view (plat t) = upd (view (plat s))" "clkgen_idle P slot_id base view spec t" "bars t = bars s"
proof -
  obtain p B h where a: "fpga_pci_attach P slot_id AWS_CLKGEN_PF AWS_CLKGEN_BAR 0 s = (Inr h, s\<lparr>plat := p, bars := B\<rparr>)"
    and p: "view p = view (plat s)" and m: "region_mapped h base 0x59000 B" "0 \<le> h"
    by (rule attach_device [OF I])
  let ?s1 = "s\<lparr>plat := p, bars := B\<rparr>"
  have "mmcm_shape (get_mmcm g ?s1)" for g using I by (cases g) (simp_all add: clkgen_idle_def, (metis get_mmcm.simps)+)
  then obtain s2 where s2: "aws_clkgen_mmcm_init P h ?s1 = (Inr (), s2)" "clkgen_ready h base s2"
      "view (plat s2) = view (plat ?s1)"
    by (rule clkgen_init_device [OF D, of h ?s1, rotated]) (use m(1) in simp_all)
  obtain p3 where p3: "aws_clkgen_check_id P h s2 = (Inr (), s2\<lparr>plat := p3\<rparr>)" "view p3 = id (view (plat s2))"
    by (rule refinesD [OF refines_check_id [OF D] s2(2)])
  let ?s3 = "s2\<lparr>plat := p3\<rparr>"
  have "clkgen_ready h base ?s3" using s2(2) by simp
  then obtain p4 where "attempt (body h) ?s3 = (Inr (res (view (plat ?s3))), ?s3\<lparr>plat := p4\<rparr>)"
      and v4: "view p4 = upd (view (plat ?s3))"
    by (rule refinesD [OF body])
  then have p4: "body h ?s3 = (res (view (plat ?s3)), ?s3\<lparr>plat := p4\<rparr>)"
    by (auto simp: attempt_apply split: prod.splits)
  let ?s4 = "?s3\<lparr>plat := p4\<rparr>"
  obtain x t where d: "fpga_pci_detach P h ?s4 = (x, t)" by fastforce
  have run: "clkgen_session P slot_id body s = (res (view (plat s)), t)"
    using a s2 p3 p4 d m(2) p
    by (simp add: clkgen_session_def bindE_apply attempt_apply or_code_apply ok_apply fail_apply split: sum.split)
  have B: "bars t = bars s"
    using session_releases [of P s body slot_id] I fr run by (simp add: clkgen_idle_def)
  have v: "view (plat t) = upd (view (plat s))"
    using detach_view [OF D, of h ?s4] d s2(3) p3(2) v4 p by simp
  have "mmcm_shape (get_mmcm g t)" for g
  proof -
    have "get_mmcm g t = get_mmcm g ?s4" by (rule leavesD [OF detach_mmcm d])
    moreover have "mmcm_shape (get_mmcm g s2)" by (rule ready_mmcm(6) [OF s2(2)])
    ultimately show ?thesis by simp
  qed
  then have "clkgen_idle P slot_id base view spec t" using I B by (simp add: clkgen_idle_def)
  with run v B show thesis using that by blast
qed

section \<open>The frequencies that are programmed\<close>

text \<open>The frequency of clock \<open>i\<close> of a group that runs a recipe.\<close>

definition recipe_clock :: "clkgen_recipe \<Rightarrow> nat \<Rightarrow> c_double" where
  "recipe_clock rc i = clock_freq (shared_freq (rcp_mult rc) (rcp_mult_frac rc) (rcp_div rc))
     ([rcp_div0 rc, rcp_div1 rc, rcp_div2 rc] ! i) (if i = 0 then rcp_div0_frac rc else 0)"

definition field :: "nat \<Rightarrow> u32 \<Rightarrow> bool" where
  "field n x \<longleftrightarrow> x \<noteq> 0 \<and> unat x < 2 ^ n"

definition recipe_fits :: "clkgen_recipe \<Rightarrow> bool" where
  "recipe_fits rc \<longleftrightarrow> field 8 (rcp_mult rc) \<and> unat (rcp_mult_frac rc) < 2 ^ 10 \<and> field 8 (rcp_div rc) \<and>
     field 8 (rcp_div0 rc) \<and> unat (rcp_div0_frac rc) < 2 ^ 10 \<and> field 8 (rcp_div1 rc) \<and> field 8 (rcp_div2 rc)"

lemma field_masks:
  "field 8 x \<Longrightarrow> at_least_1 x AND 0xFF = x" "unat x < 2 ^ 10 \<Longrightarrow> x AND 0x3FF = (x :: u32)"
proof -
  have m: "0xFF = (mask 8 :: u32)" "0x3FF = (mask 10 :: u32)" by (simp_all add: mask_eq_exp_minus_1)
  have fits: "unat y < 2 ^ n \<Longrightarrow> y AND mask n = y" for n and y :: u32
  proof -
    assume "unat y < 2 ^ n"
    then have "unat (take_bit n y) = unat y" by (simp add: unsigned_take_bit_eq take_bit_nat_eq_self)
    then show "y AND mask n = y" by (simp add: take_bit_eq_mask word_unat_eq_iff)
  qed
  show "field 8 x \<Longrightarrow> at_least_1 x AND 0xFF = x" "unat x < 2 ^ 10 \<Longrightarrow> x AND 0x3FF = x"
    unfolding m by (simp_all add: fits field_def at_least_1_def)
qed

lemma recipe_tables_fit:
  "\<forall>rc \<in> set (clkgen_a_recipes @ clkgen_b_recipes @ clkgen_c_recipes @ clkgen_hbm_recipes). recipe_fits rc"
  by (simp add: clkgen_a_recipes_def clkgen_b_recipes_def clkgen_c_recipes_def clkgen_hbm_recipes_def recipe_fits_def
      field_def recipe_def)

text \<open>The registers of a group after it is programmed; the other groups and the reset registers do not matter.\<close>

lemma program_main:
  "program g rc regs (grp_base g + MMCM_MAIN_CFG_REG) = main_cfg_value (rcp_mult rc) (rcp_mult_frac rc) (rcp_div rc)"
  by (cases g) (simp_all add: program_def div_write_def)

lemma program_div:
  "i < grp_clocks g \<Longrightarrow> program g rc regs (grp_base g + init_cfg_regs ! i) =
     clk_cfg_value (init_div_has_frac ! i) ([rcp_div0 rc, rcp_div1 rc, rcp_div2 rc] ! i) (if i = 0 then rcp_div0_frac rc else 0)"
  using clocks_cases [of i g] by (cases g) (auto simp: program_def div_write_def)

lemma group_shared_program:
  "recipe_fits rc \<Longrightarrow> group_shared g (program g rc regs) = shared_freq (rcp_mult rc) (rcp_mult_frac rc) (rcp_div rc)"
  by (simp add: group_shared_def program_main main_cfg_fields Let_def recipe_fits_def field_masks)

lemma group_clock_program:
  assumes "recipe_fits rc" and i: "i < grp_clocks g"
  shows "group_clock g (program g rc regs) i = recipe_clock rc i"
  using clocks_cases [OF i] assms(1) clk_cfg_fields
  by (auto simp: group_clock_def program_div [OF i] group_shared_program recipe_clock_def Let_def recipe_fits_def field_masks)

lemma program_other:
  assumes "g \<noteq> g'" and "r \<in> set (MMCM_MAIN_CFG_REG # init_cfg_regs)"
  shows "program g' rc regs (grp_base g + r) = regs (grp_base g + r)"
proof -
  have r: "r = 0x200 \<or> r = 0x208 \<or> r = 0x214 \<or> r = 0x220" using assms(2) by (auto simp: init_cfg_regs_def)
  from r show ?thesis using assms(1) by (elim disjE; cases g; cases g'; simp add: program_def div_write_def)
qed

lemma resets_other:
  "r \<in> set (MMCM_MAIN_CFG_REG # init_cfg_regs) \<Longrightarrow> resets v regs (grp_base g + r) = regs (grp_base g + r)"
  by (cases g) (auto simp: resets_def init_cfg_regs_def)

lemma group_clock_cong:
  assumes "\<And>r. r \<in> set (MMCM_MAIN_CFG_REG # init_cfg_regs) \<Longrightarrow> regs (grp_base g + r) = regs' (grp_base g + r)"
    and "i < grp_clocks g"
  shows "group_clock g regs i = group_clock g regs' i"
proof -
  have "init_cfg_regs ! i \<in> set (MMCM_MAIN_CFG_REG # init_cfg_regs)"
    using clocks_cases [OF assms(2)] by (auto simp: init_cfg_regs_def)
  then show ?thesis using assms(1) by (simp add: group_clock_def group_shared_def Let_def)
qed

lemma group_clock_frame:
  "g \<noteq> g' \<Longrightarrow> i < grp_clocks g \<Longrightarrow> group_clock g (program g' rc regs) i = group_clock g regs i"
  "i < grp_clocks g \<Longrightarrow> group_clock g (resets v regs) i = group_clock g regs i"
  by (rule group_clock_cong; simp add: program_other resets_other)+

section \<open>Recipes set are recipes read\<close>

definition set_all :: "clkgen_recipe \<Rightarrow> clkgen_recipe \<Rightarrow> clkgen_recipe \<Rightarrow> clkgen_recipe \<Rightarrow> (u64 \<Rightarrow> u32) \<Rightarrow> u64 \<Rightarrow> u32" where
  "set_all ra rb rc rh regs = resets 0 (program clkgen_group_hbm rh (program clkgen_group_c rc
     (program clkgen_group_b rb (program clkgen_group_a ra (resets 0xFFFFFFFF regs)))))"

lemma refines_set_body:
  assumes "clkgen_device P base view"
  shows "refines (clkgen_ready h base) view
    (bindE (aws_clkgen_reset P h 1) (\<lambda>_. bindE (aws_clkgen_set_mmcm P clkgen_group_a ra 0) (\<lambda>_.
     bindE (aws_clkgen_set_mmcm P clkgen_group_b rb 0) (\<lambda>_. bindE (aws_clkgen_set_mmcm P clkgen_group_c rc 0) (\<lambda>_.
     bindE (aws_clkgen_set_mmcm P clkgen_group_hbm rh 0) (\<lambda>_. aws_clkgen_reset P h 0)))))) (\<lambda>_. ())
    (set_all ra rb rc rh)"
  by (rule refines_cong, (rule refines_then ready_blind refines_reset refines_set_mmcm assms)+) (simp_all add: set_all_def)

lemma set_all_sysrst: "set_all ra rb rc rh regs AWS_CLKGEN_SYSRST_REG = 0"
  by (simp add: set_all_def resets_def)

lemma set_all_clocks:
  assumes "recipe_fits ra" "recipe_fits rb" "recipe_fits rc" "recipe_fits rh"
  shows "reported_info info (set_all ra rb rc rh regs) =
     \<lparr>clock_group_a = map (recipe_clock ra) [0..<3] @ drop 3 (clock_group_a info),
      clock_group_b = map (recipe_clock rb) [0..<2] @ drop 2 (clock_group_b info),
      clock_group_c = map (recipe_clock rc) [0..<2] @ drop 2 (clock_group_c info),
      clock_group_hbm = map (recipe_clock rh) [0..<1] @ drop 1 (clock_group_hbm info)\<rparr>"
  unfolding reported_info_def reported_clocks_def grp_simps
  by (simp add: set_all_def group_clock_frame group_clock_program assms del: upt_Suc upt_rec_numeral)

text \<open>
  The frequencies of the table of \<open>hdk/docs/Clock_Recipes_User_Guide.md\<close>, in thousandths of a MHz, by
  recipe and clock of the group.
\<close>

definition doc_frequencies :: "int list list list" where
  "doc_frequencies =
     [[[62500, 187500, 250000], [125000, 375000, 500000], [15625, 125000, 62500]],
      [[250000, 125000], [125000, 62500], [450000, 225000], [250000, 62500], [300000, 75000], [400000, 100000]],
      [[300000, 400000], [150000, 200000], [75000, 100000], [200000, 266667]],
      [[250000], [125000], [450000], [300000], [400000]]]"

text \<open>The exact frequency of clock \<open>i\<close> in MHz: 100 MHz by the multiplier and the two dividers, fractions in thousandths.\<close>

definition recipe_freq :: "clkgen_recipe \<Rightarrow> nat \<Rightarrow> rat" where
  "recipe_freq rc i =
     100 * (of_int (uint (rcp_mult rc)) + of_int (uint (rcp_mult_frac rc)) / 1000) / of_int (uint (rcp_div rc)) /
     (of_int (uint ([rcp_div0 rc, rcp_div1 rc, rcp_div2 rc] ! i)) +
      of_int (uint (if i = 0 then rcp_div0_frac rc else 0)) / 1000)"

lemma uint_pos: "x \<noteq> 0 \<Longrightarrow> (0 :: rat) < of_int (uint x)" for x :: u32
proof -
  assume "x \<noteq> 0"
  then have "uint x \<noteq> 0" by (metis of_int_0 word_of_int_uint)
  then have "0 < uint x" using uint_ge_0 [of x] by linarith
  then show "(0 :: rat) < of_int (uint x)" by (simp only: of_int_0_less_iff)
qed

lemma uint_nonneg: "(0 :: rat) \<le> of_int (uint (x :: u32))"
  by (simp only: of_int_0_le_iff uint_ge_0)

lemma unsigned_nonneg [simp]: "(0 :: rat) \<le> unsigned (x :: u32)"
  using uint_nonneg [of x] by (simp only: of_int_uint)

lemma recipe_clock_close:
  assumes "recipe_fits rc" and "i < 3"
  shows "close 7 (recipe_clock rc i) (recipe_freq rc i)" and "0 \<le> recipe_freq rc i"
proof -
  let ?m = "of_int (uint (rcp_mult rc)) + of_int (uint (rcp_mult_frac rc)) / 1000 :: rat"
  let ?d = "of_int (uint (rcp_div rc)) :: rat"
  let ?dv = "[rcp_div0 rc, rcp_div1 rc, rcp_div2 rc] ! i" and ?fr = "if i = 0 then rcp_div0_frac rc else 0"
  let ?q = "of_int (uint ?dv) + of_int (uint ?fr) / 1000 :: rat"
  have "?dv \<noteq> 0" using assms by (auto simp: recipe_fits_def field_def less_Suc_eq numeral_3_eq_3)
  from uint_pos [OF this] have q: "0 < ?q" by (rule add_pos_nonneg) (rule divide_nonneg_pos [OF uint_nonneg], simp)
  have d: "0 < ?d" by (rule uint_pos) (use assms(1) in \<open>simp add: recipe_fits_def field_def\<close>)
  have frac: "close 1 (d_div (double_of_u32 x) (Fin 1000)) (of_int (uint x) / 1000)" for x
    using close_div [OF close_u32 close_Fin uint_nonneg, of 1000 x] by simp
  have sum: "close 2 (d_add (double_of_u32 x) (d_div (double_of_u32 y) (Fin 1000)))
      (of_int (uint x) + of_int (uint y) / 1000)" for x y
    using close_add [OF close_u32 frac uint_nonneg divide_nonneg_pos [OF uint_nonneg], of x y]
    by (simp add: numeral_2_eq_2)
  have "close (Suc (Suc (0 + 2) + 0)) (shared_freq (rcp_mult rc) (rcp_mult_frac rc) (rcp_div rc)) (100 * ?m / ?d)"
    unfolding shared_freq_def by (rule close_div [OF close_mult [OF close_Fin sum] close_u32]) (use d in simp_all)
  then have "close (Suc (Suc (Suc (0 + 2) + 0) + 2)) (recipe_clock rc i) (100 * ?m / ?d / ?q)"
    unfolding recipe_clock_def clock_freq_def by (rule close_div [OF _ sum]) (use d q in simp_all)
  then show "close 7 (recipe_clock rc i) (recipe_freq rc i)"
    by (simp add: recipe_freq_def eval_nat_numeral)
  show "0 \<le> recipe_freq rc i" using d q unfolding recipe_freq_def by (intro divide_nonneg_pos) simp_all
qed

text \<open>
  C20. The frequency that aws_clkgen_get_dynamic reports for a recipe, with its rounded
  multiplications and divisions of C doubles, differs from the exact quotient by a relative error
  of at most 2^-49.
\<close>

theorem recipe_clock_accurate:
  assumes "rc \<in> set (clkgen_a_recipes @ clkgen_b_recipes @ clkgen_c_recipes @ clkgen_hbm_recipes)" and "i < 3"
  shows "\<exists>x. recipe_clock rc i = Fin x \<and> \<bar>x - recipe_freq rc i\<bar> \<le> recipe_freq rc i / 2 ^ 49"
proof -
  have "recipe_fits rc" using recipe_tables_fit assms(1) by blast
  from close_7 [OF recipe_clock_close [OF this assms(2)]] show ?thesis .
qed

theorem recipe_clock_accurate_witness:
  "\<exists>x. recipe_clock (clkgen_c_recipes ! 3) 1 = Fin x \<and> \<bar>x - 800 / 3\<bar> \<le> 800 / 3 / 2 ^ 49"
proof -
  let ?rc = "clkgen_c_recipes ! 3"
  have f: "recipe_freq ?rc 1 = 800 / 3" by (simp add: recipe_freq_def clkgen_c_recipes_def recipe_def)
  have "?rc \<in> set (clkgen_a_recipes @ clkgen_b_recipes @ clkgen_c_recipes @ clkgen_hbm_recipes)"
    by (simp add: clkgen_c_recipes_def)
  from recipe_clock_accurate [OF this, of 1] show ?thesis unfolding f by simp
qed

definition near :: "rat \<Rightarrow> int \<Rightarrow> bool" where
  "near x m \<longleftrightarrow> \<bar>1000 * x - of_int m\<bar> \<le> 1 / 2"

theorem recipes_documented:
  "list_all2 (list_all2 (\<lambda>rc fs. list_all2 near (map (recipe_freq rc) [0..<length fs]) fs))
     [clkgen_a_recipes, clkgen_b_recipes, clkgen_c_recipes, clkgen_hbm_recipes] doc_frequencies"
  by (simp add: doc_frequencies_def clkgen_a_recipes_def clkgen_b_recipes_def clkgen_c_recipes_def clkgen_hbm_recipes_def
      near_def recipe_freq_def recipe_def upt_conv_Cons)

text \<open>
  C5. On a device that keeps its configuration registers and locks in time, programming valid
  recipes returns 0 and ends the reset, and reading the clocks afterwards reports, for every group
  and clock, the double the code computes from the fields of the recipe.
\<close>

theorem set_recipe_get_dynamic:
  assumes D: "clkgen_device P base view" and I: "clkgen_idle P slot_id base view spec s"
    and "ra < CLKGEN_A_RECIPE_TABLE_ROWS" "rb < CLKGEN_B_RECIPE_TABLE_ROWS" "rc < CLKGEN_C_RECIPE_TABLE_ROWS"
      "rh < CLKGEN_HBM_RECIPE_TABLE_ROWS" and "info_shape info"
  shows "\<exists>t u. aws_clkgen_set_recipe P slot_id ra rb rc rh 0 s = (Inr (), t) \<and>
    view (plat t) AWS_CLKGEN_SYSRST_REG = 0 \<and>
    aws_clkgen_get_dynamic P slot_id info t = (Inr (0,
      \<lparr>clock_group_a = map (recipe_clock (clkgen_a_recipes ! unat ra)) [0..<3],
       clock_group_b = map (recipe_clock (clkgen_b_recipes ! unat rb)) [0..<2] @ drop 2 (clock_group_b info),
       clock_group_c = map (recipe_clock (clkgen_c_recipes ! unat rc)) [0..<2] @ drop 2 (clock_group_c info),
       clock_group_hbm = map (recipe_clock (clkgen_hbm_recipes ! unat rh)) [0..<1] @ drop 1 (clock_group_hbm info)\<rparr>), u)"
proof -
  let ?a = "clkgen_a_recipes ! unat ra" and ?b = "clkgen_b_recipes ! unat rb"
    and ?c = "clkgen_c_recipes ! unat rc" and ?h = "clkgen_hbm_recipes ! unat rh"
  have "unat ra < length clkgen_a_recipes" "unat rb < length clkgen_b_recipes" "unat rc < length clkgen_c_recipes"
    "unat rh < length clkgen_hbm_recipes"
    using assms(3-6) by (simp_all add: clkgen_a_recipes_def clkgen_b_recipes_def clkgen_c_recipes_def
        clkgen_hbm_recipes_def word_less_nat_alt)
  then have fits: "recipe_fits ?a" "recipe_fits ?b" "recipe_fits ?c" "recipe_fits ?h"
    using recipe_tables_fit by auto
  obtain t where t: "clkgen_session P slot_id (\<lambda>h.
       bindE (aws_clkgen_reset P h 1) (\<lambda>_. bindE (aws_clkgen_set_mmcm P clkgen_group_a ?a 0) (\<lambda>_.
       bindE (aws_clkgen_set_mmcm P clkgen_group_b ?b 0) (\<lambda>_. bindE (aws_clkgen_set_mmcm P clkgen_group_c ?c 0) (\<lambda>_.
       bindE (aws_clkgen_set_mmcm P clkgen_group_hbm ?h 0) (\<lambda>_. aws_clkgen_reset P h 0)))))) s = (Inr (), t)"
    "view (plat t) = set_all ?a ?b ?c ?h (view (plat s))" "clkgen_idle P slot_id base view spec t"
    by (rule session_device [OF D I refines_attempt [OF refines_set_body [OF D]] leaves_set_body(1)])
  obtain u where u: "clkgen_session P slot_id (\<lambda>h. clkgen_get_all P info) t =
      (Inr (0, reported_info info (view (plat t))), u)"
    by (rule session_device [OF D t(3) refines_attempt [OF refines_get_all [OF D assms(7)]] leaves_get_all [OF plat_free_bars]])
  have "aws_clkgen_set_recipe P slot_id ra rb rc rh 0 s = (Inr (), t)"
    using t(1) assms(3-6) by (simp add: aws_clkgen_set_recipe_def bindE_apply [of "fail_on _ _"] fail_on_apply not_le)
  moreover have "drop 3 (clock_group_a info) = []" using assms(7) by (simp add: info_shape_def)
  ultimately show ?thesis
    using u by (simp add: t(2) set_all_sysrst set_all_clocks [OF fits] aws_clkgen_get_dynamic_def
        bindE_apply attempt_apply ok_apply del: upt_rec_numeral)
qed

section \<open>Failures\<close>

text \<open>
  C32. A request for a group A clock below the first row of the frequency table, the other
  requests being in range, is refused only after the resets are asserted: aws_clkgen_set_dynamic
  fails and leaves the system reset register at 0xFFFFFFFF.
\<close>

theorem set_dynamic_low_frequency:
  assumes D: "clkgen_device P base view" and I: "clkgen_idle P slot_id base view spec s"
    and "fa < FREQ_TABLE ! 0 ! 0" "fb \<le> CLKGEN_B_0_MAX" "fc \<le> CLKGEN_C_0_MAX" "fh \<le> CLKGEN_HBM_MAX"
  shows "\<exists>t. aws_clkgen_set_dynamic P slot_id fa fb fc fh 0 s = (Inl FPGA_ERR_INVALID_CLKGEN_INPUTS, t) \<and>
    view (plat t) AWS_CLKGEN_SYSRST_REG = 0xFFFFFFFF"
proof -
  let ?body = "\<lambda>h. bindE (aws_clkgen_reset P h 1) (\<lambda>_. bindE (aws_clkgen_set_freq P clkgen_group_a fa 0) (\<lambda>_.
       bindE (aws_clkgen_set_freq P clkgen_group_b fb 0) (\<lambda>_. bindE (aws_clkgen_set_freq P clkgen_group_c fc 0) (\<lambda>_.
       bindE (aws_clkgen_set_freq P clkgen_group_hbm fh 0) (\<lambda>_. aws_clkgen_reset P h 0)))))"
  have low: "bindE (aws_clkgen_set_freq P clkgen_group_a fa 0) k = fail FPGA_ERR_INVALID_CLKGEN_INPUTS" for k
    using assms(3) by (simp add: aws_clkgen_set_freq_def fun_eq_iff bindE_apply fail_on_apply fail_apply)
  have body: "refines (clkgen_ready h base) view (attempt (?body h)) (\<lambda>_. Inl FPGA_ERR_INVALID_CLKGEN_INPUTS)
      (\<lambda>r. id (resets (if (1 :: u32) \<noteq> 0 then 0xFFFFFFFF else 0) r))" for h
    unfolding low by (rule refines_attempt_bind [OF ready_blind refines_reset [OF D] refines_attempt_fail])
  obtain t where t: "clkgen_session P slot_id ?body s = (Inl FPGA_ERR_INVALID_CLKGEN_INPUTS, t)"
    "view (plat t) = id (resets (if (1 :: u32) \<noteq> 0 then 0xFFFFFFFF else 0) (view (plat s)))"
    by (rule session_device [OF D I body leaves_set_body(2)])
  have "FREQ_TABLE ! 0 ! 0 \<le> CLKGEN_A_1_MAX" by (simp add: table_rows)
  then have "\<not> CLKGEN_A_1_MAX < fa" using assms(3) by simp
  then have "aws_clkgen_set_dynamic P slot_id fa fb fc fh 0 s = (Inl FPGA_ERR_INVALID_CLKGEN_INPUTS, t)"
    using t(1) assms(4-6) by (simp add: aws_clkgen_set_dynamic_def Let_def bindE_apply [of "fail_on _ _"] fail_on_apply not_le not_less)
  then show ?thesis using t(2) by (simp add: resets_def)
qed

text \<open>When the lock does not come, the release of the resets gives up quietly.\<close>

lemma poll_gives_up:
  assumes "region_mapped h base 0x59000 (bars s)" and "unat off + 4 \<le> 0x59000"
    and "\<And>x. \<not> test (fst (m_load32 P x (base + off)))"
  shows "clkgen_poll P h off test n s = (Inr False, s\<lparr>plat := (look_and_nap P (base + off) ^^ n) (plat s)\<rparr>)"
  using assms(1)
proof (induction n arbitrary: s)
  case (Suc n)
  note peek = region_accesses(1) [OF Suc.prems assms(2), of P]
  show ?case
    using Suc.IH [of "s\<lparr>plat := look_and_nap P (base + off) (plat s)\<rparr>"] Suc.prems assms(3) peek
    by (simp add: bindE_apply msleep_apply funpow_Suc_right look_and_nap_def [symmetric] del: funpow.simps(2))
qed (simp add: ok_apply)

text \<open>
  C33. When the lock register never shows the expected locks, ending the reset with
  aws_clkgen_reset polls the full number of rounds, returns 0 and has written only the global
  reset: the system reset is never released.
\<close>

theorem lock_timeout_silent:
  assumes "region_mapped h base 0x59000 (bars s)"
    and mask: "mmcm_get_expected_lock_mask s = (Inr lock_mask, s)"
    and "\<And>x. fst (m_load32 P x (base + AWS_CLKGEN_LOCK_REG)) AND lock_mask \<noteq> lock_mask"
  shows "aws_clkgen_reset P h 0 s = (Inr (), s\<lparr>plat :=
    (look_and_nap P (base + AWS_CLKGEN_LOCK_REG) ^^ MAX_CLKGEN_LOOP_RETRIES)
      (m_store32 P (plat s) (base + AWS_CLKGEN_GRST_REG) 0)\<rparr>)"
proof -
  let ?s = "s\<lparr>plat := m_store32 P (plat s) (base + AWS_CLKGEN_GRST_REG) 0\<rparr>"
  have poke: "fpga_pci_poke P h AWS_CLKGEN_GRST_REG 0 s = (Inr (), ?s)"
    by (rule region_accesses(2) [OF assms(1)]) simp
  have m: "mmcm_get_expected_lock_mask ?s = (Inr lock_mask, ?s)"
    using mask by (simp add: mmcm_get_expected_lock_mask_def gets_apply)
  have poll: "clkgen_poll P h AWS_CLKGEN_LOCK_REG (\<lambda>v. v AND lock_mask = lock_mask) MAX_CLKGEN_LOOP_RETRIES ?s =
      (Inr False, ?s\<lparr>plat := (look_and_nap P (base + AWS_CLKGEN_LOCK_REG) ^^ MAX_CLKGEN_LOOP_RETRIES) (plat ?s)\<rparr>)"
    by (rule poll_gives_up) (use assms in simp_all)
  show ?thesis
    using poke m poll by (simp add: aws_clkgen_reset_def bindE_apply ok_apply del: clkgen_poll.simps funpow.simps)
qed

section \<open>A concrete device\<close>

text \<open>A card whose AWS_CLK_GEN has all clocks and is locked; the configuration registers are memory.\<close>

definition clk_load :: "demo \<Rightarrow> u64 \<Rightarrow> u32" where
  "clk_load h a =
     (if a = 0x158000 then AWS_CLKGEN_ID else if a = 0x158004 then AWS_CLKGEN_VER
      else if a = 0x158008 then AWS_CLKGEN_BLD else if a = 0x15800C then 0x1FF else if a = 0x158020 then 0x151
      else if a \<in> {0x152004, 0x150004, 0x151004, 0x154004} then 1 else demo_regs h a)"

definition clk_platform :: "demo platform" where
  "clk_platform = demo_platform\<lparr>
     k_stat := (\<lambda>h path. Some 0x60000), k_readdir := (\<lambda>h path. Some [''0000:34:00.1'']),
     k_mmap := (\<lambda>h path n. (if n = 0 then None else Some 0x100000, h)),
     m_load32 := (\<lambda>h a. (clk_load h a, h))\<rparr>"

definition clk_view :: "demo \<Rightarrow> u64 \<Rightarrow> u32" where
  "clk_view h off = demo_regs h (0x100000 + off)"

definition clk_map :: "u8 \<Rightarrow> u8 \<Rightarrow> fpga_pci_resource_map" where
  "clk_map d f = zero_resource_map\<lparr>vendor_id := 0x1d0f, device_id := 0x9248, subsystem_vendor_id := 0x1d0f,
     subsystem_device_id := 0x9248, domain := 0, bus := 0x34, dev := d, func := f,
     resource_burstable := [True, True, True, False, True],
     resource_size := [0x60000, 0x60000, 0x60000, 0, 0x60000]\<rparr>"

definition clk_demo :: "demo clk_st" where
  "clk_demo = \<lparr>bars = bars demo_table, plat = demo_h [], group_a = zero_mmcm, group_b = zero_mmcm, group_c = zero_mmcm,
     group_hbm = zero_mmcm\<rparr>"

lemma plat_same: "s\<lparr>plat := plat s\<rparr> = (s :: ('h, 'z) pci_st_scheme)"
  by (cases s) simp

lemma clk_slot_spec: "fpga_pci_get_slot_spec clk_platform 0 (u :: demo clk_st) = (Inr [clk_map 0 0, clk_map 0 1], u)"
  by code_simp

lemma clk_bar_map: "bar_attach_map clk_platform (clk_map 0 1) 4 False (u :: demo clk_st) = (Inr 0x100000, u)"
  by (code_simp, rule plat_same)

lemma in_time_at_once: "(\<And>h. test (fst (m_load32 P h a))) \<Longrightarrow> reads_in_time P a test"
  unfolding reads_in_time_def by (intro allI exI [of _ 0]) simp

lemma clk_is_device: "clkgen_device clk_platform 0x100000 clk_view"
proof -
  have sel: "m_load32 clk_platform h a = (clk_load h a, h)" "k_nanosleep clk_platform ms h = h\<lparr>demo_sleeps := Suc (demo_sleeps h)\<rparr>"
    "k_munmap clk_platform h a n = (True, h)"
    "m_store32 clk_platform h a v = h\<lparr>demo_regs := (demo_regs h)(a := v), demo_log := demo_log h @ [(a, v)]\<rparr>"
    for h a ms n v
    by (simp_all add: clk_platform_def)
  have cfg: "clk_load h (0x100000 + (grp_base g + r)) = clk_view h (grp_base g + r)"
    if "r \<in> set (MMCM_MAIN_CFG_REG # init_cfg_regs)" for h g r
  proof -
    have "r = 0x200 \<or> r = 0x208 \<or> r = 0x214 \<or> r = 0x220" using that by (auto simp: init_cfg_regs_def)
    then show ?thesis by (elim disjE; cases g; simp add: clk_load_def clk_view_def)
  qed
  have ids: "clk_load h 0x158000 = AWS_CLKGEN_ID" "clk_load h 0x158004 = AWS_CLKGEN_VER" "clk_load h 0x158008 = AWS_CLKGEN_BLD"
    "clk_load h 0x15800C = 0x1FF" "clk_load h 0x158020 = 0x151" for h
    by (simp_all add: clk_load_def)
  have status: "clk_load h (0x100000 + (grp_base g + MMCM_STATUS_REG)) = MMCM_STATUS_LOCKED" for h g
    by (cases g) (simp_all add: clk_load_def)
  have view: "clk_view (h\<lparr>demo_sleeps := n\<rparr>) = clk_view h"
    "clk_view (h\<lparr>demo_regs := (demo_regs h)(0x100000 + off := v), demo_log := l\<rparr>) = (clk_view h)(off := v)" for h n off v l
    by (simp_all add: clk_view_def fun_eq_iff)
  show ?thesis
    unfolding clkgen_device_def sel fst_conv snd_conv view
    using cfg ids status by (auto intro!: in_time_at_once simp: sel)
qed

lemma clk_is_idle: "clkgen_idle clk_platform 0 0x100000 clk_view [clk_map 0 0, clk_map 0 1] clk_demo"
proof -
  have "mappings_ok (bars demo_table)" by (auto simp: mappings_ok_def demo_table_def zero_bar_def)
  moreover have "first_free (bars demo_table) 0 \<noteq> None" by code_simp
  moreover have "sane_mappings clk_platform" by (simp add: sane_mappings_def clk_platform_def split: if_splits)
  moreover have "mmcm_shape (get_mmcm g clk_demo)" for g
    by (cases g) (simp_all add: mmcm_shape_def clk_demo_def zero_mmcm_def)
  moreover have "refines (\<lambda>_ :: demo clk_st. True) clk_view (fpga_pci_get_slot_spec clk_platform 0)
      (\<lambda>_. [clk_map 0 0, clk_map 0 1]) id"
    "refines (\<lambda>_ :: demo clk_st. True) clk_view (bar_attach_map clk_platform (clk_map 0 1) 4 False) (\<lambda>_. 0x100000) id"
    by (rule refines_const, rule clk_slot_spec clk_bar_map)+
  ultimately show ?thesis
    using demo_table_inv by (simp add: clkgen_idle_def clk_map_def) (simp add: clk_demo_def)
qed

definition clk_info :: fpga_clkgen_info where
  "clk_info = \<lparr>clock_group_a = replicate 3 (Fin 0), clock_group_b = replicate 3 (Fin 0),
     clock_group_c = replicate 3 (Fin 0), clock_group_hbm = replicate 3 (Fin 0)\<rparr>"

theorem set_recipe_get_dynamic_witness:
  "\<exists>t u. aws_clkgen_set_recipe clk_platform 0 1 2 3 4 0 clk_demo = (Inr (), t) \<and>
    clk_view (plat t) AWS_CLKGEN_SYSRST_REG = 0 \<and>
    fst (aws_clkgen_get_dynamic clk_platform 0 clk_info t) = Inr (0,
      \<lparr>clock_group_a = map (recipe_clock (clkgen_a_recipes ! 1)) [0..<3],
       clock_group_b = map (recipe_clock (clkgen_b_recipes ! 2)) [0..<2] @ [Fin 0],
       clock_group_c = map (recipe_clock (clkgen_c_recipes ! 3)) [0..<2] @ [Fin 0],
       clock_group_hbm = map (recipe_clock (clkgen_hbm_recipes ! 4)) [0..<1] @ [Fin 0, Fin 0]\<rparr>)"
proof -
  have "info_shape clk_info" by (simp add: info_shape_def clk_info_def)
  moreover have "drop 2 (replicate 3 (Fin 0)) = [Fin 0]" "drop 1 (replicate 3 (Fin 0)) = [Fin 0, Fin 0]"
    by (simp_all add: numeral_3_eq_3)
  ultimately show ?thesis
    using set_recipe_get_dynamic [OF clk_is_device clk_is_idle, of 1 2 3 4 clk_info] 
    by (simp add: clk_info_def del: upt_Suc upt_rec_numeral drop_replicate) force
qed

theorem set_dynamic_low_frequency_witness:
  "\<exists>t. aws_clkgen_set_dynamic clk_platform 0 86 450 300 450 0 clk_demo = (Inl FPGA_ERR_INVALID_CLKGEN_INPUTS, t) \<and>
    clk_view (plat t) AWS_CLKGEN_SYSRST_REG = 0xFFFFFFFF"
  by (rule set_dynamic_low_frequency [OF clk_is_device clk_is_idle]) (simp_all add: table_rows)

text \<open>A device that never locks: a word that always reads 0.\<close>

definition clk_unlocked :: "demo clk_st" where
  "clk_unlocked = clk_demo\<lparr>bars := attached_bars (bars demo_table) 0 0x100000 0x60000,
     group_a := zero_mmcm\<lparr>any_clocks_available := 1\<rparr>\<rparr>"

theorem lock_timeout_silent_witness:
  "fst (aws_clkgen_reset (demo_platform\<lparr>m_load32 := \<lambda>h a. (0, h)\<rparr>) 0 0 clk_unlocked) = Inr () \<and>
   demo_log (plat (snd (aws_clkgen_reset (demo_platform\<lparr>m_load32 := \<lambda>h a. (0, h)\<rparr>) 0 0 clk_unlocked))) =
     [(0x158010, 0)]"
proof -
  let ?P = "demo_platform\<lparr>m_load32 := \<lambda>h a. (0, h)\<rparr>"
  have "mappings_ok (attached_bars (bars demo_table) 0 0x100000 0x60000)"
    by (auto simp: mappings_ok_def attached_bars_def demo_table_def zero_bar_def dest!: set_update_subset_insert [THEN subsetD])
  then have r: "region_mapped 0 0x100000 0x59000 (bars clk_unlocked)"
    by (simp add: region_mapped_def clk_unlocked_def attached_bars_def demo_table_def)
  have m: "mmcm_get_expected_lock_mask clk_unlocked = (Inr 1, clk_unlocked)"
    by (simp add: mmcm_get_expected_lock_mask_def gets_apply clk_unlocked_def clk_demo_def zero_mmcm_def)
  have log: "demo_log ((look_and_nap ?P a ^^ n) h) = demo_log h" for a n h
    by (induction n) (simp_all add: look_and_nap_def)
  show ?thesis
    using lock_timeout_silent [OF r m, of ?P] by (simp add: log clk_unlocked_def clk_demo_def demo_h_def del: funpow.simps)
qed

theorem clkgen_releases_witness:
  "bars (snd (aws_clkgen_get_dynamic clk_platform 0 clk_info clk_demo)) = bars demo_table \<and>
   bars (snd (aws_clkgen_set_recipe clk_platform 0 9 9 9 9 1 clk_demo)) = bars demo_table \<and>
   bars (snd (aws_clkgen_set_dynamic clk_platform 0 125 200 200 0 0 clk_demo)) = bars demo_table"
proof -
  have "sane_mappings clk_platform" "bars_inv (bars clk_demo)"
    using clk_is_idle by (simp_all add: clkgen_idle_def)
  from clkgen_releases [OF this] show ?thesis by (simp add: clk_demo_def)
qed

theorem mmcm_registers_roundtrip_witness:
  "\<exists>t. mmcm_set_shared_clock demo_platform clkgen_group_a 12 500 0 clk_unlocked = (Inr (), t) \<and>
     fst (mmcm_get_shared_clock demo_platform clkgen_group_a t) = Inr (12, 500, 1)"
proof -
  have r: "remembers demo_platform" by (simp add: remembers_def)
  have "mappings_ok (attached_bars (bars demo_table) 0 0x100000 0x60000)"
    by (auto simp: mappings_ok_def attached_bars_def demo_table_def zero_bar_def dest!: set_update_subset_insert [THEN subsetD])
  then have "region_mapped 0 0x100000 0x59000 (bars clk_unlocked)"
    by (simp add: region_mapped_def clk_unlocked_def attached_bars_def demo_table_def)
  from region_accesses(2) [OF this, of "mmcm_base_offset (group_a clk_unlocked) + MMCM_MAIN_CFG_REG"]
  obtain t where t: "mmcm_set_shared_clock demo_platform clkgen_group_a 12 500 0 clk_unlocked = (Inr (), t)"
    by (auto simp: mmcm_set_shared_clock_def bindE_apply gets_apply clk_unlocked_def zero_mmcm_def)
  show ?thesis
    using mmcm_registers_roundtrip [OF r, of clkgen_group_a 12 500 0 clk_unlocked t] t by (auto simp: at_least_1_def)
qed

theorem freq_index_greatest_witness: "freq_index 260 AWS_CLKGEN_TABLE_ROWS < AWS_CLKGEN_TABLE_ROWS \<and> table_freq 17 = 250 \<and>
  table_freq 17 \<le> table_freq (freq_index 260 AWS_CLKGEN_TABLE_ROWS)"
proof -
  have "table_freq 17 = 250" by (simp add: table_freq_def FREQ_TABLE_def)
  moreover have "(260 :: u32) \<ge> FREQ_TABLE ! 0 ! 0" by (simp add: table_rows)
  note g = freq_index_greatest [OF this]
  from g [THEN conjunct2, THEN conjunct2, rule_format, of 17] have "table_freq 17 \<le> table_freq (freq_index 260 AWS_CLKGEN_TABLE_ROWS)"
    using calculation by simp
  with g calculation show ?thesis by simp
qed

end
