(* ===== verification/Sde_Hw.thy ===== *)
theory Sde_Hw
  imports Returns Pci_Bars
begin

text \<open>
  \<open>hdk/cl/examples/cl_sde/software/src/sde_lib/sde_hw_ctrl.c\<close> with the registers of \<open>sde_hw_regs.h\<close>: the
  control of the streaming data engine (SDE) behind BAR 0 and BAR 4 of the application function. The
  base offsets \<open>GLOBAL_ATG_OFFSET\<close> and \<open>GLOBAL_SDE_OFFSET\<close> are 0, as its Makefile sets them.
\<close>

section \<open>Registers and bit fields\<close>

abbreviation (input) SDE_ATG_TX_CTRL_REG :: u64 where "SDE_ATG_TX_CTRL_REG \<equiv> 0x0"
abbreviation (input) SDE_ATG0_DATA_REG :: u64 where "SDE_ATG0_DATA_REG \<equiv> 0x4"
abbreviation (input) SDE_ATG0_SIZE_REG :: u64 where "SDE_ATG0_SIZE_REG \<equiv> 0x8"
abbreviation (input) SDE_ATG1_DATA_REG :: u64 where "SDE_ATG1_DATA_REG \<equiv> 0xC"
abbreviation (input) SDE_ATG1_SIZE_REG :: u64 where "SDE_ATG1_SIZE_REG \<equiv> 0x10"
abbreviation (input) SDE_RX_CONTROL_REG :: u64 where "SDE_RX_CONTROL_REG \<equiv> 0x180"
abbreviation (input) SDE_GENERAL_PURPOSE_CFG_REG :: u64 where "SDE_GENERAL_PURPOSE_CFG_REG \<equiv> 0x2000"
abbreviation (input) SDE_C2H_DESCRIPTOR_CREDIT_CONSUMED_COUNTER_REG :: u64 where "SDE_C2H_DESCRIPTOR_CREDIT_CONSUMED_COUNTER_REG \<equiv> 0x3500"
abbreviation (input) SDE_C2H_DESCRIPTOR_CREDIT_LIMIT_COUNTER_REG :: u64 where "SDE_C2H_DESCRIPTOR_CREDIT_LIMIT_COUNTER_REG \<equiv> 0x3504"
abbreviation (input) SDE_C2H_COMPLETED_DESCRIPTOR_COUNTER_REG :: u64 where "SDE_C2H_COMPLETED_DESCRIPTOR_COUNTER_REG \<equiv> 0x3508"
abbreviation (input) SDE_C2H_WRITEBACK_CFG_REG :: u64 where "SDE_C2H_WRITEBACK_CFG_REG \<equiv> 0x3700"
abbreviation (input) SDE_C2H_STATUS_CNTRS_BADDR_LO_REG :: u64 where "SDE_C2H_STATUS_CNTRS_BADDR_LO_REG \<equiv> 0x3704"
abbreviation (input) SDE_C2H_STATUS_CNTRS_BADDR_HI_REG :: u64 where "SDE_C2H_STATUS_CNTRS_BADDR_HI_REG \<equiv> 0x3708"
abbreviation (input) SDE_C2H_WRITEBACK_COAL_TMO_CNT_REG :: u64 where "SDE_C2H_WRITEBACK_COAL_TMO_CNT_REG \<equiv> 0x370C"
abbreviation (input) SDE_C2H_MD_RING_BADDR_LO_REG :: u64 where "SDE_C2H_MD_RING_BADDR_LO_REG \<equiv> 0x3718"
abbreviation (input) SDE_C2H_MD_RING_BADDR_HI_REG :: u64 where "SDE_C2H_MD_RING_BADDR_HI_REG \<equiv> 0x371C"
abbreviation (input) SDE_C2H_MD_RING_SZ_REG :: u64 where "SDE_C2H_MD_RING_SZ_REG \<equiv> 0x3720"
abbreviation (input) SDE_C2H_MD_RING_RD_PTR_REG :: u64 where "SDE_C2H_MD_RING_RD_PTR_REG \<equiv> 0x3724"
abbreviation (input) SDE_C2H_MD_RING_WR_PTR_REG :: u64 where "SDE_C2H_MD_RING_WR_PTR_REG \<equiv> 0x3728"
abbreviation (input) SDE_C2H_PACKET_COUNT_REG :: u64 where "SDE_C2H_PACKET_COUNT_REG \<equiv> 0x3900"
abbreviation (input) SDE_H2C_DESCRIPTOR_CREDIT_CONSUMED_COUNTER_REG :: u64 where "SDE_H2C_DESCRIPTOR_CREDIT_CONSUMED_COUNTER_REG \<equiv> 0x3B00"
abbreviation (input) SDE_H2C_DESCRIPTOR_CREDIT_LIMIT_COUNTER_REG :: u64 where "SDE_H2C_DESCRIPTOR_CREDIT_LIMIT_COUNTER_REG \<equiv> 0x3B04"
abbreviation (input) SDE_H2C_COMPLETED_DESCRIPTOR_COUNTER_REG :: u64 where "SDE_H2C_COMPLETED_DESCRIPTOR_COUNTER_REG \<equiv> 0x3B08"
abbreviation (input) SDE_H2C_WRITEBACK_CFG_REG :: u64 where "SDE_H2C_WRITEBACK_CFG_REG \<equiv> 0x3D00"
abbreviation (input) SDE_H2C_STATUS_CNTRS_BADDR_LO_REG :: u64 where "SDE_H2C_STATUS_CNTRS_BADDR_LO_REG \<equiv> 0x3D04"
abbreviation (input) SDE_H2C_STATUS_CNTRS_BADDR_HI_REG :: u64 where "SDE_H2C_STATUS_CNTRS_BADDR_HI_REG \<equiv> 0x3D08"
abbreviation (input) SDE_H2C_WRITEBACK_COAL_TMO_CNT_REG :: u64 where "SDE_H2C_WRITEBACK_COAL_TMO_CNT_REG \<equiv> 0x3D0C"
abbreviation (input) SDE_H2C_PACKET_COUNT_REG :: u64 where "SDE_H2C_PACKET_COUNT_REG \<equiv> 0x3F00"
abbreviation (input) SDE_C2H_DESC_RAM_MAP_OFFSET :: u64 where "SDE_C2H_DESC_RAM_MAP_OFFSET \<equiv> 0"
abbreviation (input) SDE_H2C_DESC_RAM_MAP_OFFSET :: u64 where "SDE_H2C_DESC_RAM_MAP_OFFSET \<equiv> 0x1000"

abbreviation (input) SDE_UNEXPECTED_REGISTER_VALUE :: int where "SDE_UNEXPECTED_REGISTER_VALUE \<equiv> 0x1000"
abbreviation (input) SDE_ALLOCATION_FAILURE :: int where "SDE_ALLOCATION_FAILURE \<equiv> 0x1001"
abbreviation (input) SDE_STATUS_COUNTER_ERROR :: int where "SDE_STATUS_COUNTER_ERROR \<equiv> 0x1002"
abbreviation (input) SDE_DESC_LIMIT_TIMEOUT :: int where "SDE_DESC_LIMIT_TIMEOUT \<equiv> 0x1003"
abbreviation (input) SDE_METADATA_VALID_TIMEOUT :: int where "SDE_METADATA_VALID_TIMEOUT \<equiv> 0x1004"

text \<open>The macros get the mask and the shift of the field.\<close>

definition SDE_SET_BITFIELD :: "u32 \<Rightarrow> nat \<Rightarrow> u32 \<Rightarrow> u32 \<Rightarrow> u32" where
  "SDE_SET_BITFIELD msk sh v x = (x AND NOT msk) OR (push_bit sh v AND msk)"

definition SDE_GET_BITFIELD :: "u32 \<Rightarrow> nat \<Rightarrow> u32 \<Rightarrow> u32" where
  "SDE_GET_BITFIELD msk sh v = drop_bit sh (v AND msk)"

datatype SDE_SUBSYSTEM = SDE_SUBSYSTEM_C2H | SDE_SUBSYSTEM_H2C

text \<open>The sizes of \<open>struct c2h_desc\<close> and \<open>struct h2c_desc\<close>.\<close>

definition desc_size :: "SDE_SUBSYSTEM \<Rightarrow> nat" where
  "desc_size subsystem = (case subsystem of SDE_SUBSYSTEM_C2H \<Rightarrow> 16 | SDE_SUBSYSTEM_H2C \<Rightarrow> 32)"

section \<open>The controller\<close>

record sde_hw_ctrl =
  ctrl_slot_id :: int
  bar0_handle :: int
  bar4_handle :: int
  bar4_wc_handle :: int
  ctrl_initialized :: bool

definition zero_ctrl :: sde_hw_ctrl where
  "zero_ctrl = \<lparr>ctrl_slot_id = 0, bar0_handle = 0, bar4_handle = 0, bar4_wc_handle = 0, ctrl_initialized = False\<rparr>"

text \<open>
  All three BARs are attached whatever happens; the codes are combined with the bitwise \<open>|\<close>. The result
  is the code and the controller; the handle of an attach that fails is not used by any caller and is
  \<open>PCI_BAR_HANDLE_INIT\<close> here.
\<close>

definition handle_of :: "int + int \<Rightarrow> int" where
  "handle_of r = (case r of Inl _ \<Rightarrow> PCI_BAR_HANDLE_INIT | Inr h \<Rightarrow> h)"

definition sde_hw_init :: "'h platform \<Rightarrow> int \<Rightarrow> (('h, 'z) pci_st_scheme, int \<times> sde_hw_ctrl) prog" where
  "sde_hw_init P slot_id =
     bindE (attempt (fpga_pci_attach P slot_id (int FPGA_APP_PF) 0 0)) (\<lambda>r0.
     bindE (attempt (fpga_pci_attach P slot_id (int FPGA_APP_PF) 4 0)) (\<lambda>r4.
     bindE (attempt (fpga_pci_attach P slot_id (int FPGA_APP_PF) 4 BURST_CAPABLE)) (\<lambda>rw.
     let ret = (code_of r0 OR code_of r4) OR code_of rw
     in ok (ret, \<lparr>ctrl_slot_id = slot_id, bar0_handle = handle_of r0, bar4_handle = handle_of r4,
                  bar4_wc_handle = handle_of rw, ctrl_initialized = (ret = FPGA_ERR_OK)\<rparr>))))"

definition sde_hw_close :: "'h platform \<Rightarrow> sde_hw_ctrl \<Rightarrow> (('h, 'z) pci_st_scheme, int \<times> sde_hw_ctrl) prog" where
  "sde_hw_close P ctrl =
     (if ctrl_initialized ctrl then
        bindE (attempt (fpga_pci_detach P (bar0_handle ctrl))) (\<lambda>r0.
        bindE (attempt (fpga_pci_detach P (bar4_handle ctrl))) (\<lambda>r4.
        bindE (attempt (fpga_pci_detach P (bar4_wc_handle ctrl))) (\<lambda>rw.
        ok ((code_of r0 OR code_of r4) OR code_of rw, ctrl\<lparr>ctrl_initialized := False\<rparr>))))
      else ok (0, ctrl))"

definition poke_and_verify ::
  "'h platform \<Rightarrow> int \<Rightarrow> u64 \<Rightarrow> u32 \<Rightarrow> u32 \<Rightarrow> u32 \<Rightarrow> (('h, 'z) pci_st_scheme, unit) prog" where
  "poke_and_verify P h offset v expected msk =
     bindE (fpga_pci_poke P h offset v) (\<lambda>_.
     bindE (fpga_pci_peek P h offset) (\<lambda>data.
     fail_on (data AND msk \<noteq> expected AND msk) SDE_UNEXPECTED_REGISTER_VALUE))"

definition require_ctrl :: "sde_hw_ctrl \<Rightarrow> (('h, 'z) pci_st_scheme, unit) prog" where
  "require_ctrl ctrl = fail_on (\<not> ctrl_initialized ctrl) FPGA_ERR_SOFTWARE_PROBLEM"

definition sde_hw_reset :: "'h platform \<Rightarrow> sde_hw_ctrl \<Rightarrow> (('h, 'z) pci_st_scheme, unit) prog" where
  "sde_hw_reset P ctrl =
     bindE (require_ctrl ctrl) (\<lambda>_.
     bindE (fpga_pci_peek P (bar0_handle ctrl) SDE_GENERAL_PURPOSE_CFG_REG) (\<lambda>gpcr.
     let set1 = SDE_SET_BITFIELD 1 0 1 gpcr; set0 = SDE_SET_BITFIELD 1 0 0 set1 in
     bindE (poke_and_verify P (bar0_handle ctrl) SDE_GENERAL_PURPOSE_CFG_REG set1 1 1) (\<lambda>_.
     poke_and_verify P (bar0_handle ctrl) SDE_GENERAL_PURPOSE_CFG_REG set0 0 1)))"

definition sde_hw_cfg_loopback_mode ::
  "'h platform \<Rightarrow> sde_hw_ctrl \<Rightarrow> bool \<Rightarrow> (('h, 'z) pci_st_scheme, unit) prog" where
  "sde_hw_cfg_loopback_mode P ctrl enable =
     bindE (require_ctrl ctrl) (\<lambda>_.
     let rx = SDE_SET_BITFIELD 0x10 4 (of_bool enable) (SDE_SET_BITFIELD 1 0 (of_bool enable) 0)
     in poke_and_verify P (bar0_handle ctrl) SDE_RX_CONTROL_REG rx rx 1)"

text \<open>Registers that are written one after the other: offset, value, expected value.\<close>

definition cfg_regs ::
  "'h platform \<Rightarrow> int \<Rightarrow> (u64 \<times> u32 \<times> u32) list \<Rightarrow> (('h, 'z) pci_st_scheme, unit) prog" where
  "cfg_regs P h rs = forE rs (\<lambda>(off, v, expected). poke_and_verify P h off v expected 0xFFFFFFFF)"

definition sde_hw_cfg_atg_mode ::
  "'h platform \<Rightarrow> sde_hw_ctrl \<Rightarrow> bool \<Rightarrow> u32 \<Rightarrow> u32 \<Rightarrow> (('h, 'z) pci_st_scheme, unit) prog" where
  "sde_hw_cfg_atg_mode P ctrl enable data pkt_size =
     bindE (require_ctrl ctrl) (\<lambda>_.
     let sz = drop_bit 6 pkt_size in
     bindE (cfg_regs P (bar0_handle ctrl)
       [(SDE_ATG0_DATA_REG, data, data), (SDE_ATG1_DATA_REG, data, data),
        (SDE_ATG0_SIZE_REG, sz, sz), (SDE_ATG1_SIZE_REG, sz, sz)]) (\<lambda>_.
     poke_and_verify P (bar0_handle ctrl) SDE_ATG_TX_CTRL_REG (of_bool enable) (of_bool enable) 0x7FFFFFFF))"

text \<open>The two halves of a 64-bit value.\<close>

definition lo32 :: "u64 \<Rightarrow> u32" where
  "lo32 x = ucast (x AND 0xFFFFFFFF)"

definition hi32 :: "u64 \<Rightarrow> u32" where
  "hi32 x = ucast (drop_bit 32 x AND 0xFFFFFFFF)"

text \<open>
  The write-back configuration enables the write-back of the descriptor credits and coalesces up to 8
  writes; the coalescing timeouts are 0x40000 ticks and 0xF.
\<close>

definition c2h_wb_cfg :: u32 where
  "c2h_wb_cfg = SDE_SET_BITFIELD 0x3F00 8 (8 - 1) ((((0x4 OR 0x10) OR 0x20) OR 0x40) OR 0x80)"

definition h2c_wb_cfg :: u32 where
  "h2c_wb_cfg = SDE_SET_BITFIELD 0x3F00 8 (8 - 1) (((0x4 OR 0x10) OR 0x20) OR 0x40)"

definition c2h_coal_tmo :: u32 where
  "c2h_coal_tmo = SDE_SET_BITFIELD 0xFFFFF 0 0x40000 (SDE_SET_BITFIELD 0xF00000 20 0xF 0)"

definition h2c_coal_tmo :: u32 where
  "h2c_coal_tmo = SDE_SET_BITFIELD 0xF00000 20 0xF (SDE_SET_BITFIELD 0xFFFFF 0 0x40000 0)"

definition sde_hw_cfg_c2h ::
  "'h platform \<Rightarrow> sde_hw_ctrl \<Rightarrow> u64 \<Rightarrow> u64 \<Rightarrow> u32 \<Rightarrow> (('h, 'z) pci_st_scheme, unit) prog" where
  "sde_hw_cfg_c2h P ctrl status_pa md_ring_pa md_ring_size =
     bindE (require_ctrl ctrl) (\<lambda>_.
     cfg_regs P (bar4_handle ctrl)
       [(SDE_C2H_WRITEBACK_CFG_REG, c2h_wb_cfg, c2h_wb_cfg),
        (SDE_C2H_STATUS_CNTRS_BADDR_LO_REG, lo32 status_pa, lo32 status_pa),
        (SDE_C2H_STATUS_CNTRS_BADDR_HI_REG, hi32 status_pa, hi32 status_pa),
        (SDE_C2H_WRITEBACK_COAL_TMO_CNT_REG, c2h_coal_tmo, c2h_coal_tmo),
        (SDE_C2H_DESCRIPTOR_CREDIT_CONSUMED_COUNTER_REG, 0, 0),
        (SDE_C2H_DESCRIPTOR_CREDIT_LIMIT_COUNTER_REG, 0, 0x40),
        (SDE_C2H_COMPLETED_DESCRIPTOR_COUNTER_REG, 0, 0),
        (SDE_C2H_PACKET_COUNT_REG, 0, 0),
        (SDE_C2H_MD_RING_BADDR_LO_REG, lo32 md_ring_pa, lo32 md_ring_pa),
        (SDE_C2H_MD_RING_BADDR_HI_REG, hi32 md_ring_pa, hi32 md_ring_pa),
        (SDE_C2H_MD_RING_SZ_REG, md_ring_size, md_ring_size),
        (SDE_C2H_MD_RING_RD_PTR_REG, 0, 0),
        (SDE_C2H_MD_RING_WR_PTR_REG, 0, 0)])"

definition sde_hw_cfg_h2c ::
  "'h platform \<Rightarrow> sde_hw_ctrl \<Rightarrow> u64 \<Rightarrow> (('h, 'z) pci_st_scheme, unit) prog" where
  "sde_hw_cfg_h2c P ctrl status_pa =
     bindE (require_ctrl ctrl) (\<lambda>_.
     cfg_regs P (bar4_handle ctrl)
       [(SDE_H2C_WRITEBACK_CFG_REG, h2c_wb_cfg, h2c_wb_cfg),
        (SDE_H2C_STATUS_CNTRS_BADDR_LO_REG, lo32 status_pa, lo32 status_pa),
        (SDE_H2C_STATUS_CNTRS_BADDR_HI_REG, hi32 status_pa, hi32 status_pa),
        (SDE_H2C_WRITEBACK_COAL_TMO_CNT_REG, h2c_coal_tmo, h2c_coal_tmo),
        (SDE_H2C_DESCRIPTOR_CREDIT_CONSUMED_COUNTER_REG, 0, 0),
        (SDE_H2C_DESCRIPTOR_CREDIT_LIMIT_COUNTER_REG, 0, 0x40),
        (SDE_H2C_COMPLETED_DESCRIPTOR_COUNTER_REG, 0, 0),
        (SDE_H2C_PACKET_COUNT_REG, 0, 0)])"

text \<open>The words of the descriptors, all written to the one offset of the descriptor RAM.\<close>

definition desc_ram :: "SDE_SUBSYSTEM \<Rightarrow> u64" where
  "desc_ram subsystem = (case subsystem of
     SDE_SUBSYSTEM_C2H \<Rightarrow> SDE_C2H_DESC_RAM_MAP_OFFSET | SDE_SUBSYSTEM_H2C \<Rightarrow> SDE_H2C_DESC_RAM_MAP_OFFSET)"

definition load32 :: "'h platform \<Rightarrow> u64 \<Rightarrow> (('h, 'z) pci_st_scheme, u32) prog" where
  "load32 P a = on_plat (\<lambda>h. m_load32 P h a)"

definition sde_hw_post_descriptor ::
  "'h platform \<Rightarrow> sde_hw_ctrl \<Rightarrow> u64 \<Rightarrow> nat \<Rightarrow> SDE_SUBSYSTEM \<Rightarrow> (('h, 'z) pci_st_scheme, unit) prog" where
  "sde_hw_post_descriptor P ctrl va n subsystem =
     bindE (require_ctrl ctrl) (\<lambda>_.
     forE [0..<n] (\<lambda>desc_idx.
     forE [0..<desc_size subsystem div 4] (\<lambda>dw_idx.
       bindE (load32 P (va + of_nat (desc_idx * desc_size subsystem) + of_nat (dw_idx * 4))) (\<lambda>descriptor.
       fpga_pci_poke P (bar4_handle ctrl) (desc_ram subsystem) descriptor))))"

end
