(* ===== verification/Dma_Mem.thy ===== *)
theory Dma_Mem
  imports Returns Pci_Bars
begin

text \<open>
  \<open>sdk/userspace/fpga_libs/fpga_dma/fpga_dma_mem.c\<close>: memory that the card reads and writes, mapped
  and locked, with its physical address from the page map of the process. The calls of the kernel are
  a parameter, beside the platform that gives access to the memory.
\<close>

abbreviation (input) PAGE_SHIFT :: nat where "PAGE_SHIFT \<equiv> 12"
abbreviation (input) PAGE_SIZE :: u64 where "PAGE_SIZE \<equiv> 4096"
abbreviation (input) PAGE_MASK :: u64 where "PAGE_MASK \<equiv> 4095"
abbreviation (input) PAGE_FRAME_NUM :: u64 where "PAGE_FRAME_NUM \<equiv> 0x7FFFFFFFFFFFFF"

text \<open>
  \<open>open\<close>, \<open>lseek64\<close> and \<open>read\<close> on \<open>/proc/self/pagemap\<close> for one entry; \<open>mmap\<close> with its flags;
  \<open>mlockall\<close>; \<open>malloc\<close>, of which only the failure matters.
\<close>

datatype pagemap_read = Pm_open_failed | Pm_short | Pm_entry u64

datatype map_flags = Map_shared | Map_anon | Map_huge

record 'h dma_os =
  o_mmap :: "'h \<Rightarrow> int \<Rightarrow> u64 \<Rightarrow> map_flags \<Rightarrow> u64 option \<times> 'h"
  o_mlockall :: "'h \<Rightarrow> bool \<times> 'h"
  o_pagemap :: "'h \<Rightarrow> u64 \<Rightarrow> pagemap_read"
  o_malloc :: "'h \<Rightarrow> u64 \<Rightarrow> bool \<times> 'h"

definition get_pagemap :: "'h dma_os \<Rightarrow> u64 \<Rightarrow> (('h, 'z) pci_st_scheme, u64) prog" where
  "get_pagemap D page_frame_number =
     bindE (gets (\<lambda>s. o_pagemap D (plat s) page_frame_number)) (\<lambda>r.
     case r of
       Pm_open_failed \<Rightarrow> fail FPGA_ERR_SOFTWARE_PROBLEM
     | Pm_short \<Rightarrow> fail FPGA_ERR_SOFTWARE_PROBLEM
     | Pm_entry pagemap \<Rightarrow> ok pagemap)"

definition get_physical_address :: "'h dma_os \<Rightarrow> u64 \<Rightarrow> (('h, 'z) pci_st_scheme, u64) prog" where
  "get_physical_address D va =
     bindE (fail_on (va = 0) FPGA_ERR_SOFTWARE_PROBLEM) (\<lambda>_.
     bindE (or_code (get_pagemap D (drop_bit PAGE_SHIFT va)) FPGA_ERR_SOFTWARE_PROBLEM) (\<lambda>pagemap.
     ok (((pagemap AND PAGE_FRAME_NUM) * PAGE_SIZE) OR (va AND PAGE_MASK))))"

text \<open>The result is the virtual and the physical address; a failure after the mapping unmaps it.\<close>

definition map_page ::
  "'h platform \<Rightarrow> 'h dma_os \<Rightarrow> int \<Rightarrow> u64 \<Rightarrow> map_flags \<Rightarrow> (('h, 'z) pci_st_scheme, u64 \<times> u64) prog" where
  "map_page P D fd sz flags =
     bindE (on_plat (\<lambda>h. o_mmap D h fd sz flags)) (\<lambda>mapped.
     case mapped of
       None \<Rightarrow> fail FPGA_ERR_SOFTWARE_PROBLEM
     | Some va \<Rightarrow>
         bindE (on_plat (\<lambda>h. ((), m_store32 P h va 0))) (\<lambda>_.
         bindE (attempt (bindE (on_plat (o_mlockall D)) (\<lambda>locked.
           bindE (fail_on (\<not> locked) FPGA_ERR_SOFTWARE_PROBLEM) (\<lambda>_.
           or_code (get_physical_address D va) FPGA_ERR_SOFTWARE_PROBLEM)))) (\<lambda>r.
         case r of
           Inl e \<Rightarrow> bindE (on_plat (\<lambda>h. k_munmap P h va sz)) (\<lambda>_. fail e)
         | Inr pa \<Rightarrow> ok (va, pa))))"

definition fpga_dma_mem_map ::
  "'h platform \<Rightarrow> 'h dma_os \<Rightarrow> int \<Rightarrow> u64 \<Rightarrow> (('h, 'z) pci_st_scheme, u64 \<times> u64) prog" where
  "fpga_dma_mem_map P D fd sz =
     bindE (fail_on (sz = 0) FPGA_ERR_SOFTWARE_PROBLEM) (\<lambda>_.
     or_code (map_page P D fd sz Map_shared) FPGA_ERR_SOFTWARE_PROBLEM)"

definition fpga_dma_mem_map_anon ::
  "'h platform \<Rightarrow> 'h dma_os \<Rightarrow> u64 \<Rightarrow> (('h, 'z) pci_st_scheme, u64 \<times> u64) prog" where
  "fpga_dma_mem_map_anon P D sz =
     bindE (fail_on (sz = 0) FPGA_ERR_SOFTWARE_PROBLEM) (\<lambda>_.
     or_code (map_page P D (-1) sz Map_anon) FPGA_ERR_SOFTWARE_PROBLEM)"

definition fpga_dma_mem_map_huge ::
  "'h platform \<Rightarrow> 'h dma_os \<Rightarrow> (('h, 'z) pci_st_scheme, u64 \<times> u64) prog" where
  "fpga_dma_mem_map_huge P D =
     or_code (map_page P D (-1) 0x200000 Map_huge) FPGA_ERR_SOFTWARE_PROBLEM"

text \<open>The result is the new value of \<open>*virtual_address\<close>.\<close>

definition fpga_dma_mem_unmap :: "'h platform \<Rightarrow> u64 \<Rightarrow> u64 \<Rightarrow> (('h, 'z) pci_st_scheme, u64) prog" where
  "fpga_dma_mem_unmap P va sz =
     bindE (fail_on (sz = 0) FPGA_ERR_SOFTWARE_PROBLEM) (\<lambda>_.
     bindE (on_plat (\<lambda>h. k_munmap P h va sz)) (\<lambda>unmapped.
     bindE (fail_on (\<not> unmapped) FPGA_ERR_SOFTWARE_PROBLEM) (\<lambda>_.
     ok 0)))"

section \<open>Addresses\<close>

lemma page_offset: "unat (va AND PAGE_MASK) = unat va mod 4096"
proof -
  have "va AND PAGE_MASK = take_bit 12 va" by (simp add: take_bit_eq_mask mask_eq_exp_minus_1)
  then show ?thesis by (simp add: unsigned_take_bit_eq take_bit_eq_mod unat_mod)
qed

text \<open>The physical address: the frame of the page map and the offset in the page.\<close>

lemma frame_or_offset:
  fixes f va :: u64
  assumes "unat f < 2 ^ 52"
  shows "unat ((f * PAGE_SIZE) OR (va AND PAGE_MASK)) = unat f * 4096 + unat va mod 4096"
proof -
  have f: "f * PAGE_SIZE = push_bit 12 f" by (simp add: push_bit_eq_mult)
  have m: "va AND PAGE_MASK = take_bit 12 va" by (simp add: take_bit_eq_mask mask_eq_exp_minus_1)
  have "push_bit 12 f OR take_bit 12 va = push_bit 12 f + take_bit 12 va"
    by (rule disjunctive_add [symmetric]) (auto simp: bit_simps)
  moreover have "unat (push_bit 12 f) = unat f * 4096"
    using assms by (simp add: push_bit_eq_mult unat_word_ariths)
  moreover have "unat (take_bit 12 va) = unat va mod 4096"
    by (simp add: unsigned_take_bit_eq take_bit_eq_mod unat_mod)
  moreover have "unat f * 4096 + unat va mod 4096 < 2 ^ 64"
  proof -
    have "unat f \<le> 2 ^ 52 - 1" "unat va mod 4096 < 4096" using assms by simp_all
    then show ?thesis by simp
  qed
  ultimately show ?thesis unfolding f m by (simp add: unat_word_ariths)
qed

theorem physical_address:
  assumes "o_pagemap D (plat s) (drop_bit PAGE_SHIFT va) = Pm_entry e" and "va \<noteq> 0"
    and "unat (e AND PAGE_FRAME_NUM) < 2 ^ 52"
  shows "\<exists>pa. get_physical_address D va s = (Inr pa, s) \<and>
    unat pa = unat (e AND PAGE_FRAME_NUM) * 4096 + unat va mod 4096"
  using frame_or_offset [OF assms(3), of va] assms(1,2)
  by (simp add: get_physical_address_def get_pagemap_def prog_simps)

section \<open>Frames\<close>

lemma leaves_get_physical [leaves_intros]: "leaves f (get_physical_address D va)"
  unfolding get_physical_address_def get_pagemap_def
  by (intro leaves_intros) (auto intro!: leaves_intros split: pagemap_read.split)

lemma leaves_map_page: "plat_free f \<Longrightarrow> leaves f (map_page P D fd sz flags)"
  unfolding map_page_def plat_free_def
  by (auto intro!: leaves_intros leaves_on_plat split: option.split sum.split)

lemma leaves_dma_mem [leaves_intros]:
  "plat_free f \<Longrightarrow> leaves f (fpga_dma_mem_map P D fd sz)" "plat_free f \<Longrightarrow> leaves f (fpga_dma_mem_map_anon P D sz)"
  "plat_free f \<Longrightarrow> leaves f (fpga_dma_mem_map_huge P D)" "plat_free f \<Longrightarrow> leaves f (fpga_dma_mem_unmap P va sz)"
  unfolding fpga_dma_mem_map_def fpga_dma_mem_map_anon_def fpga_dma_mem_map_huge_def fpga_dma_mem_unmap_def
  by (auto intro!: leaves_intros leaves_map_page leaves_on_plat simp: plat_free_def)

end
