(* ===== verification/Sde_Mem.thy ===== *)
theory Sde_Mem
  imports Sde_Hw Dma_Mem
begin

text \<open>
  \<open>sde_lib/sde_mem.c\<close> and the sizes of \<open>sde_utility.c\<close>: the memory of the streaming data engine, one
  locked block per direction for the rings that the card reads and writes, and the packet buffers. An
  array of \<open>struct sde_buffer\<close> is a list, \<open>NULL\<close> is \<open>None\<close>.
\<close>

abbreviation (input) SDE_NUM_DESC :: nat where "SDE_NUM_DESC \<equiv> 64"
abbreviation (input) C2H_NUM_MD_IN_RING :: nat where "C2H_NUM_MD_IN_RING \<equiv> 64"
abbreviation (input) SDE_ALIGN :: u64 where "SDE_ALIGN \<equiv> 64"
abbreviation (input) SIZEOF_WB_METADATA :: u64 where "SIZEOF_WB_METADATA \<equiv> 16"
abbreviation (input) SIZEOF_C2H_STATUS :: u64 where "SIZEOF_C2H_STATUS \<equiv> 20"
abbreviation (input) SIZEOF_SDE_BUFFER :: u64 where "SIZEOF_SDE_BUFFER \<equiv> 24"

datatype SDE_EXAMPLE_DIR = SDE_EXAMPLE_DIR_C2H | SDE_EXAMPLE_DIR_H2C | SDE_EXAMPLE_DIR_LOOPBACK
datatype SDE_BUFFER_LAYOUT = SDE_BUFFER_LAYOUT_SINGLE | SDE_BUFFER_LAYOUT_MULTI | SDE_BUFFER_USER_MANAGED

record sde_buffer =
  data_va :: u64
  data_pa :: u64
  buf_length :: u32
  alloc_length :: u32

record sde_writeback_mem =
  memory_va :: u64
  memory_pa :: u64
  memory_size :: u64
  metadata_offset :: u64
  desc_offset :: u64
  status_offset :: u64

record sde_mem =
  c2h_writeback :: sde_writeback_mem
  h2c_writeback :: sde_writeback_mem
  c2h_layout :: SDE_BUFFER_LAYOUT
  c2h_buffers :: "sde_buffer list option"
  c2h_num_buffers :: nat
  h2c_layout :: SDE_BUFFER_LAYOUT
  h2c_buffers :: "sde_buffer list option"
  h2c_num_buffers :: nat

definition sde_aligned_size :: "u64 \<Rightarrow> u64 \<Rightarrow> u64" where
  "sde_aligned_size sz bit_alignment = (sz + (bit_alignment - 1)) AND NOT (bit_alignment - 1)"

text \<open>The pattern of a packet: consecutive words from \<open>start_dw\<close>, as far as whole words fit.\<close>

fun fill_words :: "'h platform \<Rightarrow> u64 \<Rightarrow> nat \<Rightarrow> u32 \<Rightarrow> (('h, 'z) pci_st_scheme, unit) prog" where
  "fill_words P a 0 w = ok ()"
| "fill_words P a (Suc n) w =
     bindE (on_plat (\<lambda>h. ((), m_store32 P h a w))) (\<lambda>_. fill_words P (a + 4) n (w + 1))"

definition sde_fill_pkt_data ::
  "'h platform \<Rightarrow> u64 \<Rightarrow> nat \<Rightarrow> u32 \<Rightarrow> (('h, 'z) pci_st_scheme, unit) prog" where
  "sde_fill_pkt_data P data_ptr sz start_dw =
     bindE (fail_on (data_ptr = 0) FPGA_ERR_SOFTWARE_PROBLEM) (\<lambda>_. fill_words P data_ptr (sz div 4) start_dw)"

section \<open>Mapping\<close>

text \<open>The sizes of the three parts of a block; only card to host has a metadata ring.\<close>

definition metadata_ring_size :: "SDE_SUBSYSTEM \<Rightarrow> u64" where
  "metadata_ring_size subsystem = (case subsystem of
     SDE_SUBSYSTEM_C2H \<Rightarrow> sde_aligned_size (SIZEOF_WB_METADATA * of_nat C2H_NUM_MD_IN_RING) SDE_ALIGN
   | SDE_SUBSYSTEM_H2C \<Rightarrow> 0)"

definition desc_ring_size :: "SDE_SUBSYSTEM \<Rightarrow> u64" where
  "desc_ring_size subsystem = sde_aligned_size (of_nat (desc_size subsystem) * of_nat SDE_NUM_DESC) SDE_ALIGN"

definition writeback_init ::
  "'h platform \<Rightarrow> 'h dma_os \<Rightarrow> SDE_SUBSYSTEM \<Rightarrow> (('h, 'z) pci_st_scheme, sde_writeback_mem) prog" where
  "writeback_init P D subsystem =
     (let md = metadata_ring_size subsystem; ds = desc_ring_size subsystem;
          st = sde_aligned_size SIZEOF_C2H_STATUS SDE_ALIGN; total = ds + md + st
      in bindE (fpga_dma_mem_map_anon P D total) (\<lambda>(va, pa).
         ok \<lparr>memory_va = va, memory_pa = pa, memory_size = total, metadata_offset = 0, desc_offset = md,
             status_offset = md + ds\<rparr>))"

text \<open>The loop over the buffers; packets of more than a page get a huge page each.\<close>

fun map_buffers ::
  "'h platform \<Rightarrow> 'h dma_os \<Rightarrow> u64 \<Rightarrow> nat \<Rightarrow> (('h, 'z) pci_st_scheme, sde_buffer list) prog" where
  "map_buffers P D pkt_size 0 = ok []"
| "map_buffers P D pkt_size (Suc n) =
     bindE (if 0x1000 < pkt_size then
         bindE (fpga_dma_mem_map_huge P D) (\<lambda>(va, pa).
         ok \<lparr>data_va = va, data_pa = pa, buf_length = ucast pkt_size, alloc_length = 0x200000\<rparr>)
       else
         bindE (fpga_dma_mem_map_anon P D (ucast (ucast pkt_size :: u32))) (\<lambda>(va, pa).
         ok \<lparr>data_va = va, data_pa = pa, buf_length = ucast pkt_size, alloc_length = ucast pkt_size\<rparr>)) (\<lambda>b.
     bindE (map_buffers P D pkt_size n) (\<lambda>bs.
     ok (b # bs)))"

definition layout_buffers :: "SDE_BUFFER_LAYOUT \<Rightarrow> nat" where
  "layout_buffers layout = (case layout of
     SDE_BUFFER_LAYOUT_SINGLE \<Rightarrow> 1 | SDE_BUFFER_LAYOUT_MULTI \<Rightarrow> SDE_NUM_DESC | SDE_BUFFER_USER_MANAGED \<Rightarrow> 0)"

definition dma_buffer_init ::
  "'h platform \<Rightarrow> 'h dma_os \<Rightarrow> SDE_BUFFER_LAYOUT \<Rightarrow> u64 \<Rightarrow> (('h, 'z) pci_st_scheme, sde_buffer list) prog" where
  "dma_buffer_init P D layout pkt_size =
     bindE (on_plat (\<lambda>h. o_malloc D h (of_nat (layout_buffers layout) * SIZEOF_SDE_BUFFER))) (\<lambda>allocated.
     bindE (fail_on (\<not> allocated) SDE_ALLOCATION_FAILURE) (\<lambda>_.
     map_buffers P D pkt_size (layout_buffers layout)))"

text \<open>
  The record that the caller passes is written as far as the function gets. After a failure nothing
  reads it any more: the owner stays uninitialised until it is cleared and initialised again.
\<close>

definition sde_mem_init ::
  "'h platform \<Rightarrow> 'h dma_os \<Rightarrow> SDE_BUFFER_LAYOUT \<Rightarrow> SDE_BUFFER_LAYOUT \<Rightarrow> SDE_EXAMPLE_DIR \<Rightarrow> u64
    \<Rightarrow> (('h, 'z) pci_st_scheme, sde_mem) prog" where
  "sde_mem_init P D c2h h2c direction pkt_size =
     bindE (fail_on (0x200000 < pkt_size) FPGA_ERR_SOFTWARE_PROBLEM) (\<lambda>_.
     bindE (writeback_init P D SDE_SUBSYSTEM_C2H) (\<lambda>cw.
     bindE (writeback_init P D SDE_SUBSYSTEM_H2C) (\<lambda>hw.
     bindE (if direction \<noteq> SDE_EXAMPLE_DIR_H2C \<and> c2h \<noteq> SDE_BUFFER_USER_MANAGED
       then bindE (dma_buffer_init P D c2h pkt_size) (\<lambda>bs. ok (Some bs)) else ok None) (\<lambda>cb.
     bindE (if direction \<noteq> SDE_EXAMPLE_DIR_C2H \<and> h2c \<noteq> SDE_BUFFER_USER_MANAGED
       then bindE (dma_buffer_init P D h2c pkt_size) (\<lambda>bs. ok (Some bs)) else ok None) (\<lambda>hb.
     ok \<lparr>c2h_writeback = cw, h2c_writeback = hw,
         c2h_layout = c2h, c2h_buffers = cb, c2h_num_buffers = (case cb of None \<Rightarrow> 0 | Some bs \<Rightarrow> length bs),
         h2c_layout = h2c, h2c_buffers = hb, h2c_num_buffers = (case hb of None \<Rightarrow> 0 | Some bs \<Rightarrow> length bs)\<rparr>)))))"

section \<open>Unmapping\<close>

text \<open>Each block is unmapped whatever happens to the others; the result combines the codes.\<close>

definition unmap_code :: "'h platform \<Rightarrow> u64 \<Rightarrow> u64 \<Rightarrow> (('h, 'z) pci_st_scheme, int \<times> u64) prog" where
  "unmap_code P va sz = bindE (attempt (fpga_dma_mem_unmap P va sz)) (\<lambda>r.
     ok (case r of Inl e \<Rightarrow> (e, va) | Inr va' \<Rightarrow> (0, va')))"

fun unmap_buffers ::
  "'h platform \<Rightarrow> int \<Rightarrow> sde_buffer list \<Rightarrow> (('h, 'z) pci_st_scheme, int \<times> sde_buffer list) prog" where
  "unmap_buffers P ret [] = ok (ret, [])"
| "unmap_buffers P ret (b # bs) =
     bindE (unmap_code P (data_va b) (ucast (alloc_length b))) (\<lambda>(e, va).
     bindE (unmap_buffers P (ret OR e) bs) (\<lambda>(ret', bs').
     ok (ret', b\<lparr>data_va := va\<rparr> # bs')))"

text \<open>The arrays are freed at the end; the pointers to them are not cleared.\<close>

definition sde_mem_close :: "'h platform \<Rightarrow> sde_mem \<Rightarrow> (('h, 'z) pci_st_scheme, int \<times> sde_mem) prog" where
  "sde_mem_close P mem =
     bindE (unmap_code P (memory_va (c2h_writeback mem)) (memory_size (c2h_writeback mem))) (\<lambda>(e1, v1).
     bindE (unmap_code P (memory_va (h2c_writeback mem)) (memory_size (h2c_writeback mem))) (\<lambda>(e2, v2).
     let mem = mem\<lparr>c2h_writeback := (c2h_writeback mem)\<lparr>memory_va := v1\<rparr>,
                   h2c_writeback := (h2c_writeback mem)\<lparr>memory_va := v2\<rparr>\<rparr> in
     bindE (case c2h_buffers mem of None \<Rightarrow> ok (e1 OR e2, None)
       | Some bs \<Rightarrow> bindE (unmap_buffers P (e1 OR e2) bs) (\<lambda>(ret, bs'). ok (ret, Some bs'))) (\<lambda>(e3, cb).
     bindE (case h2c_buffers mem of None \<Rightarrow> ok (e3, None)
       | Some bs \<Rightarrow> bindE (unmap_buffers P e3 bs) (\<lambda>(ret, bs'). ok (ret, Some bs'))) (\<lambda>(e4, hb).
     ok (e4, mem\<lparr>c2h_buffers := cb, h2c_buffers := hb\<rparr>)))))"

section \<open>Addresses of the parts\<close>

definition sde_writeback :: "sde_mem \<Rightarrow> SDE_SUBSYSTEM \<Rightarrow> sde_writeback_mem" where
  "sde_writeback mem subsystem = (case subsystem of
     SDE_SUBSYSTEM_C2H \<Rightarrow> c2h_writeback mem | SDE_SUBSYSTEM_H2C \<Rightarrow> h2c_writeback mem)"

text \<open>The virtual and the physical address.\<close>

definition sde_mem_get_desc :: "sde_mem \<Rightarrow> SDE_SUBSYSTEM \<Rightarrow> u64 \<times> u64" where
  "sde_mem_get_desc mem subsystem = (let w = sde_writeback mem subsystem
     in (desc_offset w + memory_va w, desc_offset w + memory_pa w))"

definition sde_mem_get_status :: "sde_mem \<Rightarrow> SDE_SUBSYSTEM \<Rightarrow> u64 \<times> u64" where
  "sde_mem_get_status mem subsystem = (let w = sde_writeback mem subsystem
     in (status_offset w + memory_va w, status_offset w + memory_pa w))"

definition sde_mem_get_metadata :: "sde_mem \<Rightarrow> SDE_SUBSYSTEM \<Rightarrow> (('h, 'z) pci_st_scheme, u64 \<times> u64) prog" where
  "sde_mem_get_metadata mem subsystem =
     bindE (fail_on (subsystem \<noteq> SDE_SUBSYSTEM_C2H) FPGA_ERR_SOFTWARE_PROBLEM) (\<lambda>_.
     let w = c2h_writeback mem in ok (metadata_offset w + memory_va w, metadata_offset w + memory_pa w))"

definition sde_mem_get_buffers :: "sde_mem \<Rightarrow> SDE_SUBSYSTEM \<Rightarrow> sde_buffer list option \<times> nat" where
  "sde_mem_get_buffers mem subsystem = (case subsystem of
     SDE_SUBSYSTEM_C2H \<Rightarrow> (c2h_buffers mem, c2h_num_buffers mem)
   | SDE_SUBSYSTEM_H2C \<Rightarrow> (h2c_buffers mem, h2c_num_buffers mem))"

end
