(* ===== verification/Sde_Dma.thy ===== *)
theory Sde_Dma
  imports Sde_Mem
begin

text \<open>
  \<open>sde_lib/sde_dma_buffer.c\<close>: the ring of descriptors of one direction and the packet buffers it points
  to. The functions get the buffer record and return its new value beside their code. The array of
  buffers is held by value: nothing changes it while it is in use. A division by zero, an access through
  a null array and an endless loop are calls that do not return.
\<close>

record sde_dma_buffer =
  layout :: SDE_BUFFER_LAYOUT
  sub :: SDE_SUBSYSTEM
  ctrl_set :: bool
  desc_va :: u64
  desc_pa :: u64
  num_desc :: u64
  desc_element_size :: u64
  buffers :: "sde_buffer list option"
  num_buffers :: u64
  pkt_size :: u64
  current_buffer_index :: u64
  curr_desc_index_to_post :: u64

definition zero_dma_buffer :: sde_dma_buffer where
  "zero_dma_buffer = \<lparr>layout = SDE_BUFFER_LAYOUT_SINGLE, sub = SDE_SUBSYSTEM_C2H, ctrl_set = False, desc_va = 0, desc_pa = 0,
     num_desc = 0, desc_element_size = 0, buffers = None, num_buffers = 0, pkt_size = 0, current_buffer_index = 0,
     curr_desc_index_to_post = 0\<rparr>"

definition sde_dma_buffer_init :: "SDE_BUFFER_LAYOUT \<Rightarrow> SDE_SUBSYSTEM \<Rightarrow> u64 \<Rightarrow> sde_mem \<Rightarrow> sde_dma_buffer" where
  "sde_dma_buffer_init lay subsystem pkt mem =
     (let (va, pa) = sde_mem_get_desc mem subsystem;
          b = zero_dma_buffer\<lparr>layout := lay, sub := subsystem, ctrl_set := True, pkt_size := pkt,
                desc_element_size := of_nat (desc_size subsystem), desc_va := va, desc_pa := pa\<rparr>
      in if lay \<noteq> SDE_BUFFER_USER_MANAGED then
           (let (bs, n) = sde_mem_get_buffers mem subsystem
            in b\<lparr>num_desc := of_nat SDE_NUM_DESC, buffers := bs, num_buffers := of_nat n\<rparr>)
         else b)"

definition sde_dma_buffer_close :: "sde_dma_buffer \<Rightarrow> sde_dma_buffer" where
  "sde_dma_buffer_close b = zero_dma_buffer"

text \<open>The first word of the next packet: the hexadecimal digit of the packet in the upper four places.\<close>

definition get_next_start_dw :: "u32 \<Rightarrow> u32" where
  "get_next_start_dw dw =
     (let b = ucast (((ucast (drop_bit 16 dw AND 0xF) :: u8) + 1) AND 0xF) :: u32
      in ((push_bit 16 b OR push_bit 20 b) OR push_bit 24 b) OR push_bit 28 b)"

definition sde_dma_buffer_set_dma_buffers ::
  "sde_dma_buffer \<Rightarrow> sde_buffer list \<Rightarrow> int + sde_dma_buffer" where
  "sde_dma_buffer_set_dma_buffers b bs =
     (if length bs = 0 then Inl FPGA_ERR_SOFTWARE_PROBLEM
      else if layout b \<noteq> SDE_BUFFER_USER_MANAGED then Inl FPGA_ERR_SOFTWARE_PROBLEM
      else Inr (b\<lparr>buffers := Some bs, num_buffers := of_nat (length bs), num_desc := of_nat (length bs)\<rparr>))"

section \<open>The descriptors\<close>

text \<open>Stores to a packed structure in memory.\<close>

definition st32 :: "'h platform \<Rightarrow> u64 \<Rightarrow> u32 \<Rightarrow> (('h, 'z) pci_st_scheme, unit) prog" where
  "st32 P a v = on_plat (\<lambda>h. ((), m_store32 P h a v))"

definition st64 :: "'h platform \<Rightarrow> u64 \<Rightarrow> u64 \<Rightarrow> (('h, 'z) pci_st_scheme, unit) prog" where
  "st64 P a v = on_plat (\<lambda>h. ((), m_store64 P h a v))"

definition write_c2h_desc :: "'h platform \<Rightarrow> u64 \<Rightarrow> sde_buffer \<Rightarrow> (('h, 'z) pci_st_scheme, unit) prog" where
  "write_c2h_desc P a b =
     bindE (st32 P a (buf_length b)) (\<lambda>_.
     bindE (st64 P (a + 4) (data_pa b)) (\<lambda>_.
     st32 P (a + 12) 0))"

text \<open>\<open>SDE_SET_BITFIELD\<close> on a word in memory loads and stores it twice.\<close>

definition set_bitfield_at :: "'h platform \<Rightarrow> u32 \<Rightarrow> nat \<Rightarrow> u32 \<Rightarrow> u64 \<Rightarrow> (('h, 'z) pci_st_scheme, unit) prog" where
  "set_bitfield_at P msk sh v a =
     bindE (load32 P a) (\<lambda>x. bindE (st32 P a (x AND NOT msk)) (\<lambda>_.
     bindE (load32 P a) (\<lambda>x. st32 P a (x OR (push_bit sh v AND msk)))))"

definition write_h2c_desc :: "'h platform \<Rightarrow> u64 \<Rightarrow> sde_buffer \<Rightarrow> u64 \<Rightarrow> (('h, 'z) pci_st_scheme, unit) prog" where
  "write_h2c_desc P a b user =
     bindE (st32 P a (buf_length b)) (\<lambda>_.
     bindE (st64 P (a + 4) (data_pa b)) (\<lambda>_.
     bindE (set_bitfield_at P 1 0 1 (a + 12)) (\<lambda>_.
     bindE (set_bitfield_at P 2 1 0 (a + 12)) (\<lambda>_.
     bindE (st64 P (a + 16) 0) (\<lambda>_.
     st64 P (a + 24) user)))))"

fun c2h_descs ::
  "'h platform \<Rightarrow> u64 \<Rightarrow> sde_buffer list \<Rightarrow> nat \<Rightarrow> nat list \<Rightarrow> (('h, 'z) pci_st_scheme, unit) prog" where
  "c2h_descs P va bs nb [] = ok ()"
| "c2h_descs P va bs nb (i # is) =
     bindE (write_c2h_desc P (va + of_nat (i * 16)) (bs ! (i mod nb))) (\<lambda>_. c2h_descs P va bs nb is)"

text \<open>The words \<open>cur\<close> and \<open>nxt\<close> of the packet are advanced before every descriptor but the first.\<close>

fun h2c_descs ::
  "'h platform \<Rightarrow> u64 \<Rightarrow> sde_buffer list \<Rightarrow> nat \<Rightarrow> u32 \<Rightarrow> u32 \<Rightarrow> nat list \<Rightarrow> (('h, 'z) pci_st_scheme, unit) prog" where
  "h2c_descs P va bs nb cur nxt [] = ok ()"
| "h2c_descs P va bs nb cur nxt (i # is) =
     (let cur' = (if i \<noteq> 0 then nxt else cur); nxt' = (if i \<noteq> 0 then get_next_start_dw cur' else nxt) in
      bindE (write_h2c_desc P (va + of_nat (i * 32)) (bs ! (i mod nb))
        (push_bit 32 (ucast nxt') OR ucast cur')) (\<lambda>_. h2c_descs P va bs nb cur' nxt' is))"

abbreviation (input) START_DOUBLE_WORD :: u32 where "START_DOUBLE_WORD \<equiv> 0x11110000"

definition sde_dma_init_desc_buffer ::
  "'h platform \<Rightarrow> sde_dma_buffer \<Rightarrow> (('h, 'z) pci_st_scheme, sde_dma_buffer) prog" where
  "sde_dma_init_desc_buffer P b =
     bindE (fail_on (num_buffers b = 0) FPGA_ERR_SOFTWARE_PROBLEM) (\<lambda>_.
     case buffers b of
       None \<Rightarrow> fail FPGA_ERR_SOFTWARE_PROBLEM
     | Some bs \<Rightarrow>
         bindE (case sub b of
             SDE_SUBSYSTEM_C2H \<Rightarrow> c2h_descs P (desc_va b) bs (unat (num_buffers b)) [0..<unat (num_desc b)]
           | SDE_SUBSYSTEM_H2C \<Rightarrow> h2c_descs P (desc_va b) bs (unat (num_buffers b)) START_DOUBLE_WORD (get_next_start_dw START_DOUBLE_WORD)
               [0..<unat (num_desc b)]) (\<lambda>_.
         ok (b\<lparr>curr_desc_index_to_post := 0, current_buffer_index := 0\<rparr>)))"

section \<open>Posting\<close>

text \<open>
  The loop: at most up to the end of the ring at a time, then on from its start. The result is the code,
  the buffer and the value of \<open>*num_desc\<close>.
\<close>

partial_function (option) post_loop ::
  "'h platform \<Rightarrow> sde_hw_ctrl \<Rightarrow> u64 \<Rightarrow> u64 \<Rightarrow> sde_dma_buffer \<Rightarrow> (('h, 'z) pci_st_scheme, int \<times> sde_dma_buffer \<times> u64) run" where
  "post_loop P ctrl n posted b s =
     (if posted < n then
        let va = desc_va b + curr_desc_index_to_post b * desc_element_size b;
            available = num_desc b - curr_desc_index_to_post b;
            remaining = n - posted;
            to_post = (if available < remaining then available else remaining)
        in case (if ctrl_set b then sde_hw_post_descriptor P ctrl va (unat to_post) (sub b)
                 else fail FPGA_ERR_SOFTWARE_PROBLEM) s of
             (Inl e, t) \<Rightarrow> Some (Inr (e, b, n), t)
           | (Inr _, t) \<Rightarrow>
               if num_desc b = 0 then None
               else post_loop P ctrl n (posted + to_post)
                 (b\<lparr>curr_desc_index_to_post := (curr_desc_index_to_post b + to_post) mod num_desc b\<rparr>) t
      else Some (Inr (0, b, posted), s))"

definition sde_dma_post_desc ::
  "'h platform \<Rightarrow> sde_hw_ctrl \<Rightarrow> sde_dma_buffer \<Rightarrow> u64 \<Rightarrow> (('h, 'z) pci_st_scheme, int \<times> sde_dma_buffer \<times> u64) run" where
  "sde_dma_post_desc P ctrl b n = post_loop P ctrl n 0 b"

section \<open>Data\<close>

text \<open>\<open>memcpy\<close> from and to memory.\<close>

fun mem_read :: "'h platform \<Rightarrow> u64 \<Rightarrow> nat \<Rightarrow> (('h, 'z) pci_st_scheme, u8 list) prog" where
  "mem_read P a 0 = ok []"
| "mem_read P a (Suc n) =
     bindE (on_plat (\<lambda>h. m_load8 P h a)) (\<lambda>x. bindE (mem_read P (a + 1) n) (\<lambda>xs. ok (x # xs)))"

fun mem_write :: "'h platform \<Rightarrow> u64 \<Rightarrow> u8 list \<Rightarrow> (('h, 'z) pci_st_scheme, unit) prog" where
  "mem_write P a [] = ok ()"
| "mem_write P a (x # xs) = bindE (on_plat (\<lambda>h. ((), m_store8 P h a x))) (\<lambda>_. mem_write P (a + 1) xs)"

text \<open>
  The loops move as much as the current buffer holds and go on with the next one; they are left at the
  bottom, so that a copy of nothing still takes a buffer. \<open>None\<close> is an array that is missing or too
  short, and a ring of no buffers.
\<close>

partial_function (option) read_loop ::
  "'h platform \<Rightarrow> sde_dma_buffer \<Rightarrow> nat \<Rightarrow> u8 list \<Rightarrow> (('h, 'z) pci_st_scheme, sde_dma_buffer \<times> u8 list) run" where
  "read_loop P b sz got s =
     (case buffers b of
        None \<Rightarrow> None
      | Some bs \<Rightarrow>
          if length bs \<le> unat (current_buffer_index b) \<or> num_buffers b = 0 then None
          else
            let cur = bs ! unat (current_buffer_index b);
                n = (if sz < unat (buf_length cur) then sz else unat (buf_length cur))
            in case mem_read P (data_va cur) n s of
                 (Inl e, t) \<Rightarrow> Some (Inl e, t)
               | (Inr xs, t) \<Rightarrow>
                   let b' = b\<lparr>current_buffer_index := (current_buffer_index b + 1) mod num_buffers b\<rparr> in
                   if 0 < sz - n then read_loop P b' (sz - n) (got @ xs) t
                   else Some (Inr (b', got @ xs), t))"

partial_function (option) copy_loop ::
  "'h platform \<Rightarrow> sde_dma_buffer \<Rightarrow> u8 list \<Rightarrow> (('h, 'z) pci_st_scheme, sde_dma_buffer) run" where
  "copy_loop P b data s =
     (case buffers b of
        None \<Rightarrow> None
      | Some bs \<Rightarrow>
          if length bs \<le> unat (current_buffer_index b) \<or> num_buffers b = 0 then None
          else
            let cur = bs ! unat (current_buffer_index b);
                n = (if length data < unat (buf_length cur) then length data else unat (buf_length cur))
            in case mem_write P (data_va cur) (take n data) s of
                 (Inl e, t) \<Rightarrow> Some (Inl e, t)
               | (Inr _, t) \<Rightarrow>
                   let b' = b\<lparr>current_buffer_index := (current_buffer_index b + 1) mod num_buffers b\<rparr> in
                   if 0 < length data - n then copy_loop P b' (drop n data) t
                   else Some (Inr b', t))"

definition sde_dma_read_data ::
  "'h platform \<Rightarrow> sde_dma_buffer \<Rightarrow> nat \<Rightarrow> (('h, 'z) pci_st_scheme, sde_dma_buffer \<times> u8 list) run" where
  "sde_dma_read_data P b sz = read_loop P b sz []"

definition sde_dma_write_data ::
  "'h platform \<Rightarrow> sde_dma_buffer \<Rightarrow> u8 list \<Rightarrow> (('h, 'z) pci_st_scheme, sde_dma_buffer) run" where
  "sde_dma_write_data P b data = copy_loop P b data"

end
