(* ===== verification/Sde_Ring.thy ===== *)
theory Sde_Ring
  imports Sde_Dma Refines
begin

text \<open>
  What posting does: the words of the descriptors go to the descriptor port of the card in the order of
  the ring. The card is seen as a pair of the words of the host memory and of the words that the port has
  got so far.
\<close>

section \<open>The descriptor port\<close>

definition desc_word :: "SDE_SUBSYSTEM \<Rightarrow> (u64 \<Rightarrow> u32) \<Rightarrow> u64 \<Rightarrow> nat \<Rightarrow> nat \<Rightarrow> u32" where
  "desc_word subsystem mem va i w = mem (va + of_nat (i * desc_size subsystem) + of_nat (w * 4))"

definition desc_words :: "SDE_SUBSYSTEM \<Rightarrow> (u64 \<Rightarrow> u32) \<Rightarrow> u64 \<Rightarrow> nat \<Rightarrow> u32 list" where
  "desc_words subsystem mem va i = map (desc_word subsystem mem va i) [0..<desc_size subsystem div 4]"

text \<open>
  The descriptors are in memory that loads read as it is, and a store to the port of the card appends the
  word to what the port has got and leaves the memory alone.
\<close>

definition desc_card ::
  "'h platform \<Rightarrow> u64 \<Rightarrow> SDE_SUBSYSTEM \<Rightarrow> u64 \<Rightarrow> nat \<Rightarrow> ('h \<Rightarrow> (u64 \<Rightarrow> u32) \<times> u32 list) \<Rightarrow> bool" where
  "desc_card P base subsystem va n view \<longleftrightarrow>
     (\<forall>h a. view (snd (m_load32 P h a)) = view h) \<and>
     (\<forall>h i w. i < n \<and> w < desc_size subsystem div 4 \<longrightarrow>
        fst (m_load32 P h (va + of_nat (i * desc_size subsystem) + of_nat (w * 4))) = desc_word subsystem (fst (view h)) va i w) \<and>
     (\<forall>h v. view (m_store32 P h (base + desc_ram subsystem) v) = (fst (view h), snd (view h) @ [v]))"

definition port_mapped :: "sde_hw_ctrl \<Rightarrow> u64 \<Rightarrow> ('h, 'z) pci_st_scheme \<Rightarrow> bool" where
  "port_mapped ctrl base s \<longleftrightarrow> region_mapped (bar4_handle ctrl) base 0x1004 (bars s)"

lemma port_blind [simp]: "plat_blind (port_mapped ctrl base)"
  by (simp add: plat_blind_def port_mapped_def)

lemma desc_ram_bound: "unat (desc_ram subsystem) + 4 \<le> 0x1004"
  by (cases subsystem) (simp_all add: desc_ram_def)

text \<open>What has been appended to the words of the port.\<close>

definition appended :: "((u64 \<Rightarrow> u32) \<Rightarrow> u32 list) \<Rightarrow> (u64 \<Rightarrow> u32) \<times> u32 list \<Rightarrow> (u64 \<Rightarrow> u32) \<times> u32 list" where
  "appended g r = (fst r, snd r @ g (fst r))"

lemma fold_appended: "fold (\<lambda>x. appended (g x)) xs r = appended (\<lambda>mem. concat (map (\<lambda>x. g x mem) xs)) r"
  by (induction xs arbitrary: r) (simp_all add: appended_def)

lemma refines_post_word:
  assumes "desc_card P base subsystem va n view" and "i < n" and "w < desc_size subsystem div 4"
  shows "refines (port_mapped ctrl base) view
    (bindE (load32 P (va + of_nat (i * desc_size subsystem) + of_nat (w * 4))) (\<lambda>descriptor.
       fpga_pci_poke P (bar4_handle ctrl) (desc_ram subsystem) descriptor)) (\<lambda>_. ())
    (appended (\<lambda>mem. [desc_word subsystem mem va i w]))"
proof -
  note card = assms(1) [unfolded desc_card_def]
  have load: "refines (port_mapped ctrl base) view (load32 P (va + of_nat (i * desc_size subsystem) + of_nat (w * 4)))
      (\<lambda>r. desc_word subsystem (fst r) va i w) id"
    unfolding load32_def by (rule refines_on_plat) (use card assms(2,3) in simp_all)
  have poke: "refines (port_mapped ctrl base) view (fpga_pci_poke P (bar4_handle ctrl) (desc_ram subsystem) v)
      (\<lambda>_. ()) (\<lambda>r. (fst r, snd r @ [v]))" for v
    unfolding refines_def port_mapped_def
    using region_accesses(2) [OF _ desc_ram_bound [of subsystem]] card by blast
  show ?thesis
    by (rule refines_cong [OF refines_bind [OF port_blind load poke]]) (simp_all add: appended_def)
qed

lemma refines_post_descriptor:
  assumes "desc_card P base subsystem va n view" and "ctrl_initialized ctrl" and "c + k \<le> n"
    and "a = va + of_nat (c * desc_size subsystem)"
  shows "refines (port_mapped ctrl base) view (sde_hw_post_descriptor P ctrl a k subsystem) (\<lambda>_. ())
    (appended (\<lambda>mem. concat (map (desc_words subsystem mem va) [c..<c + k])))"
proof -
  have addr: "a + of_nat (i * desc_size subsystem) + of_nat (w * 4) =
      va + of_nat ((c + i) * desc_size subsystem) + of_nat (w * 4)" for i w
    by (simp add: assms(4) algebra_simps)
  have row: "refines (port_mapped ctrl base) view
      (forE [0..<desc_size subsystem div 4] (\<lambda>w.
         bindE (load32 P (a + of_nat (i * desc_size subsystem) + of_nat (w * 4))) (\<lambda>descriptor.
         fpga_pci_poke P (bar4_handle ctrl) (desc_ram subsystem) descriptor))) (\<lambda>_. ())
      (appended (\<lambda>mem. desc_words subsystem mem va (c + i)))" if "i < k" for i
    unfolding addr
    by (rule refines_cong [OF refines_forE [OF port_blind refines_post_word [OF assms(1)]]])
      (use that assms(3) in \<open>auto simp: fold_appended desc_words_def comp_def appended_def\<close>)
  have "refines (port_mapped ctrl base) view
      (forE [0..<k] (\<lambda>i. forE [0..<desc_size subsystem div 4] (\<lambda>w.
         bindE (load32 P (a + of_nat (i * desc_size subsystem) + of_nat (w * 4))) (\<lambda>descriptor.
         fpga_pci_poke P (bar4_handle ctrl) (desc_ram subsystem) descriptor)))) (\<lambda>_. ())
      (fold (\<lambda>i. appended (\<lambda>mem. desc_words subsystem mem va (c + i))) [0..<k])"
    by (rule refines_forE [OF port_blind row]) simp
  moreover have "map (\<lambda>i. desc_words subsystem mem va (c + i)) [0..<k] = map (desc_words subsystem mem va) [c..<c + k]" for mem
    by (rule nth_equalityI) simp_all
  ultimately show ?thesis
    unfolding sde_hw_post_descriptor_def require_ctrl_def fail_on_def
    using assms(2) by (simp add: refines_def bindE_apply ok_apply fold_appended)
qed

section \<open>The ring\<close>

text \<open>The descriptors that follow \<open>c\<close> in a ring of \<open>nd\<close>.\<close>

definition ring_order :: "nat \<Rightarrow> nat \<Rightarrow> nat \<Rightarrow> nat list" where
  "ring_order nd c k = map (\<lambda>i. (c + i) mod nd) [0..<k]"

lemma ring_order_step:
  assumes "c + t \<le> nd" and "t \<le> k"
  shows "ring_order nd c k = [c..<c + t] @ ring_order nd ((c + t) mod nd) (k - t)"
proof -
  have "[0..<k] = [0..<t] @ map (\<lambda>i. t + i) [0..<k - t]"
    by (rule nth_equalityI) (use assms(2) in \<open>auto simp: nth_append\<close>)
  moreover have "map (\<lambda>i. (c + i) mod nd) [0..<t] = [c..<c + t]"
    by (rule nth_equalityI) (use assms(1) in simp_all)
  ultimately show ?thesis by (simp add: ring_order_def mod_add_left_eq add.assoc)
qed

lemma appended_appended: "appended g (appended f r) = appended (\<lambda>mem. f mem @ g mem) r"
  by (simp add: appended_def)

lemma appended_nil: "appended (\<lambda>mem. []) r = r"
  by (simp add: appended_def)

lemma ring_advance:
  fixes c t nd :: u64
  assumes "c < nd" and "unat t \<le> unat nd - unat c"
  shows "unat ((c + t) mod nd) = (unat c + unat t) mod unat nd"
proof -
  have "unat nd < 2 ^ 64" by (rule order_less_le_trans [OF unsigned_less]) simp
  then have "unat (c + t) = unat c + unat t"
    using assms by (simp add: unat_word_ariths word_less_nat_alt)
  then show ?thesis by (simp add: unat_mod)
qed

text \<open>A buffer that is ready to post on a card.\<close>

definition ring_ready :: "'h platform \<Rightarrow> sde_hw_ctrl \<Rightarrow> u64 \<Rightarrow> ('h \<Rightarrow> (u64 \<Rightarrow> u32) \<times> u32 list) \<Rightarrow> sde_dma_buffer \<Rightarrow> bool" where
  "ring_ready P ctrl base view b \<longleftrightarrow>
     desc_card P base (sub b) (desc_va b) (unat (num_desc b)) view \<and> ctrl_initialized ctrl \<and> ctrl_set b \<and>
     desc_element_size b = of_nat (desc_size (sub b)) \<and> curr_desc_index_to_post b < num_desc b"

definition ring_posted :: "sde_dma_buffer \<Rightarrow> nat \<Rightarrow> (u64 \<Rightarrow> u32) \<Rightarrow> u32 list" where
  "ring_posted b k mem = concat (map (desc_words (sub b) mem (desc_va b))
     (ring_order (unat (num_desc b)) (unat (curr_desc_index_to_post b)) k))"

definition advance_ring :: "nat \<Rightarrow> sde_dma_buffer \<Rightarrow> sde_dma_buffer" where
  "advance_ring k b = b\<lparr>curr_desc_index_to_post :=
     of_nat ((unat (curr_desc_index_to_post b) + k) mod unat (num_desc b))\<rparr>"

lemma advance_advance:
  assumes "t \<le> k" and "unat c = (unat (curr_desc_index_to_post b) + t) mod unat (num_desc b)"
  shows "advance_ring (k - t) (b\<lparr>curr_desc_index_to_post := c\<rparr>) = advance_ring k b"
proof -
  have "((x + t) mod d + (k - t)) mod d = (x + k) mod d" for x d
    using mod_add_left_eq [of "x + t" d "k - t"] assms(1) by simp
  then show ?thesis by (simp add: advance_ring_def assms(2))
qed

lemma ring_posted_0: "ring_posted b 0 = (\<lambda>mem. [])"
  by (simp add: ring_posted_def ring_order_def fun_eq_iff)

text \<open>One round of the loop.\<close>

lemma post_round:
  assumes "ring_ready P ctrl base view b" and "port_mapped ctrl base s" and "posted < n"
  obtains t p where "post_loop P ctrl n posted b s = post_loop P ctrl n (posted + t)
      (b\<lparr>curr_desc_index_to_post := (curr_desc_index_to_post b + t) mod num_desc b\<rparr>) (s\<lparr>plat := p\<rparr>)"
    and "0 < unat t" "unat t \<le> unat (num_desc b) - unat (curr_desc_index_to_post b)" "unat t \<le> unat n - unat posted"
    and "view p = appended (\<lambda>mem. concat (map (desc_words (sub b) mem (desc_va b))
      [unat (curr_desc_index_to_post b)..<unat (curr_desc_index_to_post b) + unat t])) (view (plat s))"
proof -
  let ?c = "curr_desc_index_to_post b" and ?nd = "num_desc b"
  note ready = assms(1) [unfolded ring_ready_def]
  define t where "t = (if ?nd - ?c < n - posted then ?nd - ?c else n - posted)"
  have "unat (?nd - ?c) = unat ?nd - unat ?c" "unat (n - posted) = unat n - unat posted"
    using ready assms(3) by (simp_all add: unat_sub word_le_nat_alt word_less_nat_alt)
  then have t: "0 < unat t" "unat t \<le> unat ?nd - unat ?c" "unat t \<le> unat n - unat posted"
    using ready assms(3) by (auto simp: t_def word_less_nat_alt)
  obtain p where p: "sde_hw_post_descriptor P ctrl (desc_va b + ?c * desc_element_size b) (unat t) (sub b) s =
        (Inr (), s\<lparr>plat := p\<rparr>)"
      "view p = appended (\<lambda>mem. concat (map (desc_words (sub b) mem (desc_va b)) [unat ?c..<unat ?c + unat t])) (view (plat s))"
    by (rule refinesD [OF refines_post_descriptor assms(2), of P "sub b" "desc_va b" "unat ?nd" view "unat ?c" "unat t"])
      (use ready t in \<open>auto simp: word_less_nat_alt\<close>)
  have "?nd \<noteq> 0" using ready by auto
  then have "post_loop P ctrl n posted b s = post_loop P ctrl n (posted + t)
      (b\<lparr>curr_desc_index_to_post := (?c + t) mod ?nd\<rparr>) (s\<lparr>plat := p\<rparr>)"
    using p(1) assms(3) ready by (subst post_loop.simps) (simp add: t_def [symmetric] Let_def)
  then show thesis using that p(2) t by blast
qed

lemma post_loop_ring:
  assumes "ring_ready P ctrl base view b" and "port_mapped ctrl base s" and "posted \<le> n"
  shows "\<exists>p. post_loop P ctrl n posted b s =
      Some (Inr (0, advance_ring (unat n - unat posted) b, n), s\<lparr>plat := p\<rparr>) \<and>
    view p = appended (ring_posted b (unat n - unat posted)) (view (plat s))"
  using assms
proof (induction "unat n - unat posted" arbitrary: b s posted rule: less_induct)
  case less
  let ?c = "curr_desc_index_to_post b" and ?nd = "num_desc b"
  note ready = less.prems(1) [unfolded ring_ready_def]
  show ?case
  proof (cases "posted < n")
    case False
    then have "posted = n" using less.prems(3) by simp
    moreover have "advance_ring 0 b = b" using ready by (simp add: advance_ring_def word_less_nat_alt)
    ultimately show ?thesis
      by (subst post_loop.simps) (auto simp: ring_posted_0 appended_nil intro!: exI [of _ "plat s"])
  next
    case True
    obtain t p where p: "post_loop P ctrl n posted b s =
          post_loop P ctrl n (posted + t) (b\<lparr>curr_desc_index_to_post := (?c + t) mod ?nd\<rparr>) (s\<lparr>plat := p\<rparr>)"
      and t: "0 < unat t" "unat t \<le> unat ?nd - unat ?c" "unat t \<le> unat n - unat posted"
      and v: "view p = appended (\<lambda>mem. concat (map (desc_words (sub b) mem (desc_va b)) [unat ?c..<unat ?c + unat t])) (view (plat s))"
      by (rule post_round [OF less.prems(1,2) True])
    let ?b = "b\<lparr>curr_desc_index_to_post := (?c + t) mod ?nd\<rparr>"
    have c': "unat ((?c + t) mod ?nd) = (unat ?c + unat t) mod unat ?nd"
      by (rule ring_advance) (use ready t in auto)
    have "unat n < 2 ^ 64" by (rule order_less_le_trans [OF unsigned_less]) simp
    then have po: "unat (posted + t) = unat posted + unat t"
      using t(3) True by (simp add: unat_word_ariths word_less_nat_alt)
    have "ring_ready P ctrl base view ?b" using ready c' by (auto simp: ring_ready_def word_less_nat_alt)
    moreover have "port_mapped ctrl base (s\<lparr>plat := p\<rparr>)" using less.prems(2) by (simp add: port_mapped_def)
    moreover have "posted + t \<le> n" using po t(3) True by (simp add: word_le_nat_alt word_less_nat_alt)
    moreover have "unat n - unat (posted + t) < unat n - unat posted" using po t by simp
    ultimately obtain q where q: "post_loop P ctrl n (posted + t) ?b (s\<lparr>plat := p\<rparr>) =
          Some (Inr (0, advance_ring (unat n - unat (posted + t)) ?b, n), s\<lparr>plat := q\<rparr>)"
        "view q = appended (ring_posted ?b (unat n - unat (posted + t))) (view p)"
      using less.hyps [of "posted + t" ?b "s\<lparr>plat := p\<rparr>"] by auto
    have "advance_ring (unat n - unat (posted + t)) ?b = advance_ring (unat n - unat posted) b"
      using advance_advance [of "unat t" "unat n - unat posted" "curr_desc_index_to_post ?b" b] c' po t by simp
    moreover have "appended (ring_posted ?b (unat n - unat (posted + t))) (view p) =
        appended (ring_posted b (unat n - unat posted)) (view (plat s))"
      unfolding v appended_appended ring_posted_def
      using ring_order_step [of "unat ?c" "unat t" "unat ?nd" "unat n - unat posted"] t ready c' po
      by (simp add: word_less_nat_alt)
    ultimately show ?thesis using q p by (intro exI [of _ q]) simp
  qed
qed

text \<open>
  C4. Posting n descriptors refines a queue: the call returns with n, advances the index by n
  modulo the length of the ring, and the descriptor port of the card gets the words of the next n
  descriptors in ring order, over the end of the ring, and nothing else.
\<close>

theorem post_desc_ring:
  assumes "ring_ready P ctrl base view b" and "port_mapped ctrl base s"
  shows "\<exists>p. sde_dma_post_desc P ctrl b n s = Some (Inr (0, advance_ring (unat n) b, n), s\<lparr>plat := p\<rparr>) \<and>
    fst (view p) = fst (view (plat s)) \<and>
    snd (view p) = snd (view (plat s)) @ ring_posted b (unat n) (fst (view (plat s)))"
  using post_loop_ring [OF assms, of 0 n] by (auto simp: sde_dma_post_desc_def appended_def)

section \<open>Instance\<close>

text \<open>The small platform as a card: the stores to the port are those of the log.\<close>

definition demo_card :: "demo \<Rightarrow> (u64 \<Rightarrow> u32) \<times> u32 list" where
  "demo_card h = ((demo_regs h)(0x100000 := 0), map snd (filter (\<lambda>(a, v). a = 0x100000) (demo_log h)))"

definition demo_ctrl :: sde_hw_ctrl where
  "demo_ctrl = \<lparr>ctrl_slot_id = 0, bar0_handle = 0, bar4_handle = 0, bar4_wc_handle = 0, ctrl_initialized = True\<rparr>"

definition demo_ring :: sde_dma_buffer where
  "demo_ring = zero_dma_buffer\<lparr>ctrl_set := True, desc_va := 0x1000, num_desc := 4, desc_element_size := 16,
     curr_desc_index_to_post := 3\<rparr>"

lemma demo_port: "port_mapped demo_ctrl 0x100000 demo_mapped"
  using demo_mapped_ok by (simp add: port_mapped_def region_mapped_def demo_ctrl_def demo_mapped_bar)

lemma demo_ring_ready: "ring_ready demo_platform demo_ctrl 0x100000 demo_card demo_ring"
proof -
  have "0x1000 + of_nat (i * 16) + of_nat (w * 4) \<noteq> (0x100000 :: u64)" if "i < 4" "w < 4" for i w
  proof
    assume "0x1000 + of_nat (i * 16) + of_nat (w * 4) = (0x100000 :: u64)"
    then have "unat (of_nat (0x1000 + i * 16 + w * 4) :: u64) = unat (of_nat 0x100000 :: u64)"
      by (simp only: of_nat_add of_nat_numeral)
    then show False using that by (simp only: unat_of_nat) simp
  qed
  then show ?thesis
    by (auto simp: ring_ready_def desc_card_def demo_ring_def zero_dma_buffer_def demo_ctrl_def demo_card_def
      desc_size_def desc_word_def desc_ram_def)
qed

theorem post_desc_ring_witness:
  "\<exists>p. sde_dma_post_desc demo_platform demo_ctrl demo_ring 3 demo_mapped =
      Some (Inr (0, demo_ring\<lparr>curr_desc_index_to_post := 2\<rparr>, 3), demo_mapped\<lparr>plat := p\<rparr>) \<and>
    length (snd (demo_card p)) = 12"
proof -
  have "advance_ring 3 demo_ring = demo_ring\<lparr>curr_desc_index_to_post := 2\<rparr>"
    by (simp add: advance_ring_def demo_ring_def)
  moreover have "length (ring_posted demo_ring 3 mem) = 12" for mem
    by (simp add: ring_posted_def ring_order_def demo_ring_def desc_words_def zero_dma_buffer_def desc_size_def
      upt_conv_Cons)
  moreover have "snd (demo_card (plat demo_mapped)) = []" by (simp add: demo_card_def demo_mapped_def demo_table_def demo_bus_def demo_h_def)
  ultimately show ?thesis using post_desc_ring [OF demo_ring_ready demo_port, of 3] by auto
qed

end
