(* ===== verification/Sde_Data.thy ===== *)
theory Sde_Data
  imports Sde_Ring
begin

text \<open>
  The copies between the buffer of the caller and the packet buffers: what is written can be read back,
  and the copy returns unless the packet buffers are all empty.
\<close>

section \<open>Memory of bytes\<close>

definition byte_ram :: "'h platform \<Rightarrow> ('h \<Rightarrow> u64 \<Rightarrow> u8) \<Rightarrow> bool" where
  "byte_ram P view \<longleftrightarrow> (\<forall>h a v. fst (m_load8 P h a) = view h a \<and> view (snd (m_load8 P h a)) = view h \<and>
     view (m_store8 P h a v) = (view h)(a := v))"

fun span :: "u64 \<Rightarrow> nat \<Rightarrow> u64 list" where
  "span a 0 = []"
| "span a (Suc n) = a # span (a + 1) n"

lemma length_span [simp]: "length (span a n) = n"
  by (induction n arbitrary: a) simp_all

lemma take_span: "k \<le> n \<Longrightarrow> take k (span a n) = span a k"
  by (induction n arbitrary: a k) (auto simp: take_Cons' gr0_conv_Suc split: nat.splits)

definition put_bytes :: "u64 list \<Rightarrow> u8 list \<Rightarrow> (u64 \<Rightarrow> u8) \<Rightarrow> u64 \<Rightarrow> u8" where
  "put_bytes as xs m = fold (\<lambda>(a, x) m. m(a := x)) (zip as xs) m"

lemma put_bytes_simps [simp]:
  "put_bytes as [] m = m" "put_bytes [] xs m = m" "put_bytes (a # as) (x # xs) m = put_bytes as xs (m(a := x))"
  by (simp_all add: put_bytes_def)

lemma put_bytes_other: "a \<notin> set as \<Longrightarrow> put_bytes as xs m a = m a"
  by (induction as xs arbitrary: m rule: list_induct2') simp_all

lemma put_bytes_append:
  "length as = length xs \<Longrightarrow> put_bytes (as @ bs) (xs @ ys) m = put_bytes bs ys (put_bytes as xs m)"
  by (simp add: put_bytes_def)

lemma put_bytes_take: "put_bytes (take (length xs) as) xs m = put_bytes as xs m"
  by (induction as xs arbitrary: m rule: list_induct2') simp_all

lemma get_put_bytes:
  "distinct as \<Longrightarrow> length xs \<le> length as \<Longrightarrow> map (put_bytes as xs m) (take (length xs) as) = xs"
  by (induction as xs arbitrary: m rule: list_induct2') (auto simp: put_bytes_other)

lemma refines_mem_read:
  assumes "byte_ram P view" and "plat_blind R"
  shows "refines R view (mem_read P a n) (\<lambda>m. map m (span a n)) id"
proof (induction n arbitrary: a)
  case 0
  then show ?case by (simp, rule refines_cong [OF refines_ok]) simp_all
next
  case (Suc n)
  have "refines R view (on_plat (\<lambda>h. m_load8 P h a)) (\<lambda>m. m a) id"
    by (rule refines_on_plat) (use assms(1) in \<open>auto simp: byte_ram_def\<close>)
  then show ?case
    unfolding mem_read.simps
    by - (rule refines_cong, rule refines_bind [OF assms(2)], assumption, rule refines_bind [OF assms(2)],
      rule Suc.IH, rule refines_ok, simp_all)
qed

lemma refines_mem_write:
  assumes "byte_ram P view" and "plat_blind R"
  shows "refines R view (mem_write P a xs) (\<lambda>_. ()) (put_bytes (span a (length xs)) xs)"
proof (induction xs arbitrary: a)
  case Nil
  then show ?case by (simp, rule refines_cong [OF refines_ok]) simp_all
next
  case (Cons x xs)
  have "refines R view (on_plat (\<lambda>h. ((), m_store8 P h a x))) (\<lambda>_. ()) (\<lambda>m. m(a := x))"
    by (rule refines_on_plat) (use assms(1) in \<open>auto simp: byte_ram_def\<close>)
  then show ?case
    unfolding mem_write.simps
    by - (rule refines_cong, rule refines_then [OF assms(2)], assumption, rule Cons.IH, simp_all add: fun_upd_def)
qed

section \<open>A lap of the packet buffers\<close>

definition buffer_span :: "sde_buffer \<Rightarrow> u64 list" where
  "buffer_span c = span (data_va c) (unat (buf_length c))"

definition buffer_addresses :: "sde_buffer list \<Rightarrow> u64 list" where
  "buffer_addresses bs = concat (map buffer_span bs)"

text \<open>The buffer holds the ring \<open>bs\<close>, of which \<open>ls\<close> are the next ones.\<close>

definition has_buffers :: "sde_dma_buffer \<Rightarrow> sde_buffer list \<Rightarrow> bool" where
  "has_buffers b bs \<longleftrightarrow> buffers b = Some bs \<and> unat (num_buffers b) = length bs \<and> current_buffer_index b < num_buffers b"

definition next_buffers :: "sde_dma_buffer \<Rightarrow> sde_buffer list \<Rightarrow> sde_buffer list \<Rightarrow> bool" where
  "next_buffers b bs ls \<longleftrightarrow> (\<forall>j < length ls. ls ! j = bs ! ((unat (current_buffer_index b) + j) mod length bs))"

text \<open>How many buffers \<open>n\<close> bytes take.\<close>

fun used_buffers :: "nat \<Rightarrow> sde_buffer list \<Rightarrow> nat" where
  "used_buffers n [] = 0"
| "used_buffers n (c # cs) = Suc (if unat (buf_length c) < n then used_buffers (n - unat (buf_length c)) cs else 0)"

definition advance_buffers :: "nat \<Rightarrow> sde_dma_buffer \<Rightarrow> sde_dma_buffer" where
  "advance_buffers k b = b\<lparr>current_buffer_index := of_nat ((unat (current_buffer_index b) + k) mod unat (num_buffers b))\<rparr>"

lemma next_index:
  "has_buffers b bs \<Longrightarrow> unat ((current_buffer_index b + 1) mod num_buffers b) = Suc (unat (current_buffer_index b)) mod length bs"
  using ring_advance [of "current_buffer_index b" "num_buffers b" 1] by (auto simp: has_buffers_def word_less_nat_alt)

lemma step_buffers:
  assumes "has_buffers b bs" and "next_buffers b bs (c # cs)"
  defines "b' \<equiv> b\<lparr>current_buffer_index := (current_buffer_index b + 1) mod num_buffers b\<rparr>"
  shows "has_buffers b' bs" "next_buffers b' bs cs" "advance_buffers k b' = advance_buffers (Suc k) b"
    "advance_buffers 1 b = b'" "bs ! unat (current_buffer_index b) = c"
    "unat (current_buffer_index b) < length bs" "num_buffers b \<noteq> 0"
proof -
  note i = next_index [OF assms(1)]
  have n: "unat (num_buffers b) = length bs" "0 < length bs" "unat (current_buffer_index b) < length bs"
    using assms(1) by (auto simp: has_buffers_def word_less_nat_alt)
  show "unat (current_buffer_index b) < length bs" "num_buffers b \<noteq> 0" using n by auto
  show "has_buffers b' bs"
    using assms(1) i n by (simp add: has_buffers_def b'_def word_less_nat_alt)
  show "bs ! unat (current_buffer_index b) = c"
    using assms(2) n by (auto simp: next_buffers_def)
  show "next_buffers b' bs cs"
    unfolding next_buffers_def
  proof (intro allI impI)
    fix j assume "j < length cs"
    then have "cs ! j = bs ! ((unat (current_buffer_index b) + Suc j) mod length bs)"
      using assms(2) unfolding next_buffers_def by (metis Suc_less_eq length_Cons nth_Cons_Suc)
    then show "cs ! j = bs ! ((unat (current_buffer_index b') + j) mod length bs)"
      using i mod_add_left_eq [of "Suc (unat (current_buffer_index b))" "length bs" j] by (simp add: b'_def)
  qed
  show "advance_buffers k b' = advance_buffers (Suc k) b"
    using i n mod_add_left_eq [of "Suc (unat (current_buffer_index b))" "length bs" k]
    by (simp add: advance_buffers_def b'_def)
  show "advance_buffers 1 b = b'"
    using n unfolding advance_buffers_def b'_def by (simp flip: i add: n(1))
qed


section \<open>The copies\<close>

lemma write_loop_lap:
  assumes "byte_ram P view" and "has_buffers b bs" and "next_buffers b bs ls" and "ls \<noteq> []"
    and "length data \<le> length (buffer_addresses ls)"
  shows "\<exists>p. copy_loop P b data s = Some (Inr (advance_buffers (used_buffers (length data) ls) b), s\<lparr>plat := p\<rparr>) \<and>
    view p = put_bytes (buffer_addresses ls) data (view (plat s))"
  using assms(2-)
proof (induction ls arbitrary: b data s)
  case (Cons c ls)
  define n where "n = (if length data < unat (buf_length c) then length data else unat (buf_length c))"
  let ?b = "b\<lparr>current_buffer_index := (current_buffer_index b + 1) mod num_buffers b\<rparr>"
  note step = step_buffers [OF Cons.prems(1,2)]
  have c: "buffers b = Some bs" using Cons.prems(1) by (simp add: has_buffers_def)
  obtain p where p: "mem_write P (data_va c) (take n data) s = (Inr (), s\<lparr>plat := p\<rparr>)"
      "view p = put_bytes (span (data_va c) (length (take n data))) (take n data) (view (plat s))"
    by (rule refinesD [OF refines_mem_write [OF assms(1), where a = "data_va c" and xs = "take n data" and R = "\<lambda>_. True"], where s = s]) (simp_all add: plat_blind_def)
  have run: "copy_loop P b data s = (if 0 < length data - n then copy_loop P ?b (drop n data) (s\<lparr>plat := p\<rparr>)
      else Some (Inr ?b, s\<lparr>plat := p\<rparr>))"
    using step c p(1) by (subst copy_loop.simps) (simp add: n_def [symmetric] Let_def)
  show ?case
  proof (cases "unat (buf_length c) < length data")
    case False
    then have "n = length data" by (auto simp: n_def)
    then have "view p = put_bytes (buffer_addresses (c # ls)) data (view (plat s))"
      using p(2) False put_bytes_take [of data "buffer_addresses (c # ls)" "view (plat s)"]
        take_span [of "length data" "unat (buf_length c)" "data_va c"]
      by (simp add: buffer_addresses_def buffer_span_def)
    then show ?thesis using run step \<open>n = length data\<close> False by auto
  next
    case True
    then have n: "n = unat (buf_length c)" by (simp add: n_def)
    have "length (drop n data) \<le> length (buffer_addresses ls)"
      using Cons.prems(4) n by (simp add: buffer_addresses_def buffer_span_def)
    moreover from this have "ls \<noteq> []" using True n by (auto simp: buffer_addresses_def)
    ultimately obtain q where q: "copy_loop P ?b (drop n data) (s\<lparr>plat := p\<rparr>) =
          Some (Inr (advance_buffers (used_buffers (length (drop n data)) ls) ?b), s\<lparr>plat := q\<rparr>)"
        "view q = put_bytes (buffer_addresses ls) (drop n data) (view p)"
      using Cons.IH [OF step(1,2), of "drop n data" "s\<lparr>plat := p\<rparr>"] by auto
    have "view q = put_bytes (buffer_addresses (c # ls)) (take n data @ drop n data) (view (plat s))"
      using q(2) p(2) n True by (simp only: buffer_addresses_def buffer_span_def list.map concat.simps)
        (subst put_bytes_append, simp_all)
    then show ?thesis using run q(1) step(3) n True by auto
  qed
qed simp

lemma read_loop_lap:
  assumes "byte_ram P view" and "has_buffers b bs" and "next_buffers b bs ls" and "ls \<noteq> []"
    and "sz \<le> length (buffer_addresses ls)"
  shows "\<exists>p. read_loop P b sz got s = Some (Inr (advance_buffers (used_buffers sz ls) b,
      got @ map (view (plat s)) (take sz (buffer_addresses ls))), s\<lparr>plat := p\<rparr>) \<and> view p = view (plat s)"
  using assms(2-)
proof (induction ls arbitrary: b sz got s)
  case (Cons c ls)
  define n where "n = (if sz < unat (buf_length c) then sz else unat (buf_length c))"
  let ?b = "b\<lparr>current_buffer_index := (current_buffer_index b + 1) mod num_buffers b\<rparr>"
  note step = step_buffers [OF Cons.prems(1,2)]
  have c: "buffers b = Some bs" using Cons.prems(1) by (simp add: has_buffers_def)
  obtain p where p: "mem_read P (data_va c) n s = (Inr (map (view (plat s)) (span (data_va c) n)), s\<lparr>plat := p\<rparr>)"
      "view p = view (plat s)"
    by (rule refinesD [OF refines_mem_read [OF assms(1), where a = "data_va c" and n = n and R = "\<lambda>_. True"], where s = s]) (simp_all add: plat_blind_def)
  have run: "read_loop P b sz got s =
      (let xs = got @ map (view (plat s)) (span (data_va c) n) in
       if 0 < sz - n then read_loop P ?b (sz - n) xs (s\<lparr>plat := p\<rparr>) else Some (Inr (?b, xs), s\<lparr>plat := p\<rparr>))"
    using step c p(1) by (subst read_loop.simps) (simp add: n_def [symmetric] Let_def)
  show ?case
  proof (cases "unat (buf_length c) < sz")
    case False
    then have "n = sz" by (auto simp: n_def)
    then show ?thesis
      using run step p(2) False take_span [of sz "unat (buf_length c)"]
      by (auto simp: buffer_addresses_def buffer_span_def)
  next
    case True
    then have n: "n = unat (buf_length c)" by (simp add: n_def)
    have "sz - n \<le> length (buffer_addresses ls)"
      using Cons.prems(4) n by (simp add: buffer_addresses_def buffer_span_def)
    moreover from this have "ls \<noteq> []" using True n by (auto simp: buffer_addresses_def)
    ultimately obtain q where q: "read_loop P ?b (sz - n) (got @ map (view (plat s)) (span (data_va c) n)) (s\<lparr>plat := p\<rparr>) =
          Some (Inr (advance_buffers (used_buffers (sz - n) ls) ?b,
            (got @ map (view (plat s)) (span (data_va c) n)) @ map (view p) (take (sz - n) (buffer_addresses ls))), s\<lparr>plat := q\<rparr>)"
        "view q = view p"
      using Cons.IH [OF step(1,2), of "sz - n" "got @ map (view (plat s)) (span (data_va c) n)" "s\<lparr>plat := p\<rparr>"] by auto
    then show ?thesis using run q step(3) n True p(2) by (auto simp: buffer_addresses_def buffer_span_def)
  qed
qed simp


text \<open>One lap is the ring from the current buffer on.\<close>

lemma lap_next: "has_buffers b bs \<Longrightarrow> next_buffers b bs (rotate (unat (current_buffer_index b)) bs)"
  by (simp add: next_buffers_def nth_rotate)

lemma lap_addresses:
  "mset (buffer_addresses (rotate k bs)) = mset (buffer_addresses bs)"
proof -
  have "mset (rotate k bs) = mset bs"
    by (simp add: rotate_drop_take) (metis add.commute append_take_drop_id mset_append)
  then have "image_mset (\<lambda>c. mset (buffer_span c)) (mset (rotate k bs)) = image_mset (\<lambda>c. mset (buffer_span c)) (mset bs)"
    by (rule arg_cong)
  then show ?thesis by (simp add: buffer_addresses_def mset_concat comp_def flip: mset_map sum_mset_sum_list)
qed

text \<open>Writing and then reading back from the same place of the ring.\<close>

text \<open>
  C16. Data that fits the packet buffers, written by sde_dma_write_data over as many buffers as it
  takes, is read back by sde_dma_read_data from the same place of the ring; both advance the ring
  alike and no other memory changes.
\<close>

theorem data_roundtrip:
  assumes "byte_ram P view" and "has_buffers b bs" and "distinct (buffer_addresses bs)"
    and "length data \<le> length (buffer_addresses bs)"
  shows "\<exists>k p q. sde_dma_write_data P b data s = Some (Inr (advance_buffers k b), s\<lparr>plat := p\<rparr>) \<and>
    (\<forall>a. a \<notin> set (buffer_addresses bs) \<longrightarrow> view p a = view (plat s) a) \<and>
    sde_dma_read_data P b (length data) (s\<lparr>plat := p\<rparr>) = Some (Inr (advance_buffers k b, data), s\<lparr>plat := q\<rparr>) \<and>
    view q = view p"
proof -
  let ?ls = "rotate (unat (current_buffer_index b)) bs"
  have m: "mset (buffer_addresses ?ls) = mset (buffer_addresses bs)" by (rule lap_addresses)
  have ls: "?ls \<noteq> []" using assms(2) by (auto simp: has_buffers_def word_less_nat_alt)
  have dist: "distinct (buffer_addresses ?ls)" "set (buffer_addresses ?ls) = set (buffer_addresses bs)"
    "length data \<le> length (buffer_addresses ?ls)"
    using assms(3,4) mset_eq_setD [OF m] mset_eq_length [OF m] mset_eq_imp_distinct_iff [OF m] by simp_all
  obtain p where p: "copy_loop P b data s = Some (Inr (advance_buffers (used_buffers (length data) ?ls) b), s\<lparr>plat := p\<rparr>)"
      "view p = put_bytes (buffer_addresses ?ls) data (view (plat s))"
    using write_loop_lap [OF assms(1,2) lap_next [OF assms(2)] ls dist(3)] by blast
  obtain q where q: "read_loop P b (length data) [] (s\<lparr>plat := p\<rparr>) =
        Some (Inr (advance_buffers (used_buffers (length data) ?ls) b,
          map (view p) (take (length data) (buffer_addresses ?ls))), s\<lparr>plat := q\<rparr>)" "view q = view p"
    using read_loop_lap [OF assms(1,2) lap_next [OF assms(2)] ls dist(3), of "[]" "s\<lparr>plat := p\<rparr>"] by auto
  have "map (view p) (take (length data) (buffer_addresses ?ls)) = data"
    unfolding p(2) by (rule get_put_bytes [OF dist(1,3)])
  then show ?thesis
    using p q dist(2) put_bytes_other [of _ "buffer_addresses ?ls" data "view (plat s)"]
    unfolding sde_dma_write_data_def sde_dma_read_data_def by metis
qed

section \<open>When the copy returns\<close>

lemma mem_write_returns: "\<exists>t. mem_write P a xs s = (Inr (), t)"
  by (induction xs arbitrary: a s) (auto simp: prog_simps)

lemma copy_step:
  fixes b :: sde_dma_buffer and data :: "u8 list"
  assumes "has_buffers b bs"
  defines "c \<equiv> bs ! unat (current_buffer_index b)"
  defines "n \<equiv> (if length data < unat (buf_length c) then length data else unat (buf_length c))"
  shows "\<exists>t. copy_loop P b data s =
    (let b' = b\<lparr>current_buffer_index := (current_buffer_index b + 1) mod num_buffers b\<rparr>
     in if 0 < length data - n then copy_loop P b' (drop n data) t else Some (Inr b', t))"
proof -
  obtain t where "mem_write P (data_va c) (take n data) s = (Inr (), t)" using mem_write_returns by blast
  moreover have "buffers b = Some bs" "unat (current_buffer_index b) < length bs" "num_buffers b \<noteq> 0"
    using assms(1) by (auto simp: has_buffers_def word_less_nat_alt)
  ultimately show ?thesis
    by (subst copy_loop.simps) (auto simp: n_def c_def Let_def)
qed

lemma has_buffers_next:
  "has_buffers b bs \<Longrightarrow> has_buffers (b\<lparr>current_buffer_index := (current_buffer_index b + 1) mod num_buffers b\<rparr>) bs"
  using next_index [of b bs] by (auto simp: has_buffers_def word_less_nat_alt intro!: mod_less_divisor)

lemma some_index:
  assumes "has_buffers b bs" and "c \<in> set bs"
  obtains j where "bs ! ((unat (current_buffer_index b) + j) mod length bs) = c"
proof -
  let ?c = "unat (current_buffer_index b)"
  obtain i where i: "i < length bs" "bs ! i = c" using assms(2) by (auto simp: in_set_conv_nth)
  have "?c < length bs" using assms(1) by (auto simp: has_buffers_def word_less_nat_alt)
  then have "(?c + (length bs - ?c + i)) mod length bs = i" using i(1) by simp
  then show thesis using that i(2) by metis
qed

lemma copy_returns:
  fixes P :: "'h platform" and s :: "('h, 'z) pci_st_scheme"
  assumes "has_buffers b bs" and "buf_length (bs ! ((unat (current_buffer_index b) + j) mod length bs)) \<noteq> 0"
  shows "copy_loop P b data s \<noteq> None"
  using assms
proof (induction "length data" arbitrary: data b j s rule: less_induct)
  case less
  note outer = less.hyps
  show ?case using less.prems
  proof (induction j arbitrary: b s)
    case (0 b s)
    let ?b = "b\<lparr>current_buffer_index := (current_buffer_index b + 1) mod num_buffers b\<rparr>"
      and ?c = "bs ! unat (current_buffer_index b)"
    have i: "unat (current_buffer_index b) < length bs" using 0(1) by (auto simp: has_buffers_def word_less_nat_alt)
    then have c: "?c \<in> set bs" "buf_length ?c \<noteq> 0" using 0(2) by simp_all
    obtain j where j: "buf_length (bs ! ((unat (current_buffer_index ?b) + j) mod length bs)) \<noteq> 0"
      using some_index [OF has_buffers_next [OF 0(1)] c(1)] c(2) by metis
    have "unat (buf_length ?c) \<noteq> 0" using c(2) by (simp add: unsigned_eq_0_iff)
    then have "copy_loop P ?b (drop (unat (buf_length ?c)) data) t \<noteq> None" if "data \<noteq> []" for t :: "('h, 'z) pci_st_scheme"
      using that by (intro outer [OF _ has_buffers_next [OF 0(1)] j]) simp
    then show ?case using copy_step [OF 0(1), of P data s] by (cases "data = []") (auto simp: Let_def)
  next
    case (Suc j b s)
    let ?b = "b\<lparr>current_buffer_index := (current_buffer_index b + 1) mod num_buffers b\<rparr>"
    have "buf_length (bs ! ((unat (current_buffer_index ?b) + j) mod length bs)) \<noteq> 0"
      using Suc.prems(2) next_index [OF Suc.prems(1)]
        mod_add_left_eq [of "Suc (unat (current_buffer_index b))" "length bs" j] by simp
    note next1 = Suc.IH [OF has_buffers_next [OF Suc.prems(1)] this]
      and next2 = outer [OF _ has_buffers_next [OF Suc.prems(1)] this]
    have "copy_loop P ?b (drop n data) t \<noteq> None" if "data \<noteq> []" for n and t :: "('h, 'z) pci_st_scheme"
    proof (cases "n = 0")
      case True
      then show ?thesis using next1 by simp
    next
      case False
      then show ?thesis by (intro next2) (use that in simp)
    qed
    then show ?case using copy_step [OF Suc.prems(1), of P data s] by (cases "data = []") (auto simp: Let_def)
  qed
qed

lemma copy_empty_buffers:
  fixes P :: "'h platform" and s :: "('h, 'z) pci_st_scheme"
  assumes "copy_loop P b data s = Some y" and "has_buffers b bs" and "\<forall>c \<in> set bs. buf_length c = 0"
  shows "data = []"
proof -
  define Q :: "((('h platform \<times> sde_dma_buffer) \<times> u8 list) \<times> ('h, 'z) pci_st_scheme)
      \<Rightarrow> (int + sde_dma_buffer) \<times> ('h, 'z) pci_st_scheme \<Rightarrow> bool"
    where "Q = (\<lambda>(((P, b), data), s) y. has_buffers b bs \<longrightarrow> data = [])"
  have "Q (((P, b), data), s) y"
  proof (rule copy_loop.raw_induct [OF _ assms(1), where Pa = Q])
    fix loop and P :: "'h platform" and b data s y
    assume IH: "\<And>b data s ba y. loop b data s ba = Some y \<Longrightarrow> Q (((b, data), s), ba) y"
    assume body: "(case buffers b of None \<Rightarrow> None
      | Some bs \<Rightarrow>
          if length bs \<le> unat (current_buffer_index b) \<or> num_buffers b = 0 then None
          else
            let cur = bs ! unat (current_buffer_index b);
                n = (if length data < unat (buf_length cur) then length data else unat (buf_length cur))
            in case mem_write P (data_va cur) (take n data) s of
                 (Inl e, t) \<Rightarrow> Some (Inl e, t)
               | (Inr _, t) \<Rightarrow>
                   let b' = b\<lparr>current_buffer_index := (current_buffer_index b + 1) mod num_buffers b\<rparr> in
                   if 0 < length data - n then loop P b' (drop n data) t
                   else Some (Inr b', t)) = Some y"
    show "Q (((P, b), data), s) y"
    proof (unfold Q_def, simp, intro impI)
      assume b: "has_buffers b bs"
      then have i: "unat (current_buffer_index b) < length bs" "buffers b = Some bs" "num_buffers b \<noteq> 0"
        by (auto simp: has_buffers_def word_less_nat_alt)
      then have "buf_length (bs ! unat (current_buffer_index b)) = 0" using assms(3) by simp
      moreover obtain t where "mem_write P (data_va (bs ! unat (current_buffer_index b))) [] s = (Inr (), t)"
        using mem_write_returns by blast
      ultimately show "data = []"
        using body IH [of P "b\<lparr>current_buffer_index := (current_buffer_index b + 1) mod num_buffers b\<rparr>" data t y]
          has_buffers_next [OF b] i by (auto simp: Let_def Q_def split: if_splits)
    qed
  qed
  then show ?thesis using assms(2) by (simp add: Q_def)
qed

text \<open>
  C29. The copy loop of sde_dma_write_data returns exactly when there is nothing to copy or some
  packet buffer is not empty: with empty buffers only, it runs forever.
\<close>

theorem write_data_returns:
  assumes "has_buffers b bs"
  shows "sde_dma_write_data P b data s \<noteq> None \<longleftrightarrow> data = [] \<or> (\<exists>c \<in> set bs. buf_length c \<noteq> 0)"
proof
  assume "sde_dma_write_data P b data s \<noteq> None"
  then show "data = [] \<or> (\<exists>c \<in> set bs. buf_length c \<noteq> 0)"
    using copy_empty_buffers assms unfolding sde_dma_write_data_def by blast
next
  assume "data = [] \<or> (\<exists>c \<in> set bs. buf_length c \<noteq> 0)"
  then show "sde_dma_write_data P b data s \<noteq> None"
  proof
    assume "data = []"
    then show ?thesis using copy_step [OF assms, of P data s] by (auto simp: sde_dma_write_data_def Let_def)
  next
    assume "\<exists>c \<in> set bs. buf_length c \<noteq> 0"
    then show ?thesis
      unfolding sde_dma_write_data_def by (metis assms copy_returns some_index)
  qed
qed


section \<open>Instances\<close>

text \<open>The small platform with byte accesses, and a ring of two buffers of 3 bytes.\<close>

definition demo_buffers :: "sde_buffer list" where
  "demo_buffers = [\<lparr>data_va = 0x4000, data_pa = 0, buf_length = 3, alloc_length = 3\<rparr>,
     \<lparr>data_va = 0x5000, data_pa = 0, buf_length = 3, alloc_length = 3\<rparr>]"

definition demo_packets :: sde_dma_buffer where
  "demo_packets = zero_dma_buffer\<lparr>buffers := Some demo_buffers, num_buffers := 2, current_buffer_index := 1\<rparr>"

lemma demo_byte_ram: "byte_ram demo_platform (\<lambda>h a. ucast (demo_regs h a))"
proof -
  have "ucast (ucast (v :: u8) :: u32) = v" for v by (rule bit_word_eqI) (simp add: bit_simps)
  then show ?thesis by (auto simp: byte_ram_def demo_platform_def fun_eq_iff)
qed

lemma demo_has_buffers: "has_buffers demo_packets demo_buffers"
  by (simp add: has_buffers_def demo_packets_def demo_buffers_def)

lemma demo_addresses: "buffer_addresses demo_buffers = [0x4000, 0x4001, 0x4002, 0x5000, 0x5001, 0x5002]"
proof -
  have "span a 3 = [a, a + 1, a + 2]" for a by (simp add: numeral_3_eq_3 add.assoc)
  then show ?thesis by (simp add: buffer_addresses_def buffer_span_def demo_buffers_def)
qed

theorem data_roundtrip_witness:
  "\<exists>k p q. sde_dma_write_data demo_platform demo_packets [1, 2, 3, 4, 5] demo_mapped =
      Some (Inr (advance_buffers k demo_packets), demo_mapped\<lparr>plat := p\<rparr>) \<and>
    sde_dma_read_data demo_platform demo_packets 5 (demo_mapped\<lparr>plat := p\<rparr>) =
      Some (Inr (advance_buffers k demo_packets, [1, 2, 3, 4, 5]), demo_mapped\<lparr>plat := q\<rparr>)"
proof -
  have five: "length [1, 2, 3, 4, 5 :: u8] = 5" by simp
  have "distinct (buffer_addresses demo_buffers)" "length [1, 2, 3, 4, 5 :: u8] \<le> length (buffer_addresses demo_buffers)"
    by (simp_all add: demo_addresses)
  from data_roundtrip [OF demo_byte_ram demo_has_buffers this, of demo_mapped]
  show ?thesis unfolding five by blast
qed

theorem write_data_returns_witness:
  "sde_dma_write_data demo_platform demo_packets [1, 2, 3, 4, 5] demo_mapped \<noteq> None"
proof -
  have "\<exists>c \<in> set demo_buffers. buf_length c \<noteq> 0" by (simp add: demo_buffers_def)
  then show ?thesis
    using write_data_returns [OF demo_has_buffers, of demo_platform "[1, 2, 3, 4, 5]" demo_mapped] by blast
qed

end
