(* ===== verification/Sde_Mgmt.thy ===== *)
theory Sde_Mgmt
  imports Sde_Dma
begin

text \<open>
  \<open>sde_lib/sde_mgmt.c\<close>: one record per slot that ties the memory, the controller and the two descriptor
  rings together, the flow control by descriptor credits, and the transfer of data. The slot of a call
  is below \<open>SDE_SLOT_MAX\<close>; the code does not check for negative slots, for which its array access is
  undefined and which are outside this model.
\<close>

abbreviation (input) SDE_SLOT_MAX :: int where "SDE_SLOT_MAX \<equiv> 8"
abbreviation (input) DESC_WAIT_MAX_ITERS :: nat where "DESC_WAIT_MAX_ITERS \<equiv> 1000000"

record sde_mgmt =
  mg_mem :: sde_mem
  hw_ctrl :: sde_hw_ctrl
  c2h_buffer :: sde_dma_buffer
  h2c_buffer :: sde_dma_buffer
  direction :: SDE_EXAMPLE_DIR
  c2h_desc_consumed :: u32
  h2c_desc_consumed :: u32
  data_pattern :: u32
  c2h_status :: u64
  h2c_status :: u64
  md_read_index :: u64
  metadata :: u64
  sde_initialized :: bool

record 'h sde_st = "'h pci_st" +
  priv_sde_mgmt :: "sde_mgmt list"

definition zero_writeback :: sde_writeback_mem where
  "zero_writeback = \<lparr>memory_va = 0, memory_pa = 0, memory_size = 0, metadata_offset = 0, desc_offset = 0, status_offset = 0\<rparr>"

definition zero_sde_mem :: sde_mem where
  "zero_sde_mem = \<lparr>c2h_writeback = zero_writeback, h2c_writeback = zero_writeback,
     c2h_layout = SDE_BUFFER_LAYOUT_SINGLE, c2h_buffers = None, c2h_num_buffers = 0,
     h2c_layout = SDE_BUFFER_LAYOUT_SINGLE, h2c_buffers = None, h2c_num_buffers = 0\<rparr>"

definition zero_sde_mgmt :: sde_mgmt where
  "zero_sde_mgmt = \<lparr>mg_mem = zero_sde_mem, hw_ctrl = zero_ctrl, c2h_buffer = zero_dma_buffer, h2c_buffer = zero_dma_buffer,
     direction = SDE_EXAMPLE_DIR_C2H, c2h_desc_consumed = 0, h2c_desc_consumed = 0, data_pattern = 0, c2h_status = 0,
     h2c_status = 0, md_read_index = 0, metadata = 0, sde_initialized = False\<rparr>"

definition get_sde :: "int \<Rightarrow> ('h, 'z) sde_st_scheme \<Rightarrow> sde_mgmt" where
  "get_sde slot_id s = priv_sde_mgmt s ! nat slot_id"

definition put_sde :: "int \<Rightarrow> sde_mgmt \<Rightarrow> (('h, 'z) sde_st_scheme, unit) prog" where
  "put_sde slot_id m = modify (\<lambda>s. s\<lparr>priv_sde_mgmt := (priv_sde_mgmt s)[nat slot_id := m]\<rparr>)"

text \<open>The check of the slot, and the two checks with which every other function begins.\<close>

definition check_slot :: "int \<Rightarrow> (('h, 'z) sde_st_scheme, unit) prog" where
  "check_slot slot_id = fail_on (SDE_SLOT_MAX \<le> slot_id) FPGA_ERR_SOFTWARE_PROBLEM"

definition the_sde :: "int \<Rightarrow> (('h, 'z) sde_st_scheme, sde_mgmt) prog" where
  "the_sde slot_id =
     bindE (check_slot slot_id) (\<lambda>_.
     bindE (gets (get_sde slot_id)) (\<lambda>m.
     bindE (fail_on (\<not> sde_initialized m) FPGA_ERR_SOFTWARE_PROBLEM) (\<lambda>_. ok m)))"

section \<open>Life cycle\<close>

text \<open>
  What a failing initialisation leaves in the record is not read again, since the record is not marked
  as initialised; the memory and the BARs it has got so far stay allocated.
\<close>

definition sde_mgmt_init ::
  "'h platform \<Rightarrow> 'h dma_os \<Rightarrow> int \<Rightarrow> SDE_EXAMPLE_DIR \<Rightarrow> u64 \<Rightarrow> SDE_BUFFER_LAYOUT
    \<Rightarrow> (('h, 'z) sde_st_scheme, unit) prog" where
  "sde_mgmt_init P D slot_id dir packet_size lay =
     bindE (check_slot slot_id) (\<lambda>_.
     bindE (put_sde slot_id (zero_sde_mgmt\<lparr>direction := dir\<rparr>)) (\<lambda>_.
     bindE (sde_mem_init P D lay lay dir packet_size) (\<lambda>mem.
     bindE (sde_hw_init P slot_id) (\<lambda>(ret, ctrl).
     bindE (fail_on (ret \<noteq> 0) ret) (\<lambda>_.
     bindE (sde_mem_get_metadata mem SDE_SUBSYSTEM_C2H) (\<lambda>(md_ring_va, _).
     put_sde slot_id (zero_sde_mgmt\<lparr>direction := dir, mg_mem := mem, hw_ctrl := ctrl,
       c2h_status := fst (sde_mem_get_status mem SDE_SUBSYSTEM_C2H),
       c2h_buffer := sde_dma_buffer_init lay SDE_SUBSYSTEM_C2H packet_size mem,
       h2c_status := fst (sde_mem_get_status mem SDE_SUBSYSTEM_H2C),
       h2c_buffer := sde_dma_buffer_init lay SDE_SUBSYSTEM_H2C packet_size mem,
       metadata := md_ring_va, data_pattern := START_DOUBLE_WORD, sde_initialized := True\<rparr>)))))))"

text \<open>The record stays marked as initialised.\<close>

definition sde_mgmt_close :: "'h platform \<Rightarrow> int \<Rightarrow> (('h, 'z) sde_st_scheme, unit) prog" where
  "sde_mgmt_close P slot_id =
     bindE (the_sde slot_id) (\<lambda>m.
     bindE (sde_hw_close P (hw_ctrl m)) (\<lambda>(e1, ctrl).
     bindE (sde_mem_close P (mg_mem m)) (\<lambda>(e2, mem).
     bindE (put_sde slot_id (m\<lparr>c2h_buffer := sde_dma_buffer_close (c2h_buffer m),
       h2c_buffer := sde_dma_buffer_close (h2c_buffer m), hw_ctrl := ctrl, mg_mem := mem\<rparr>)) (\<lambda>_.
     fail_on (e1 OR e2 \<noteq> 0) (e1 OR e2)))))"

definition sde_mgmt_reset :: "'h platform \<Rightarrow> int \<Rightarrow> (('h, 'z) sde_st_scheme, unit) prog" where
  "sde_mgmt_reset P slot_id =
     bindE (the_sde slot_id) (\<lambda>m.
     bindE (sde_hw_reset P (hw_ctrl m)) (\<lambda>_.
     bindE (forE [(c2h_status m, 0), (c2h_status m + 4, of_nat SDE_NUM_DESC), (c2h_status m + 8, 0),
         (c2h_status m + 12, 0), (c2h_status m + 16, 0),
         (h2c_status m, 0), (h2c_status m + 4, of_nat SDE_NUM_DESC), (h2c_status m + 8, 0), (h2c_status m + 12, 0)]
       (\<lambda>(a, v). st32 P a v)) (\<lambda>_.
     put_sde slot_id (m\<lparr>md_read_index := 0\<rparr>))))"

definition sde_mgmt_check_status ::
  "'h platform \<Rightarrow> int \<Rightarrow> SDE_SUBSYSTEM \<Rightarrow> (('h, 'z) sde_st_scheme, unit) prog" where
  "sde_mgmt_check_status P slot_id subsystem =
     bindE (the_sde slot_id) (\<lambda>m.
     bindE (load32 P (case subsystem of SDE_SUBSYSTEM_C2H \<Rightarrow> c2h_status m | SDE_SUBSYSTEM_H2C \<Rightarrow> h2c_status m)) (\<lambda>status.
     bindE (fail_on (SDE_GET_BITFIELD 1 0 status \<noteq> 0) SDE_STATUS_COUNTER_ERROR) (\<lambda>_.
     bindE (fail_on (SDE_GET_BITFIELD 2 1 status \<noteq> 0) SDE_STATUS_COUNTER_ERROR) (\<lambda>_.
     fail_on (SDE_GET_BITFIELD 4 2 status \<noteq> 0) SDE_STATUS_COUNTER_ERROR))))"

definition get_buffer :: "SDE_SUBSYSTEM \<Rightarrow> sde_mgmt \<Rightarrow> sde_dma_buffer" where
  "get_buffer subsystem m = (case subsystem of SDE_SUBSYSTEM_C2H \<Rightarrow> c2h_buffer m | SDE_SUBSYSTEM_H2C \<Rightarrow> h2c_buffer m)"

definition put_buffer :: "SDE_SUBSYSTEM \<Rightarrow> sde_dma_buffer \<Rightarrow> sde_mgmt \<Rightarrow> sde_mgmt" where
  "put_buffer subsystem b m = (case subsystem of
     SDE_SUBSYSTEM_C2H \<Rightarrow> m\<lparr>c2h_buffer := b\<rparr> | SDE_SUBSYSTEM_H2C \<Rightarrow> m\<lparr>h2c_buffer := b\<rparr>)"

definition sde_mgmt_set_dma_buffers ::
  "int \<Rightarrow> SDE_SUBSYSTEM \<Rightarrow> sde_buffer list \<Rightarrow> (('h, 'z) sde_st_scheme, unit) prog" where
  "sde_mgmt_set_dma_buffers slot_id subsystem bs =
     bindE (the_sde slot_id) (\<lambda>m.
     bindE (fail_on (SDE_NUM_DESC < length bs) FPGA_ERR_SOFTWARE_PROBLEM) (\<lambda>_.
     bindE (fail_on (length bs = 0) FPGA_ERR_SOFTWARE_PROBLEM) (\<lambda>_.
     case sde_dma_buffer_set_dma_buffers (get_buffer subsystem m) bs of
       Inl e \<Rightarrow> fail e
     | Inr b \<Rightarrow> put_sde slot_id (put_buffer subsystem b m))))"

section \<open>Configuration\<close>

definition sde_mgmt_cfg_c2h :: "'h platform \<Rightarrow> sde_mgmt \<Rightarrow> (('h, 'z) sde_st_scheme, unit) prog" where
  "sde_mgmt_cfg_c2h P m =
     bindE (sde_mem_get_metadata (mg_mem m) SDE_SUBSYSTEM_C2H) (\<lambda>(_, md_pa).
     sde_hw_cfg_c2h P (hw_ctrl m) (snd (sde_mem_get_status (mg_mem m) SDE_SUBSYSTEM_C2H)) md_pa
       (ucast (sde_aligned_size (SIZEOF_WB_METADATA * of_nat C2H_NUM_MD_IN_RING) SDE_ALIGN)))"

definition sde_mgmt_cfg_h2c :: "'h platform \<Rightarrow> sde_mgmt \<Rightarrow> (('h, 'z) sde_st_scheme, unit) prog" where
  "sde_mgmt_cfg_h2c P m =
     sde_hw_cfg_h2c P (hw_ctrl m) (snd (sde_mem_get_status (mg_mem m) SDE_SUBSYSTEM_H2C))"

definition cfg_desc_buffer ::
  "'h platform \<Rightarrow> int \<Rightarrow> SDE_SUBSYSTEM \<Rightarrow> (('h, 'z) sde_st_scheme, unit) prog" where
  "cfg_desc_buffer P slot_id subsystem =
     bindE (gets (get_sde slot_id)) (\<lambda>m.
     bindE (sde_dma_init_desc_buffer P (get_buffer subsystem m)) (\<lambda>b.
     put_sde slot_id (put_buffer subsystem b m)))"

definition sde_mgmt_cfg_packets ::
  "'h platform \<Rightarrow> int \<Rightarrow> SDE_EXAMPLE_DIR \<Rightarrow> (('h, 'z) sde_st_scheme, unit) prog" where
  "sde_mgmt_cfg_packets P slot_id dir =
     bindE (if dir \<noteq> SDE_EXAMPLE_DIR_H2C then cfg_desc_buffer P slot_id SDE_SUBSYSTEM_C2H else ok ()) (\<lambda>_.
     if dir \<noteq> SDE_EXAMPLE_DIR_C2H then cfg_desc_buffer P slot_id SDE_SUBSYSTEM_H2C else ok ())"

definition sde_mgmt_cfg_c2h_atg :: "'h platform \<Rightarrow> sde_mgmt \<Rightarrow> (('h, 'z) sde_st_scheme, unit) prog" where
  "sde_mgmt_cfg_c2h_atg P m =
     (let loopback = (direction m = SDE_EXAMPLE_DIR_LOOPBACK) in
      bindE (sde_hw_cfg_loopback_mode P (hw_ctrl m) loopback) (\<lambda>_.
      if loopback then ok ()
      else sde_hw_cfg_atg_mode P (hw_ctrl m) True (data_pattern m) (ucast (pkt_size (c2h_buffer m)))))"

definition sde_mgmt_cfg :: "'h platform \<Rightarrow> int \<Rightarrow> (('h, 'z) sde_st_scheme, unit) prog" where
  "sde_mgmt_cfg P slot_id =
     bindE (the_sde slot_id) (\<lambda>m.
     bindE (sde_mgmt_cfg_c2h P m) (\<lambda>_.
     bindE (sde_mgmt_cfg_h2c P m) (\<lambda>_.
     bindE (sde_mgmt_cfg_c2h_atg P m) (\<lambda>_.
     sde_mgmt_cfg_packets P slot_id (direction m)))))"

definition sde_mgmt_init_and_cfg ::
  "'h platform \<Rightarrow> 'h dma_os \<Rightarrow> int \<Rightarrow> SDE_EXAMPLE_DIR \<Rightarrow> u64 \<Rightarrow> (('h, 'z) sde_st_scheme, unit) prog" where
  "sde_mgmt_init_and_cfg P D slot_id dir packet_size =
     bindE (sde_mgmt_init P D slot_id dir packet_size SDE_BUFFER_LAYOUT_MULTI) (\<lambda>_.
     bindE (sde_mgmt_reset P slot_id) (\<lambda>_.
     sde_mgmt_cfg P slot_id))"

section \<open>Credits\<close>

definition desc_consumed :: "SDE_SUBSYSTEM \<Rightarrow> sde_mgmt \<Rightarrow> u32" where
  "desc_consumed subsystem m = (case subsystem of
     SDE_SUBSYSTEM_C2H \<Rightarrow> c2h_desc_consumed m | SDE_SUBSYSTEM_H2C \<Rightarrow> h2c_desc_consumed m)"

definition add_consumed :: "SDE_SUBSYSTEM \<Rightarrow> u32 \<Rightarrow> sde_mgmt \<Rightarrow> sde_mgmt" where
  "add_consumed subsystem n m = (case subsystem of
     SDE_SUBSYSTEM_C2H \<Rightarrow> m\<lparr>c2h_desc_consumed := c2h_desc_consumed m + n\<rparr>
   | SDE_SUBSYSTEM_H2C \<Rightarrow> m\<lparr>h2c_desc_consumed := h2c_desc_consumed m + n\<rparr>)"

definition limit_va :: "SDE_SUBSYSTEM \<Rightarrow> sde_mgmt \<Rightarrow> u64" where
  "limit_va subsystem m = (case subsystem of
     SDE_SUBSYSTEM_C2H \<Rightarrow> c2h_status m + 4 | SDE_SUBSYSTEM_H2C \<Rightarrow> h2c_status m + 4)"

text \<open>
  The loop, with \<open>Suc n\<close> looks at the limit that the card writes back: the credits of the last look. The
  difference is taken in 32 bits and then widened.
\<close>

fun credit_loop :: "'h platform \<Rightarrow> u64 \<Rightarrow> u32 \<Rightarrow> u64 \<Rightarrow> nat \<Rightarrow> (('h, 'z) pci_st_scheme, u64) prog" where
  "credit_loop P a consumed n 0 = ok 0"
| "credit_loop P a consumed n (Suc k) =
     bindE (load32 P a) (\<lambda>desc_limit.
     let credits = ucast (desc_limit - consumed) in
     if credits < n \<and> 0 < k then credit_loop P a consumed n k else ok credits)"

definition sde_mgmt_wait_desc_credit ::
  "'h platform \<Rightarrow> int \<Rightarrow> SDE_SUBSYSTEM \<Rightarrow> u64 \<Rightarrow> (('h, 'z) sde_st_scheme, unit) prog" where
  "sde_mgmt_wait_desc_credit P slot_id subsystem n =
     bindE (the_sde slot_id) (\<lambda>m.
     bindE (fail_on (of_nat SDE_NUM_DESC < n) FPGA_ERR_SOFTWARE_PROBLEM) (\<lambda>_.
     bindE (credit_loop P (limit_va subsystem m) (desc_consumed subsystem m) n DESC_WAIT_MAX_ITERS) (\<lambda>credits.
     fail_on (credits < n) SDE_DESC_LIMIT_TIMEOUT)))"

text \<open>\<open>*desc_consumed += *num_desc\<close> also after a failure.\<close>

definition sde_mgmt_post_desc ::
  "'h platform \<Rightarrow> int \<Rightarrow> SDE_SUBSYSTEM \<Rightarrow> u64 \<Rightarrow> (('h, 'z) sde_st_scheme, u64) run" where
  "sde_mgmt_post_desc P slot_id subsystem n =
     bindR (returns (bindE (the_sde slot_id) (\<lambda>m.
       bindE (fail_on (of_nat SDE_NUM_DESC < n) FPGA_ERR_SOFTWARE_PROBLEM) (\<lambda>_. ok m)))) (\<lambda>m.
     bindR (sde_dma_post_desc P (hw_ctrl m) (get_buffer subsystem m) n) (\<lambda>(ret, b, posted).
     returns (bindE (put_sde slot_id (add_consumed subsystem (ucast posted) (put_buffer subsystem b m))) (\<lambda>_.
       bindE (fail_on (ret \<noteq> 0) ret) (\<lambda>_. ok posted)))))"

text \<open>The descriptors for \<open>sz\<close> bytes in packets of \<open>pkt\<close> bytes; the sum is that of \<open>size_t\<close>.\<close>

definition descs_for :: "u64 \<Rightarrow> u64 \<Rightarrow> u64" where
  "descs_for sz pkt = (sz + pkt - 1) div pkt"

definition request ::
  "'h platform \<Rightarrow> int \<Rightarrow> SDE_SUBSYSTEM \<Rightarrow> u64 \<Rightarrow> sde_mgmt \<Rightarrow> (('h, 'z) sde_st_scheme, unit) run" where
  "request P slot_id subsystem sz m =
     (if sz = 0 then returns (ok ())
      else if pkt_size (get_buffer subsystem m) = 0 then never
      else
        let n = descs_for sz (pkt_size (get_buffer subsystem m)) in
        bindR (returns (sde_mgmt_wait_desc_credit P slot_id subsystem n)) (\<lambda>_.
        bindR (sde_mgmt_post_desc P slot_id subsystem n) (\<lambda>_. returns (ok ()))))"

definition sde_mgmt_start_read :: "'h platform \<Rightarrow> int \<Rightarrow> u64 \<Rightarrow> (('h, 'z) sde_st_scheme, unit) run" where
  "sde_mgmt_start_read P slot_id sz =
     bindR (returns (the_sde slot_id)) (request P slot_id SDE_SUBSYSTEM_C2H sz)"

definition sde_mgmt_write :: "'h platform \<Rightarrow> int \<Rightarrow> u64 \<Rightarrow> (('h, 'z) sde_st_scheme, unit) run" where
  "sde_mgmt_write P slot_id sz =
     bindR (returns (bindE (the_sde slot_id) (\<lambda>m.
       bindE (fail_on (sz = 0) FPGA_ERR_SOFTWARE_PROBLEM) (\<lambda>_. ok m)))) (request P slot_id SDE_SUBSYSTEM_H2C sz)"

section \<open>Data\<close>

record sde_md =
  md_length :: u32
  md_valid :: bool
  md_eop :: bool
  user_bits :: "u32 list"

text \<open>Up to \<open>n\<close> looks at the status of a metadata entry, until it is valid.\<close>

fun valid_loop :: "'h platform \<Rightarrow> u64 \<Rightarrow> nat \<Rightarrow> (('h, 'z) pci_st_scheme, bool) prog" where
  "valid_loop P a 0 = ok False"
| "valid_loop P a (Suc k) =
     bindE (load32 P a) (\<lambda>status.
     if SDE_GET_BITFIELD 1 0 status = 0 then valid_loop P a k else ok True)"

definition load64 :: "'h platform \<Rightarrow> u64 \<Rightarrow> (('h, 'z) pci_st_scheme, u64) prog" where
  "load64 P a = on_plat (\<lambda>h. m_load64 P h a)"

definition sde_mgmt_read_md :: "'h platform \<Rightarrow> int \<Rightarrow> (('h, 'z) sde_st_scheme, sde_md) prog" where
  "sde_mgmt_read_md P slot_id =
     bindE (the_sde slot_id) (\<lambda>m.
     let a = metadata m + md_read_index m * SIZEOF_WB_METADATA in
     bindE (valid_loop P (a + 4) DESC_WAIT_MAX_ITERS) (\<lambda>done.
     bindE (fail_on (\<not> done) SDE_METADATA_VALID_TIMEOUT) (\<lambda>_.
     bindE (load32 P (a + 4)) (\<lambda>md_status.
     bindE (load32 P a) (\<lambda>len.
     bindE (st32 P (a + 4) 0) (\<lambda>_.
     bindE (load64 P (a + 8)) (\<lambda>user0.
     bindE (load64 P (a + 8)) (\<lambda>user1.
     bindE (put_sde slot_id (m\<lparr>md_read_index := (md_read_index m + 1) AND of_nat (SDE_NUM_DESC - 1)\<rparr>)) (\<lambda>_.
     ok \<lparr>md_length = len, md_valid = (SDE_GET_BITFIELD 1 0 md_status \<noteq> 0),
         md_eop = (SDE_GET_BITFIELD 2 1 md_status \<noteq> 0),
         user_bits = [ucast (user0 AND 0xFFFFFFFF), ucast (drop_bit 32 user1)]\<rparr>)))))))))"

text \<open>The loops of the two data functions; \<open>got\<close> is what is in the buffer of the caller so far.\<close>

partial_function (option) read_data_loop ::
  "'h platform \<Rightarrow> int \<Rightarrow> nat \<Rightarrow> u8 list \<Rightarrow> (('h, 'z) sde_st_scheme, int \<times> u8 list) run" where
  "read_data_loop P slot_id sz got s =
     (if length got < sz then
        case sde_mgmt_read_md P slot_id s of
          (Inl e, t) \<Rightarrow> Some (Inr (e, got), t)
        | (Inr md, t) \<Rightarrow>
            let n = (if unat (md_length md) < sz - length got then unat (md_length md) else sz - length got) in
            (case sde_dma_read_data P (c2h_buffer (get_sde slot_id t)) n t of
               None \<Rightarrow> None
             | Some (Inl e, u) \<Rightarrow> Some (Inr (e, got), u)
             | Some (Inr (b, xs), u) \<Rightarrow>
                 (case put_sde slot_id ((get_sde slot_id u)\<lparr>c2h_buffer := b\<rparr>) u of
                    (_, v) \<Rightarrow> read_data_loop P slot_id sz (got @ xs) v))
      else Some (Inr (0, got), s))"

definition sde_mgmt_read_data ::
  "'h platform \<Rightarrow> int \<Rightarrow> nat \<Rightarrow> (('h, 'z) sde_st_scheme, int \<times> u8 list) run" where
  "sde_mgmt_read_data P slot_id sz =
     bindR (returns (bindE (the_sde slot_id) (\<lambda>_. fail_on (sz = 0) FPGA_ERR_SOFTWARE_PROBLEM))) (\<lambda>_.
     read_data_loop P slot_id sz [])"

partial_function (option) write_data_loop ::
  "'h platform \<Rightarrow> int \<Rightarrow> u8 list \<Rightarrow> int \<Rightarrow> (('h, 'z) sde_st_scheme, unit) run" where
  "write_data_loop P slot_id data ret s =
     (if data \<noteq> [] then
        let b = h2c_buffer (get_sde slot_id s);
            n = (if unat (pkt_size b) < length data then unat (pkt_size b) else length data)
        in case sde_dma_write_data P b (take n data) s of
             None \<Rightarrow> None
           | Some (Inl e, t) \<Rightarrow> write_data_loop P slot_id (drop n data) e t
           | Some (Inr b', t) \<Rightarrow>
               (case put_sde slot_id ((get_sde slot_id t)\<lparr>h2c_buffer := b'\<rparr>) t of
                  (_, u) \<Rightarrow> write_data_loop P slot_id (drop n data) 0 u)
      else Some (if ret = 0 then Inr () else Inl ret, s))"

definition sde_mgmt_prepare_write ::
  "'h platform \<Rightarrow> int \<Rightarrow> u8 list \<Rightarrow> (('h, 'z) sde_st_scheme, unit) run" where
  "sde_mgmt_prepare_write P slot_id data =
     bindR (returns (bindE (the_sde slot_id) (\<lambda>_. fail_on (data = []) FPGA_ERR_SOFTWARE_PROBLEM))) (\<lambda>_.
     write_data_loop P slot_id data 0)"

end
