(* ===== verification/Sde_State.thy ===== *)
theory Sde_State
  imports Sde_Mgmt
begin

text \<open>
  The records of the streaming data engine stay well formed: rules for calls that may not return, what
  the parts leave alone, the invariant of a record, and that every call of \<open>sde_mgmt.h\<close> keeps it.
\<close>

section \<open>Rules\<close>

text \<open>What a program delivers when it succeeds.\<close>

definition yields :: "('a \<Rightarrow> bool) \<Rightarrow> ('s, 'a) prog \<Rightarrow> bool" where
  "yields Q m \<longleftrightarrow> (\<forall>s a t. m s = (Inr a, t) \<longrightarrow> Q a)"

named_theorems yields_intros \<open>rules for results of programs\<close>

lemma yieldsD: "yields Q m \<Longrightarrow> m s = (Inr a, t) \<Longrightarrow> Q a"
  by (auto simp: yields_def)

lemma yields_True: "yields (\<lambda>_. True) m"
  by (simp add: yields_def)

lemma yields_ok [yields_intros]: "Q a \<Longrightarrow> yields Q (ok a)"
  by (simp add: yields_def ok_apply)

lemma yields_fail [yields_intros]: "yields Q (fail e)"
  by (simp add: yields_def fail_apply)

lemma yields_bindE:
  "yields R m \<Longrightarrow> (\<And>a. R a \<Longrightarrow> yields Q (k a)) \<Longrightarrow> yields Q (bindE m k)"
  unfolding yields_def bindE_apply by (fastforce split: prod.splits sum.splits)

lemma yields_bindE_any [yields_intros]: "(\<And>a. yields Q (k a)) \<Longrightarrow> yields Q (bindE m k)"
  by (rule yields_bindE [OF yields_True])

lemma yields_if [yields_intros]: "(c \<Longrightarrow> yields Q m) \<Longrightarrow> (\<not> c \<Longrightarrow> yields Q n) \<Longrightarrow> yields Q (if c then m else n)"
  by simp

lemma keeps_bindE_yields:
  assumes "keeps I m" and "yields Q m" and "\<And>a. Q a \<Longrightarrow> keeps I (k a)"
  shows "keeps I (bindE m k)"
  unfolding keeps_def bindE_apply
  using assms by (auto split: prod.splits sum.splits dest: keepsD yieldsD) (metis keepsD keeps_snd yieldsD)+

text \<open>The same for calls that may not return.\<close>

definition keepsR :: "('s \<Rightarrow> bool) \<Rightarrow> ('s, 'a) run \<Rightarrow> bool" where
  "keepsR I m \<longleftrightarrow> (\<forall>s r t. I s \<longrightarrow> m s = Some (r, t) \<longrightarrow> I t)"

lemma keepsR_returns: "keeps I m \<Longrightarrow> keepsR I (returns m)"
  by (auto simp: keepsR_def returns_apply keeps_def dest: arg_cong [of _ _ snd])

lemma keepsR_never: "keepsR I never"
  by (simp add: keepsR_def never_apply)

lemma keepsR_bindR:
  assumes "keepsR I m" and "\<And>a. keepsR I (k a)"
  shows "keepsR I (bindR m k)"
  unfolding keepsR_def
proof (intro allI impI)
  fix s r t assume I: "I s" and run: "bindR m k s = Some (r, t)"
  then obtain r' u where m: "m s = Some (r', u)" by (cases "m s") (auto simp: bindR_apply)
  then have "I u" using assms(1) I by (auto simp: keepsR_def)
  then show "I t" using run m assms(2) by (cases r') (auto simp: bindR_apply keepsR_def)
qed

lemma keepsR_bind_yields:
  assumes "keeps I m" and "yields Q m" and "\<And>a. Q a \<Longrightarrow> keepsR I (k a)"
  shows "keepsR I (bindR (returns m) k)"
  unfolding keepsR_def returns_bind
  using assms by (auto split: prod.splits sum.splits dest: keepsD yieldsD) (metis keepsD keepsR_def yieldsD)+

section \<open>Frames\<close>

lemma leaves_words [leaves_intros]:
  "plat_free f \<Longrightarrow> leaves f (load32 P a)" "plat_free f \<Longrightarrow> leaves f (load64 P a)"
  "plat_free f \<Longrightarrow> leaves f (st32 P a v)" "plat_free f \<Longrightarrow> leaves f (st64 P a w)"
  unfolding load32_def load64_def st32_def st64_def by (auto intro: leaves_intros)

lemma leaves_set_bitfield [leaves_intros]: "plat_free f \<Longrightarrow> leaves f (set_bitfield_at P msk sh v a)"
  unfolding set_bitfield_at_def by (auto intro!: leaves_intros)

lemma leaves_verify [leaves_intros]: "plat_free f \<Longrightarrow> leaves f (poke_and_verify P h off v ex msk)"
  unfolding poke_and_verify_def by (auto intro!: leaves_intros)

lemma leaves_hw [leaves_intros]:
  "plat_free f \<Longrightarrow> leaves f (sde_hw_reset P ctrl)" "plat_free f \<Longrightarrow> leaves f (sde_hw_cfg_loopback_mode P ctrl en)"
  "plat_free f \<Longrightarrow> leaves f (sde_hw_cfg_atg_mode P ctrl en d n)" "plat_free f \<Longrightarrow> leaves f (sde_hw_cfg_c2h P ctrl a b c)"
  "plat_free f \<Longrightarrow> leaves f (sde_hw_cfg_h2c P ctrl a)" "plat_free f \<Longrightarrow> leaves f (sde_hw_post_descriptor P ctrl a k sy)"
  unfolding sde_hw_reset_def sde_hw_cfg_loopback_mode_def sde_hw_cfg_atg_mode_def sde_hw_cfg_c2h_def sde_hw_cfg_h2c_def
    sde_hw_post_descriptor_def require_ctrl_def cfg_regs_def
  by (auto intro!: leaves_intros)

lemma leaves_loops [leaves_intros]:
  "plat_free f \<Longrightarrow> leaves f (credit_loop P a consumed n k)" "plat_free f \<Longrightarrow> leaves f (valid_loop P a k)"
  "plat_free f \<Longrightarrow> leaves f (mem_read P a k)" "plat_free f \<Longrightarrow> leaves f (mem_write P a xs)"
  by (induction k arbitrary: a; auto intro!: leaves_intros)+ (induction xs arbitrary: a; auto intro!: leaves_intros)

lemma leaves_descs:
  "plat_free f \<Longrightarrow> leaves f (c2h_descs P va bs nb is)" "plat_free f \<Longrightarrow> leaves f (h2c_descs P va bs nb cur nxt is)"
  by (induction "is" arbitrary: cur nxt)
    (auto simp: write_c2h_desc_def write_h2c_desc_def Let_def intro!: leaves_intros)

lemma leaves_init_desc [leaves_intros]: "plat_free f \<Longrightarrow> leaves f (sde_dma_init_desc_buffer P b)"
  unfolding sde_dma_init_desc_buffer_def
  by (cases "sub b") (auto intro!: leaves_intros leaves_descs)

lemma leaves_mem [leaves_intros]:
  "plat_free f \<Longrightarrow> leaves f (sde_mem_init P D c h dir n)" "plat_free f \<Longrightarrow> leaves f (sde_mem_close P mem)"
proof -
  assume f: "plat_free f"
  have "leaves f (map_buffers P D n k)" for k by (induction k) (auto intro!: leaves_intros f)
  then show "leaves f (sde_mem_init P D c h dir n)"
    unfolding sde_mem_init_def writeback_init_def dma_buffer_init_def Let_def by (auto intro!: leaves_intros f)
  have u: "leaves f (unmap_code P a w)" for a w unfolding unmap_code_def by (auto intro!: leaves_intros f)
  have "leaves f (unmap_buffers P r bs)" for r bs by (induction bs arbitrary: r) (auto intro!: leaves_intros u)
  then show "leaves f (sde_mem_close P mem)"
    unfolding sde_mem_close_def Let_def by (auto intro!: leaves_intros u)
qed

lemma leaves_hw_init [leaves_intros]: "leaves pci_st.more (sde_hw_init P slot_id)" "leaves pci_st.more (sde_hw_close P ctrl)"
  unfolding sde_hw_init_def sde_hw_close_def Let_def
  by (auto intro!: leaves_intros leaves_more_attach leaves_more_detach)

section \<open>Well-formed records\<close>

text \<open>
  A ring is cleared, or it belongs to its direction: as many buffers as the record says, at most one for
  each descriptor, and, unless the buffers are those of the user, both indices in range.
\<close>

definition wf_buffers :: "sde_buffer list option \<Rightarrow> u64 \<Rightarrow> bool" where
  "wf_buffers bs n \<longleftrightarrow> (case bs of None \<Rightarrow> n = 0 | Some bs \<Rightarrow> bs \<noteq> [] \<and> length bs \<le> SDE_NUM_DESC \<and> unat n = length bs)"

definition wf_dma :: "SDE_SUBSYSTEM \<Rightarrow> sde_dma_buffer \<Rightarrow> bool" where
  "wf_dma subsystem b \<longleftrightarrow> b = zero_dma_buffer \<or>
     (ctrl_set b \<and> sub b = subsystem \<and> desc_element_size b = of_nat (desc_size subsystem) \<and>
      wf_buffers (buffers b) (num_buffers b) \<and>
      (layout b \<noteq> SDE_BUFFER_USER_MANAGED \<longrightarrow> num_desc b = of_nat SDE_NUM_DESC \<and>
         curr_desc_index_to_post b < num_desc b \<and> (buffers b \<noteq> None \<longrightarrow> current_buffer_index b < num_buffers b)))"

definition wf_sde :: "sde_mgmt \<Rightarrow> bool" where
  "wf_sde m \<longleftrightarrow> (sde_initialized m \<longrightarrow> md_read_index m < of_nat SDE_NUM_DESC \<and>
     wf_dma SDE_SUBSYSTEM_C2H (c2h_buffer m) \<and> wf_dma SDE_SUBSYSTEM_H2C (h2c_buffer m))"

definition sde_ok :: "('h, 'z) sde_st_scheme \<Rightarrow> bool" where
  "sde_ok s \<longleftrightarrow> length (priv_sde_mgmt s) = nat SDE_SLOT_MAX \<and> (\<forall>m \<in> set (priv_sde_mgmt s). wf_sde m)"

text \<open>Programs that leave the records alone, and stores of well-formed records.\<close>

lemma same_more:
  fixes s t :: "('h, 'z) sde_st_scheme"
  assumes "pci_st.more t = pci_st.more s"
  shows "priv_sde_mgmt t = priv_sde_mgmt s"
  using assms by (cases s; cases t) simp

lemma keeps_other: "leaves pci_st.more m \<Longrightarrow> keeps sde_ok m"
  unfolding keeps_def leaves_def sde_ok_def using same_more by metis

lemma get_sde_wf: "sde_ok s \<Longrightarrow> 0 \<le> slot_id \<Longrightarrow> slot_id < SDE_SLOT_MAX \<Longrightarrow> wf_sde (get_sde slot_id s)"
  unfolding sde_ok_def get_sde_def by (metis nat_less_eq_zless nth_mem)

lemma keeps_put: "wf_sde m \<Longrightarrow> keeps sde_ok (put_sde slot_id m)"
  by (auto simp: keeps_def put_sde_def modify_apply sde_ok_def dest!: subsetD [OF set_update_subset_insert])

lemma keeps_put_bind: "wf_sde m \<Longrightarrow> keeps sde_ok k \<Longrightarrow> keeps sde_ok (bindE (put_sde slot_id m) (\<lambda>_. k))"
  by (intro keeps_bindE keeps_put)

lemma the_sde_cases:
  "the_sde slot_id s = (Inl FPGA_ERR_SOFTWARE_PROBLEM, s) \<or>
    (slot_id < SDE_SLOT_MAX \<and> sde_initialized (get_sde slot_id s) \<and> the_sde slot_id s = (Inr (get_sde slot_id s), s))"
  by (auto simp: the_sde_def check_slot_def prog_simps)

lemma keeps_the_sde:
  fixes k :: "sde_mgmt \<Rightarrow> (('h, 'z) sde_st_scheme, 'a) prog"
  assumes "0 \<le> slot_id"
    and "\<And>m. slot_id < SDE_SLOT_MAX \<Longrightarrow> wf_sde m \<Longrightarrow> sde_initialized m \<Longrightarrow> keeps sde_ok (k m)"
  shows "keeps sde_ok (bindE (the_sde slot_id) k)"
  unfolding keeps_def
proof (intro allI impI)
  fix s :: "('h, 'z) sde_st_scheme"
  assume s: "sde_ok s"
  show "sde_ok (snd (bindE (the_sde slot_id) k s))"
    using the_sde_cases [of slot_id s] s assms get_sde_wf [OF s assms(1)] by (auto simp: bindE_apply keeps_def)
qed

lemma keeps_get_sde:
  assumes "0 \<le> slot_id" and "slot_id < SDE_SLOT_MAX" and "\<And>m. wf_sde m \<Longrightarrow> keeps sde_ok (k m)"
  shows "keeps sde_ok (bindE (gets (get_sde slot_id)) k)"
  using assms(3) get_sde_wf [OF _ assms(1,2)] by (auto simp: keeps_def bindE_apply gets_apply)

section \<open>The memory\<close>

definition wf_mem :: "SDE_BUFFER_LAYOUT \<Rightarrow> sde_mem \<Rightarrow> bool" where
  "wf_mem lay mem \<longleftrightarrow> wf_buffers (c2h_buffers mem) (of_nat (c2h_num_buffers mem)) \<and>
     wf_buffers (h2c_buffers mem) (of_nat (h2c_num_buffers mem))"

lemma yields_map_buffers: "yields (\<lambda>bs. length bs = k) (map_buffers P D n k)"
proof (induction k)
  case (Suc k)
  show ?case
    unfolding map_buffers.simps
    by (rule yields_bindE_any, rule yields_bindE [OF Suc.IH]) (simp add: yields_ok)
qed (simp add: yields_ok)

lemma yields_dma_buffer:
  "yields (\<lambda>bs. length bs = layout_buffers lay) (dma_buffer_init P D lay n)"
  unfolding dma_buffer_init_def by (intro yields_bindE_any yields_map_buffers)

lemma wf_buffers_layout:
  "lay \<noteq> SDE_BUFFER_USER_MANAGED \<Longrightarrow> length bs = layout_buffers lay \<Longrightarrow> wf_buffers (Some bs) (of_nat (layout_buffers lay))"
  by (cases lay) (auto simp: wf_buffers_def layout_buffers_def)

lemma yields_mem_init: "yields (wf_mem lay) (sde_mem_init P D lay lay dir n)"
proof -
  have b: "yields (\<lambda>cb. wf_buffers cb (of_nat (case cb of None \<Rightarrow> 0 | Some bs \<Rightarrow> length bs)))
      (if c \<and> lay \<noteq> SDE_BUFFER_USER_MANAGED then bindE (dma_buffer_init P D lay n) (\<lambda>bs. ok (Some bs)) else ok None)" for c
    by (cases "c \<and> lay \<noteq> SDE_BUFFER_USER_MANAGED")
      (auto intro!: yields_bindE [OF yields_dma_buffer] yields_ok wf_buffers_layout simp: wf_buffers_def [of None])
  show ?thesis
    unfolding sde_mem_init_def
    by (rule yields_bindE_any, rule yields_bindE_any, rule yields_bindE_any, rule yields_bindE [OF b],
        rule yields_bindE [OF b], simp add: yields_ok wf_mem_def)
qed

lemma wf_dma_init:
  assumes "wf_mem lay mem"
  shows "wf_dma subsystem (sde_dma_buffer_init lay subsystem pkt mem)"
proof -
  have "wf_buffers bs n \<Longrightarrow> bs \<noteq> None \<Longrightarrow> 0 < n" for bs n
    by (auto simp: wf_buffers_def word_less_nat_alt)
  then show ?thesis
    using assms by (cases subsystem)
      (auto simp: wf_dma_def wf_mem_def sde_dma_buffer_init_def sde_mem_get_desc_def sde_mem_get_buffers_def Let_def
        zero_dma_buffer_def wf_buffers_def [of None])
qed

section \<open>The operations on the rings\<close>

lemma wf_dma_post:
  "wf_dma subsystem b \<Longrightarrow> num_desc b \<noteq> 0 \<Longrightarrow> ctrl_set b \<Longrightarrow>
    wf_dma subsystem (b\<lparr>curr_desc_index_to_post := x mod num_desc b\<rparr>)"
  by (auto simp: wf_dma_def zero_dma_buffer_def word_less_nat_alt unat_mod)

lemma wf_dma_copy:
  "wf_dma subsystem b \<Longrightarrow> num_buffers b \<noteq> 0 \<Longrightarrow> wf_dma subsystem (b\<lparr>current_buffer_index := x mod num_buffers b\<rparr>)"
  by (auto simp: wf_dma_def zero_dma_buffer_def word_less_nat_alt unat_mod)

lemma wf_dma_reset: "wf_dma subsystem b \<Longrightarrow> num_buffers b \<noteq> 0 \<Longrightarrow>
    wf_dma subsystem (b\<lparr>curr_desc_index_to_post := 0, current_buffer_index := 0\<rparr>)"
  by (auto simp: wf_dma_def zero_dma_buffer_def word_less_nat_alt)


text \<open>What the loops do to the state and to the ring, when they return.\<close>

lemma post_loop_result:
  fixes P :: "'h platform" and s t :: "('h, 'z) pci_st_scheme"
  assumes "post_loop P ctrl n posted b s = Some (r, t)"
  shows "pci_st.more t = pci_st.more s \<and> (\<exists>e b' k. r = Inr (e, b', k) \<and>
    (\<forall>subsystem. wf_dma subsystem b \<longrightarrow> wf_dma subsystem b') \<and> (posted \<le> n \<longrightarrow> k = n))"
proof -
  define Q :: "((((('h platform \<times> sde_hw_ctrl) \<times> u64) \<times> u64) \<times> sde_dma_buffer) \<times> ('h, 'z) pci_st_scheme)
      \<Rightarrow> (int + int \<times> sde_dma_buffer \<times> u64) \<times> ('h, 'z) pci_st_scheme \<Rightarrow> bool"
    where "Q = (\<lambda>(((((P, ctrl), n), posted), b), s) (r, t). pci_st.more t = pci_st.more s \<and> (\<exists>e b' k. r = Inr (e, b', k) \<and>
      (\<forall>subsystem. wf_dma subsystem b \<longrightarrow> wf_dma subsystem b') \<and> (posted \<le> n \<longrightarrow> k = n)))"
  have "Q (((((P, ctrl), n), posted), b), s) (r, t)"
  proof (rule post_loop.raw_induct [OF _ assms, where Pa = Q], goal_cases)
    case (1 loop P ctrl n posted b s y)
    note IH = 1(1) and body = 1(2)
    let ?c = "curr_desc_index_to_post b" and ?m = "\<lambda>t. if ctrl_set b
      then sde_hw_post_descriptor P ctrl (desc_va b + curr_desc_index_to_post b * desc_element_size b) (unat t) (sub b)
      else fail FPGA_ERR_SOFTWARE_PROBLEM"
    define t where "t = (if num_desc b - ?c < n - posted then num_desc b - ?c else n - posted)"
    obtain x u where m: "?m t s = (x, u)" by fastforce
    have "leaves pci_st.more (?m t :: (('h, 'z) pci_st_scheme, unit) prog)" by (auto intro!: leaves_intros)
    then have u: "pci_st.more u = pci_st.more s" using m unfolding leaves_def by (metis snd_conv)
    show ?case
    proof (cases "posted < n")
      case False
      then show ?thesis using body by (auto simp: Q_def)
    next
      case True
      note round = body [unfolded if_P [OF True] Let_def, folded t_def, unfolded m]
      show ?thesis
      proof (cases x)
        case (Inl e)
        then show ?thesis using round u by (auto simp: Q_def)
      next
        case (Inr a)
        let ?b = "b\<lparr>curr_desc_index_to_post := (?c + t) mod num_desc b\<rparr>"
        have c: "ctrl_set b" using m Inr by (auto simp: fail_apply split: if_splits)
        have nd: "num_desc b \<noteq> 0" and run: "loop P ctrl n (posted + t) ?b u = Some y"
          using round Inr by (auto split: if_splits)
        have "posted + t \<le> n" using True by (auto simp: t_def intro!: le_plus)
        then show ?thesis
          using IH [OF run] u wf_dma_post [OF _ nd c] by (auto simp: Q_def split: prod.splits)
      qed
    qed
  qed
  then show ?thesis by (simp add: Q_def)
qed


lemma copy_loop_result:
  fixes P :: "'h platform" and s t :: "('h, 'z) pci_st_scheme"
  assumes "copy_loop P b data s = Some (r, t)"
  shows "pci_st.more t = pci_st.more s \<and> (\<forall>b' subsystem. r = Inr b' \<longrightarrow> wf_dma subsystem b \<longrightarrow> wf_dma subsystem b')"
proof -
  define Q :: "((('h platform \<times> sde_dma_buffer) \<times> u8 list) \<times> ('h, 'z) pci_st_scheme)
      \<Rightarrow> (int + sde_dma_buffer) \<times> ('h, 'z) pci_st_scheme \<Rightarrow> bool"
    where "Q = (\<lambda>(((P, b), data), s) (r, t). pci_st.more t = pci_st.more s \<and>
      (\<forall>b' subsystem. r = Inr b' \<longrightarrow> wf_dma subsystem b \<longrightarrow> wf_dma subsystem b'))"
  have "Q (((P, b), data), s) (r, t)"
  proof (rule copy_loop.raw_induct [OF _ assms, where Pa = Q], goal_cases)
    case (1 loop P b data s y)
    note IH = 1(1) and body = 1(2)
    obtain bs where bs: "buffers b = Some bs" "num_buffers b \<noteq> 0" "unat (current_buffer_index b) < length bs"
      using body by (auto split: option.splits if_splits)
    define n where "n = (if length data < unat (buf_length (bs ! unat (current_buffer_index b))) then length data
      else unat (buf_length (bs ! unat (current_buffer_index b))))"
    let ?b = "b\<lparr>current_buffer_index := (current_buffer_index b + 1) mod num_buffers b\<rparr>"
    obtain x u where m: "mem_write P (data_va (bs ! unat (current_buffer_index b))) (take n data) s = (x, u)" by fastforce
    then have u: "pci_st.more u = pci_st.more s" by (rule leavesD [OF leaves_loops(4) [OF plat_free_more]])
    have "y = (case x of Inl e \<Rightarrow> Inl e | Inr _ \<Rightarrow> Inr ?b, u) \<or> loop P ?b (drop n data) u = Some y"
      using body bs m by (auto simp: Let_def n_def split: sum.splits if_splits)
    then show ?case
      using IH u wf_dma_copy [OF _ bs(2)] by (fastforce simp: Q_def split: prod.splits sum.splits)
  qed
  then show ?thesis by (simp add: Q_def)
qed

lemma read_loop_result:
  fixes P :: "'h platform" and s t :: "('h, 'z) pci_st_scheme"
  assumes "read_loop P b sz got s = Some (r, t)"
  shows "pci_st.more t = pci_st.more s \<and> (\<forall>b' xs subsystem. r = Inr (b', xs) \<longrightarrow> wf_dma subsystem b \<longrightarrow> wf_dma subsystem b')"
proof -
  define Q :: "(((('h platform \<times> sde_dma_buffer) \<times> nat) \<times> u8 list) \<times> ('h, 'z) pci_st_scheme)
      \<Rightarrow> (int + sde_dma_buffer \<times> u8 list) \<times> ('h, 'z) pci_st_scheme \<Rightarrow> bool"
    where "Q = (\<lambda>((((P, b), sz), got), s) (r, t). pci_st.more t = pci_st.more s \<and>
      (\<forall>b' xs subsystem. r = Inr (b', xs) \<longrightarrow> wf_dma subsystem b \<longrightarrow> wf_dma subsystem b'))"
  have "Q ((((P, b), sz), got), s) (r, t)"
  proof (rule read_loop.raw_induct [OF _ assms, where Pa = Q], goal_cases)
    case (1 loop P b sz got s y)
    note IH = 1(1) and body = 1(2)
    obtain bs where bs: "buffers b = Some bs" "num_buffers b \<noteq> 0" "unat (current_buffer_index b) < length bs"
      using body by (auto split: option.splits if_splits)
    define n where "n = (if sz < unat (buf_length (bs ! unat (current_buffer_index b))) then sz
      else unat (buf_length (bs ! unat (current_buffer_index b))))"
    let ?b = "b\<lparr>current_buffer_index := (current_buffer_index b + 1) mod num_buffers b\<rparr>"
    obtain x u where m: "mem_read P (data_va (bs ! unat (current_buffer_index b))) n s = (x, u)" by fastforce
    then have u: "pci_st.more u = pci_st.more s" by (rule leavesD [OF leaves_loops(3) [OF plat_free_more]])
    have "y = (case x of Inl e \<Rightarrow> Inl e | Inr xs \<Rightarrow> Inr (?b, got @ xs), u) \<or>
        (\<exists>xs. loop P ?b (sz - n) (got @ xs) u = Some y)"
      using body bs m by (auto simp: Let_def n_def split: sum.splits if_splits)
    then show ?case
      using IH u wf_dma_copy [OF _ bs(2)] by (fastforce simp: Q_def split: prod.splits sum.splits)
  qed
  then show ?thesis by (simp add: Q_def)
qed

section \<open>The operations on the records\<close>

lemma returns_assoc [simp]: "bindR (returns (bindE m f)) k = bindR (returns m) (\<lambda>a. bindR (returns (f a)) k)"
  by (auto simp: fun_eq_iff run_simps bindE_apply split: prod.splits sum.splits)

lemma returns_ok_bind [simp]: "bindR (returns (ok a)) k = k a"
  by (auto simp: fun_eq_iff run_simps ok_apply)

lemma returns_fail_on_bind [simp]:
  "bindR (returns (fail_on c e)) k = (if c then returns (fail e) else k ())"
  by (auto simp: fun_eq_iff run_simps fail_on_def ok_apply fail_apply)

lemma keepsR_if: "(c \<Longrightarrow> keepsR I m) \<Longrightarrow> (\<not> c \<Longrightarrow> keepsR I n) \<Longrightarrow> keepsR I (if c then m else n)"
  by simp

lemma keepsR_the_sde:
  fixes k :: "sde_mgmt \<Rightarrow> (('h, 'z) sde_st_scheme, 'a) run"
  assumes "0 \<le> slot_id"
    and "\<And>m. slot_id < SDE_SLOT_MAX \<Longrightarrow> wf_sde m \<Longrightarrow> sde_initialized m \<Longrightarrow> keepsR sde_ok (k m)"
  shows "keepsR sde_ok (bindR (returns (the_sde slot_id)) k)"
  unfolding keepsR_def
proof (intro allI impI)
  fix s t :: "('h, 'z) sde_st_scheme" and r
  assume s: "sde_ok s" and run: "bindR (returns (the_sde slot_id)) k s = Some (r, t)"
  then show "sde_ok t"
    using the_sde_cases [of slot_id s] s assms get_sde_wf [OF s assms(1)]
    by (auto simp: run_simps keepsR_def split: prod.splits sum.splits)
qed

lemma wf_sde_get: "wf_sde m \<Longrightarrow> sde_initialized m \<Longrightarrow> wf_dma subsystem (get_buffer subsystem m)"
  by (cases subsystem) (simp_all add: wf_sde_def get_buffer_def)

lemma wf_sde_put:
  "wf_sde m \<Longrightarrow> (sde_initialized m \<Longrightarrow> wf_dma subsystem b) \<Longrightarrow> wf_sde (put_buffer subsystem b m)"
  by (cases subsystem) (simp_all add: wf_sde_def put_buffer_def)

lemma wf_sde_add: "wf_sde (add_consumed subsystem n m) = wf_sde m"
  by (cases subsystem) (simp_all add: wf_sde_def add_consumed_def)

lemma keepsR_post_bind:
  fixes k :: "int \<times> sde_dma_buffer \<times> u64 \<Rightarrow> (('h, 'z) sde_st_scheme, 'a) run"
  assumes "wf_dma subsystem b" and "\<And>e b' n. wf_dma subsystem b' \<Longrightarrow> keepsR sde_ok (k (e, b', n))"
  shows "keepsR sde_ok (bindR (sde_dma_post_desc P ctrl b n) k)"
  unfolding keepsR_def
proof (intro allI impI)
  fix s t :: "('h, 'z) sde_st_scheme" and r
  assume s: "sde_ok s" and run: "bindR (sde_dma_post_desc P ctrl b n) k s = Some (r, t)"
  then obtain r' u where p: "post_loop P ctrl n 0 b s = Some (r', u)"
    by (cases "post_loop P ctrl n 0 b s") (auto simp: bindR_apply sde_dma_post_desc_def)
  from post_loop_result [OF this] obtain e b' c where r': "r' = Inr (e, b', c)" "wf_dma subsystem b'"
    and u: "pci_st.more u = pci_st.more s" using assms(1) by auto
  have "sde_ok u" using s same_more [OF u] by (simp add: sde_ok_def)
  then show "sde_ok t"
    using run p r'(1) assms(2) [OF r'(2)] by (auto simp: bindR_apply sde_dma_post_desc_def keepsR_def)
qed

lemma keepsR_post: "0 \<le> slot_id \<Longrightarrow> keepsR sde_ok (sde_mgmt_post_desc P slot_id subsystem n)"
  unfolding sde_mgmt_post_desc_def returns_assoc returns_ok_bind returns_fail_on_bind
  by (rule keepsR_the_sde)
    (auto intro!: keepsR_if keepsR_returns keepsR_post_bind keeps_put keeps_put_bind keeps_intros wf_sde_put wf_sde_get
      simp: wf_sde_add)

lemma keeps_wait: "0 \<le> slot_id \<Longrightarrow> keeps sde_ok (sde_mgmt_wait_desc_credit P slot_id subsystem n)"
  unfolding sde_mgmt_wait_desc_credit_def
  by (rule keeps_the_sde) (auto intro!: keeps_intros keeps_other leaves_intros)

lemma keepsR_request: "0 \<le> slot_id \<Longrightarrow> keepsR sde_ok (request P slot_id subsystem sz m)"
  unfolding request_def Let_def
  by (auto intro!: keepsR_if keepsR_returns keepsR_never keepsR_bindR keepsR_post keeps_wait keeps_intros)

lemma keepsR_transfers:
  "0 \<le> slot_id \<Longrightarrow> keepsR sde_ok (sde_mgmt_start_read P slot_id sz)" "0 \<le> slot_id \<Longrightarrow> keepsR sde_ok (sde_mgmt_write P slot_id sz)"
  unfolding sde_mgmt_start_read_def sde_mgmt_write_def returns_assoc returns_ok_bind returns_fail_on_bind
  by (rule keepsR_the_sde; auto intro!: keepsR_if keepsR_returns keepsR_request keeps_intros)+


lemma wf_sde_init:
  assumes "wf_mem lay mem"
  shows "wf_sde (zero_sde_mgmt\<lparr>direction := dir, mg_mem := mem, hw_ctrl := ctrl, c2h_status := a,
    c2h_buffer := sde_dma_buffer_init lay SDE_SUBSYSTEM_C2H n mem, h2c_status := c,
    h2c_buffer := sde_dma_buffer_init lay SDE_SUBSYSTEM_H2C n mem, metadata := d, data_pattern := w, sde_initialized := True\<rparr>)"
  using wf_dma_init [OF assms] by (simp add: wf_sde_def zero_sde_mgmt_def)

lemma keeps_get_metadata: "keeps sde_ok (sde_mem_get_metadata mem subsystem)"
  unfolding sde_mem_get_metadata_def Let_def by (intro keeps_intros)

lemma keeps_init: "keeps sde_ok (sde_mgmt_init P D slot_id dir n lay)"
proof -
  have "wf_sde (zero_sde_mgmt\<lparr>direction := dir\<rparr>)" by (simp add: wf_sde_def zero_sde_mgmt_def)
  then show ?thesis
    unfolding sde_mgmt_init_def check_slot_def
    by (intro keeps_bindE [OF keeps_fail_on] keeps_put_bind keeps_bindE_yields [OF keeps_other yields_mem_init]
        keeps_bindE [OF keeps_other] keeps_bindE [OF keeps_get_metadata] leaves_intros plat_free_more keeps_case_prod
        keeps_put wf_sde_init)
qed

lemma keeps_close: "0 \<le> slot_id \<Longrightarrow> keeps sde_ok (sde_mgmt_close P slot_id)"
proof (unfold sde_mgmt_close_def, rule keeps_the_sde)
  fix m :: sde_mgmt and a b
  assume "wf_sde m"
  then have "wf_sde (m\<lparr>c2h_buffer := sde_dma_buffer_close (c2h_buffer m),
      h2c_buffer := sde_dma_buffer_close (h2c_buffer m), hw_ctrl := ctrl, mg_mem := mem\<rparr>)" for ctrl mem
    by (auto simp: wf_sde_def sde_dma_buffer_close_def wf_dma_def)
  then show "keeps sde_ok (bindE (sde_hw_close P (hw_ctrl m)) (\<lambda>(e1, ctrl).
      bindE (sde_mem_close P (mg_mem m)) (\<lambda>(e2, mem).
      bindE (put_sde slot_id (m\<lparr>c2h_buffer := sde_dma_buffer_close (c2h_buffer m),
        h2c_buffer := sde_dma_buffer_close (h2c_buffer m), hw_ctrl := ctrl, mg_mem := mem\<rparr>)) (\<lambda>_.
      fail_on (e1 OR e2 \<noteq> 0) (e1 OR e2)))))"
    by (intro keeps_bindE [OF keeps_other] leaves_intros plat_free_more keeps_case_prod keeps_put_bind keeps_fail_on)
qed

lemma keeps_reset: "0 \<le> slot_id \<Longrightarrow> keeps sde_ok (sde_mgmt_reset P slot_id)"
  unfolding sde_mgmt_reset_def
  by (rule keeps_the_sde)
    (auto intro!: keeps_bindE [OF keeps_other] keeps_put leaves_intros simp: wf_sde_def split: prod.splits)

lemma keeps_check: "0 \<le> slot_id \<Longrightarrow> keeps sde_ok (sde_mgmt_check_status P slot_id subsystem)"
  unfolding sde_mgmt_check_status_def
  by (rule keeps_the_sde) (auto intro!: keeps_other leaves_intros)

lemma wf_dma_set:
  assumes "wf_dma subsystem b" and "sde_dma_buffer_set_dma_buffers b bs = Inr b'" and "length bs \<le> SDE_NUM_DESC"
  shows "wf_dma subsystem b'"
proof -
  have "unat (of_nat (length bs) :: u64) = length bs" using assms(3) by (simp only: unat_of_nat) simp
  then show ?thesis
    using assms by (auto simp: sde_dma_buffer_set_dma_buffers_def wf_dma_def wf_buffers_def zero_dma_buffer_def split: if_splits)
qed

lemma keeps_set_buffers: "0 \<le> slot_id \<Longrightarrow> keeps sde_ok (sde_mgmt_set_dma_buffers slot_id subsystem bs)"
  unfolding sde_mgmt_set_dma_buffers_def
  by (rule keeps_the_sde)
    (auto intro!: keeps_bindE keeps_fail_on keeps_put wf_sde_put keeps_intros wf_dma_set [OF wf_sde_get] simp: fail_on_def
      split: sum.splits)


lemma yields_init_desc:
  "yields (\<lambda>b'. num_buffers b \<noteq> 0 \<and> b' = b\<lparr>curr_desc_index_to_post := 0, current_buffer_index := 0\<rparr>)
    (sde_dma_init_desc_buffer P b)"
  by (auto simp: yields_def sde_dma_init_desc_buffer_def fail_on_def bindE_apply fail_apply ok_apply
    split: option.splits prod.splits sum.splits)

lemma keeps_cfg_desc:
  assumes "0 \<le> slot_id" and "slot_id < SDE_SLOT_MAX"
  shows "keeps sde_ok (cfg_desc_buffer P slot_id subsystem)"
  unfolding cfg_desc_buffer_def
proof (rule keeps_get_sde [OF assms])
  fix m assume m: "wf_sde m"
  show "keeps sde_ok (bindE (sde_dma_init_desc_buffer P (get_buffer subsystem m)) (\<lambda>b. put_sde slot_id (put_buffer subsystem b m)))"
    by (rule keeps_bindE_yields [OF keeps_other yields_init_desc])
      (auto intro!: leaves_intros keeps_put wf_sde_put [OF m] wf_dma_reset wf_sde_get [OF m])
qed

lemma keeps_cfg: "0 \<le> slot_id \<Longrightarrow> keeps sde_ok (sde_mgmt_cfg P slot_id)"
  unfolding sde_mgmt_cfg_def sde_mgmt_cfg_c2h_def sde_mgmt_cfg_h2c_def sde_mgmt_cfg_c2h_atg_def sde_mgmt_cfg_packets_def Let_def
  by (rule keeps_the_sde)
    (intro keeps_bindE keeps_get_metadata keeps_case_prod keeps_if keeps_cfg_desc keeps_ok | assumption |
      intro keeps_other leaves_intros plat_free_more)+

lemma keeps_init_and_cfg: "0 \<le> slot_id \<Longrightarrow> keeps sde_ok (sde_mgmt_init_and_cfg P D slot_id dir n)"
  unfolding sde_mgmt_init_and_cfg_def by (intro keeps_bindE keeps_init keeps_reset keeps_cfg)

lemma wf_sde_md: "wf_sde m \<Longrightarrow> wf_sde (m\<lparr>md_read_index := x AND of_nat (SDE_NUM_DESC - 1)\<rparr>)"
proof -
  have "x AND 63 = take_bit 6 x" by (simp add: take_bit_eq_mask mask_eq_exp_minus_1)
  then have "unat (x AND 63) = unat x mod 64" by (simp add: unsigned_take_bit_eq take_bit_eq_mod unat_mod)
  then have "x AND 63 < 64" by (simp add: word_less_nat_alt)
  then show "wf_sde m \<Longrightarrow> ?thesis" by (simp add: wf_sde_def)
qed

lemma keeps_read_md: "0 \<le> slot_id \<Longrightarrow> keeps sde_ok (sde_mgmt_read_md P slot_id)"
  unfolding sde_mgmt_read_md_def Let_def
  by (rule keeps_the_sde, assumption,
      intro keeps_bindE [OF keeps_other] leaves_intros plat_free_more keeps_put_bind keeps_ok wf_sde_md)

text \<open>The loops over the packets.\<close>

lemma put_sde_apply: "put_sde slot_id m s = (Inr (), s\<lparr>priv_sde_mgmt := (priv_sde_mgmt s)[nat slot_id := m]\<rparr>)"
  by (simp add: put_sde_def modify_apply)

lemma put_copied:
  fixes s t :: "('h, 'z) sde_st_scheme"
  assumes "sde_ok s" and "pci_st.more t = pci_st.more s" and "0 \<le> slot_id" and "slot_id < SDE_SLOT_MAX"
    and "\<And>sy. wf_dma sy (get_buffer subsystem (get_sde slot_id s)) \<Longrightarrow> wf_dma sy b"
  shows "sde_ok t" "sde_ok (snd (put_sde slot_id (put_buffer subsystem b (get_sde slot_id t)) t))"
proof -
  have more: "priv_sde_mgmt t = priv_sde_mgmt s" using same_more [OF assms(2)] .
  then have g: "get_sde slot_id t = get_sde slot_id s" by (simp add: get_sde_def)
  show t: "sde_ok t" using assms(1) more by (simp add: sde_ok_def)
  have w: "wf_sde (get_sde slot_id t)" by (rule get_sde_wf [OF t assms(3,4)])
  have "wf_sde (put_buffer subsystem b (get_sde slot_id t))"
    using wf_sde_put [OF w] assms(5) wf_sde_get [OF w, of subsystem] g by auto
  from keeps_put [OF this] t show "sde_ok (snd (put_sde slot_id (put_buffer subsystem b (get_sde slot_id t)) t))"
    by (rule keeps_snd)
qed

lemma write_data_keeps:
  fixes P :: "'h platform" and s t :: "('h, 'z) sde_st_scheme"
  assumes "write_data_loop P slot_id data ret s = Some (r, t)" and "sde_ok s" and "0 \<le> slot_id" and "slot_id < SDE_SLOT_MAX"
  shows "sde_ok t"
proof -
  define Q :: "(((('h platform \<times> int) \<times> u8 list) \<times> int) \<times> ('h, 'z) sde_st_scheme)
      \<Rightarrow> (int + unit) \<times> ('h, 'z) sde_st_scheme \<Rightarrow> bool"
    where "Q = (\<lambda>((((P, slot_id), data), ret), s) (r, t). sde_ok s \<longrightarrow> 0 \<le> slot_id \<longrightarrow> slot_id < SDE_SLOT_MAX \<longrightarrow> sde_ok t)"
  have "Q ((((P, slot_id), data), ret), s) (r, t)"
  proof (rule write_data_loop.raw_induct [OF _ assms(1), where Pa = Q], goal_cases)
    case (1 loop P slot_id data ret s y)
    note IH = 1(1) and body = 1(2)
    define b where "b = h2c_buffer (get_sde slot_id s)"
    define n where "n = (if unat (pkt_size b) < length data then unat (pkt_size b) else length data)"
    show ?case
    proof (cases "data = [] \<or> \<not> (sde_ok s \<and> 0 \<le> slot_id \<and> slot_id < SDE_SLOT_MAX)")
      case True
      then show ?thesis using body by (auto simp: Q_def)
    next
      case False
      then have ok: "sde_ok s" "0 \<le> slot_id" "slot_id < SDE_SLOT_MAX" and d: "data \<noteq> []" by auto
      note round = body [unfolded if_P [OF d] Let_def, folded b_def, folded n_def]
      then obtain x u where w: "sde_dma_write_data P b (take n data) s = Some (x, u)"
        by (cases "sde_dma_write_data P b (take n data) s") auto
      note res = copy_loop_result [OF w [unfolded sde_dma_write_data_def]]
      note put = put_copied [OF ok(1) conjunct1 [OF res] ok(2,3), of SDE_SUBSYSTEM_H2C]
      show ?thesis
      proof (cases x)
        case (Inl e)
        then have "loop P slot_id (drop n data) e u = Some y" using round w by simp
        from IH [OF this] put(1) show ?thesis
          using ok res by (auto simp: Q_def b_def get_buffer_def split: prod.splits)
      next
        case (Inr b')
        then have "loop P slot_id (drop n data) 0 (snd (put_sde slot_id ((get_sde slot_id u)\<lparr>h2c_buffer := b'\<rparr>) u)) = Some y"
          using round w by (simp add: put_sde_apply)
        from IH [OF this] put(2) [of b'] show ?thesis
          using ok res Inr by (auto simp: Q_def b_def get_buffer_def put_buffer_def split: prod.splits)
      qed
    qed
  qed
  then show ?thesis using assms by (simp add: Q_def)
qed


lemma read_data_keeps:
  fixes P :: "'h platform" and s t :: "('h, 'z) sde_st_scheme"
  assumes "read_data_loop P slot_id sz got s = Some (r, t)" and "sde_ok s" and "0 \<le> slot_id" and "slot_id < SDE_SLOT_MAX"
  shows "sde_ok t"
proof -
  define Q :: "(((('h platform \<times> int) \<times> nat) \<times> u8 list) \<times> ('h, 'z) sde_st_scheme)
      \<Rightarrow> (int + int \<times> u8 list) \<times> ('h, 'z) sde_st_scheme \<Rightarrow> bool"
    where "Q = (\<lambda>((((P, slot_id), sz), got), s) (r, t). sde_ok s \<longrightarrow> 0 \<le> slot_id \<longrightarrow> slot_id < SDE_SLOT_MAX \<longrightarrow> sde_ok t)"
  have "Q ((((P, slot_id), sz), got), s) (r, t)"
  proof (rule read_data_loop.raw_induct [OF _ assms(1), where Pa = Q], goal_cases)
    case (1 loop P slot_id sz got s y)
    note IH = 1(1) and body = 1(2)
    obtain x s' where md: "sde_mgmt_read_md P slot_id s = (x, s')" by fastforce
    show ?case
    proof (cases "\<not> length got < sz \<or> \<not> (sde_ok s \<and> 0 \<le> slot_id \<and> slot_id < SDE_SLOT_MAX)")
      case True
      then show ?thesis using body by (auto simp: Q_def)
    next
      case False
      then have ok: "sde_ok s" "0 \<le> slot_id" "slot_id < SDE_SLOT_MAX" and d: "length got < sz" by auto
      have ok': "sde_ok s'" by (rule keepsD [OF keeps_read_md [OF ok(2)] ok(1) md])
      show ?thesis
      proof (cases x)
        case (Inl e)
        then show ?thesis using body d md ok' by (auto simp: Q_def)
      next
        case (Inr a)
        define b where "b = c2h_buffer (get_sde slot_id s')"
        define n where "n = (if unat (md_length a) < sz - length got then unat (md_length a) else sz - length got)"
        note round = body [unfolded if_P [OF d] md prod.case Inr sum.case Let_def, folded b_def, folded n_def]
        then obtain c u where w: "sde_dma_read_data P b n s' = Some (c, u)"
          by (cases "sde_dma_read_data P b n s'") auto
        note res = read_loop_result [OF w [unfolded sde_dma_read_data_def]]
        note put = put_copied [OF ok' conjunct1 [OF res] ok(2,3), of SDE_SUBSYSTEM_C2H]
        show ?thesis
        proof (cases c)
          case (Inl e)
          then show ?thesis
            using round w put(1) res by (auto simp: Q_def b_def get_buffer_def)
        next
          case (Inr bx)
          obtain b' xs where bx: "bx = (b', xs)" by fastforce
          have "loop P slot_id sz (got @ xs) (snd (put_sde slot_id ((get_sde slot_id u)\<lparr>c2h_buffer := b'\<rparr>) u)) = Some y"
            using round w Inr bx by (simp add: put_sde_apply)
          from IH [OF this] put(2) [of b'] show ?thesis
            using ok res Inr bx by (auto simp: Q_def b_def get_buffer_def put_buffer_def split: prod.splits)
        qed
      qed
    qed
  qed
  then show ?thesis using assms by (simp add: Q_def)
qed

lemma keepsR_read_data: "0 \<le> slot_id \<Longrightarrow> keepsR sde_ok (sde_mgmt_read_data P slot_id sz)"
  unfolding sde_mgmt_read_data_def returns_assoc returns_fail_on_bind
  by (rule keepsR_the_sde, assumption, rule keepsR_if, simp add: keepsR_returns keeps_fail,
      auto simp: keepsR_def dest: read_data_keeps)

lemma keepsR_prepare_write: "0 \<le> slot_id \<Longrightarrow> keepsR sde_ok (sde_mgmt_prepare_write P slot_id data)"
  unfolding sde_mgmt_prepare_write_def returns_assoc returns_fail_on_bind
  by (rule keepsR_the_sde, assumption, rule keepsR_if, simp add: keepsR_returns keeps_fail,
      auto simp: keepsR_def dest: write_data_keeps)

section \<open>Sequences of calls\<close>

datatype sde_call =
  Call_init SDE_EXAMPLE_DIR u64 SDE_BUFFER_LAYOUT | Call_init_and_cfg SDE_EXAMPLE_DIR u64 | Call_close | Call_reset
| Call_check_status SDE_SUBSYSTEM | Call_set_dma_buffers SDE_SUBSYSTEM "sde_buffer list" | Call_cfg
| Call_wait_desc_credit SDE_SUBSYSTEM u64 | Call_post_desc SDE_SUBSYSTEM u64 | Call_start_read u64 | Call_read_md
| Call_read_data nat | Call_prepare_write "u8 list" | Call_write u64

text \<open>The state after a call that returns.\<close>

fun sde_after :: "'h platform \<Rightarrow> 'h dma_os \<Rightarrow> int \<Rightarrow> sde_call \<Rightarrow> ('h, 'z) sde_st_scheme \<Rightarrow> ('h, 'z) sde_st_scheme option" where
  "sde_after P D slot_id (Call_init dir n lay) s = Some (snd (sde_mgmt_init P D slot_id dir n lay s))"
| "sde_after P D slot_id (Call_init_and_cfg dir n) s = Some (snd (sde_mgmt_init_and_cfg P D slot_id dir n s))"
| "sde_after P D slot_id Call_close s = Some (snd (sde_mgmt_close P slot_id s))"
| "sde_after P D slot_id Call_reset s = Some (snd (sde_mgmt_reset P slot_id s))"
| "sde_after P D slot_id (Call_check_status sy) s = Some (snd (sde_mgmt_check_status P slot_id sy s))"
| "sde_after P D slot_id (Call_set_dma_buffers sy bs) s = Some (snd (sde_mgmt_set_dma_buffers slot_id sy bs s))"
| "sde_after P D slot_id Call_cfg s = Some (snd (sde_mgmt_cfg P slot_id s))"
| "sde_after P D slot_id (Call_wait_desc_credit sy n) s = Some (snd (sde_mgmt_wait_desc_credit P slot_id sy n s))"
| "sde_after P D slot_id (Call_post_desc sy n) s = map_option snd (sde_mgmt_post_desc P slot_id sy n s)"
| "sde_after P D slot_id (Call_start_read n) s = map_option snd (sde_mgmt_start_read P slot_id n s)"
| "sde_after P D slot_id Call_read_md s = Some (snd (sde_mgmt_read_md P slot_id s))"
| "sde_after P D slot_id (Call_read_data n) s = map_option snd (sde_mgmt_read_data P slot_id n s)"
| "sde_after P D slot_id (Call_prepare_write data) s = map_option snd (sde_mgmt_prepare_write P slot_id data s)"
| "sde_after P D slot_id (Call_write n) s = map_option snd (sde_mgmt_write P slot_id n s)"

inductive sde_reach :: "'h platform \<Rightarrow> 'h dma_os \<Rightarrow> ('h, 'z) sde_st_scheme \<Rightarrow> ('h, 'z) sde_st_scheme \<Rightarrow> bool"
  for P D s where
  sde_start: "sde_reach P D s s"
| sde_call: "sde_reach P D s t \<Longrightarrow> 0 \<le> slot_id \<Longrightarrow> sde_after P D slot_id c t = Some u \<Longrightarrow> sde_reach P D s u"

lemma sde_after_ok:
  assumes "sde_after P D slot_id c s = Some t" and "sde_ok s" and "0 \<le> slot_id"
  shows "sde_ok t"
proof (cases c)
  case (Call_init dir n lay)
  then show ?thesis using assms keeps_snd [OF keeps_init] by auto
qed (use assms keeps_snd [OF keeps_init_and_cfg] keeps_snd [OF keeps_close] keeps_snd [OF keeps_reset]
    keeps_snd [OF keeps_check] keeps_snd [OF keeps_set_buffers] keeps_snd [OF keeps_cfg] keeps_snd [OF keeps_wait]
    keeps_snd [OF keeps_read_md] keepsR_post [unfolded keepsR_def] keepsR_transfers [unfolded keepsR_def]
    keepsR_read_data [unfolded keepsR_def] keepsR_prepare_write [unfolded keepsR_def] in \<open>fastforce split: option.splits\<close>)+

definition sde_zero :: "('h, 'z) sde_st_scheme \<Rightarrow> bool" where
  "sde_zero s \<longleftrightarrow> priv_sde_mgmt s = replicate (nat SDE_SLOT_MAX) zero_sde_mgmt"



section \<open>Instance\<close>

text \<open>A kernel that grants every request, over the small platform.\<close>

definition demo_os :: "demo dma_os" where
  "demo_os = \<lparr>o_mmap = (\<lambda>h fd sz flags. (Some 0x200000, h)), o_mlockall = (\<lambda>h. (True, h)),
     o_pagemap = (\<lambda>h frame. Pm_entry (0x8000000000000000 OR frame)), o_malloc = (\<lambda>h sz. (True, h))\<rparr>"

definition demo_sde :: "demo sde_st" where
  "demo_sde = \<lparr>bars = bars demo_table, plat = plat demo_table, priv_sde_mgmt = replicate (nat SDE_SLOT_MAX) zero_sde_mgmt\<rparr>"

definition demo_sde_ready :: "demo sde_st" where
  "demo_sde_ready = snd (sde_mgmt_init demo_platform demo_os 0 SDE_EXAMPLE_DIR_LOOPBACK 64 SDE_BUFFER_LAYOUT_SINGLE demo_sde)"


end
