(* ===== verification/Sde_Desc.thy ===== *)
theory Sde_Desc
  imports Sde_Ring
begin

text \<open>
  What \<open>sde_dma_init_desc_buffer\<close> leaves in memory: every descriptor of the ring points to its packet
  buffer, the descriptors of the host to card direction end a packet and carry the first words of their
  packet and of the next one, and nothing else is written.
\<close>

section \<open>Memory of words\<close>

text \<open>Aligned loads and stores of memory whose words are \<open>view\<close>.\<close>

definition word_ram :: "'h platform \<Rightarrow> ('h \<Rightarrow> u64 \<Rightarrow> u32) \<Rightarrow> bool" where
  "word_ram P view \<longleftrightarrow> (\<forall>h a v v'. unat a mod 4 = 0 \<longrightarrow>
     fst (m_load32 P h a) = view h a \<and> view (snd (m_load32 P h a)) = view h \<and>
     view (m_store32 P h a v) = (view h)(a := v) \<and>
     view (m_store64 P h a v') = (view h)(a := lo32 v', a + 4 := hi32 v'))"

lemma aligned_add: "unat a mod 4 = 0 \<Longrightarrow> unat (a + of_nat (4 * k) :: u64) mod 4 = 0"
proof -
  assume a: "unat a mod 4 = 0"
  have "unat (a + of_nat (4 * k)) = (unat a + (4 * k) mod 2 ^ 64) mod 2 ^ 64"
    by (simp only: unat_word_ariths unat_of_nat) simp
  also have "\<dots> mod 4 = (unat a + (4 * k) mod 2 ^ 64) mod 4" by (rule mod_mod_cancel) simp
  also have "\<dots> = (unat a + 4 * k) mod 4"
    by (rule mod_add_cong) (simp_all add: mod_mod_cancel)
  also have "\<dots> = 0" using a by (simp add: mod_add_left_eq [symmetric])
  finally show ?thesis .
qed

lemma refines_load_word:
  "word_ram P view \<Longrightarrow> unat a mod 4 = 0 \<Longrightarrow> refines R view (load32 P a) (\<lambda>m. m a) id"
  unfolding load32_def by (rule refines_on_plat) (auto simp: word_ram_def)

lemma refines_store_word:
  "word_ram P view \<Longrightarrow> unat a mod 4 = 0 \<Longrightarrow> refines R view (st32 P a v) (\<lambda>_. ()) (\<lambda>m. m(a := v))"
  unfolding st32_def by (rule refines_on_plat) (auto simp: word_ram_def)

lemma refines_store_double:
  "word_ram P view \<Longrightarrow> unat a mod 4 = 0 \<Longrightarrow>
    refines R view (st64 P a v) (\<lambda>_. ()) (\<lambda>m. m(a := lo32 v, a + 4 := hi32 v))"
  unfolding st64_def by (rule refines_on_plat) (auto simp: word_ram_def)

text \<open>Updates of consecutive words.\<close>

definition put_word :: "u64 \<Rightarrow> (nat \<Rightarrow> u32 \<Rightarrow> u32) \<Rightarrow> nat \<Rightarrow> (u64 \<Rightarrow> u32) \<Rightarrow> u64 \<Rightarrow> u32" where
  "put_word va g k m = m(va + of_nat (4 * k) := g k (m (va + of_nat (4 * k))))"

lemma word_address_inj:
  assumes "va + of_nat (4 * j) = va + (of_nat (4 * k) :: u64)" and "4 * j < 2 ^ 64" and "4 * k < 2 ^ 64"
  shows "j = k"
proof -
  have "unat (of_nat (4 * j) :: u64) = unat (of_nat (4 * k) :: u64)" using assms(1) by simp
  then show ?thesis using assms(2,3) by (simp only: unat_of_nat) simp
qed

lemma fold_put_word:
  assumes "4 * n \<le> 2 ^ 64"
  shows "(\<forall>k < n. fold (put_word va g) [0..<n] m (va + of_nat (4 * k)) = g k (m (va + of_nat (4 * k)))) \<and>
    (\<forall>a. (\<forall>k < n. a \<noteq> va + of_nat (4 * k)) \<longrightarrow> fold (put_word va g) [0..<n] m a = m a)"
  using assms
proof (induction n)
  case (Suc n)
  then have new: "\<forall>k < n. va + of_nat (4 * n) \<noteq> va + (of_nat (4 * k) :: u64)"
    using word_address_inj [of va n] by fastforce
  then have new': "\<forall>k < n. va + of_nat (4 * k) \<noteq> va + (of_nat (4 * n) :: u64)" by metis
  have "fold (put_word va g) [0..<Suc n] m = put_word va g n (fold (put_word va g) [0..<n] m)" by simp
  then show ?case using Suc new new' by (simp add: put_word_def less_Suc_eq del: of_nat_mult)
qed simp

lemma fold_put_word_shift:
  "fold (put_word (va + of_nat (4 * c)) g) ks m = fold (put_word va (\<lambda>k. g (k - c))) (map (\<lambda>k. c + k) ks) m"
  by (induction ks arbitrary: m) (simp_all add: put_word_def algebra_simps)

section \<open>The descriptors as words\<close>

text \<open>The first words of the packets: \<open>0x11110000\<close> times a digit that counts up.\<close>

definition packet_dw :: "nat \<Rightarrow> u32" where
  "packet_dw i = of_nat (Suc i mod 16) * 0x11110000"

text \<open>The bits of the configuration of a descriptor: the end of a packet, no special buffer.\<close>

definition cfg_word :: "u32 \<Rightarrow> u32" where
  "cfg_word x = (x AND NOT 3) OR 1"

definition desc_field :: "SDE_SUBSYSTEM \<Rightarrow> sde_buffer \<Rightarrow> nat \<Rightarrow> nat \<Rightarrow> u32 \<Rightarrow> u32" where
  "desc_field subsystem b i w old = (case subsystem of
     SDE_SUBSYSTEM_C2H \<Rightarrow> [buf_length b, lo32 (data_pa b), hi32 (data_pa b), 0] ! w
   | SDE_SUBSYSTEM_H2C \<Rightarrow> [buf_length b, lo32 (data_pa b), hi32 (data_pa b), cfg_word old, 0, 0,
       packet_dw i, packet_dw (Suc i)] ! w)"

lemma packet_dw_0: "packet_dw 0 = START_DOUBLE_WORD"
  by (simp add: packet_dw_def)

lemma packet_dw_next: "get_next_start_dw (packet_dw i) = packet_dw (Suc i)"
proof -
  have "\<forall>k \<in> {0..<16}. get_next_start_dw (of_nat k * 0x11110000) = of_nat (Suc k mod 16) * 0x11110000"
    by (simp add: get_next_start_dw_def atLeastLessThan_nat_numeral)
  then show ?thesis by (simp add: packet_dw_def mod_Suc_eq)
qed

lemma cfg_word_bits:
  "((((x AND NOT 1) OR (push_bit 0 1 AND 1)) AND NOT 2) OR (push_bit 1 0 AND 2)) = cfg_word (x :: u32)"
proof -
  have "(x AND NOT 1 OR 1) AND NOT 2 = ((x AND NOT 1) AND NOT 2) OR (1 AND NOT 2)"
    by (rule bit.conj_disj_distrib2)
  also have "(x AND NOT 1) AND NOT 2 = x AND NOT 3" by (simp add: and.assoc)
  also have "1 AND NOT 2 = (1 :: u32)" by simp
  finally show ?thesis by (simp add: cfg_word_def)
qed

lemma lo32_ucast: "lo32 x = ucast x"
proof -
  have "x AND 0xFFFFFFFF = take_bit 32 x" by (simp add: take_bit_eq_mask mask_eq_exp_minus_1)
  then show ?thesis by (simp add: lo32_def) (rule bit_word_eqI, simp add: bit_simps)
qed

lemma hi32_ucast: "hi32 x = ucast (drop_bit 32 x)"
  using lo32_ucast [of "drop_bit 32 x"] by (simp add: lo32_def hi32_def)

lemma lo32_pair: "lo32 (push_bit 32 (ucast y) OR ucast x) = x"
  unfolding lo32_ucast by (rule bit_word_eqI) (simp add: bit_simps)

lemma halves_of_0: "lo32 0 = 0" "hi32 0 = 0"
  by (simp_all add: lo32_ucast hi32_ucast)

lemma hi32_pair: "hi32 (push_bit 32 (ucast y) OR ucast (x :: u32)) = y"
  unfolding hi32_ucast by (rule bit_word_eqI) (auto simp: bit_simps impossible_bit)

section \<open>Writing the descriptors\<close>

lemmas word_steps = refines_store_word refines_store_double refines_load_word

lemma aligned_offsets:
  "unat a mod 4 = 0 \<Longrightarrow> unat (a + 4 :: u64) mod 4 = 0" "unat a mod 4 = 0 \<Longrightarrow> unat (a + 12 :: u64) mod 4 = 0"
  "unat a mod 4 = 0 \<Longrightarrow> unat (a + 16 :: u64) mod 4 = 0" "unat a mod 4 = 0 \<Longrightarrow> unat (a + 24 :: u64) mod 4 = 0"
  using aligned_add [of a 1] aligned_add [of a 3] aligned_add [of a 4] aligned_add [of a 6] by simp_all

lemma refines_c2h_desc:
  assumes "word_ram P view" and "unat a mod 4 = 0" and "plat_blind R"
  shows "refines R view (write_c2h_desc P a b) (\<lambda>_. ()) (fold (put_word a (desc_field SDE_SUBSYSTEM_C2H b i)) [0..<4])"
  unfolding write_c2h_desc_def
  by (rule refines_cong, (rule refines_then word_steps assms aligned_offsets)+)
    (auto simp: fun_eq_iff put_word_def desc_field_def upt_conv_Cons add.assoc)

lemma refines_set_bitfield:
  assumes "word_ram P view" and "unat a mod 4 = 0" and "plat_blind R"
  shows "refines R view (set_bitfield_at P msk sh v a) (\<lambda>_. ())
    (\<lambda>m. m(a := (m a AND NOT msk) OR (push_bit sh v AND msk)))"
  unfolding set_bitfield_at_def
  by (rule refines_cong, (rule refines_bind word_steps assms)+) (simp_all add: fun_eq_iff)

lemma refines_h2c_desc:
  assumes "word_ram P view" and "unat a mod 4 = 0" and "plat_blind R"
  shows "refines R view (write_h2c_desc P a b (push_bit 32 (ucast (packet_dw (Suc i))) OR ucast (packet_dw i))) (\<lambda>_. ())
    (fold (put_word a (desc_field SDE_SUBSYSTEM_H2C b i)) [0..<8])"
  unfolding write_h2c_desc_def
  by (rule refines_cong, (rule refines_then refines_set_bitfield word_steps assms aligned_offsets)+)
    (auto simp: fun_eq_iff put_word_def desc_field_def upt_conv_Cons add.assoc lo32_pair hi32_pair halves_of_0
      cfg_word_bits [symmetric])


section \<open>The ring\<close>

lemma c2h_descs_forE:
  "c2h_descs P va bs nb is = forE is (\<lambda>i. write_c2h_desc P (va + of_nat (i * 16)) (bs ! (i mod nb)))"
  by (induction "is") simp_all

lemma h2c_descs_forE:
  assumes "i = 0 \<Longrightarrow> cur = packet_dw 0" and "nxt = packet_dw (if i = 0 then 1 else i)"
  shows "h2c_descs P va bs nb cur nxt [i..<n] = forE [i..<n] (\<lambda>i. write_h2c_desc P (va + of_nat (i * 32)) (bs ! (i mod nb))
    (push_bit 32 (ucast (packet_dw (Suc i))) OR ucast (packet_dw i)))"
  using assms
proof (induction "n - i" arbitrary: i cur nxt)
  case (Suc k)
  let ?c = "if i \<noteq> 0 then nxt else cur"
  have "?c = packet_dw i" "(if i \<noteq> 0 then get_next_start_dw ?c else nxt) = packet_dw (Suc i)"
    using Suc.prems packet_dw_next [of i] by auto
  moreover have "k = n - Suc i" "i < n" using Suc.hyps(2) by auto
  ultimately show ?case
    using Suc.hyps(1) [of "Suc i" ?c "packet_dw (Suc i)"] packet_dw_next [of i]
    by (cases "i = 0") (simp_all add: upt_conv_Cons Let_def)
qed simp

text \<open>The word at index \<open>k\<close> of the ring.\<close>

definition ring_field :: "SDE_SUBSYSTEM \<Rightarrow> sde_buffer list \<Rightarrow> nat \<Rightarrow> nat \<Rightarrow> u32 \<Rightarrow> u32" where
  "ring_field subsystem bs nb k = (let d = desc_size subsystem div 4; i = k div d
     in desc_field subsystem (bs ! (i mod nb)) i (k mod d))"

lemma fold_put_word_row:
  fixes subsystem :: SDE_SUBSYSTEM
  defines "d \<equiv> desc_size subsystem div 4"
  shows "fold (put_word (va + of_nat (i * desc_size subsystem)) (desc_field subsystem (bs ! (i mod nb)) i)) [0..<d] m =
    fold (put_word va (ring_field subsystem bs nb)) [i * d..<i * d + d] m"
proof -
  have d: "i * desc_size subsystem = 4 * (i * d)" "0 < d"
    by (cases subsystem; simp add: d_def desc_size_def)+
  have "map (\<lambda>k. i * d + k) [0..<d] = [i * d..<i * d + d]" by (rule nth_equalityI) simp_all
  moreover have "put_word va (\<lambda>k. desc_field subsystem (bs ! (i mod nb)) i (k - i * d)) k = put_word va (ring_field subsystem bs nb) k"
    if "k \<in> set [i * d..<i * d + d]" for k
  proof -
    have "k div d = i" "k mod d = k - i * d"
      using that d(2) by (auto simp: div_nat_eqI modulo_nat_def algebra_simps)
    then show ?thesis by (simp add: fun_eq_iff put_word_def ring_field_def d_def Let_def)
  qed
  ultimately show ?thesis unfolding d(1) fold_put_word_shift by (metis (no_types, lifting) fold_cong)
qed

lemma fold_rows: "fold (\<lambda>i. fold f [i * d..<i * d + d]) [0..<n] m = fold f [0..<n * (d :: nat)] m"
proof (induction n)
  case (Suc n)
  have "[0..<Suc n * d] = [0..<n * d] @ [n * d..<n * d + d]"
    using upt_add_eq_append [of 0 "n * d" d] by (simp add: add.commute)
  then show ?case using Suc.IH by simp
qed simp

lemma refines_descs:
  assumes "word_ram P view" and "unat va mod 4 = 0" and "plat_blind R"
  shows "refines R view (case subsystem of SDE_SUBSYSTEM_C2H \<Rightarrow> c2h_descs P va bs nb [0..<n]
      | SDE_SUBSYSTEM_H2C \<Rightarrow> h2c_descs P va bs nb START_DOUBLE_WORD (get_next_start_dw START_DOUBLE_WORD) [0..<n]) (\<lambda>_. ())
    (fold (put_word va (ring_field subsystem bs nb)) [0..<n * (desc_size subsystem div 4)])"
proof -
  have al: "unat (va + of_nat (i * 16)) mod 4 = 0" "unat (va + of_nat (i * 32)) mod 4 = 0" for i
    using aligned_add [OF assms(2), of "i * 4"] aligned_add [OF assms(2), of "i * 8"] by (simp_all add: algebra_simps)
  have rows: "fold (\<lambda>i. fold (put_word (va + of_nat (i * desc_size subsystem)) (desc_field subsystem (bs ! (i mod nb)) i))
      [0..<desc_size subsystem div 4]) [0..<n] r = fold (put_word va (ring_field subsystem bs nb)) [0..<n * (desc_size subsystem div 4)] r" for r
    unfolding fold_rows [symmetric]
    by (rule fold_cong, (rule refl)+, rule ext, rule fold_put_word_row)
  show ?thesis
  proof (cases subsystem)
    case SDE_SUBSYSTEM_C2H
    show ?thesis
      unfolding SDE_SUBSYSTEM_C2H SDE_SUBSYSTEM.case c2h_descs_forE
      by (rule refines_cong, rule refines_forE [OF assms(3)], rule refines_c2h_desc [OF assms(1) al(1) assms(3)])
        (use rows SDE_SUBSYSTEM_C2H in \<open>simp_all add: desc_size_def\<close>)
  next
    case SDE_SUBSYSTEM_H2C
    have start: "h2c_descs P va bs nb START_DOUBLE_WORD (get_next_start_dw START_DOUBLE_WORD) [0..<n] = forE [0..<n]
        (\<lambda>i. write_h2c_desc P (va + of_nat (i * 32)) (bs ! (i mod nb))
          (push_bit 32 (ucast (packet_dw (Suc i))) OR ucast (packet_dw i)))"
      unfolding packet_dw_0 [symmetric] packet_dw_next by (rule h2c_descs_forE) simp_all
    show ?thesis
      unfolding SDE_SUBSYSTEM_H2C SDE_SUBSYSTEM.case start
      by (rule refines_cong, rule refines_forE [OF assms(3)], rule refines_h2c_desc [OF assms(1) al(2) assms(3)])
        (use rows SDE_SUBSYSTEM_H2C in \<open>simp_all add: desc_size_def\<close>)
  qed
qed


text \<open>The words of a descriptor that points to \<open>b\<close>; \<open>old\<close> is the configuration word before.\<close>

definition desc_image :: "SDE_SUBSYSTEM \<Rightarrow> sde_buffer \<Rightarrow> nat \<Rightarrow> u32 \<Rightarrow> u32 list" where
  "desc_image subsystem b i old = map (\<lambda>w. desc_field subsystem b i w old) [0..<desc_size subsystem div 4]"

text \<open>The buffer has a ring at an aligned address and packet buffers.\<close>

definition has_ring :: "sde_dma_buffer \<Rightarrow> sde_buffer list \<Rightarrow> bool" where
  "has_ring b bs \<longleftrightarrow> buffers b = Some bs \<and> num_buffers b \<noteq> 0 \<and> unat (num_buffers b) = length bs \<and>
     unat (desc_va b) mod 4 = 0 \<and> unat (num_desc b) * desc_size (sub b) \<le> 2 ^ 64"

definition desc_addresses :: "sde_dma_buffer \<Rightarrow> u64 set" where
  "desc_addresses b = (\<lambda>k. desc_va b + of_nat (4 * k)) ` {..<unat (num_desc b) * (desc_size (sub b) div 4)}"

lemma desc_word_address:
  "va + of_nat (i * desc_size subsystem) + of_nat (w * 4) = va + (of_nat (4 * (i * (desc_size subsystem div 4) + w)) :: u64)"
  by (cases subsystem) (simp_all add: desc_size_def algebra_simps)

lemma desc_field_old:
  assumes "w < desc_size subsystem div 4"
  shows "desc_field subsystem b i w (f w) = desc_field subsystem b i w (f 3)"
proof -
  have "w = 3 \<or> w \<in> {0, 1, 2, 4, 5, 6, 7}" using assms by (cases subsystem) (auto simp: desc_size_def)
  then show ?thesis by (cases subsystem) (auto simp: desc_field_def)
qed

text \<open>
  C25. sde_dma_init_desc_buffer fills every descriptor of the ring with the length and the
  physical address of its packet buffer (and for host to card the end-of-packet flag and the first
  words of its packet and the next), resets both indices and writes nothing else.
\<close>

theorem init_desc_ring:
  assumes "word_ram P view" and "has_ring b bs"
  shows "\<exists>p. sde_dma_init_desc_buffer P b s =
      (Inr (b\<lparr>curr_desc_index_to_post := 0, current_buffer_index := 0\<rparr>), s\<lparr>plat := p\<rparr>) \<and>
    (\<forall>i < unat (num_desc b). desc_words (sub b) (view p) (desc_va b) i =
       desc_image (sub b) (bs ! (i mod length bs)) i (desc_word (sub b) (view (plat s)) (desc_va b) i 3)) \<and>
    (\<forall>a. a \<notin> desc_addresses b \<longrightarrow> view p a = view (plat s) a)"
proof -
  let ?d = "desc_size (sub b) div 4" and ?nd = "unat (num_desc b)" and ?va = "desc_va b"
  note ring = assms(2) [unfolded has_ring_def]
  obtain p where run: "(case sub b of SDE_SUBSYSTEM_C2H \<Rightarrow> c2h_descs P ?va bs (unat (num_buffers b)) [0..<?nd]
      | SDE_SUBSYSTEM_H2C \<Rightarrow> h2c_descs P ?va bs (unat (num_buffers b)) START_DOUBLE_WORD (get_next_start_dw START_DOUBLE_WORD)
          [0..<?nd]) s = (Inr (), s\<lparr>plat := p\<rparr>)"
    and p: "view p = fold (put_word ?va (ring_field (sub b) bs (length bs))) [0..<?nd * ?d] (view (plat s))"
    by (rule refinesD [OF refines_descs [OF assms(1), where va = ?va and nb = "unat (num_buffers b)" and R = "\<lambda>_. True"], where s = s])
      (use ring in \<open>auto simp: plat_blind_def\<close>)
  have d: "0 < ?d" "4 * (?nd * ?d) = ?nd * desc_size (sub b)"
    by (cases "sub b"; simp add: desc_size_def)+
  have words: "k < ?nd * ?d \<Longrightarrow> view p (?va + of_nat (4 * k)) = ring_field (sub b) bs (length bs) k (view (plat s) (?va + of_nat (4 * k)))"
    "(\<forall>k < ?nd * ?d. a \<noteq> ?va + of_nat (4 * k)) \<Longrightarrow> view p a = view (plat s) a" for k a
    using fold_put_word [of "?nd * ?d" ?va "ring_field (sub b) bs (length bs)" "view (plat s)", folded p]
    by (simp_all only: d ring)
  have "desc_words (sub b) (view p) ?va i =
      desc_image (sub b) (bs ! (i mod length bs)) i (desc_word (sub b) (view (plat s)) ?va i 3)" if "i < ?nd" for i
  proof -
    have "desc_word (sub b) (view p) ?va i w =
        desc_field (sub b) (bs ! (i mod length bs)) i w (desc_word (sub b) (view (plat s)) ?va i w)" if "w < ?d" for w
    proof -
      have "i * ?d + w < ?nd * ?d"
        using mult_le_mono1 [of "Suc i" ?nd ?d] \<open>i < ?nd\<close> that by simp
      moreover have "(i * ?d + w) div ?d = i" "(i * ?d + w) mod ?d = w" using that by simp_all
      ultimately show ?thesis
        using words(1) unfolding desc_word_def desc_word_address ring_field_def Let_def by presburger
    qed
    then show ?thesis
      by (auto simp: desc_words_def desc_image_def intro: desc_field_old)
  qed
  moreover have "view p a = view (plat s) a" if "a \<notin> desc_addresses b" for a
    using that by (intro words(2)) (auto simp: desc_addresses_def)
  moreover have "sde_dma_init_desc_buffer P b s =
      (Inr (b\<lparr>curr_desc_index_to_post := 0, current_buffer_index := 0\<rparr>), s\<lparr>plat := p\<rparr>)"
    using run ring by (simp add: sde_dma_init_desc_buffer_def bindE_apply fail_on_def ok_apply)
  ultimately show ?thesis by blast
qed


section \<open>Instance\<close>

text \<open>The small platform with 64-bit stores that write both words.\<close>

definition ram_platform :: "demo platform" where
  "ram_platform = demo_platform\<lparr>m_store64 := (\<lambda>h a v. m_store32 demo_platform (m_store32 demo_platform h a (lo32 v)) (a + 4) (hi32 v))\<rparr>"

definition demo_packet :: sde_buffer where
  "demo_packet = \<lparr>data_va = 0x4000, data_pa = 0x123456789000, buf_length = 64, alloc_length = 64\<rparr>"

definition demo_h2c :: sde_dma_buffer where
  "demo_h2c = zero_dma_buffer\<lparr>sub := SDE_SUBSYSTEM_H2C, ctrl_set := True, desc_va := 0x1000, num_desc := 4, desc_element_size := 32,
     buffers := Some [demo_packet], num_buffers := 1\<rparr>"

lemma ram_word_ram: "word_ram ram_platform demo_regs"
  by (simp add: word_ram_def ram_platform_def)

theorem init_desc_ring_witness:
  "\<exists>p. sde_dma_init_desc_buffer ram_platform demo_h2c demo_mapped = (Inr demo_h2c, demo_mapped\<lparr>plat := p\<rparr>) \<and>
    desc_words SDE_SUBSYSTEM_H2C (demo_regs p) 0x1000 2 = [64, 0x56789000, 0x1234, 1, 0, 0, 0x33330000, 0x44440000]"
proof -
  have "has_ring demo_h2c [demo_packet]"
    by (simp add: has_ring_def demo_h2c_def zero_dma_buffer_def desc_size_def)
  from init_desc_ring [OF ram_word_ram this, of demo_mapped] obtain p where
    p: "sde_dma_init_desc_buffer ram_platform demo_h2c demo_mapped =
        (Inr (demo_h2c\<lparr>curr_desc_index_to_post := 0, current_buffer_index := 0\<rparr>), demo_mapped\<lparr>plat := p\<rparr>)"
      "\<forall>i < 4. desc_words SDE_SUBSYSTEM_H2C (demo_regs p) 0x1000 i = desc_image SDE_SUBSYSTEM_H2C ([demo_packet] ! (i mod 1)) i
        (desc_word SDE_SUBSYSTEM_H2C (demo_regs (plat demo_mapped)) 0x1000 i 3)"
    by (auto simp: demo_h2c_def)
  have "desc_word SDE_SUBSYSTEM_H2C (demo_regs (plat demo_mapped)) 0x1000 2 3 = 0"
    by (simp add: desc_word_def demo_mapped_def demo_table_def demo_bus_def demo_h_def)
  then have "desc_words SDE_SUBSYSTEM_H2C (demo_regs p) 0x1000 2 = [64, 0x56789000, 0x1234, 1, 0, 0, 0x33330000, 0x44440000]"
    using p(2) by (simp add: desc_image_def desc_field_def desc_size_def demo_packet_def upt_conv_Cons lo32_def hi32_def
      cfg_word_def packet_dw_def)
  moreover have "demo_h2c\<lparr>curr_desc_index_to_post := 0, current_buffer_index := 0\<rparr> = demo_h2c"
    by (simp add: demo_h2c_def zero_dma_buffer_def)
  ultimately show ?thesis using p(1) by metis
qed

end
