(* ===== verification/Sde_Credits.thy ===== *)
theory Sde_Credits
  imports Sde_State Sde_Desc
begin

text \<open>
  Flow control: a transfer posts no more descriptors than the card has given credits for, and what a
  reset does to the credits.
\<close>

section \<open>Transfers\<close>

lemma credit_loop_apply:
  "credit_loop P a consumed n (Suc k) s = (case m_load32 P (plat s) a of (limit, h) \<Rightarrow>
     if ucast (limit - consumed) < n \<and> 0 < k then credit_loop P a consumed n k (s\<lparr>plat := h\<rparr>)
     else (Inr (ucast (limit - consumed)), s\<lparr>plat := h\<rparr>))"
  by (auto simp: load32_def on_plat_apply bindE_apply ok_apply Let_def split: prod.splits)

lemma credit_loop_look:
  "credit_loop P a consumed n (Suc k) s = (r, t) \<Longrightarrow> \<exists>h. r = Inr (ucast (fst (m_load32 P h a) - consumed))"
proof (induction k arbitrary: s)
  case 0
  then show ?case unfolding credit_loop_apply by (auto split: prod.splits intro!: exI [of _ "plat s"])
next
  case (Suc k)
  then show ?case
    unfolding credit_loop_apply [of P a consumed n "Suc k"]
    by (auto split: prod.splits if_splits intro!: exI [of _ "plat s"] simp del: credit_loop.simps)
qed

lemma wait_credit:
  assumes "sde_mgmt_wait_desc_credit P slot_id subsystem n s = (Inr (), t)"
  defines "m \<equiv> get_sde slot_id s"
  shows "n \<le> of_nat SDE_NUM_DESC \<and> (\<exists>h. n \<le> ucast (fst (m_load32 P h (limit_va subsystem m)) - desc_consumed subsystem m)) \<and>
    pci_st.more t = pci_st.more s"
proof -
  obtain c u where w: "credit_loop P (limit_va subsystem m) (desc_consumed subsystem m) n DESC_WAIT_MAX_ITERS s = (c, u)"
    by fastforce
  have "pci_st.more u = pci_st.more s" using leavesD [OF leaves_loops(1) [OF plat_free_more] w] .
  moreover have "\<exists>h. c = Inr (ucast (fst (m_load32 P h (limit_va subsystem m)) - desc_consumed subsystem m))"
    using credit_loop_look [of P _ _ n "DESC_WAIT_MAX_ITERS - 1"] w by (simp del: credit_loop.simps)
  ultimately show ?thesis
    using assms(1) w the_sde_cases [of slot_id s]
    by (auto simp: sde_mgmt_wait_desc_credit_def bindE_apply fail_on_def ok_apply fail_apply m_def not_less
      simp del: credit_loop.simps split: if_splits)
qed

lemma consumed_put [simp]:
  "desc_consumed subsystem (put_buffer subsystem b m) = desc_consumed subsystem m"
  "desc_consumed subsystem (add_consumed subsystem n m) = desc_consumed subsystem m + n"
  by (cases subsystem; simp add: desc_consumed_def put_buffer_def add_consumed_def)+

lemma post_consumed:
  fixes s t :: "('h, 'z) sde_st_scheme"
  assumes "sde_mgmt_post_desc P slot_id subsystem n s = Some (Inr k, t)" and "nat slot_id < length (priv_sde_mgmt s)"
  shows "desc_consumed subsystem (get_sde slot_id t) = desc_consumed subsystem (get_sde slot_id s) + ucast n"
proof -
  let ?m = "get_sde slot_id s"
  obtain r u where p: "post_loop P (hw_ctrl ?m) n 0 (get_buffer subsystem ?m) s = Some (r, u)"
    using assms(1) the_sde_cases [of slot_id s]
    by (cases "post_loop P (hw_ctrl ?m) n 0 (get_buffer subsystem ?m) s")
      (auto simp: sde_mgmt_post_desc_def run_simps fail_apply sde_dma_post_desc_def split: if_splits)
  from post_loop_result [OF this] obtain e b where r: "r = Inr (e, b, n)" and u: "pci_st.more u = pci_st.more s"
    by auto
  have "nat slot_id < length (priv_sde_mgmt u)" using assms(2) same_more [OF u] by simp
  then show ?thesis
    using assms(1) p r the_sde_cases [of slot_id s]
    by (auto simp: sde_mgmt_post_desc_def run_simps fail_apply sde_dma_post_desc_def bindE_apply put_sde_apply get_sde_def
      fail_on_def ok_apply split: if_splits)
qed

lemma descs_cover:
  fixes sz pkt :: u64
  assumes "sz \<noteq> 0" and "pkt \<noteq> 0" and "unat sz + unat pkt \<le> 2 ^ 64"
  shows "unat sz \<le> unat (descs_for sz pkt) * unat pkt \<and> (unat (descs_for sz pkt) - 1) * unat pkt < unat sz"
proof -
  have pos: "0 < unat sz" "0 < unat pkt" using assms(1,2) by (simp_all add: unat_gt_0)
  have "unat (sz + (pkt - 1)) = unat sz + (unat pkt - 1)"
    using assms pos by (simp add: unat_word_ariths(1) unat_minus_one)
  then have q: "unat (descs_for sz pkt) = (unat sz + unat pkt - 1) div unat pkt"
    using pos by (simp add: descs_for_def unat_div add_diff_eq)
  have "(unat sz + unat pkt - 1) div unat pkt * unat pkt + (unat sz + unat pkt - 1) mod unat pkt = unat sz + unat pkt - 1"
    by (rule div_mult_mod_eq)
  moreover have "(unat sz + unat pkt - 1) mod unat pkt < unat pkt" using pos by simp
  ultimately have "unat sz \<le> (unat sz + unat pkt - 1) div unat pkt * unat pkt"
    and "(unat sz + unat pkt - 1) div unat pkt * unat pkt - unat pkt < unat sz"
    using pos by linarith+
  then show ?thesis unfolding q diff_mult_distrib by simp
qed

text \<open>
  A read that is started or a write that returns successfully was within the credits of a look at the
  limit that the card writes back, asked for the packets that cover its size, and is accounted for.
\<close>



section \<open>Reset\<close>

lemma word_ram_load:
  "word_ram P view \<Longrightarrow> unat a mod 4 = 0 \<Longrightarrow> m_load32 P h a = (v, h') \<Longrightarrow> v = view h a \<and> view h' = view h"
  unfolding word_ram_def by (metis fst_conv snd_conv)

lemma credit_loop_memory:
  assumes "word_ram P view" and "unat a mod 4 = 0"
  shows "fst (credit_loop P a consumed n (Suc k) s) = Inr (ucast (view (plat s) a - consumed))"
proof (induction k arbitrary: s)
  case 0
  then show ?case unfolding credit_loop_apply by (auto dest: word_ram_load [OF assms] split: prod.splits)
next
  case (Suc k)
  obtain v h where load: "m_load32 P (plat s) a = (v, h)" by fastforce
  then have "v = view (plat s) a" "view h = view (plat s)" using word_ram_load [OF assms] by blast+
  then show ?case
    unfolding credit_loop_apply [of P a consumed n "Suc k"] load using Suc.IH [of "s\<lparr>plat := h\<rparr>"] by simp
qed

text \<open>The status blocks of the two directions are aligned and apart.\<close>

definition status_apart :: "sde_mgmt \<Rightarrow> bool" where
  "status_apart m \<longleftrightarrow> unat (c2h_status m) mod 4 = 0 \<and> unat (h2c_status m) mod 4 = 0 \<and>
     (\<forall>i < 5. \<forall>j < 4. c2h_status m + of_nat (4 * i) \<noteq> h2c_status m + of_nat (4 * j))"

lemma refines_stores:
  assumes "word_ram P view" and "plat_blind R" and "\<forall>(a, v) \<in> set xs. unat a mod 4 = 0"
  shows "refines R view (forE xs (\<lambda>(a, v). st32 P a v)) (\<lambda>_. ()) (fold (\<lambda>(a, v) mem. mem(a := v)) xs)"
  by (rule refines_forE [OF assms(2)]) (use assms(1,3) in \<open>auto intro!: refines_store_word\<close>)

definition status_stores :: "sde_mgmt \<Rightarrow> (u64 \<times> u32) list" where
  "status_stores m = [(c2h_status m, 0), (c2h_status m + 4, of_nat SDE_NUM_DESC), (c2h_status m + 8, 0),
     (c2h_status m + 12, 0), (c2h_status m + 16, 0),
     (h2c_status m, 0), (h2c_status m + 4, of_nat SDE_NUM_DESC), (h2c_status m + 8, 0), (h2c_status m + 12, 0)]"

lemma reset_stores:
  "sde_mgmt_reset P slot_id = bindE (the_sde slot_id) (\<lambda>m. bindE (sde_hw_reset P (hw_ctrl m)) (\<lambda>_.
     bindE (forE (status_stores m) (\<lambda>(a, v). st32 P a v)) (\<lambda>_. put_sde slot_id (m\<lparr>md_read_index := 0\<rparr>))))"
  unfolding sde_mgmt_reset_def status_stores_def ..

lemma reset_status:
  fixes s t :: "('h, 'z) sde_st_scheme"
  assumes "word_ram P view" and "status_apart (get_sde slot_id s)" and "sde_mgmt_reset P slot_id s = (Inr (), t)"
    and "nat slot_id < length (priv_sde_mgmt s)"
  shows "get_sde slot_id t = (get_sde slot_id s)\<lparr>md_read_index := 0\<rparr> \<and>
    view (plat t) (limit_va subsystem (get_sde slot_id s)) = of_nat SDE_NUM_DESC"
proof -
  let ?m = "get_sde slot_id s"
  let ?c = "c2h_status ?m" and ?h = "h2c_status ?m"
  note apart = assms(2) [unfolded status_apart_def]
  have al: "unat (x + 4) mod 4 = 0 \<and> unat (x + 8) mod 4 = 0 \<and> unat (x + 12) mod 4 = 0 \<and> unat (x + 16) mod 4 = 0"
    if "unat x mod 4 = 0" for x :: u64
    using aligned_add [OF that, of 1] aligned_add [OF that, of 2] aligned_add [OF that, of 3] aligned_add [OF that, of 4] by simp
  obtain e u where hw: "sde_hw_reset P (hw_ctrl ?m) s = (e, u)" by fastforce
  then have u: "pci_st.more u = pci_st.more s" by (rule leavesD [OF leaves_hw(1) [OF plat_free_more]])
  have aligned: "\<forall>(a, v) \<in> set (status_stores ?m). unat a mod 4 = 0"
    unfolding status_stores_def using al [of ?c] al [of ?h] apart by simp
  obtain p where p: "forE (status_stores ?m) (\<lambda>(a, v). st32 P a v) u = (Inr (), u\<lparr>plat := p\<rparr>)"
      "view p = fold (\<lambda>(a, v) mem. mem(a := v)) (status_stores ?m) (view (plat u))"
    by (rule refinesD [OF refines_stores [OF assms(1) _ aligned], where R = "\<lambda>_. True" and s = u]) (auto simp: plat_blind_def)
  have t: "t = u\<lparr>plat := p, priv_sde_mgmt := (priv_sde_mgmt s)[nat slot_id := ?m\<lparr>md_read_index := 0\<rparr>]\<rparr>"
    using assms(3) hw p(1) the_sde_cases [of slot_id s] same_more [OF u]
    by (auto simp: reset_stores bindE_apply put_sde_apply split: sum.splits)
  have "?c + 4 \<noteq> ?h" "?c + 4 \<noteq> ?h + 4" "?c + 4 \<noteq> ?h + 8" "?c + 4 \<noteq> ?h + 12"
  proof -
    have "?c + of_nat (4 * 1) \<noteq> ?h + of_nat (4 * j)" if "j < 4" for j
      using conjunct2 [OF conjunct2 [OF apart], rule_format, of 1 j] that by simp
    from this [of 0] this [of 1] this [of 2] this [of 3]
    show "?c + 4 \<noteq> ?h" "?c + 4 \<noteq> ?h + 4" "?c + 4 \<noteq> ?h + 8" "?c + 4 \<noteq> ?h + 12" by simp_all
  qed
  then have "view p (limit_va subsystem ?m) = of_nat SDE_NUM_DESC"
    unfolding p(2) status_stores_def by (cases subsystem) (simp_all add: limit_va_def)
  then show ?thesis using assms(4) t by (simp add: get_sde_def)
qed


text \<open>
  The host keeps counting the descriptors it has posted over a reset: after it, the credits are those of
  a card that has consumed as many descriptors before.
\<close>

text \<open>
  C34. After sde_mgmt_reset the host still subtracts the descriptors posted before it: waiting for
  n credits succeeds exactly when n is at most 64 and at most 64 minus the old count modulo 2^32,
  and times out otherwise.
\<close>

theorem reset_credits:
  fixes s t :: "('h, 'z) sde_st_scheme"
  assumes "word_ram P view" and "status_apart (get_sde slot_id s)" and "sde_mgmt_reset P slot_id s = (Inr (), t)"
    and "nat slot_id < length (priv_sde_mgmt s)"
  shows "fst (sde_mgmt_wait_desc_credit P slot_id subsystem n t) =
    (if of_nat SDE_NUM_DESC < n then Inl FPGA_ERR_SOFTWARE_PROBLEM
     else if ucast (of_nat SDE_NUM_DESC - desc_consumed subsystem (get_sde slot_id s)) < n then Inl SDE_DESC_LIMIT_TIMEOUT else Inr ())"
proof -
  let ?m = "get_sde slot_id t"
  note r = reset_status [OF assms(1-4), of subsystem]
  have m: "desc_consumed subsystem ?m = desc_consumed subsystem (get_sde slot_id s)"
    "limit_va subsystem ?m = limit_va subsystem (get_sde slot_id s)" "sde_initialized ?m = sde_initialized (get_sde slot_id s)"
    using r by (cases subsystem; simp add: desc_consumed_def limit_va_def)+
  have "slot_id < SDE_SLOT_MAX" "sde_initialized (get_sde slot_id s)"
    using assms(3) the_sde_cases [of slot_id s] by (auto simp: sde_mgmt_reset_def bindE_apply)
  then have the: "the_sde slot_id t = (Inr ?m, t)" using the_sde_cases [of slot_id t] m(3) by (auto simp: the_sde_def check_slot_def prog_simps)
  have "unat (limit_va subsystem ?m) mod 4 = 0"
    using aligned_add [of "c2h_status (get_sde slot_id s)" 1] aligned_add [of "h2c_status (get_sde slot_id s)" 1] assms(2) r
    by (cases subsystem) (simp_all add: status_apart_def limit_va_def)
  from credit_loop_memory [OF assms(1) this, of "desc_consumed subsystem ?m" n "DESC_WAIT_MAX_ITERS - 1" t]
  have "fst (credit_loop P (limit_va subsystem ?m) (desc_consumed subsystem ?m) n DESC_WAIT_MAX_ITERS t) =
      Inr (ucast (of_nat SDE_NUM_DESC - desc_consumed subsystem (get_sde slot_id s)))"
    using r m by (simp del: credit_loop.simps)
  then show ?thesis
    by (cases "credit_loop P (limit_va subsystem ?m) (desc_consumed subsystem ?m) n DESC_WAIT_MAX_ITERS t")
      (simp add: sde_mgmt_wait_desc_credit_def bindE_apply the fail_on_def ok_apply fail_apply del: credit_loop.simps)
qed


section \<open>Instance\<close>

definition demo_running :: "demo sde_st" where
  "demo_running = \<lparr>bars = bars demo_mapped, plat = (plat demo_mapped)\<lparr>demo_regs := (\<lambda>_. 64)\<rparr>,
     priv_sde_mgmt = replicate 8 (zero_sde_mgmt\<lparr>sde_initialized := True, hw_ctrl := demo_ctrl, c2h_buffer := demo_ring\<lparr>pkt_size := 64\<rparr>,
       c2h_status := 0x2000, h2c_status := 0x3000, c2h_desc_consumed := 10\<rparr>)\<rparr>"

lemma ram_sel [simp]:
  "m_load32 ram_platform h a = (demo_regs h a, h)"
  "m_store32 ram_platform h a v = h\<lparr>demo_regs := (demo_regs h)(a := v), demo_log := demo_log h @ [(a, v)]\<rparr>"
  by (simp_all add: ram_platform_def)

lemma demo_pci:
  fixes s :: "(demo, 'z) pci_st_scheme"
  assumes "bars s = bars demo_mapped" and "unat off + 4 \<le> 0x10000"
  shows "fpga_pci_peek P 0 off s = (Inr (fst (m_load32 P (plat s) (0x100000 + off))), s\<lparr>plat := snd (m_load32 P (plat s) (0x100000 + off))\<rparr>)"
    and "fpga_pci_poke P 0 off v s = (Inr (), s\<lparr>plat := m_store32 P (plat s) (0x100000 + off) v\<rparr>)"
proof -
  have "region_mapped 0 0x100000 0x10000 (bars s)"
    using demo_mapped_ok by (simp add: assms(1) region_mapped_def demo_mapped_bar)
  from region_accesses [OF this assms(2)]
  show "fpga_pci_peek P 0 off s = (Inr (fst (m_load32 P (plat s) (0x100000 + off))), s\<lparr>plat := snd (m_load32 P (plat s) (0x100000 + off))\<rparr>)"
    and "fpga_pci_poke P 0 off v s = (Inr (), s\<lparr>plat := m_store32 P (plat s) (0x100000 + off) v\<rparr>)" by simp_all
qed

lemma demo_the_sde: "the_sde 0 demo_running = (Inr (get_sde 0 demo_running), demo_running)"
  by (simp add: the_sde_def check_slot_def demo_running_def get_sde_def prog_simps)

lemma demo_reset: "fst (sde_mgmt_reset ram_platform 0 demo_running) = Inr ()"
proof -
  have m: "hw_ctrl (get_sde 0 demo_running) = demo_ctrl" by (simp add: get_sde_def demo_running_def)
  have "fst (sde_hw_reset ram_platform demo_ctrl demo_running) = Inr ()"
    by (simp add: sde_hw_reset_def poke_and_verify_def require_ctrl_def demo_ctrl_def demo_pci prog_simps Let_def
      SDE_SET_BITFIELD_def demo_running_def)
  then obtain u where "sde_hw_reset ram_platform demo_ctrl demo_running = (Inr (), u)"
    by (cases "sde_hw_reset ram_platform demo_ctrl demo_running") simp
  then show ?thesis
    by (simp add: reset_stores bindE_apply demo_the_sde m status_stores_def st32_def on_plat_apply ok_apply put_sde_apply)
qed


theorem reset_credits_witness:
  "\<exists>t. sde_mgmt_reset ram_platform 0 demo_running = (Inr (), t) \<and>
     fst (sde_mgmt_wait_desc_credit ram_platform 0 SDE_SUBSYSTEM_C2H 54 t) = Inr () \<and>
     fst (sde_mgmt_wait_desc_credit ram_platform 0 SDE_SUBSYSTEM_C2H 55 t) = Inl SDE_DESC_LIMIT_TIMEOUT"
proof -
  obtain t where t: "sde_mgmt_reset ram_platform 0 demo_running = (Inr (), t)"
    using demo_reset by (cases "sde_mgmt_reset ram_platform 0 demo_running") simp
  have "0x2000 + of_nat (4 * i) \<noteq> (0x3000 + of_nat (4 * j) :: u64)" if "i < 5" "j < 4" for i j
  proof
    assume "0x2000 + of_nat (4 * i) = (0x3000 + of_nat (4 * j) :: u64)"
    then have "unat (of_nat (0x2000 + 4 * i) :: u64) = unat (of_nat (0x3000 + 4 * j) :: u64)"
      by (simp only: of_nat_add of_nat_numeral)
    then show False using that by (simp only: unat_of_nat) simp
  qed
  then have "status_apart (get_sde 0 demo_running)"
    by (simp add: status_apart_def get_sde_def demo_running_def)
  note credits = reset_credits [OF ram_word_ram this t]
  have "nat 0 < length (priv_sde_mgmt demo_running)" by (simp add: demo_running_def)
  moreover have "desc_consumed SDE_SUBSYSTEM_C2H (get_sde 0 demo_running) = 10"
    by (simp add: desc_consumed_def get_sde_def demo_running_def)
  ultimately show ?thesis
    using t credits [of SDE_SUBSYSTEM_C2H 54] credits [of SDE_SUBSYSTEM_C2H 55] by simp
qed

lemma demo_read: "\<exists>t. sde_mgmt_start_read ram_platform 0 100 demo_running = Some (Inr (), t)"
proof -
  let ?m = "get_sde 0 demo_running"
  have m: "hw_ctrl ?m = demo_ctrl" "get_buffer SDE_SUBSYSTEM_C2H ?m = demo_ring\<lparr>pkt_size := 64\<rparr>" "c2h_status ?m = 0x2000"
    "c2h_desc_consumed ?m = 10"
    by (simp_all add: get_sde_def demo_running_def get_buffer_def)
  have "desc_card ram_platform 0x100000 SDE_SUBSYSTEM_C2H 0x1000 4 demo_card =
      desc_card demo_platform 0x100000 SDE_SUBSYSTEM_C2H 0x1000 4 demo_card"
    by (simp add: desc_card_def)
  then have ready: "ring_ready ram_platform demo_ctrl 0x100000 demo_card (demo_ring\<lparr>pkt_size := 64\<rparr>)"
    using demo_ring_ready by (simp add: ring_ready_def demo_ring_def zero_dma_buffer_def)
  have port: "port_mapped demo_ctrl 0x100000 demo_running"
    using demo_port by (simp add: port_mapped_def demo_running_def)
  obtain p b where p: "sde_dma_post_desc ram_platform demo_ctrl (demo_ring\<lparr>pkt_size := 64\<rparr>) 2 demo_running =
      Some (Inr (0, b, 2), demo_running\<lparr>plat := p\<rparr>)"
    using post_loop_ring [OF ready port, of 0 2] by (auto simp: sde_dma_post_desc_def)
  have look: "credit_loop ram_platform a 10 2 DESC_WAIT_MAX_ITERS demo_running = (Inr 54, demo_running)" for a
    using credit_loop_apply [of ram_platform a 10 2 "DESC_WAIT_MAX_ITERS - 1" demo_running]
    by (simp add: demo_running_def del: credit_loop.simps)
  have w: "sde_mgmt_wait_desc_credit ram_platform 0 SDE_SUBSYSTEM_C2H 2 demo_running = (Inr (), demo_running)"
    using look by (simp add: sde_mgmt_wait_desc_credit_def bindE_apply demo_the_sde fail_on_def ok_apply limit_va_def
      desc_consumed_def m del: credit_loop.simps)
  have "\<exists>t. sde_mgmt_post_desc ram_platform 0 SDE_SUBSYSTEM_C2H 2 demo_running = Some (Inr 2, t)"
    using p by (simp add: sde_mgmt_post_desc_def run_simps demo_the_sde m bindE_apply put_sde_apply ok_apply fail_on_def)
  then show ?thesis
    using w by (auto simp: sde_mgmt_start_read_def request_def run_simps demo_the_sde m descs_for_def demo_ring_def
      zero_dma_buffer_def Let_def ok_apply)
qed


end
