(* ===== verification/Fd_Io.thy ===== *)
theory Fd_Io
  imports Prelude
begin

text \<open>
  The read and write loops of \<open>utils/io.c\<close> on one file descriptor. The system calls are parameters: what
  a call transfers, a signal that interrupts it, or another error. Time passes in the state \<open>'h\<close>. A loop
  that never ends is \<open>None\<close>.
\<close>

section \<open>System calls\<close>

datatype io_read = Got "u8 list" | Read_eintr | Read_error
datatype io_write = Put nat | Write_eintr | Write_error

record 'h fd_ops =
  sys_read :: "'h \<Rightarrow> nat \<Rightarrow> io_read \<times> 'h"
  sys_readv :: "'h \<Rightarrow> nat list \<Rightarrow> io_read \<times> 'h"
  sys_writev :: "'h \<Rightarrow> u8 list list \<Rightarrow> io_write \<times> 'h"

section \<open>The loops\<close>

text \<open>The return code, the bytes in the buffer and \<open>*rsize\<close>.\<close>

partial_function (option) sread_loop :: "'h fd_ops \<Rightarrow> nat \<Rightarrow> u8 list \<Rightarrow> 'h \<Rightarrow> ((int \<times> u8 list \<times> nat) \<times> 'h) option" where
  "sread_loop F sz got h =
     (if length got < sz then
        case sys_read F h (sz - length got) of (cur, h') \<Rightarrow>
        (case cur of
           Read_eintr \<Rightarrow> sread_loop F sz got h'
         | Read_error \<Rightarrow> Some ((-1, got, length got), h')
         | Got bs \<Rightarrow>
             if bs = [] then Some ((1, got, length got), h')
             else sread_loop F sz (got @ bs) h')
      else Some ((0, got, sz), h))"

text \<open>Leaving behind the vectors that are done; the first one that is not keeps its rest.\<close>

fun iov_advance :: "nat \<Rightarrow> nat list \<Rightarrow> nat list" where
  "iov_advance rc [] = []"
| "iov_advance rc (l # iov) = (if rc < l then (l - rc) # iov else iov_advance (rc - l) iov)"

text \<open>The return code and the bytes stored so far, in the order of the vectors.\<close>

partial_function (option) readv_loop :: "'h fd_ops \<Rightarrow> nat list \<Rightarrow> u8 list \<Rightarrow> 'h \<Rightarrow> ((int \<times> u8 list) \<times> 'h) option" where
  "readv_loop F iov got h =
     (case sys_readv F h iov of (cur, h') \<Rightarrow>
      (case cur of
         Read_eintr \<Rightarrow> readv_loop F iov got h'
       | Read_error \<Rightarrow> Some ((-1, got), h')
       | Got bs \<Rightarrow>
           if length bs = sum_list iov then Some ((0, got @ bs), h')
           else readv_loop F (iov_advance (length bs) iov) (got @ bs) h'))"

fun iov_drop :: "nat \<Rightarrow> u8 list list \<Rightarrow> u8 list list" where
  "iov_drop rc [] = []"
| "iov_drop rc (b # iov) = (if rc < length b then drop rc b # iov else iov_drop (rc - length b) iov)"

partial_function (option) writev_loop :: "'h fd_ops \<Rightarrow> u8 list list \<Rightarrow> 'h \<Rightarrow> (int \<times> 'h) option" where
  "writev_loop F iov h =
     (case sys_writev F h iov of (cur, h') \<Rightarrow>
      (case cur of
         Write_eintr \<Rightarrow> writev_loop F iov h'
       | Write_error \<Rightarrow> Some (-1, h')
       | Put rc \<Rightarrow>
           if rc = length (concat iov) then Some (0, h')
           else writev_loop F (iov_drop rc iov) h'))"

declare sread_loop.simps [code] readv_loop.simps [code] writev_loop.simps [code]

section \<open>Files\<close>

text \<open>
  A descriptor of a file that is read from: \<open>view\<close> is what is still to come, a read takes some of it and
  at least a byte unless there is none, and signals come finitely often between two transfers.
\<close>

definition source :: "'h fd_ops \<Rightarrow> ('h \<Rightarrow> u8 list) \<Rightarrow> ('h \<Rightarrow> nat) \<Rightarrow> bool" where
  "source F view signals \<longleftrightarrow>
     (\<forall>h n. case sys_read F h n of
        (Got bs, h') \<Rightarrow> view h = bs @ view h' \<and> length bs \<le> n \<and> (bs = [] \<longrightarrow> n = 0 \<or> view h = [])
      | (Read_eintr, h') \<Rightarrow> view h' = view h \<and> signals h' < signals h
      | (Read_error, h') \<Rightarrow> False) \<and>
     (\<forall>h iov. case sys_readv F h iov of
        (Got bs, h') \<Rightarrow> view h = bs @ view h' \<and> length bs \<le> sum_list iov \<and> (bs = [] \<longrightarrow> sum_list iov = 0 \<or> view h = [])
      | (Read_eintr, h') \<Rightarrow> view h' = view h \<and> signals h' < signals h
      | (Read_error, h') \<Rightarrow> False)"

text \<open>A descriptor of a file that is written to: \<open>view\<close> is what has been written.\<close>

definition sink :: "'h fd_ops \<Rightarrow> ('h \<Rightarrow> u8 list) \<Rightarrow> ('h \<Rightarrow> nat) \<Rightarrow> bool" where
  "sink F view signals \<longleftrightarrow>
     (\<forall>h iov. case sys_writev F h iov of
        (Put n, h') \<Rightarrow> view h' = view h @ take n (concat iov) \<and> n \<le> length (concat iov) \<and>
          (concat iov \<noteq> [] \<longrightarrow> 0 < n)
      | (Write_eintr, h') \<Rightarrow> view h' = view h \<and> signals h' < signals h
      | (Write_error, h') \<Rightarrow> False)"

lemma sum_iov_advance: "n \<le> sum_list iov \<Longrightarrow> sum_list (iov_advance n iov) = sum_list iov - n"
  by (induction n iov rule: iov_advance.induct) auto

lemma concat_iov_drop: "concat (iov_drop n iov) = drop n (concat iov)"
  by (induction n iov rule: iov_drop.induct) auto

lemma progress: "a < a' \<or> a = a' \<and> b < b' \<Longrightarrow> ((a, b), (a', b')) \<in> less_than <*lex*> less_than" for a a' b b' :: nat
  by auto

lemmas io_induct = wf_induct_rule [OF wf_lex_prod [OF wf_less_than wf_less_than]]

section \<open>Writing\<close>

lemma writev_loop_sends:
  assumes "sink F view signals"
  shows "\<exists>h'. writev_loop F iov h = Some (0, h') \<and> view h' = view h @ concat iov"
proof (induction "(length (concat iov), signals h)" arbitrary: iov h rule: io_induct)
  case (1 iov h)
  obtain cur u where w: "sys_writev F h iov = (cur, u)" by fastforce
  show ?case
  proof (cases cur)
    case (Put n)
    with assms w have n: "view u = view h @ take n (concat iov)" "n \<le> length (concat iov)"
      "concat iov \<noteq> [] \<longrightarrow> 0 < n"
      unfolding sink_def by (auto dest!: spec [of _ h] spec [of _ iov])
    show ?thesis
    proof (cases "n = length (concat iov)")
      case True
      then show ?thesis using w Put n by (subst writev_loop.simps) auto
    next
      case False
      then have "((length (concat (iov_drop n iov)), signals u), (length (concat iov), signals h)) \<in> less_than <*lex*> less_than"
      proof -
        have "0 < length (concat iov)" using False n(2) by linarith
        then have "0 < n" using n(3) length_greater_0_conv by blast
        then have "length (concat (iov_drop n iov)) < length (concat iov)" using n(2) unfolding concat_iov_drop by simp
        then show ?thesis by (intro progress) simp
      qed
      from 1 [OF this] obtain v where "writev_loop F (iov_drop n iov) u = Some (0, v)" "view v = view u @ drop n (concat iov)"
        by (auto simp: concat_iov_drop)
      then show ?thesis using w Put n False by (subst writev_loop.simps) auto
    qed
  next
    case Write_eintr
    with assms w have n: "view u = view h" "signals u < signals h"
      unfolding sink_def by (auto dest!: spec [of _ h] spec [of _ iov])
    then show ?thesis using 1 [OF progress, of iov u] w Write_eintr by (subst writev_loop.simps) auto
  next
    case Write_error
    with assms w show ?thesis unfolding sink_def by (auto dest!: spec [of _ h] spec [of _ iov])
  qed
qed

section \<open>Reading\<close>

lemma source_read:
  assumes "source F view signals" and "sys_read F h n = (cur, u)"
  shows "(\<exists>bs. cur = Got bs \<and> view h = bs @ view u \<and> length bs \<le> n \<and> (bs = [] \<longrightarrow> n = 0 \<or> view h = [])) \<or>
    (cur = Read_eintr \<and> view u = view h \<and> signals u < signals h)"
  using assms unfolding source_def by (cases cur) (auto dest!: spec [of _ h] spec [of _ n])

lemma source_readv:
  assumes "source F view signals" and "sys_readv F h iov = (cur, u)"
  shows "(\<exists>bs. cur = Got bs \<and> view h = bs @ view u \<and> length bs \<le> sum_list iov \<and>
      (bs = [] \<longrightarrow> sum_list iov = 0 \<or> view h = [])) \<or>
    (cur = Read_eintr \<and> view u = view h \<and> signals u < signals h)"
  using assms unfolding source_def by (cases cur) (auto dest!: spec [of _ h] spec [of _ iov])

text \<open>With enough input both loops fill the buffer with the next bytes, however the kernel cuts them.\<close>

lemma sread_loop_enough:
  assumes F: "source F view signals" and "length got \<le> sz" and "sz - length got \<le> length (view h)"
  shows "\<exists>u. sread_loop F sz got h = Some ((0, got @ take (sz - length got) (view h), sz), u) \<and>
    view u = drop (sz - length got) (view h)"
  using assms(2,3)
proof (induction "(sz - length got, signals h)" arbitrary: got h rule: io_induct)
  case (1 got h)
  show ?case
  proof (cases "length got < sz")
    case False
    then show ?thesis using 1 by (subst sread_loop.simps) simp
  next
    case True
    obtain cur u where r: "sys_read F h (sz - length got) = (cur, u)" by fastforce
    from source_read [OF F r] show ?thesis
    proof (elim disjE conjE exE)
      fix bs assume bs: "cur = Got bs" "view h = bs @ view u" "length bs \<le> sz - length got"
        "bs = [] \<longrightarrow> sz - length got = 0 \<or> view h = []"
      then have "bs \<noteq> []" using True 1 by auto
      moreover have "\<exists>v. sread_loop F sz (got @ bs) u =
          Some ((0, (got @ bs) @ take (sz - length (got @ bs)) (view u), sz), v) \<and>
          view v = drop (sz - length (got @ bs)) (view u)"
      proof (rule 1(1) [OF progress])
        show "sz - length (got @ bs) < sz - length got \<or> sz - length (got @ bs) = sz - length got \<and> signals u < signals h"
          using True \<open>bs \<noteq> []\<close> by (cases bs) auto
      qed (use bs 1(2,3) True in auto)
      ultimately show ?thesis using r bs True by (subst sread_loop.simps) auto
    next
      assume e: "cur = Read_eintr" "view u = view h" "signals u < signals h"
      then show ?thesis using 1(1) [OF progress, of got u] 1(2,3) r True by (subst sread_loop.simps) auto
    qed
  qed
qed

lemma readv_loop_enough:
  assumes F: "source F view signals" and "sum_list iov \<le> length (view h)"
  shows "\<exists>u. readv_loop F iov got h = Some ((0, got @ take (sum_list iov) (view h)), u) \<and>
    view u = drop (sum_list iov) (view h)"
  using assms(2)
proof (induction "(sum_list iov, signals h)" arbitrary: iov got h rule: io_induct)
  case (1 iov h got)
  obtain cur u where r: "sys_readv F h iov = (cur, u)" by fastforce
  from source_readv [OF F r] show ?case
  proof (elim disjE conjE exE)
    fix bs assume bs: "cur = Got bs" "view h = bs @ view u" "length bs \<le> sum_list iov"
      "bs = [] \<longrightarrow> sum_list iov = 0 \<or> view h = []"
    show ?thesis
    proof (cases "length bs = sum_list iov")
      case True
      then show ?thesis using r bs by (subst readv_loop.simps) auto
    next
      case False
      then have "bs \<noteq> []" using bs 1(2) by auto
      moreover have "sum_list (iov_advance (length bs) iov) = sum_list iov - length bs"
        using bs by (simp add: sum_iov_advance)
      ultimately have "\<exists>v. readv_loop F (iov_advance (length bs) iov) (got @ bs) u =
          Some ((0, (got @ bs) @ take (sum_list iov - length bs) (view u)), v) \<and>
          view v = drop (sum_list iov - length bs) (view u)"
      proof -
        assume b: "bs \<noteq> []" and sum: "sum_list (iov_advance (length bs) iov) = sum_list iov - length bs"
        have "sum_list iov - length bs < sum_list iov" using b bs(3) by (cases bs) auto
        then show ?thesis
          using 1(1) [OF progress, of "iov_advance (length bs) iov" u "got @ bs"] sum bs 1(2) by auto
      qed
      then show ?thesis using r bs False by (subst readv_loop.simps) auto
    qed
  next
    assume e: "cur = Read_eintr" "view u = view h" "signals u < signals h"
    then show ?thesis using 1(1) [OF progress, of iov u got] 1(2) r by (subst readv_loop.simps) auto
  qed
qed

text \<open>At the end of the input \<open>sread_loop\<close> says so, but \<open>readv_loop\<close> never comes back.\<close>

lemma sread_loop_short:
  assumes F: "source F view signals" and "length got + length (view h) < sz"
  shows "\<exists>u. sread_loop F sz got h = Some ((1, got @ view h, length got + length (view h)), u)"
  using assms(2)
proof (induction "(length (view h), signals h)" arbitrary: got h rule: io_induct)
  case (1 h got)
  obtain cur u where r: "sys_read F h (sz - length got) = (cur, u)" by fastforce
  from source_read [OF F r] show ?case
  proof (elim disjE conjE exE)
    fix bs assume bs: "cur = Got bs" "view h = bs @ view u" "length bs \<le> sz - length got"
      "bs = [] \<longrightarrow> sz - length got = 0 \<or> view h = []"
    then show ?thesis using 1(1) [OF progress, of u "got @ bs"] 1(2) r by (cases "bs = []"; subst sread_loop.simps) auto
  next
    assume e: "cur = Read_eintr" "view u = view h" "signals u < signals h"
    then show ?thesis using 1(1) [OF progress, of u got] 1(2) r by (subst sread_loop.simps) auto
  qed
qed

lemma readv_loop_returned:
  assumes F: "source F view signals" and ret: "readv_loop F iov got h = Some y"
  shows "sum_list iov \<le> length (view h)"
proof -
  define Q :: "'a fd_ops \<Rightarrow> nat list \<Rightarrow> u8 list \<Rightarrow> 'a \<Rightarrow> (int \<times> u8 list) \<times> 'a \<Rightarrow> bool"
    where "Q = (\<lambda>G iov got h _. G = F \<longrightarrow> sum_list iov \<le> length (view h))"
  have "Q F iov got h y"
  proof (rule readv_loop.raw_induct [OF _ ret, where P = Q], goal_cases)
    case (1 loop G iov got h y)
    show ?case
    proof (cases "G = F")
      case True
      obtain cur u where r: "sys_readv F h iov = (cur, u)" by fastforce
      from source_readv [OF F r] show ?thesis
      proof (elim disjE conjE exE)
        fix bs assume bs: "cur = Got bs" "view h = bs @ view u" "length bs \<le> sum_list iov"
        show ?thesis
        proof (cases "length bs = sum_list iov")
          case True
          then show ?thesis using bs by (simp add: Q_def)
        next
          case False
          then have "Q F (iov_advance (length bs) iov) (got @ bs) u y"
            using 1 r bs \<open>G = F\<close> by simp
          then show ?thesis using bs unfolding Q_def by (auto simp: sum_iov_advance)
        qed
      next
        assume e: "cur = Read_eintr" "view u = view h"
        then have "Q F iov got u y" using 1 r \<open>G = F\<close> by simp
        then show ?thesis using e by (simp add: Q_def)
      qed
    qed (simp add: Q_def)
  qed
  then show ?thesis by (simp add: Q_def)
qed

section \<open>The contract of the loops\<close>

text \<open>
  C37. On descriptors that move at least one byte per call or are interrupted a bounded number of
  times: writev_loop returns 0 after writing all buffers in order; sread_loop and readv_loop
  deliver the first bytes of the source when it has enough of them; at an early end sread_loop
  returns 1 with what there was, while readv_loop never returns.
\<close>

theorem io_loops:
  assumes "source F view signals" and "sink F out signals"
  shows "(\<exists>h'. writev_loop F bufs h = Some (0, h') \<and> out h' = out h @ concat bufs) \<and>
    (if sum_list iov \<le> length (view h) then
       (\<exists>h'. sread_loop F (sum_list iov) [] h = Some ((0, take (sum_list iov) (view h), sum_list iov), h') \<and>
          view h' = drop (sum_list iov) (view h)) \<and>
       (\<exists>h'. readv_loop F iov [] h = Some ((0, take (sum_list iov) (view h)), h') \<and>
          view h' = drop (sum_list iov) (view h))
     else
       (\<exists>h'. sread_loop F (sum_list iov) [] h = Some ((1, view h, length (view h)), h')) \<and>
       readv_loop F iov [] h = None)"
  using writev_loop_sends [OF assms(2), of bufs h] sread_loop_enough [OF assms(1), of "[]" "sum_list iov" h]
    readv_loop_enough [OF assms(1), of iov h "[]"] sread_loop_short [OF assms(1), of "[]" h "sum_list iov"]
    readv_loop_returned [OF assms(1), of iov "[]" h]
  by (cases "readv_loop F iov [] h") auto

text \<open>A pipe that moves at most two bytes at a time, and a call that is interrupted while \<open>snd\<close> is positive.\<close>

definition pipe_read :: "u8 list \<times> nat \<Rightarrow> nat \<Rightarrow> io_read \<times> u8 list \<times> nat" where
  "pipe_read h n = (case h of
       (bs, 0) \<Rightarrow> (Got (take (min n 2) bs), drop (min n 2) bs, 0)
     | (bs, Suc k) \<Rightarrow> (Read_eintr, bs, k))"

definition pipe_write :: "u8 list \<times> nat \<Rightarrow> u8 list \<Rightarrow> io_write \<times> u8 list \<times> nat" where
  "pipe_write h bs = (case h of
       (xs, 0) \<Rightarrow> (Put (min (length bs) 2), xs @ take 2 bs, 0)
     | (xs, Suc k) \<Rightarrow> (Write_eintr, xs, k))"

definition pipe_ops :: "(u8 list \<times> nat) fd_ops" where
  "pipe_ops = \<lparr>sys_read = pipe_read, sys_readv = (\<lambda>h iov. pipe_read h (sum_list iov)),
     sys_writev = (\<lambda>h iov. pipe_write h (concat iov))\<rparr>"

lemma pipe_source: "source pipe_ops fst snd"
  by (auto simp: source_def pipe_ops_def pipe_read_def min_def split: nat.splits)

lemma pipe_sink: "sink pipe_ops fst snd"
  by (auto simp: sink_def pipe_ops_def pipe_write_def min_def split: nat.splits)

theorem io_loops_witness:
  "readv_loop pipe_ops [1, 2] [] ([7, 8], 1) = None \<and>
    (\<exists>h'. sread_loop pipe_ops 3 [] ([7, 8], 1) = Some ((1, [7, 8], 2), h')) \<and>
    (\<exists>h'. writev_loop pipe_ops [[9], [], [10, 11]] ([7, 8], 1) = Some (0, h') \<and> fst h' = [7, 8, 9, 10, 11])"
  using io_loops [OF pipe_source pipe_sink, of "[[9], [], [10, 11]]" "([7, 8], 1)" "[1, 2]"] by (simp add: eval_nat_numeral)

end
