(* ===== verification/Getopt.thy ===== *)
theory Getopt
  imports Returns "HOL-Library.Sublist"
begin

text \<open>
  \<open>getopt_long\<close> of the C library as the tools use it: an option string whose letters take either no
  argument or a required one, a table of long options without flag variables, and permutation of the
  arguments, so that options are found behind other words. Its diagnostics go to the standard error
  stream and are left out. The tools read options until the end or the first one they reject, and use
  neither \<open>optind\<close> nor the permuted vector: what the calls return is the list of the options read.
\<close>

datatype has_arg = no_argument | required_argument

type_synonym long_option = "string \<times> has_arg \<times> char"
type_synonym opt_event = "char \<times> string"

text \<open>What is returned for a word that is no option, or lacks its argument.\<close>

abbreviation bad_option :: opt_event where "bad_option \<equiv> (CHR ''?'', '''')"

section \<open>Short options\<close>

fun scan_optstring :: "string \<Rightarrow> char \<Rightarrow> has_arg option" where
  "scan_optstring [] c = None"
| "scan_optstring (x # xs) c =
     (if x = c then Some (if xs \<noteq> [] \<and> hd xs = CHR '':'' then required_argument else no_argument)
      else scan_optstring xs c)"

definition find_short :: "string \<Rightarrow> char \<Rightarrow> has_arg option" where
  "find_short optstring c = (if c = CHR '':'' \<or> c = CHR '';'' then None else scan_optstring optstring c)"

text \<open>The letters of one word: the options and the words that are left.\<close>

fun short_options :: "string \<Rightarrow> string \<Rightarrow> string list \<Rightarrow> opt_event list \<times> string list" where
  "short_options optstring [] args = ([], args)"
| "short_options optstring (c # cs) args =
     (case find_short optstring c of
        None \<Rightarrow> (case short_options optstring cs args of (es, rest) \<Rightarrow> (bad_option # es, rest))
      | Some no_argument \<Rightarrow> (case short_options optstring cs args of (es, rest) \<Rightarrow> ((c, '''') # es, rest))
      | Some required_argument \<Rightarrow>
          if cs \<noteq> [] then ([(c, cs)], args)
          else (case args of [] \<Rightarrow> ([bad_option], []) | a # rest \<Rightarrow> ([(c, a)], rest)))"

section \<open>Long options\<close>

text \<open>An exact match, or else an abbreviation that fits one option only.\<close>

definition find_long :: "long_option list \<Rightarrow> string \<Rightarrow> long_option option" where
  "find_long longopts name =
     (case filter (\<lambda>opt. fst opt = name) longopts of
        opt # _ \<Rightarrow> Some opt
      | [] \<Rightarrow> (case filter (\<lambda>opt. prefix name (fst opt)) longopts of
          [] \<Rightarrow> None
        | opt # opts \<Rightarrow> if list_all (\<lambda>opt'. snd opt' = snd opt) opts then Some opt else None))"

definition long_option_event :: "long_option list \<Rightarrow> string \<Rightarrow> string list \<Rightarrow> opt_event \<times> string list" where
  "long_option_event longopts body args =
     (let name = takeWhile (\<lambda>c. c \<noteq> CHR ''='') body;
          value = dropWhile (\<lambda>c. c \<noteq> CHR ''='') body
      in case find_long longopts name of
           None \<Rightarrow> (bad_option, args)
         | Some (_, no_argument, c) \<Rightarrow> (if value = [] then (c, '''') else bad_option, args)
         | Some (_, required_argument, c) \<Rightarrow>
             if value \<noteq> [] then ((c, tl value), args)
             else (case args of [] \<Rightarrow> (bad_option, []) | a # rest \<Rightarrow> ((c, a), rest)))"

lemma short_options_shorter: "short_options optstring cs args = (es, rest) \<Longrightarrow> length rest \<le> length args"
  by (induction optstring cs args arbitrary: es rest rule: short_options.induct)
     (fastforce split: option.splits has_arg.splits if_splits prod.splits list.splits)+

lemma long_option_shorter: "long_option_event longopts body args = (e, rest) \<Longrightarrow> length rest \<le> length args"
  by (auto simp: long_option_event_def Let_def split: option.splits has_arg.splits if_splits list.splits prod.splits)

section \<open>The words\<close>

text \<open>A word that does not start with a dash, or is only a dash, is passed over; \<open>--\<close> ends the options.\<close>

function getopt_long :: "string \<Rightarrow> long_option list \<Rightarrow> string list \<Rightarrow> opt_event list" where
  "getopt_long optstring longopts [] = []"
| "getopt_long optstring longopts (a # args) =
     (if a = ''--'' then []
      else if take 2 a = ''--'' then
        (case long_option_event longopts (drop 2 a) args of (e, rest) \<Rightarrow> e # getopt_long optstring longopts rest)
      else if take 1 a = ''-'' \<and> a \<noteq> ''-'' then
        (case short_options optstring (tl a) args of (es, rest) \<Rightarrow> es @ getopt_long optstring longopts rest)
      else getopt_long optstring longopts args)"
  by pat_completeness auto
termination
  by (relation "measure (\<lambda>(_, _, args). length args)")
     (auto dest!: sym [of "(_, _)" "short_options _ _ _"] sym [of "(_, _)" "long_option_event _ _ _"]
       dest: short_options_shorter long_option_shorter simp: less_Suc_eq_le)

section \<open>Spelling of options\<close>

text \<open>The ways to write an option on the command line.\<close>

inductive spells :: "string \<Rightarrow> long_option list \<Rightarrow> string list \<Rightarrow> opt_event \<Rightarrow> bool"
  for optstring :: string and longopts :: "long_option list" where
  short_flag: "find_short optstring c = Some no_argument \<Longrightarrow> c \<noteq> CHR ''-'' \<Longrightarrow>
    spells optstring longopts [[CHR ''-'', c]] (c, '''')"
| short_word: "find_short optstring c = Some required_argument \<Longrightarrow> c \<noteq> CHR ''-'' \<Longrightarrow>
    spells optstring longopts [[CHR ''-'', c], a] (c, a)"
| short_joined: "find_short optstring c = Some required_argument \<Longrightarrow> c \<noteq> CHR ''-'' \<Longrightarrow> a \<noteq> [] \<Longrightarrow>
    spells optstring longopts [CHR ''-'' # c # a] (c, a)"
| long_flag: "find_long longopts name = Some (full, no_argument, c) \<Longrightarrow> CHR ''='' \<notin> set name \<Longrightarrow> name \<noteq> [] \<Longrightarrow>
    spells optstring longopts [''--'' @ name] (c, '''')"
| long_word: "find_long longopts name = Some (full, required_argument, c) \<Longrightarrow> CHR ''='' \<notin> set name \<Longrightarrow> name \<noteq> [] \<Longrightarrow>
    spells optstring longopts [''--'' @ name, a] (c, a)"
| long_joined: "find_long longopts name = Some (full, required_argument, c) \<Longrightarrow> CHR ''='' \<notin> set name \<Longrightarrow>
    spells optstring longopts [''--'' @ name @ CHR ''='' # a] (c, a)"

lemma takeWhile_until:
  assumes "x \<notin> set xs"
  shows "takeWhile (\<lambda>y. y \<noteq> x) xs = xs" "dropWhile (\<lambda>y. y \<noteq> x) xs = []"
    "takeWhile (\<lambda>y. y \<noteq> x) (xs @ x # ys) = xs" "dropWhile (\<lambda>y. y \<noteq> x) (xs @ x # ys) = x # ys"
  using assms by (induction xs) auto

lemma getopt_long_spelled:
  "spells optstring longopts ws e \<Longrightarrow>
    getopt_long optstring longopts (ws @ args) = e # getopt_long optstring longopts args"
  by (induction rule: spells.induct) (auto simp: long_option_event_def Let_def takeWhile_until)

lemma getopt_long_spelling:
  assumes "list_all2 (spells optstring longopts) wss es"
  shows "getopt_long optstring longopts (concat wss @ args) = es @ getopt_long optstring longopts args"
  using assms by induction (simp_all add: getopt_long_spelled)

text \<open>Other words may stand between the options.\<close>

definition plain_word :: "string \<Rightarrow> bool" where
  "plain_word w \<longleftrightarrow> w = ''-'' \<or> take 1 w \<noteq> ''-''"

lemma getopt_long_plain:
  "plain_word w \<Longrightarrow> getopt_long optstring longopts (w # args) = getopt_long optstring longopts args"
  by (cases w) (auto simp: plain_word_def)

end
