(* ===== verification/Str_Conv.thy ===== *)
theory Str_Conv
  imports Platform
begin

text \<open>
  The conversions of \<open>utils/io.c\<close> from strings to integers, over \<open>strtol\<close> and \<open>strtoull\<close> with base 0:
  white space, an optional sign, then a hexadecimal numeral behind \<open>0x\<close>, an octal one behind \<open>0\<close>, or a
  decimal one. A \<open>NULL\<close> pointer is \<open>None\<close>; so is the result when the out parameter is left alone.
\<close>

section \<open>strtol\<close>

text \<open>The base of a numeral and its digits: a \<open>0x\<close> that no digit follows is a zero.\<close>

definition numeral_base :: "string \<Rightarrow> nat \<times> string" where
  "numeral_base cs =
     (if has_0x cs \<and> drop 2 cs \<noteq> [] \<and> is_digit 16 (hd (drop 2 cs)) then (16, drop 2 cs)
      else if cs \<noteq> [] \<and> hd cs = CHR ''0'' then (8, cs)
      else (10, cs))"

text \<open>Sign, magnitude and the rest of the string; \<open>None\<close> when there is no digit, and nothing is consumed.\<close>

definition strto_num :: "string \<Rightarrow> (bool \<times> nat \<times> string) option" where
  "strto_num str =
     (let cs = dropWhile is_space str;
          neg = (cs \<noteq> [] \<and> hd cs = CHR ''-'');
          cs1 = (if cs \<noteq> [] \<and> (hd cs = CHR ''-'' \<or> hd cs = CHR ''+'') then tl cs else cs)
      in case numeral_base cs1 of (base, cs2) \<Rightarrow>
           let ds = takeWhile (is_digit base) cs2
           in if ds = [] then None else Some (neg, digits_value base ds, dropWhile (is_digit base) cs2))"

definition signed_value :: "bool \<Rightarrow> nat \<Rightarrow> int" where
  "signed_value neg n = (if neg then - int n else int n)"

text \<open>The value, the rest at \<open>*end\<close> and whether \<open>errno\<close> is set.\<close>

definition strtol :: "string \<Rightarrow> int \<times> string \<times> bool" where
  "strtol str = (case strto_num str of
       None \<Rightarrow> (0, str, False)
     | Some (neg, n, rest) \<Rightarrow>
         let v = signed_value neg n in (clamp_long v, rest, clamp_long v \<noteq> v))"

text \<open>\<open>strtoull\<close> negates in unsigned arithmetic and reports only magnitudes that do not fit.\<close>

definition strtoull :: "string \<Rightarrow> u64 \<times> string \<times> bool" where
  "strtoull str = (case strto_num str of
       None \<Rightarrow> (0, str, False)
     | Some (neg, n, rest) \<Rightarrow>
         if 2 ^ 64 \<le> n then (- 1, rest, True)
         else (if neg then - of_nat n else of_nat n, rest, False))"

section \<open>The conversions\<close>

definition string_to_int64 :: "string option \<Rightarrow> int option" where
  "string_to_int64 str = (case str of
       None \<Rightarrow> None
     | Some cs \<Rightarrow>
         if cs = [] then None
         else case strtol cs of (val, end, err) \<Rightarrow>
           if end \<noteq> [] then None else if err then None else Some val)"

definition string_to_uint64 :: "string option \<Rightarrow> u64 option" where
  "string_to_uint64 str = (case str of
       None \<Rightarrow> None
     | Some cs \<Rightarrow>
         if cs = [] then None
         else case strtoull cs of (val, end, err) \<Rightarrow>
           if end \<noteq> [] then None else if err then None else Some val)"

abbreviation (input) INT_MAX :: int where "INT_MAX \<equiv> 2147483647"
abbreviation (input) INT_MIN :: int where "INT_MIN \<equiv> - 2147483648"
abbreviation (input) UINT_MAX :: int where "UINT_MAX \<equiv> 4294967295"

definition string_to_int :: "string option \<Rightarrow> int option" where
  "string_to_int str = (case str of
       None \<Rightarrow> None
     | Some cs \<Rightarrow>
         if cs = [] then None
         else case strtol cs of (val, end, err) \<Rightarrow>
           if end \<noteq> [] then None else if err then None
           else if INT_MAX < val \<or> val < INT_MIN then None
           else Some val)"

definition string_to_uint :: "string option \<Rightarrow> u32 option" where
  "string_to_uint str = (case str of
       None \<Rightarrow> None
     | Some cs \<Rightarrow>
         if cs = [] then None
         else case strtol cs of (val, end, err) \<Rightarrow>
           if end \<noteq> [] then None else if err then None
           else if UINT_MAX < val \<or> val < 0 then None
           else Some (word_of_int val))"

section \<open>Numerals\<close>

text \<open>The usual notations of a number.\<close>

datatype notation_of = Decimal | Octal | Hexadecimal

fun numeral_text :: "notation_of \<Rightarrow> nat \<Rightarrow> string" where
  "numeral_text Decimal n = digits_of 10 n"
| "numeral_text Octal n = CHR ''0'' # digits_of 8 n"
| "numeral_text Hexadecimal n = ''0x'' @ digits_of 16 n"

lemma digits_of_head:
  assumes "2 \<le> b" "b \<le> 16" "0 < n"
  shows "hd (digits_of b n) \<noteq> CHR ''0''"
  using assms
proof (induction b n rule: digits_of.induct)
  case (1 b n)
  show ?case
  proof (cases "n < b")
    case True
    then have "digit_value (digit_char n) = Some n" using 1 by (simp add: digit_char_facts)
    then have "digit_char n \<noteq> CHR ''0''" using 1 by (auto simp: digit_value_def)
    then show ?thesis using True by (simp add: digits_of.simps)
  next
    case False
    then have "0 < n div b" using 1 by (simp add: div_greater_zero_iff)
    then have "hd (digits_of b (n div b)) \<noteq> CHR ''0''" using 1 False by simp
    then show ?thesis using False 1 by (subst digits_of.simps) simp
  qed
qed

lemma digit_facts:
  assumes "c \<in> digit_char ` {..<b}" "b \<le> 16"
  shows "\<not> is_space c" "is_digit b c" "c \<noteq> CHR ''-''" "c \<noteq> CHR ''+''" "c \<noteq> CHR ''x''" "c \<noteq> CHR ''X''"
  using assms digit_char_facts by (auto simp: is_digit_def)

lemma hd_digits_of: "2 \<le> b \<Longrightarrow> b \<le> 16 \<Longrightarrow> hd (digits_of b n) \<in> digit_char ` {..<b}"
  using digits_of_chars [of b n] hd_in_set [OF digits_of_nonempty] by blast

lemma not_0x_digits: "2 \<le> b \<Longrightarrow> b \<le> 16 \<Longrightarrow> \<not> has_0x (digits_of b n)"
proof -
  assume b: "2 \<le> b" "b \<le> 16"
  have "c \<noteq> CHR ''x'' \<and> c \<noteq> CHR ''X''" if "c \<in> set (digits_of b n)" for c
    using that digits_of_chars [OF b, of n] digit_facts [of c b] b by blast
  then show ?thesis by (auto simp: has_0x_def split: list.splits)
qed

lemma all_digits: "2 \<le> b \<Longrightarrow> b \<le> 16 \<Longrightarrow> c \<in> set (digits_of b n) \<Longrightarrow> is_digit b c"
  using digits_of_chars [of b n] digit_facts [of c b] by blast

lemma takeWhile_digits:
  assumes "2 \<le> b" "b \<le> 16"
  shows "takeWhile (is_digit b) (digits_of b n) = digits_of b n"
  using all_digits [OF assms] by (simp add: takeWhile_eq_all_conv)

lemma numeral_base_text:
  "case numeral_base (numeral_text k n) of (base, ds) \<Rightarrow>
     takeWhile (is_digit base) ds \<noteq> [] \<and> digits_value base (takeWhile (is_digit base) ds) = n \<and>
     dropWhile (is_digit base) ds = []"
proof (cases k)
  case Decimal
  show ?thesis
  proof (cases "n = 0")
    case True
    then show ?thesis unfolding Decimal
      by (simp add: numeral_base_def digits_of.simps has_0x_def digit_char_def is_digit_def digit_value_def
        digits_value_def)
  next
    case False
    then have "numeral_base (digits_of 10 n) = (10, digits_of 10 n)"
      using digits_of_head [of 10 n] not_0x_digits [of 10 n] by (simp add: numeral_base_def)
    then show ?thesis using Decimal by (simp add: all_digits takeWhile_digits digits_value_digits_of)
  qed
next
  case Octal
  have "\<not> has_0x (CHR ''0'' # digits_of 8 n)"
    using hd_digits_of [of 8 n] digit_facts [of "hd (digits_of 8 n)" 8] by (cases "digits_of 8 n") (auto simp: has_0x_def)
  then have "numeral_base (numeral_text k n) = (8, CHR ''0'' # digits_of 8 n)"
    using Octal by (simp add: numeral_base_def)
  moreover have "is_digit 8 (CHR ''0'')" by (simp add: is_digit_def digit_value_def)
  moreover have "digits_value 8 (CHR ''0'' # digits_of 8 n) = n"
    using digits_value_zeros [of 8 1] by (simp add: digits_value_digits_of)
  ultimately show ?thesis by (simp add: all_digits takeWhile_digits)
next
  case Hexadecimal
  have "is_digit 16 (hd (digits_of 16 n))" using digit_facts(2) [OF hd_digits_of [of 16 n]] by simp
  then have "numeral_base (numeral_text k n) = (16, digits_of 16 n)"
    using Hexadecimal by (simp add: numeral_base_def has_0x_def)
  then show ?thesis by (simp add: all_digits takeWhile_digits digits_value_digits_of)
qed

lemma numeral_text_head: "numeral_text k n \<noteq> [] \<and> \<not> is_space (hd (numeral_text k n)) \<and>
  hd (numeral_text k n) \<noteq> CHR ''-'' \<and> hd (numeral_text k n) \<noteq> CHR ''+''"
proof (cases k)
  case Decimal
  then show ?thesis using digit_facts [OF hd_digits_of [of 10 n]] by simp
qed (simp_all add: is_space_def)

lemma dropWhile_space:
  assumes "list_all is_space ws" and "cs = [] \<or> \<not> is_space (hd cs)"
  shows "dropWhile is_space (ws @ cs) = cs"
  using assms by (induction ws) (cases cs; simp)+

lemma strto_num_text:
  assumes "list_all is_space ws"
  shows "strto_num (ws @ numeral_text k n) = Some (False, n, [])"
    "strto_num (ws @ CHR ''-'' # numeral_text k n) = Some (True, n, [])"
proof -
  note h = numeral_text_head [of k n]
  obtain base ds where "numeral_base (numeral_text k n) = (base, ds)" by fastforce
  with numeral_base_text [where k = k and n = n] have b: "numeral_base (numeral_text k n) = (base, ds)"
    "takeWhile (is_digit base) ds \<noteq> []" "digits_value base (takeWhile (is_digit base) ds) = n"
    "dropWhile (is_digit base) ds = []" by simp_all
  have "dropWhile is_space (ws @ numeral_text k n) = numeral_text k n"
    using dropWhile_space [OF assms] h by simp
  then show "strto_num (ws @ numeral_text k n) = Some (False, n, [])"
    using h b by (simp add: strto_num_def Let_def)
  have "dropWhile is_space (ws @ CHR ''-'' # numeral_text k n) = CHR ''-'' # numeral_text k n"
    using dropWhile_space [OF assms] by (simp add: is_space_def)
  then show "strto_num (ws @ CHR ''-'' # numeral_text k n) = Some (True, n, [])"
    using b by (simp add: strto_num_def Let_def)
qed

theorem string_to_uint_numerals:
  assumes "list_all is_space ws"
  shows "string_to_uint (Some (ws @ numeral_text k n)) = (if n < 2 ^ 32 then Some (of_nat n) else None) \<and>
    string_to_uint (Some (ws @ CHR ''-'' # numeral_text k n)) = (if n = 0 then Some 0 else None)"
proof
  have ne: "ws @ numeral_text k n \<noteq> []" using numeral_text_head [of k n] by simp
  show "string_to_uint (Some (ws @ numeral_text k n)) = (if n < 2 ^ 32 then Some (of_nat n) else None)"
    using ne strto_num_text(1) [OF assms, of k n]
    by (auto simp: string_to_uint_def strtol_def signed_value_def clamp_long_def Let_def)
  show "string_to_uint (Some (ws @ CHR ''-'' # numeral_text k n)) = (if n = 0 then Some 0 else None)"
    using strto_num_text(2) [OF assms, of k n]
    by (auto simp: string_to_uint_def strtol_def signed_value_def clamp_long_def Let_def)
qed

theorem string_to_uint_numerals_witness:
  "string_to_uint (Some (''  '' @ numeral_text Hexadecimal 254)) = Some 254 \<and>
    string_to_uint (Some (''  '' @ CHR ''-'' # numeral_text Hexadecimal 254)) = None"
  using string_to_uint_numerals [of "''  ''" Hexadecimal 254] by (simp add: is_space_def)

end
