(* ===== verification/Cli_Usage.thy ===== *)
theory Cli_Usage
  imports Main
begin

text \<open>
  The help texts of \<open>fpga_local_cmd_parse.c\<close>, one list of lines for each array of the source. Adjacent
  string literals without a comma between them are one string, as in \<open>describe_clkgen_usage\<close>.
\<close>

definition opcode_str_usage :: "string list" where
  "opcode_str_usage = [
     ''  SYNOPSIS'',
     ''     fpga-local-cmd [GENERAL OPTIONS] [-h]'',
     ''  DESCRIPTION'',
     ''     This program is normally executed via the wrapper scripts.'',
     ''     See fpga-load-local-image, fpga-clear-local-image,'',
     ''     fpga-describe-local-image, fpga-describe-local-image-slots.'',
     ''     fpga-start-virtual-jtag, fpga-get-virtual-led'',
     ''     fpga-get-virtual-dip-switch, fpga-set-virtual-dip-switch'',
     ''  GENERAL OPTIONS'',
     ''     LoadFpgaImage, ClearFpgaImage, DescribeFpgaImage,'',
     ''     DescribeFpgaImageSlots, StartVirtualJtag, GetVirtualLED,'',
     ''     GetVirtualDIP, SetVirtualDIP'']"

definition describe_afi_slots_usage :: "string list" where
  "describe_afi_slots_usage = [
     ''  SYNOPSIS'',
     ''      fpga-describe-local-image-slots [GENERAL OPTIONS] [-h]'',
     ''      Example: fpga-describe-local-image-slots'',
     ''  DESCRIPTION'',
     ''      Returns the FPGA image slot numbers and device mappings to use for'',
     ''      the fpga-load-local-image, fpga-clear-local-image, and'',
     ''      fpga-describe-local-image commands.'',
     ''  GENERAL OPTIONS'',
     ''      -h, --help'',
     ''          Display this help.'',
     ''      -H, --headers'',
     ''          Display column headers.'',
     ''      -V, --version'',
     ''          Display version number of this program.'',
     ''      --request-timeout TIMEOUT'',
     ''          Specify a request timeout TIMEOUT (in seconds).'',
     ''      -M, --show-mbox'',
     ''          Show the mbox physical function in the list of devices.'']"

definition describe_afi_usage :: "string list" where
  "describe_afi_usage = [
     ''  SYNOPSIS'',
     ''      fpga-describe-local-image [GENERAL OPTIONS] [-h]'',
     ''      Example: fpga-describe-local-image -S 0'',
     ''  DESCRIPTION'',
     ''      Returns the status of the FPGA image for a specified FPGA image'',
     ''      slot number. The fpga-image-slot parameter is a logical index that'',
     ''      represents a given FPGA within an instance.'',
     ''      Use fpga-describe-local-image-slots to return the available FPGA'',
     ''      image slots for the instance.'',
     ''  GENERAL OPTIONS'',
     ''      -S, --fpga-image-slot'',
     ''          The logical slot number for the FPGA image.'',
     ''          Constraints: Positive integer from 0 to the total slots minus 1.'',
     ''      -M, --metrics'',
     ''          Return FPGA image hardware metrics.'',
     ''          Examples: FPGA PCI and DDR metrics.'',
     ''      -C, --clear-metrics'',
     ''          Return FPGA image hardware metrics (clear on read).'',
     ''          Examples: FPGA PCI and DDR metrics.'',
     ''      -L, --clear-cache'',
     ''          Return FPGA image hardware metrics (clear afi cache on read).'',
     ''          Examples: FPGA status bits and DDR metrics.'',
     ''      -R, --rescan'',
     ''          Rescan the AFIDEVICE to update the per-AFI PCI VendorId and'',
     ''          DeviceId that may be dynamically modified due to a'',
     ''          fpga-load-local-image or fpga-clear-local-image command.'',
     ''          NOTE1: this option removes the AFIDEVICE from the sysfs PCI'',
     ''          subsystem and then rescans the PCI subsystem in order for'',
     ''          the modified AFI PCI IDs to be refreshed.'',
     ''          NOTE2: it is the developer's responsibility to remove any'',
     ''          driver previously installed on the older PCIe VendorId'',
     ''          and DeviceId before fpga-clear-local-image,'',
     ''          fpga-load-local-image, or re-scan.'',
     ''      -h, --help'',
     ''          Display this help.'',
     ''      -H, --headers'',
     ''          Display column headers.'',
     ''      -V, --version'',
     ''          Display version number of this program.'',
     ''      --request-timeout TIMEOUT'',
     ''          Specify a request timeout TIMEOUT (in seconds).'']"

definition load_afi_usage :: "string list" where
  "load_afi_usage = [
     ''  SYNOPSIS'',
     ''      fpga-load-local-image [GENERAL OPTIONS] [-h]'',
     ''      Example: fpga-load-local-image -S 0 -I <fpga-image-id>'',
     ''  DESCRIPTION'',
     ''      Loads the specified FPGA image to the specified slot number, and'',
     ''      returns the status of the command.  The fpga-image-slot parameter'',
     ''      is a logical index that represents a given FPGA within an instance.'',
     ''      Use fpga-describe-local-image to return the FPGA image status, and'',
     ''      fpga-describe-local-image-slots to return the available FPGA image'',
     ''      slots for the instance.'',
     ''      NOTE: By default, this command automatically rescans the AFIDEVICE'',
     ''      to update the per-AFI PCI VendorId and DeviceId that may be'',
     ''      dynamically modified during each FPGA image load.'',
     ''      The rescan operation removes the AFIDEVICE from the sysfs PCI'',
     ''      subsystem and then rescans the PCI subsystem in order for'',
     ''      the modified AFI PCI IDs to be refreshed.'',
     ''      It is the developer's responsibility to remove any'',
     ''      driver previously installed on the older PCIe VendorId'',
     ''      and DeviceId before the FPGA image is loaded.'',
     ''  GENERAL OPTIONS'',
     ''      -S, --fpga-image-slot'',
     ''          The logical slot number for the FPGA image'',
     ''          Constraints: Positive integer from 0 to the total slots minus 1.'',
     ''      -I, --fpga-image-id'',
     ''          The ID of the FPGA image. agfi-<number>'',
     ''      -A, --async'',
     ''          The default mode of operation is synchronous FPGA image load'',
     ''          with automatic rescan.  The --async option may be specified'',
     ''          for asynchronous FPGA image load completion, which may be'',
     ''          polled for completion using fpga-describe-local-image.'',
     ''      -h, --help'',
     ''          Display this help.'',
     ''      -H, --headers'',
     ''          Display column headers.'',
     ''      -V, --version'',
     ''          Display version number of this program.'',
     ''      --request-timeout TIMEOUT'',
     ''          Specify a request timeout TIMEOUT (in seconds).'',
     ''      --sync-timeout TIMEOUT'',
     ''          Specify a timeout TIMEOUT (in seconds) for the sequence'',
     ''          of operations that are performed in the synchronous (blocking)'',
     ''          mode.'',
     ''      -F, --force-shell-reload'',
     ''          Reload the FPGA shell on AFI load, even if the next AFI'',
     ''          doesn't require it.'',
     ''          THIS OPTION IS NOT SUPPORTED ON F2 AND IS IGNORED'',
     ''      -P, --prefetch-image'',
     ''          Prefetch the indicated AFI and store it in the cache for faster loading.'',
     ''          Fastest load times can be achieved by using cached AFIs and enabling data retention (-D).'',
     ''          See Reducing AFI load times documentation.'']"

definition clear_afi_usage :: "string list" where
  "clear_afi_usage = [
     ''  SYNOPSIS'',
     ''      fpga-clear-local-image [GENERAL OPTIONS] [-h]'',
     ''      Example: fpga-clear-local-image -S 0'',
     ''  DESCRIPTION'',
     ''      Clears the specified FPGA image slot, including FPGA internal and'',
     ''      external memories that are used by the slot. The fpga-image-slot'',
     ''      parameter is a logical index that represents a given FPGA within'',
     ''      an instance.'',
     ''      Use fpga-describe-local-image to return the FPGA image status, and'',
     ''      fpga-describe-local-image-slots to return the available FPGA image'',
     ''      slots for the instance.'',
     ''      NOTE: By default, this command automatically rescans the AFIDEVICE'',
     ''      to update the default AFI PCI VendorId and DeviceId that are'',
     ''      dynamically modified during each FPGA image clear.'',
     ''      The rescan operation removes the AFIDEVICE from the sysfs PCI'',
     ''      subsystem and then rescans the PCI subsystem in order for'',
     ''      the modified AFI PCI IDs to be refreshed.'',
     ''      It is the developer's responsibility to remove any'',
     ''      driver previously installed on the older PCIe VendorId'',
     ''      and DeviceId before the FPGA image is cleared.'',
     ''  GENERAL OPTIONS'',
     ''      -S, --fpga-image-slot'',
     ''          The logical slot number for the FPGA image.'',
     ''          Constraints: Positive integer from 0 to the total slots minus 1.'',
     ''      -A, --async'',
     ''          The default mode of operation is synchronous FPGA image clear'',
     ''          with automatic rescan.  The --async option may be specified'',
     ''          for asynchronous FPGA image clear completion, which may be'',
     ''          polled for completion using fpga-describe-local-image.'',
     ''      -h, --help'',
     ''          Display this help.'',
     ''      -H, --headers'',
     ''          Display column headers.'',
     ''      -V, --version'',
     ''          Display version number of this program.'',
     ''      --request-timeout TIMEOUT'',
     ''          Specify a request timeout TIMEOUT (in seconds).'',
     ''      --sync-timeout TIMEOUT'',
     ''          Specify a timeout TIMEOUT (in seconds) for the sequence'',
     ''          of operations that are performed in the synchronous (blocking)'',
     ''          mode'']"

definition start_virtual_jtag_usage :: "string list" where
  "start_virtual_jtag_usage = [
     ''  SYNOPSIS'',
     ''      fpga-start-virtual-jtag [GENERAL OPTIONS] [-h]'',
     ''      Example: fpga-start-virtual-jtag -S 0 [-P <tcp-port>]'',
     ''  DESCRIPTION'',
     ''      Start Virtual JTAG spplication server, running Xilinx's Virtual'',
     ''      Cable (XVC) service,  which listens incoming command over TCP'',
     ''      port that is set by -P option (Default TCP port is 10201).'',
     ''      The fpga-image-slot parameter is a logical index that represents'',
     ''      a given FPGA within an instance.'',
     ''      This command will work only if AFI is in READY state:'',
     ''      Use fpga-describe-local-image to return the FPGA image status, and'',
     ''      fpga-describe-local-image-slots to return the AFI state.'',
     ''      The AFI should have included Xilinx's VIO/LIA debug cores'',
     ''      and AWS CL Debug Bridge inside the CustomLogic (CL)'',
     ''      Concurrent debug of multiple FPGA slots is possible as long as'',
     ''      different <tcp-port> values are used for each slot.'',
     ''      Linux firewall and/or EC2 Network Security Group rules may'',
     ''      need to change for enabling inbound access to the TCP port.'',
     ''  GENERAL OPTIONS'',
     ''      -S, --fpga-image-slot'',
     ''          The logical slot number for the FPGA image'',
     ''          Constraints: Positive integer from 0 to the total slots minus 1.'',
     ''      -P, --tcp-port'',
     ''          The TCP port number to use for virtual jtag server, default'',
     ''          TCP port is 10201.  Remember to use different TCP port for'',
     ''          different slot if debugging multiple slots concurrently'',
     ''      -h, --help'',
     ''          Display this help.'',
     ''      -H, --headers'',
     ''          Display column headers.'',
     ''      -V, --version'',
     ''          Display version number of this program.'']"

definition get_virtual_led_usage :: "string list" where
  "get_virtual_led_usage = [
     ''  SYNOPSIS'',
     ''      fpga-get-virtual-led [GENERAL OPTIONS] [-h]'',
     ''      Example: fpga-get-virtual-led -S 0'',
     ''  DESCRIPTION'',
     ''      Returns the current status of the virtual LED exposed by the AFI, a'',
     ''      series of 0 (zeros) and 1 (ones), first digit from the righti maps'',
     ''      to cl_sh_vled[0]. For example, a return value 0000000001000000'',
     ''      indicates that cl_sh_vled[6] is set(on)'',
     ''  GENERAL OPTIONS'',
     ''      -S, --fpga-image-slot'',
     ''          The logical slot number for the FPGA image'',
     ''          Constraints: Positive integer from 0 to the total slots minus 1.'',
     ''      -h, --help'',
     ''          Display this help.'',
     ''      -H, --headers'',
     ''          Display column headers.'',
     ''      -V, --version'',
     ''          Display version number of this program.'']"

definition get_virtual_dip_usage :: "string list" where
  "get_virtual_dip_usage = [
     ''  SYNOPSIS'',
     ''      fpga-get-virtual-dip-switch [GENERAL OPTIONS] [-h]'',
     ''      Example: fpga-get-virtual-dip-switch -S 0'',
     ''  DESCRIPTION'',
     ''      Returns the current status of the virtual DIP Switches by'',
     ''      driven to the AFI. A series of 0 (Zeros) and 1 (ones)'',
     ''      First digit from the right maps to sh_cl_vdip[0]'',
     ''      For example, a return value 0000000001000000'',
     ''      indicates that sh_cl_vdip[6] is set(on)'',
     ''  GENERAL OPTIONS'',
     ''      -S, --fpga-image-slot'',
     ''          The logical slot number for the FPGA image'',
     ''          Constraints: Positive integer from 0 to the total slots minus 1.'',
     ''      -h, --help'',
     ''          Display this help.'',
     ''      -H, --headers'',
     ''          Display column headers.'',
     ''      -V, --version'',
     ''          Display version number of this program.'']"

definition set_virtual_dip_usage :: "string list" where
  "set_virtual_dip_usage = [
     ''  SYNOPSIS'',
     ''      fpga-set-virtual-dip-switch [GENERAL OPTIONS] [-h]'',
     ''      Example: fpga-set-virtual-dip-switch -S 0 -D 0101000011000000'',
     ''  DESCRIPTION'',
     ''      Drive the AFI in a given slot with the specified virtual DIP Switches'',
     ''      A 16 digit value is require: a series of 0 (zeros) and 1 (ones)'',
     ''      First digit from the right maps to sh_cl_vdip[0]'',
     ''      For example, a value 0101000011000000'',
     ''      indicates that sh_cl_vdip[6], [7], [12], and [14] is set/on'',
     ''  GENERAL OPTIONS'',
     ''      -S, --fpga-image-slot'',
     ''          The logical slot number for the FPGA image'',
     ''          Constraints: Positive integer from 0 to the total slots minus 1.'',
     ''      -D, --virtual-dip'',
     ''          A 16 digit bitmap representation of the desired setting for Virtual DIP Switches'',
     ''          This argument is mandatory and must be 16 digits made of any combinations of'',
     ''          zeros or ones.'',
     ''      -h, --help'',
     ''          Display this help.'',
     ''      -H, --headers'',
     ''          Display column headers.'',
     ''      -V, --version'',
     ''          Display version number of this program.'']"

definition describe_clkgen_usage :: "string list" where
  "describe_clkgen_usage = [
     ''  SYNOPSIS'',
     ''      fpga-describe-clkgen'',
     ''      Example: fpga-describe-clkgen -S 0'',
     ''  DESCRIPTION'',
     ''      Returns the currently loaded frequencies for each clock in each MMCM  GENERAL OPTIONS'',
     ''      -S, --fpga-image-slot'',
     ''          The logical slot number for the FPGA image'',
     ''          Constraints: Positive integer from 0 to the total slots minus 1.'',
     ''      -h, --help'',
     ''          Display this help.'',
     ''      -V, --version'',
     ''          Display version number of this program.'']"

definition load_clkgen_recipe_usage :: "string list" where
  "load_clkgen_recipe_usage = [
     ''  SYNOPSIS'',
     ''      fpga-load-clkgen-recipe'',
     ''      Example: fpga-load-clkgen-recipe -S 0 -a 0 -b 1 -c 2 -m 3'',
     ''      Loads recipe A0 to MMCM_A, B1 to MMCM_B, C1 to MMCM_C and H3 to MMCM_HBM'',
     ''  DESCRIPTION'',
     ''      Loads a clock recipe into the specified MMCMs.'',
     ''      MMCMs that are not specified will be set to the default recipes.'',
     ''      Frequencies are listed in MHz. * - default recipe'',
     ''      A Recipe Number      clk_extra_a1    clk_extra_a2    clk_extra_a3'',
     ''      A0                   62.5            187.5           250'',
     ''      A1 *                 125             375             500'',
     ''      A2                   62.5            187.5           250'',
     ''      B Recipe Number      clk_extra_b0    clk_extra_b1'',
     ''      B0                   250             125'',
     ''      B1                   125             62.5'',
     ''      B2 *                 450             225'',
     ''      B3                   250             62.5'',
     ''      B4                   300             75'',
     ''      B5                   400             100'',
     ''      C Recipe Number      clk_extra_c0    clk_extra_c1'',
     ''      C0 *                 300             400'',
     ''      C1                   150             200'',
     ''      C2                   75              100'',
     ''      C3                   200             266.67'',
     ''      HBM Recipe Number    clk_hbm_axi'',
     ''      H0                   250'',
     ''      H1                   125'',
     ''      H2 *                 450'',
     ''      H3                   300'',
     ''      H4                   400'',
     ''      Returns the currently loaded clkgen clock configuration in MHz'',
     ''  GENERAL OPTIONS'',
     ''      -S, --fpga-image-slot'',
     ''          The logical slot number for the FPGA image'',
     ''          Constraints: Positive integer from 0 to the total slots minus 1.'',
     ''      -h, --help'',
     ''          Display this help.'',
     ''      -V, --version'',
     ''          Display version number of this program.'',
     ''      -a, --clock-a-recipe'',
     ''          Request the clock group A set with the specified recipe'',
     ''      -b, --clock-b-recipe'',
     ''          Request the clock group B set with the specified recipe'',
     ''      -c, --clock-c-recipe'',
     ''          Request the clock group C set with the specified recipe'',
     ''      -m, --clock-hbm-recipe'',
     ''          Request the clock group HBM set with the specified recipe'']"

definition load_clkgen_dynamic_usage :: "string list" where
  "load_clkgen_dynamic_usage = [
     ''  SYNOPSIS'',
     ''      fpga-load-clkgen-dynamic'',
     ''      Example: fpga-load-clkgen-dynamic -S 0 -a 125 -b '',
     ''  DESCRIPTION'',
     ''      Loads a frequency into the first clock of each specified MMCMs.'',
     ''      MMCMs not specified will be set to the default frequency.'',
     ''      clk_extra_a1 - Max Frequency 125 MHz, Default 125 MHz'',
     ''      clk_extra_b0 - Max Frequency 450 MHz, Default 450 MHz'',
     ''      clk_extra_c0 - Max Frequency 300 MHz, Default 300 MHz'',
     ''      clk_hbm_axi - Max Frequency 450 MHz, Default 450 MHz'',
     ''      Returns the currently loaded clkgen clock configuration'',
     ''  GENERAL OPTIONS'',
     ''      -S, --fpga-image-slot'',
     ''          The logical slot number for the FPGA image'',
     ''          Constraints: Positive integer from 0 to the total slots minus 1.'',
     ''      -h, --help'',
     ''          Display this help.'',
     ''      -V, --version'',
     ''          Display version number of this program.'',
     ''      -a, --clock-a1-freq'',
     ''          Request clk_extra_a1 frequency be set to this value in Mhz or less'',
     ''      -b, --clock-b0-freq'',
     ''          Request clk_extra_b0 frequency be set to this value in Mhz or less'',
     ''      -c, --clock-c0-freq'',
     ''          Request clk_extra_c0 frequency be set to this value in Mhz or less'',
     ''      -m, --clock-hbm-freq'',
     ''          Request clk_hbm_axi frequency be set to this value in Mhz or less'']"

end
