(* ===== verification/Cli_Parse.thy ===== *)
theory Cli_Parse
  imports Fpga_Common Getopt Str_Conv Cli_Usage
begin

text \<open>
  The command line of the \<open>fpga-*\<close> tools: \<open>fpga_local_cmd.h\<close> and \<open>fpga_local_cmd_parse.c\<close>. A parser
  works on the global \<open>fpga\<close> and the standard output. A jump to the label \<open>err\<close> of a parser, where its
  help is printed, and one to \<open>out_ver\<close>, behind that, are failures with a code of their own; both end
  with \<open>-EINVAL\<close>. What goes to the log is left out.
\<close>

section \<open>The command\<close>

abbreviation (input) CLI_CMD_LOAD :: u32 where "CLI_CMD_LOAD \<equiv> 0"
abbreviation (input) CLI_CMD_CLEAR :: u32 where "CLI_CMD_CLEAR \<equiv> 1"
abbreviation (input) CLI_CMD_DESCRIBE :: u32 where "CLI_CMD_DESCRIBE \<equiv> 2"
abbreviation (input) CLI_CMD_DESCRIBE_SLOTS :: u32 where "CLI_CMD_DESCRIBE_SLOTS \<equiv> 3"
abbreviation (input) CLI_CMD_START_VJTAG :: u32 where "CLI_CMD_START_VJTAG \<equiv> 4"
abbreviation (input) CLI_CMD_GET_LED :: u32 where "CLI_CMD_GET_LED \<equiv> 5"
abbreviation (input) CLI_CMD_GET_DIP :: u32 where "CLI_CMD_GET_DIP \<equiv> 6"
abbreviation (input) CLI_CMD_SET_DIP :: u32 where "CLI_CMD_SET_DIP \<equiv> 7"
abbreviation (input) CLI_CMD_DESCRIBE_CLKGEN :: u32 where "CLI_CMD_DESCRIBE_CLKGEN \<equiv> 8"
abbreviation (input) CLI_CMD_LOAD_CLKGEN_RECIPE :: u32 where "CLI_CMD_LOAD_CLKGEN_RECIPE \<equiv> 9"
abbreviation (input) CLI_CMD_LOAD_CLKGEN_DYNAMIC :: u32 where "CLI_CMD_LOAD_CLKGEN_DYNAMIC \<equiv> 10"
abbreviation (input) CLI_CMD_END :: u32 where "CLI_CMD_END \<equiv> 11"

abbreviation (input) CLI_SYNC_TIMEOUT_DFLT :: u32 where "CLI_SYNC_TIMEOUT_DFLT \<equiv> 30000"
abbreviation (input) CLI_SYNC_DELAY_MSEC_DFLT :: u32 where "CLI_SYNC_DELAY_MSEC_DFLT \<equiv> 2"
abbreviation (input) CLI_REQUEST_TIMEOUT_DFLT :: u32 where "CLI_REQUEST_TIMEOUT_DFLT \<equiv> 500"
abbreviation (input) CLI_REQUEST_DELAY_MSEC_DFLT :: u32 where "CLI_REQUEST_DELAY_MSEC_DFLT \<equiv> 60"
abbreviation (input) MSEC_PER_SEC :: u64 where "MSEC_PER_SEC \<equiv> 1000"

record ec2_fpga_cmd =
  opcode :: u32
  afi_slot :: u32
  clock_a_recipe :: u32
  clock_b_recipe :: u32
  clock_c_recipe :: u32
  clock_hbm_recipe :: u32
  clock_a_freq :: u32
  clock_b_freq :: u32
  clock_c_freq :: u32
  clock_hbm_freq :: u32
  cmd_afi_id :: "u8 list"
  cmd_sync_timeout :: u32
  cmd_sync_delay_msec :: u32
  request_timeout :: u32
  request_delay_msec :: u32
  parser_completed :: bool
  cmd_async :: bool
  show_headers :: bool
  get_hw_metrics :: bool
  clear_hw_metrics :: bool
  clear_afi_cache :: bool
  cmd_rescan :: bool
  show_mbox_device :: bool
  force_shell_reload :: bool
  cmd_prefetch :: bool
  cmd_reset :: bool
  v_dip_switch :: u16
  tcp_port :: "string option"

record cli_io =
  fpga :: ec2_fpga_cmd
  stdout :: string

text \<open>\<open>printf\<close>, and an assignment to fields of \<open>fpga\<close>.\<close>

definition printf :: "string \<Rightarrow> ('z cli_io_scheme, unit) prog" where
  "printf txt = modify (\<lambda>s. s\<lparr>stdout := stdout s @ txt\<rparr>)"

definition set_fpga :: "(ec2_fpga_cmd \<Rightarrow> ec2_fpga_cmd) \<Rightarrow> ('z cli_io_scheme, unit) prog" where
  "set_fpga f = modify (\<lambda>s. s\<lparr>fpga := f (fpga s)\<rparr>)"

abbreviation newline :: string where "newline \<equiv> [CHR 0x0A]"

text \<open>\<open>%u\<close>.\<close>

definition fmt_u :: "'a :: len word \<Rightarrow> string" where
  "fmt_u w = digits_of 10 (unat w)"

abbreviation (input) goto_err :: int where "goto_err \<equiv> 1"
abbreviation (input) goto_out_ver :: int where "goto_out_ver \<equiv> 2"

definition fail_on_user :: "bool \<Rightarrow> string \<Rightarrow> ('z cli_io_scheme, unit) prog" where
  "fail_on_user c msg = (if c then bindE (printf (msg @ newline)) (\<lambda>_. fail goto_err) else ok ())"

definition print_usage :: "string list \<Rightarrow> ('z cli_io_scheme, unit) prog" where
  "print_usage usage = printf (concat (map (\<lambda>l. l @ newline) usage))"

definition CLI_VERSION :: string where
  "CLI_VERSION = ''unknown''"

definition print_version :: "('z cli_io_scheme, unit) prog" where
  "print_version = printf (''AFI Management Tools Version: '' @ CLI_VERSION @ newline)"

definition get_parser_completed :: "char \<Rightarrow> ('z cli_io_scheme, unit) prog" where
  "get_parser_completed opt =
     (if opt = CHR ''h'' \<or> opt = CHR ''V'' then set_fpga (\<lambda>c. c\<lparr>parser_completed := True\<rparr>) else ok ())"

section \<open>Timeouts\<close>

text \<open>The shared body of the two functions; the arithmetic is that of \<open>size_t\<close>.\<close>

definition timeout_count :: "u32 \<Rightarrow> u32 \<Rightarrow> u32 \<Rightarrow> ('z cli_io_scheme, u32) prog" where
  "timeout_count dflt delay timeout =
     (let timeout_tmp = ucast dflt * ucast delay div MSEC_PER_SEC :: u64;
          timeout_max = 0xFFFFFFFF * ucast delay div MSEC_PER_SEC :: u64
      in bindE (fail_on_user (ucast timeout < timeout_tmp \<or> timeout_max < ucast timeout)
           (''Error: The timeout must be between '' @ fmt_u timeout_tmp @ '' and '' @ fmt_u timeout_max @
            '' seconds'')) (\<lambda>_.
         let timeout_tmp = ucast timeout * MSEC_PER_SEC div ucast delay :: u64
         in ok (ucast (if 0xFFFFFFFF < timeout_tmp then 0xFFFFFFFF else timeout_tmp))))"

definition config_request_timeout :: "u32 \<Rightarrow> ('z cli_io_scheme, unit) prog" where
  "config_request_timeout timeout =
     bindE (or_code (timeout_count CLI_REQUEST_TIMEOUT_DFLT CLI_REQUEST_DELAY_MSEC_DFLT timeout) (- EINVAL)) (\<lambda>count.
     set_fpga (\<lambda>c. c\<lparr>request_timeout := count, request_delay_msec := CLI_REQUEST_DELAY_MSEC_DFLT\<rparr>))"

definition config_sync_timeout :: "u32 \<Rightarrow> ('z cli_io_scheme, unit) prog" where
  "config_sync_timeout timeout =
     bindE (or_code (timeout_count CLI_SYNC_TIMEOUT_DFLT CLI_SYNC_DELAY_MSEC_DFLT timeout) (- EINVAL)) (\<lambda>count.
     set_fpga (\<lambda>c. c\<lparr>cmd_sync_timeout := count, cmd_sync_delay_msec := CLI_SYNC_DELAY_MSEC_DFLT\<rparr>))"

section \<open>Cases that several parsers share\<close>

text \<open>\<open>string_to_uint(&x, optarg)\<close> whose result is not looked at: \<open>x\<close> keeps its value on a failure.\<close>

definition uint_or :: "u32 \<Rightarrow> string \<Rightarrow> u32" where
  "uint_or x optarg = (case string_to_uint (Some optarg) of None \<Rightarrow> x | Some v \<Rightarrow> v)"

definition case_S :: "string \<Rightarrow> ('z cli_io_scheme, unit) prog" where
  "case_S optarg =
     bindE (set_fpga (\<lambda>c. c\<lparr>afi_slot := uint_or (afi_slot c) optarg\<rparr>)) (\<lambda>_.
     bindE (gets (\<lambda>s. afi_slot (fpga s))) (\<lambda>slot.
     fail_on_user (of_nat FPGA_SLOT_MAX \<le> slot) ''fpga-image-slot must be less than 8''))"

text \<open>\<open>value32\<close> has an indeterminate value \<open>u\<close> when the argument is no number.\<close>

definition case_r :: "u32 \<Rightarrow> string \<Rightarrow> ('z cli_io_scheme, unit) prog" where
  "case_r u optarg = or_code (config_request_timeout (uint_or u optarg)) goto_err"

definition case_s :: "u32 \<Rightarrow> string \<Rightarrow> ('z cli_io_scheme, unit) prog" where
  "case_s u optarg = or_code (config_sync_timeout (uint_or u optarg)) goto_err"

definition case_V :: "char \<Rightarrow> ('z cli_io_scheme, unit) prog" where
  "case_V opt = bindE print_version (\<lambda>_. bindE (get_parser_completed opt) (\<lambda>_. fail goto_out_ver))"

definition case_default :: "char \<Rightarrow> ('z cli_io_scheme, unit) prog" where
  "case_default opt = bindE (get_parser_completed opt) (\<lambda>_. fail goto_err)"

text \<open>The loop over the options with the local variables of the function, and the end of every parser.\<close>

fun foldE :: "('b \<Rightarrow> 'l \<Rightarrow> ('s, 'l) prog) \<Rightarrow> 'b list \<Rightarrow> 'l \<Rightarrow> ('s, 'l) prog" where
  "foldE f [] l = ok l"
| "foldE f (x # xs) l = bindE (f x l) (foldE f xs)"

definition finish_parse :: "string list \<Rightarrow> ('z cli_io_scheme, unit) prog \<Rightarrow> ('z cli_io_scheme, unit) prog" where
  "finish_parse usage m =
     bindE (attempt m) (\<lambda>r.
     case r of
       Inr _ \<Rightarrow> ok ()
     | Inl l \<Rightarrow>
         if l = goto_out_ver then fail (- EINVAL)
         else bindE (print_usage usage) (\<lambda>_. fail (- EINVAL)))"

text \<open>The slot is still the initial \<open>-1\<close>.\<close>

definition require_slot :: "string \<Rightarrow> ('z cli_io_scheme, unit) prog" where
  "require_slot msg =
     bindE (gets (\<lambda>s. afi_slot (fpga s))) (\<lambda>slot.
     if slot = - 1 then bindE (printf msg) (\<lambda>_. fail goto_err) else ok ())"

section \<open>The parsers\<close>

definition case_I :: "string \<Rightarrow> ('z cli_io_scheme, unit) prog" where
  "case_I optarg =
     bindE (fail_on_user (AFI_ID_STR_MAX \<le> length optarg) ''fpga-image-id must be less than 64 bytes'') (\<lambda>_.
     set_fpga (\<lambda>c. c\<lparr>cmd_afi_id := (strncpy AFI_ID_STR_MAX (bytes_of_string optarg))[AFI_ID_STR_MAX - 1 := 0]\<rparr>))"

definition load_afi_options :: "long_option list" where
  "load_afi_options = [
     (''fpga-image-slot'', required_argument, CHR ''S''),
     (''fpga-image-id'', required_argument, CHR ''I''),
     (''request-timeout'', required_argument, CHR ''r''),
     (''sync-timeout'', required_argument, CHR ''s''),
     (''async'', no_argument, CHR ''A''),
     (''headers'', no_argument, CHR ''H''),
     (''help'', no_argument, CHR ''h''),
     (''version'', no_argument, CHR ''V''),
     (''force-shell-reload'', no_argument, CHR ''F''),
     (''prefetch-image'', no_argument, CHR ''P'')]"

definition parse_args_load_afi :: "u32 \<Rightarrow> string list \<Rightarrow> ('z cli_io_scheme, unit) prog" where
  "parse_args_load_afi u args = finish_parse load_afi_usage
     (bindE (foldE (\<lambda>(opt, optarg) _.
        if opt = CHR ''S'' then case_S optarg
        else if opt = CHR ''I'' then case_I optarg
        else if opt = CHR ''r'' then case_r u optarg
        else if opt = CHR ''s'' then case_s u optarg
        else if opt = CHR ''A'' then set_fpga (\<lambda>c. c\<lparr>cmd_async := True\<rparr>)
        else if opt = CHR ''H'' then set_fpga (\<lambda>c. c\<lparr>show_headers := True\<rparr>)
        else if opt = CHR ''F'' then set_fpga (\<lambda>c. c\<lparr>force_shell_reload := True\<rparr>)
        else if opt = CHR ''V'' then case_V opt
        else if opt = CHR ''P'' then set_fpga (\<lambda>c. c\<lparr>cmd_prefetch := True, cmd_async := True\<rparr>)
        else case_default opt)
        (getopt_long ''S:I:r:s:AH?hVFDP'' load_afi_options args) ()) (\<lambda>_.
      bindE (gets fpga) (\<lambda>c. if afi_slot c = - 1 \<or> hd (cmd_afi_id c) = 0 then fail goto_err else ok ())))"

definition clear_afi_options :: "long_option list" where
  "clear_afi_options = [
     (''fpga-image-slot'', required_argument, CHR ''S''),
     (''request-timeout'', required_argument, CHR ''r''),
     (''sync-timeout'', required_argument, CHR ''s''),
     (''async'', no_argument, CHR ''A''),
     (''headers'', no_argument, CHR ''H''),
     (''help'', no_argument, CHR ''h''),
     (''version'', no_argument, CHR ''V'')]"

definition parse_args_clear_afi :: "u32 \<Rightarrow> string list \<Rightarrow> ('z cli_io_scheme, unit) prog" where
  "parse_args_clear_afi u args = finish_parse clear_afi_usage
     (bindE (foldE (\<lambda>(opt, optarg) _.
        if opt = CHR ''S'' then case_S optarg
        else if opt = CHR ''r'' then case_r u optarg
        else if opt = CHR ''s'' then case_s u optarg
        else if opt = CHR ''A'' then set_fpga (\<lambda>c. c\<lparr>cmd_async := True\<rparr>)
        else if opt = CHR ''H'' then set_fpga (\<lambda>c. c\<lparr>show_headers := True\<rparr>)
        else if opt = CHR ''V'' then case_V opt
        else case_default opt)
        (getopt_long ''S:r:s:AH?hV'' clear_afi_options args) ()) (\<lambda>_.
      require_slot ''''))"

definition describe_afi_options :: "long_option list" where
  "describe_afi_options = [
     (''fpga-image-slot'', required_argument, CHR ''S''),
     (''metrics'', no_argument, CHR ''M''),
     (''clear-metrics'', no_argument, CHR ''C''),
     (''clear-cache'', no_argument, CHR ''L''),
     (''request-timeout'', required_argument, CHR ''r''),
     (''rescan'', no_argument, CHR ''R''),
     (''headers'', no_argument, CHR ''H''),
     (''help'', no_argument, CHR ''h''),
     (''version'', no_argument, CHR ''V'')]"

definition parse_args_describe_afi :: "u32 \<Rightarrow> string list \<Rightarrow> ('z cli_io_scheme, unit) prog" where
  "parse_args_describe_afi u args = finish_parse describe_afi_usage
     (bindE (foldE (\<lambda>(opt, optarg) _.
        if opt = CHR ''S'' then case_S optarg
        else if opt = CHR ''M'' then set_fpga (\<lambda>c. c\<lparr>get_hw_metrics := True\<rparr>)
        else if opt = CHR ''C'' then set_fpga (\<lambda>c. c\<lparr>get_hw_metrics := True, clear_hw_metrics := True\<rparr>)
        else if opt = CHR ''L'' then set_fpga (\<lambda>c. c\<lparr>get_hw_metrics := True, clear_afi_cache := True\<rparr>)
        else if opt = CHR ''r'' then case_r u optarg
        else if opt = CHR ''R'' then set_fpga (\<lambda>c. c\<lparr>cmd_rescan := True\<rparr>)
        else if opt = CHR ''H'' then set_fpga (\<lambda>c. c\<lparr>show_headers := True\<rparr>)
        else if opt = CHR ''V'' then case_V opt
        else case_default opt)
        (getopt_long ''S:MCLr:RH?hV'' describe_afi_options args) ()) (\<lambda>_.
      require_slot ''''))"

definition describe_afi_slots_options :: "long_option list" where
  "describe_afi_slots_options = [
     (''request-timeout'', required_argument, CHR ''r''),
     (''headers'', no_argument, CHR ''H''),
     (''help'', no_argument, CHR ''h''),
     (''version'', no_argument, CHR ''V''),
     (''show-mbox'', no_argument, CHR ''M'')]"

definition parse_args_describe_afi_slots :: "u32 \<Rightarrow> string list \<Rightarrow> ('z cli_io_scheme, unit) prog" where
  "parse_args_describe_afi_slots u args = finish_parse describe_afi_slots_usage
     (bindE (foldE (\<lambda>(opt, optarg) _.
        if opt = CHR ''r'' then case_r u optarg
        else if opt = CHR ''H'' then set_fpga (\<lambda>c. c\<lparr>show_headers := True\<rparr>)
        else if opt = CHR ''V'' then case_V opt
        else if opt = CHR ''M'' then set_fpga (\<lambda>c. c\<lparr>show_mbox_device := True\<rparr>)
        else case_default opt)
        (getopt_long ''r:H?hVM'' describe_afi_slots_options args) ()) (\<lambda>_.
      ok ()))"

text \<open>\<open>temp_int\<close> keeps its value from one \<open>-P\<close> to the next.\<close>

definition default_tcp_port :: string where
  "default_tcp_port = ''10201''"

definition case_tcp_port :: "string \<Rightarrow> u32 \<Rightarrow> ('z cli_io_scheme, u32) prog" where
  "case_tcp_port optarg temp_int =
     (let temp_int = uint_or temp_int optarg in
      bindE (fail_on_user (64 * 1024 - 1 \<le> temp_int) ''tcp-port must be less than 65535'') (\<lambda>_.
      bindE (fail_on_user (temp_int \<le> 1024) ''tcp-port must be larger than 1024'') (\<lambda>_.
      bindE (set_fpga (\<lambda>c. c\<lparr>tcp_port := Some optarg\<rparr>)) (\<lambda>_. ok temp_int))))"

text \<open>A case that leaves the local variables alone.\<close>

definition keeping :: "'l \<Rightarrow> ('s, unit) prog \<Rightarrow> ('s, 'l) prog" where
  "keeping l m = bindE m (\<lambda>_. ok l)"

definition start_virtual_jtag_options :: "long_option list" where
  "start_virtual_jtag_options = [
     (''fpga-image-slot'', required_argument, CHR ''S''),
     (''tcp-port'', required_argument, CHR ''P''),
     (''headers'', no_argument, CHR ''H''),
     (''help'', no_argument, CHR ''h''),
     (''version'', no_argument, CHR ''V'')]"

definition parse_args_start_virtual_jtag :: "u32 \<Rightarrow> string list \<Rightarrow> ('z cli_io_scheme, unit) prog" where
  "parse_args_start_virtual_jtag u args = finish_parse start_virtual_jtag_usage
     (bindE (set_fpga (\<lambda>c. c\<lparr>tcp_port := Some default_tcp_port\<rparr>)) (\<lambda>_.
      bindE (foldE (\<lambda>(opt, optarg) temp_int.
        if opt = CHR ''S'' then keeping temp_int (case_S optarg)
        else if opt = CHR ''P'' then case_tcp_port optarg temp_int
        else if opt = CHR ''H'' then keeping temp_int (set_fpga (\<lambda>c. c\<lparr>show_headers := True\<rparr>))
        else if opt = CHR ''V'' then keeping temp_int (case_V opt)
        else keeping temp_int (case_default opt))
        (getopt_long ''S:P:RH?hV'' start_virtual_jtag_options args) 0) (\<lambda>_.
      require_slot ''Error: Invalid Slot Id !'')))"

definition get_virtual_led_options :: "long_option list" where
  "get_virtual_led_options = [
     (''fpga-image-slot'', required_argument, CHR ''S''),
     (''headers'', no_argument, CHR ''H''),
     (''help'', no_argument, CHR ''h''),
     (''version'', no_argument, CHR ''V'')]"

definition parse_args_get_virtual_led :: "u32 \<Rightarrow> string list \<Rightarrow> ('z cli_io_scheme, unit) prog" where
  "parse_args_get_virtual_led u args = finish_parse get_virtual_led_usage
     (bindE (foldE (\<lambda>(opt, optarg) _.
        if opt = CHR ''S'' then case_S optarg
        else if opt = CHR ''H'' then set_fpga (\<lambda>c. c\<lparr>show_headers := True\<rparr>)
        else if opt = CHR ''V'' then case_V opt
        else case_default opt)
        (getopt_long ''S:RH?hV'' get_virtual_led_options args) ()) (\<lambda>_.
      require_slot ''Error: Invalid Slot Id !''))"

definition get_virtual_dip_options :: "long_option list" where
  "get_virtual_dip_options = [
     (''fpga-image-slot'', required_argument, CHR ''S''),
     (''headers'', no_argument, CHR ''H''),
     (''help'', no_argument, CHR ''h''),
     (''version'', no_argument, CHR ''V'')]"

definition parse_args_get_virtual_dip :: "u32 \<Rightarrow> string list \<Rightarrow> ('z cli_io_scheme, unit) prog" where
  "parse_args_get_virtual_dip u args = finish_parse get_virtual_dip_usage
     (bindE (foldE (\<lambda>(opt, optarg) _.
        if opt = CHR ''S'' then case_S optarg
        else if opt = CHR ''H'' then set_fpga (\<lambda>c. c\<lparr>show_headers := True\<rparr>)
        else if opt = CHR ''V'' then case_V opt
        else case_default opt)
        (getopt_long ''S:RH?hV'' get_virtual_dip_options args) ()) (\<lambda>_.
      require_slot ''Error: Invalid Slot Id !''))"

text \<open>
  The digits of \<open>-D\<close> are shifted into \<open>status\<close>, which is set to zero once, before the loop over the
  options; the other local variable is \<open>vdip_arg_found\<close>.
\<close>

fun vdip_loop :: "nat \<Rightarrow> string \<Rightarrow> u16 \<Rightarrow> ('z cli_io_scheme, u16) prog" where
  "vdip_loop i [] status = ok status"
| "vdip_loop i (d # ds) status =
     bindE (if d = CHR ''1'' then ok (status OR 1)
       else if d = CHR ''0'' then ok status
       else bindE (fail_on_user True (''illegal digit for virtual-dip '' @ [d])) (\<lambda>_. ok status)) (\<lambda>status.
     vdip_loop (i + 1) ds (if i \<noteq> 15 then push_bit 1 status else status))"

definition case_vdip :: "string \<Rightarrow> u16 \<Rightarrow> ('z cli_io_scheme, u16 \<times> bool) prog" where
  "case_vdip optarg status =
     bindE (fail_on_user (length optarg \<noteq> 16) ''virtual-dip must be 16 digits of zero or one'') (\<lambda>_.
     bindE (vdip_loop 0 optarg status) (\<lambda>status.
     bindE (set_fpga (\<lambda>c. c\<lparr>v_dip_switch := status\<rparr>)) (\<lambda>_. ok (status, True))))"

definition set_virtual_dip_options :: "long_option list" where
  "set_virtual_dip_options = [
     (''fpga-image-slot'', required_argument, CHR ''S''),
     (''virtual-dip'', required_argument, CHR ''D''),
     (''headers'', no_argument, CHR ''H''),
     (''help'', no_argument, CHR ''h''),
     (''version'', no_argument, CHR ''V'')]"

definition parse_args_set_virtual_dip :: "u32 \<Rightarrow> string list \<Rightarrow> ('z cli_io_scheme, unit) prog" where
  "parse_args_set_virtual_dip u args = finish_parse set_virtual_dip_usage
     (bindE (foldE (\<lambda>(opt, optarg) (status, vdip_arg_found).
        if opt = CHR ''S'' then keeping (status, vdip_arg_found) (case_S optarg)
        else if opt = CHR ''D'' then case_vdip optarg status
        else if opt = CHR ''H'' then keeping (status, vdip_arg_found) (set_fpga (\<lambda>c. c\<lparr>show_headers := True\<rparr>))
        else if opt = CHR ''V'' then keeping (status, vdip_arg_found) (case_V opt)
        else keeping (status, vdip_arg_found) (case_default opt))
        (getopt_long ''S:D:RH?hV'' set_virtual_dip_options args) (0, False)) (\<lambda>(status, vdip_arg_found).
      bindE (require_slot ''Error: Invalid Slot Id !'') (\<lambda>_.
      if \<not> vdip_arg_found then bindE (printf ''Error: Missing DIP Switch values !'') (\<lambda>_. fail goto_err) else ok ())))"

definition describe_clkgen_options :: "long_option list" where
  "describe_clkgen_options = [
     (''fpga-image-slot'', required_argument, CHR ''S''),
     (''help'', no_argument, CHR ''h''),
     (''version'', no_argument, CHR ''V'')]"

definition parse_args_describe_clkgen :: "u32 \<Rightarrow> string list \<Rightarrow> ('z cli_io_scheme, unit) prog" where
  "parse_args_describe_clkgen u args = finish_parse describe_clkgen_usage
     (bindE (foldE (\<lambda>(opt, optarg) _.
        if opt = CHR ''S'' then case_S optarg
        else if opt = CHR ''V'' then case_V opt
        else case_default opt)
        (getopt_long ''S:hV?'' describe_clkgen_options args) ()) (\<lambda>_.
      require_slot ''''))"

definition load_clkgen_recipe_options :: "long_option list" where
  "load_clkgen_recipe_options = [
     (''fpga-image-slot'', required_argument, CHR ''S''),
     (''help'', no_argument, CHR ''h''),
     (''version'', no_argument, CHR ''V''),
     (''clock-a-recipe'', required_argument, CHR ''a''),
     (''clock-b-recipe'', required_argument, CHR ''b''),
     (''clock-c-recipe'', required_argument, CHR ''c''),
     (''clock-hbm-recipe'', required_argument, CHR ''m'')]"

definition parse_args_load_clkgen_recipe :: "u32 \<Rightarrow> string list \<Rightarrow> ('z cli_io_scheme, unit) prog" where
  "parse_args_load_clkgen_recipe u args = finish_parse load_clkgen_recipe_usage
     (bindE (foldE (\<lambda>(opt, optarg) _.
        if opt = CHR ''S'' then case_S optarg
        else if opt = CHR ''a'' then set_fpga (\<lambda>c. c\<lparr>clock_a_recipe := uint_or (clock_a_recipe c) optarg\<rparr>)
        else if opt = CHR ''b'' then set_fpga (\<lambda>c. c\<lparr>clock_b_recipe := uint_or (clock_b_recipe c) optarg\<rparr>)
        else if opt = CHR ''c'' then set_fpga (\<lambda>c. c\<lparr>clock_c_recipe := uint_or (clock_c_recipe c) optarg\<rparr>)
        else if opt = CHR ''m'' then set_fpga (\<lambda>c. c\<lparr>clock_hbm_recipe := uint_or (clock_hbm_recipe c) optarg\<rparr>)
        else if opt = CHR ''V'' then case_V opt
        else case_default opt)
        (getopt_long ''S:hV?a:b:c:m:'' load_clkgen_recipe_options args) ()) (\<lambda>_.
      require_slot ''''))"

definition load_clkgen_dynamic_options :: "long_option list" where
  "load_clkgen_dynamic_options = [
     (''fpga-image-slot'', required_argument, CHR ''S''),
     (''help'', no_argument, CHR ''h''),
     (''version'', no_argument, CHR ''V''),
     (''clock-a0-freq'', required_argument, CHR ''a''),
     (''clock-b0-freq'', required_argument, CHR ''b''),
     (''clock-c0-freq'', required_argument, CHR ''c''),
     (''clock-hbm-freq'', required_argument, CHR ''m'')]"

definition parse_args_load_clkgen_dynamic :: "u32 \<Rightarrow> string list \<Rightarrow> ('z cli_io_scheme, unit) prog" where
  "parse_args_load_clkgen_dynamic u args = finish_parse load_clkgen_dynamic_usage
     (bindE (foldE (\<lambda>(opt, optarg) _.
        if opt = CHR ''S'' then case_S optarg
        else if opt = CHR ''a'' then set_fpga (\<lambda>c. c\<lparr>clock_a_freq := uint_or (clock_a_freq c) optarg\<rparr>)
        else if opt = CHR ''b'' then set_fpga (\<lambda>c. c\<lparr>clock_b_freq := uint_or (clock_b_freq c) optarg\<rparr>)
        else if opt = CHR ''c'' then set_fpga (\<lambda>c. c\<lparr>clock_c_freq := uint_or (clock_c_freq c) optarg\<rparr>)
        else if opt = CHR ''m'' then set_fpga (\<lambda>c. c\<lparr>clock_hbm_freq := uint_or (clock_hbm_freq c) optarg\<rparr>)
        else if opt = CHR ''V'' then case_V opt
        else case_default opt)
        (getopt_long ''S:hV?a:b:c:m:'' load_clkgen_dynamic_options args) ()) (\<lambda>_.
      require_slot ''''))"

section \<open>Dispatch\<close>

text \<open>
  The table of the commands, each parser applied to its arguments; \<open>strncmp\<close> accepts every word that
  starts with the name of an entry.
\<close>

definition str2func :: "u32 \<Rightarrow> string list \<Rightarrow> (string \<times> u32 \<times> ('z cli_io_scheme, unit) prog) list" where
  "str2func u args = [
     (''LoadFpgaImage'', CLI_CMD_LOAD, parse_args_load_afi u args),
     (''ClearFpgaImage'', CLI_CMD_CLEAR, parse_args_clear_afi u args),
     (''DescribeFpgaImageSlots'', CLI_CMD_DESCRIBE_SLOTS, parse_args_describe_afi_slots u args),
     (''DescribeFpgaImage'', CLI_CMD_DESCRIBE, parse_args_describe_afi u args),
     (''StartVirtualJtag'', CLI_CMD_START_VJTAG, parse_args_start_virtual_jtag u args),
     (''GetVirtualLED'', CLI_CMD_GET_LED, parse_args_get_virtual_led u args),
     (''GetVirtualDIP'', CLI_CMD_GET_DIP, parse_args_get_virtual_dip u args),
     (''SetVirtualDIP'', CLI_CMD_SET_DIP, parse_args_set_virtual_dip u args),
     (''DescribeClkGen'', CLI_CMD_DESCRIBE_CLKGEN, parse_args_describe_clkgen u args),
     (''LoadClkGenRecipe'', CLI_CMD_LOAD_CLKGEN_RECIPE, parse_args_load_clkgen_recipe u args),
     (''LoadClkGenDynamic'', CLI_CMD_LOAD_CLKGEN_DYNAMIC, parse_args_load_clkgen_dynamic u args)]"

text \<open>
  \<open>argv\<close> without its terminating null pointer. A failure of the entry's parser is returned as it is; when
  no entry fits, the opcode is still \<open>-1\<close> and the general help is printed.
\<close>

definition parse_args :: "u32 \<Rightarrow> string list \<Rightarrow> ('z cli_io_scheme, unit) prog" where
  "parse_args u argv =
     (if length argv < 2 then bindE (print_usage opcode_str_usage) (\<lambda>_. fail (- EINVAL))
      else
        bindE (case List.find (\<lambda>(str, _, _). prefix str (argv ! 1)) (str2func u (tl argv)) of
            None \<Rightarrow> ok (- EINVAL)
          | Some (str, op, parse) \<Rightarrow>
              bindE (set_fpga (\<lambda>c. c\<lparr>opcode := op\<rparr>)) (\<lambda>_.
              bindE (attempt parse) (\<lambda>r. ok (code_of r)))) (\<lambda>ret.
        bindE (gets (\<lambda>s. opcode (fpga s))) (\<lambda>op.
        if op = - 1 then bindE (print_usage opcode_str_usage) (\<lambda>_. fail (- EINVAL))
        else ret_code ret ())))"

section \<open>Initial values\<close>

text \<open>What \<open>cli_init_fpga\<close> leaves in \<open>fpga\<close>; its call of \<open>srand\<close> is part of the platform.\<close>

definition fresh_cmd :: ec2_fpga_cmd where
  "fresh_cmd = \<lparr>opcode = - 1, afi_slot = - 1, clock_a_recipe = 1, clock_b_recipe = 2, clock_c_recipe = 0,
     clock_hbm_recipe = 2, clock_a_freq = 125, clock_b_freq = 450, clock_c_freq = 300, clock_hbm_freq = 450,
     cmd_afi_id = replicate AFI_ID_STR_MAX 0, cmd_sync_timeout = CLI_SYNC_TIMEOUT_DFLT,
     cmd_sync_delay_msec = CLI_SYNC_DELAY_MSEC_DFLT, request_timeout = CLI_REQUEST_TIMEOUT_DFLT,
     request_delay_msec = CLI_REQUEST_DELAY_MSEC_DFLT, parser_completed = False, cmd_async = False,
     show_headers = False, get_hw_metrics = False, clear_hw_metrics = False, clear_afi_cache = False,
     cmd_rescan = False, show_mbox_device = False, force_shell_reload = False, cmd_prefetch = False,
     cmd_reset = False, v_dip_switch = 0, tcp_port = None\<rparr>"

definition cli_init_fpga :: "('z cli_io_scheme, unit) prog" where
  "cli_init_fpga = set_fpga (\<lambda>_. fresh_cmd)"

end
