(* ===== verification/Cli_Show.thy ===== *)
theory Cli_Show
  imports Cli_Parse Fpga_Mgmt Clkgen
begin

text \<open>
  What the tools print: the first half of \<open>fpga_local_cmd.c\<close>. The state of a tool is its command and
  standard output beside the state of the libraries it calls.
\<close>

section \<open>State\<close>

record 'h cli_st = cli_io +
  lib :: "'h mgmt_st"
  clk_groups :: "fpga_clkgen_mmcm \<times> fpga_clkgen_mmcm \<times> fpga_clkgen_mmcm \<times> fpga_clkgen_mmcm"

text \<open>A call of the management library, and one of the clock library, whose groups are static records of its own.\<close>

definition in_lib :: "('h mgmt_st, 'a) prog \<Rightarrow> (('h, 'z) cli_st_scheme, 'a) prog" where
  "in_lib m = (\<lambda>s. case m (lib s) of (r, l) \<Rightarrow> (r, s\<lparr>lib := l\<rparr>))"

definition to_clk :: "('h, 'z) cli_st_scheme \<Rightarrow> 'h clk_st" where
  "to_clk s = (case clk_groups s of (a, b, c, hbm) \<Rightarrow>
     \<lparr>bars = bars (lib s), plat = plat (lib s), group_a = a, group_b = b, group_c = c, group_hbm = hbm\<rparr>)"

definition from_clk :: "'h clk_st \<Rightarrow> ('h, 'z) cli_st_scheme \<Rightarrow> ('h, 'z) cli_st_scheme" where
  "from_clk c s = s\<lparr>lib := (lib s)\<lparr>bars := bars c, plat := plat c\<rparr>,
     clk_groups := (group_a c, group_b c, group_c c, group_hbm c)\<rparr>"

definition in_clk :: "('h clk_st, 'a) prog \<Rightarrow> (('h, 'z) cli_st_scheme, 'a) prog" where
  "in_clk m = (\<lambda>s. case m (to_clk s) of (r, c) \<Rightarrow> (r, from_clk c s))"

section \<open>Formats\<close>

text \<open>Padding to a field width, at the left or at the right.\<close>

definition pad_left :: "nat \<Rightarrow> string \<Rightarrow> string" where
  "pad_left w txt = replicate (w - length txt) (CHR '' '') @ txt"

definition pad_right :: "nat \<Rightarrow> string \<Rightarrow> string" where
  "pad_right w txt = txt @ replicate (w - length txt) (CHR '' '')"

definition fmt_hex :: "'a :: len word \<Rightarrow> string" where
  "fmt_hex w = digits_of 16 (unat w)"

definition fmt_flag :: "u32 \<Rightarrow> string" where
  "fmt_flag w = (if w \<noteq> 0 then ''1'' else ''0'')"

text \<open>A C string of bytes.\<close>

definition fmt_s :: "u8 list \<Rightarrow> string" where
  "fmt_s bs = map (\<lambda>b. char_of (unat b)) (cstr bs)"

text \<open>
  \<open>%w.2f\<close>: the exact value rounded to two digits, ties to even. The sign of a NaN is the one the hardware
  of the hosts gives to an invalid operation.
\<close>

definition fmt_f2 :: "nat \<Rightarrow> c_double \<Rightarrow> string" where
  "fmt_f2 w d = pad_left w (case d of
       Fin r \<Rightarrow> (let n = nat (round_even (r * 100)); frac = digits_of 10 (n mod 100)
         in digits_of 10 (n div 100) @ ''.'' @ replicate (2 - length frac) (CHR ''0'') @ frac)
     | Inf \<Rightarrow> ''inf''
     | NaN \<Rightarrow> ''-nan'')"

definition print_lines :: "string list \<Rightarrow> ('z cli_io_scheme, unit) prog" where
  "print_lines ls = printf (concat (map (\<lambda>l. l @ newline) ls))"

definition TYPE_FMT :: "string \<Rightarrow> string" where
  "TYPE_FMT txt = pad_right 10 txt"

section \<open>Slots\<close>

definition show_slot_pf :: "int \<Rightarrow> fpga_pci_resource_map \<Rightarrow> ('z cli_io_scheme, unit) prog" where
  "show_slot_pf slot_id app_map = print_lines
     [TYPE_FMT ''AFIDEVICE'' @ ''  '' @ pad_left 2 (fmt_u (word_of_int slot_id :: u32)) @
      ''       0x'' @ fmt_x 4 (unat (vendor_id app_map)) @ ''      0x'' @ fmt_x 4 (unat (device_id app_map)) @ ''      '' @
      PCI_DEV_FMT (uint (domain app_map)) (uint (bus app_map)) (uint (dev app_map)) (uint (func app_map))]"

text \<open>The loop over the functions of the slot; the result is \<open>found_app_pf\<close>.\<close>

fun show_pfs_loop :: "int \<Rightarrow> fpga_slot_spec \<Rightarrow> nat list \<Rightarrow> bool \<Rightarrow> ('z cli_io_scheme, bool) prog" where
  "show_pfs_loop slot_id spec [] found = ok found"
| "show_pfs_loop slot_id spec (i # is) found =
     bindE (gets (\<lambda>s. show_mbox_device (fpga s))) (\<lambda>mbox.
     if i = FPGA_MGMT_PF \<and> \<not> mbox then show_pfs_loop slot_id spec is found
     else bindE (show_slot_pf slot_id (spec ! i)) (\<lambda>_. show_pfs_loop slot_id spec is True))"

definition cli_show_slot_app_pfs :: "int \<Rightarrow> fpga_slot_spec \<Rightarrow> ('z cli_io_scheme, unit) prog" where
  "cli_show_slot_app_pfs slot_id spec =
     bindE (fail_on (int FPGA_SLOT_MAX \<le> slot_id) FPGA_ERR_FAIL) (\<lambda>_.
     bindE (gets (\<lambda>s. show_headers (fpga s))) (\<lambda>headers.
     bindE (if headers then print_lines [''Type  FpgaImageSlot  VendorId    DeviceId    DBDF''] else ok ()) (\<lambda>_.
     bindE (show_pfs_loop slot_id spec [0..<FPGA_PF_MAX] False) (\<lambda>found_app_pf.
     if \<not> found_app_pf then print_lines [TYPE_FMT ''AFIDEVICE'' @ ''    unknown    unknown    unknown''] else ok ()))))"

section \<open>Metrics\<close>

abbreviation (input) FPGA_INT_STATUS_SDACL_SLAVE_TIMEOUT :: u32 where "FPGA_INT_STATUS_SDACL_SLAVE_TIMEOUT \<equiv> push_bit 0 1"
abbreviation (input) FPGA_INT_STATUS_CHIPSCOPE_TIMEOUT :: u32 where "FPGA_INT_STATUS_CHIPSCOPE_TIMEOUT \<equiv> push_bit 1 1"
abbreviation (input) FPGA_INT_STATUS_DMA_RANGE_ERROR :: u32 where "FPGA_INT_STATUS_DMA_RANGE_ERROR \<equiv> push_bit 7 1"
abbreviation (input) FPGA_INT_STATUS_PCI_SLAVE_TIMEOUT :: u32 where "FPGA_INT_STATUS_PCI_SLAVE_TIMEOUT \<equiv> push_bit 17 1"
abbreviation (input) FPGA_INT_STATUS_PCI_RANGE_ERROR :: u32 where "FPGA_INT_STATUS_PCI_RANGE_ERROR \<equiv> push_bit 18 1"
abbreviation (input) FPGA_INT_STATUS_PCI_AXI_PROTOCOL_ERROR :: u32 where "FPGA_INT_STATUS_PCI_AXI_PROTOCOL_ERROR \<equiv> push_bit 19 1"
abbreviation (input) FPGA_INT_STATUS_PCI_SLAVE_SDA_TIMEOUT :: u32 where "FPGA_INT_STATUS_PCI_SLAVE_SDA_TIMEOUT \<equiv> push_bit 27 1"
abbreviation (input) FPGA_INT_STATUS_PCI_SLAVE_OCL_TIMEOUT :: u32 where "FPGA_INT_STATUS_PCI_SLAVE_OCL_TIMEOUT \<equiv> push_bit 28 1"

abbreviation (input) FPGA_PAP_4K_CROSS_ERROR :: u32 where "FPGA_PAP_4K_CROSS_ERROR \<equiv> push_bit 1 1"
abbreviation (input) FPGA_PAP_BM_EN_ERROR :: u32 where "FPGA_PAP_BM_EN_ERROR \<equiv> push_bit 2 1"
abbreviation (input) FPGA_PAP_REQ_SIZE_ERROR :: u32 where "FPGA_PAP_REQ_SIZE_ERROR \<equiv> push_bit 3 1"
abbreviation (input) FPGA_PAP_WR_INCOMPLETE_ERROR :: u32 where "FPGA_PAP_WR_INCOMPLETE_ERROR \<equiv> push_bit 4 1"
abbreviation (input) FPGA_PAP_FIRST_BYTE_EN_ERROR :: u32 where "FPGA_PAP_FIRST_BYTE_EN_ERROR \<equiv> push_bit 5 1"
abbreviation (input) FPGA_PAP_LAST_BYTE_EN_ERROR :: u32 where "FPGA_PAP_LAST_BYTE_EN_ERROR \<equiv> push_bit 6 1"
abbreviation (input) FPGA_PAP_BREADY_TIMEOUT_ERROR :: u32 where "FPGA_PAP_BREADY_TIMEOUT_ERROR \<equiv> push_bit 8 1"
abbreviation (input) FPGA_PAP_RREADY_TIMEOUT_ERROR :: u32 where "FPGA_PAP_RREADY_TIMEOUT_ERROR \<equiv> push_bit 9 1"
abbreviation (input) FPGA_PAP_WCHANNEL_TIMEOUT_ERROR :: u32 where "FPGA_PAP_WCHANNEL_TIMEOUT_ERROR \<equiv> push_bit 10 1"

definition print_common_interupt_status :: "u32 \<Rightarrow> ('z cli_io_scheme, unit) prog" where
  "print_common_interupt_status int_status = print_lines [
     ''virtual-jtag-slave-timeout='' @ fmt_flag (int_status AND FPGA_INT_STATUS_CHIPSCOPE_TIMEOUT),
     ''ocl-slave-timeout='' @ fmt_flag (int_status AND FPGA_INT_STATUS_PCI_SLAVE_OCL_TIMEOUT),
     ''sda-slave-timeout='' @ fmt_flag (int_status AND FPGA_INT_STATUS_PCI_SLAVE_SDA_TIMEOUT),
     ''dma-pcis-timeout='' @ fmt_flag (int_status AND FPGA_INT_STATUS_PCI_SLAVE_TIMEOUT),
     ''pcim-range-error='' @ fmt_flag (int_status AND FPGA_INT_STATUS_PCI_RANGE_ERROR),
     ''pcim-axi-protocol-error='' @ fmt_flag (int_status AND FPGA_INT_STATUS_PCI_AXI_PROTOCOL_ERROR),
     ''dma-range-error='' @ fmt_flag (int_status AND FPGA_INT_STATUS_DMA_RANGE_ERROR)]"

definition print_pcim_axi_protocol_errors :: "u32 \<Rightarrow> ('z cli_io_scheme, unit) prog" where
  "print_pcim_axi_protocol_errors error_status = print_lines [
     ''pcim-axi-protocol-4K-cross-error='' @ fmt_flag (error_status AND FPGA_PAP_4K_CROSS_ERROR),
     ''pcim-axi-protocol-bus-master-enable-error='' @ fmt_flag (error_status AND FPGA_PAP_BM_EN_ERROR),
     ''pcim-axi-protocol-request-size-error='' @ fmt_flag (error_status AND FPGA_PAP_REQ_SIZE_ERROR),
     ''pcim-axi-protocol-write-incomplete-error='' @ fmt_flag (error_status AND FPGA_PAP_WR_INCOMPLETE_ERROR),
     ''pcim-axi-protocol-first-byte-enable-error='' @ fmt_flag (error_status AND FPGA_PAP_FIRST_BYTE_EN_ERROR),
     ''pcim-axi-protocol-last-byte-enable-error='' @ fmt_flag (error_status AND FPGA_PAP_LAST_BYTE_EN_ERROR),
     ''pcim-axi-protocol-bready-error='' @ fmt_flag (error_status AND FPGA_PAP_BREADY_TIMEOUT_ERROR),
     ''pcim-axi-protocol-rready-error='' @ fmt_flag (error_status AND FPGA_PAP_RREADY_TIMEOUT_ERROR),
     ''pcim-axi-protocol-wchannel-error='' @ fmt_flag (error_status AND FPGA_PAP_WCHANNEL_TIMEOUT_ERROR)]"

abbreviation (input) CLOCK_COUNT_A :: nat where "CLOCK_COUNT_A \<equiv> 4"
abbreviation (input) CLOCK_COUNT_B :: nat where "CLOCK_COUNT_B \<equiv> 2"
abbreviation (input) CLOCK_COUNT_C :: nat where "CLOCK_COUNT_C \<equiv> 2"

text \<open>The first clocks of a group, in MHz.\<close>

definition clock_row :: "nat \<Rightarrow> u64 list \<Rightarrow> string" where
  "clock_row n freqs = concat (map (\<lambda>i. fmt_u (freqs ! i div 1000000) @ ''  '') [0..<n])"

definition print_clocks :: "u64 list list \<Rightarrow> ('z cli_io_scheme, unit) prog" where
  "print_clocks clocks = print_lines [
     ''Clock Group A Frequency (Mhz)'', clock_row CLOCK_COUNT_A (clocks ! 0),
     ''Clock Group B Frequency (Mhz)'', clock_row CLOCK_COUNT_B (clocks ! 1),
     ''Clock Group C Frequency (Mhz)'', clock_row CLOCK_COUNT_C (clocks ! 2)]"

definition ddr_lines :: "fpga_ddr_if_metrics_common list \<Rightarrow> string list" where
  "ddr_lines ddr_ifs = concat (map (\<lambda>i. [
     ''DDR'' @ fmt_d (int i),
     ''   write-count='' @ fmt_u (write_count (ddr_ifs ! i)),
     ''   read-count='' @ fmt_u (read_count (ddr_ifs ! i))]) [0..<length ddr_ifs])"

text \<open>The cached images up to the first zero.\<close>

definition agfi_lines :: "u64 list \<Rightarrow> string list" where
  "agfi_lines agfis = map (\<lambda>agfi. ''   agfi-0'' @ fmt_x 16 (unat agfi)) (takeWhile (\<lambda>agfi. agfi \<noteq> 0) agfis)"

definition power_lines :: "u64 \<Rightarrow> u64 \<Rightarrow> u64 \<Rightarrow> string list" where
  "power_lines last_power mean_power max_power = [
     ''Power consumption (Vccint):'',
     ''   Last measured: '' @ fmt_u last_power @ '' watts'',
     ''   Average: '' @ fmt_u mean_power @ '' watts'',
     ''   Max measured: '' @ fmt_u max_power @ '' watts'',
     ''Cached agfis:'']"

definition print_f1_metrics :: "f1_metrics_common \<Rightarrow> ('z cli_io_scheme, unit) prog" where
  "print_f1_metrics fmc =
     bindE (print_lines [''sdacl-slave-timeout='' @ fmt_flag (f1_int_status fmc AND FPGA_INT_STATUS_SDACL_SLAVE_TIMEOUT)]) (\<lambda>_.
     bindE (print_common_interupt_status (f1_int_status fmc)) (\<lambda>_.
     bindE (print_pcim_axi_protocol_errors (f1_pcim_axi_protocol_error_status fmc)) (\<lambda>_.
     bindE (print_lines ([
       ''sdacl-slave-timeout-addr=0x'' @ fmt_hex (f1_sdacl_slave_timeout_addr fmc),
       ''sdacl-slave-timeout-count='' @ fmt_u (f1_sdacl_slave_timeout_count fmc),
       ''virtual-jtag-slave-timeout-addr=0x'' @ fmt_hex (f1_virtual_jtag_slave_timeout_addr fmc),
       ''virtual-jtag-slave-timeout-count='' @ fmt_u (f1_virtual_jtag_slave_timeout_count fmc),
       ''ocl-slave-timeout-addr=0x'' @ fmt_hex (f1_ocl_slave_timeout_addr fmc),
       ''ocl-slave-timeout-count='' @ fmt_u (f1_ocl_slave_timeout_count fmc),
       ''bar1-slave-timeout-addr=0x'' @ fmt_hex (f1_bar1_slave_timeout_addr fmc),
       ''bar1-slave-timeout-count='' @ fmt_u (f1_bar1_slave_timeout_count fmc),
       ''dma-pcis-timeout-addr=0x'' @ fmt_hex (f1_dma_pcis_timeout_addr fmc),
       ''dma-pcis-timeout-count='' @ fmt_u (f1_dma_pcis_timeout_count fmc),
       ''pcim-range-error-addr=0x'' @ fmt_hex (f1_pcim_range_error_addr fmc),
       ''pcim-range-error-count='' @ fmt_u (f1_pcim_range_error_count fmc),
       ''pcim-axi-protocol-error-addr=0x'' @ fmt_hex (f1_pcim_axi_protocol_error_addr fmc),
       ''pcim-axi-protocol-error-count='' @ fmt_u (f1_pcim_axi_protocol_error_count fmc),
       ''pcim-write-count='' @ fmt_u (f1_pcim_write_count fmc),
       ''pcim-read-count='' @ fmt_u (f1_pcim_read_count fmc)] @
       ddr_lines (f1_ddr_ifs fmc))) (\<lambda>_.
     bindE (print_clocks (f1_clocks fmc)) (\<lambda>_.
     print_lines (power_lines (f1_power fmc) (f1_power_mean fmc) (f1_power_max fmc) @
       agfi_lines (f1_cached_agfis fmc)))))))"

definition print_f2_metrics :: "f2_metrics_common \<Rightarrow> ('z cli_io_scheme, unit) prog" where
  "print_f2_metrics fmc =
     bindE (print_common_interupt_status (f2_int_status fmc)) (\<lambda>_.
     bindE (print_pcim_axi_protocol_errors (f2_pcim_axi_protocol_error_status fmc)) (\<lambda>_.
     print_lines ([
       ''pcim-range-error-addr=0x'' @ fmt_hex (f2_pcim_range_error_addr fmc),
       ''pcim-range-error-count='' @ fmt_u (f2_pcim_range_error_count fmc),
       ''pcim-axi-protocol-error-addr=0x'' @ fmt_hex (f2_pcim_axi_protocol_error_addr fmc),
       ''pcim-axi-protocol-error-count='' @ fmt_u (f2_pcim_axi_protocol_error_count fmc),
       ''pcim-write-count='' @ fmt_u (f2_pcim_write_count fmc),
       ''pcim-read-count='' @ fmt_u (f2_pcim_read_count fmc),
       ''dma-pcis-timeout-addr=0x'' @ fmt_hex (f2_dma_pcis_timeout_addr fmc),
       ''dma-pcis-timeout-count='' @ fmt_u (f2_dma_pcis_timeout_count fmc),
       ''ocl-slave-timeout-addr=0x'' @ fmt_hex (f2_ocl_slave_timeout_addr fmc),
       ''ocl-slave-timeout-count='' @ fmt_u (f2_ocl_slave_timeout_count fmc),
       ''sda-slave-timeout-addr=0x'' @ fmt_hex (f2_sda_slave_timeout_addr fmc),
       ''sda-slave-timeout-count='' @ fmt_u (f2_sda_slave_timeout_count fmc),
       ''virtual-jtag-slave-timeout-addr=0x'' @ fmt_hex (f2_virtual_jtag_slave_timeout_addr fmc),
       ''virtual-jtag-slave-timeout-count='' @ fmt_u (f2_virtual_jtag_slave_timeout_count fmc),
       ''virtual-jtag-slave-write-count='' @ fmt_u (f2_virtual_jtag_write_count fmc),
       ''virtual-jtag-slave-read-count='' @ fmt_u (f2_virtual_jtag_read_count fmc)] @
       ddr_lines (f2_ddr_ifs fmc) @
       power_lines (f2_power fmc) (f2_power_mean fmc) (f2_power_max fmc) @ agfi_lines (f2_cached_agfis fmc))))"

text \<open>
  \<open>info->metrics\<close> is a union, and the tool chooses the member to print by the device id of the slot it has
  just read: reading the other member than the one written decodes the same bytes again.
\<close>

definition le32 :: "u32 \<Rightarrow> u8 list" where
  "le32 v = [ucast v, ucast (drop_bit 8 v), ucast (drop_bit 16 v), ucast (drop_bit 24 v)]"

definition le64 :: "u64 \<Rightarrow> u8 list" where
  "le64 v = le32 (ucast v) @ le32 (ucast (drop_bit 32 v))"

definition ddr_bytes :: "fpga_ddr_if_metrics_common list \<Rightarrow> u8 list" where
  "ddr_bytes ddr_ifs = concat (map (\<lambda>d. le64 (write_count d) @ le64 (read_count d)) ddr_ifs)"

definition f1_bytes :: "f1_metrics_common \<Rightarrow> u8 list" where
  "f1_bytes m = le32 (f1_int_status m) @ le32 (f1_pcim_axi_protocol_error_status m) @
     le64 (f1_dma_pcis_timeout_addr m) @ le32 (f1_dma_pcis_timeout_count m) @
     le64 (f1_pcim_range_error_addr m) @ le32 (f1_pcim_range_error_count m) @
     le64 (f1_pcim_axi_protocol_error_addr m) @ le32 (f1_pcim_axi_protocol_error_count m) @
     f1_reserved2 m @ le64 (f1_ocl_slave_timeout_addr m) @ le32 (f1_ocl_slave_timeout_count m) @
     le64 (f1_bar1_slave_timeout_addr m) @ le32 (f1_bar1_slave_timeout_count m) @
     le32 (f1_sdacl_slave_timeout_addr m) @ le32 (f1_sdacl_slave_timeout_count m) @
     le32 (f1_virtual_jtag_slave_timeout_addr m) @ le32 (f1_virtual_jtag_slave_timeout_count m) @
     le64 (f1_pcim_write_count m) @ le64 (f1_pcim_read_count m) @ ddr_bytes (f1_ddr_ifs m) @
     concat (map (\<lambda>c. concat (map le64 c)) (f1_clocks m)) @
     le64 (f1_power_mean m) @ le64 (f1_power_max m) @ le64 (f1_power m) @
     concat (map le64 (f1_cached_agfis m)) @ le64 (f1_flags m)"

definition f2_bytes :: "f2_metrics_common \<Rightarrow> u8 list" where
  "f2_bytes m = le32 (f2_int_status m) @ le32 (f2_pcim_axi_protocol_error_status m) @
     le64 (f2_pcim_range_error_addr m) @ le32 (f2_pcim_range_error_count m) @
     le64 (f2_pcim_axi_protocol_error_addr m) @ le32 (f2_pcim_axi_protocol_error_count m) @
     le64 (f2_pcim_write_count m) @ le64 (f2_pcim_read_count m) @
     le64 (f2_dma_pcis_timeout_addr m) @ le32 (f2_dma_pcis_timeout_count m) @
     le32 (f2_ocl_slave_timeout_addr m) @ le32 (f2_ocl_slave_timeout_count m) @
     le64 (f2_sda_slave_timeout_addr m) @ le32 (f2_sda_slave_timeout_count m) @
     le32 (f2_virtual_jtag_slave_timeout_addr m) @ le32 (f2_virtual_jtag_slave_timeout_count m) @
     le32 (f2_virtual_jtag_write_count m) @ le32 (f2_virtual_jtag_read_count m) @
     ddr_bytes (f2_ddr_ifs m) @ concat (map (\<lambda>c. concat (map le64 c)) (f2_clocks m)) @
     le64 (f2_power_mean m) @ le64 (f2_power_max m) @ le64 (f2_power m) @
     concat (map le64 (f2_cached_agfis m)) @ le64 (f2_flags m)"

definition f1_member :: "fpga_metrics \<Rightarrow> f1_metrics_common" where
  "f1_member u = (case u of
       F1_metrics m \<Rightarrow> m
     | F2_metrics m \<Rightarrow> decode_f1_metrics (put_list zero_bytes 0 (f2_bytes m)) 0
     | No_metrics \<Rightarrow> decode_f1_metrics zero_bytes 0)"

definition f2_member :: "fpga_metrics \<Rightarrow> f2_metrics_common" where
  "f2_member u = (case u of
       F1_metrics m \<Rightarrow> decode_f2_metrics (put_list zero_bytes 0 (f1_bytes m)) 0
     | F2_metrics m \<Rightarrow> m
     | No_metrics \<Rightarrow> decode_f2_metrics zero_bytes 0)"

section \<open>Images and clocks\<close>

text \<open>The two lines that describe an image.\<close>

definition image_line :: "u32 \<Rightarrow> fpga_mgmt_image_info \<Rightarrow> string" where
  "image_line slot info =
     TYPE_FMT ''AFI'' @ ''  '' @ pad_left 2 (fmt_u slot) @ ''       '' @
     pad_right 22 (if hd (afi_id (info_ids info)) = 0 then ''none'' else fmt_s (afi_id (info_ids info))) @
     ''  '' @ pad_right 8 (FPGA_STATUS2STR (info_status info)) @ ''         '' @ pad_left 2 (fmt_d (info_status info)) @
     ''        '' @ pad_right 8 (FPGA_ERR2STR (info_status_q info)) @ ''        '' @
     pad_left 2 (fmt_d (info_status_q info)) @ ''       0x'' @ fmt_x 8 (unat (info_sh_version info))"

definition image_header :: string where
  "image_header = ''Type  FpgaImageSlot  FpgaImageId             StatusName    StatusCode   ErrorName    ErrorCode   ShVersion''"

definition cli_show_image_info :: "'h platform \<Rightarrow> fpga_mgmt_image_info \<Rightarrow> (('h, 'z) cli_st_scheme, unit) prog" where
  "cli_show_image_info P info =
     bindE (gets fpga) (\<lambda>c.
     bindE (if show_headers c then print_lines [image_header]
       else ok ()) (\<lambda>_.
     bindE (print_lines [image_line (afi_slot c) info]) (\<lambda>_.
     bindE (if cmd_rescan c then in_lib (fpga_pci_rescan_slot_app_pfs P (sint (afi_slot c))) else ok ()) (\<lambda>_.
     bindE (in_lib (fpga_pci_get_slot_spec P (sint (afi_slot c)))) (\<lambda>slot_spec.
     bindE (cli_show_slot_app_pfs (sint (afi_slot c)) slot_spec) (\<lambda>_.
     if get_hw_metrics c then
       bindE (if show_headers c then print_lines [''Metrics''] else ok ()) (\<lambda>_.
       if device_id (slot_spec ! FPGA_MGMT_PF) = F1_MBOX_DEVICE_ID
         then print_f1_metrics (f1_member (info_metrics info))
         else print_f2_metrics (f2_member (info_metrics info)))
     else ok ()))))))"

definition cli_show_clkgen_info :: "fpga_clkgen_info \<Rightarrow> ('z cli_io_scheme, unit) prog" where
  "cli_show_clkgen_info info =
     (let cell = (\<lambda>w x. ''   '' @ fmt_f2 w x @ ''   |'') in
      print_lines [
        ''Clock Group A Frequency (Mhz)'',
        ''| clk_extra_a1 | clk_extra_a2 | clk_extra_a3 |'',
        ''|--------------|--------------|--------------|'',
        ''|'' @ cell 8 (clock_group_a info ! 0) @ cell 8 (clock_group_a info ! 1) @ cell 8 (clock_group_a info ! 2), [],
        ''Clock Group B Frequency (Mhz)'',
        ''| clk_extra_b0 | clk_extra_b1 |'',
        ''|--------------|--------------|'',
        ''|'' @ cell 8 (clock_group_b info ! 0) @ cell 8 (clock_group_b info ! 1), [],
        ''Clock Group C Frequency (Mhz)'',
        ''| clk_extra_c0 | clk_extra_c1 |'',
        ''|--------------|--------------|'',
        ''|'' @ cell 8 (clock_group_c info ! 0) @ cell 8 (clock_group_c info ! 1), [],
        ''Clock Group HBM Frequency (Mhz)'',
        ''| clk_hbm_axi |'',
        ''|-------------|'',
        ''|'' @ cell 7 (clock_group_hbm info ! 0), []])"

section \<open>Virtual LEDs and DIP switches\<close>

fun led_dip_digits :: "nat \<Rightarrow> u16 \<Rightarrow> nat \<Rightarrow> string" where
  "led_dip_digits i status 0 = []"
| "led_dip_digits i status (Suc n) =
     (if status AND 0x8000 \<noteq> 0 then ''1'' else ''0'') @
     (if i mod 4 = 3 \<and> i \<noteq> 15 then ''-'' else '''') @ led_dip_digits (Suc i) (push_bit 1 status) n"

definition cli_show_virtual_led_dip_status :: "u16 \<Rightarrow> ('z cli_io_scheme, unit) prog" where
  "cli_show_virtual_led_dip_status status = print_lines [led_dip_digits 0 status 16]"

text \<open>The digits without the dashes are an argument of \<open>-D\<close>.\<close>

lemma led_digits:
  assumes "n \<le> 16"
  shows "filter (\<lambda>d. d \<noteq> CHR ''-'') (led_dip_digits i status n) =
    map (\<lambda>k. if bit status (15 - k) then CHR ''1'' else CHR ''0'') [0..<n]"
  using assms
proof (induction n arbitrary: i status)
  case (Suc n)
  have top: "status AND 0x8000 \<noteq> 0 \<longleftrightarrow> bit status 15"
    using and_exp_eq_0_iff_not_bit [of status 15] by simp
  have b: "bit (push_bit 1 status) (15 - k) = bit status (15 - Suc k)" if "k < 15" for k
    using that unfolding bit_push_bit_iff by auto
  have "map (\<lambda>k. if bit (push_bit 1 status) (15 - k) then CHR ''1'' else CHR ''0'') [0..<n] =
      map (\<lambda>k. if bit status (15 - Suc k) then CHR ''1'' else CHR ''0'') [0..<n]"
    by (intro map_cong refl) (subst b, use Suc.prems in auto)
  also have "\<dots> = map (\<lambda>k. if bit status (15 - k) then CHR ''1'' else CHR ''0'') [1..<Suc n]"
    by (simp add: map_Suc_upt [symmetric] comp_def del: map_Suc_upt upt_Suc)
  finally have "map (\<lambda>k. if bit (push_bit 1 status) (15 - k) then CHR ''1'' else CHR ''0'') [0..<n] =
      map (\<lambda>k. if bit status (15 - k) then CHR ''1'' else CHR ''0'') [1..<Suc n]" .
  then show ?case
    using Suc.IH [of "Suc i" "push_bit 1 status"] Suc.prems by (simp add: top upt_conv_Cons del: upt_Suc)
qed simp

lemma vdip_digits:
  fixes st :: u16
  assumes "i \<le> 15" and "\<not> bit st 0"
  shows "\<exists>v. vdip_loop i (map (\<lambda>k. if b k then CHR ''1'' else CHR ''0'') [i..<16]) st s = (Inr v, s) \<and>
    (\<forall>k < 16. bit v k = (if k \<le> 15 - i then b (15 - k) else bit st (k - (15 - i))))"
  using assms
proof (induction "15 - i" arbitrary: i st)
  case 0
  then have i: "i = 15" by simp
  have "(\<forall>k < 16. bit (if b 15 then st OR 1 else st) k = (if k = 0 then b 15 else bit st k))"
    using 0 by (auto simp: bit_simps)
  with 0 show ?case by (auto simp: i upt_conv_Cons prog_simps)
next
  case (Suc d)
  define st2 where "st2 = push_bit 1 (if b i then st OR 1 else st)"
  have st2: "\<not> bit st2 0" "\<And>j. j < 15 \<Longrightarrow> bit st2 (Suc j) = (if j = 0 then b i else bit st j)"
    using Suc.prems unfolding st2_def bit_push_bit_iff by (auto simp: bit_simps)
  have i: "i < 15" "15 - Suc i = d" using Suc.hyps(2) by auto
  obtain v where v: "vdip_loop (Suc i) (map (\<lambda>k. if b k then CHR ''1'' else CHR ''0'') [Suc i..<16]) st2 s = (Inr v, s)"
    and bits: "\<forall>k < 16. bit v k = (if k \<le> 15 - Suc i then b (15 - k) else bit st2 (k - (15 - Suc i)))"
    using Suc.hyps(1) [of "Suc i" st2] i st2(1) by auto
  have "vdip_loop i (map (\<lambda>k. if b k then CHR ''1'' else CHR ''0'') [i..<16]) st s = (Inr v, s)"
  proof -
    have "[i..<16] = i # [Suc i..<16]" using i by (simp add: upt_conv_Cons)
    then show ?thesis using v i(1) unfolding st2_def by (cases "b i") (simp_all del: upt_Suc push_bit_of_1 push_bit_Suc)
  qed
  moreover have "bit v k = (if k \<le> 15 - i then b (15 - k) else bit st (k - (15 - i)))" if "k < 16" for k
  proof (cases "k \<le> 15 - Suc i")
    case True
    then have "k \<le> 15 - i" using i by linarith
    then show ?thesis using bits that True by simp
  next
    case False
    then have k: "bit v k = bit st2 (k - (15 - Suc i))" using bits that by simp
    show ?thesis
    proof (cases "k = 15 - i")
      case True
      then have "k - (15 - Suc i) = 1" "15 - k = i" using i by auto
      then show ?thesis using k True st2(2) [of 0] by simp
    next
      case neq: False
      define j where "j = k - (15 - i)"
      have "k - (15 - Suc i) = Suc j" "0 < j" "j < 15" using i False neq that by (auto simp: j_def)
      then show ?thesis using k False neq i st2(2) [of j] by (auto simp: j_def)
    qed
  qed
  ultimately show ?case by blast
qed

text \<open>
  C39. The sixteen digits that the tools print for the virtual LEDs and DIP switches, read back by
  the parser of SetVirtualDIP without their dashes, give the status that was printed.
\<close>

theorem led_text_roundtrip:
  "vdip_loop 0 (filter (\<lambda>d. d \<noteq> CHR ''-'') (led_dip_digits 0 status 16)) 0 s = (Inr status, s)"
proof -
  obtain v where v: "vdip_loop 0 (map (\<lambda>k. if bit status (15 - k) then CHR ''1'' else CHR ''0'') [0..<16]) 0 s = (Inr v, s)"
    and bits: "\<forall>k < 16. bit v k = bit status (15 - (15 - k))"
    using vdip_digits [of 0 0 "\<lambda>k. bit status (15 - k)" s] by auto
  have "v = status" by (rule bit_word_eqI) (use bits in simp)
  then show ?thesis using v led_digits [of 16 0 status] by simp
qed

end
