(* ===== verification/Cli_Lines.thy ===== *)
theory Cli_Lines
  imports Cli_Parse
begin

text \<open>
  What the parsers of the command line guarantee: a command that is accepted is well formed and nothing is
  printed, a rejected one is answered on the standard output; the options of a load, in any spelling and
  order, set the fields they stand for.
\<close>

section \<open>Outcomes\<close>

text \<open>
  A part of a parser that, started in \<open>I\<close>, either succeeds in \<open>I\<close> without output, or fails. With output or
  not: the end of the parser prints its help.
\<close>

fun outcome :: "('z cli_io_scheme \<Rightarrow> bool) \<Rightarrow> 'z cli_io_scheme \<Rightarrow> int + 'a \<Rightarrow> 'z cli_io_scheme \<Rightarrow> bool" where
  "outcome I s (Inr a) t = (I t \<and> stdout t = stdout s)"
| "outcome I s (Inl e) t = (\<exists>txt. stdout t = stdout s @ txt \<and> (e = goto_out_ver \<longrightarrow> txt \<noteq> []))"

definition passes :: "('z cli_io_scheme \<Rightarrow> bool) \<Rightarrow> ('z cli_io_scheme, 'a) prog \<Rightarrow> bool" where
  "passes I m \<longleftrightarrow> (\<forall>s. I s \<longrightarrow> outcome I s (fst (m s)) (snd (m s)))"

named_theorems passes_intros \<open>rules for parts of parsers\<close>

lemma passesI:
  assumes "\<And>s a t. I s \<Longrightarrow> m s = (Inr a, t) \<Longrightarrow> I t \<and> stdout t = stdout s"
    and "\<And>s e t. I s \<Longrightarrow> m s = (Inl e, t) \<Longrightarrow>
      \<exists>txt. stdout t = stdout s @ txt \<and> (e = goto_out_ver \<longrightarrow> txt \<noteq> [])"
  shows "passes I m"
  unfolding passes_def
proof (intro allI impI)
  fix s assume "I s"
  then show "outcome I s (fst (m s)) (snd (m s))"
    using assms [of s _ "snd (m s)"] by (cases "m s"; cases "fst (m s)") simp_all
qed

lemma passesD: "passes I m \<Longrightarrow> I s \<Longrightarrow> m s = (r, t) \<Longrightarrow> outcome I s r t"
  unfolding passes_def by (metis fst_conv snd_conv)

lemma passes_ok [passes_intros]: "passes I (ok a)"
  by (rule passesI) (auto simp: prog_simps)

lemma passes_fail [passes_intros]: "e \<noteq> goto_out_ver \<Longrightarrow> passes I (fail e)"
  by (rule passesI) (auto simp: prog_simps)

lemma passes_gets [passes_intros]: "passes I (gets f)"
  by (rule passesI) (auto simp: prog_simps)

lemma passes_bind [passes_intros]:
  assumes "passes I m" and "\<And>a. passes I (k a)"
  shows "passes I (bindE m k)"
  unfolding passes_def
proof (intro allI impI)
  fix s assume I: "I s"
  obtain r t where b: "bindE m k s = (r, t)" by fastforce
  obtain x u where m: "m s = (x, u)" by fastforce
  note pm = passesD [OF assms(1) I m]
  have "outcome I s r t"
  proof (cases x)
    case (Inl e)
    then show ?thesis using b m pm by (auto simp: prog_simps)
  next
    case (Inr a)
    then show ?thesis using b m pm passesD [OF assms(2) [of a], of u r t] by (cases r) (auto simp: prog_simps)
  qed
  then show "outcome I s (fst (bindE m k s)) (snd (bindE m k s))" by (simp add: b)
qed

lemma passes_if [passes_intros]: "(c \<Longrightarrow> passes I m) \<Longrightarrow> (\<not> c \<Longrightarrow> passes I n) \<Longrightarrow> passes I (if c then m else n)"
  by simp

lemma passes_or_code [passes_intros]: "passes I m \<Longrightarrow> c \<noteq> goto_out_ver \<Longrightarrow> passes I (or_code m c)"
  by (rule passesI) (auto simp: prog_simps split: prod.splits sum.splits dest!: passesD)

lemma passes_set [passes_intros]: "(\<And>s. I s \<Longrightarrow> I (s\<lparr>fpga := f (fpga s)\<rparr>)) \<Longrightarrow> passes I (set_fpga f)"
  by (rule passesI) (auto simp: set_fpga_def prog_simps)

lemma passes_fail_on_user [passes_intros]: "passes I (fail_on_user c msg)"
  by (rule passesI) (auto simp: fail_on_user_def printf_def prog_simps split: if_splits)

lemma passes_print_fail: "e \<noteq> goto_out_ver \<Longrightarrow> passes I (bindE (printf txt) (\<lambda>_. fail e))"
  by (rule passesI) (auto simp: printf_def prog_simps)

lemma passes_foldE [passes_intros]: "(\<And>x l. passes I (f x l)) \<Longrightarrow> passes I (foldE f xs l)"
  by (induction xs arbitrary: l) (auto intro!: passes_intros)

lemma passes_keeping [passes_intros]: "passes I m \<Longrightarrow> passes I (keeping l m)"
  unfolding keeping_def by (intro passes_intros)

lemma passes_case_prod [passes_intros]: "(\<And>a b. passes I (f a b)) \<Longrightarrow> passes I (case x of (a, b) \<Rightarrow> f a b)"
  by (cases x) simp

lemma passes_case_prod_app [passes_intros]:
  "(\<And>a b. passes I (f a b l)) \<Longrightarrow> passes I ((case x of (a, b) \<Rightarrow> f a b) l)"
  by (cases x) simp

section \<open>Well-formed commands\<close>

text \<open>The slot is unset or in range, the image id is a C string of its array, and the timeouts are at least the defaults.\<close>

definition cmd_ok :: "ec2_fpga_cmd \<Rightarrow> bool" where
  "cmd_ok c \<longleftrightarrow> (afi_slot c = - 1 \<or> afi_slot c < of_nat FPGA_SLOT_MAX) \<and>
     length (cmd_afi_id c) = AFI_ID_STR_MAX \<and> last (cmd_afi_id c) = 0 \<and>
     CLI_REQUEST_TIMEOUT_DFLT \<le> request_timeout c \<and> request_delay_msec c = CLI_REQUEST_DELAY_MSEC_DFLT \<and>
     CLI_SYNC_TIMEOUT_DFLT \<le> cmd_sync_timeout c \<and> cmd_sync_delay_msec c = CLI_SYNC_DELAY_MSEC_DFLT"

text \<open>The part of the state that a parser keeps: the opcode, and the port of the server once it is set.\<close>

definition parsing :: "u32 \<Rightarrow> bool \<Rightarrow> 'z cli_io_scheme \<Rightarrow> bool" where
  "parsing op port s \<longleftrightarrow> cmd_ok (fpga s) \<and> opcode (fpga s) = op \<and> (port \<longrightarrow> tcp_port (fpga s) \<noteq> None)"

lemma timeout_count_passes [passes_intros]: "passes I (timeout_count dflt delay timeout)"
  unfolding timeout_count_def Let_def by (intro passes_intros)

section \<open>Timeouts\<close>

lemma unat_widen: "unat (ucast (x :: u32) :: u64) = unat x"
  by transfer simp

lemma unat_ucast_mult:
  assumes "unat (x :: u32) * unat (y :: u64) < 2 ^ 64"
  shows "unat (ucast x * y :: u64) = unat x * unat y"
  using assms by (simp add: unat_word_ariths unat_widen)

definition timeout_lo :: "u32 \<Rightarrow> u32 \<Rightarrow> nat" where
  "timeout_lo dflt delay = unat dflt * unat delay div 1000"

definition timeout_hi :: "u32 \<Rightarrow> nat" where
  "timeout_hi delay = (2 ^ 32 - 1) * unat delay div 1000"

lemma timeout_count_apply:
  assumes "0 < delay" "unat delay \<le> 1000"
  shows "fst (timeout_count dflt delay timeout s) =
      (if timeout_lo dflt delay \<le> unat timeout \<and> unat timeout \<le> timeout_hi delay
       then Inr (of_nat (min (2 ^ 32 - 1) (unat timeout * 1000 div unat delay))) else Inl goto_err)"
    "timeout_lo dflt delay \<le> unat timeout \<and> unat timeout \<le> timeout_hi delay \<Longrightarrow>
      snd (timeout_count dflt delay timeout s) = s"
proof -
  have d: "unat (ucast delay :: u64) = unat delay" by (simp add: unat_widen)
  have t: "unat (ucast timeout :: u64) = unat timeout" by (simp add: unat_widen)
  have b: "unat (x :: u32) * k < 2 ^ 64" if "k \<le> 1000" for x k
  proof -
    have "unat x * k \<le> 2 ^ 32 * 1000" using unsigned_less [where 'a = nat and w = x] that by (intro mult_le_mono) auto
    then show ?thesis by simp
  qed
  have lo: "unat (ucast dflt * ucast delay div MSEC_PER_SEC :: u64) = timeout_lo dflt delay"
    using unat_ucast_mult [of dflt "ucast delay"] b [of "unat delay" dflt] assms
    by (simp add: unat_div timeout_lo_def d)
  have hi: "unat (0xFFFFFFFF * ucast delay div MSEC_PER_SEC :: u64) = timeout_hi delay"
  proof -
    have "unat delay * 4294967295 < 2 ^ 64" using assms by simp
    then have "unat (ucast delay * 0xFFFFFFFF :: u64) = unat delay * 4294967295"
      using unat_ucast_mult [of delay "0xFFFFFFFF"] by simp
    then show ?thesis by (simp add: unat_div timeout_hi_def mult.commute)
  qed
  have n: "unat (ucast timeout * MSEC_PER_SEC div ucast delay :: u64) = unat timeout * 1000 div unat delay"
    using unat_ucast_mult [of timeout "MSEC_PER_SEC"] b [of 1000 timeout] by (simp add: unat_div d)
  let ?n = "ucast timeout * MSEC_PER_SEC div ucast delay :: u64"
  have c: "(ucast (if 0xFFFFFFFF < ?n then 0xFFFFFFFF else ?n) :: u32) =
      of_nat (min (2 ^ 32 - 1) (unat timeout * 1000 div unat delay))"
  proof -
    have "unat (if 0xFFFFFFFF < ?n then 0xFFFFFFFF else ?n) = min (2 ^ 32 - 1) (unat timeout * 1000 div unat delay)"
      using n by (simp add: word_less_nat_alt)
    then show ?thesis by (metis of_nat_unat)
  qed
  have g: "(ucast timeout < ucast dflt * ucast delay div (MSEC_PER_SEC :: u64) \<or>
      0xFFFFFFFF * ucast delay div MSEC_PER_SEC < (ucast timeout :: u64)) =
      (\<not> (timeout_lo dflt delay \<le> unat timeout \<and> unat timeout \<le> timeout_hi delay))"
    by (simp only: word_less_nat_alt lo hi t) auto
  show "fst (timeout_count dflt delay timeout s) =
      (if timeout_lo dflt delay \<le> unat timeout \<and> unat timeout \<le> timeout_hi delay
       then Inr (of_nat (min (2 ^ 32 - 1) (unat timeout * 1000 div unat delay))) else Inl goto_err)"
    unfolding timeout_count_def Let_def g c by (simp add: fail_on_user_def printf_def prog_simps)
  show "timeout_lo dflt delay \<le> unat timeout \<and> unat timeout \<le> timeout_hi delay \<Longrightarrow>
      snd (timeout_count dflt delay timeout s) = s"
    unfolding timeout_count_def Let_def g by (simp add: fail_on_user_def prog_simps)
qed

lemma timeout_clamp: "0 < d \<Longrightarrow> n \<le> (2 ^ 32 - 1) * d div 1000 \<Longrightarrow> min (2 ^ 32 - 1) (n * 1000 div d) = n * 1000 div d" for n d :: nat
proof -
  assume "0 < d" "n \<le> (2 ^ 32 - 1) * d div 1000"
  then have "n * 1000 \<le> (2 ^ 32 - 1) * d" by (simp add: less_eq_div_iff_mult_less_eq)
  then have "n * 1000 div d \<le> (2 ^ 32 - 1) * d div d" by (rule div_le_mono)
  then show ?thesis using \<open>0 < d\<close> by simp
qed

lemma timeout_count_cases:
  assumes "0 < delay" "unat delay \<le> 1000"
  obtains (ok) n where "timeout_count dflt delay timeout s = (Inr n, s)"
      "timeout_lo dflt delay \<le> unat timeout" "unat timeout \<le> timeout_hi delay"
      "unat n = unat timeout * 1000 div unat delay"
  | (bad) t where "timeout_count dflt delay timeout s = (Inl goto_err, t)"
      "\<not> (timeout_lo dflt delay \<le> unat timeout \<and> unat timeout \<le> timeout_hi delay)"
proof (cases "timeout_lo dflt delay \<le> unat timeout \<and> unat timeout \<le> timeout_hi delay")
  case True
  have d: "0 < unat delay" using assms(1) by (simp add: word_less_nat_alt)
  let ?n = "unat timeout * 1000 div unat delay"
  have m: "min (2 ^ 32 - 1) ?n = ?n" using timeout_clamp [OF d] True by (simp add: timeout_hi_def)
  then have "?n < 2 ^ 32" by (simp add: min_def split: if_splits)
  then have "unat (of_nat ?n :: u32) = ?n" by (simp add: unsigned_of_nat take_bit_nat_eq_self)
  then show ?thesis
    using ok [of "of_nat ?n"] timeout_count_apply [OF assms, of dflt timeout s] True m
    by (cases "timeout_count dflt delay timeout s") simp
next
  case False
  then show ?thesis
    using bad [of "snd (timeout_count dflt delay timeout s)"] timeout_count_apply(1) [OF assms, of dflt timeout s]
    by (cases "timeout_count dflt delay timeout s") auto
qed

lemma timeout_unfold:
  fixes n d :: nat
  assumes "0 < d"
  shows "n * 1000 div d * d \<le> n * 1000" "n * 1000 < n * 1000 div d * d + d"
  using div_mult_mod_eq [of "n * 1000" d] mod_less_divisor [OF assms, of "n * 1000"] by linarith+

lemma config_request_timeout_cases:
  obtains (ok) n where "config_request_timeout timeout s =
      (Inr (), s\<lparr>fpga := (fpga s)\<lparr>request_timeout := n, request_delay_msec := 60\<rparr>\<rparr>)"
      "30 \<le> unat timeout" "unat timeout \<le> 257698037"
      "unat n * 60 \<le> unat timeout * 1000" "unat timeout * 1000 < unat n * 60 + 60"
  | (bad) "fst (config_request_timeout timeout s) = Inl (- EINVAL)"
      "\<not> (30 \<le> unat timeout \<and> unat timeout \<le> 257698037)"
proof -
  have c: "timeout_lo 500 60 = 30" "timeout_hi 60 = 257698037" "0 < (60 :: u32)" "unat (60 :: u32) \<le> 1000"
    by (simp_all add: timeout_lo_def timeout_hi_def)
  show ?thesis
  proof (rule timeout_count_cases [OF c(3,4), of 500 timeout s], goal_cases)
    case (1 n)
    then show ?thesis using timeout_unfold [of 60 "unat timeout"]
      by (intro ok [of n]) (simp_all add: c config_request_timeout_def set_fpga_def prog_simps)
  next
    case (2 t)
    then show ?thesis by (intro bad) (simp_all add: c config_request_timeout_def prog_simps)
  qed
qed

lemma config_sync_timeout_cases:
  obtains (ok) n where "config_sync_timeout timeout s =
      (Inr (), s\<lparr>fpga := (fpga s)\<lparr>cmd_sync_timeout := n, cmd_sync_delay_msec := 2\<rparr>\<rparr>)"
      "60 \<le> unat timeout" "unat timeout \<le> 8589934" "unat n * 2 = unat timeout * 1000"
  | (bad) "fst (config_sync_timeout timeout s) = Inl (- EINVAL)"
      "\<not> (60 \<le> unat timeout \<and> unat timeout \<le> 8589934)"
proof -
  have c: "timeout_lo 30000 2 = 60" "timeout_hi 2 = 8589934" "0 < (2 :: u32)" "unat (2 :: u32) \<le> 1000"
    by (simp_all add: timeout_lo_def timeout_hi_def)
  show ?thesis
  proof (rule timeout_count_cases [OF c(3,4), of 30000 timeout s], goal_cases)
    case (1 n)
    then show ?thesis by (intro ok [of n]) (simp_all add: c config_sync_timeout_def set_fpga_def prog_simps)
  next
    case (2 t)
    then show ?thesis by (intro bad) (simp_all add: c config_sync_timeout_def prog_simps)
  qed
qed

theorem timeouts_configured:
  "(30 \<le> unat timeout \<and> unat timeout \<le> 257698037 \<longrightarrow>
      (\<exists>n. config_request_timeout timeout s =
         (Inr (), s\<lparr>fpga := (fpga s)\<lparr>request_timeout := n, request_delay_msec := 60\<rparr>\<rparr>) \<and>
       unat n * 60 \<le> unat timeout * 1000 \<and> unat timeout * 1000 < unat n * 60 + 60)) \<and>
    (\<not> (30 \<le> unat timeout \<and> unat timeout \<le> 257698037) \<longrightarrow> fst (config_request_timeout timeout s) = Inl (- EINVAL)) \<and>
    (60 \<le> unat timeout \<and> unat timeout \<le> 8589934 \<longrightarrow>
      (\<exists>n. config_sync_timeout timeout s =
         (Inr (), s\<lparr>fpga := (fpga s)\<lparr>cmd_sync_timeout := n, cmd_sync_delay_msec := 2\<rparr>\<rparr>) \<and>
       unat n * 2 = unat timeout * 1000)) \<and>
    (\<not> (60 \<le> unat timeout \<and> unat timeout \<le> 8589934) \<longrightarrow> fst (config_sync_timeout timeout s) = Inl (- EINVAL))"
proof (intro conjI)
  note request = config_request_timeout_cases [of timeout s] and sync = config_sync_timeout_cases [of timeout s]
  show "30 \<le> unat timeout \<and> unat timeout \<le> 257698037 \<longrightarrow>
      (\<exists>n. config_request_timeout timeout s =
         (Inr (), s\<lparr>fpga := (fpga s)\<lparr>request_timeout := n, request_delay_msec := 60\<rparr>\<rparr>) \<and>
       unat n * 60 \<le> unat timeout * 1000 \<and> unat timeout * 1000 < unat n * 60 + 60)"
    by (rule request) blast+
  show "\<not> (30 \<le> unat timeout \<and> unat timeout \<le> 257698037) \<longrightarrow> fst (config_request_timeout timeout s) = Inl (- EINVAL)"
    by (rule request) blast+
  show "60 \<le> unat timeout \<and> unat timeout \<le> 8589934 \<longrightarrow>
      (\<exists>n. config_sync_timeout timeout s =
         (Inr (), s\<lparr>fpga := (fpga s)\<lparr>cmd_sync_timeout := n, cmd_sync_delay_msec := 2\<rparr>\<rparr>) \<and>
       unat n * 2 = unat timeout * 1000)"
    by (rule sync) blast+
  show "\<not> (60 \<le> unat timeout \<and> unat timeout \<le> 8589934) \<longrightarrow> fst (config_sync_timeout timeout s) = Inl (- EINVAL)"
    by (rule sync) blast+
qed

definition fresh_io :: cli_io where
  "fresh_io = \<lparr>fpga = fresh_cmd, stdout = []\<rparr>"

theorem timeouts_configured_witness:
  "fst (config_request_timeout 29 fresh_io) = Inl (- EINVAL) \<and>
    (\<exists>n. snd (config_sync_timeout 61 fresh_io) = fresh_io\<lparr>fpga := fresh_cmd\<lparr>cmd_sync_timeout := n, cmd_sync_delay_msec := 2\<rparr>\<rparr> \<and>
      unat n = 30500)"
  using timeouts_configured [of 29 fresh_io] timeouts_configured [of 61 fresh_io] by (auto simp: fresh_io_def)

section \<open>Parsers\<close>

lemma config_request_timeout_outcome: "passes (\<lambda>_. True) (config_request_timeout timeout)"
  unfolding config_request_timeout_def by (intro passes_intros) simp_all

lemma config_sync_timeout_outcome: "passes (\<lambda>_. True) (config_sync_timeout timeout)"
  unfolding config_sync_timeout_def by (intro passes_intros) simp_all

lemma request_passes [passes_intros]: "passes (parsing op port) (config_request_timeout timeout)"
proof (rule passesI)
  fix s :: "'z cli_io_scheme" and e t
  show "config_request_timeout timeout s = (Inl e, t) \<Longrightarrow> \<exists>txt. stdout t = stdout s @ txt \<and> (e = goto_out_ver \<longrightarrow> txt \<noteq> [])"
    using passesD [OF config_request_timeout_outcome, where s = s and r = "Inl e" and t = t] by simp
next
  fix s :: "'z cli_io_scheme" and a t
  assume "parsing op port s" and ret: "config_request_timeout timeout s = (Inr a, t)"
  then show "parsing op port t \<and> stdout t = stdout s"
    by (cases rule: config_request_timeout_cases [of timeout s])
       (auto simp: parsing_def cmd_ok_def word_le_nat_alt)
qed

lemma sync_passes [passes_intros]: "passes (parsing op port) (config_sync_timeout timeout)"
proof (rule passesI)
  fix s :: "'z cli_io_scheme" and e t
  show "config_sync_timeout timeout s = (Inl e, t) \<Longrightarrow> \<exists>txt. stdout t = stdout s @ txt \<and> (e = goto_out_ver \<longrightarrow> txt \<noteq> [])"
    using passesD [OF config_sync_timeout_outcome, where s = s and r = "Inl e" and t = t] by simp
next
  fix s :: "'z cli_io_scheme" and a t
  assume "parsing op port s" and ret: "config_sync_timeout timeout s = (Inr a, t)"
  then show "parsing op port t \<and> stdout t = stdout s"
    by (cases rule: config_sync_timeout_cases [of timeout s])
       (auto simp: parsing_def cmd_ok_def word_le_nat_alt)
qed

lemma case_S_passes [passes_intros]: "passes (parsing op port) (case_S optarg)"
proof (rule passesI)
  fix s :: "'z cli_io_scheme" and a t
  assume "parsing op port s" "case_S optarg s = (Inr a, t)"
  then show "parsing op port t \<and> stdout t = stdout s"
    by (auto simp: case_S_def parsing_def cmd_ok_def set_fpga_def fail_on_user_def printf_def prog_simps not_le split: if_splits)
next
  fix s :: "'z cli_io_scheme" and e t
  show "case_S optarg s = (Inl e, t) \<Longrightarrow> \<exists>txt. stdout t = stdout s @ txt \<and> (e = goto_out_ver \<longrightarrow> txt \<noteq> [])"
    by (auto simp: case_S_def set_fpga_def fail_on_user_def printf_def prog_simps split: if_splits)
qed

lemma case_V_passes [passes_intros]: "passes I (case_V opt)"
  by (rule passesI) (auto simp: case_V_def print_version_def get_parser_completed_def set_fpga_def printf_def prog_simps split: if_splits)

lemma case_default_passes [passes_intros]: "passes I (case_default opt)"
  by (rule passesI) (auto simp: case_default_def get_parser_completed_def set_fpga_def prog_simps split: if_splits)

lemma require_slot_passes [passes_intros]: "passes I (require_slot msg)"
  by (rule passesI) (auto simp: require_slot_def printf_def prog_simps split: if_splits)

lemma case_I_passes [passes_intros]: "passes (parsing op port) (case_I optarg)"
proof -
  have "strncpy AFI_ID_STR_MAX (bytes_of_string optarg) \<noteq> []"
    using length_strncpy [of AFI_ID_STR_MAX "bytes_of_string optarg"] by (metis length_0_conv zero_neq_numeral)
  then have "last ((strncpy AFI_ID_STR_MAX (bytes_of_string optarg))[AFI_ID_STR_MAX - 1 := 0]) = 0"
    by (simp add: last_list_update)
  then show ?thesis unfolding case_I_def by (intro passes_intros) (simp add: parsing_def cmd_ok_def)
qed

lemma case_r_passes [passes_intros]: "passes (parsing op port) (case_r u optarg)"
  unfolding case_r_def by (intro passes_intros) simp

lemma case_s_passes [passes_intros]: "passes (parsing op port) (case_s u optarg)"
  unfolding case_s_def by (intro passes_intros) simp

lemma vdip_loop_passes [passes_intros]: "passes I (vdip_loop i ds status)"
  by (induction i ds status rule: vdip_loop.induct) (auto intro!: passes_intros)

lemma case_vdip_passes [passes_intros]: "passes (parsing op port) (case_vdip optarg status)"
  unfolding case_vdip_def by (intro passes_intros) (simp add: parsing_def cmd_ok_def)

lemma case_tcp_port_passes [passes_intros]: "passes (parsing op port) (case_tcp_port optarg temp_int)"
  unfolding case_tcp_port_def Let_def by (intro passes_intros) (simp add: parsing_def cmd_ok_def)

text \<open>A parser prints its help when it fails, unless the version was printed.\<close>

lemma finish_parse_outcome:
  assumes loop: "passes I loop" and final: "\<And>l. passes I (final l)" and I: "I s" and "usage \<noteq> []"
    and J: "\<And>l u a v. I u \<Longrightarrow> final l u = (Inr a, v) \<Longrightarrow> J v"
    and ret: "finish_parse usage (bindE loop final) s = (r, t)"
  shows "(r = Inr () \<and> J t \<and> stdout t = stdout s) \<or>
    (r = Inl (- EINVAL) \<and> (\<exists>txt. txt \<noteq> [] \<and> stdout t = stdout s @ txt))"
proof -
  obtain x u where m: "bindE loop final s = (x, u)" by fastforce
  note out = passesD [OF passes_bind [OF loop final] I m]
  show ?thesis
  proof (cases x)
    case (Inl e)
    have "concat (map (\<lambda>l. l @ newline) usage) \<noteq> []" using \<open>usage \<noteq> []\<close> by (cases usage) auto
    then show ?thesis
      using Inl out ret m by (auto simp: finish_parse_def print_usage_def printf_def prog_simps split: if_splits)
  next
    case (Inr a)
    obtain y v where l: "loop s = (y, v)" by fastforce
    with m Inr obtain l where y: "y = Inr l" and f: "final l v = (Inr a, u)" by (cases y) (auto simp: prog_simps)
    have "I v" using passesD [OF loop I l] y by simp
    from J [OF this f] show ?thesis using Inr out ret m by (auto simp: finish_parse_def prog_simps)
  qed
qed

lemma finish_parse_set:
  "finish_parse usage (bindE (set_fpga f) (\<lambda>_. m)) s = finish_parse usage m (s\<lparr>fpga := f (fpga s)\<rparr>)"
  by (simp add: finish_parse_def set_fpga_def prog_simps)

text \<open>What holds of a command that a parser has accepted.\<close>

definition accepted :: "u32 \<Rightarrow> ec2_fpga_cmd \<Rightarrow> bool" where
  "accepted op c \<longleftrightarrow> cmd_ok c \<and> opcode c = op \<and>
     (op \<noteq> CLI_CMD_DESCRIBE_SLOTS \<longrightarrow> afi_slot c < of_nat FPGA_SLOT_MAX) \<and>
     (op = CLI_CMD_LOAD \<longrightarrow> hd (cmd_afi_id c) \<noteq> 0) \<and> (op = CLI_CMD_START_VJTAG \<longrightarrow> tcp_port c \<noteq> None)"

lemma require_slot_ok: "require_slot msg s = (Inr a, t) \<Longrightarrow> t = s \<and> afi_slot (fpga s) \<noteq> - 1"
  by (auto simp: require_slot_def prog_simps printf_def split: if_splits)

lemmas parser_defs = parse_args_load_afi_def parse_args_clear_afi_def parse_args_describe_afi_def
  parse_args_describe_afi_slots_def parse_args_start_virtual_jtag_def parse_args_get_virtual_led_def
  parse_args_get_virtual_dip_def parse_args_set_virtual_dip_def parse_args_describe_clkgen_def
  parse_args_load_clkgen_recipe_def parse_args_load_clkgen_dynamic_def

lemmas usage_defs = opcode_str_usage_def describe_afi_slots_usage_def describe_afi_usage_def load_afi_usage_def
  clear_afi_usage_def start_virtual_jtag_usage_def get_virtual_led_usage_def get_virtual_dip_usage_def
  set_virtual_dip_usage_def describe_clkgen_usage_def load_clkgen_recipe_usage_def load_clkgen_dynamic_usage_def

text \<open>The result of a parser for the command \<open>op\<close>.\<close>

definition parsed :: "u32 \<Rightarrow> 'z cli_io_scheme \<Rightarrow> (int + unit) \<times> 'z cli_io_scheme \<Rightarrow> bool" where
  "parsed op s x = (case x of (r, t) \<Rightarrow>
     (r = Inr () \<and> accepted op (fpga t) \<and> stdout t = stdout s) \<or>
     (r = Inl (- EINVAL) \<and> (\<exists>txt. txt \<noteq> [] \<and> stdout t = stdout s @ txt)))"

lemma finish_parse_parsed:
  assumes "parsing op port s" and "usage \<noteq> []"
    and "\<And>u l a v. parsing op port u \<Longrightarrow> final l u = (Inr a, v) \<Longrightarrow> accepted op (fpga v)"
    and "passes (parsing op port) loop" and "\<And>l. passes (parsing op port) (final l)"
  shows "parsed op s (finish_parse usage (bindE loop final) s)"
proof -
  obtain r t where ret: "finish_parse usage (bindE loop final) s = (r, t)" by fastforce
  have "(r = Inr () \<and> accepted op (fpga t) \<and> stdout t = stdout s) \<or>
      (r = Inl (- EINVAL) \<and> (\<exists>txt. txt \<noteq> [] \<and> stdout t = stdout s @ txt))"
    by (rule finish_parse_outcome [where I = "parsing op port" and J = "\<lambda>s. accepted op (fpga s)", OF _ _ assms(1,2) _ ret])
       (use assms(3,4,5) in blast)+
  then show ?thesis by (simp add: parsed_def ret)
qed

lemma require_slot_accepted:
  assumes "op \<noteq> CLI_CMD_LOAD" "op \<noteq> CLI_CMD_START_VJTAG" "parsing op port u" "require_slot msg u = (Inr a, v)"
  shows "accepted op (fpga v)"
  using assms require_slot_ok [OF assms(4)] by (auto simp: accepted_def parsing_def cmd_ok_def)

lemmas parse_simps = parsing_def cmd_ok_def prog_simps

lemma parse_args_load_afi_parsed: "parsing CLI_CMD_LOAD False s \<Longrightarrow> parsed CLI_CMD_LOAD s (parse_args_load_afi u args s)"
  unfolding parse_args_load_afi_def
  by (erule finish_parse_parsed, simp add: load_afi_usage_def)
     (intro passes_intros | force dest: require_slot_ok simp: accepted_def parse_simps split: if_splits prod.splits)+

lemma parse_args_clear_afi_parsed: "parsing CLI_CMD_CLEAR False s \<Longrightarrow> parsed CLI_CMD_CLEAR s (parse_args_clear_afi u args s)"
  unfolding parse_args_clear_afi_def
  by (erule finish_parse_parsed, simp add: clear_afi_usage_def, erule (1) require_slot_accepted [rotated 2])
     (intro passes_intros | simp add: parse_simps)+

lemma parse_args_describe_afi_parsed: "parsing CLI_CMD_DESCRIBE False s \<Longrightarrow> parsed CLI_CMD_DESCRIBE s (parse_args_describe_afi u args s)"
  unfolding parse_args_describe_afi_def
  by (erule finish_parse_parsed, simp add: describe_afi_usage_def, erule (1) require_slot_accepted [rotated 2])
     (intro passes_intros | simp add: parse_simps)+

lemma parse_args_describe_afi_slots_parsed: "parsing CLI_CMD_DESCRIBE_SLOTS False s \<Longrightarrow> parsed CLI_CMD_DESCRIBE_SLOTS s (parse_args_describe_afi_slots u args s)"
  unfolding parse_args_describe_afi_slots_def
  by (erule finish_parse_parsed, simp add: describe_afi_slots_usage_def)
     (intro passes_intros | force dest: require_slot_ok simp: accepted_def parse_simps split: if_splits prod.splits)+

lemma parse_args_start_virtual_jtag_parsed:
  assumes "parsing CLI_CMD_START_VJTAG False s"
  shows "parsed CLI_CMD_START_VJTAG s (parse_args_start_virtual_jtag u args s)"
proof -
  let ?s = "s\<lparr>fpga := (fpga s)\<lparr>tcp_port := Some default_tcp_port\<rparr>\<rparr>"
  have "parsing CLI_CMD_START_VJTAG True ?s" using assms by (simp add: parse_simps)
  then have "parsed CLI_CMD_START_VJTAG ?s (parse_args_start_virtual_jtag u args s)"
    unfolding parse_args_start_virtual_jtag_def finish_parse_set
    by (rule finish_parse_parsed, simp add: start_virtual_jtag_usage_def)
       (intro passes_intros | force dest!: require_slot_ok simp: accepted_def parse_simps)+
  then show ?thesis by (simp add: parsed_def)
qed

lemma parse_args_get_virtual_led_parsed: "parsing CLI_CMD_GET_LED False s \<Longrightarrow> parsed CLI_CMD_GET_LED s (parse_args_get_virtual_led u args s)"
  unfolding parse_args_get_virtual_led_def
  by (erule finish_parse_parsed, simp add: get_virtual_led_usage_def, erule (1) require_slot_accepted [rotated 2])
     (intro passes_intros | simp add: parse_simps)+

lemma parse_args_get_virtual_dip_parsed: "parsing CLI_CMD_GET_DIP False s \<Longrightarrow> parsed CLI_CMD_GET_DIP s (parse_args_get_virtual_dip u args s)"
  unfolding parse_args_get_virtual_dip_def
  by (erule finish_parse_parsed, simp add: get_virtual_dip_usage_def, erule (1) require_slot_accepted [rotated 2])
     (intro passes_intros | simp add: parse_simps)+

lemma require_dip_accepted:
  assumes "parsing CLI_CMD_SET_DIP port u"
    and "(case l of (status, vdip_arg_found) \<Rightarrow> bindE (require_slot msg) (\<lambda>_.
      if \<not> vdip_arg_found then bindE (printf txt) (\<lambda>_. fail goto_err) else ok ())) u = (Inr a, v)"
  shows "accepted CLI_CMD_SET_DIP (fpga v)"
proof -
  obtain x w where r: "require_slot msg u = (x, w)" by fastforce
  with assms(2) obtain b where "x = Inr b" "w = v"
    by (cases x) (auto simp: prog_simps printf_def split: prod.splits if_splits)
  with r show ?thesis using require_slot_accepted [of CLI_CMD_SET_DIP port u msg b v] assms(1) by simp
qed

lemma parse_args_set_virtual_dip_parsed: "parsing CLI_CMD_SET_DIP False s \<Longrightarrow> parsed CLI_CMD_SET_DIP s (parse_args_set_virtual_dip u args s)"
  unfolding parse_args_set_virtual_dip_def
  by (erule finish_parse_parsed, simp add: set_virtual_dip_usage_def, erule require_dip_accepted)
     (intro passes_print_fail passes_intros | simp add: parse_simps)+

lemma parse_args_describe_clkgen_parsed: "parsing CLI_CMD_DESCRIBE_CLKGEN False s \<Longrightarrow> parsed CLI_CMD_DESCRIBE_CLKGEN s (parse_args_describe_clkgen u args s)"
  unfolding parse_args_describe_clkgen_def
  by (erule finish_parse_parsed, simp add: describe_clkgen_usage_def, erule (1) require_slot_accepted [rotated 2])
     (intro passes_intros | simp add: parse_simps)+

lemma parse_args_load_clkgen_recipe_parsed: "parsing CLI_CMD_LOAD_CLKGEN_RECIPE False s \<Longrightarrow> parsed CLI_CMD_LOAD_CLKGEN_RECIPE s (parse_args_load_clkgen_recipe u args s)"
  unfolding parse_args_load_clkgen_recipe_def
  by (erule finish_parse_parsed, simp add: load_clkgen_recipe_usage_def, erule (1) require_slot_accepted [rotated 2])
     (intro passes_intros | simp add: parse_simps)+

lemma parse_args_load_clkgen_dynamic_parsed: "parsing CLI_CMD_LOAD_CLKGEN_DYNAMIC False s \<Longrightarrow> parsed CLI_CMD_LOAD_CLKGEN_DYNAMIC s (parse_args_load_clkgen_dynamic u args s)"
  unfolding parse_args_load_clkgen_dynamic_def
  by (erule finish_parse_parsed, simp add: load_clkgen_dynamic_usage_def, erule (1) require_slot_accepted [rotated 2])
     (intro passes_intros | simp add: parse_simps)+

section \<open>Accepted and rejected command lines\<close>

lemma str2func_parsed:
  assumes "(str, op, parse) \<in> set (str2func u args)" and "parsing op False s"
  shows "op < CLI_CMD_END \<and> parsed op s (parse s)"
  using assms
  by (auto simp: str2func_def parse_args_load_afi_parsed parse_args_clear_afi_parsed parse_args_describe_afi_slots_parsed
    parse_args_describe_afi_parsed parse_args_start_virtual_jtag_parsed parse_args_get_virtual_led_parsed
    parse_args_get_virtual_dip_parsed parse_args_set_virtual_dip_parsed parse_args_describe_clkgen_parsed
    parse_args_load_clkgen_recipe_parsed parse_args_load_clkgen_dynamic_parsed)

lemma opcode_usage_printed: "concat (map (\<lambda>l. l @ newline) opcode_str_usage) \<noteq> []"
  by (simp add: opcode_str_usage_def)

lemma parse_args_outcome:
  fixes s :: "'z cli_io_scheme"
  assumes "fpga s = fresh_cmd" and "parse_args u argv s = (r, t)"
  shows "(r = Inr () \<and> opcode (fpga t) < CLI_CMD_END \<and> accepted (opcode (fpga t)) (fpga t) \<and> stdout t = stdout s) \<or>
    (r = Inl (- EINVAL) \<and> (\<exists>txt. txt \<noteq> [] \<and> stdout t = stdout s @ txt))"
proof (cases "List.find (\<lambda>(str, _, _). prefix str (argv ! 1))
    (str2func u (tl argv) :: (string \<times> u32 \<times> ('z cli_io_scheme, unit) prog) list)")
  case None
  then show ?thesis
    using assms opcode_usage_printed
    by (auto simp: parse_args_def prog_simps print_usage_def printf_def fresh_cmd_def simp del: concat_eq_Nil_conv split: if_splits)
next
  case (Some x)
  obtain str op parse where x: "x = (str, op, parse)" by (cases x)
  have mem: "(str, op, parse) \<in> set (str2func u (tl argv))"
    using Some unfolding x find_Some_iff by (auto simp: in_set_conv_nth)
  let ?s = "s\<lparr>fpga := (fpga s)\<lparr>opcode := op\<rparr>\<rparr>"
  have "parsing op False ?s" using assms(1) by (simp add: parse_simps fresh_cmd_def)
  note out = str2func_parsed [OF mem this]
  then have op: "op \<noteq> - 1" by auto
  obtain q v where p: "parse ?s = (q, v)" by fastforce
  show ?thesis
  proof (cases "length argv < 2")
    case True
    then show ?thesis using assms opcode_usage_printed
      by (auto simp: parse_args_def prog_simps print_usage_def printf_def simp del: concat_eq_Nil_conv)
  next
    case False
    then show ?thesis using assms(2) Some out op p x opcode_usage_printed
      by (auto simp: parse_args_def prog_simps set_fpga_def parsed_def accepted_def code_of_def print_usage_def printf_def
        simp del: concat_eq_Nil_conv split: if_splits)
  qed
qed

text \<open>
  C12. For every vector of words, the command line parser either accepts it silently with an
  opcode in range and options that are complete for that opcode (a slot below the limit, a
  terminated AFI id, timeouts of at least the defaults), or fails with -EINVAL after having
  printed something.
\<close>

theorem parse_args_accepts:
  fixes s :: "'z cli_io_scheme"
  assumes "fpga s = fresh_cmd" and "parse_args u argv s = (r, t)"
  shows "(r = Inr () \<and> opcode (fpga t) < CLI_CMD_END \<and> accepted (opcode (fpga t)) (fpga t) \<and> stdout t = stdout s) \<or>
    (r = Inl (- EINVAL) \<and> (\<exists>txt. txt \<noteq> [] \<and> stdout t = stdout s @ txt))"
  using assms by (rule parse_args_outcome)

section \<open>What a parser leaves alone\<close>

abbreviation rest :: "'z cli_io_scheme \<Rightarrow> 'z" where
  "rest s \<equiv> cli_io.more s"

lemma leaves_rest_set_fpga [leaves_intros]: "leaves rest (set_fpga f)"
  by (simp add: leaves_def set_fpga_def prog_simps)

lemma leaves_rest_printf [leaves_intros]: "leaves rest (printf out)"
  by (simp add: leaves_def printf_def prog_simps)

lemma leaves_foldE [leaves_intros]: "(\<And>x l. leaves f (g x l)) \<Longrightarrow> leaves f (foldE g xs l)"
  by (induction xs arbitrary: l) (auto intro!: leaves_intros)

lemma leaves_rest_finish [leaves_intros]: "leaves rest m \<Longrightarrow> leaves rest (finish_parse usage m)"
  unfolding finish_parse_def print_usage_def by (intro leaves_intros) (auto intro!: leaves_intros split: sum.splits)

lemma leaves_rest_vdip [leaves_intros]: "leaves rest (vdip_loop i ds status)"
  by (induction i ds status rule: vdip_loop.induct) (auto simp: fail_on_user_def intro!: leaves_intros)

lemmas case_defs = case_S_def case_r_def case_s_def case_V_def case_default_def case_I_def case_vdip_def case_tcp_port_def
  keeping_def require_slot_def config_request_timeout_def config_sync_timeout_def timeout_count_def fail_on_user_def
  print_version_def get_parser_completed_def Let_def

lemma leaves_rest_cases [leaves_intros]:
  "leaves rest (case_S x)" "leaves rest (case_r u x)" "leaves rest (case_s u x)" "leaves rest (case_V opt)"
  "leaves rest (case_default opt)" "leaves rest (case_I x)" "leaves rest (case_vdip x status)"
  "leaves rest (case_tcp_port x i)" "leaves rest (require_slot x)"
  unfolding case_defs by (intro leaves_intros)+

lemma leaves_rest_keeping [leaves_intros]: "leaves rest m \<Longrightarrow> leaves rest (keeping l m)"
  unfolding keeping_def by (intro leaves_intros)

lemma leaves_case_prod_apply [leaves_intros]:
  "(\<And>a b. leaves f (g a b l)) \<Longrightarrow> leaves f ((case x of (a, b) \<Rightarrow> g a b) l)"
  by (cases x) simp

lemma leaves_rest_parsers:
  "leaves rest (parse_args_load_afi u args)" "leaves rest (parse_args_clear_afi u args)"
  "leaves rest (parse_args_describe_afi u args)" "leaves rest (parse_args_describe_afi_slots u args)"
  "leaves rest (parse_args_start_virtual_jtag u args)" "leaves rest (parse_args_get_virtual_led u args)"
  "leaves rest (parse_args_get_virtual_dip u args)" "leaves rest (parse_args_set_virtual_dip u args)"
  "leaves rest (parse_args_describe_clkgen u args)" "leaves rest (parse_args_load_clkgen_recipe u args)"
  "leaves rest (parse_args_load_clkgen_dynamic u args)"
  unfolding parser_defs by (intro leaves_intros)+

lemma leaves_rest_parse_args: "leaves (rest :: 'z cli_io_scheme \<Rightarrow> 'z) (parse_args u argv)"
proof (cases "List.find (\<lambda>(str, _, _). prefix str (argv ! 1))
    (str2func u (tl argv) :: (string \<times> u32 \<times> ('z cli_io_scheme, unit) prog) list)")
  case None
  then show ?thesis
    unfolding parse_args_def print_usage_def None option.case by (intro leaves_intros)
next
  case (Some x)
  obtain str op parse where x: "x = (str, op, parse)" by (cases x)
  have "(str, op, parse) \<in> set (str2func u (tl argv))"
    using Some unfolding x by (auto simp: find_Some_iff in_set_conv_nth)
  then have "leaves rest parse" by (auto simp: str2func_def leaves_rest_parsers)
  then show ?thesis
    unfolding parse_args_def print_usage_def Some x option.case prod.case by (intro leaves_intros)
qed

section \<open>The options of a load\<close>

datatype load_arg = Slot_arg notation_of nat | Image_arg string | Request_arg notation_of nat | Sync_arg notation_of nat
  | Async_arg | Headers_arg | Force_arg | Prefetch_arg

fun load_event :: "load_arg \<Rightarrow> opt_event" where
  "load_event (Slot_arg k n) = (CHR ''S'', numeral_text k n)"
| "load_event (Image_arg afi) = (CHR ''I'', afi)"
| "load_event (Request_arg k n) = (CHR ''r'', numeral_text k n)"
| "load_event (Sync_arg k n) = (CHR ''s'', numeral_text k n)"
| "load_event Async_arg = (CHR ''A'', '''')"
| "load_event Headers_arg = (CHR ''H'', '''')"
| "load_event Force_arg = (CHR ''F'', '''')"
| "load_event Prefetch_arg = (CHR ''P'', '''')"

text \<open>Arguments the tool takes: a slot of the table, an image afi that fits, timeouts of at least the defaults.\<close>

fun load_arg_ok :: "load_arg \<Rightarrow> bool" where
  "load_arg_ok (Slot_arg k n) = (n < FPGA_SLOT_MAX)"
| "load_arg_ok (Image_arg afi) = (afi \<noteq> [] \<and> length afi < AFI_ID_STR_MAX \<and> list_all (\<lambda>c. c \<noteq> CHR 0x00) afi)"
| "load_arg_ok (Request_arg k n) = (30 \<le> n \<and> n \<le> 257698037)"
| "load_arg_ok (Sync_arg k n) = (60 \<le> n \<and> n \<le> 8589934)"
| "load_arg_ok _ = True"

text \<open>What they stand for; a timeout is counted in periods of 60 and of 2 milliseconds.\<close>

fun load_set :: "load_arg \<Rightarrow> ec2_fpga_cmd \<Rightarrow> ec2_fpga_cmd" where
  "load_set (Slot_arg k n) c = c\<lparr>afi_slot := of_nat n\<rparr>"
| "load_set (Image_arg afi) c = c\<lparr>cmd_afi_id := bytes_of_string afi @ replicate (AFI_ID_STR_MAX - length afi) 0\<rparr>"
| "load_set (Request_arg k n) c = c\<lparr>request_timeout := of_nat (n * 1000 div 60), request_delay_msec := 60\<rparr>"
| "load_set (Sync_arg k n) c = c\<lparr>cmd_sync_timeout := of_nat (n * 500), cmd_sync_delay_msec := 2\<rparr>"
| "load_set Async_arg c = c\<lparr>cmd_async := True\<rparr>"
| "load_set Headers_arg c = c\<lparr>show_headers := True\<rparr>"
| "load_set Force_arg c = c\<lparr>force_shell_reload := True\<rparr>"
| "load_set Prefetch_arg c = c\<lparr>cmd_prefetch := True, cmd_async := True\<rparr>"

lemma uint_or_numeral: "n < 2 ^ 32 \<Longrightarrow> uint_or x (numeral_text k n) = of_nat n"
  using strto_num_text(1) [of "[]" k n] numeral_text_head [of k n]
  by (simp add: uint_or_def string_to_uint_def strtol_def signed_value_def clamp_long_def Let_def)

lemma length_bytes_of_string [simp]: "length (bytes_of_string afi) = length afi"
  by (simp add: bytes_of_string_def)

lemma cstr_bytes_of_string: "list_all (\<lambda>c. c \<noteq> CHR 0x00) afi \<Longrightarrow> cstr (bytes_of_string afi) = bytes_of_string afi"
proof -
  have "(of_nat (of_char c) :: u8) \<noteq> 0" if "c \<noteq> CHR 0x00" for c
  proof -
    have "(of_char c :: nat) \<noteq> of_char (CHR 0x00)" using that by (simp only: of_char_eq_iff not_False_eq_True)
    then have "of_char c \<noteq> (0 :: nat)" by simp
    moreover have "of_char c < (256 :: nat)" by simp
    ultimately have "unat (of_nat (of_char c) :: u8) \<noteq> 0" by (simp add: unsigned_of_nat take_bit_nat_eq_self)
    then show ?thesis by auto
  qed
  then show "list_all (\<lambda>c. c \<noteq> CHR 0x00) afi \<Longrightarrow> ?thesis"
    by (auto simp: cstr_def takeWhile_eq_all_conv bytes_of_string_def list_all_iff)
qed

lemma case_I_apply:
  assumes "length afi < AFI_ID_STR_MAX" "list_all (\<lambda>c. c \<noteq> CHR 0x00) afi"
  shows "case_I afi s = (Inr (), s\<lparr>fpga := load_set (Image_arg afi) (fpga s)\<rparr>)"
proof -
  have "strncpy AFI_ID_STR_MAX (bytes_of_string afi) = bytes_of_string afi @ replicate (AFI_ID_STR_MAX - length afi) 0"
    using assms by (simp add: strncpy_def cstr_bytes_of_string take_replicate min_def)
  moreover have "(bytes_of_string afi @ replicate (AFI_ID_STR_MAX - length afi) (0 :: u8))[AFI_ID_STR_MAX - 1 := 0] =
      bytes_of_string afi @ replicate (AFI_ID_STR_MAX - length afi) 0"
    using assms by (intro list_update_same_conv [THEN iffD2]) (auto simp: nth_append)
  ultimately show ?thesis
    using assms(1) by (simp add: case_I_def fail_on_user_def set_fpga_def prog_simps)
qed

definition load_step :: "u32 \<Rightarrow> opt_event \<Rightarrow> ('z cli_io_scheme, unit) prog" where
  "load_step u = (\<lambda>(opt, optarg).
        if opt = CHR ''S'' then case_S optarg
        else if opt = CHR ''I'' then case_I optarg
        else if opt = CHR ''r'' then case_r u optarg
        else if opt = CHR ''s'' then case_s u optarg
        else if opt = CHR ''A'' then set_fpga (\<lambda>c. c\<lparr>cmd_async := True\<rparr>)
        else if opt = CHR ''H'' then set_fpga (\<lambda>c. c\<lparr>show_headers := True\<rparr>)
        else if opt = CHR ''F'' then set_fpga (\<lambda>c. c\<lparr>force_shell_reload := True\<rparr>)
        else if opt = CHR ''V'' then case_V opt
        else if opt = CHR ''P'' then set_fpga (\<lambda>c. c\<lparr>cmd_prefetch := True, cmd_async := True\<rparr>)
        else case_default opt)"

lemma case_r_apply:
  assumes "30 \<le> n" "n \<le> 257698037"
  shows "case_r u (numeral_text k n) s = (Inr (), s\<lparr>fpga := load_set (Request_arg k n) (fpga s)\<rparr>)"
proof -
  have n: "unat (of_nat n :: u32) = n" using assms by (simp add: unsigned_of_nat take_bit_nat_eq_self)
  obtain m where m: "config_request_timeout (of_nat n) s =
      (Inr (), s\<lparr>fpga := (fpga s)\<lparr>request_timeout := m, request_delay_msec := 60\<rparr>\<rparr>)"
    "unat m * 60 \<le> n * 1000" "n * 1000 < unat m * 60 + 60"
    by (rule config_request_timeout_cases [of "of_nat n" s]) (simp_all only: n, use assms in blast)
  then have "unat m = n * 1000 div 60" by (intro div_nat_eqI [symmetric]) auto
  then have "of_nat (unat m) = (of_nat (n * 1000 div 60) :: u32)" by (rule arg_cong)
  then have "m = of_nat (n * 1000 div 60)" by simp
  then show ?thesis using assms m(1) by (simp add: case_r_def uint_or_numeral prog_simps)
qed

lemma case_s_apply:
  assumes "60 \<le> n" "n \<le> 8589934"
  shows "case_s u (numeral_text k n) s = (Inr (), s\<lparr>fpga := load_set (Sync_arg k n) (fpga s)\<rparr>)"
proof -
  have n: "unat (of_nat n :: u32) = n" using assms by (simp add: unsigned_of_nat take_bit_nat_eq_self)
  obtain m where m: "config_sync_timeout (of_nat n) s =
      (Inr (), s\<lparr>fpga := (fpga s)\<lparr>cmd_sync_timeout := m, cmd_sync_delay_msec := 2\<rparr>\<rparr>)" "unat m * 2 = n * 1000"
    by (rule config_sync_timeout_cases [of "of_nat n" s]) (simp_all only: n, use assms in blast)
  then have "unat m = n * 500" by linarith
  then have "of_nat (unat m) = (of_nat (n * 500) :: u32)" by (rule arg_cong)
  then have "m = of_nat (n * 500)" by (simp del: of_nat_mult)
  then show ?thesis using assms m(1) by (simp add: case_s_def uint_or_numeral prog_simps)
qed

lemma case_S_apply:
  assumes "n < FPGA_SLOT_MAX"
  shows "case_S (numeral_text k n) s = (Inr (), s\<lparr>fpga := load_set (Slot_arg k n) (fpga s)\<rparr>)"
proof -
  have "\<not> (8 \<le> (of_nat n :: u32))" using assms
    by (simp add: word_le_nat_alt unsigned_of_nat take_bit_nat_eq_self)
  then show ?thesis using assms
    by (simp add: case_S_def set_fpga_def fail_on_user_def prog_simps uint_or_numeral)
qed

lemma load_step_apply:
  assumes "load_arg_ok arg"
  shows "load_step u (load_event arg) s = (Inr (), s\<lparr>fpga := load_set arg (fpga s)\<rparr>)"
  using assms
  by (cases arg) (simp_all add: load_step_def case_S_apply case_I_apply case_r_apply case_s_apply set_fpga_def prog_simps
    del: load_set.simps(1-4) numeral_text.simps)

lemma load_steps_apply:
  assumes "list_all load_arg_ok args"
  shows "foldE (\<lambda>x _. load_step u x) (map load_event args) () s = (Inr (), s\<lparr>fpga := fold load_set args (fpga s)\<rparr>)"
  using assms by (induction args arbitrary: s) (simp_all add: load_step_apply prog_simps)

text \<open>A slot and an image id that were given stay.\<close>

lemma load_sets_slot:
  assumes "list_all load_arg_ok args" and "afi_slot c \<noteq> - 1 \<or> (\<exists>k n. Slot_arg k n \<in> set args)"
  shows "afi_slot (fold load_set args c) \<noteq> - 1"
  using assms
proof (induction args arbitrary: c)
  case (Cons a args)
  have small: "(of_nat n :: u32) \<noteq> - 1" if "n < 8" for n
  proof -
    have "(of_nat n :: u32) < 8" using that by (simp add: word_less_nat_alt unsigned_of_nat take_bit_nat_eq_self)
    then show ?thesis by auto
  qed
  have "afi_slot (load_set a c) \<noteq> - 1 \<or> (\<exists>k n. Slot_arg k n \<in> set args)"
    using Cons.prems small by (cases a) auto
  then show ?case using Cons by simp
qed simp

lemma load_sets_image:
  assumes "list_all load_arg_ok args" and "hd (cmd_afi_id c) \<noteq> 0 \<or> (\<exists>afi. Image_arg afi \<in> set args)"
  shows "hd (cmd_afi_id (fold load_set args c)) \<noteq> 0"
  using assms
proof (induction args arbitrary: c)
  case (Cons a args)
  have "hd (bytes_of_string afi @ zs) \<noteq> 0" if "afi \<noteq> []" "list_all (\<lambda>c. c \<noteq> CHR 0x00) afi" for afi zs
    using that cstr_bytes_of_string [of afi] by (cases afi) (auto simp: bytes_of_string_def cstr_def split: if_splits)
  then have "hd (cmd_afi_id (load_set a c)) \<noteq> 0 \<or> (\<exists>afi. Image_arg afi \<in> set args)"
    using Cons.prems by (cases a) auto
  then show ?case using Cons by simp
qed simp

lemma load_set_opcode: "opcode (load_set a c) = opcode c"
  by (cases a) simp_all

lemma load_line_parsed:
  fixes s :: "'z cli_io_scheme"
  assumes "fpga s = fresh_cmd" and "list_all load_arg_ok args"
    and "Slot_arg k n \<in> set args" and "Image_arg afi \<in> set args"
    and "list_all2 (spells ''S:I:r:s:AH?hVFDP'' load_afi_options) wss (map load_event args)"
  shows "parse_args u (prog # ''LoadFpgaImage'' # concat wss) s =
    (Inr (), s\<lparr>fpga := fold load_set args (fresh_cmd\<lparr>opcode := CLI_CMD_LOAD\<rparr>)\<rparr>)"
proof -
  let ?words = "''LoadFpgaImage'' # concat wss"
  let ?s = "s\<lparr>fpga := fresh_cmd\<lparr>opcode := CLI_CMD_LOAD\<rparr>\<rparr>"
  have "getopt_long ''S:I:r:s:AH?hVFDP'' load_afi_options ?words = map load_event args"
    using getopt_long_spelling [OF assms(5), of "[]"] by (simp add: getopt_long_plain plain_word_def)
  then have parse: "parse_args_load_afi u ?words = finish_parse load_afi_usage
      (bindE (foldE (\<lambda>x _. load_step u x) (map load_event args) ()) (\<lambda>_.
        bindE (gets fpga) (\<lambda>c. if afi_slot c = - 1 \<or> hd (cmd_afi_id c) = 0 then fail goto_err else ok ())))"
    by (simp add: parse_args_load_afi_def load_step_def case_prod_unfold)
  have "parse_args_load_afi u ?words ?s = (Inr (), ?s\<lparr>fpga := fold load_set args (fpga ?s)\<rparr>)"
    unfolding parse
    using load_steps_apply [OF assms(2), of u ?s] load_sets_slot [OF assms(2), of "fpga ?s"]
      load_sets_image [OF assms(2), of "fpga ?s"] assms(3,4)
    by (auto simp: finish_parse_def prog_simps)
  moreover have "opcode (fold load_set args c) = opcode c" for c
    by (induction args arbitrary: c) (auto simp: load_set_opcode)
  ultimately show ?thesis using assms(1)
    by (simp add: parse_args_def str2func_def set_fpga_def prog_simps code_of_def ret_code_def)
qed

text \<open>A line as in the documentation, with an abbreviated long option.\<close>

definition demo_load_args :: "load_arg list" where
  "demo_load_args = [Slot_arg Decimal 3, Image_arg ''agfi-7'', Request_arg Decimal 60, Headers_arg]"

definition demo_load_words :: "string list list" where
  "demo_load_words = [[CHR ''-'' # [CHR ''S''], numeral_text Decimal 3], [CHR ''-'' # CHR ''I'' # ''agfi-7''],
     [''--'' @ ''request-t'' @ CHR ''='' # numeral_text Decimal 60], [''--'' @ ''headers'']]"

lemma demo_load_spelled:
  "list_all2 (spells ''S:I:r:s:AH?hVFDP'' load_afi_options) demo_load_words (map load_event demo_load_args)"
proof -
  let ?spells = "spells ''S:I:r:s:AH?hVFDP'' load_afi_options"
  have "?spells [''--'' @ ''request-t'' @ CHR ''='' # numeral_text Decimal 60] (CHR ''r'', numeral_text Decimal 60)"
    by (rule spells.long_joined [where full = "''request-timeout''"]) (simp_all add: find_long_def load_afi_options_def)
  moreover have "?spells [''--'' @ ''headers''] (CHR ''H'', '''')"
    by (rule spells.long_flag [where full = "''headers''"]) (simp_all add: find_long_def load_afi_options_def)
  moreover have "?spells [CHR ''-'' # [CHR ''S''], numeral_text Decimal 3] (CHR ''S'', numeral_text Decimal 3)"
    by (rule spells.short_word) (simp_all add: find_short_def)
  moreover have "?spells [CHR ''-'' # CHR ''I'' # ''agfi-7''] (CHR ''I'', ''agfi-7'')"
    by (rule spells.short_joined) (simp_all add: find_short_def)
  ultimately show ?thesis unfolding demo_load_words_def demo_load_args_def by simp
qed

lemma demo_load_args_ok: "list_all load_arg_ok demo_load_args" "Slot_arg Decimal 3 \<in> set demo_load_args"
  "Image_arg ''agfi-7'' \<in> set demo_load_args"
  by (simp_all add: demo_load_args_def)

text \<open>
  C11. Every spelling of a list of load options (short, joined, long, abbreviated to a unique
  prefix, with the value attached or in the next word, in any number base) is parsed back to the
  settings it spells, applied in order to the defaults.
\<close>

theorem load_command_line:
  assumes "fpga s = fresh_cmd" and "list_all load_arg_ok args"
    and "Slot_arg k n \<in> set args" and "Image_arg afi \<in> set args"
    and "list_all2 (spells ''S:I:r:s:AH?hVFDP'' load_afi_options) wss (map load_event args)"
  shows "parse_args u (prog # ''LoadFpgaImage'' # concat wss) s =
    (Inr (), s\<lparr>fpga := fold load_set args (fresh_cmd\<lparr>opcode := CLI_CMD_LOAD\<rparr>)\<rparr>)"
  using assms by (rule load_line_parsed)

theorem load_command_line_witness:
  "parse_args 0 (''fpga-local-cmd'' # ''LoadFpgaImage'' # concat demo_load_words) fresh_io =
    (Inr (), fresh_io\<lparr>fpga := fold load_set demo_load_args (fresh_cmd\<lparr>opcode := CLI_CMD_LOAD\<rparr>)\<rparr>)"
  using load_command_line [OF _ demo_load_args_ok demo_load_spelled, of fresh_io] by (simp add: fresh_io_def)

theorem parse_args_accepts_witness:
  "\<exists>t. parse_args 0 (''fpga-local-cmd'' # ''LoadFpgaImage'' # concat demo_load_words) fresh_io = (Inr (), t) \<and>
    accepted (opcode (fpga t)) (fpga t) \<and> afi_slot (fpga t) = 3"
proof -
  let ?t = "fresh_io\<lparr>fpga := fold load_set demo_load_args (fresh_cmd\<lparr>opcode := CLI_CMD_LOAD\<rparr>)\<rparr>"
  have "parse_args 0 (''fpga-local-cmd'' # ''LoadFpgaImage'' # concat demo_load_words) fresh_io = (Inr (), ?t)"
    using load_line_parsed [OF _ demo_load_args_ok demo_load_spelled, of fresh_io] by (simp add: fresh_io_def)
  from this parse_args_accepts [OF _ this] show ?thesis
    by (auto simp: fresh_io_def demo_load_args_def)
qed

end
