(* ===== verification/Vjtag.thy ===== *)
theory Vjtag
  imports Pci_Bars Returns
begin

text \<open>
  The virtual JTAG server: \<open>virtual_jtag_pcie.c\<close>, which shifts bits through the debug bridge behind BAR 2
  of the management function, and \<open>virtual_jtag_server.c\<close>, the Xilinx virtual cable protocol over TCP.
  The sockets are parameters that work on a state of their own, \<open>world\<close>.
\<close>

section \<open>Shifting bits\<close>

abbreviation (input) MGMT_PF_BAR2 :: int where "MGMT_PF_BAR2 \<equiv> 2"
abbreviation (input) LENGTH_REG_OFFSET :: u64 where "LENGTH_REG_OFFSET \<equiv> 0x00"
abbreviation (input) TMS_REG_OFFSET :: u64 where "TMS_REG_OFFSET \<equiv> 0x04"
abbreviation (input) TDI_REG_OFFSET :: u64 where "TDI_REG_OFFSET \<equiv> 0x08"
abbreviation (input) TDO_REG_OFFSET :: u64 where "TDO_REG_OFFSET \<equiv> 0x0C"
abbreviation (input) CONTROL_REG_OFFSET :: u64 where "CONTROL_REG_OFFSET \<equiv> 0x10"

definition open_port :: "'h platform \<Rightarrow> u32 \<Rightarrow> (('h, 'z) pci_st_scheme, int) prog" where
  "open_port P slot_id = fpga_pci_attach P (sint slot_id) (int FPGA_MGMT_PF) MGMT_PF_BAR2 0"

definition close_port :: "'h platform \<Rightarrow> int \<Rightarrow> (('h, 'z) pci_st_scheme, unit) prog" where
  "close_port P handle =
     (if 0 \<le> handle then bindE (attempt (fpga_pci_detach P handle)) (\<lambda>_. ok ()) else ok ())"

definition set_tck :: "u64 \<Rightarrow> u64" where
  "set_tck nsperiod = nsperiod"

text \<open>The wait for the end of a shift: at most so many looks at the control register.\<close>

fun shift_wait :: "'h platform \<Rightarrow> int \<Rightarrow> nat \<Rightarrow> (('h, 'z) pci_st_scheme, unit) prog" where
  "shift_wait P handle 0 = ok ()"
| "shift_wait P handle (Suc n_looks) =
     bindE (fpga_pci_peek P handle CONTROL_REG_OFFSET) (\<lambda>control_reg_data.
     if control_reg_data AND 0x01 = 0 then ok ()
     else if n_looks = 0 then fail (- ETIMEDOUT)
     else shift_wait P handle n_looks)"

definition xvc_shift_bits :: "'h platform \<Rightarrow> int \<Rightarrow> u32 \<Rightarrow> u32 \<Rightarrow> (('h, 'z) pci_st_scheme, u32) prog" where
  "xvc_shift_bits P handle tms_bits tdi_bits =
     bindE (fpga_pci_poke P handle TMS_REG_OFFSET tms_bits) (\<lambda>_.
     bindE (fpga_pci_poke P handle TDI_REG_OFFSET tdi_bits) (\<lambda>_.
     bindE (fpga_pci_poke P handle CONTROL_REG_OFFSET 0x01) (\<lambda>_.
     bindE (shift_wait P handle 100) (\<lambda>_.
     fpga_pci_peek P handle TDO_REG_OFFSET))))"

text \<open>
  The loop over the words. The two stores are local words whose low bytes are overwritten from the
  buffers; the answer goes to \<open>out\<close> at \<open>off\<close>. The function returns nothing: the first failure ends it, and
  the rest of the answer is left as it is.
\<close>

function shift_loop ::
  "'h platform \<Rightarrow> int \<Rightarrow> nat \<Rightarrow> nat \<Rightarrow> bytes \<Rightarrow> bytes \<Rightarrow> u8 list \<Rightarrow> u8 list \<Rightarrow> bytes \<Rightarrow> nat
    \<Rightarrow> (('h, 'z) pci_st_scheme, bytes) prog" where
  "shift_loop P handle num_bits current_bit tms_store tdi_store tms tdi out off =
     (if current_bit < num_bits then
        let n = (if num_bits - current_bit < 32 then num_bits - current_bit else 32);
            k = (n + 7) div 8;
            tms_store = put_list tms_store 0 (take k (drop (current_bit div 8) tms));
            tdi_store = put_list tdi_store 0 (take k (drop (current_bit div 8) tdi))
        in bindE (attempt (bindE (if num_bits - current_bit < 32
              then fpga_pci_poke P handle LENGTH_REG_OFFSET (of_nat n) else ok ()) (\<lambda>_.
            xvc_shift_bits P handle (get32 tms_store 0) (get32 tdi_store 0)))) (\<lambda>r.
          case r of
            Inl _ \<Rightarrow> ok out
          | Inr tdo \<Rightarrow>
              shift_loop P handle num_bits (current_bit + n) tms_store tdi_store tms tdi
                (put_list out (off + current_bit div 8) (get_list (put32 zero_bytes 0 tdo) 0 k)) off)
      else ok out)"
  by pat_completeness auto
termination
  by (relation "measure (\<lambda>(P, handle, num_bits, current_bit, _). num_bits - current_bit)") (auto split: if_splits)

declare shift_loop.simps [simp del]

definition shift_tms_tdi ::
  "'h platform \<Rightarrow> int \<Rightarrow> u32 \<Rightarrow> u8 list \<Rightarrow> u8 list \<Rightarrow> bytes \<Rightarrow> nat \<Rightarrow> (('h, 'z) pci_st_scheme, bytes) prog" where
  "shift_tms_tdi P handle bitcount tms tdi out off =
     bindE (attempt (if 32 \<le> bitcount then fpga_pci_poke P handle LENGTH_REG_OFFSET 0x20 else ok ())) (\<lambda>r.
     case r of
       Inl _ \<Rightarrow> ok out
     | Inr _ \<Rightarrow> shift_loop P handle (unat bitcount) 0 zero_bytes zero_bytes tms tdi out off)"

end
