(* ===== verification/Xvc_Server.thy ===== *)
theory Xvc_Server
  imports Vjtag
begin

text \<open>
  The server of \<open>virtual_jtag_server.c\<close>. A buffer of the client is the list of its valid bytes. \<open>None\<close>
  stands for a call that does not come back: a loop without end, a failed assertion, and an access beyond
  the end of a buffer, whose outcome is not defined.
\<close>

section \<open>State\<close>

text \<open>The socket calls; the options \<open>SO_REUSEADDR\<close> and \<open>TCP_NODELAY\<close> have a call each. An address is a number.\<close>

record 'w net_ops =
  n_getaddrinfo :: "string option \<Rightarrow> 'w \<Rightarrow> nat list option \<times> 'w"
  n_socket :: "nat \<Rightarrow> 'w \<Rightarrow> int \<times> 'w"
  n_reuseaddr :: "int \<Rightarrow> 'w \<Rightarrow> int \<times> 'w"
  n_bind :: "int \<Rightarrow> nat \<Rightarrow> 'w \<Rightarrow> int \<times> 'w"
  n_listen :: "int \<Rightarrow> 'w \<Rightarrow> int \<times> 'w"
  n_accept :: "int \<Rightarrow> 'w \<Rightarrow> int \<times> 'w"
  n_nodelay :: "int \<Rightarrow> 'w \<Rightarrow> int \<times> 'w"
  n_recv :: "int \<Rightarrow> nat \<Rightarrow> 'w \<Rightarrow> u8 list option \<times> 'w"
  n_send :: "int \<Rightarrow> u8 list \<Rightarrow> 'w \<Rightarrow> int \<times> 'w"
  n_close :: "int \<Rightarrow> 'w \<Rightarrow> int \<times> 'w"

record ('h, 'w) xvc_st = "'h pci_st" +
  reply_buf :: bytes
  reply_max :: u32
  reply_len :: nat
  world :: 'w

record xvc_client =
  xc_buf :: "u8 list"
  xc_buf_max :: nat
  xc_handle :: int
  xc_fd :: int
  xc_enable_status :: bool
  xc_pending_error :: bool

abbreviation (input) MAX_PACKET_LEN :: nat where "MAX_PACKET_LEN \<equiv> 10000"
abbreviation (input) XVC_VERSION :: nat where "XVC_VERSION \<equiv> 10"

definition on_world :: "('w \<Rightarrow> 'a \<times> 'w) \<Rightarrow> (('h, 'w, 'z) xvc_st_scheme, 'a) prog" where
  "on_world f = (\<lambda>s. case f (world s) of (a, w) \<Rightarrow> (Inr a, s\<lparr>world := w\<rparr>))"

section \<open>The listening socket\<close>

text \<open>
  The addresses in order, until one can be bound and listened on. The result is the socket, or a negative
  number; when the addresses are not found it is \<open>FPGA_ERR_FAIL\<close>, which is positive.
\<close>

fun open_loop :: "'w net_ops \<Rightarrow> nat list \<Rightarrow> int \<Rightarrow> (('h, 'w, 'z) xvc_st_scheme, int) prog" where
  "open_loop N [] sock = ok sock"
| "open_loop N (res # reslist) sock =
     bindE (on_world (n_socket N res)) (\<lambda>sock.
     if sock < 0 then open_loop N reslist sock
     else
       bindE (on_world (n_reuseaddr N sock)) (\<lambda>rc.
       bindE (if rc < 0 then ok 1 else on_world (n_bind N sock res)) (\<lambda>rc.
       bindE (if rc \<noteq> 0 then ok 1 else on_world (n_listen N sock)) (\<lambda>rc.
       if rc = 0 then ok sock
       else bindE (on_world (n_close N sock)) (\<lambda>_. open_loop N reslist (- 1))))))"

definition open_server :: "'w net_ops \<Rightarrow> string option \<Rightarrow> (('h, 'w, 'z) xvc_st_scheme, int) prog" where
  "open_server N tcp_port =
     bindE (on_world (n_getaddrinfo N tcp_port)) (\<lambda>r.
     case r of
       None \<Rightarrow> ok FPGA_ERR_FAIL
     | Some reslist \<Rightarrow> open_loop N reslist (- 1))"

section \<open>Requests\<close>

text \<open>\<open>get_uint_le\<close> and \<open>set_uint_le\<close>.\<close>

fun get_uint_le :: "u8 list \<Rightarrow> u32" where
  "get_uint_le [] = 0"
| "get_uint_le (b # bs) = push_bit 8 (get_uint_le bs) OR ucast b"

fun set_uint_le :: "nat \<Rightarrow> u32 \<Rightarrow> u8 list" where
  "set_uint_le 0 v = []"
| "set_uint_le (Suc n) v = ucast v # set_uint_le n (drop_bit 8 v)"

text \<open>
  A request at the start of the bytes from \<open>cbuf\<close> to \<open>cend\<close>: the data of a shift are its two vectors.
  \<open>Need_more\<close> leaves the loop to receive more, \<open>Protocol_error\<close> ends the connection, and \<open>Assertion\<close> is the
  one that a message fits the buffer.
\<close>

datatype xvc_request = Getinfo | Shift u32 "u8 list" "u8 list" | Settck u32
  | Need_more | Protocol_error | Assertion

definition word_getinfo :: "u8 list" where
  "word_getinfo = bytes_of_string ''getinfo:''"

definition word_shift :: "u8 list" where
  "word_shift = bytes_of_string ''shift:''"

definition word_settck :: "u8 list" where
  "word_settck = bytes_of_string ''settck:''"

definition shift_request :: "nat \<Rightarrow> u8 list \<Rightarrow> xvc_request" where
  "shift_request buf_max rest =
     (if length rest < 4 then Need_more
      else
        let bits = get_uint_le (take 4 rest);
            n = unat ((bits + 7) div 8)
        in if length rest < 4 + 2 * n then (if 10 + 2 * n \<le> buf_max then Need_more else Assertion)
           else Shift bits (take n (drop 4 rest)) (take n (drop (4 + n) rest)))"

definition settck_request :: "u8 list \<Rightarrow> xvc_request" where
  "settck_request rest = (if length rest < 4 then Need_more else Settck (get_uint_le (take 4 rest)))"

definition next_request :: "nat \<Rightarrow> u8 list \<Rightarrow> xvc_request" where
  "next_request buf_max cbuf =
     (let e = min 30 (length cbuf);
          p = length (takeWhile (\<lambda>b. b \<noteq> 58) (take e cbuf))
      in if e \<le> p then (if 30 \<le> p then Protocol_error else Need_more)
         else
           let word = take (p + 1) cbuf;
               rest = drop (p + 1) cbuf
           in if word = word_getinfo then Getinfo
              else if word = word_shift then shift_request buf_max rest
              else if word = word_settck then settck_request rest
              else Protocol_error)"

text \<open>The length of a complete request.\<close>

fun request_size :: "xvc_request \<Rightarrow> nat" where
  "request_size Getinfo = 8"
| "request_size (Shift bits tms tdi) = 10 + length tms + length tdi"
| "request_size (Settck nsperiod) = 11"
| "request_size _ = 0"

definition complete_request :: "xvc_request \<Rightarrow> bool" where
  "complete_request r \<longleftrightarrow> r \<notin> {Need_more, Protocol_error, Assertion}"

section \<open>Replies\<close>

text \<open>Doubling the size of the reply buffer until it holds \<open>bytes\<close>; 32 doublings exhaust the type.\<close>

fun grow_reply :: "nat \<Rightarrow> u32 \<Rightarrow> u32 \<Rightarrow> u32" where
  "grow_reply 0 bytes m = m"
| "grow_reply (Suc n) bytes m = (if m < bytes then grow_reply n bytes (m * 2) else m)"

definition reply_buf_size :: "u32 \<Rightarrow> (('h, 'w, 'z) xvc_st_scheme, unit) prog" where
  "reply_buf_size bytes = modify (\<lambda>s.
     if reply_max s < bytes
     then s\<lparr>reply_max := grow_reply 32 bytes (if reply_max s = 0 then 1 else reply_max s)\<rparr> else s)"

text \<open>
  Writing \<open>bs\<close> at \<open>reply_buf + reply_len\<close>, of which the first \<open>n\<close> bytes are counted: undefined when they do
  not fit.
\<close>

definition put_reply :: "u8 list \<Rightarrow> nat \<Rightarrow> (('h, 'w, 'z) xvc_st_scheme, unit) run" where
  "put_reply bs n = (\<lambda>s.
     if reply_len s + length bs \<le> unat (reply_max s)
     then Some (Inr (), s\<lparr>reply_buf := put_list (reply_buf s) (reply_len s) bs, reply_len := reply_len s + n\<rparr>)
     else None)"

text \<open>The text of the version, always shorter than the limit of 100 bytes, and its terminating zero.\<close>

definition getinfo_text :: "nat \<Rightarrow> string" where
  "getinfo_text buf_max = ''xvcServer_v'' @ digits_of 10 (XVC_VERSION div 10) @ ''.'' @
     digits_of 10 (XVC_VERSION mod 10) @ '':'' @ digits_of 10 buf_max @ [CHR 0x0A]"

text \<open>
  A shift of \<open>bits\<close> bits whose vectors have fewer, because the sum \<open>bits + 7\<close> has wrapped, reads beyond them.
  The room for the reply is taken as \<open>length tms\<close> bytes.
\<close>

definition shift_reply :: "'h platform \<Rightarrow> xvc_client \<Rightarrow> u32 \<Rightarrow> u8 list \<Rightarrow> u8 list \<Rightarrow> (('h, 'w, 'z) xvc_st_scheme, unit) run" where
  "shift_reply P c bits tms tdi = (\<lambda>s.
     if xc_pending_error c then put_reply (replicate (length tms) 0) (length tms) s
     else if 8 * length tms < unat bits \<or> unat (reply_max s) < reply_len s + length tms then None
     else bindR (returns (shift_tms_tdi P (xc_handle c) bits tms tdi (reply_buf s) (reply_len s))) (\<lambda>out.
       returns (modify (\<lambda>s. s\<lparr>reply_buf := out, reply_len := reply_len s + length tms\<rparr>))) s)"

fun answer :: "'h platform \<Rightarrow> xvc_client \<Rightarrow> xvc_request \<Rightarrow> (('h, 'w, 'z) xvc_st_scheme, unit) run" where
  "answer P c Getinfo =
     put_reply (bytes_of_string (getinfo_text (xc_buf_max c)) @ [0]) (length (getinfo_text (xc_buf_max c)))"
| "answer P c (Shift bits tms tdi) = shift_reply P c bits tms tdi"
| "answer P c (Settck nsperiod) =
     put_reply (set_uint_le 4 (if xc_pending_error c then nsperiod else ucast (set_tck (ucast nsperiod)))) 4"
| "answer P c _ = never"

lemma request_word:
  assumes "take (p + 1) cbuf = w" and "p < length cbuf"
  shows "p + 1 = length w" "w @ drop (p + 1) cbuf = cbuf"
  using assms by (auto simp: append_eq_conv_conj)

lemma word_lengths [simp]: "length word_getinfo = 8" "length word_shift = 6" "length word_settck = 7"
  by (simp_all add: word_getinfo_def word_shift_def word_settck_def bytes_of_string_def)

lemma request_size_le: "request_size (next_request buf_max cbuf) \<le> length cbuf"
proof -
  define p where "p = length (takeWhile (\<lambda>b. b \<noteq> 58) (take (min 30 (length cbuf)) cbuf))"
  show ?thesis
  proof (cases "min 30 (length cbuf) \<le> p")
    case True
    then show ?thesis by (simp add: next_request_def p_def [symmetric] Let_def)
  next
    case False
    then have p: "p < length cbuf" by simp
    note w = request_word [OF _ p]
    have "request_size (shift_request buf_max (drop (p + 1) cbuf)) \<le> length cbuf" if "take (p + 1) cbuf = word_shift"
      using w(1) [OF that] by (auto simp: shift_request_def Let_def)
    moreover have "request_size (settck_request (drop (p + 1) cbuf)) \<le> length cbuf" if "take (p + 1) cbuf = word_settck"
      using w(1) [OF that] by (auto simp: settck_request_def)
    moreover have "8 \<le> length cbuf" if "take (p + 1) cbuf = word_getinfo"
      using w(1) [OF that] p by simp
    ultimately show ?thesis
      using False by (auto simp: next_request_def p_def [symmetric] Let_def)
  qed
qed

lemma request_size_pos: "complete_request r \<Longrightarrow> 0 < request_size r"
  by (cases r) (auto simp: complete_request_def)

section \<open>The connection\<close>

text \<open>
  The loop over the requests that are complete, from \<open>cbuf\<close> on. The result is what is left of the buffer
  when more is needed (\<open>fill\<close> is set), or \<open>None\<close> for a protocol error.
\<close>

function requests_loop :: "'h platform \<Rightarrow> xvc_client \<Rightarrow> u8 list \<Rightarrow> (('h, 'w, 'z) xvc_st_scheme, u8 list option) run" where
  "requests_loop P c cbuf =
     (let r = next_request (xc_buf_max c) cbuf in
      if r = Need_more then returns (ok (Some cbuf))
      else if r = Protocol_error then returns (ok None)
      else if r = Assertion then never
      else bindR (answer P c r) (\<lambda>_. requests_loop P c (drop (request_size r) cbuf)))"
  by pat_completeness auto
termination
proof (relation "measure (\<lambda>(P, c, cbuf). length cbuf)", simp, clarify)
  fix c :: xvc_client and cbuf
  assume "next_request (xc_buf_max c) cbuf \<noteq> Need_more" "next_request (xc_buf_max c) cbuf \<noteq> Protocol_error"
    "next_request (xc_buf_max c) cbuf \<noteq> Assertion"
  then have "0 < request_size (next_request (xc_buf_max c) cbuf)"
    by (intro request_size_pos) (simp add: complete_request_def)
  then show "((P, c, drop (request_size (next_request (xc_buf_max c) cbuf)) cbuf), P, c, cbuf)
      \<in> measure (\<lambda>(P, c, cbuf). length cbuf)" for P
    using request_size_le [of "xc_buf_max c" cbuf] by simp
qed

declare requests_loop.simps [simp del]

definition send_packet :: "'w net_ops \<Rightarrow> xvc_client \<Rightarrow> u8 list \<Rightarrow> (('h, 'w, 'z) xvc_st_scheme, int) prog" where
  "send_packet N c buf = on_world (n_send N (xc_fd c) buf)"

text \<open>
  \<open>read_packet\<close> from its label \<open>read_more\<close>. When the loop over the requests ends without an error, \<open>fill\<close> is set, so that
  a packet is received next. The result is the client, whose buffer the caller frees.
\<close>

partial_function (option) read_more ::
  "'h platform \<Rightarrow> 'w net_ops \<Rightarrow> xvc_client \<Rightarrow> ('h, 'w, 'z) xvc_st_scheme
     \<Rightarrow> ((int + unit) \<times> ('h, 'w, 'z) xvc_st_scheme) option" where
  "read_more P N c s =
     bindR (returns (modify (\<lambda>s. s\<lparr>reply_len := 0\<rparr>))) (\<lambda>_.
     bindR (requests_loop P c (xc_buf c)) (\<lambda>cbuf.
       if cbuf = None then returns (ok ())
       else
         bindR (returns
           (if length (the cbuf) < length (xc_buf c)
            then bindE (gets (\<lambda>s. get_list (reply_buf s) 0 (reply_len s))) (send_packet N c)
            else ok 0)) (\<lambda>rval.
         if rval < 0 then returns (ok ())
         else
           bindR (returns (on_world (n_recv N (xc_fd c) (xc_buf_max c - length (the cbuf))))) (\<lambda>len.
           if len = None \<or> len = Some [] then returns (ok ())
           else read_more P N (c\<lparr>xc_buf := the cbuf @ the len\<rparr>))))) s"

definition read_packet :: "'h platform \<Rightarrow> 'w net_ops \<Rightarrow> xvc_client \<Rightarrow> (('h, 'w, 'z) xvc_st_scheme, unit) run" where
  "read_packet P N c = bindR (returns (reply_buf_size (of_nat MAX_PACKET_LEN))) (\<lambda>_. read_more P N c)"

section \<open>The server\<close>

text \<open>One connection on \<open>fd\<close>.\<close>

definition fresh_client :: "int \<Rightarrow> int \<Rightarrow> xvc_client" where
  "fresh_client fd h = \<lparr>xc_buf = [], xc_buf_max = MAX_PACKET_LEN, xc_handle = h, xc_fd = fd, xc_enable_status = False,
     xc_pending_error = False\<rparr>"

definition serve_client :: "'h platform \<Rightarrow> 'w net_ops \<Rightarrow> u32 \<Rightarrow> int \<Rightarrow> (('h, 'w, 'z) xvc_st_scheme, unit) run" where
  "serve_client P N slot_id fd =
     bindR (returns (bindE (on_world (n_nodelay N fd)) (\<lambda>_. attempt (open_port P slot_id)))) (\<lambda>r.
     case r of
       Inl e \<Rightarrow> returns (bindE (on_world (n_close N fd)) (\<lambda>_. ok ()))
     | Inr h \<Rightarrow>
         bindR (read_packet P N (fresh_client fd h)) (\<lambda>_.
         returns (bindE (close_port P h) (\<lambda>_.
           bindE (on_world (n_close N fd)) (\<lambda>_. ok ())))))"

partial_function (option) accept_loop ::
  "'h platform \<Rightarrow> 'w net_ops \<Rightarrow> u32 \<Rightarrow> int \<Rightarrow> ('h, 'w, 'z) xvc_st_scheme
     \<Rightarrow> ((int + unit) \<times> ('h, 'w, 'z) xvc_st_scheme) option" where
  "accept_loop P N slot_id sock s =
     bindR (returns (on_world (n_accept N sock))) (\<lambda>fd.
       if fd < 0 then returns (ok ())
       else bindR (serve_client P N slot_id fd) (\<lambda>_. accept_loop P N slot_id sock)) s"

definition xvcserver_start ::
  "'h platform \<Rightarrow> 'w net_ops \<Rightarrow> u32 \<Rightarrow> string option \<Rightarrow> (('h, 'w, 'z) xvc_st_scheme, unit) run" where
  "xvcserver_start P N slot_id tcp_port =
     bindR (returns (open_server N tcp_port)) (\<lambda>sock.
     if sock < 0 then returns (fail 1)
     else bindR (accept_loop P N slot_id sock) (\<lambda>_.
       returns (bindE (on_world (n_close N sock)) (\<lambda>_. ok ()))))"

end
