(* ===== verification/Log_Messages.thy ===== *)
theory Log_Messages
  imports Demo_Platform
begin

text \<open>
  The log of the library and of the tools: \<open>utils/log.c\<close> and \<open>utils/logger-kmsg.c\<close>. The text of the current
  time is a parameter, as is \<open>errno\<close>; a format with its arguments is the text it expands to.
\<close>

section \<open>State\<close>

abbreviation (input) ENAMETOOLONG :: int where "ENAMETOOLONG \<equiv> 36"
abbreviation (input) ENOTSUP :: int where "ENOTSUP \<equiv> 95"

abbreviation (input) LOG_MESSAGE_LENGTH_MAX :: nat where "LOG_MESSAGE_LENGTH_MAX \<equiv> 512"
abbreviation (input) LOG_NAME_MAX :: nat where "LOG_NAME_MAX \<equiv> 32"
abbreviation (input) LOG_LOGGERS_MAX :: nat where "LOG_LOGGERS_MAX \<equiv> 8"

datatype log_level = LOG_LEVEL_ERROR | LOG_LEVEL_WARNING | LOG_LEVEL_INFO | LOG_LEVEL_DEBUG | LOG_LEVEL_END

text \<open>The loggers of the repository; the terminal log of a process is \<open>log_stdout\<close>.\<close>

datatype logger = Logger_stdout | Logger_kmsg

record 'h log_st = "'h pci_st" +
  log_name :: string
  log_prefix :: string
  loggers :: "logger list"
  log_stdout :: string

definition kmsg_path :: string where
  "kmsg_path = ''/dev/kmsg''"

fun logger_name :: "logger \<Rightarrow> string" where
  "logger_name Logger_stdout = ''stdout''"
| "logger_name Logger_kmsg = ''kmsg''"

section \<open>Initialisation\<close>

text \<open>\<open>vsnprintf\<close> into a buffer of \<open>n\<close> bytes: what is stored, and whether it was cut.\<close>

definition vsnprintf :: "nat \<Rightarrow> string \<Rightarrow> string" where
  "vsnprintf n txt = take (n - 1) txt"

definition log_init :: "string \<Rightarrow> (('h, 'z) log_st_scheme, unit) prog" where
  "log_init txt =
     bindE (modify (\<lambda>s. s\<lparr>log_name := vsnprintf LOG_NAME_MAX txt, loggers := []\<rparr>)) (\<lambda>_.
     fail_on (LOG_NAME_MAX \<le> length txt) (- ENAMETOOLONG))"

definition log_init_prefix :: "string \<Rightarrow> (('h, 'z) log_st_scheme, unit) prog" where
  "log_init_prefix txt =
     bindE (modify (\<lambda>s. s\<lparr>log_prefix := vsnprintf LOG_NAME_MAX txt\<rparr>)) (\<lambda>_.
     fail_on (LOG_NAME_MAX \<le> length txt) (- ENAMETOOLONG))"

definition kmsg_init :: "'h platform \<Rightarrow> ('h \<Rightarrow> int) \<Rightarrow> (('h, 'z) log_st_scheme, unit) prog" where
  "kmsg_init P errno =
     bindE (gets plat) (\<lambda>h. if k_open P h kmsg_path O_WRONLY then ok () else fail (- errno h))"

text \<open>Neither logger has a function to initialise it again; only the kernel's has one to initialise it.\<close>

fun logger_init :: "'h platform \<Rightarrow> ('h \<Rightarrow> int) \<Rightarrow> logger \<Rightarrow> (('h, 'z) log_st_scheme, unit) prog" where
  "logger_init P errno Logger_stdout = ok ()"
| "logger_init P errno Logger_kmsg = kmsg_init P errno"

definition log_attach :: "'h platform \<Rightarrow> ('h \<Rightarrow> int) \<Rightarrow> logger \<Rightarrow> (('h, 'z) log_st_scheme, unit) prog" where
  "log_attach P errno l =
     bindE (gets loggers) (\<lambda>ls.
     bindE (fail_on (l \<in> set ls) (- ENOTSUP)) (\<lambda>_.
     bindE (fail_on (LOG_LOGGERS_MAX \<le> length ls) (- ENOMEM)) (\<lambda>_.
     bindE (logger_init P errno l) (\<lambda>_.
     modify (\<lambda>s. s\<lparr>loggers := loggers s @ [l]\<rparr>)))))"

section \<open>Messages\<close>

fun str_log_level :: "log_level \<Rightarrow> string" where
  "str_log_level LOG_LEVEL_ERROR = ''ERROR''"
| "str_log_level LOG_LEVEL_WARNING = ''WARNING''"
| "str_log_level LOG_LEVEL_INFO = ''INFO''"
| "str_log_level LOG_LEVEL_DEBUG = ''DEBUG''"
| "str_log_level LOG_LEVEL_END = ''UNKNOWN''"

fun kmsg_level :: "log_level \<Rightarrow> string" where
  "kmsg_level LOG_LEVEL_ERROR = ''<3>''"
| "kmsg_level LOG_LEVEL_WARNING = ''<4>''"
| "kmsg_level LOG_LEVEL_INFO = ''<6>''"
| "kmsg_level LOG_LEVEL_DEBUG = ''<7>''"
| "kmsg_level LOG_LEVEL_END = ''''"

definition str_error_number :: "int \<Rightarrow> string" where
  "str_error_number e = ''error_number='' @ fmt_d e"

definition log_newline :: string where
  "log_newline = [CHR 0x0A]"

definition log_printf :: "string \<Rightarrow> (('h, 'z) log_st_scheme, unit) prog" where
  "log_printf txt = modify (\<lambda>s. s\<lparr>log_stdout := log_stdout s @ txt\<rparr>)"

definition internal_log :: "string \<Rightarrow> (('h, 'z) log_st_scheme, unit) prog" where
  "internal_log txt = log_printf
     ((if LOG_MESSAGE_LENGTH_MAX \<le> length txt then ''(TRUNCATED) '' else '''') @
      vsnprintf LOG_MESSAGE_LENGTH_MAX txt @ log_newline)"

text \<open>
  The parts of a message, each with the complaint when it does not fit. \<open>strftime\<close> stores nothing when the
  text does not fit; \<open>snprintf\<close> does, but what follows is written over it.
\<close>

record log_call =
  lc_level :: log_level
  lc_file :: string
  lc_line :: int
  lc_func :: string
  lc_text :: string
  lc_error :: int
  lc_time :: string
  lc_us :: nat

definition log_parts :: "string \<Rightarrow> string \<Rightarrow> log_call \<Rightarrow> (string \<times> string) list" where
  "log_parts name pre c =
     [(lc_time c, ''strftime() failed''),
      (''.'' @ replicate (6 - length (digits_of 10 (lc_us c))) (CHR ''0'') @ digits_of 10 (lc_us c) @ ''Z, '',
       ''snprintf() us failed''),
      (name @ '', '', ''snprintf() name failed''),
      (str_log_level (lc_level c) @ '', '', ''snprintf() log level failed''),
      (lc_file c @ '' +'' @ fmt_d (lc_line c) @ '': '' @ lc_func c @ ''(): '', ''snprintf() file +line: func() failed'')] @
     (if pre \<noteq> [] then [(pre @ '': '', ''snprintf() prefix failed'')] else []) @
     [(lc_text c, ''vsnprintf() message failed'')] @
     (if lc_error c \<noteq> 0 then [('': '' @ str_error_number (lc_error c), ''snprintf() error message failed'')] else []) @
     [(log_newline, ''snprintf() '' @ [CHR 0x5C] @ ''n failed'')]"

fun format_parts :: "(string \<times> string) list \<Rightarrow> string \<Rightarrow> (('h, 'z) log_st_scheme, string) prog" where
  "format_parts [] message = ok message"
| "format_parts ((txt, complaint) # ps) message =
     (if LOG_MESSAGE_LENGTH_MAX - length message \<le> length txt
      then bindE (internal_log complaint) (\<lambda>_. format_parts ps message)
      else format_parts ps (message @ txt))"

section \<open>Handing a message to the loggers\<close>

definition stdout_log :: "string \<Rightarrow> (('h, 'z) log_st_scheme, int) prog" where
  "stdout_log message = bindE (log_printf message) (\<lambda>_. ok 0)"

definition kmsg_log :: "'h platform \<Rightarrow> ('h \<Rightarrow> int) \<Rightarrow> log_level \<Rightarrow> string \<Rightarrow> (('h, 'z) log_st_scheme, int) prog" where
  "kmsg_log P errno level message =
     (let prefixed_message = kmsg_level level @ message in
      if LOG_MESSAGE_LENGTH_MAX + 8 \<le> length prefixed_message then ok (- ENAMETOOLONG)
      else
        bindE (on_plat (write_loop P kmsg_path (bytes_of_string prefixed_message))) (\<lambda>rc.
        bindE (gets plat) (\<lambda>h. ok (if rc \<noteq> 0 then - errno h else 0))))"

fun logger_log ::
  "'h platform \<Rightarrow> ('h \<Rightarrow> int) \<Rightarrow> log_level \<Rightarrow> string \<Rightarrow> logger \<Rightarrow> (('h, 'z) log_st_scheme, int) prog" where
  "logger_log P errno level message Logger_stdout = stdout_log message"
| "logger_log P errno level message Logger_kmsg = kmsg_log P errno level message"

fun loggers_loop ::
  "'h platform \<Rightarrow> ('h \<Rightarrow> int) \<Rightarrow> log_level \<Rightarrow> string \<Rightarrow> logger list \<Rightarrow> bool \<Rightarrow> (('h, 'z) log_st_scheme, bool) prog" where
  "loggers_loop P errno level message [] logged = ok logged"
| "loggers_loop P errno level message (l # ls) logged =
     bindE (logger_log P errno level message l) (\<lambda>rc.
     if rc = 0 then loggers_loop P errno level message ls True
     else
       bindE (internal_log (''Could not log a message via the '' @ logger_name l @ '' logger: '' @
         str_error_number (- rc))) (\<lambda>_.
       loggers_loop P errno level message ls logged))"

text \<open>\<open>_log\<close> and its four callers, which fill in the level and \<open>errno\<close>.\<close>

definition do_log :: "'h platform \<Rightarrow> ('h \<Rightarrow> int) \<Rightarrow> log_call \<Rightarrow> (('h, 'z) log_st_scheme, unit) prog" where
  "do_log P errno c =
     bindE (gets (\<lambda>s. log_parts (log_name s) (log_prefix s) c)) (\<lambda>parts.
     bindE (format_parts parts []) (\<lambda>message.
     bindE (gets loggers) (\<lambda>ls.
     bindE (loggers_loop P errno (lc_level c) message ls False) (\<lambda>logged.
     if logged then ok () else bindE (stdout_log message) (\<lambda>_. ok ())))))"

definition log_error :: "'h platform \<Rightarrow> ('h \<Rightarrow> int) \<Rightarrow> log_call \<Rightarrow> (('h, 'z) log_st_scheme, unit) prog" where
  "log_error P errno c = bindE (gets plat) (\<lambda>h. do_log P errno (c\<lparr>lc_level := LOG_LEVEL_ERROR, lc_error := errno h\<rparr>))"

definition log_warning :: "'h platform \<Rightarrow> ('h \<Rightarrow> int) \<Rightarrow> log_call \<Rightarrow> (('h, 'z) log_st_scheme, unit) prog" where
  "log_warning P errno c = bindE (gets plat) (\<lambda>h. do_log P errno (c\<lparr>lc_level := LOG_LEVEL_WARNING, lc_error := errno h\<rparr>))"

definition log_info :: "'h platform \<Rightarrow> ('h \<Rightarrow> int) \<Rightarrow> log_call \<Rightarrow> (('h, 'z) log_st_scheme, unit) prog" where
  "log_info P errno c = bindE (gets plat) (\<lambda>h. do_log P errno (c\<lparr>lc_level := LOG_LEVEL_INFO, lc_error := errno h\<rparr>))"

definition log_debug :: "'h platform \<Rightarrow> ('h \<Rightarrow> int) \<Rightarrow> log_call \<Rightarrow> (('h, 'z) log_st_scheme, unit) prog" where
  "log_debug P errno c = bindE (gets plat) (\<lambda>h. do_log P errno (c\<lparr>lc_level := LOG_LEVEL_DEBUG, lc_error := errno h\<rparr>))"

section \<open>What arrives\<close>

definition log_line :: "string \<Rightarrow> string \<Rightarrow> log_call \<Rightarrow> string" where
  "log_line name pre c = concat (map fst (log_parts name pre c))"

lemma format_parts_message:
  assumes "format_parts ps message s = (Inr m, t)" and "length message < LOG_MESSAGE_LENGTH_MAX"
  shows "length m < LOG_MESSAGE_LENGTH_MAX"
  using assms
proof (induction ps message arbitrary: s rule: format_parts.induct)
  case (1 message)
  then show ?case by (simp add: prog_simps)
next
  case (2 part complaint ps message)
  then show ?case by (auto simp: prog_simps internal_log_def log_printf_def split: if_splits)
qed

lemma format_parts_fits:
  "length message + length (concat (map fst ps)) < LOG_MESSAGE_LENGTH_MAX \<Longrightarrow>
     format_parts ps message s = (Inr (message @ concat (map fst ps)), s)"
proof (induction ps message arbitrary: s rule: format_parts.induct)
  case (2 part complaint ps message)
  then have "\<not> LOG_MESSAGE_LENGTH_MAX - length message \<le> length part" by simp
  with 2 show ?case by simp
qed (simp add: prog_simps)

lemma format_parts_ok: "\<exists>m u. format_parts ps message s = (Inr m, u) \<and> log_name u = log_name s \<and>
    log_prefix u = log_prefix s \<and> loggers u = loggers s \<and> plat u = plat s \<and> bars u = bars s"
proof (induction ps message arbitrary: s rule: format_parts.induct)
  case (2 part complaint ps message)
  show ?case
  proof (cases "LOG_MESSAGE_LENGTH_MAX - length message \<le> length part")
    case True
    from 2(1) [OF True] show ?thesis
      by (fastforce simp: True prog_simps internal_log_def log_printf_def)
  next
    case False
    from 2(2) [OF False] show ?thesis using False by simp
  qed
qed (simp add: prog_simps)

text \<open>What the terminal gets when the kernel's log refuses a line.\<close>

definition kmsg_refused :: "int \<Rightarrow> string \<Rightarrow> string" where
  "kmsg_refused e line =
     ''Could not log a message via the kmsg logger: '' @ str_error_number e @ log_newline @ line"

lemma length_complaint:
  assumes "0 < e" "e < 2 ^ 31"
  shows "length (''Could not log a message via the kmsg logger: '' @ str_error_number e) < LOG_MESSAGE_LENGTH_MAX"
proof -
  have "nat e < 10 ^ Suc 9" using assms by simp
  from length_digits_of [OF _ this] have "length (digits_of 10 (nat e)) \<le> 10" by simp
  then show ?thesis using assms(1) by (simp add: str_error_number_def fmt_d_def)
qed

lemma kmsg_fits: "length m < LOG_MESSAGE_LENGTH_MAX \<Longrightarrow> length (kmsg_level l @ m) < LOG_MESSAGE_LENGTH_MAX + 8"
  by (cases l) auto


definition demo_logged :: "demo log_st" where
  "demo_logged = \<lparr>bars = [], plat = demo_h [], log_name = ''tool'', log_prefix = [], loggers = [Logger_kmsg], log_stdout = []\<rparr>"

definition demo_call :: log_call where
  "demo_call = \<lparr>lc_level = LOG_LEVEL_ERROR, lc_file = ''f.c'', lc_line = 7, lc_func = ''main'', lc_text = ''failed'',
     lc_error = 22, lc_time = ''2020-01-01T00:00:00'', lc_us = 5\<rparr>"


end
