(* ===== verification/Cli_Main.thy ===== *)
theory Cli_Main
  imports Cli_Show Cli_Lines Xvc_Server Log_Messages
begin

text \<open>
  The commands of the tools and their \<open>main\<close>: the second half of \<open>fpga_local_cmd.c\<close>. The state of a tool adds
  what belongs to the log and to the virtual JTAG server. A tool is a \<open>run\<close>, because that server may not come
  back; every other command is a program. Messages to the log are left out, the log's initialisation is not.
\<close>

section \<open>State\<close>

record ('h, 'w) tool_st = "'h cli_st" +
  tool_log :: "string \<times> string \<times> logger list"
  tool_reply :: "bytes \<times> u32 \<times> nat"
  tool_net :: 'w

definition in_log :: "('h log_st, 'a) prog \<Rightarrow> (('h, 'w) tool_st, 'a) prog" where
  "in_log m = (\<lambda>s. case tool_log s of (name, pre, ls) \<Rightarrow>
     case m \<lparr>bars = bars (lib s), plat = plat (lib s), log_name = name, log_prefix = pre, loggers = ls,
       log_stdout = stdout s\<rparr> of (r, l) \<Rightarrow>
     (r, s\<lparr>lib := (lib s)\<lparr>bars := bars l, plat := plat l\<rparr>, tool_log := (log_name l, log_prefix l, loggers l),
       stdout := log_stdout l\<rparr>))"

definition in_xvc :: "(('h, 'w) xvc_st, 'a) run \<Rightarrow> (('h, 'w) tool_st, 'a) run" where
  "in_xvc m = (\<lambda>s. case tool_reply s of (buf, mx, n) \<Rightarrow>
     case m \<lparr>bars = bars (lib s), plat = plat (lib s), reply_buf = buf, reply_max = mx, reply_len = n,
       world = tool_net s\<rparr> of
       None \<Rightarrow> None
     | Some (r, x) \<Rightarrow> Some (r, s\<lparr>lib := (lib s)\<lparr>bars := bars x, plat := plat x\<rparr>,
         tool_reply := (reply_buf x, reply_max x, reply_len x), tool_net := world x\<rparr>))"

section \<open>Attaching to the library\<close>

definition cli_attach :: "(('h, 'z) cli_st_scheme, unit) prog" where
  "cli_attach =
     bindE (gets fpga) (\<lambda>c.
     if opcode c = CLI_CMD_DESCRIBE_SLOTS then ok ()
     else
       bindE (in_lib fpga_mgmt_init) (\<lambda>_.
       bindE (in_lib (fpga_mgmt_set_cmd_timeout (request_timeout c))) (\<lambda>_.
       in_lib (fpga_mgmt_set_cmd_delay_msec (request_delay_msec c)))))"

definition cli_detach :: "'h platform \<Rightarrow> (('h, 'z) cli_st_scheme, unit) prog" where
  "cli_detach P = bindE (attempt (in_lib (fpga_mgmt_close P))) (\<lambda>_. ok ())"

section \<open>Images\<close>

definition load_cmd_options :: "ec2_fpga_cmd \<Rightarrow> load_local_image_options" where
  "load_cmd_options c = fpga_mgmt_init_load_local_image_options
     \<lparr>opt_slot_id := sint (afi_slot c), opt_afi_id := cmd_afi_id c,
      opt_flags := 0 OR (if cmd_prefetch c then FPGA_CMD_PREFETCH else 0)\<rparr>"

definition force_notice :: string where
  "force_notice = ''THE -F (--force-shell-reload) IS NOT SUPPORTED ON F2 AND IS IGNORED''"

definition command_load :: "'h platform \<Rightarrow> (('h, 'z) cli_st_scheme, unit) prog" where
  "command_load P =
     bindE (gets fpga) (\<lambda>c.
     bindE (if force_shell_reload c
       then print_lines [force_notice] else ok ()) (\<lambda>_.
     if cmd_async c then
       bindE (in_lib (fpga_mgmt_load_local_image_with_options P (load_cmd_options c))) (\<lambda>(ret, opt).
       ret_code ret ())
     else
       bindE (in_lib (fpga_mgmt_load_local_image_sync_with_options P (load_cmd_options c)
         (cmd_sync_timeout c) (cmd_sync_delay_msec c) zero_image_info)) (\<lambda>(ret, info).
       bindE (ret_code ret ()) (\<lambda>_. cli_show_image_info P info))))"

definition command_clear :: "'h platform \<Rightarrow> (('h, 'z) cli_st_scheme, unit) prog" where
  "command_clear P =
     bindE (gets fpga) (\<lambda>c.
     if cmd_async c then in_lib (fpga_mgmt_clear_local_image P (sint (afi_slot c)))
     else
       bindE (in_lib (fpga_mgmt_clear_local_image_sync P (sint (afi_slot c))
         (cmd_sync_timeout c) (cmd_sync_delay_msec c) zero_image_info)) (\<lambda>(ret, info).
       bindE (ret_code ret ()) (\<lambda>_. cli_show_image_info P info)))"

definition describe_flags :: "ec2_fpga_cmd \<Rightarrow> u32" where
  "describe_flags c = 0 OR (if get_hw_metrics c then FPGA_CMD_GET_HW_METRICS else 0)
     OR (if clear_hw_metrics c then FPGA_CMD_CLEAR_HW_METRICS else 0)
     OR (if clear_afi_cache c then FPGA_CMD_CLEAR_AFI_CACHE else 0)"

definition command_describe :: "'h platform \<Rightarrow> (('h, 'z) cli_st_scheme, unit) prog" where
  "command_describe P =
     bindE (gets fpga) (\<lambda>c.
     bindE (in_lib (fpga_mgmt_describe_local_image P (sint (afi_slot c)) zero_image_info (describe_flags c))) (\<lambda>(ret, info).
     bindE (ret_code ret ()) (\<lambda>_. cli_show_image_info P info)))"

text \<open>The result of the discovery is not looked at.\<close>

fun describe_slots_loop :: "nat list \<Rightarrow> fpga_slot_spec list \<Rightarrow> (('h, 'z) cli_st_scheme, unit) prog" where
  "describe_slots_loop [] spec_array = ok ()"
| "describe_slots_loop (i # is) spec_array =
     (if vendor_id (spec_array ! i ! FPGA_APP_PF) = 0 then describe_slots_loop is spec_array
      else bindE (cli_show_slot_app_pfs (int i) (spec_array ! i)) (\<lambda>_. describe_slots_loop is spec_array))"

definition command_describe_slots :: "'h platform \<Rightarrow> (('h, 'z) cli_st_scheme, unit) prog" where
  "command_describe_slots P =
     bindE (in_lib (fpga_pci_get_all_slot_specs P (replicate FPGA_SLOT_MAX zero_slot_spec) FPGA_SLOT_MAX))
       (\<lambda>(ret, spec_array).
     describe_slots_loop [0..<FPGA_SLOT_MAX] spec_array)"

section \<open>Virtual JTAG, LEDs and DIP switches\<close>

definition command_start_virtual_jtag :: "'h platform \<Rightarrow> 'w net_ops \<Rightarrow> (('h, 'w) tool_st, unit) run" where
  "command_start_virtual_jtag P N = bindR (returns (gets fpga)) (\<lambda>c.
     bindR (returns (print_lines [
       ''Starting Virtual JTAG XVC Server for FPGA slot id '' @ fmt_u (afi_slot c) @ '', listening to TCP port '' @
         the (tcp_port c) @ ''.'',
       ''Press CTRL-C to stop the service.''])) (\<lambda>_.
     in_xvc (xvcserver_start P N (afi_slot c) (tcp_port c))))"

text \<open>A status that was not written has an indeterminate value.\<close>

definition show_vreg :: "'h platform \<Rightarrow> string \<Rightarrow> string \<Rightarrow> int \<times> u16 option \<Rightarrow> (('h, 'z) cli_st_scheme, unit) prog" where
  "show_vreg P complaint title r = (case r of (ret, v) \<Rightarrow>
     if ret \<noteq> 0 then bindE (print_lines [complaint]) (\<lambda>_. fail ret)
     else
       bindE (gets (\<lambda>s. (afi_slot (fpga s), plat (lib s)))) (\<lambda>(slot, h).
       bindE (print_lines [''FPGA slot id '' @ fmt_u slot @ title]) (\<lambda>_.
       cli_show_virtual_led_dip_status (case v of Some status \<Rightarrow> status | None \<Rightarrow> ucast (c_indet P h)))))"

definition command_get_virtual_led :: "'h platform \<Rightarrow> (('h, 'z) cli_st_scheme, unit) prog" where
  "command_get_virtual_led P =
     bindE (gets (\<lambda>s. afi_slot (fpga s))) (\<lambda>slot.
     bindE (in_lib (fpga_mgmt_get_vLED_status P (sint slot)))
       (show_vreg P ''Error trying to get virtual LED state'' '' have the following Virtual LED:''))"

definition command_get_virtual_dip :: "'h platform \<Rightarrow> (('h, 'z) cli_st_scheme, unit) prog" where
  "command_get_virtual_dip P =
     bindE (gets (\<lambda>s. afi_slot (fpga s))) (\<lambda>slot.
     bindE (in_lib (fpga_mgmt_get_vDIP_status P (sint slot)))
       (show_vreg P ''Error: can not get virtual DIP Switch state'' '' has the following Virtual DIP Switches:''))"

definition command_set_virtual_dip :: "'h platform \<Rightarrow> (('h, 'z) cli_st_scheme, unit) prog" where
  "command_set_virtual_dip P =
     bindE (gets fpga) (\<lambda>c.
     bindE (attempt (in_lib (fpga_mgmt_set_vDIP P (sint (afi_slot c)) (v_dip_switch c)))) (\<lambda>r.
     case r of
       Inl ret \<Rightarrow> bindE (print_lines [''Error trying to set virtual DIP Switch '']) (\<lambda>_. fail ret)
     | Inr _ \<Rightarrow> ok ()))"

section \<open>Clocks\<close>

definition zero_clkgen_info :: fpga_clkgen_info where
  "zero_clkgen_info = \<lparr>clock_group_a = replicate 7 (Fin 0), clock_group_b = replicate 7 (Fin 0),
     clock_group_c = replicate 7 (Fin 0), clock_group_hbm = replicate 7 (Fin 0)\<rparr>"

definition command_describe_clkgen :: "'h platform \<Rightarrow> (('h, 'z) cli_st_scheme, unit) prog" where
  "command_describe_clkgen P =
     bindE (gets (\<lambda>s. afi_slot (fpga s))) (\<lambda>slot.
     bindE (in_clk (aws_clkgen_get_dynamic P (sint slot) zero_clkgen_info)) (\<lambda>(ret, info).
     bindE (ret_code ret ()) (\<lambda>_. cli_show_clkgen_info info)))"

definition reset_arg :: "ec2_fpga_cmd \<Rightarrow> u32" where
  "reset_arg c = (if cmd_reset c then 1 else 0)"

definition command_load_clkgen_recipe :: "'h platform \<Rightarrow> (('h, 'z) cli_st_scheme, unit) prog" where
  "command_load_clkgen_recipe P =
     bindE (gets fpga) (\<lambda>c.
     bindE (in_clk (aws_clkgen_set_recipe P (sint (afi_slot c)) (clock_a_recipe c) (clock_b_recipe c)
       (clock_c_recipe c) (clock_hbm_recipe c) (reset_arg c))) (\<lambda>_.
     command_describe_clkgen P))"

definition command_load_clkgen_dynamic :: "'h platform \<Rightarrow> (('h, 'z) cli_st_scheme, unit) prog" where
  "command_load_clkgen_dynamic P =
     bindE (gets fpga) (\<lambda>c.
     bindE (in_clk (aws_clkgen_set_dynamic P (sint (afi_slot c)) (clock_a_freq c) (clock_b_freq c)
       (clock_c_freq c) (clock_hbm_freq c) (reset_arg c))) (\<lambda>_.
     command_describe_clkgen P))"

section \<open>main\<close>

definition command_table :: "'h platform \<Rightarrow> 'w net_ops \<Rightarrow> (('h, 'w) tool_st, unit) run list" where
  "command_table P N = [
     returns (command_load P), returns (command_clear P), returns (command_describe P),
     returns (command_describe_slots P), command_start_virtual_jtag P N, returns (command_get_virtual_led P),
     returns (command_get_virtual_dip P), returns (command_set_virtual_dip P), returns (command_describe_clkgen P),
     returns (command_load_clkgen_recipe P), returns (command_load_clkgen_dynamic P)]"

definition cli_main :: "'h platform \<Rightarrow> 'w net_ops \<Rightarrow> (('h, 'w) tool_st, unit) run" where
  "cli_main P N = bindR (returns (gets (\<lambda>s. opcode (fpga s)))) (\<lambda>op.
     if CLI_CMD_END \<le> op then returns (fail FPGA_ERR_FAIL) else command_table P N ! unat op)"

definition CLI_ROOT_ACCESS_ERR_STR :: string where
  "CLI_ROOT_ACCESS_ERR_STR = ''Error: Please prefix the command with '' @ [CHR 0x27] @ ''sudo'' @ [CHR 0x27] @
     '' or login as root''"

definition tool_name :: "u32 \<Rightarrow> string" where
  "tool_name pid = ''fpga-local-cmd('' @ fmt_u pid @ '')''"

text \<open>What \<open>main\<close> does up to its label: \<open>argv\<close>, the number of the process, and \<open>errno\<close> come from outside.\<close>

definition cli_start :: "'h platform \<Rightarrow> ('h \<Rightarrow> int) \<Rightarrow> u32 \<Rightarrow> string list \<Rightarrow> (('h, 'w) tool_st, unit) prog" where
  "cli_start P errno pid argv =
     bindE cli_init_fpga (\<lambda>_.
     bindE (in_log (log_init (tool_name pid))) (\<lambda>_.
     bindE (attempt (in_log (log_attach P errno Logger_kmsg))) (\<lambda>r.
     bindE (case r of
         Inl e \<Rightarrow> bindE (print_lines [CLI_ROOT_ACCESS_ERR_STR]) (\<lambda>_. fail e)
       | Inr _ \<Rightarrow> ok ()) (\<lambda>_.
     bindE (gets (\<lambda>s. c_indet P (plat (lib s)))) (\<lambda>u.
     bindE (parse_args u argv) (\<lambda>_.
     cli_attach))))))"

text \<open>The label \<open>err\<close>.\<close>

definition cli_finish :: "'h platform \<Rightarrow> (int \<Rightarrow> string) \<Rightarrow> int \<Rightarrow> (('h, 'w) tool_st, int) prog" where
  "cli_finish P c_strerror ret =
     bindE (gets (\<lambda>s. parser_completed (fpga s))) (\<lambda>done.
     bindE (if ret \<noteq> 0 \<and> \<not> done then
         bindE (print_lines [''Error: ('' @ fmt_d ret @ '') '' @ fpga_mgmt_strerror c_strerror ret]) (\<lambda>_.
         case fpga_mgmt_strerror_long ret of None \<Rightarrow> ok () | Some long_help \<Rightarrow> printf long_help)
       else ok ()) (\<lambda>_.
     bindE (cli_detach P) (\<lambda>_.
     bindE cli_init_fpga (\<lambda>_. ok ret))))"

text \<open>The value that \<open>main\<close> returns, if it does.\<close>

definition main ::
  "'h platform \<Rightarrow> 'w net_ops \<Rightarrow> (int \<Rightarrow> string) \<Rightarrow> ('h \<Rightarrow> int) \<Rightarrow> u32 \<Rightarrow> string list
    \<Rightarrow> (('h, 'w) tool_st, int) run" where
  "main P N c_strerror errno pid argv = (\<lambda>s.
     case bindR (returns (cli_start P errno pid argv)) (\<lambda>_. cli_main P N) s of
       None \<Rightarrow> None
     | Some (r, t) \<Rightarrow> returns (cli_finish P c_strerror (code_of r)) t)"

end
