(* ===== verification/Cli_Session.thy ===== *)
theory Cli_Session
  imports Cli_Main
begin

text \<open>
  A tool from its command line to its output: a load through the parser, the first attach of the mailbox, the
  polling of the library and the table that is printed.
\<close>

section \<open>The first use of a slot\<close>

text \<open>
  A shell as in \<open>shell_ready\<close>, of which nothing is attached yet: the BAR of its mailbox can be mapped, the
  BAR table has room, and the log of the kernel can be opened.
\<close>

definition tool_ready ::
  "'h platform \<Rightarrow> int \<Rightarrow> u64 \<Rightarrow> ('h \<Rightarrow> mailbox) \<Rightarrow> (mailbox \<Rightarrow> mailbox) \<Rightarrow> bytes \<Rightarrow> u32 \<Rightarrow> fpga_slot_spec
    \<Rightarrow> 'h mgmt_st \<Rightarrow> bool" where
  "tool_ready P slot_id base view peer img ver spec s \<longleftrightarrow>
     mailbox_device P base view peer \<and> reports peer img \<and> 0 \<le> slot_id \<and> slot_id < int FPGA_SLOT_MAX \<and>
     (\<forall>h. fst (m_load32 P h base) = ver) \<and> (\<forall>h. k_open P h kmsg_path O_WRONLY) \<and>
     (\<forall>u :: 'h mgmt_st. fst (fpga_pci_get_slot_spec P slot_id u) = Inr spec) \<and>
     (\<forall>u :: 'h mgmt_st. fst (bar_attach_map P (spec ! FPGA_MGMT_PF) (nat FPGA_MBOX_RESOURCE_NUM) False u) = Inr base) \<and>
     base \<noteq> 0 \<and> 0x3c \<le> unat (resource_size (spec ! FPGA_MGMT_PF) ! nat FPGA_MBOX_RESOURCE_NUM) \<and>
     unat base + unat (resource_size (spec ! FPGA_MGMT_PF) ! nat FPGA_MBOX_RESOURCE_NUM) < 2 ^ 64 \<and>
     bars_inv (bars s) \<and> mappings_ok (bars s) \<and> first_free (bars s) 0 \<noteq> None"

lemma plat_step:
  assumes "fst (m u) = r" and "leaves (\<lambda>s. s\<lparr>plat := undefined\<rparr>) m"
  obtains p where "m u = (r, u\<lparr>plat := p\<rparr>)"
proof -
  obtain x t where m: "m u = (x, t)" by fastforce
  then show thesis using that assms(1) plat_only [OF assms(2) m] by (metis fst_conv)
qed

text \<open>A command on a slot that is not attached acts as on the attached one.\<close>

lemma first_attach:
  assumes R: "tool_ready P slot_id base view peer img ver spec s"
    and s: "initialized s" "length (slots s) = FPGA_SLOT_MAX" "slots s ! nat slot_id = PCI_BAR_HANDLE_INIT"
      "mgmt_timeout s \<noteq> 0"
  obtains s1 where "shell_ready P slot_id base view peer img ver spec s1"
    "fpga_mgmt_mbox_attach P (nat slot_id) s = fpga_mgmt_mbox_attach P (nat slot_id) s1"
proof -
  note T = R [unfolded tool_ready_def]
  obtain p where p: "fpga_pci_get_slot_spec P slot_id s = (Inr spec, s\<lparr>plat := p\<rparr>)"
    by (rule plat_step [of "fpga_pci_get_slot_spec P slot_id" s "Inr spec"])
      (use T in \<open>auto intro!: leaves_get_slot_spec\<close>)
  obtain q where "bar_attach_map P (spec ! FPGA_MGMT_PF) (nat FPGA_MBOX_RESOURCE_NUM) False (s\<lparr>plat := p\<rparr>) =
      (Inr base, s\<lparr>plat := p\<rparr>\<lparr>plat := q\<rparr>)"
    by (rule plat_step [of "bar_attach_map P (spec ! FPGA_MGMT_PF) (nat FPGA_MBOX_RESOURCE_NUM) False"
          "s\<lparr>plat := p\<rparr>" "Inr base"])
      (use T in \<open>auto intro!: leaves_bar_attach_map\<close>)
  then have q: "bar_attach_map P (spec ! nat (int FPGA_MGMT_PF)) (nat FPGA_MBOX_RESOURCE_NUM) False (s\<lparr>plat := p\<rparr>) =
      (Inr base, s\<lparr>plat := q\<rparr>)" by simp
  obtain i where i: "first_free (bars s) 0 = Some i" using T by auto
  let ?B = "attached_bars (bars s) i base (resource_size (spec ! nat (int FPGA_MGMT_PF)) ! nat FPGA_MBOX_RESOURCE_NUM)"
  have a: "fpga_pci_attach P slot_id (int FPGA_MGMT_PF) FPGA_MBOX_RESOURCE_NUM 0 s = (Inr (int i), s\<lparr>plat := q, bars := ?B\<rparr>)"
    "region_mapped (int i) base 0x3c ?B"
    using attach_maps [OF p q, where n = "0x3c" and i = i] T i by simp_all
  let ?s1 = "s\<lparr>plat := q, bars := ?B, slots := (slots s)[nat slot_id := int i], mbox_timeout := mgmt_timeout s,
    mbox_delay_msec := mgmt_delay_msec s\<rparr>"
  have "0 \<le> slot_id" "slot_id < int FPGA_SLOT_MAX" using T by simp_all
  then have "nat slot_id < length (slots s)" using s(2) by simp
  then have h: "slots ?s1 ! nat slot_id = int i" by simp
  have "shell_ready P slot_id base view peer img ver spec ?s1"
    using T s(1,4) h a(2) by (simp add: shell_ready_def mbox_mapped_def)
  moreover have "fpga_mgmt_mbox_attach P (nat slot_id) s = fpga_mgmt_mbox_attach P (nat slot_id) ?s1"
    using a(1) s(3) h T by (simp add: fpga_mgmt_mbox_attach_def fpga_hal_mbox_init_def prog_simps)
  ultimately show thesis using that by blast
qed

lemma load_sync_first:
  assumes R: "tool_ready P slot_id base view peer img ver spec s"
    and s: "initialized s" "length (slots s) = FPGA_SLOT_MAX" "slots s ! nat slot_id = PCI_BAR_HANDLE_INIT"
      "mgmt_timeout s \<noteq> 0"
    and opt: "opt_slot_id opt = slot_id" "opt_flags opt AND FPGA_CMD_UNSUPPORTED_FLAGS = 0" "requested opt img"
    and img: "get32 img 88 = 0" "ids_match (image_ids img) (spec ! FPGA_APP_PF)"
  obtains info' t where
    "fpga_mgmt_load_local_image_sync_with_options P opt timeout d info s = (Inr (0, info'), t)"
    "reported img info'" "info_spec info' = spec" "shell_ready P slot_id base view peer img ver spec t"
proof (rule first_attach [OF R s])
  fix s1
  assume s1: "shell_ready P slot_id base view peer img ver spec s1"
    and a: "fpga_mgmt_mbox_attach P (nat slot_id) s = fpga_mgmt_mbox_attach P (nat slot_id) s1"
  have slot: "0 \<le> slot_id" "slot_id < int FPGA_SLOT_MAX" and i: "initialized s1"
    using s1 by (simp_all add: shell_ready_def)
  have "fpga_mgmt_get_sh_version P slot_id s = fpga_mgmt_get_sh_version P slot_id s1"
    using a slot by (simp add: fpga_mgmt_get_sh_version_def fail_slot_id_def bindE_apply fail_on_apply)
  then have "mgmt_load_sync P opt timeout d s = mgmt_load_sync P opt timeout d s1"
    using s(1) i opt slot
    by (simp add: mgmt_load_sync_def require_init_def require_supported_def bindE_apply gets_apply fail_on_apply)
  then have "fpga_mgmt_load_local_image_sync_with_options P opt timeout d info s =
      fpga_mgmt_load_local_image_sync_with_options P opt timeout d info s1"
    by (simp add: fpga_mgmt_load_local_image_sync_with_options_def bindE_apply attempt_apply)
  then show thesis
    using that load_sync_shell [OF s1 opt img, of timeout d info] by metis
qed

section \<open>What is printed\<close>

text \<open>A part of a tool that only prints.\<close>

definition prints :: "('z cli_io_scheme, 'a) prog \<Rightarrow> bool" where
  "prints m \<longleftrightarrow> (\<forall>s. \<exists>a out. m s = (Inr a, s\<lparr>stdout := stdout s @ out\<rparr>))"

lemma prints_printf: "prints (printf out)"
  by (auto simp: prints_def printf_def prog_simps)

lemma prints_print_lines: "prints (print_lines ls)"
  by (simp add: print_lines_def prints_printf)

lemma prints_ok: "prints (ok a :: ('z cli_io_scheme, 'a) prog)"
proof -
  have "ok a s = (Inr a, s\<lparr>stdout := stdout s @ []\<rparr>)" for s :: "'z cli_io_scheme" by (simp add: ok_apply)
  then show ?thesis unfolding prints_def by blast
qed

lemma prints_gets:
  fixes f :: "'z cli_io_scheme \<Rightarrow> 'a"
  shows "prints (gets f)"
proof -
  have "gets f s = (Inr (f s), s\<lparr>stdout := stdout s @ []\<rparr>)" for s :: "'z cli_io_scheme" by (simp add: gets_apply)
  then show ?thesis unfolding prints_def by blast
qed

lemma prints_bind:
  fixes m :: "('z cli_io_scheme, 'a) prog"
  shows "prints m \<Longrightarrow> (\<And>a. prints (k a)) \<Longrightarrow> prints (bindE m k)"
  unfolding prints_def
proof
  fix s :: "'z cli_io_scheme"
  assume "\<forall>s. \<exists>a out. m s = (Inr a, s\<lparr>stdout := stdout s @ out\<rparr>)"
    and k: "\<And>a. \<forall>s. \<exists>b out. k a s = (Inr b, s\<lparr>stdout := stdout s @ out\<rparr>)"
  then obtain a out where m: "m s = (Inr a, s\<lparr>stdout := stdout s @ out\<rparr>)" by blast
  obtain b out' where "k a (s\<lparr>stdout := stdout s @ out\<rparr>) =
      (Inr b, s\<lparr>stdout := stdout s @ out\<rparr>\<lparr>stdout := stdout (s\<lparr>stdout := stdout s @ out\<rparr>) @ out'\<rparr>)"
    using k by blast
  then have "bindE m k s = (Inr b, s\<lparr>stdout := stdout s @ out @ out'\<rparr>)"
    using m by (simp add: bindE_apply)
  then show "\<exists>b out. bindE m k s = (Inr b, s\<lparr>stdout := stdout s @ out\<rparr>)" by blast
qed

lemma prints_if: "prints m \<Longrightarrow> prints k \<Longrightarrow> prints (if b then m else k)"
  by simp

lemmas prints_intros = prints_printf prints_print_lines prints_ok prints_gets prints_bind prints_if

lemma prints_pfs: "prints (show_pfs_loop slot_id spec is found)"
  by (induction "is" arbitrary: found)
    (auto simp: show_slot_pf_def intro!: prints_intros)

lemma prints_app_pfs: "slot_id < int FPGA_SLOT_MAX \<Longrightarrow> prints (cli_show_slot_app_pfs slot_id spec)"
  unfolding cli_show_slot_app_pfs_def
  by (intro prints_intros prints_pfs) (simp add: fail_on_def prints_ok)

section \<open>From the command line to the command\<close>

lemma lib_same [simp]: "(r :: 'h mgmt_st)\<lparr>bars := bars r, plat := plat r\<rparr> = r"
  by simp

lemma log_init_tool:
  fixes s :: "('h, 'w) tool_st"
  shows "in_log (log_init (tool_name pid)) s =
    (Inr (), s\<lparr>tool_log := (vsnprintf LOG_NAME_MAX (tool_name pid), fst (snd (tool_log s)), [])\<rparr>)"
proof -
  have "unat pid < 2 ^ 32" using unsigned_less [of pid] by simp
  then have "unat pid < 10 ^ Suc 9" by simp
  then have "length (fmt_u pid) \<le> 10" unfolding fmt_u_def using length_digits_of [of 10 "unat pid" 9] by simp
  then show ?thesis
    by (cases "tool_log s") (simp add: in_log_def log_init_def tool_name_def prog_simps)
qed

lemma log_attach_tool:
  fixes s :: "('h, 'w) tool_st"
  assumes "tool_log s = (name, pre, [])"
  shows "in_log (log_attach P errno Logger_kmsg) s =
    (if k_open P (plat (lib s)) kmsg_path O_WRONLY then (Inr (), s\<lparr>tool_log := (name, pre, [Logger_kmsg])\<rparr>)
     else (Inl (- errno (plat (lib s))), s))"
  using assms by (simp add: in_log_def log_attach_def kmsg_init_def prog_simps)

lemma cli_start_accepted:
  fixes s :: "('h, 'w) tool_st"
  assumes "k_open P (plat (lib s)) kmsg_path O_WRONLY"
    and "\<And>u s' :: ('h, 'w) tool_st. fpga s' = fresh_cmd \<Longrightarrow> parse_args u argv s' = (Inr (), s'\<lparr>fpga := c\<rparr>)"
    and "opcode c \<noteq> CLI_CMD_DESCRIBE_SLOTS"
  obtains t where "cli_start P errno pid argv s = (Inr (), t)" "fpga t = c" "stdout t = stdout s"
    "lib t = (lib s)\<lparr>slots := replicate FPGA_SLOT_MAX PCI_BAR_HANDLE_INIT, initialized := True,
       mgmt_timeout := request_timeout c, mgmt_delay_msec := request_delay_msec c\<rparr>"
proof -
  let ?name = "vsnprintf LOG_NAME_MAX (tool_name pid)"
  let ?s1 = "s\<lparr>fpga := fresh_cmd, tool_log := (?name, fst (snd (tool_log s)), [Logger_kmsg])\<rparr>"
  let ?lib = "(lib s)\<lparr>slots := replicate FPGA_SLOT_MAX PCI_BAR_HANDLE_INIT, initialized := True,
       mgmt_timeout := request_timeout c, mgmt_delay_msec := request_delay_msec c\<rparr>"
  have p: "parse_args (c_indet P (plat (lib s))) argv ?s1 = (Inr (), ?s1\<lparr>fpga := c\<rparr>)"
    by (rule assms(2)) simp
  have a: "cli_attach (?s1\<lparr>fpga := c\<rparr>) = (Inr (), ?s1\<lparr>fpga := c, lib := ?lib\<rparr>)"
    using assms(3) by (simp add: cli_attach_def in_lib_def fpga_mgmt_init_def fpga_pci_init_def
        fpga_mgmt_set_cmd_timeout_def fpga_mgmt_set_cmd_delay_msec_def prog_simps)
  have "cli_start P errno pid argv s = (Inr (), ?s1\<lparr>fpga := c, lib := ?lib\<rparr>)"
    using p a assms(1)
    by (simp add: cli_start_def cli_init_fpga_def set_fpga_def log_init_tool log_attach_tool bindE_apply modify_apply
        attempt_apply gets_apply ok_apply)
  then show thesis using that by simp
qed

lemma load_set_sync:
  assumes "load_arg_ok a" and "a \<noteq> Async_arg" "a \<noteq> Prefetch_arg" and "request_timeout c \<noteq> 0"
  shows "cmd_async (load_set a c) = cmd_async c \<and> cmd_prefetch (load_set a c) = cmd_prefetch c \<and>
    cmd_rescan (load_set a c) = cmd_rescan c \<and> get_hw_metrics (load_set a c) = get_hw_metrics c \<and>
    opcode (load_set a c) = opcode c \<and> request_timeout (load_set a c) \<noteq> 0"
proof (cases a)
  case (Request_arg k n)
  then have n: "0 < n * 1000 div 60" "n * 1000 div 60 < 2 ^ 32" using assms(1) by auto
  then have "unat (of_nat (n * 1000 div 60) :: u32) \<noteq> 0" by (simp add: unsigned_of_nat take_bit_nat_eq_self)
  then have "(of_nat (n * 1000 div 60) :: u32) \<noteq> 0" by (metis unsigned_0)
  then show ?thesis using Request_arg by simp
qed (use assms in auto)

lemma load_sets_sync:
  assumes "list_all load_arg_ok args" "Async_arg \<notin> set args" "Prefetch_arg \<notin> set args" "request_timeout c \<noteq> 0"
  shows "cmd_async (fold load_set args c) = cmd_async c \<and> cmd_prefetch (fold load_set args c) = cmd_prefetch c \<and>
    cmd_rescan (fold load_set args c) = cmd_rescan c \<and> get_hw_metrics (fold load_set args c) = get_hw_metrics c \<and>
    opcode (fold load_set args c) = opcode c \<and> request_timeout (fold load_set args c) \<noteq> 0"
  using assms
proof (induction args arbitrary: c)
  case (Cons a args)
  then have a: "load_arg_ok a" "a \<noteq> Async_arg" "a \<noteq> Prefetch_arg" by auto
  from load_set_sync [OF a Cons.prems(4)] show ?case
    using Cons.IH [of "load_set a c"] Cons.prems by simp
qed simp

section \<open>A load\<close>

text \<open>The text before the functions of the slot.\<close>

definition load_report :: "ec2_fpga_cmd \<Rightarrow> fpga_mgmt_image_info \<Rightarrow> string" where
  "load_report c info = (if force_shell_reload c then force_notice @ newline else []) @
     (if show_headers c then image_header @ newline else []) @ image_line (afi_slot c) info @ newline"

lemma print_line: "print_lines [l] s = (Inr (), s\<lparr>stdout := stdout s @ l @ newline\<rparr>)"
  by (simp add: print_lines_def printf_def modify_apply)

lemma in_lib_apply: "m (lib s) = (r, l) \<Longrightarrow> in_lib m s = (r, s\<lparr>lib := l\<rparr>)"
  by (simp add: in_lib_def)

lemma show_image_info_prints:
  fixes s :: "('h, 'w) tool_st"
  assumes "fpga s = c" "\<not> cmd_rescan c" "\<not> get_hw_metrics c" "sint (afi_slot c) < int FPGA_SLOT_MAX"
    and spec: "fst (fpga_pci_get_slot_spec P (sint (afi_slot c)) (lib s)) = Inr spec"
  obtains out t where "cli_show_image_info P info s = (Inr (), t)"
    "stdout t = stdout s @ (if show_headers c then image_header @ newline else []) @ image_line (afi_slot c) info @ newline @ out"
proof -
  obtain l where l: "fpga_pci_get_slot_spec P (sint (afi_slot c)) (lib s) = (Inr spec, l)"
    using spec by (cases "fpga_pci_get_slot_spec P (sint (afi_slot c)) (lib s)") auto
  define u where "u = s\<lparr>stdout := stdout s @ (if show_headers c then image_header @ newline else []) @
    image_line (afi_slot c) info @ newline\<rparr>"
  have "in_lib (fpga_pci_get_slot_spec P (sint (afi_slot c))) u = (Inr spec, u\<lparr>lib := l\<rparr>)"
    by (rule in_lib_apply) (simp add: u_def l)
  moreover obtain out where "cli_show_slot_app_pfs (sint (afi_slot c)) spec (u\<lparr>lib := l\<rparr>) =
      (Inr (), u\<lparr>lib := l, stdout := stdout (u\<lparr>lib := l\<rparr>) @ out\<rparr>)"
    using prints_app_pfs [OF assms(4), of spec] unfolding prints_def by (metis old.unit.exhaust)
  moreover have "cli_show_image_info P info s =
      bindE (in_lib (fpga_pci_get_slot_spec P (sint (afi_slot c)))) (\<lambda>slot_spec.
      bindE (cli_show_slot_app_pfs (sint (afi_slot c)) slot_spec) (\<lambda>_. ok ())) u"
    using assms(1-3) unfolding cli_show_image_info_def u_def
    by (cases "show_headers c") (simp_all add: print_line bindE_apply gets_apply ok_apply)
  ultimately have "cli_show_image_info P info s = (Inr (), u\<lparr>lib := l, stdout := stdout (u\<lparr>lib := l\<rparr>) @ out\<rparr>)"
    by (simp add: bindE_apply ok_apply)
  then show thesis by (rule that) (simp add: u_def)
qed

lemma command_load_reports:
  fixes s :: "('h, 'w) tool_st"
  assumes c: "fpga s = c" "\<not> cmd_async c" "\<not> cmd_prefetch c" "\<not> cmd_rescan c" "\<not> get_hw_metrics c"
    and R: "tool_ready P (sint (afi_slot c)) base view peer img ver spec (lib s)"
    and l: "initialized (lib s)" "slots (lib s) = replicate FPGA_SLOT_MAX PCI_BAR_HANDLE_INIT" "mgmt_timeout (lib s) \<noteq> 0"
    and img: "get32 img 88 = 0" "ids_match (image_ids img) (spec ! FPGA_APP_PF)" "requested (load_cmd_options c) img"
  obtains info out t where "command_load P s = (Inr (), t)" "reported img info"
    "stdout t = stdout s @ load_report c info @ out"
proof -
  have slot: "0 \<le> sint (afi_slot c)" "sint (afi_slot c) < int FPGA_SLOT_MAX" using R by (simp_all add: tool_ready_def)
  then have h: "slots (lib s) ! nat (sint (afi_slot c)) = PCI_BAR_HANDLE_INIT" "length (slots (lib s)) = FPGA_SLOT_MAX"
    using l(2) by simp_all
  have opt: "opt_slot_id (load_cmd_options c) = sint (afi_slot c)"
    "opt_flags (load_cmd_options c) AND FPGA_CMD_UNSUPPORTED_FLAGS = 0"
    using c(3) by (simp_all add: load_cmd_options_def)
  obtain info u where load: "fpga_mgmt_load_local_image_sync_with_options P (load_cmd_options c) (cmd_sync_timeout c)
      (cmd_sync_delay_msec c) zero_image_info (lib s) = (Inr (0, info), u)"
    and info: "reported img info" and u: "shell_ready P (sint (afi_slot c)) base view peer img ver spec u"
    by (rule load_sync_first [OF R l(1) h(2,1) l(3) opt img(3,1,2)])
  let ?s1 = "s\<lparr>stdout := stdout s @ (if force_shell_reload c then force_notice @ newline else []), lib := u\<rparr>"
  have spec: "fst (fpga_pci_get_slot_spec P (sint (afi_slot c)) (lib ?s1)) = Inr spec"
    using R by (simp add: tool_ready_def)
  obtain out t where show_it: "cli_show_image_info P info ?s1 = (Inr (), t)"
    "stdout t = stdout ?s1 @ (if show_headers c then image_header @ newline else []) @
       image_line (afi_slot c) info @ newline @ out"
    by (rule show_image_info_prints [OF _ c(4,5) slot(2) spec]) (use c(1) in simp)
  have "command_load P s = (Inr (), t)"
    using c(1,2) load show_it(1)
    by (cases "force_shell_reload c")
      (simp_all add: command_load_def in_lib_def print_line bindE_apply gets_apply ok_apply ret_code_apply)
  then show thesis using that info show_it(2) by (simp add: load_report_def)
qed

text \<open>The end of \<open>main\<close> after a success prints nothing.\<close>

lemma cli_finish_quiet: "\<exists>t. cli_finish P c_strerror 0 s = (Inr 0, t) \<and> stdout t = stdout s"
  by (auto simp: cli_finish_def cli_detach_def in_lib_def cli_init_fpga_def set_fpga_def prog_simps case_prod_beta)

lemma main_of_command:
  fixes s :: "('h, 'w) tool_st"
  assumes "cli_start P errno pid argv s = (Inr (), p)" and "opcode (fpga p) < CLI_CMD_END"
    and "(command_table P N ! unat (opcode (fpga p))) p = Some (Inr (), q)"
  obtains t where "main P N c_strerror errno pid argv s = Some (Inr 0, t)" "stdout t = stdout q"
proof -
  have "cli_main P N p = Some (Inr (), q)"
    using assms(2,3) by (simp add: cli_main_def run_simps gets_apply not_le [symmetric])
  moreover obtain t where "cli_finish P c_strerror 0 q = (Inr 0, t)" "stdout t = stdout q"
    using cli_finish_quiet by blast
  ultimately show thesis using that assms(1) by (simp add: main_def run_simps)
qed


text \<open>A card on which nothing is mapped yet.\<close>

definition tool_platform :: "bytes \<Rightarrow> mailbox platform" where
  "tool_platform img = (shell_platform img)\<lparr>k_open := (\<lambda>h path mode. True), k_mmap := (\<lambda>h path n. (Some 0x100000, h))\<rparr>"

definition demo_tool :: "(mailbox, unit) tool_st" where
  "demo_tool = \<lparr>fpga = fresh_cmd, stdout = [], lib = echo_mgmt\<lparr>bars := replicate FPGA_PCI_BARS_MAX zero_bar\<rparr>,
     clk_groups = (zero_mmcm, zero_mmcm, zero_mmcm, zero_mmcm), tool_log = ([], [], []), tool_reply = (zero_bytes, 0, 0), tool_net = ()\<rparr>"

lemma tool_slot_spec:
  "fst (fpga_pci_get_slot_spec (tool_platform img) 0 (u :: mailbox mgmt_st)) = Inr [shell_map 0 0, shell_map 0 1]"
  by code_simp

lemma tool_bar_map:
  "fst (bar_attach_map (tool_platform img) ([shell_map 0 0, shell_map 0 1] ! FPGA_MGMT_PF) (nat FPGA_MBOX_RESOURCE_NUM)
     False (u :: mailbox mgmt_st)) = Inr 0x100000"
  by code_simp

definition tool_args :: "load_arg list" where
  "tool_args = [Slot_arg Decimal 0, Image_arg ''a'']"

definition tool_words :: "string list list" where
  "tool_words = [[CHR ''-'' # [CHR ''S''], numeral_text Decimal 0], [CHR ''-'' # CHR ''I'' # ''a'']]"

lemma tool_words_spelled:
  "list_all2 (spells ''S:I:r:s:AH?hVFDP'' load_afi_options) tool_words (map load_event tool_args)"
proof -
  let ?spells = "spells ''S:I:r:s:AH?hVFDP'' load_afi_options"
  have "?spells [CHR ''-'' # [CHR ''S''], numeral_text Decimal 0] (CHR ''S'', numeral_text Decimal 0)"
    by (rule spells.short_word) (simp_all add: find_short_def)
  moreover have "?spells [CHR ''-'' # CHR ''I'' # ''a''] (CHR ''I'', ''a'')"
    by (rule spells.short_joined) (simp_all add: find_short_def)
  ultimately show ?thesis unfolding tool_words_def tool_args_def by simp
qed

definition tool_cmd :: ec2_fpga_cmd where
  "tool_cmd = fold load_set tool_args (fresh_cmd\<lparr>opcode := CLI_CMD_LOAD\<rparr>)"

lemma tool_cmd_fields: "afi_slot tool_cmd = 0" "requested (load_cmd_options tool_cmd) (shell_image 0)"
proof -
  show "afi_slot tool_cmd = 0" by (simp add: tool_cmd_def tool_args_def)
  have "cmd_afi_id tool_cmd = 97 # replicate 63 0" "\<not> cmd_prefetch tool_cmd"
    by (simp_all add: tool_cmd_def tool_args_def bytes_of_string_def fresh_cmd_def)
  then show "requested (load_cmd_options tool_cmd) (shell_image 0)"
    using shell_requested [of 0] by (simp add: requested_def load_options_def load_cmd_options_def cstr_def)
qed

lemma tool_is_ready:
  "tool_ready (tool_platform img) 0 0x100000 (\<lambda>h. h) (shell_peer img) img 0 [shell_map 0 0, shell_map 0 1] (lib demo_tool)"
proof -
  have "m_load32 (tool_platform img) = m_load32 (shell_platform img)" "m_store32 (tool_platform img) = m_store32 (shell_platform img)"
    "k_open (tool_platform img) h path mode"  for h path mode
    by (simp_all add: tool_platform_def)
  moreover have "bars_inv (replicate FPGA_PCI_BARS_MAX zero_bar)" "mappings_ok (replicate FPGA_PCI_BARS_MAX zero_bar)"
    by (simp_all add: bars_inv_def mappings_ok_def zero_bar_def)
  moreover have "first_free (replicate FPGA_PCI_BARS_MAX zero_bar) 0 \<noteq> None"
    by (simp add: zero_bar_def numeral_eq_Suc)
  moreover have "fst (m_load32 (shell_platform img) h 0x100000) = 0" for h
    by (simp add: shell_platform_def mbox_platform_def)
  moreover have "resource_size ([shell_map 0 0, shell_map 0 1] ! FPGA_MGMT_PF) ! nat FPGA_MBOX_RESOURCE_NUM = 0x10000"
    by (simp add: shell_map_def)
  ultimately show ?thesis
    using shell_mailbox [of img] shell_reports [of img] tool_slot_spec [of img] tool_bar_map [of img]
    unfolding tool_ready_def mailbox_device_def demo_tool_def by simp
qed

definition no_net :: "unit net_ops" where
  "no_net = \<lparr>n_getaddrinfo = (\<lambda>p w. (None, w)), n_socket = (\<lambda>a w. (-1, w)), n_reuseaddr = (\<lambda>s w. (-1, w)),
     n_bind = (\<lambda>s a w. (-1, w)), n_listen = (\<lambda>s w. (-1, w)), n_accept = (\<lambda>s w. (-1, w)), n_nodelay = (\<lambda>s w. (-1, w)),
     n_recv = (\<lambda>s n w. (None, w)), n_send = (\<lambda>s b w. (-1, w)), n_close = (\<lambda>s w. (0, w))\<rparr>"


section \<open>Rejected and failing commands\<close>

lemma parse_keeps_lib:
  fixes s :: "('h, 'w) tool_st"
  assumes "parse_args u argv s = (r, t)"
  shows "lib t = lib s"
  using leavesD [OF leaves_rest_parse_args assms] by (cases s; cases t) simp

text \<open>A start that fails, before the library is initialised.\<close>

lemma cli_start_fails:
  fixes s :: "('h, 'w) tool_st"
  assumes "cli_start P errno pid argv s = (Inl e, t)"
  shows "lib t = lib s"
proof -
  let ?s1 = "s\<lparr>fpga := fresh_cmd, tool_log := (vsnprintf LOG_NAME_MAX (tool_name pid), fst (snd (tool_log s)), [])\<rparr>"
  let ?s2 = "?s1\<lparr>tool_log := (vsnprintf LOG_NAME_MAX (tool_name pid), fst (snd (tool_log s)), [Logger_kmsg])\<rparr>"
  show ?thesis
  proof (cases "k_open P (plat (lib s)) kmsg_path O_WRONLY")
    case True
    obtain r u where p: "parse_args (c_indet P (plat (lib s))) argv ?s2 = (r, u)" by fastforce
    have lib: "lib u = lib s" using parse_keeps_lib [OF p] by simp
    have "cli_start P errno pid argv s = (case r of Inl e \<Rightarrow> (Inl e, u) | Inr _ \<Rightarrow> cli_attach u)"
      using True p by (simp add: cli_start_def cli_init_fpga_def set_fpga_def log_init_tool log_attach_tool bindE_apply
          modify_apply attempt_apply gets_apply ok_apply)
    then show ?thesis
      using assms lib by (auto simp: cli_attach_def in_lib_def fpga_mgmt_init_def fpga_pci_init_def
          fpga_mgmt_set_cmd_timeout_def fpga_mgmt_set_cmd_delay_msec_def prog_simps split: sum.splits if_splits)
  next
    case False
    then show ?thesis
      using assms by (auto simp: cli_start_def cli_init_fpga_def set_fpga_def log_init_tool log_attach_tool bindE_apply
          modify_apply attempt_apply fail_apply print_line)
  qed
qed

lemma cli_finish_lib:
  assumes "cli_finish P c_strerror ret s = (r, t)" and "\<not> initialized (lib s)"
  shows "r = Inr ret \<and> lib t = lib s"
  using assms
  by (auto simp: cli_finish_def cli_detach_def in_lib_def fpga_mgmt_close_def cli_init_fpga_def set_fpga_def
      print_lines_def printf_def prog_simps split: option.splits if_splits)

text \<open>The state in which the command line is parsed, and the text for a code.\<close>

definition logged_in :: "u32 \<Rightarrow> ('h, 'w) tool_st \<Rightarrow> ('h, 'w) tool_st" where
  "logged_in pid s = s\<lparr>fpga := fresh_cmd,
     tool_log := (vsnprintf LOG_NAME_MAX (tool_name pid), fst (snd (tool_log s)), [Logger_kmsg])\<rparr>"

definition error_text :: "(int \<Rightarrow> string) \<Rightarrow> int \<Rightarrow> string" where
  "error_text c_strerror ret = ''Error: ('' @ fmt_d ret @ '') '' @ fpga_mgmt_strerror c_strerror ret @ newline @
     (case fpga_mgmt_strerror_long ret of None \<Rightarrow> [] | Some long_help \<Rightarrow> long_help)"

lemma cli_finish_error:
  assumes "\<not> initialized (lib s)" and "ret \<noteq> 0"
  shows "\<exists>t. cli_finish P c_strerror ret s = (Inr ret, t) \<and> lib t = lib s \<and>
    stdout t = stdout s @ (if parser_completed (fpga s) then [] else error_text c_strerror ret)"
  using assms
  by (cases "fpga_mgmt_strerror_long ret")
    (auto simp: cli_finish_def cli_detach_def in_lib_def fpga_mgmt_close_def cli_init_fpga_def set_fpga_def
      print_line printf_def error_text_def prog_simps)



lemma empty_slots_silent:
  assumes "\<forall>i \<in> set is. vendor_id (spec_array ! i ! FPGA_APP_PF) = 0"
  shows "describe_slots_loop is spec_array s = (Inr (), s)"
  using assms by (induction "is") (simp_all add: ok_apply)

text \<open>
  C40. When the scan of the PCI devices fails, DescribeFpgaImageSlots prints nothing and returns
  0: the failure is lost.
\<close>

theorem describe_slots_ignores_failure:
  fixes s :: "('h, 'w) tool_st"
  assumes "k_open P (plat (lib s)) kmsg_path O_WRONLY"
    and "fst (fpga_pci_mbox_scan P (replicate FPGA_SLOT_MAX zero_slot_spec) FPGA_SLOT_MAX (lib s)) = Inl e"
  shows "\<exists>t. main P N c_strerror errno pid [prog, ''DescribeFpgaImageSlots''] s = Some (Inr 0, t) \<and> stdout t = stdout s"
proof -
  let ?c = "fresh_cmd\<lparr>opcode := CLI_CMD_DESCRIBE_SLOTS\<rparr>"
  let ?p = "(logged_in pid s)\<lparr>fpga := ?c\<rparr>"
  have "parse_args u [prog, ''DescribeFpgaImageSlots''] (logged_in pid s) = (Inr (), ?p)" for u
    by (simp add: parse_args_def str2func_def set_fpga_def prog_simps logged_in_def parse_args_describe_afi_slots_def
        getopt_long_plain plain_word_def finish_parse_def code_of_def ret_code_def getopt_long.simps)
  then have start: "cli_start P errno pid [prog, ''DescribeFpgaImageSlots''] s = (Inr (), ?p)"
    using assms(1)
    by (simp add: cli_start_def cli_init_fpga_def set_fpga_def log_init_tool log_attach_tool logged_in_def bindE_apply
        modify_apply attempt_apply gets_apply ok_apply cli_attach_def)
  obtain l where l: "fpga_pci_mbox_scan P (replicate FPGA_SLOT_MAX zero_slot_spec) FPGA_SLOT_MAX (lib s) = (Inl e, l)"
    using assms(2) by (metis prod.collapse)
  have "fpga_pci_get_all_slot_specs P (replicate FPGA_SLOT_MAX zero_slot_spec) FPGA_SLOT_MAX (lib s) =
      (Inr (e, replicate FPGA_SLOT_MAX zero_slot_spec), l)"
    using l by (simp add: fpga_pci_get_all_slot_specs_def bindE_apply attempt_apply ok_apply)
  moreover have "describe_slots_loop [0..<FPGA_SLOT_MAX] (replicate FPGA_SLOT_MAX zero_slot_spec) u = (Inr (), u)"
    for u :: "('h, 'w) tool_st"
    by (rule empty_slots_silent) (auto simp: zero_slot_spec_def zero_resource_map_def)
  ultimately have "command_describe_slots P ?p = (Inr (), ?p\<lparr>lib := l\<rparr>)"
    by (simp add: command_describe_slots_def in_lib_def bindE_apply logged_in_def)
  then have "(command_table P N ! unat (opcode (fpga ?p))) ?p = Some (Inr (), ?p\<lparr>lib := l\<rparr>)"
    by (simp add: command_table_def returns_apply)
  from main_of_command [OF start _ this] show ?thesis by (auto simp: logged_in_def)
qed

theorem describe_slots_ignores_failure_witness:
  "\<exists>t. main ((tool_platform zero_bytes)\<lparr>k_readdir := (\<lambda>h path. Some [])\<rparr>) no_net (\<lambda>_. []) (\<lambda>_. 0) 1
      [''fpga-local-cmd'', ''DescribeFpgaImageSlots''] demo_tool = Some (Inr 0, t) \<and> stdout t = []"
proof -
  let ?P = "(tool_platform zero_bytes)\<lparr>k_readdir := (\<lambda>h path. Some [])\<rparr>"
  have "isl (fst (fpga_pci_mbox_scan ?P (replicate FPGA_SLOT_MAX zero_slot_spec) FPGA_SLOT_MAX (lib demo_tool)))"
    by code_simp
  then obtain e where "fst (fpga_pci_mbox_scan ?P (replicate FPGA_SLOT_MAX zero_slot_spec) FPGA_SLOT_MAX (lib demo_tool)) = Inl e"
    by (auto simp: isl_def)
  from describe_slots_ignores_failure [OF _ this, where N = no_net and c_strerror = "\<lambda>_. []" and errno = "\<lambda>_. 0"]
  show ?thesis by (simp add: tool_platform_def demo_tool_def)
qed

end
