(* ===== verification/Vjtag_Device.thy ===== *)
theory Vjtag_Device
  imports Vjtag
begin

text \<open>
  Shifting through the debug bridge refines a JTAG port: whatever the port does with one pair of bits, the
  words that \<open>virtual_jtag_pcie.c\<close> shifts amount to all pairs in order.
\<close>

section \<open>The port and the bridge\<close>

text \<open>A port takes the bits of TMS and TDI and gives one of TDO.\<close>

type_synonym 'j tap = "bool \<times> bool \<Rightarrow> 'j \<Rightarrow> bool \<times> 'j"

fun tap_run :: "'j tap \<Rightarrow> (bool \<times> bool) list \<Rightarrow> 'j \<Rightarrow> bool list \<times> 'j" where
  "tap_run tap [] j = ([], j)"
| "tap_run tap (p # ps) j = (case tap p j of (b, j') \<Rightarrow> case tap_run tap ps j' of (bs, j'') \<Rightarrow> (b # bs, j''))"

record 'j bridge =
  br_len :: u32
  br_tms :: u32
  br_tdi :: u32
  br_tdo :: u32
  br_busy :: nat
  br_tap :: 'j

definition word_pairs :: "nat \<Rightarrow> u32 \<Rightarrow> u32 \<Rightarrow> (bool \<times> bool) list" where
  "word_pairs n tms tdi = map (\<lambda>i. (bit tms i, bit tdi i)) [0..<n]"

text \<open>
  The bridge at \<open>base\<close>, seen through \<open>view\<close>: a write to the control register shifts as many bits as the length
  register says, lowest first, and is over after at most 99 looks.
\<close>

definition shifted :: "'j tap \<Rightarrow> 'j bridge \<Rightarrow> 'j bridge \<Rightarrow> bool" where
  "shifted tap b b' \<longleftrightarrow> (case tap_run tap (word_pairs (unat (br_len b)) (br_tms b) (br_tdi b)) (br_tap b) of (tdo, j) \<Rightarrow>
     br_tap b' = j \<and> br_len b' = br_len b \<and> br_busy b' < 100 \<and> (\<forall>i < unat (br_len b). bit (br_tdo b') i = tdo ! i))"

definition jtag_bridge :: "'h platform \<Rightarrow> u64 \<Rightarrow> ('h \<Rightarrow> 'j bridge) \<Rightarrow> 'j tap \<Rightarrow> bool" where
  "jtag_bridge P base view tap \<longleftrightarrow>
     (\<forall>h v. view (m_store32 P h (base + LENGTH_REG_OFFSET) v) = view h\<lparr>br_len := v\<rparr>) \<and>
     (\<forall>h v. view (m_store32 P h (base + TMS_REG_OFFSET) v) = view h\<lparr>br_tms := v\<rparr>) \<and>
     (\<forall>h v. view (m_store32 P h (base + TDI_REG_OFFSET) v) = view h\<lparr>br_tdi := v\<rparr>) \<and>
     (\<forall>h. br_len (view h) \<le> 32 \<longrightarrow> shifted tap (view h) (view (m_store32 P h (base + CONTROL_REG_OFFSET) 1))) \<and>
     (\<forall>h. (fst (m_load32 P h (base + CONTROL_REG_OFFSET)) AND 1 = 0) = (br_busy (view h) = 0) \<and>
          view (snd (m_load32 P h (base + CONTROL_REG_OFFSET))) = view h\<lparr>br_busy := br_busy (view h) - 1\<rparr>) \<and>
     (\<forall>h. fst (m_load32 P h (base + TDO_REG_OFFSET)) = br_tdo (view h) \<and>
          view (snd (m_load32 P h (base + TDO_REG_OFFSET))) = view h)"

lemma tap_run_length: "length (fst (tap_run tap ps j)) = length ps"
  by (induction ps arbitrary: j) (auto split: prod.splits, metis fst_conv)

lemma tap_run_append:
  "tap_run tap (ps @ qs) j = (case tap_run tap ps j of (a, j') \<Rightarrow> case tap_run tap qs j' of (b, j'') \<Rightarrow> (a @ b, j''))"
  by (induction ps arbitrary: j) (auto split: prod.splits)

section \<open>A word\<close>

lemma shift_wait_bridge:
  assumes B: "jtag_bridge P base view tap" and "region_mapped h base 0x14 (bars s)"
    and "br_busy (view (plat s)) < n"
  obtains p where "shift_wait P h n s = (Inr (), s\<lparr>plat := p\<rparr>)" "view p = view (plat s)\<lparr>br_busy := 0\<rparr>"
  using assms(2-)
proof (induction n arbitrary: s thesis)
  case (Suc n)
  let ?p = "snd (m_load32 P (plat s) (base + CONTROL_REG_OFFSET))"
  have peek: "fpga_pci_peek P h CONTROL_REG_OFFSET s =
      (Inr (fst (m_load32 P (plat s) (base + CONTROL_REG_OFFSET))), s\<lparr>plat := ?p\<rparr>)"
    by (rule region_accesses [OF Suc.prems(2)]) simp
  have busy: "(fst (m_load32 P (plat s) (base + CONTROL_REG_OFFSET)) AND 1 = 0) = (br_busy (view (plat s)) = 0)"
    and view: "view ?p = view (plat s)\<lparr>br_busy := br_busy (view (plat s)) - 1\<rparr>"
    using B by (simp_all add: jtag_bridge_def)
  show ?case
  proof (cases "br_busy (view (plat s)) = 0")
    case True
    show ?thesis
      by (rule Suc.prems(1)) (use peek busy view True in \<open>simp_all add: bindE_apply ok_apply\<close>)
  next
    case False
    then have n: "n \<noteq> 0" "br_busy (view (plat (s\<lparr>plat := ?p\<rparr>))) < n" using Suc.prems(3) view by simp_all
    obtain p where p: "shift_wait P h n (s\<lparr>plat := ?p\<rparr>) = (Inr (), s\<lparr>plat := ?p, plat := p\<rparr>)"
      "view p = view (plat (s\<lparr>plat := ?p\<rparr>))\<lparr>br_busy := 0\<rparr>"
      by (rule Suc.IH [OF _ _ n(2)]) (use Suc.prems(2) in simp_all)
    show ?thesis
      by (rule Suc.prems(1)) (use peek busy view False n(1) p in \<open>simp_all add: bindE_apply\<close>)
  qed
qed simp

lemma shift_bits_bridge:
  assumes B: "jtag_bridge P base view tap" and R: "region_mapped h base 0x14 (bars s)"
    and len: "br_len (view (plat s)) \<le> 32"
    and run: "tap_run tap (word_pairs (unat (br_len (view (plat s)))) tms tdi) (br_tap (view (plat s))) = (outs, j)"
  obtains tdo p where "xvc_shift_bits P h tms tdi s = (Inr tdo, s\<lparr>plat := p\<rparr>)" "br_tap (view p) = j"
    "br_len (view p) = br_len (view (plat s))" "\<forall>i < unat (br_len (view (plat s))). bit tdo i = outs ! i"
proof -
  let ?p1 = "m_store32 P (plat s) (base + TMS_REG_OFFSET) tms"
  let ?p2 = "m_store32 P ?p1 (base + TDI_REG_OFFSET) tdi"
  let ?p3 = "m_store32 P ?p2 (base + CONTROL_REG_OFFSET) 1"
  have v2: "view ?p2 = view (plat s)\<lparr>br_tms := tms, br_tdi := tdi\<rparr>" using B by (simp add: jtag_bridge_def)
  have "br_len (view ?p2) \<le> 32" by (simp add: v2 len)
  then have "shifted tap (view ?p2) (view ?p3)" using B unfolding jtag_bridge_def by blast
  then have v3: "br_tap (view ?p3) = j" "br_len (view ?p3) = br_len (view (plat s))" "br_busy (view ?p3) < 100"
    "\<forall>i < unat (br_len (view (plat s))). bit (br_tdo (view ?p3)) i = outs ! i"
    using run by (simp_all add: shifted_def v2)
  obtain p4 where w: "shift_wait P h 100 (s\<lparr>plat := ?p3\<rparr>) = (Inr (), s\<lparr>plat := ?p3, plat := p4\<rparr>)"
    "view p4 = view (plat (s\<lparr>plat := ?p3\<rparr>))\<lparr>br_busy := 0\<rparr>"
    by (rule shift_wait_bridge [OF B, of h "s\<lparr>plat := ?p3\<rparr>" 100]) (use R v3(3) in simp_all)
  let ?p5 = "snd (m_load32 P p4 (base + TDO_REG_OFFSET))"
  have v5: "view ?p5 = view p4" "fst (m_load32 P p4 (base + TDO_REG_OFFSET)) = br_tdo (view p4)"
    using B by (simp_all add: jtag_bridge_def)
  have acc: "fpga_pci_poke P h off v (s\<lparr>plat := q\<rparr>) = (Inr (), s\<lparr>plat := m_store32 P q (base + off) v\<rparr>)"
    "fpga_pci_peek P h off (s\<lparr>plat := q\<rparr>) =
       (Inr (fst (m_load32 P q (base + off))), s\<lparr>plat := snd (m_load32 P q (base + off))\<rparr>)"
    if "off \<in> {TMS_REG_OFFSET, TDI_REG_OFFSET, CONTROL_REG_OFFSET, TDO_REG_OFFSET}" for off v q
    using region_accesses [where h = h and base = base and n = "0x14" and s = "s\<lparr>plat := q\<rparr>" and off = off and P = P] R that
    by auto
  have "fpga_pci_poke P h TMS_REG_OFFSET tms s = (Inr (), s\<lparr>plat := ?p1\<rparr>)"
    using acc(1) [of TMS_REG_OFFSET tms "plat s"] by simp
  then have "xvc_shift_bits P h tms tdi s = (Inr (br_tdo (view p4)), s\<lparr>plat := ?p5\<rparr>)"
    using w(1) v5(2) by (simp add: xvc_shift_bits_def bindE_apply acc)
  then show thesis using that v3 v5(1) w(2) by simp
qed

section \<open>Bits of buffers\<close>

definition buffer_pairs :: "u8 list \<Rightarrow> u8 list \<Rightarrow> nat \<Rightarrow> nat \<Rightarrow> (bool \<times> bool) list" where
  "buffer_pairs tms tdi a b =
     map (\<lambda>i. (bit (tms ! (i div 8)) (i mod 8), bit (tdi ! (i div 8)) (i mod 8))) [a..<b]"

lemma length_buffer_pairs: "length (buffer_pairs tms tdi a b) = b - a"
  by (simp add: buffer_pairs_def)

lemma bit_get32:
  assumes "i < 32"
  shows "bit (get32 b a) i = bit (b (a + i div 8)) (i mod 8)"
proof -
  consider "i < 8" | "8 \<le> i" "i < 16" | "16 \<le> i" "i < 24" | "24 \<le> i" by linarith
  then show ?thesis
  proof cases
    case 1 then show ?thesis by (simp add: get32_def bit_simps)
  next
    case 2
    then have "i div 8 = 1" "i mod 8 = i - 8" by presburger+
    then show ?thesis using 2 by (auto simp: get32_def bit_simps dest: bit_imp_le_length)
  next
    case 3
    then have "i div 8 = 2" "i mod 8 = i - 16" by presburger+
    then show ?thesis using 3 by (auto simp: get32_def bit_simps dest: bit_imp_le_length)
  next
    case 4
    then have "i div 8 = 3" "i mod 8 = i - 24" using assms by presburger+
    then show ?thesis using 4 assms by (auto simp: get32_def bit_simps dest: bit_imp_le_length)
  qed
qed

lemma byte_position:
  fixes c i :: nat
  assumes "32 dvd c"
  shows "(c + i) div 8 = c div 8 + i div 8" "(c + i) mod 8 = i mod 8"
proof -
  have "8 dvd c" by (rule dvd_trans [OF _ assms]) simp
  then show "(c + i) div 8 = c div 8 + i div 8" "(c + i) mod 8 = i mod 8"
    by (simp_all add: div_plus_div_distrib_dvd_left mod_add_eq [of c 8 i, symmetric] del: mod_add_eq)
qed

lemma bit_word_of_buffer:
  assumes "i < n" "n \<le> 32" "32 dvd c" and "(c + n + 7) div 8 \<le> length bs"
  shows "bit (get32 (put_list store 0 (take ((n + 7) div 8) (drop (c div 8) bs))) 0) i =
    bit (bs ! ((c + i) div 8)) ((c + i) mod 8)"
proof -
  obtain d where c: "c = 32 * d" using assms(3) by blast
  have i: "i div 8 < (n + 7) div 8" using assms(1) by linarith
  have "c div 8 + i div 8 < length bs" using assms(1,4) c by linarith
  then have "i div 8 < length (take ((n + 7) div 8) (drop (c div 8) bs))" using i by simp
  from put_list_inside [OF this, of store 0]
  have "put_list store 0 (take ((n + 7) div 8) (drop (c div 8) bs)) (i div 8) = bs ! (c div 8 + i div 8)"
    using i \<open>c div 8 + i div 8 < length bs\<close> by (simp add: nth_drop)
  moreover note byte_position [OF assms(3), of i]
  ultimately show ?thesis using assms(1,2) by (simp add: bit_get32)
qed

section \<open>All words\<close>

lemma buffer_pairs_word:
  assumes "n \<le> 32" "32 dvd c" and "(c + n + 7) div 8 \<le> length tms" "(c + n + 7) div 8 \<le> length tdi"
  shows "word_pairs n (get32 (put_list ts 0 (take ((n + 7) div 8) (drop (c div 8) tms))) 0)
      (get32 (put_list td 0 (take ((n + 7) div 8) (drop (c div 8) tdi))) 0) = buffer_pairs tms tdi c (c + n)"
proof -
  have "buffer_pairs tms tdi c (c + n) =
      map (\<lambda>i. (bit (tms ! ((c + i) div 8)) ((c + i) mod 8), bit (tdi ! ((c + i) div 8)) ((c + i) mod 8))) [0..<n]"
  proof -
    have e: "[c..<c + n] = map (\<lambda>i. c + i) [0..<n]" using map_add_upt [of c n] by (simp add: add.commute)
    show ?thesis unfolding buffer_pairs_def e map_map comp_def ..
  qed
  then show ?thesis
    unfolding word_pairs_def
    using bit_word_of_buffer [OF _ assms(1,2,3)] bit_word_of_buffer [OF _ assms(1,2,4)] by simp
qed

lemma buffer_pairs_split: "c \<le> m \<Longrightarrow> m \<le> n \<Longrightarrow> buffer_pairs tms tdi c n = buffer_pairs tms tdi c m @ buffer_pairs tms tdi m n"
  using upt_add_eq_append [of c m "n - m"] by (simp add: buffer_pairs_def)

text \<open>The answer of \<open>n\<close> bits at bit \<open>c\<close> of the buffer from \<open>off\<close> on.\<close>

definition stored_bits :: "bytes \<Rightarrow> nat \<Rightarrow> nat \<Rightarrow> bool list \<Rightarrow> bool" where
  "stored_bits out off c tdo \<longleftrightarrow> (\<forall>i < length tdo. bit (out (off + (c + i) div 8)) ((c + i) mod 8) = tdo ! i)"

lemma stored_bits_append:
  "stored_bits out off c (a @ b) \<longleftrightarrow> stored_bits out off c a \<and> stored_bits out off (c + length a) b"
proof -
  have split: "(\<forall>i < p + q. Q i) \<longleftrightarrow> (\<forall>i < p. Q i) \<and> (\<forall>i < q. Q (p + i))" for Q and p q :: nat
  proof -
    have "Q i" if "\<forall>i < p. Q i" "\<forall>i < q. Q (p + i)" "i < p + q" for i
      using that(1) that(2) [rule_format, of "i - p"] that(3) by (cases "i < p") simp_all
    then show ?thesis by auto
  qed
  have first: "i < length a \<Longrightarrow> (a @ b) ! i = a ! i" and second: "(a @ b) ! (length a + i) = b ! i" for i
    by (simp_all add: nth_append)
  show ?thesis
    unfolding stored_bits_def length_append split by (simp only: first second add.assoc cong: imp_cong)
qed

lemma stored_word:
  assumes "length tdo \<le> 32" "32 dvd c" and "\<forall>i < length tdo. bit w i = tdo ! i"
  shows "stored_bits (put_list out (off + c div 8) (get_list (put32 zero_bytes 0 w) 0 ((length tdo + 7) div 8))) off c tdo"
  unfolding stored_bits_def
proof (intro allI impI)
  fix i assume i: "i < length tdo"
  have k: "i div 8 < (length tdo + 7) div 8" using i by linarith
  note pos = byte_position [OF assms(2), of i]
  have "put_list out (off + c div 8) (get_list (put32 zero_bytes 0 w) 0 ((length tdo + 7) div 8)) (off + c div 8 + i div 8)
      = put32 zero_bytes 0 w (i div 8)"
    using put_list_inside [of "i div 8" "get_list (put32 zero_bytes 0 w) 0 ((length tdo + 7) div 8)" out "off + c div 8"] k
    by (simp add: get_list_def)
  moreover have "bit (put32 zero_bytes 0 w (i div 8)) (i mod 8) = bit w i"
    using bit_get32 [of i "put32 zero_bytes 0 w" 0] i assms(1) by simp
  ultimately show "bit (put_list out (off + c div 8) (get_list (put32 zero_bytes 0 w) 0 ((length tdo + 7) div 8))
      (off + (c + i) div 8)) ((c + i) mod 8) = tdo ! i"
    using assms(3) i by (simp add: pos add.assoc)
qed

section \<open>The loop\<close>

lemma shift_loop_bridge:
  assumes B: "jtag_bridge P base view tap" and R: "region_mapped h base 0x14 (bars s)"
    and c: "c < N" "32 dvd c" and N: "N < 2 ^ 32" "(N + 7) div 8 \<le> length tms" "(N + 7) div 8 \<le> length tdi"
    and len: "32 \<le> N - c \<longrightarrow> br_len (view (plat s)) = 32"
    and run: "tap_run tap (buffer_pairs tms tdi c N) (br_tap (view (plat s))) = (tdo, j)"
  shows "\<exists>out' p. shift_loop P h N c ts td tms tdi out off s = (Inr out', s\<lparr>plat := p\<rparr>) \<and> br_tap (view p) = j \<and>
    stored_bits out' off c tdo \<and> (\<forall>a. a < off + c div 8 \<or> off + (N + 7) div 8 \<le> a \<longrightarrow> out' a = out a)"
  using R c len run
proof (induction "N - c" arbitrary: c s ts td out tdo rule: less_induct)
  case less
  define n where "n = min 32 (N - c)"
  have nn: "(if N - c < 32 then N - c else 32) = n" by (simp add: n_def)
  have n: "0 < n" "n \<le> 32" "c + n \<le> N" using less.prems(2) by (auto simp: n_def)
  let ?k = "(n + 7) div 8"
  define ts' where "ts' = put_list ts 0 (take ?k (drop (c div 8) tms))"
  define td' where "td' = put_list td 0 (take ?k (drop (c div 8) tdi))"
  define m where "m = (if N - c < 32 then fpga_pci_poke P h LENGTH_REG_OFFSET (of_nat n) else ok () :: ('a, 'c) pci_st_scheme \<Rightarrow> _)"
  obtain q where q: "m s = (Inr (), s\<lparr>plat := q\<rparr>)" "br_tap (view q) = br_tap (view (plat s))" "br_len (view q) = of_nat n"
  proof (cases "N - c < 32")
    case True
    let ?q = "m_store32 P (plat s) (base + LENGTH_REG_OFFSET) (of_nat n)"
    have "fpga_pci_poke P h LENGTH_REG_OFFSET (of_nat n) s = (Inr (), s\<lparr>plat := ?q\<rparr>)"
      by (rule region_accesses(2) [OF less.prems(1)]) simp
    moreover have "view ?q = view (plat s)\<lparr>br_len := of_nat n\<rparr>" using B by (simp add: jtag_bridge_def)
    ultimately show thesis using that [of ?q] True by (simp add: m_def)
  next
    case False
    then show thesis using that [of "plat s"] less.prems(4) by (simp add: m_def n_def ok_apply)
  qed
  have un: "unat (of_nat n :: u32) = n" using n by (simp add: unsigned_of_nat take_bit_nat_eq_self)
  obtain outs j' where o: "tap_run tap (buffer_pairs tms tdi c (c + n)) (br_tap (view (plat s))) = (outs, j')" by fastforce
  have lo: "length outs = n"
    using tap_run_length [of tap "buffer_pairs tms tdi c (c + n)" "br_tap (view (plat s))"] o by (simp add: length_buffer_pairs)
  have "(c + n + 7) div 8 \<le> (N + 7) div 8" using n(3) by (intro div_le_mono) simp
  then have "(c + n + 7) div 8 \<le> length tms" "(c + n + 7) div 8 \<le> length tdi" using N(2,3) by linarith+
  then have w: "word_pairs n (get32 ts' 0) (get32 td' 0) = buffer_pairs tms tdi c (c + n)"
    unfolding ts'_def td'_def by (rule buffer_pairs_word [OF n(2) less.prems(3)])
  obtain word p where word: "xvc_shift_bits P h (get32 ts' 0) (get32 td' 0) (s\<lparr>plat := q\<rparr>) = (Inr word, s\<lparr>plat := q, plat := p\<rparr>)"
    and p: "br_tap (view p) = j'" "br_len (view p) = of_nat n" and bits: "\<forall>i < n. bit word i = outs ! i"
    by (rule shift_bits_bridge [OF B, of h "s\<lparr>plat := q\<rparr>" "get32 ts' 0" "get32 td' 0" outs j'])
      (use less.prems(1) q un w o n(2) in \<open>simp_all add: word_le_nat_alt\<close>)
  define out1 where "out1 = put_list out (off + c div 8) (get_list (put32 zero_bytes 0 word) 0 ?k)"
  have st1: "stored_bits out1 off c outs"
    using stored_word [of outs c word out off] lo n(2) less.prems(3) bits by (simp add: out1_def)
  have same1: "out1 a = out a" if "a < off + c div 8 \<or> off + c div 8 + ?k \<le> a" for a
    using that by (simp add: out1_def put_list_outside get_list_def)
  have loop: "shift_loop P h N c ts td tms tdi out off s =
      shift_loop P h N (c + n) ts' td' tms tdi out1 off (s\<lparr>plat := p\<rparr>)"
    using q(1) word
    by (subst shift_loop.simps)
      (simp only: less.prems(2) if_True Let_def nn m_def [symmetric] ts'_def [symmetric] td'_def [symmetric] bindE_apply
        attempt_apply prod.case sum.case out1_def [symmetric], simp add: out1_def)
  show ?case
  proof (cases "c + n = N")
    case True
    then have "shift_loop P h N (c + n) ts' td' tms tdi out1 off u = (Inr out1, u)" for u :: "('a, 'c) pci_st_scheme"
      by (subst shift_loop.simps) (simp add: ok_apply)
    moreover have "tdo = outs" "j = j'" using less.prems(5) o True by simp_all
    moreover have "off + c div 8 + ?k = off + (N + 7) div 8"
      using byte_position(1) [OF less.prems(3), of "n + 7"] True by (simp add: add.assoc)
    ultimately show ?thesis using loop st1 same1 p(1) by auto
  next
    case False
    then have n32: "n = 32" "c + n < N" using n(3) by (auto simp: n_def)
    obtain tdo2 where t2: "tap_run tap (buffer_pairs tms tdi (c + n) N) j' = (tdo2, j)" "tdo = outs @ tdo2"
      using less.prems(5) buffer_pairs_split [of c "c + n" N tms tdi] n(3) o by (auto simp: tap_run_append split: prod.splits)
    obtain out' p' where ih: "shift_loop P h N (c + n) ts' td' tms tdi out1 off (s\<lparr>plat := p\<rparr>) = (Inr out', s\<lparr>plat := p, plat := p'\<rparr>)"
      "br_tap (view p') = j" "stored_bits out' off (c + n) tdo2"
      "\<forall>a. a < off + (c + n) div 8 \<or> off + (N + 7) div 8 \<le> a \<longrightarrow> out' a = out1 a"
    proof -
      have d: "N - (c + n) < N - c" "32 dvd c + n" "32 \<le> N - (c + n) \<longrightarrow> br_len (view (plat (s\<lparr>plat := p\<rparr>))) = 32"
        "tap_run tap (buffer_pairs tms tdi (c + n) N) (br_tap (view (plat (s\<lparr>plat := p\<rparr>)))) = (tdo2, j)"
        "region_mapped h base 0x14 (bars (s\<lparr>plat := p\<rparr>))"
        using n32 less.prems(1,3) p t2(1) by simp_all
      show thesis
        using less.hyps [OF d(1,5) n32(2) d(2,3,4), of ts' td' out1] that by blast
    qed
    have c8: "(c + n) div 8 = c div 8 + 4" using byte_position(1) [OF less.prems(3), of n] n32 by simp
    have "stored_bits out' off c outs"
      unfolding stored_bits_def
    proof (intro allI impI)
      fix i assume i: "i < length outs"
      then have "off + (c + i) div 8 < off + (c + n) div 8" using byte_position(1) [OF less.prems(3), of i] c8 lo n32 by simp
      then show "bit (out' (off + (c + i) div 8)) ((c + i) mod 8) = outs ! i"
        using ih(4) st1 i unfolding stored_bits_def by simp
    qed
    moreover have "c div 8 + ?k \<le> (N + 7) div 8"
      using byte_position(1) [OF less.prems(3), of "n + 7"] n(3) div_le_mono [of "c + (n + 7)" "N + 7" 8] by simp
    ultimately show ?thesis
      using loop ih t2(2) same1 c8 lo by (auto simp: stored_bits_append)
  qed
qed

text \<open>
  The answer of a shift of \<open>bits\<close> bits: bit \<open>i\<close> of the answer is what the port gave for the \<open>i\<close>-th pair of TMS and TDI.
\<close>

lemma shift_tms_tdi_bridge:
  assumes "jtag_bridge P base view tap" and "region_mapped h base 0x14 (bars s)"
    and "(unat bits + 7) div 8 \<le> length tms" "(unat bits + 7) div 8 \<le> length tdi"
    and "tap_run tap (buffer_pairs tms tdi 0 (unat bits)) (br_tap (view (plat s))) = (tdo, j)"
  shows "\<exists>out' p. shift_tms_tdi P h bits tms tdi out off s = (Inr out', s\<lparr>plat := p\<rparr>) \<and> br_tap (view p) = j \<and>
    stored_bits out' off 0 tdo \<and> (\<forall>a. a < off \<or> off + (unat bits + 7) div 8 \<le> a \<longrightarrow> out' a = out a)"
proof -
  define q where "q = (if 32 \<le> bits then m_store32 P (plat s) (base + LENGTH_REG_OFFSET) 0x20 else plat s)"
  have v: "br_tap (view q) = br_tap (view (plat s))" "32 \<le> bits \<longrightarrow> br_len (view q) = 32"
    using assms(1) by (auto simp: q_def jtag_bridge_def)
  have "fpga_pci_poke P h LENGTH_REG_OFFSET 0x20 s =
      (Inr (), s\<lparr>plat := m_store32 P (plat s) (base + LENGTH_REG_OFFSET) 0x20\<rparr>)"
    by (rule region_accesses(2) [OF assms(2)]) simp
  then have first: "(if 32 \<le> bits then fpga_pci_poke P h LENGTH_REG_OFFSET 0x20 else ok ()) s = (Inr (), s\<lparr>plat := q\<rparr>)"
    by (simp add: q_def ok_apply)
  then have tms_tdi: "shift_tms_tdi P h bits tms tdi out off s =
      shift_loop P h (unat bits) 0 zero_bytes zero_bytes tms tdi out off (s\<lparr>plat := q\<rparr>)"
    by (simp add: shift_tms_tdi_def bindE_apply attempt_apply)
  show ?thesis
  proof (cases "unat bits = 0")
    case True
    then have "tdo = []" "j = br_tap (view (plat s))" using assms(5) by (simp_all add: buffer_pairs_def)
    moreover have "shift_tms_tdi P h bits tms tdi out off s = (Inr out, s\<lparr>plat := q\<rparr>)"
      unfolding tms_tdi by (subst shift_loop.simps) (simp add: True ok_apply)
    ultimately show ?thesis using v(1) by (auto simp: stored_bits_def)
  next
    case False
    have "unat bits < 2 ^ 32" by (rule order_less_le_trans [OF unsigned_less]) simp
    moreover have "32 \<le> unat bits - 0 \<longrightarrow> br_len (view (plat (s\<lparr>plat := q\<rparr>))) = 32"
      using v(2) by (simp add: word_le_nat_alt)
    ultimately show ?thesis
      using shift_loop_bridge [OF assms(1), of h "s\<lparr>plat := q\<rparr>" 0 "unat bits" tms tdi tdo j zero_bytes zero_bytes out off]
        assms(2-5) False v(1) unfolding tms_tdi by simp
  qed
qed

text \<open>
  C9. Shifting a vector through the debug bridge in words of 32 bits refines a JTAG port taking
  one pair of TMS and TDI bits at a time: for any port and any number of bits, the answer buffer
  holds the TDO bits in order, the port ends in the state after all pairs, and no other byte of
  the answer changes.
\<close>

theorem shift_refines_tap:
  assumes "jtag_bridge P base view tap" and "region_mapped h base 0x14 (bars s)"
    and "(unat bits + 7) div 8 \<le> length tms" "(unat bits + 7) div 8 \<le> length tdi"
    and "tap_run tap (buffer_pairs tms tdi 0 (unat bits)) (br_tap (view (plat s))) = (tdo, j)"
  shows "\<exists>out' p. shift_tms_tdi P h bits tms tdi out off s = (Inr out', s\<lparr>plat := p\<rparr>) \<and> br_tap (view p) = j \<and>
    stored_bits out' off 0 tdo \<and> (\<forall>a. a < off \<or> off + (unat bits + 7) div 8 \<le> a \<longrightarrow> out' a = out a)"
  using assms by (rule shift_tms_tdi_bridge)

section \<open>A bridge\<close>

text \<open>A port of one flip-flop, which gives each bit of TDI one step later, behind a bridge that is busy for two looks.\<close>

definition late_tap :: "bool tap" where
  "late_tap = (\<lambda>(tms, tdi) j. (j, tdi))"

definition bridge_shift :: "bool bridge \<Rightarrow> bool bridge" where
  "bridge_shift b = (case tap_run late_tap (word_pairs (unat (br_len b)) (br_tms b) (br_tdi b)) (br_tap b) of
     (tdo, j) \<Rightarrow> b\<lparr>br_tap := j, br_tdo := horner_sum of_bool 2 tdo, br_busy := 2\<rparr>)"

definition bridge_store :: "bool bridge \<Rightarrow> u64 \<Rightarrow> u32 \<Rightarrow> bool bridge" where
  "bridge_store b a v =
     (if a = 0x100000 then b\<lparr>br_len := v\<rparr> else if a = 0x100004 then b\<lparr>br_tms := v\<rparr>
      else if a = 0x100008 then b\<lparr>br_tdi := v\<rparr> else if a = 0x100010 \<and> v = 1 then bridge_shift b else b)"

definition bridge_load :: "bool bridge \<Rightarrow> u64 \<Rightarrow> u32 \<times> bool bridge" where
  "bridge_load b a =
     (if a = 0x10000C then (br_tdo b, b)
      else (of_bool (br_busy b \<noteq> 0), b\<lparr>br_busy := br_busy b - 1\<rparr>))"

definition bridge_platform :: "bool bridge platform" where
  "bridge_platform = \<lparr>k_scan_hex = (\<lambda>h path. Open_error ENOENT), k_stat = (\<lambda>h path. None), k_readdir = (\<lambda>h path. None),
     k_open = (\<lambda>h path mode. False), k_write = (\<lambda>h path buf. (-1, h)), k_mmap = (\<lambda>h path len. (None, h)),
     k_munmap = (\<lambda>h addr len. (True, h)), k_nanosleep = (\<lambda>ms h. h), c_rand = (\<lambda>h. (42, h)), c_indet = (\<lambda>h. 0),
     m_load8 = (\<lambda>h a. (0, h)), m_load32 = bridge_load, m_load64 = (\<lambda>h a. (0, h)),
     m_store8 = (\<lambda>h a v. h), m_store32 = bridge_store, m_store64 = (\<lambda>h a v. h)\<rparr>"

lemma bridge_platform_is_bridge: "jtag_bridge bridge_platform 0x100000 (\<lambda>b. b) late_tap"
proof -
  have "shifted late_tap b (bridge_shift b)" if "br_len b \<le> 32" for b
  proof -
    have len: "length (fst (tap_run late_tap (word_pairs (unat (br_len b)) (br_tms b) (br_tdi b)) (br_tap b))) = unat (br_len b)"
      by (simp add: tap_run_length word_pairs_def)
    have "unat (br_len b) \<le> 32" using that by (simp add: word_le_nat_alt)
    then show ?thesis
      using len by (auto simp: shifted_def bridge_shift_def bit_horner_sum_bit_iff split: prod.splits)
  qed
  then show ?thesis
    by (simp add: jtag_bridge_def bridge_platform_def bridge_store_def bridge_load_def)
qed

definition bridge_demo :: "bool bridge pci_st" where
  "bridge_demo = \<lparr>bars = \<lparr>allocated = True, mem_base = 0x100000, mem_size = 0x1000\<rparr> #
       replicate (FPGA_PCI_BARS_MAX - 1) \<lparr>allocated = False, mem_base = 0, mem_size = 0\<rparr>,
     plat = \<lparr>br_len = 0, br_tms = 0, br_tdi = 0, br_tdo = 0, br_busy = 0, br_tap = True\<rparr>\<rparr>"

text \<open>Thirty-six bits, over two words: the answer is TDI, late by one bit, after the bit that was in the port.\<close>

theorem shift_refines_tap_witness:
  "\<exists>out p. shift_tms_tdi bridge_platform 0 36 [0, 0, 0, 0, 0] [0x01, 0x80, 0xFF, 0x00, 0x0A] zero_bytes 0 bridge_demo =
       (Inr out, bridge_demo\<lparr>plat := p\<rparr>) \<and> br_tap p \<and>
     stored_bits out 0 0 ([True, True] @ replicate 14 False @ replicate 9 True @ replicate 8 False @ [False, True, False])"
proof -
  have mapped: "region_mapped 0 0x100000 0x14 (bars bridge_demo)"
    by (auto simp: region_mapped_def bridge_demo_def mappings_ok_def)
  have run: "tap_run late_tap (buffer_pairs [0, 0, 0, 0, 0] [0x01, 0x80, 0xFF, 0x00, 0x0A] 0 (unat (36 :: u32))) (br_tap (plat bridge_demo)) =
      ([True, True] @ replicate 14 False @ replicate 9 True @ replicate 8 False @ [False, True, False], True)"
    by code_simp
  show ?thesis
    using shift_refines_tap [OF bridge_platform_is_bridge mapped _ _ run, of zero_bytes 0] by auto
qed

end
