(* ===== verification/Xvc_Session.thy ===== *)
theory Xvc_Session
  imports Xvc_Server Vjtag_Device
begin

text \<open>
  A session of the virtual JTAG server: the requests of a client come back out of the stream of its bytes, however
  the network cuts it into packets, and the replies that are sent are those of the port.
\<close>

section \<open>Requests on the wire\<close>

fun encode :: "xvc_request \<Rightarrow> u8 list" where
  "encode Getinfo = word_getinfo"
| "encode (Shift bits tms tdi) = word_shift @ set_uint_le 4 bits @ tms @ tdi"
| "encode (Settck nsperiod) = word_settck @ set_uint_le 4 nsperiod"
| "encode _ = []"

text \<open>The requests of a well behaved client: a shift has the bytes for its bits and fits the buffer.\<close>

fun request_ok :: "xvc_request \<Rightarrow> bool" where
  "request_ok Getinfo = True"
| "request_ok (Shift bits tms tdi) = (length tms = (unat bits + 7) div 8 \<and> length tdi = length tms \<and> 10 + 2 * length tms \<le> MAX_PACKET_LEN)"
| "request_ok (Settck nsperiod) = True"
| "request_ok _ = False"

lemma length_set_uint_le [simp]: "length (set_uint_le n v) = n"
  by (induction n arbitrary: v) simp_all

lemma get_set_uint_le [simp]: "get_uint_le (set_uint_le 4 v) = v"
proof -
  have four: "4 = Suc (Suc (Suc (Suc 0)))" by simp
  have "set_uint_le 4 v = [ucast v, ucast (drop_bit 8 v), ucast (drop_bit 16 v), ucast (drop_bit 24 v)]"
    by (subst four) (simp add: drop_bit_drop_bit del: numeral_eq_Suc)
  then have "get_uint_le (set_uint_le 4 v) = ucast (ucast v :: u8) OR push_bit 8 (ucast (ucast (drop_bit 8 v) :: u8))
     OR push_bit 16 (ucast (ucast (drop_bit 16 v) :: u8)) OR push_bit 24 (ucast (ucast (drop_bit 24 v) :: u8))"
    by (simp add: push_bit_or or.assoc or.commute or.left_commute)
  then show ?thesis by (simp only: bytes_of_u32)
qed

lemma length_encode: "request_ok r \<Longrightarrow> length (encode r) = request_size r"
  by (cases r) auto

lemma shift_bytes:
  assumes "request_ok (Shift bits tms tdi)"
  shows "unat ((bits + 7) div 8) = length tms"
proof -
  have "unat bits + 7 < 8 * (length tms + 1)" using assms by simp
  then have "unat bits < 2 ^ 32 - 7" using assms by simp
  then have "unat (bits + 7) = unat bits + 7" by (simp add: unat_word_ariths)
  then show ?thesis using assms by (simp add: unat_div)
qed

text \<open>The word up to the first colon.\<close>

lemma next_request_word:
  assumes "58 \<notin> set v" "length v < 30" and "cbuf = v @ 58 # rest"
  shows "next_request M cbuf =
     (if v @ [58] = word_getinfo then Getinfo
      else if v @ [58] = word_shift then shift_request M rest
      else if v @ [58] = word_settck then settck_request rest
      else Protocol_error)"
proof -
  have t: "takeWhile (\<lambda>b. b \<noteq> 58) (v @ 58 # x) = v" for x
    using assms(1) by (subst takeWhile_append2) auto
  have "take (min 30 (length cbuf)) cbuf = v @ 58 # take (min 30 (length cbuf) - length v - 1) rest"
    using assms(2,3) by (simp add: take_Cons' min_def)
  then have w: "takeWhile (\<lambda>b. b \<noteq> 58) (take (min 30 (length cbuf)) cbuf) = v" by (simp only: t)
  have "\<not> min 30 (length cbuf) \<le> length v" using assms(2,3) by simp
  then show ?thesis unfolding next_request_def Let_def w using assms(3) by simp
qed

lemma next_request_no_word:
  assumes "58 \<notin> set cbuf" "length cbuf < 30"
  shows "next_request M cbuf = Need_more"
proof -
  have t: "takeWhile (\<lambda>b. b \<noteq> 58) cbuf = cbuf" using assms(1) by (auto simp: takeWhile_eq_all_conv)
  show ?thesis using assms(2) by (simp add: next_request_def Let_def t)
qed

text \<open>The three words without their colons.\<close>

definition word_text :: "xvc_request \<Rightarrow> u8 list" where
  "word_text r = bytes_of_string (case r of Getinfo \<Rightarrow> ''getinfo'' | Shift _ _ _ \<Rightarrow> ''shift'' | _ \<Rightarrow> ''settck'')"

fun request_data :: "xvc_request \<Rightarrow> u8 list" where
  "request_data (Shift bits tms tdi) = set_uint_le 4 bits @ tms @ tdi"
| "request_data (Settck nsperiod) = set_uint_le 4 nsperiod"
| "request_data _ = []"

lemma encode_word: "request_ok r \<Longrightarrow> encode r = word_text r @ 58 # request_data r"
  by (cases r) (simp_all add: word_text_def word_getinfo_def word_shift_def word_settck_def bytes_of_string_def)

lemma word_text_facts: "58 \<notin> set (word_text r)" "length (word_text r) < 30"
  by (cases r; simp add: word_text_def bytes_of_string_def)+

lemma request_data_parsed:
  assumes "request_ok r" and "cbuf = word_text r @ 58 # rest"
  shows "next_request M cbuf = (case r of Getinfo \<Rightarrow> Getinfo | Shift _ _ _ \<Rightarrow> shift_request M rest | _ \<Rightarrow> settck_request rest)"
  unfolding next_request_word [OF word_text_facts assms(2)]
  using assms(1) by (cases r) (simp_all add: word_text_def word_getinfo_def word_shift_def word_settck_def bytes_of_string_def)

text \<open>A request is read back from the bytes that start with it, and not before all of it is there.\<close>

lemma next_request_encode:
  assumes "request_ok r"
  shows "next_request M (encode r @ rest) = r"
proof -
  have e: "encode r @ rest = word_text r @ 58 # (request_data r @ rest)" using encode_word [OF assms] by simp
  show ?thesis
    unfolding request_data_parsed [OF assms e]
    using assms shift_bytes by (cases r) (auto simp: shift_request_def settck_request_def Let_def)
qed

lemma next_request_partial:
  assumes "request_ok r" "k < length (encode r)"
  shows "next_request MAX_PACKET_LEN (take k (encode r)) = Need_more"
proof (cases "k \<le> length (word_text r)")
  case True
  then have t: "take k (encode r) = take k (word_text r)" by (simp add: encode_word [OF assms(1)])
  show ?thesis unfolding t
    by (rule next_request_no_word) (use word_text_facts [of r] in \<open>auto dest: in_set_takeD\<close>)
next
  case False
  define m where "m = k - length (word_text r) - 1"
  have t: "take k (encode r) = word_text r @ 58 # take m (request_data r)"
    using False by (simp add: encode_word [OF assms(1)] m_def take_Cons')
  have m: "m < length (request_data r)" using assms False by (simp add: encode_word m_def)
  show ?thesis
    unfolding request_data_parsed [OF assms(1) t]
  proof (cases r)
    case (Shift bits tms tdi)
    have "get_uint_le (take 4 (take m (request_data r))) = bits" if "4 \<le> m"
      using that by (simp add: Shift min_def)
    then show "(case r of Getinfo \<Rightarrow> Getinfo | Shift _ _ _ \<Rightarrow> shift_request MAX_PACKET_LEN (take m (request_data r))
        | _ \<Rightarrow> settck_request (take m (request_data r))) = Need_more"
      using m assms(1) shift_bytes [of bits tms tdi] by (auto simp: Shift shift_request_def Let_def)
  qed (use m assms(1) in \<open>auto simp: settck_request_def\<close>)
qed

section \<open>The requests of a buffer\<close>

text \<open>The answers to some requests, in order.\<close>

fun answers :: "'h platform \<Rightarrow> xvc_client \<Rightarrow> xvc_request list \<Rightarrow> (('h, 'w, 'z) xvc_st_scheme, unit) run" where
  "answers P c [] = returns (ok ())"
| "answers P c (r # rs) = bindR (answer P c r) (\<lambda>_. answers P c rs)"

definition stream :: "xvc_request list \<Rightarrow> u8 list" where
  "stream rs = concat (map encode rs)"

text \<open>A beginning of a stream is some whole requests and a part of the next.\<close>

lemma stream_beginning:
  assumes "stream rs = a @ b"
  obtains rs1 rs2 part where "rs = rs1 @ rs2" "a = stream rs1 @ part"
    "part = [] \<or> (\<exists>k < length (encode (hd rs2)). rs2 \<noteq> [] \<and> part = take k (encode (hd rs2)))" "part @ b = stream rs2"
  using assms
proof (induction rs arbitrary: a thesis)
  case Nil
  show ?case by (rule Nil(1) [of "[]" "[]" "[]"]) (use Nil(2) in \<open>auto simp: stream_def\<close>)
next
  case (Cons r rs)
  show ?case
  proof (cases "length a < length (encode r)")
    case True
    have "a = take (length a) (stream (r # rs))" using Cons.prems(2) by simp
    then have "a = take (length a) (encode r)" using True by (simp add: stream_def)
    then show ?thesis by (intro Cons.prems(1) [of "[]" "r # rs" a]) (use Cons.prems(2) True in \<open>auto simp: stream_def\<close>)
  next
    case False
    have e: "encode r @ stream rs = a @ b" using Cons.prems(2) by (simp add: stream_def)
    then have "take (length (encode r)) a = encode r" using False by (metis append_eq_conv_conj not_less take_all take_append append_Nil2 diff_is_0_eq take_0)
    then obtain a' where a: "a = encode r @ a'" by (metis append_take_drop_id)
    then have "stream rs = a' @ b" using e by simp
    then obtain rs1 rs2 part where d: "rs = rs1 @ rs2" "a' = stream rs1 @ part"
      "part = [] \<or> (\<exists>k < length (encode (hd rs2)). rs2 \<noteq> [] \<and> part = take k (encode (hd rs2)))" "part @ b = stream rs2"
      using Cons.IH by blast
    show ?thesis by (rule Cons.prems(1) [of "r # rs1" rs2 part]) (use d a in \<open>simp_all add: stream_def\<close>)
  qed
qed

lemma bindR_assoc: "bindR (bindR m k) l = bindR m (\<lambda>x. bindR (k x) l)"
  by (rule ext) (simp add: bindR_apply split: option.splits prod.splits sum.splits)

lemma requests_loop_stream:
  assumes "\<forall>r \<in> set rs. request_ok r" and "next_request (xc_buf_max c) part = Need_more"
  shows "requests_loop P c (stream rs @ part) =
    (bindR (answers P c rs) (\<lambda>_. returns (ok (Some part))) :: (('h, 'w, 'z) xvc_st_scheme, u8 list option) run)"
  using assms(1)
proof (induction rs)
  case Nil
  show ?case by (subst requests_loop.simps) (simp add: assms(2) stream_def fun_eq_iff run_simps ok_apply)
next
  case (Cons r rs)
  have n: "next_request (xc_buf_max c) (stream (r # rs) @ part) = r"
    using next_request_encode [of r "xc_buf_max c" "stream rs @ part"] Cons.prems by (simp add: stream_def)
  have "r \<noteq> Need_more" "r \<noteq> Protocol_error" "r \<noteq> Assertion" using Cons.prems by auto
  moreover have "drop (request_size r) (stream (r # rs) @ part) = stream rs @ part"
    using length_encode [of r] Cons.prems by (simp add: stream_def)
  ultimately have "requests_loop P c (stream (r # rs) @ part) =
      (bindR (answer P c r) (\<lambda>_. requests_loop P c (stream rs @ part)) :: (('h, 'w, 'z) xvc_st_scheme, u8 list option) run)"
    by (subst requests_loop.simps) (simp add: n Let_def)
  moreover have "\<forall>r \<in> set rs. request_ok r" using Cons.prems by simp
  note Cons.IH [OF this]
  ultimately show ?case by (simp only: answers.simps bindR_assoc)
qed


section \<open>Replies\<close>

text \<open>
  What a client may get for its requests from a port in state \<open>j\<close>: the bits of the last byte of a shift beyond its
  count are not determined.
\<close>

inductive served :: "'j tap \<Rightarrow> xvc_request list \<Rightarrow> 'j \<Rightarrow> u8 list \<Rightarrow> 'j \<Rightarrow> bool" for tap where
  served_nil: "served tap [] j [] j"
| served_getinfo: "served tap rs j bs j' \<Longrightarrow>
    served tap (Getinfo # rs) j (bytes_of_string (getinfo_text MAX_PACKET_LEN) @ bs) j'"
| served_settck: "served tap rs j bs j' \<Longrightarrow> served tap (Settck v # rs) j (set_uint_le 4 v @ bs) j'"
| served_shift: "tap_run tap (buffer_pairs tms tdi 0 (unat bits)) j = (tdo, i) \<Longrightarrow> length b = length tms \<Longrightarrow>
    \<forall>k < unat bits. bit (b ! (k div 8)) (k mod 8) = tdo ! k \<Longrightarrow> served tap rs i bs j' \<Longrightarrow>
    served tap (Shift bits tms tdi # rs) j (b @ bs) j'"

lemma served_append: "served tap rs j b i \<Longrightarrow> served tap rs' i b' j' \<Longrightarrow> served tap (rs @ rs') j (b @ b') j'"
  by (induction rule: served.induct) (auto intro: served.intros)

fun reply_size :: "xvc_request \<Rightarrow> nat" where
  "reply_size Getinfo = 22"
| "reply_size (Shift bits tms tdi) = length tms"
| "reply_size _ = 4"

text \<open>The state with some more bytes of reply.\<close>

definition replied :: "bytes \<Rightarrow> nat \<Rightarrow> bytes \<Rightarrow> nat \<Rightarrow> u8 list \<Rightarrow> bool" where
  "replied out n out' n' b \<longleftrightarrow> n' = n + length b \<and> get_list out' 0 n' = get_list out 0 n @ b"

lemma replied_trans: "replied out n out1 n1 b \<Longrightarrow> replied out1 n1 out2 n2 b' \<Longrightarrow> replied out n out2 n2 (b @ b')"
  by (auto simp: replied_def add.assoc)

lemma get_list_append: "get_list b i (m + n) = get_list b i m @ get_list b (i + m) n"
  unfolding get_list_def add.assoc [symmetric] by (subst upt_add_eq_append) simp_all

lemma replied_put:
  assumes "m \<le> length bs"
  shows "replied out n (put_list out n bs) (n + m) (take m bs)"
proof -
  have "get_list (put_list out n bs) 0 n = get_list out 0 n" by (rule get_list_cong) (simp add: put_list_outside)
  moreover have "get_list (put_list out n bs) n m = take m bs"
    by (rule nth_equalityI) (use assms in \<open>simp_all add: get_list_def put_list_inside\<close>)
  ultimately show ?thesis using assms by (simp add: replied_def get_list_append)
qed

lemma answer_served:
  fixes s :: "('h, 'w, 'z) xvc_st_scheme"
  assumes B: "jtag_bridge P base view tap" and R: "region_mapped (xc_handle c) base 0x14 (bars s)"
    and c: "xc_buf_max c = MAX_PACKET_LEN" "\<not> xc_pending_error c" and r: "request_ok r"
    and room: "reply_len s + reply_size r \<le> unat (reply_max s)"
  obtains p out b where "answer P c r s = Some (Inr (), s\<lparr>plat := p, reply_buf := out, reply_len := reply_len s + length b\<rparr>)"
    "replied (reply_buf s) (reply_len s) out (reply_len s + length b) b" "length b \<le> reply_size r"
    "served tap [r] (br_tap (view (plat s))) b (br_tap (view p))"
proof (cases r)
  case Getinfo
  let ?t = "bytes_of_string (getinfo_text MAX_PACKET_LEN)"
  have l: "length ?t = 21" "length (getinfo_text MAX_PACKET_LEN) = 21"
    by (simp_all add: getinfo_text_def bytes_of_string_def digits_of.simps)
  have a: "answer P c r s = Some (Inr (), s\<lparr>plat := plat s, reply_buf := put_list (reply_buf s) (reply_len s) (?t @ [0]),
      reply_len := reply_len s + length ?t\<rparr>)"
    using room l by (simp add: Getinfo c put_reply_def)
  have b: "served tap [r] (br_tap (view (plat s))) ?t (br_tap (view (plat s)))"
    using served_getinfo [OF served_nil] by (simp add: Getinfo)
  show thesis by (rule that [OF a _ _ b]) (use replied_put [of 21 "?t @ [0]"] l Getinfo in simp_all)
next
  case (Settck v)
  have a: "answer P c r s = Some (Inr (), s\<lparr>plat := plat s, reply_buf := put_list (reply_buf s) (reply_len s) (set_uint_le 4 v),
      reply_len := reply_len s + length (set_uint_le 4 v)\<rparr>)"
    using room by (simp add: Settck c put_reply_def set_tck_def ucast_up_down)
  have b: "served tap [r] (br_tap (view (plat s))) (set_uint_le 4 v) (br_tap (view (plat s)))"
    using served_settck [OF served_nil] by (simp add: Settck)
  show thesis by (rule that [OF a _ _ b]) (use replied_put [of 4 "set_uint_le 4 v"] Settck in simp_all)
next
  case (Shift bits tms tdi)
  have n: "length tms = (unat bits + 7) div 8" "length tdi = length tms" using r by (simp_all add: Shift)
  obtain tdo j where run: "tap_run tap (buffer_pairs tms tdi 0 (unat bits)) (br_tap (view (plat s))) = (tdo, j)" by fastforce
  from shift_tms_tdi_bridge [OF B R _ _ this, of "reply_buf s" "reply_len s"] n
  obtain out p where o: "shift_tms_tdi P (xc_handle c) bits tms tdi (reply_buf s) (reply_len s) s = (Inr out, s\<lparr>plat := p\<rparr>)"
    "br_tap (view p) = j" "stored_bits out (reply_len s) 0 tdo"
    "\<forall>a. a < reply_len s \<or> reply_len s + length tms \<le> a \<longrightarrow> out a = reply_buf s a" by auto
  define b where "b = get_list out (reply_len s) (length tms)"
  have lb: "length b = length tms" by (simp add: b_def get_list_def)
  have "get_list out 0 (reply_len s) = get_list (reply_buf s) 0 (reply_len s)" by (rule get_list_cong) (simp add: o(4))
  then have rep: "replied (reply_buf s) (reply_len s) out (reply_len s + length b) b"
    unfolding replied_def get_list_append lb by (simp add: b_def)
  have "unat bits \<le> 8 * length tms" using n by simp
  then have a: "answer P c r s = Some (Inr (), s\<lparr>plat := p, reply_buf := out, reply_len := reply_len s + length b\<rparr>)"
    using room o(1) by (simp add: Shift shift_reply_def c run_simps lb modify_apply)
  have "length tdo = unat bits"
    using tap_run_length [of tap "buffer_pairs tms tdi 0 (unat bits)" "br_tap (view (plat s))"] run by (simp add: length_buffer_pairs)
  then have "\<forall>k < unat bits. bit (b ! (k div 8)) (k mod 8) = tdo ! k"
    using o(3) n(1) by (auto simp: stored_bits_def b_def get_list_def)
  then have "served tap [r] (br_tap (view (plat s))) b (br_tap (view p))"
    using served_shift [OF run lb _ served_nil] o(2) by (simp add: Shift)
  then show thesis using lb Shift by (intro that [OF a rep]) simp_all
qed (use r in simp_all)


lemma answers_served:
  fixes s :: "('h, 'w, 'z) xvc_st_scheme"
  assumes B: "jtag_bridge P base view tap" and R: "region_mapped (xc_handle c) base 0x14 (bars s)"
    and c: "xc_buf_max c = MAX_PACKET_LEN" "\<not> xc_pending_error c" and rs: "\<forall>r \<in> set rs. request_ok r"
    and room: "reply_len s + sum_list (map reply_size rs) \<le> unat (reply_max s)"
  obtains p out b where "answers P c rs s = Some (Inr (), s\<lparr>plat := p, reply_buf := out, reply_len := reply_len s + length b\<rparr>)"
    "replied (reply_buf s) (reply_len s) out (reply_len s + length b) b"
    "served tap rs (br_tap (view (plat s))) b (br_tap (view p))"
  using R rs room
proof (induction rs arbitrary: s thesis)
  case Nil
  show ?case
    by (rule Nil(1) [where p = "plat s" and out = "reply_buf s" and b = "[]"]) (simp_all add: run_simps ok_apply replied_def served_nil)
next
  case (Cons r rs)
  obtain p out b where a: "answer P c r s = Some (Inr (), s\<lparr>plat := p, reply_buf := out, reply_len := reply_len s + length b\<rparr>)"
    "replied (reply_buf s) (reply_len s) out (reply_len s + length b) b" "length b \<le> reply_size r"
    "served tap [r] (br_tap (view (plat s))) b (br_tap (view p))"
    by (rule answer_served [OF B Cons.prems(2) c, of r]) (use Cons.prems(3,4) in simp_all)
  let ?s = "s\<lparr>plat := p, reply_buf := out, reply_len := reply_len s + length b\<rparr>"
  obtain p' out' b' where b: "answers P c rs ?s = Some (Inr (), ?s\<lparr>plat := p', reply_buf := out', reply_len := reply_len ?s + length b'\<rparr>)"
    "replied (reply_buf ?s) (reply_len ?s) out' (reply_len ?s + length b') b'"
    "served tap rs (br_tap (view (plat ?s))) b' (br_tap (view p'))"
    by (rule Cons.IH [of ?s]) (use Cons.prems a(3) in simp_all)
  show ?case
  proof (rule Cons.prems(1) [where p = p' and out = out' and b = "b @ b'"])
    show "answers P c (r # rs) s = Some (Inr (), s\<lparr>plat := p', reply_buf := out', reply_len := reply_len s + length (b @ b')\<rparr>)"
      using a(1) b(1) by (simp add: bindR_apply add.assoc)
    show "replied (reply_buf s) (reply_len s) out' (reply_len s + length (b @ b')) (b @ b')"
      using replied_trans [OF a(2), of out' "reply_len s + length b + length b'" b'] b(2) by (simp add: add.assoc)
    show "served tap (r # rs) (br_tap (view (plat s))) (b @ b') (br_tap (view p'))"
      using served_append [OF a(4), of rs b' "br_tap (view p')"] b(3) by simp
  qed
qed

lemma answers_served_first:
  fixes s :: "('h, 'w, 'z) xvc_st_scheme"
  assumes B: "jtag_bridge P base view tap" and R: "region_mapped (xc_handle c) base 0x14 (bars s)"
    and c: "xc_buf_max c = MAX_PACKET_LEN" "\<not> xc_pending_error c" and rs: "\<forall>r \<in> set rs. request_ok r"
    and room: "sum_list (map reply_size rs) \<le> unat (reply_max s)"
  obtains p out b where "answers P c rs (s\<lparr>reply_len := 0\<rparr>) =
      Some (Inr (), s\<lparr>plat := p, reply_buf := out, reply_len := length b\<rparr>)"
    "get_list out 0 (length b) = b" "served tap rs (br_tap (view (plat s))) b (br_tap (view p))"
proof -
  let ?s = "s\<lparr>reply_len := 0\<rparr>"
  obtain p out b where "answers P c rs ?s = Some (Inr (), ?s\<lparr>plat := p, reply_buf := out, reply_len := reply_len ?s + length b\<rparr>)"
    "replied (reply_buf ?s) (reply_len ?s) out (reply_len ?s + length b) b"
    "served tap rs (br_tap (view (plat ?s))) b (br_tap (view p))"
    by (rule answers_served [OF B _ c rs, of ?s]) (use R room in simp_all)
  then show thesis using that by (simp add: replied_def get_list_def)
qed

text \<open>The replies to a buffer full of requests fit the reply buffer, if not too many of them are \<open>getinfo\<close>.\<close>

lemma stream_replies: "\<forall>r \<in> set rs. request_ok r \<Longrightarrow>
  2 * sum_list (map reply_size rs) \<le> length (stream rs) + 44 * length (filter (\<lambda>r. r = Getinfo) rs)"
proof (induction rs)
  case (Cons r rs)
  have "2 * reply_size r \<le> length (encode r) + (if r = Getinfo then 44 else 0)" using Cons.prems by (cases r) auto
  then show ?case using Cons by (cases "r = Getinfo") (simp_all add: stream_def)
qed (simp add: stream_def)

lemma encode_length: "request_ok r \<Longrightarrow> 0 < length (encode r) \<and> length (encode r) \<le> MAX_PACKET_LEN"
  by (cases r) auto

section \<open>The connection\<close>

text \<open>
  A connection whose peer has \<open>pending\<close> to send and gets \<open>sent\<close>: a receive yields some of it, and nothing only at its
  end, and a send takes everything.
\<close>

definition stream_net :: "'w net_ops \<Rightarrow> int \<Rightarrow> ('w \<Rightarrow> u8 list) \<Rightarrow> ('w \<Rightarrow> u8 list) \<Rightarrow> bool" where
  "stream_net N fd pending sent \<longleftrightarrow>
     (\<forall>w n. 0 < n \<longrightarrow> (\<exists>bs w'. n_recv N fd n w = (Some bs, w') \<and> pending w = bs @ pending w' \<and> length bs \<le> n \<and>
        (bs = [] \<longrightarrow> pending w = []) \<and> sent w' = sent w)) \<and>
     (\<forall>w bs. \<exists>k w'. n_send N fd bs w = (k, w') \<and> 0 \<le> k \<and> pending w' = pending w \<and> sent w' = sent w @ bs)"

inductive_cases served_nilE: "served tap [] j b j'"

lemma read_more_served:
  fixes s :: "('h, 'w, 'z) xvc_st_scheme"
  assumes B: "jtag_bridge P base view tap" and net: "stream_net N fd pending sent"
    and c: "xc_buf_max c = MAX_PACKET_LEN" "\<not> xc_pending_error c" "xc_fd c = fd"
    and R: "region_mapped (xc_handle c) base 0x14 (bars s)" and max: "reply_max s = 16384"
    and rs: "\<forall>r \<in> set rs. request_ok r" "length (filter (\<lambda>r. r = Getinfo) rs) \<le> 500"
    and buf: "xc_buf c @ pending (world s) = stream rs" "length (xc_buf c) \<le> MAX_PACKET_LEN"
  shows "\<exists>t b. read_more P N c s = Some (Inr (), t) \<and> sent (world t) = sent (world s) @ b \<and>
    served tap rs (br_tap (view (plat s))) b (br_tap (view (plat t)))"
  using c R max rs buf
proof (induction "length (pending (world s))" arbitrary: c s rs rule: less_induct)
  case less
  note ok = less.prems(6)
  obtain rs1 rs2 part where split: "rs = rs1 @ rs2" "xc_buf c = stream rs1 @ part"
    "part = [] \<or> (\<exists>k < length (encode (hd rs2)). rs2 \<noteq> [] \<and> part = take k (encode (hd rs2)))"
    "part @ pending (world s) = stream rs2"
    using stream_beginning [OF less.prems(8) [symmetric]] by blast
  have part: "next_request (xc_buf_max c) part = Need_more" "length part < MAX_PACKET_LEN" "rs2 \<noteq> [] \<longrightarrow> length part < length (encode (hd rs2))"
  proof -
    have h: "request_ok (hd rs2)" if "rs2 \<noteq> []" using ok split(1) that by (cases rs2) auto
    show "next_request (xc_buf_max c) part = Need_more"
      using split(3) h next_request_partial next_request_no_word [of "[]"] less.prems(1) by auto
    show "length part < MAX_PACKET_LEN" "rs2 \<noteq> [] \<longrightarrow> length part < length (encode (hd rs2))"
      using split(3) h encode_length by (auto simp: min_def split: if_splits) (meson order_less_le_trans)+
  qed
  have ok1: "\<forall>r \<in> set rs1. request_ok r" and ok2: "\<forall>r \<in> set rs2. request_ok r" using ok split(1) by auto
  have "2 * sum_list (map reply_size rs1) \<le> 2 * 16384"
    using stream_replies [OF ok1] less.prems(7,9) split(1,2) by simp
  then have room: "sum_list (map reply_size rs1) \<le> unat (reply_max s)" using less.prems(5) by simp
  obtain p out b1 where a: "answers P c rs1 (s\<lparr>reply_len := 0\<rparr>) =
      Some (Inr (), s\<lparr>plat := p, reply_buf := out, reply_len := length b1\<rparr>)"
    "get_list out 0 (length b1) = b1" "served tap rs1 (br_tap (view (plat s))) b1 (br_tap (view p))"
    by (rule answers_served_first [OF B less.prems(4,1,2) ok1 room])
  let ?t = "s\<lparr>plat := p, reply_buf := out, reply_len := length b1\<rparr>"
  have loop: "requests_loop P c (xc_buf c) (s\<lparr>reply_len := 0\<rparr>) = Some (Inr (Some part), ?t)"
    unfolding split(2) requests_loop_stream [where part = part, OF ok1 part(1)]
    by (simp add: bindR_apply a(1) run_simps ok_apply)
  define n where "n = (if length part < length (xc_buf c) then n_send N fd b1 (world s) else (0, world s))"
  have n: "0 \<le> fst n" "pending (snd n) = pending (world s)" "sent (snd n) = sent (world s) @ b1"
  proof -
    have "b1 = []" if "\<not> length part < length (xc_buf c)"
    proof -
      have "stream rs1 = []" using that split(2) by simp
      then have "rs1 = []" using ok1 encode_length by (cases rs1) (auto simp: stream_def)
      then show ?thesis using a(3) by (auto elim: served_nilE)
    qed
    moreover obtain k w where "n_send N fd b1 (world s) = (k, w)" "0 \<le> k" "pending w = pending (world s)" "sent w = sent (world s) @ b1"
      using net unfolding stream_net_def by blast
    ultimately show "0 \<le> fst n" "pending (snd n) = pending (world s)" "sent (snd n) = sent (world s) @ b1"
      by (simp_all add: n_def)
  qed
  obtain bs w where recv: "n_recv N fd (MAX_PACKET_LEN - length part) (snd n) = (Some bs, w)" "pending (snd n) = bs @ pending w"
    "length bs \<le> MAX_PACKET_LEN - length part" "bs = [] \<longrightarrow> pending (snd n) = []" "sent w = sent (snd n)"
    using net part(2) unfolding stream_net_def by (meson zero_less_diff)
  let ?u = "?t\<lparr>world := w\<rparr>"
  have step: "read_more P N c s = (if bs = [] then Some (Inr (), ?u) else read_more P N (c\<lparr>xc_buf := part @ bs\<rparr>) ?u)"
    using loop a(2) recv(1) n(1) less.prems(1,3)
    by (subst read_more.simps) (auto simp: run_simps modify_apply send_packet_def on_world_def gets_apply ok_apply bindE_apply n_def
      split: prod.splits if_splits)
  show ?case
  proof (cases "bs = []")
    case True
    then have "rs2 = []" using recv(4) n(2) split(4) part(3) by (cases rs2) (auto simp: stream_def)
    then show ?thesis using step True a(3) split(1) n(3) recv(5) by auto
  next
    case False
    have "\<exists>t b. read_more P N (c\<lparr>xc_buf := part @ bs\<rparr>) ?u = Some (Inr (), t) \<and> sent (world t) = sent (world ?u) @ b \<and>
      served tap rs2 (br_tap (view (plat ?u))) b (br_tap (view (plat t)))"
    proof (rule less.hyps)
      show "length (pending (world ?u)) < length (pending (world s))" using recv(2) n(2) False by simp
      show "length (filter (\<lambda>r. r = Getinfo) rs2) \<le> 500" using less.prems(7) split(1) by simp
      show "xc_buf (c\<lparr>xc_buf := part @ bs\<rparr>) @ pending (world ?u) = stream rs2" using split(4) recv(2) n(2) by simp
      show "length (xc_buf (c\<lparr>xc_buf := part @ bs\<rparr>)) \<le> MAX_PACKET_LEN" using recv(3) part(2) by simp
    qed (use less.prems ok2 in simp_all)
    then obtain t b where t: "read_more P N (c\<lparr>xc_buf := part @ bs\<rparr>) ?u = Some (Inr (), t)" "sent (world t) = sent (world ?u) @ b"
      "served tap rs2 (br_tap (view (plat ?u))) b (br_tap (view (plat t)))" by blast
    then show ?thesis
      using step False n(3) recv(5) served_append [OF a(3), of rs2 b "br_tap (view (plat t))"] split(1)
      by (intro exI [of _ t] exI [of _ "b1 @ b"]) simp
  qed
qed


text \<open>
  C10. A connection of the virtual JTAG server serves its client: for any well formed requests
  with at most 500 getinfo, in whatever pieces their bytes arrive, the call returns at the end of
  the stream, and the bytes sent are the replies in order: the version, the period, and for each
  shift the TDO bits of the port, which ends in the state after all shifts.
\<close>

theorem xvc_session_served:
  fixes s :: "('h, 'w, 'z) xvc_st_scheme"
  assumes "jtag_bridge P base view tap" and "region_mapped h base 0x14 (bars s)"
    and "stream_net N fd pending sent" and "pending (world s) = stream rs"
    and "\<forall>r \<in> set rs. request_ok r" and "length (filter (\<lambda>r. r = Getinfo) rs) \<le> 500"
    and "reply_max s \<in> {0, 16384}"
  shows "\<exists>t b. read_packet P N (fresh_client fd h) s = Some (Inr (), t) \<and> sent (world t) = sent (world s) @ b \<and>
    served tap rs (br_tap (view (plat s))) b (br_tap (view (plat t)))"
proof -
  have grow: "grow_reply 32 10000 1 = 16384" by code_simp
  have same: "s\<lparr>reply_max := 16384\<rparr> = s" if "reply_max s = 16384"
    using that by (cases s) simp
  have "read_packet P N (fresh_client fd h) s = read_more P N (fresh_client fd h) (s\<lparr>reply_max := 16384\<rparr>)"
    using assms(7) by (auto simp: read_packet_def reply_buf_size_def run_simps modify_apply grow same)
  then show ?thesis
    using read_more_served [OF assms(1,3), of "fresh_client fd h" "s\<lparr>reply_max := 16384\<rparr>" rs] assms
    by (simp add: fresh_client_def)
qed

text \<open>A peer whose bytes arrive seven at a time.\<close>

definition slow_net :: "(u8 list \<times> u8 list) net_ops" where
  "slow_net = \<lparr>n_getaddrinfo = (\<lambda>port w. (None, w)), n_socket = (\<lambda>a w. (3, w)), n_reuseaddr = (\<lambda>fd w. (0, w)),
     n_bind = (\<lambda>fd a w. (0, w)), n_listen = (\<lambda>fd w. (0, w)), n_accept = (\<lambda>fd w. (-1, w)), n_nodelay = (\<lambda>fd w. (0, w)),
     n_recv = (\<lambda>fd n w. (Some (take (min n 7) (fst w)), drop (min n 7) (fst w), snd w)),
     n_send = (\<lambda>fd bs w. (int (length bs), fst w, snd w @ bs)), n_close = (\<lambda>fd w. (0, w))\<rparr>"

definition demo_requests :: "xvc_request list" where
  "demo_requests = [Getinfo, Settck 100, Shift 12 [0, 0] [0x5A, 0x0F], Getinfo]"

definition xvc_demo :: "(bool bridge, u8 list \<times> u8 list) xvc_st" where
  "xvc_demo = \<lparr>bars = bars bridge_demo, plat = plat bridge_demo, reply_buf = zero_bytes, reply_max = 0, reply_len = 0,
     world = (stream demo_requests, [])\<rparr>"

theorem xvc_session_served_witness:
  "\<exists>t. read_packet bridge_platform slow_net (fresh_client 5 0) xvc_demo = Some (Inr (), t) \<and>
    served late_tap demo_requests True (snd (world t)) (br_tap (plat t))"
proof -
  have net: "stream_net slow_net 5 fst snd" by (auto simp: stream_net_def slow_net_def)
  have mapped: "region_mapped 0 0x100000 0x14 (bars xvc_demo)"
    by (auto simp: region_mapped_def xvc_demo_def bridge_demo_def mappings_ok_def)
  show ?thesis
    using xvc_session_served [OF bridge_platform_is_bridge mapped net, of demo_requests]
    by (auto simp: demo_requests_def xvc_demo_def bridge_demo_def)
qed

end
