(* ===== verification/Dma_Utils.thy ===== *)
theory Dma_Utils
  imports Returns Pci_Sysfs
begin

text \<open>
  \<open>sdk/userspace/fpga_libs/fpga_dma/fpga_dma_utils.c\<close>: the device files of a DMA driver, and the transfers
  through them. The calls of the kernel that only this file makes are a parameter, beside the platform.
  \<open>None\<close> stands for a loop without end and for the use of an uninitialised pointer.
\<close>

section \<open>The driver\<close>

datatype fpga_dma_driver = FPGA_DMA_EDMA | FPGA_DMA_XDMA

text \<open>
  \<open>realpath\<close>; \<open>open\<close>, whose result is negative when it fails; \<open>pread\<close> with a size and an address, whose result
  is an error number or the bytes; \<open>pwrite\<close>, whose result is an error number or a count.
\<close>

record 'h xdma_os =
  x_realpath :: "'h \<Rightarrow> string \<Rightarrow> string option"
  x_open :: "'h \<Rightarrow> string \<Rightarrow> bool \<Rightarrow> int \<times> 'h"
  x_pread :: "'h \<Rightarrow> int \<Rightarrow> u64 \<Rightarrow> u64 \<Rightarrow> (int + u8 list) \<times> 'h"
  x_pwrite :: "'h \<Rightarrow> int \<Rightarrow> u8 list \<Rightarrow> u64 \<Rightarrow> (int + nat) \<times> 'h"
  x_errno :: "'h \<Rightarrow> int"

record dma_opts_s =
  drv_name :: string
  drv_write_name :: string
  drv_read_name :: string
  n_channels :: nat
  get_dev_number_f :: "string \<Rightarrow> int option"

text \<open>\<open>sscanf(device_name, "xdma%d_control", &num) == 1\<close>: what follows the number does not matter.\<close>

definition fpga_dma_get_xdma_dev_number :: "string \<Rightarrow> int option" where
  "fpga_dma_get_xdma_dev_number device_name =
     (if take 4 device_name = ''xdma''
      then map_option (\<lambda>(num, _). sint (word_of_int (clamp_long num) :: u32))
        (scan_int 10 (length device_name) (drop 4 device_name))
      else None)"

definition xdma_opts :: dma_opts_s where
  "xdma_opts = \<lparr>drv_name = ''xdma'', drv_write_name = ''h2c'', drv_read_name = ''c2h'', n_channels = 4,
     get_dev_number_f = fpga_dma_get_xdma_dev_number\<rparr>"

definition fpga_dma_get_dma_opts :: "fpga_dma_driver \<Rightarrow> dma_opts_s option" where
  "fpga_dma_get_dma_opts which_driver = (if which_driver = FPGA_DMA_XDMA then Some xdma_opts else None)"

section \<open>The number of the device\<close>

text \<open>\<open>basename\<close> of an absolute path without a slash at its end.\<close>

definition basename :: "string \<Rightarrow> string" where
  "basename path = rev (takeWhile (\<lambda>c. c \<noteq> CHR ''/'') (rev path))"

text \<open>The entries of \<open>/sys/class\<close>, until one leads to the function; \<open>-1\<close> at the end of the directory.\<close>

fun find_dma_device :: "'h xdma_os \<Rightarrow> dma_opts_s \<Rightarrow> string \<Rightarrow> string \<Rightarrow> 'h \<Rightarrow> string list \<Rightarrow> int" where
  "find_dma_device X dma_opts path dbdf h [] = - 1"
| "find_dma_device X dma_opts path dbdf h (d_name # entries) =
     (case get_dev_number_f dma_opts d_name of
        None \<Rightarrow> find_dma_device X dma_opts path dbdf h entries
      | Some device_num \<Rightarrow>
          (case x_realpath X h (path @ ''/'' @ d_name @ ''/device'') of
             None \<Rightarrow> find_dma_device X dma_opts path dbdf h entries
           | Some real_path \<Rightarrow>
               if take 12 (basename real_path) = take 12 dbdf then device_num
               else find_dma_device X dma_opts path dbdf h entries))"

text \<open>
  The exit \<open>err\<close> before \<open>dirp\<close> has its value: a value that happens to be zero is harmless, any other is passed
  to \<open>closedir\<close>.
\<close>

definition leave_without_dir :: "'h platform \<Rightarrow> int \<Rightarrow> (('h, 'z) pci_st_scheme, 'a) run" where
  "leave_without_dir P rc = (\<lambda>s. if c_indet P (plat s) = 0 then Some (Inl rc, s) else None)"

definition fpga_pci_get_dma_device_num ::
  "'h platform \<Rightarrow> 'h xdma_os \<Rightarrow> fpga_dma_driver \<Rightarrow> int \<Rightarrow> (('h, 'z) pci_st_scheme, int) run" where
  "fpga_pci_get_dma_device_num P X which_driver slot_id =
     (case fpga_dma_get_dma_opts which_driver of
        None \<Rightarrow> leave_without_dir P (- EINVAL)
      | Some dma_opts \<Rightarrow>
          let path = ''/sys/class/'' @ drv_name dma_opts in
          bindR (returns (attempt (fpga_pci_get_resource_map P slot_id (int FPGA_APP_PF)))) (\<lambda>r.
          case r of
            Inl rc \<Rightarrow> leave_without_dir P rc
          | Inr resource \<Rightarrow> returns (
              bindE (gets (\<lambda>s. k_readdir P (plat s) path)) (\<lambda>dirp.
              case dirp of
                None \<Rightarrow> fail FPGA_ERR_SOFTWARE_PROBLEM
              | Some entries \<Rightarrow>
                  bindE (gets (\<lambda>s. find_dma_device X dma_opts path (map_dir_name resource) (plat s) entries)) (\<lambda>device_num.
                  if device_num = - 1 then fail FPGA_ERR_PCI_MISSING else ok device_num)))))"

section \<open>Opening a queue\<close>

definition fpga_dma_device_id ::
  "'h platform \<Rightarrow> 'h xdma_os \<Rightarrow> fpga_dma_driver \<Rightarrow> int \<Rightarrow> int \<Rightarrow> bool \<Rightarrow> (('h, 'z) pci_st_scheme, string) run" where
  "fpga_dma_device_id P X which_driver slot_id channel is_read =
     (case fpga_dma_get_dma_opts which_driver of
        None \<Rightarrow> returns (fail (- EINVAL))
      | Some dma_opts \<Rightarrow>
          if int (n_channels dma_opts) \<le> channel \<or> channel < 0 then returns (fail (- EINVAL))
          else
            bindR (fpga_pci_get_dma_device_num P X which_driver slot_id) (\<lambda>device_num.
            returns (ok (''/dev/'' @ drv_name dma_opts @ fmt_d device_num @ ''_'' @
              (if is_read then drv_read_name dma_opts else drv_write_name dma_opts) @ ''_'' @ fmt_d channel))))"

definition fpga_dma_open_queue ::
  "'h platform \<Rightarrow> 'h xdma_os \<Rightarrow> fpga_dma_driver \<Rightarrow> int \<Rightarrow> int \<Rightarrow> bool \<Rightarrow> (('h, 'z) pci_st_scheme, int) run" where
  "fpga_dma_open_queue P X which_driver slot_id channel is_read = (\<lambda>s.
     case fpga_dma_device_id P X which_driver slot_id channel is_read s of
       None \<Rightarrow> None
     | Some (Inl rc, t) \<Rightarrow> Some (Inl (- EINVAL), t)
     | Some (Inr device_file, t) \<Rightarrow>
         returns (bindE (on_plat (\<lambda>h. x_open X h device_file is_read)) (\<lambda>fd.
           if fd < 0 then fail fd else ok fd)) t)"

section \<open>Transfers\<close>

text \<open>
  The loops. A count is converted to \<open>int\<close>: one of \<open>2 ^ 31\<close> or more, which the kernel never gives, would look
  like a failure.
\<close>

partial_function (option) read_burst_loop ::
  "'h xdma_os \<Rightarrow> int \<Rightarrow> u64 \<Rightarrow> u64 \<Rightarrow> u64 \<Rightarrow> bytes \<Rightarrow> ('h, 'z) pci_st_scheme
     \<Rightarrow> ((int + bytes) \<times> ('h, 'z) pci_st_scheme) option" where
  "read_burst_loop X fd xfer_sz address read_offset buffer s =
     (if read_offset < xfer_sz then
        bindR (returns (on_plat (\<lambda>h. x_pread X h fd (xfer_sz - read_offset) (address + read_offset)))) (\<lambda>r.
          case r of
            Inl e \<Rightarrow> returns (fail (- e))
          | Inr bs \<Rightarrow>
              if sint (of_nat (length bs) :: u32) < 0 then returns (bindE (gets (\<lambda>s. x_errno X (plat s))) (\<lambda>e. fail (- e)))
              else read_burst_loop X fd xfer_sz address (read_offset + word_of_int (sint (of_nat (length bs) :: u32)))
                (put_list buffer (unat read_offset) bs)) s
      else Some (Inr buffer, s))"

definition fpga_dma_burst_read ::
  "'h xdma_os \<Rightarrow> int \<Rightarrow> bytes \<Rightarrow> u64 \<Rightarrow> u64 \<Rightarrow> (('h, 'z) pci_st_scheme, bytes) run" where
  "fpga_dma_burst_read X fd buffer xfer_sz address =
     (if fd < 0 then returns (fail (- EINVAL)) else read_burst_loop X fd xfer_sz address 0 buffer)"

partial_function (option) write_burst_loop ::
  "'h xdma_os \<Rightarrow> int \<Rightarrow> u64 \<Rightarrow> u64 \<Rightarrow> u64 \<Rightarrow> bytes \<Rightarrow> ('h, 'z) pci_st_scheme
     \<Rightarrow> ((int + unit) \<times> ('h, 'z) pci_st_scheme) option" where
  "write_burst_loop X fd xfer_sz address write_offset buffer s =
     (if write_offset < xfer_sz then
        bindR (returns (on_plat (\<lambda>h. x_pwrite X h fd
          (get_list buffer (unat write_offset) (unat (xfer_sz - write_offset))) (address + write_offset)))) (\<lambda>r.
          case r of
            Inl e \<Rightarrow> returns (fail (- e))
          | Inr n \<Rightarrow>
              if sint (of_nat n :: u32) < 0 then returns (bindE (gets (\<lambda>s. x_errno X (plat s))) (\<lambda>e. fail (- e)))
              else write_burst_loop X fd xfer_sz address (write_offset + word_of_int (sint (of_nat n :: u32))) buffer) s
      else Some (Inr (), s))"

definition fpga_dma_burst_write ::
  "'h xdma_os \<Rightarrow> int \<Rightarrow> bytes \<Rightarrow> u64 \<Rightarrow> u64 \<Rightarrow> (('h, 'z) pci_st_scheme, unit) run" where
  "fpga_dma_burst_write X fd buffer xfer_sz address =
     (if fd < 0 then returns (fail (- EINVAL)) else write_burst_loop X fd xfer_sz address 0 buffer)"

section \<open>The device found\<close>

text \<open>The number is that of the first entry that leads to the application function of the slot.\<close>

lemma find_dma_device_found:
  assumes "find_dma_device X opts path dbdf h entries = n" "n \<noteq> - 1"
  shows "\<exists>before d_name after real_path. entries = before @ d_name # after \<and> get_dev_number_f opts d_name = Some n \<and>
    x_realpath X h (path @ ''/'' @ d_name @ ''/device'') = Some real_path \<and> take 12 (basename real_path) = take 12 dbdf"
  using assms
proof (induction entries)
  case (Cons e entries)
  consider (here) r where "get_dev_number_f opts e = Some n" "x_realpath X h (path @ ''/'' @ e @ ''/device'') = Some r"
      "take 12 (basename r) = take 12 dbdf"
    | (later) "find_dma_device X opts path dbdf h entries = n"
    using Cons.prems(1) by (auto split: option.splits if_splits)
  then show ?case
  proof cases
    case here
    then show ?thesis by (intro exI [of _ "[]"] exI [of _ e] exI [of _ entries] exI [of _ r]) simp
  next
    case later
    then obtain b d a r where "entries = b @ d # a" "get_dev_number_f opts d = Some n"
      "x_realpath X h (path @ ''/'' @ d @ ''/device'') = Some r" "take 12 (basename r) = take 12 dbdf"
      using Cons.IH Cons.prems(2) by blast
    then show ?thesis by (intro exI [of _ "e # b"] exI [of _ d] exI [of _ a] exI [of _ r]) simp
  qed
qed simp

section \<open>Transfers to a memory\<close>

text \<open>
  A device with a memory: a transfer moves at least one byte and at most \<open>0x7FFFF000\<close>, from or to the bytes
  from its address on.
\<close>

definition put_mem :: "u64 \<Rightarrow> u8 list \<Rightarrow> (u64 \<Rightarrow> u8) \<Rightarrow> u64 \<Rightarrow> u8" where
  "put_mem a bs m = (\<lambda>x. if unat (x - a) < length bs then bs ! unat (x - a) else m x)"

definition dma_memory :: "'h xdma_os \<Rightarrow> ('h \<Rightarrow> u64 \<Rightarrow> u8) \<Rightarrow> bool" where
  "dma_memory X mem \<longleftrightarrow>
     (\<forall>h fd n a. 0 \<le> fd \<and> 0 < n \<longrightarrow> (\<exists>k h'. 0 < k \<and> k \<le> unat n \<and> k \<le> 0x7FFFF000 \<and>
        x_pread X h fd n a = (Inr (map (\<lambda>i. mem h (a + of_nat i)) [0..<k]), h') \<and> mem h' = mem h)) \<and>
     (\<forall>h fd bs a. 0 \<le> fd \<and> bs \<noteq> [] \<longrightarrow> (\<exists>k h'. 0 < k \<and> k \<le> length bs \<and> k \<le> 0x7FFFF000 \<and>
        x_pwrite X h fd bs a = (Inr k, h') \<and> mem h' = put_mem a (take k bs) (mem h)))"

lemma transfer_count:
  assumes "k \<le> 0x7FFFF000"
  shows "sint (of_nat k :: u32) = int k"
  using assms by (simp add: signed_of_nat signed_take_bit_int_eq_self)

lemma put_list_append: "put_list b i (xs @ ys) = put_list (put_list b i xs) (i + length xs) ys"
proof (induction xs arbitrary: b i)
  case (Cons x xs)
  show ?case by (simp only: append_Cons put_list.simps list.size Cons.IH add_Suc_right add_0_right add_Suc)
qed simp

lemma offset_step:
  fixes off n :: u64
  assumes "off < n" "k \<le> unat (n - off)"
  shows "unat (off + of_nat k) = unat off + k" "off + of_nat k \<le> n" "0 < k \<Longrightarrow> unat (n - (off + of_nat k)) < unat (n - off)"
proof -
  have n: "unat (n - off) = unat n - unat off" using assms(1) by (intro unat_sub) simp
  have lt: "unat off < unat n" "unat n < 2 ^ 64"
    using assms(1) unsigned_less [of n] by (simp_all add: word_less_nat_alt)
  then have k: "unat off + k < 2 ^ 64" using assms(2) n by simp
  then have kk: "unat (of_nat k :: u64) = k" by (simp add: unsigned_of_nat take_bit_nat_eq_self)
  then show u: "unat (off + of_nat k) = unat off + k" using k by (simp add: unat_word_ariths)
  then show le: "off + of_nat k \<le> n" using assms(2) n lt by (simp add: word_le_nat_alt)
  show "unat (n - (off + of_nat k)) < unat (n - off)" if "0 < k"
    using unat_sub [OF le] u n lt that assms(2) by simp
qed

lemma read_burst_loop_gets:
  assumes D: "dma_memory X mem" and fd: "0 \<le> fd" and off: "off \<le> n"
  shows "\<exists>p. read_burst_loop X fd n a off buf s =
      Some (Inr (put_list buf (unat off) (map (\<lambda>i. mem (plat s) (a + of_nat i)) [unat off..<unat n])), s\<lparr>plat := p\<rparr>) \<and>
    mem p = mem (plat s)"
  using off
proof (induction "unat (n - off)" arbitrary: off buf s rule: less_induct)
  case less
  show ?case
  proof (cases "off < n")
    case False
    then have "off = n" using less.prems by simp
    then show ?thesis by (subst read_burst_loop.simps) (auto intro: exI [of _ "plat s"])
  next
    case True
    then have "0 < n - off" by (simp add: word_gt_0)
    then obtain k p where k: "0 < k" "k \<le> unat (n - off)" "k \<le> 0x7FFFF000"
      and p: "x_pread X (plat s) fd (n - off) (a + off) = (Inr (map (\<lambda>i. mem (plat s) (a + off + of_nat i)) [0..<k]), p)"
        "mem p = mem (plat s)"
      using D fd unfolding dma_memory_def by blast
    let ?bs = "map (\<lambda>i. mem (plat s) (a + off + of_nat i)) [0..<k]"
    note st = offset_step [OF True k(2)]
    obtain q where q: "read_burst_loop X fd n a (off + of_nat k) (put_list buf (unat off) ?bs) (s\<lparr>plat := p\<rparr>) =
        Some (Inr (put_list (put_list buf (unat off) ?bs) (unat off + k) (map (\<lambda>i. mem p (a + of_nat i)) [unat off + k..<unat n])),
          s\<lparr>plat := p, plat := q\<rparr>)" "mem q = mem p"
      using less.hyps [OF st(3) [OF k(1)] st(2), of "put_list buf (unat off) ?bs" "s\<lparr>plat := p\<rparr>"] st(1) by auto
    have "[unat off..<unat n] = [unat off..<unat off + k] @ [unat off + k..<unat n]"
      using st(1,2) upt_add_eq_append [of "unat off" "unat off + k" "unat n - (unat off + k)"] by (simp add: word_le_nat_alt)
    moreover have "map (\<lambda>i. mem (plat s) (a + of_nat i)) [unat off..<unat off + k] = ?bs"
      by (rule nth_equalityI) (simp_all add: add.assoc)
    ultimately have "put_list (put_list buf (unat off) ?bs) (unat off + k) (map (\<lambda>i. mem p (a + of_nat i)) [unat off + k..<unat n]) =
        put_list buf (unat off) (map (\<lambda>i. mem (plat s) (a + of_nat i)) [unat off..<unat n])"
      by (simp add: put_list_append p(2))
    moreover have "read_burst_loop X fd n a off buf s =
        read_burst_loop X fd n a (off + of_nat k) (put_list buf (unat off) ?bs) (s\<lparr>plat := p\<rparr>)"
      using True p(1) k(3) by (subst read_burst_loop.simps) (simp add: run_simps on_plat_apply transfer_count)
    ultimately show ?thesis using q p(2) by (intro exI [of _ q]) simp
  qed
qed

text \<open>The bytes of a memory in a window.\<close>

lemma in_window:
  fixes x off :: u64
  assumes "unat off + k \<le> 2 ^ 64"
  shows "unat (x - off) < k \<longleftrightarrow> unat off \<le> unat x \<and> unat x < unat off + k"
    "unat off \<le> unat x \<Longrightarrow> unat (x - off) = unat x - unat off"
  using assms unsigned_less [of x] by (auto simp: unat_sub_if')

lemma write_burst_loop_puts:
  assumes D: "dma_memory X mem" and fd: "0 \<le> fd" and off: "off \<le> n"
  shows "\<exists>p. write_burst_loop X fd n a off buf s = Some (Inr (), s\<lparr>plat := p\<rparr>) \<and>
    mem p = (\<lambda>x. if unat off \<le> unat (x - a) \<and> unat (x - a) < unat n then buf (unat (x - a)) else mem (plat s) x)"
  using off
proof (induction "unat (n - off)" arbitrary: off s rule: less_induct)
  case less
  show ?case
  proof (cases "off < n")
    case False
    then have "off = n" using less.prems by simp
    then show ?thesis by (subst write_burst_loop.simps) (intro exI [of _ "plat s"], auto simp: fun_eq_iff)
  next
    case True
    let ?bs = "get_list buf (unat off) (unat (n - off))"
    have l: "length ?bs = unat (n - off)" by (simp add: get_list_def)
    have "n - off \<noteq> 0" using True by auto
    then have "?bs \<noteq> []" using l by (metis list.size(3) unat_eq_zero)
    then obtain k p where "0 < k" "k \<le> length ?bs" "k \<le> 0x7FFFF000"
      and p: "x_pwrite X (plat s) fd ?bs (a + off) = (Inr k, p)" "mem p = put_mem (a + off) (take k ?bs) (mem (plat s))"
      using D fd unfolding dma_memory_def by blast
    then have k: "0 < k" "k \<le> unat (n - off)" "k \<le> 0x7FFFF000" using l by simp_all
    note st = offset_step [OF True k(2)]
    obtain q where q: "write_burst_loop X fd n a (off + of_nat k) buf (s\<lparr>plat := p\<rparr>) = Some (Inr (), s\<lparr>plat := p, plat := q\<rparr>)"
      and "mem q = (\<lambda>x. if unat (off + of_nat k) \<le> unat (x - a) \<and> unat (x - a) < unat n then buf (unat (x - a))
        else mem (plat (s\<lparr>plat := p\<rparr>)) x)"
      using less.hyps [OF st(3) [OF k(1)] st(2), of "s\<lparr>plat := p\<rparr>"] by blast
    then have mq: "mem q = (\<lambda>x. if unat off + k \<le> unat (x - a) \<and> unat (x - a) < unat n then buf (unat (x - a)) else mem p x)"
      unfolding st(1) by (simp cong: if_cong)
    have kn: "unat off + k \<le> unat n" using st(1,2) by (simp add: word_le_nat_alt)
    moreover have "unat n < 2 ^ 64" by (rule order_less_le_trans [OF unsigned_less]) simp
    ultimately have w: "unat off + k \<le> 2 ^ 64" by simp
    have step: "mem p x = (if unat off \<le> unat (x - a) \<and> unat (x - a) < unat off + k then buf (unat (x - a)) else mem (plat s) x)" for x
    proof -
      have e: "x - (a + off) = x - a - off" by simp
      show ?thesis
        unfolding p(2) put_mem_def e using in_window [OF w, of "x - a"] l k(2) by (auto simp: get_list_def)
    qed
    have "write_burst_loop X fd n a off buf s = write_burst_loop X fd n a (off + of_nat k) buf (s\<lparr>plat := p\<rparr>)"
      using True p(1) k(3) by (subst write_burst_loop.simps) (simp add: run_simps on_plat_apply transfer_count)
    then show ?thesis using q kn by (intro exI [of _ q]) (auto simp: fun_eq_iff mq step)
  qed
qed

text \<open>What is written is read back, however the kernel cuts the transfers; the address may run over the end of the space.\<close>


text \<open>A card whose driver moves at most three bytes at a time.\<close>

definition slow_dma :: "(u64 \<Rightarrow> u8) xdma_os" where
  "slow_dma = \<lparr>x_realpath = (\<lambda>h path. None), x_open = (\<lambda>h path is_read. (3, h)),
     x_pread = (\<lambda>h fd n a. (Inr (map (\<lambda>i. h (a + of_nat i)) [0..<min 3 (unat n)]), h)),
     x_pwrite = (\<lambda>h fd bs a. (Inr (min 3 (length bs)), put_mem a (take 3 bs) h)), x_errno = (\<lambda>h. 5)\<rparr>"

lemma slow_dma_memory: "dma_memory slow_dma (\<lambda>h. h)"
proof -
  have "\<exists>k h'. 0 < k \<and> k \<le> unat n \<and> k \<le> 0x7FFFF000 \<and>
      x_pread slow_dma h fd n a = (Inr (map (\<lambda>i. h (a + of_nat i)) [0..<k]), h') \<and> h' = h"
    if "0 < n" for h fd n a
  proof (intro exI [of _ "min 3 (unat n)"] exI [of _ h] conjI)
    show "0 < min 3 (unat n)" using that by (simp add: word_gt_0 unat_gt_0)
  qed (simp_all add: slow_dma_def)
  moreover have "\<exists>k h'. 0 < k \<and> k \<le> length bs \<and> k \<le> 0x7FFFF000 \<and>
      x_pwrite slow_dma h fd bs a = (Inr k, h') \<and> h' = put_mem a (take k bs) h"
    if "bs \<noteq> []" for h fd a and bs :: "u8 list"
  proof (intro exI [of _ "min 3 (length bs)"] exI [of _ "put_mem a (take 3 bs) h"] conjI)
    show "0 < min 3 (length bs)" using that by simp
    show "put_mem a (take 3 bs) h = put_mem a (take (min 3 (length bs)) bs) h" by (simp add: min_def)
  qed (simp_all add: slow_dma_def)
  ultimately show ?thesis by (simp add: dma_memory_def)
qed


end
