(* ===== verification/Spec2Isabelle.thy ===== *)
theory Spec2Isabelle
  imports Fpga_Mgmt Clkgen_Device Sde_Data Sde_Credits Fd_Io Cli_Session Xvc_Session Dma_Utils
begin

text \<open>
  The C code of the FPGA software development kit under \<open>sdk/userspace\<close>, and the library of the streaming
  data engine (SDE) example under \<open>hdk/cl/examples/cl_sde/software/src/sde_lib\<close>.

  \<^bold>\<open>The program and its parts.\<close> A card has several slots; each shows a management function and an application
  function on the PCI bus. The \<open>fpga-*\<close> tools (\<open>fpga_mgmt_tools/src\<close>) parse a command line and call the management
  library (\<open>fpga_libs/fpga_mgmt\<close>). That library sends AFI commands over a mailbox of the management function and polls
  the answers. The mailbox is reached through the table of mapped BARs (\<open>fpga_libs/fpga_pci/fpga_pci.c\<close>), whose entries are
  found by scanning sysfs (\<open>fpga_pci_sysfs.c\<close>). The clock library (\<open>fpga_libs/fpga_clkgen\<close>), the SDE library and the virtual
  JTAG server of the tools use the same table. The DMA library (\<open>fpga_libs/fpga_dma\<close>) maps memory for the card and
  transfers data through the files of a driver. Everything logs through \<open>utils/log.c\<close>.

  \<^bold>\<open>The shape of a function.\<close> A C function \<open>int f(.., T *out)\<close> is a state transformer (\<open>prog\<close>, theory \<open>Prelude\<close>) that
  gives \<open>Inr out\<close>, or \<open>Inl\<close> the error code, and the new state; one whose out parameter is visible after a failure returns
  the code beside it. A function that may not come back is a \<open>run\<close> (theory \<open>Returns\<close>), for which \<open>None\<close> means an endless
  loop, a division by zero, a failed assertion or an access outside an object. Integers are words of their C width. The
  kernel, the C library's randomness and the device memory are the record \<open>platform\<close> of functions over an abstract state
  \<open>'h\<close> (theory \<open>Platform\<close>); an uninitialised variable is the value \<open>c_indet\<close>. No theorem restricts the platform unless it
  says so, so a device may do anything on a read, a write or a sleep.

  \<^bold>\<open>State.\<close> \<open>pci_st\<close> holds the globals of \<open>fpga_pci.c\<close> and the platform state; \<open>mbox_st\<close> adds the globals of
  \<open>fpga_hal_mbox.c\<close>, \<open>mgmt_st\<close> those of \<open>fpga_mgmt.c\<close> and \<open>fpga_mgmt_cmd.c\<close>. \<open>clk_st\<close>, \<open>sde_st\<close>, \<open>xvc_st\<close> and \<open>log_st\<close> extend
  \<open>pci_st\<close> for the clock library, the SDE library, the JTAG server and the log. The state of a tool, \<open>tool_st\<close>, is its command and its
  standard output (\<open>cli_io\<close>), the state of the management library, the clock groups, the log and the server; \<open>in_lib\<close>,
  \<open>in_clk\<close>, \<open>in_log\<close> and \<open>in_xvc\<close> run a call of a library inside it.

  \<^bold>\<open>Theories and sources.\<close>
  \<^item> \<open>Fpga_Common\<close>: \<open>include/hal/fpga_common.h\<close>, \<open>include/fpga_mgmt.h\<close>. \<open>Platform\<close>: \<open>include/utils/lcd.h\<close>, \<open>write_loop\<close>, formatted
    output and \<open>sscanf\<close> of addresses. \<open>Demo_Platform\<close>: a concrete platform for witnesses.
  \<^item> \<open>Pci_Sysfs\<close>: \<open>fpga_pci_sysfs.c\<close>, with properties in \<open>Pci_Slots\<close>. \<open>Pci_Bars\<close>: \<open>fpga_pci.c\<close>.
  \<^item> \<open>Hal_Mbox\<close>: \<open>fpga_hal_mbox.c\<close>. \<open>Afi_Cmd\<close>: \<open>fpga_mgmt_cmd.c\<close>, \<open>afi_cmd_api.h\<close>. \<open>Fpga_Mgmt\<close>: \<open>fpga_mgmt.c\<close>.
  \<^item> \<open>Clkgen_Mmcm\<close>, \<open>Clkgen\<close>: the two files of \<open>fpga_clkgen\<close>, over \<open>C_Double\<close>, C's double arithmetic on rationals; properties in
    \<open>Clkgen_Device\<close>, with the refinement rules of \<open>Refines\<close>.
  \<^item> \<open>Dma_Mem\<close>, \<open>Dma_Utils\<close>: the two files of \<open>fpga_dma\<close>.
  \<^item> \<open>Sde_Hw\<close>, \<open>Sde_Mem\<close>, \<open>Sde_Dma\<close>, \<open>Sde_Mgmt\<close>: \<open>sde_hw_ctrl.c\<close>, \<open>sde_mem.c\<close>, \<open>sde_dma_buffer.c\<close>, \<open>sde_mgmt.c\<close>; properties in
    \<open>Sde_State\<close>, \<open>Sde_Ring\<close>, \<open>Sde_Desc\<close>, \<open>Sde_Data\<close>, \<open>Sde_Credits\<close>.
  \<^item> \<open>Str_Conv\<close>, \<open>Fd_Io\<close>: the conversions and loops of \<open>utils/io.c\<close>. \<open>Log_Messages\<close>: \<open>utils/log.c\<close>, \<open>utils/logger-kmsg.c\<close>.
  \<^item> \<open>Getopt\<close>: what the tools use of \<open>getopt_long\<close>. \<open>Cli_Usage\<close>, \<open>Cli_Parse\<close>: \<open>fpga_local_cmd.h\<close>, \<open>fpga_local_cmd_parse.c\<close>, with properties in
    \<open>Cli_Lines\<close>. \<open>Cli_Show\<close>, \<open>Cli_Main\<close>: \<open>fpga_local_cmd.c\<close>, with properties in \<open>Cli_Session\<close>.
  \<^item> \<open>Vjtag\<close>: \<open>virtual_jtag_pcie.c\<close>, with properties in \<open>Vjtag_Device\<close>. \<open>Xvc_Server\<close>: \<open>virtual_jtag_server.c\<close>, with properties in \<open>Xvc_Session\<close>.

  \<^bold>\<open>Interfaces.\<close> Contracts are locales, interpreted on the model's own definitions where these are: \<open>bounded_poll\<close> (a poll with a
  number of tries: the loops of the mailbox and of the clock library), \<open>key_comparator\<close> (the comparison of slots, which sorts by
  \<open>slot_key\<close>), \<open>handle_table\<close> (the allocation of BAR handles), \<open>field_pair\<close> (getter and setter of a header field).

  \<^bold>\<open>What the lemmas show.\<close>
  \<^item> Slots: the numbering follows the PCI addresses and not the order of the directory, and a spec is that of the k-th mailbox device.
  \<^item> BARs: the table stays well formed under all calls, an attach and a detach cancel, and the accesses refine loads and stores within
    the mapping.
  \<^item> Mailbox and commands: messages are transferred word for word, a command is answered or fails with bounded waiting, an accepted
    answer has the form the header check describes, and on a shell that answers, loads and clears return.
  \<^item> Management: the handles of the slots are in use and distinct; a synchronous load that reports success has seen the image.
  \<^item> Clocks: on a device that keeps its registers, programming a recipe and reading the clocks back gives the computed frequencies, with
    a bound on the rounding error; the failures of the lock and of low frequencies have the stated effects.
  \<^item> SDE: the records stay well formed, posting refines a queue of descriptors, data is read back as written, and transfers stay within
    the credits.
  \<^item> Tools: a command line is accepted with a complete command or answered and refused with nothing done; a load in any spelling
    of its options runs from the words of the command line to the printed line of the image.
  \<^item> Virtual JTAG: shifting by words of 32 bits refines a port that takes single bits, and a connection serves its requests in order
    however the network cuts them.
  \<^item> Input, output, log, DMA: the loops transfer everything or end as stated, lines reach the loggers, and transfers through the DMA
    driver are read back as written.

  Theorems about devices assume a view of the hardware that the code relies on (a mailbox whose peer answers, clocks that lock, a
  debug bridge, memory that keeps its words), as a predicate on the platform that a concrete platform satisfies in the witness.

  \<^bold>\<open>Bounds.\<close> The loops of the source that count have the counts of the source: the retries of the mailbox and of the management
  library are state, the clock library and the bridge of the JTAG port look 100 times, the SDE library a million times. The
  recursion over them is structural or has a measure, so these calls always return. Only the growth of the reply buffer of the JTAG
  server has a bound of its own, 32 doublings, after which a 32-bit size has been exhausted; 14 are needed. Loops that
  may run forever are \<open>partial_function (option)\<close>, and that they return is proved where it holds.

  \<^bold>\<open>Not modelled.\<close> The NULL checks of pointers that are results here; locks, since one thread is modelled; the log messages inside the
  components (the log itself is modelled) and diagnostics on the standard error stream; failures of \<open>malloc\<close> in the tools; negative
  slots of the SDE library, for which the source is undefined; of \<open>sde_utility.c\<close> the arguments, printing and timing; the
  \<open>epoll\<close> wrappers and the limit of open files in \<open>utils/io.c\<close>, which are single system calls; the example programs and kernel
  modules, the simulation shims, the hardware designs and the scripts, which only call the libraries or are not C code of the kit.
\<close>

end
